(* ===== verification/Ecf_Prelude.thy ===== *)
theory Ecf_Prelude
  imports Main "HOL-Library.Sublist"
begin

text \<open>
  Vocabulary shared by every theory: bytes and character classes of the C locale
  (\<open>std::isspace\<close>, \<open>std::isdigit\<close>, \<open>std::toupper\<close>, ...), the string functions
  of the C++ standard library the sources call (\<open>substr\<close>, \<open>rfind(p, 0)\<close>,
  \<open>find\<close>, \<open>std::to_string\<close>), \<open>std::optional\<close> with \<open>value_or\<close>, and the
  generic list lemmas about them.  A \<open>std::string\<close> is a list of bytes, so
  \<open>length\<close> counts bytes exactly as \<open>std::string::size\<close> does.
\<close>

named_theorems ecf_chars \<open>facts about the C-locale character classes\<close>

subsection \<open>Character classes of the C locale\<close>

definition code :: "char \<Rightarrow> nat" where
  "code c = of_char c"

definition isspace :: "char \<Rightarrow> bool" where
  "isspace c \<longleftrightarrow> code c = 32 \<or> (9 \<le> code c \<and> code c \<le> 13)"

definition isdigit :: "char \<Rightarrow> bool" where
  "isdigit c \<longleftrightarrow> 48 \<le> code c \<and> code c \<le> 57"

definition isupper :: "char \<Rightarrow> bool" where
  "isupper c \<longleftrightarrow> 65 \<le> code c \<and> code c \<le> 90"

definition islower :: "char \<Rightarrow> bool" where
  "islower c \<longleftrightarrow> 97 \<le> code c \<and> code c \<le> 122"

definition isalpha :: "char \<Rightarrow> bool" where
  "isalpha c \<longleftrightarrow> isupper c \<or> islower c"

definition isalnum :: "char \<Rightarrow> bool" where
  "isalnum c \<longleftrightarrow> isalpha c \<or> isdigit c"

definition isxdigit :: "char \<Rightarrow> bool" where
  "isxdigit c \<longleftrightarrow> isdigit c \<or> (65 \<le> code c \<and> code c \<le> 70) \<or> (97 \<le> code c \<and> code c \<le> 102)"

definition toupper :: "char \<Rightarrow> char" where
  "toupper c = (if islower c then char_of (code c - 32) else c)"

definition tolower :: "char \<Rightarrow> char" where
  "tolower c = (if isupper c then char_of (code c + 32) else c)"

lemma code_char_of [simp]: "n < 256 \<Longrightarrow> code (char_of n) = n"
  by (simp add: code_def)

lemma code_less [simp]: "code c < 256"
  by (simp add: code_def)

lemma code_eq_iff: "code c = code d \<longleftrightarrow> c = d"
  by (simp add: code_def)

lemma isdigit_not_space [ecf_chars]: "isdigit c \<Longrightarrow> \<not> isspace c"
  by (auto simp: isdigit_def isspace_def)

lemma isdigit_not_alpha [ecf_chars]: "isdigit c \<Longrightarrow> \<not> isalpha c"
  by (auto simp: isdigit_def isalpha_def isupper_def islower_def)

lemma isalpha_not_space [ecf_chars]: "isalpha c \<Longrightarrow> \<not> isspace c"
  by (auto simp: isspace_def isalpha_def isupper_def islower_def)

lemma toupper_idem [simp]: "toupper (toupper c) = toupper c"
  by (auto simp: toupper_def islower_def)

lemma tolower_idem [simp]: "tolower (tolower c) = tolower c"
  by (auto simp: tolower_def isupper_def)

lemma isdigit_toupper [simp]: "isdigit (toupper c) = isdigit c"
  by (auto simp: isdigit_def toupper_def islower_def)

lemma isspace_toupper [simp]: "isspace (toupper c) = isspace c"
  by (auto simp: isspace_def toupper_def islower_def)

lemma toupper_digit [simp]: "isdigit c \<Longrightarrow> toupper c = c"
  by (auto simp: isdigit_def toupper_def islower_def)

subsection \<open>Strings\<close>

definition nl :: char where
  "nl = CHR 0x0A"

abbreviation upper :: "string \<Rightarrow> string" where
  "upper \<equiv> map toupper"

abbreviation lower :: "string \<Rightarrow> string" where
  "lower \<equiv> map tolower"

text \<open>\<open>s.rfind(p, 0) == 0\<close>: the string starts with \<open>p\<close>.\<close>

abbreviation starts_with :: "string \<Rightarrow> string \<Rightarrow> bool" where
  "starts_with p s \<equiv> prefix p s"

text \<open>\<open>s.find(p) != npos\<close>: \<open>p\<close> occurs somewhere in \<open>s\<close>.\<close>

fun contains :: "string \<Rightarrow> string \<Rightarrow> bool" where
  "contains p [] \<longleftrightarrow> p = []"
| "contains p (c # cs) \<longleftrightarrow> prefix p (c # cs) \<or> contains p cs"

text \<open>
  The two \<open>while\<close> loops that erase white space from the front and from the back of a
  string; the sources repeat them in every file, sometimes as a helper named
  \<open>trimCopy\<close> or \<open>trimWhitespace\<close>.
\<close>

definition ltrim :: "string \<Rightarrow> string" where
  "ltrim s = dropWhile isspace s"

definition rtrim :: "string \<Rightarrow> string" where
  "rtrim s = rev (dropWhile isspace (rev s))"

definition trim :: "string \<Rightarrow> string" where
  "trim s = rtrim (ltrim s)"

text \<open>\<open>std::to_string\<close> on integers, and the fields of \<open>std::setw(n) << std::setfill('0')\<close>.\<close>

definition digit_char :: "int \<Rightarrow> char" where
  "digit_char d = char_of (48 + nat d)"

function dec_nat :: "int \<Rightarrow> string" where
  "dec_nat n = (if n < 10 then [digit_char n] else dec_nat (n div 10) @ [digit_char (n mod 10)])"
  by pat_completeness auto
termination by (relation "measure nat") auto

declare dec_nat.simps [simp del]

definition dec_int :: "int \<Rightarrow> string" where
  "dec_int n = (if n < 0 then CHR ''-'' # dec_nat (- n) else dec_nat n)"

definition setw0 :: "nat \<Rightarrow> string \<Rightarrow> string" where
  "setw0 w s = replicate (w - length s) (CHR ''0'') @ s"

text \<open>Reading digits back: \<open>std::stoi\<close>/\<open>std::stoll\<close> on a string of digits.\<close>

definition digit_val :: "char \<Rightarrow> int" where
  "digit_val c = int (code c) - 48"

definition digits_val :: "string \<Rightarrow> int" where
  "digits_val s = foldl (\<lambda>n c. 10 * n + digit_val c) 0 s"

abbreviation all_digits :: "string \<Rightarrow> bool" where
  "all_digits \<equiv> list_all isdigit"

lemma list_all_filter [simp]: "list_all P (filter P xs)"
  by (simp add: list_all_iff)

text \<open>\<open>std::optional<T>::value_or\<close>.\<close>

definition value_or :: "'a option \<Rightarrow> 'a \<Rightarrow> 'a" where
  "value_or x d = (case x of None \<Rightarrow> d | Some v \<Rightarrow> v)"

lemma value_or_simps [simp]: "value_or None d = d" "value_or (Some v) d = v"
  by (simp_all add: value_or_def)

text \<open>\<open>x.has_value() && !x->empty()\<close> on an optional string.\<close>

definition has_text :: "string option \<Rightarrow> bool" where
  "has_text x \<longleftrightarrow> (case x of None \<Rightarrow> False | Some s \<Rightarrow> s \<noteq> [])"

lemma has_text_simps [simp]: "has_text None = False" "has_text (Some s) = (s \<noteq> [])"
  by (simp_all add: has_text_def)

lemma has_text_value_or: "has_text x \<longleftrightarrow> value_or x [] \<noteq> []"
  by (cases x) simp_all

subsection \<open>Lemmas on trimming\<close>

lemma set_dropWhile_subset: "set (dropWhile P xs) \<subseteq> set xs"
  by (auto dest: set_dropWhileD)

lemma set_trim: "set (trim s) \<subseteq> set s"
  by (auto simp: trim_def rtrim_def ltrim_def dest!: set_dropWhileD)

lemma length_trim: "length (trim s) \<le> length s"
proof -
  have "length (trim s) \<le> length (ltrim s)"
    by (simp add: trim_def rtrim_def length_dropWhile_le [of _ "rev (ltrim s)", simplified])
  also have "\<dots> \<le> length s" by (simp add: ltrim_def length_dropWhile_le)
  finally show ?thesis .
qed

lemma dropWhile_no_space: "\<forall>c \<in> set s. \<not> isspace c \<Longrightarrow> dropWhile isspace s = s"
  by (cases s) auto

lemma trim_no_space: "\<forall>c \<in> set s. \<not> isspace c \<Longrightarrow> trim s = s"
  by (simp add: trim_def rtrim_def ltrim_def dropWhile_no_space)

lemma trim_Nil [simp]: "trim [] = []"
  by (simp add: trim_def rtrim_def ltrim_def)

lemma ltrim_no_front: "xs \<noteq> [] \<Longrightarrow> \<not> isspace (hd xs) \<Longrightarrow> ltrim xs = xs"
  by (cases xs) (simp_all add: ltrim_def)

lemma rtrim_no_back: "xs \<noteq> [] \<Longrightarrow> \<not> isspace (last xs) \<Longrightarrow> rtrim xs = xs"
  by (cases xs rule: rev_cases) (simp_all add: rtrim_def)

lemma rtrim_last: "rtrim xs \<noteq> [] \<Longrightarrow> \<not> isspace (last (rtrim xs))"
  using hd_dropWhile [of isspace "rev xs"] by (simp add: rtrim_def last_rev)

lemma prefix_rtrim: "prefix (rtrim xs) xs"
proof -
  have "suffix (dropWhile isspace (rev xs)) (rev xs)" by (simp add: suffix_dropWhile)
  then show ?thesis by (simp add: rtrim_def suffix_to_prefix)
qed

lemma trim_idem [simp]: "trim (trim s) = trim s"
proof (cases "trim s = []")
  case False
  have front: "ltrim s \<noteq> []" using False by (auto simp: trim_def rtrim_def)
  have "\<not> isspace (hd (ltrim s))"
    using front hd_dropWhile [of isspace s] by (simp add: ltrim_def)
  moreover have "hd (trim s) = hd (ltrim s)"
    using prefix_rtrim [of "ltrim s"] False by (auto simp: trim_def prefix_def) (metis hd_append2)
  ultimately have "ltrim (trim s) = trim s" using False by (simp add: ltrim_no_front)
  moreover have "\<not> isspace (last (trim s))" using False rtrim_last by (simp add: trim_def)
  ultimately show ?thesis using False rtrim_no_back by (simp add: trim_def)
qed simp

subsection \<open>Lemmas on decimal numerals\<close>

lemma digit_char_isdigit: "0 \<le> d \<Longrightarrow> d < 10 \<Longrightarrow> isdigit (digit_char d)"
  by (simp add: digit_char_def isdigit_def)

lemma digit_val_char: "0 \<le> d \<Longrightarrow> d < 10 \<Longrightarrow> digit_val (digit_char d) = d"
  by (simp add: digit_char_def digit_val_def)

lemma digits_val_snoc [simp]: "digits_val (s @ [c]) = 10 * digits_val s + digit_val c"
  by (simp add: digits_val_def)

lemma digits_val_Nil [simp]: "digits_val [] = 0"
  by (simp add: digits_val_def)

lemma dec_nat_digits: "0 \<le> n \<Longrightarrow> all_digits (dec_nat n)"
proof (induction n rule: dec_nat.induct)
  case (1 n)
  then show ?case by (subst dec_nat.simps) (auto simp: digit_char_isdigit)
qed

lemma dec_nat_val: "0 \<le> n \<Longrightarrow> digits_val (dec_nat n) = n"
proof (induction n rule: dec_nat.induct)
  case (1 n)
  show ?case
  proof (cases "n < 10")
    case True
    then show ?thesis
      using "1.prems" by (subst dec_nat.simps) (simp add: digits_val_def digit_val_char)
  next
    case False
    with "1.IH" "1.prems" have "digits_val (dec_nat (n div 10)) = n div 10" by simp
    with False show ?thesis by (subst dec_nat.simps) (simp add: digit_val_char)
  qed
qed

lemma dec_nat_nonempty [simp]: "dec_nat n \<noteq> []"
  by (subst dec_nat.simps) simp

lemma length_dec_nat_le: "0 \<le> n \<Longrightarrow> n < 10 ^ k \<Longrightarrow> 0 < k \<Longrightarrow> length (dec_nat n) \<le> k"
proof (induction n arbitrary: k rule: dec_nat.induct)
  case (1 n)
  show ?case
  proof (cases "n < 10")
    case True
    then show ?thesis using "1.prems" by (subst dec_nat.simps) simp
  next
    case False
    then obtain j where k: "k = Suc j" and j: "0 < j"
      using "1.prems" by (cases k) (force intro: gr0I)+
    have "n div 10 < 10 ^ j" using "1.prems" k by (simp add: div_less_iff_less_mult)
    then have "length (dec_nat (n div 10)) \<le> j" using "1.IH" False "1.prems" j by simp
    then show ?thesis using False k by (subst dec_nat.simps) simp
  qed
qed

lemma length_setw0: "length s \<le> w \<Longrightarrow> length (setw0 w s) = w"
  by (simp add: setw0_def)

lemma setw0_digits: "all_digits s \<Longrightarrow> all_digits (setw0 w s)"
  by (auto simp: setw0_def list_all_iff isdigit_def code_def)

lemma digits_val_zeros: "digits_val (replicate n (CHR ''0'') @ s) = digits_val s"
  by (induction n) (simp_all add: digits_val_def digit_val_def code_def)

lemma setw0_val: "digits_val (setw0 w s) = digits_val s"
  by (simp add: setw0_def digits_val_zeros)

lemma setw0_dec_inj:
  "0 \<le> m \<Longrightarrow> 0 \<le> n \<Longrightarrow> setw0 w (dec_nat m) = setw0 w (dec_nat n) \<Longrightarrow> m = n"
  by (metis dec_nat_val setw0_val)

end
