(* ===== verification/Idempotency.thy ===== *)
theory Idempotency
  imports Ecf_Prelude
begin

text \<open>
  Exactly-once submission: DbIdempotencyStore.cpp (the table ecf_idempotency_records) and
  IdempotencyHandler.h, its client.  Each store operation is split the way PostgreSQL sees
  it, into what the transaction reads (\<open>plan_of\<close>) and what it then writes
  (\<open>execute_plan\<close>), so that interleavings of two requests can be stated.  The locale
  \<open>idempotency_store\<close> is the contract IIdempotencyStore.h stands for; the handler's
  lemmas are proved in it.  Time is seconds; the parser of the stored JSON body and the
  documents table are arguments.
\<close>

subsection \<open>The store\<close>

record IdempotentResult =
  ir_statusCode :: int
  ir_contentType :: string
  ir_body :: string

datatype Reservation =
    Reserved
  | AlreadyCompleted IdempotentResult
  | AlreadyProcessing
  | PayloadMismatch

record idem_row =
  im_worker :: string
  im_payloadHash :: string
  im_status :: string
  im_statusCode :: int
  im_contentType :: string
  im_responseBody :: string
  im_createdAt :: int
  im_updatedAt :: "int option"
  im_expiresAt :: "int option"

type_synonym idem_table = "string \<Rightarrow> idem_row option"

text \<open>
  \<open>isUnderlyingDocumentRejected\<close>: \<open>json_doc_id\<close> is the parser's answer for the member
  documentId of a JSON object (None when the text does not parse or the member is no
  string), \<open>doc_state\<close> the state column of a document.
\<close>

definition document_id_key :: string where
  "document_id_key = [CHR 0x22] @ ''documentId'' @ [CHR 0x22]"

definition isUnderlyingDocumentRejected ::
    "(string \<Rightarrow> string option) \<Rightarrow> (string \<Rightarrow> string option) \<Rightarrow> string \<Rightarrow> bool" where
  "isUnderlyingDocumentRejected json_doc_id doc_state body \<longleftrightarrow>
     (if body = [] \<or> \<not> contains document_id_key body then False
      else case json_doc_id body of
        None \<Rightarrow> False
      | Some i \<Rightarrow> i \<noteq> [] \<and> (case doc_state i of
            None \<Rightarrow> False
          | Some s \<Rightarrow> s \<in> {''RejectedByDgii'', ''SchemaInvalid'', ''SigningFailed''}))"

datatype plan =
    Answer Reservation
  | RetryWithNewPayload
  | RetryCompleted
  | ReclaimLease
  | InsertRecord

definition lease_expired :: "int \<Rightarrow> idem_row \<Rightarrow> bool" where
  "lease_expired now r \<longleftrightarrow> im_createdAt r < now - 300
     \<or> (case im_expiresAt r of None \<Rightarrow> False | Some e \<Rightarrow> e < now)"

definition stored_result :: "idem_row \<Rightarrow> IdempotentResult" where
  "stored_result r = \<lparr> ir_statusCode = im_statusCode r, ir_contentType = im_contentType r,
     ir_body = im_responseBody r \<rparr>"

text \<open>The read half of \<open>reserveOrGet\<close>.\<close>

definition plan_of :: "(string \<Rightarrow> bool) \<Rightarrow> int \<Rightarrow> string \<Rightarrow> idem_row option \<Rightarrow> plan" where
  "plan_of rejected now hash row = (case row of
       None \<Rightarrow> InsertRecord
     | Some r \<Rightarrow>
         if im_payloadHash r \<noteq> hash then
           (if 400 \<le> im_statusCode r \<or> rejected (im_responseBody r) then RetryWithNewPayload
            else Answer PayloadMismatch)
         else if im_status r = ''Completed'' then
           (if 200 \<le> im_statusCode r \<and> im_statusCode r < 300 \<and> \<not> rejected (im_responseBody r)
            then Answer (AlreadyCompleted (stored_result r))
            else RetryCompleted)
         else if im_status r = ''Processing'' \<and> lease_expired now r then ReclaimLease
         else Answer AlreadyProcessing)"

definition fresh_row :: "int \<Rightarrow> string \<Rightarrow> string \<Rightarrow> idem_row" where
  "fresh_row now hash worker = \<lparr> im_worker = worker, im_payloadHash = hash, im_status = ''Processing'',
     im_statusCode = 0, im_contentType = ''application/json'', im_responseBody = [],
     im_createdAt = now, im_updatedAt = None, im_expiresAt = Some (now + 30 * 86400) \<rparr>"

definition restart_row :: "int \<Rightarrow> string \<Rightarrow> idem_row \<Rightarrow> idem_row" where
  "restart_row now worker r = r \<lparr> im_status := ''Processing'', im_statusCode := 0, im_responseBody := [],
     im_createdAt := now, im_updatedAt := Some now, im_worker := worker \<rparr>"

text \<open>The write half, on the table as it is when the statement runs.\<close>

definition execute_plan ::
    "plan \<Rightarrow> int \<Rightarrow> string \<Rightarrow> string \<Rightarrow> string \<Rightarrow> idem_table \<Rightarrow> Reservation \<times> idem_table" where
  "execute_plan p now key hash worker tbl = (case p of
       Answer res \<Rightarrow> (res, tbl)
     | RetryWithNewPayload \<Rightarrow>
         (Reserved, tbl(key := map_option (\<lambda>r. restart_row now worker (r \<lparr> im_payloadHash := hash \<rparr>)) (tbl key)))
     | RetryCompleted \<Rightarrow> (Reserved, tbl(key := map_option (restart_row now worker) (tbl key)))
     | ReclaimLease \<Rightarrow>
         (case tbl key of
            None \<Rightarrow> (AlreadyProcessing, tbl)
          | Some r \<Rightarrow>
              if im_status r = ''Processing'' \<and> im_createdAt r < now - 300
              then (Reserved, tbl(key \<mapsto> r \<lparr> im_createdAt := now, im_worker := worker, im_updatedAt := Some now \<rparr>))
              else (AlreadyProcessing, tbl))
     | InsertRecord \<Rightarrow>
         (case tbl key of
            None \<Rightarrow> (Reserved, tbl(key \<mapsto> fresh_row now hash worker))
          | Some r \<Rightarrow> (AlreadyProcessing, tbl)))"

definition reserveOrGet ::
    "(string \<Rightarrow> bool) \<Rightarrow> int \<Rightarrow> string \<Rightarrow> string \<Rightarrow> string \<Rightarrow> idem_table \<Rightarrow> Reservation \<times> idem_table" where
  "reserveOrGet rejected now key hash worker tbl =
     execute_plan (plan_of rejected now hash (tbl key)) now key hash worker tbl"

definition complete_record :: "int \<Rightarrow> string \<Rightarrow> IdempotentResult \<Rightarrow> idem_table \<Rightarrow> idem_table" where
  "complete_record now key res tbl = (case tbl key of
       None \<Rightarrow> tbl
     | Some r \<Rightarrow>
         if im_status r = ''Processing''
         then tbl(key \<mapsto> r \<lparr> im_status := ''Completed'', im_statusCode := ir_statusCode res,
                im_contentType := ir_contentType res, im_responseBody := ir_body res, im_updatedAt := Some now \<rparr>)
         else tbl)"

definition release_record :: "string \<Rightarrow> idem_table \<Rightarrow> idem_table" where
  "release_record key tbl = (case tbl key of
       None \<Rightarrow> tbl
     | Some r \<Rightarrow> if im_status r = ''Processing'' then tbl(key := None) else tbl)"

subsection \<open>IdempotencyHandler.h\<close>

datatype http_method = Get | Post | Put | Patch | Delete

record http_response =
  resp_status :: int
  resp_contentType :: string
  resp_body :: string

datatype handler_reply =
    PassedThrough "string + http_response"
  | Replayed IdempotentResult
  | Conflict409
  | Unprocessable422
  | Executed http_response
  | OperationError400 string

definition shouldCache :: "int \<Rightarrow> bool" where
  "shouldCache sc \<longleftrightarrow> 200 \<le> sc \<and> sc < 500 \<and> sc \<noteq> 401 \<and> sc \<noteq> 403 \<and> sc \<noteq> 408 \<and> sc \<noteq> 409 \<and> sc \<noteq> 429"

definition result_of :: "http_response \<Rightarrow> IdempotentResult" where
  "result_of r = \<lparr> ir_statusCode = resp_status r, ir_contentType = resp_contentType r, ir_body = resp_body r \<rparr>"

definition scopedKey :: "string \<Rightarrow> string \<Rightarrow> string" where
  "scopedKey tenantId idemKey = tenantId @ '':'' @ idemKey"

text \<open>
  \<open>handle\<close> over the three operations of a store: \<open>act\<close> is the endpoint behind it, which
  answers or throws (\<open>Inl\<close>) and changes the rest of the world.
\<close>

definition handle_idempotent ::
    "(string \<Rightarrow> string \<Rightarrow> string \<Rightarrow> 's \<Rightarrow> Reservation \<times> 's) \<Rightarrow> (string \<Rightarrow> IdempotentResult \<Rightarrow> 's \<Rightarrow> 's)
     \<Rightarrow> (string \<Rightarrow> 's \<Rightarrow> 's) \<Rightarrow> (string \<Rightarrow> string) \<Rightarrow> http_method \<Rightarrow> string \<Rightarrow> string \<Rightarrow> string \<Rightarrow> string
     \<Rightarrow> ('w \<Rightarrow> (string + http_response) \<times> 'w) \<Rightarrow> 's \<times> 'w \<Rightarrow> handler_reply \<times> 's \<times> 'w" where
  "handle_idempotent reserve compl rel sha meth idemKey tenantId workerKeyId body act st =
     (case st of (s, w) \<Rightarrow>
      if idemKey = [] \<or> meth \<notin> {Post, Put, Patch}
      then (case act w of (r, w') \<Rightarrow> (PassedThrough r, s, w'))
      else let key = scopedKey tenantId idemKey in
        (case reserve key (sha body) workerKeyId s of
           (AlreadyCompleted res, s1) \<Rightarrow> (Replayed res, s1, w)
         | (AlreadyProcessing, s1) \<Rightarrow> (Conflict409, s1, w)
         | (PayloadMismatch, s1) \<Rightarrow> (Unprocessable422, s1, w)
         | (Reserved, s1) \<Rightarrow>
             (case act w of
                (Inr resp, w') \<Rightarrow>
                  (Executed resp,
                   if shouldCache (resp_status resp) then compl key (result_of resp) s1 else rel key s1, w')
              | (Inl ex, w') \<Rightarrow> (OperationError400 ex, rel key s1, w'))))"

subsection \<open>The contract of a store\<close>

text \<open>
  \<open>settled s k h res\<close>: the key holds the successful result of the body with hash \<open>h\<close>.
  Once settled, a key answers the same body with that result and any other body with a
  mismatch, and no operation of the store unsettles it.
\<close>

locale idempotency_store =
  fixes reserve :: "int \<Rightarrow> string \<Rightarrow> string \<Rightarrow> string \<Rightarrow> 's \<Rightarrow> Reservation \<times> 's"
    and compl :: "int \<Rightarrow> string \<Rightarrow> IdempotentResult \<Rightarrow> 's \<Rightarrow> 's"
    and rel :: "string \<Rightarrow> 's \<Rightarrow> 's"
    and settled :: "'s \<Rightarrow> string \<Rightarrow> string \<Rightarrow> IdempotentResult \<Rightarrow> bool"
    and success :: "IdempotentResult \<Rightarrow> bool"
  assumes settled_replays: "settled s k h res \<Longrightarrow> reserve t k h w s = (AlreadyCompleted res, s)"
    and settled_mismatch: "settled s k h res \<Longrightarrow> h' \<noteq> h \<Longrightarrow> reserve t k h' w s = (PayloadMismatch, s)"
    and reserve_settles: "reserve t k h w s = (Reserved, s') \<Longrightarrow> success res \<Longrightarrow> settled (compl t' k res s') k h res"
    and stable_reserve: "settled s k h res \<Longrightarrow> settled (snd (reserve t k' h' w s)) k h res"
    and stable_compl: "settled s k h res \<Longrightarrow> settled (compl t k' r s) k h res"
    and stable_rel: "settled s k h res \<Longrightarrow> settled (rel k' s) k h res"
begin

abbreviation handle where
  "handle t sha meth i tenant w body act \<equiv>
     handle_idempotent (reserve t) (compl t) rel sha meth i tenant w body act"

lemma handle_replays:
  assumes "settled s (scopedKey tenant i) (sha body) res" "i \<noteq> []" "meth \<in> {Post, Put, Patch}"
  shows "handle t sha meth i tenant w body act (s, x) = (Replayed res, s, x)"
  using assms(2,3) settled_replays [OF assms(1)] by (auto simp: handle_idempotent_def Let_def)

lemma handle_mismatch:
  assumes "settled s (scopedKey tenant i) h res" "h \<noteq> sha body" "i \<noteq> []" "meth \<in> {Post, Put, Patch}"
  shows "handle t sha meth i tenant w body act (s, x) = (Unprocessable422, s, x)"
proof -
  have "reserve t (scopedKey tenant i) (sha body) w s = (PayloadMismatch, s)"
    by (rule settled_mismatch [OF assms(1)]) (use assms(2) in simp)
  then show ?thesis using assms(3,4) by (auto simp: handle_idempotent_def Let_def)
qed

lemma handle_settles:
  assumes "handle t sha meth i tenant w body act (s, x) = (Executed resp, s', x')"
    and "success (result_of resp)" "shouldCache (resp_status resp)"
  shows "settled s' (scopedKey tenant i) (sha body) (result_of resp)"
  using assms reserve_settles
  by (auto simp: handle_idempotent_def Let_def split: prod.splits Reservation.splits sum.splits if_splits)

lemma handle_stable:
  assumes "settled s k h res"
  shows "settled (fst (snd (handle t sha meth i tenant w body act (s, x)))) k h res"
proof -
  obtain a s1 where r: "reserve t (scopedKey tenant i) (sha body) w s = (a, s1)" by force
  have s1: "settled s1 k h res" using stable_reserve [OF assms, of t _ _ w] r by (metis snd_conv)
  show ?thesis
    using assms s1 stable_compl [OF s1] stable_rel [OF s1] r
    by (auto simp: handle_idempotent_def Let_def split: prod.splits Reservation.splits sum.splits)
qed

end

subsection \<open>The database store keeps the contract\<close>

definition db_settled :: "(string \<Rightarrow> bool) \<Rightarrow> idem_table \<Rightarrow> string \<Rightarrow> string \<Rightarrow> IdempotentResult \<Rightarrow> bool" where
  "db_settled rejected tbl k h res \<longleftrightarrow> (case tbl k of None \<Rightarrow> False
     | Some r \<Rightarrow> im_payloadHash r = h \<and> im_status r = ''Completed'' \<and> stored_result r = res
         \<and> 200 \<le> im_statusCode r \<and> im_statusCode r < 300 \<and> \<not> rejected (im_responseBody r))"

definition db_success :: "(string \<Rightarrow> bool) \<Rightarrow> IdempotentResult \<Rightarrow> bool" where
  "db_success rejected res \<longleftrightarrow> 200 \<le> ir_statusCode res \<and> ir_statusCode res < 300 \<and> \<not> rejected (ir_body res)"

lemma db_settledE:
  assumes "db_settled rejected tbl k h res"
  obtains r where "tbl k = Some r" "im_payloadHash r = h" "im_status r = ''Completed''"
    "stored_result r = res" "200 \<le> im_statusCode r" "im_statusCode r < 300" "\<not> rejected (im_responseBody r)"
  using assms by (auto simp: db_settled_def split: option.splits)

lemma db_settled_frame:
  "db_settled rejected tbl k h res \<Longrightarrow> tbl' k = tbl k \<Longrightarrow> db_settled rejected tbl' k h res"
  by (simp add: db_settled_def)

lemma reserve_other_key: "k' \<noteq> k \<Longrightarrow> snd (reserveOrGet rejected t k' h w tbl) k = tbl k"
  by (auto simp: reserveOrGet_def execute_plan_def split: plan.splits option.splits)

lemma reserve_row:
  assumes "reserveOrGet rejected t k h w tbl = (Reserved, tbl')"
  obtains r where "tbl' k = Some r" "im_payloadHash r = h" "im_status r = ''Processing''"
  using assms
  by (auto simp: reserveOrGet_def execute_plan_def plan_of_def restart_row_def fresh_row_def
      split: option.splits if_splits)

interpretation db: idempotency_store "reserveOrGet rejected" complete_record release_record
    "db_settled rejected" "db_success rejected"
  for rejected
proof
  fix s :: idem_table and k h h' k' w :: string and res r and t t' :: int and s'
  show replay: "reserveOrGet rejected t k h w s = (AlreadyCompleted res, s)" if "db_settled rejected s k h res" for h t w
    by (rule db_settledE [OF that]) (simp add: reserveOrGet_def plan_of_def execute_plan_def)
  show mismatch: "reserveOrGet rejected t k h' w s = (PayloadMismatch, s)" if "db_settled rejected s k h res" "h' \<noteq> h" for h h' t w
    by (rule db_settledE [OF that(1)]) (use that(2) in \<open>auto simp: reserveOrGet_def plan_of_def execute_plan_def\<close>)
  show "db_settled rejected (complete_record t' k res s') k h res"
    if "reserveOrGet rejected t k h w s = (Reserved, s')" "db_success rejected res"
    by (rule reserve_row [OF that(1)])
      (use that(2) in \<open>auto simp: complete_record_def db_settled_def db_success_def stored_result_def\<close>)
  show "db_settled rejected (snd (reserveOrGet rejected t k' h' w s)) k h res" if "db_settled rejected s k h res"
  proof (cases "k' = k")
    case True
    then show ?thesis using that replay [OF that] mismatch [OF that, of h'] by (cases "h' = h") auto
  next
    case False
    then show ?thesis using that db_settled_frame reserve_other_key by metis
  qed
  show "db_settled rejected (complete_record t k' r s) k h res" if "db_settled rejected s k h res"
    by (rule db_settledE [OF that]) (use that in \<open>auto simp: complete_record_def db_settled_def split: option.splits\<close>)
  show "db_settled rejected (release_record k' s) k h res" if "db_settled rejected s k h res"
    by (rule db_settledE [OF that]) (use that in \<open>auto simp: release_record_def db_settled_def split: option.splits\<close>)
qed

subsection \<open>Properties\<close>

record 'w idem_call =
  ic_time :: int
  ic_method :: http_method
  ic_key :: string
  ic_tenant :: string
  ic_worker :: string
  ic_body :: string
  ic_act :: "'w \<Rightarrow> (string + http_response) \<times> 'w"

definition serve ::
    "(string \<Rightarrow> bool) \<Rightarrow> (string \<Rightarrow> string) \<Rightarrow> 'w idem_call \<Rightarrow> idem_table \<times> 'w \<Rightarrow> handler_reply \<times> idem_table \<times> 'w" where
  "serve rejected sha c st =
     handle_idempotent (reserveOrGet rejected (ic_time c)) (complete_record (ic_time c)) release_record sha
       (ic_method c) (ic_key c) (ic_tenant c) (ic_worker c) (ic_body c) (ic_act c) st"

definition serve_all ::
    "(string \<Rightarrow> bool) \<Rightarrow> (string \<Rightarrow> string) \<Rightarrow> 'w idem_call list \<Rightarrow> idem_table \<times> 'w \<Rightarrow> idem_table \<times> 'w" where
  "serve_all rejected sha cs st = foldl (\<lambda>st c. snd (serve rejected sha c st)) st cs"

lemma serve_all_settled:
  assumes "db_settled rejected (fst st) k h res"
  shows "db_settled rejected (fst (serve_all rejected sha cs st)) k h res"
  using assms
proof (induction cs arbitrary: st)
  case (Cons c cs)
  have "db_settled rejected (fst (snd (serve rejected sha c st))) k h res"
    using db.handle_stable [of rejected "fst st" k h res "ic_time c" sha "ic_method c" "ic_key c" "ic_tenant c"
        "ic_worker c" "ic_body c" "ic_act c" "snd st"] Cons.prems by (simp add: serve_def)
  then show ?case using Cons.IH by (simp add: serve_all_def)
qed (simp add: serve_all_def)

lemma serve_settles:
  assumes "serve rejected sha c st = (Executed resp, st1)"
    and "200 \<le> resp_status resp" "resp_status resp < 300" "\<not> rejected (resp_body resp)"
  shows "db_settled rejected (fst st1) (scopedKey (ic_tenant c) (ic_key c)) (sha (ic_body c)) (result_of resp)"
proof -
  have ok: "db_success rejected (result_of resp)" "shouldCache (resp_status resp)"
    using assms(2-4) by (simp_all add: db_success_def result_of_def shouldCache_def)
  have h: "handle_idempotent (reserveOrGet rejected (ic_time c)) (complete_record (ic_time c)) release_record
      sha (ic_method c) (ic_key c) (ic_tenant c) (ic_worker c) (ic_body c) (ic_act c) (fst st, snd st)
      = (Executed resp, fst st1, snd st1)"
    using assms(1) by (simp add: serve_def)
  show ?thesis by (rule db.handle_settles [OF h ok])
qed


definition count_call :: "nat idem_call" where
  "count_call = \<lparr> ic_time = 0, ic_method = Post, ic_key = ''k'', ic_tenant = ''t'', ic_worker = ''w'',
     ic_body = ''b'', ic_act = (\<lambda>n. (Inr \<lparr> resp_status = 200, resp_contentType = ''c'', resp_body = ''ok'' \<rparr>, n + 1)) \<rparr>"

lemma count_call_first:
  "serve (\<lambda>_. False) id count_call (\<lambda>_. None, 0) =
     (Executed \<lparr> resp_status = 200, resp_contentType = ''c'', resp_body = ''ok'' \<rparr>,
      snd (serve (\<lambda>_. False) id count_call (\<lambda>_. None, 0)))"
  by (simp add: serve_def handle_idempotent_def count_call_def reserveOrGet_def plan_of_def execute_plan_def
      shouldCache_def Let_def)


text \<open>A settled key used with another body is refused with 422 and nothing runs, whatever
  calls came in between, unless the two bodies have the same SHA-256.\<close>

theorem idempotent_mismatch_refused:
  assumes "serve rejected sha c st = (Executed resp, st1)"
    and "200 \<le> resp_status resp" "resp_status resp < 300" "\<not> rejected (resp_body resp)"
    and "st2 = serve_all rejected sha others st1"
    and "ic_tenant c2 = ic_tenant c" "ic_key c2 = ic_key c" "sha (ic_body c2) \<noteq> sha (ic_body c)"
    and "ic_key c \<noteq> []" "ic_method c2 \<in> {Post, Put, Patch}"
  shows "serve rejected sha c2 st2 = (Unprocessable422, st2)"
proof -
  obtain s x where st: "st = (s, x)" by force
  obtain s1 x1 where st1: "st1 = (s1, x1)" by force
  have "db_settled rejected s1 (scopedKey (ic_tenant c) (ic_key c)) (sha (ic_body c)) (result_of resp)"
    using serve_settles [OF assms(1-4)] st1 by simp
  then have "db_settled rejected (fst st2) (scopedKey (ic_tenant c2) (ic_key c2)) (sha (ic_body c)) (result_of resp)"
    using serve_all_settled [of rejected st1] assms(5-7) st1 by simp
  from db.handle_mismatch [where sha = sha and body = "ic_body c2" and x = "snd st2", OF this]
  show ?thesis using assms(7-10) by (simp add: serve_def)
qed

theorem idempotent_mismatch_refused_witness:
  "fst (serve (\<lambda>_. False) id (count_call \<lparr> ic_body := ''other'' \<rparr>) (serve_all (\<lambda>_. False) id [count_call]
      (snd (serve (\<lambda>_. False) id count_call (\<lambda>_. None, 0))))) = Unprocessable422"
  using idempotent_mismatch_refused [OF count_call_first _ _ _ refl, of "count_call \<lparr> ic_body := ''other'' \<rparr>" "[count_call]"]
  by (simp add: count_call_def)

text \<open>Two requests with a new key that both read the table before either wrote: exactly one
  of them gets the reservation, the other is told the first is being processed.\<close>

theorem concurrent_first_use_reserves_once:
  assumes "tbl key = None" "p1 = plan_of rejected now h1 (tbl key)" "p2 = plan_of rejected now h2 (tbl key)"
    and "execute_plan p1 now key h1 w1 tbl = (r1, tbl1)" "execute_plan p2 now key h2 w2 tbl1 = (r2, tbl2)"
  shows "r1 = Reserved \<and> r2 = AlreadyProcessing \<and> tbl2 = tbl1"
  using assms by (auto simp: plan_of_def execute_plan_def)

theorem concurrent_first_use_reserves_once_witness:
  "fst (execute_plan InsertRecord 0 ''k'' ''h'' ''w2'' (snd (execute_plan InsertRecord 0 ''k'' ''h'' ''w1'' (\<lambda>_. None))))
     = AlreadyProcessing"
  using concurrent_first_use_reserves_once [of "\<lambda>_. None" "''k''" InsertRecord "\<lambda>_. False" 0 "''h''" InsertRecord "''h''"
      "''w1''" Reserved "snd (execute_plan InsertRecord 0 ''k'' ''h'' ''w1'' (\<lambda>_. None))" "''w2''"]
  by (simp add: plan_of_def execute_plan_def)

text \<open>The same is not true of a retry: two requests that both read a key whose first attempt
  was answered with an error are both given the reservation, because the statement that
  restarts the record does not look at its status again.\<close>

theorem concurrent_retry_reserves_twice:
  assumes "tbl key = Some r" "im_payloadHash r = h" "im_status r = ''Completed''" "400 \<le> im_statusCode r"
    and "p = plan_of rejected now h (tbl key)"
    and "execute_plan p now key h w1 tbl = (r1, tbl1)" "execute_plan p now key h w2 tbl1 = (r2, tbl2)"
  shows "r1 = Reserved \<and> r2 = Reserved"
  using assms by (auto simp: plan_of_def execute_plan_def)

definition failed_row :: idem_row where
  "failed_row = (fresh_row 0 ''h'' ''w'') \<lparr> im_status := ''Completed'', im_statusCode := 400 \<rparr>"

theorem concurrent_retry_reserves_twice_witness:
  "fst (execute_plan RetryCompleted 9 ''k'' ''h'' ''w2''
      (snd (execute_plan RetryCompleted 9 ''k'' ''h'' ''w1'' [''k'' \<mapsto> failed_row]))) = Reserved"
  using concurrent_retry_reserves_twice [of "[''k'' \<mapsto> failed_row]" "''k''" failed_row "''h''" RetryCompleted "\<lambda>_. False" 9
      "''w1''" Reserved "snd (execute_plan RetryCompleted 9 ''k'' ''h'' ''w1'' [''k'' \<mapsto> failed_row])" "''w2''"]
  by (simp add: plan_of_def execute_plan_def failed_row_def fresh_row_def)

text \<open>A response with status 400, 404 or 422 is stored, but it is never replayed: a repeat
  of the very same request runs the endpoint again.\<close>

theorem stored_error_is_not_replayed:
  assumes "serve rejected sha c st = (Executed resp, st1)"
    and "400 \<le> resp_status resp" "ic_key c \<noteq> []" "ic_method c \<in> {Post, Put, Patch}"
  shows "\<not> (\<exists>res. fst (serve rejected sha c st1) = Replayed res)"
proof -
  obtain s x where st: "st = (s, x)" by force
  define k where "k = scopedKey (ic_tenant c) (ic_key c)"
  define h where "h = sha (ic_body c)"
  obtain s1 where r: "reserveOrGet rejected (ic_time c) k h (ic_worker c) s = (Reserved, s1)"
    and f: "fst st1 = (if shouldCache (resp_status resp) then complete_record (ic_time c) k (result_of resp) s1
                       else release_record k s1)"
    using assms unfolding st k_def h_def
    by (auto simp: serve_def handle_idempotent_def Let_def split: prod.splits Reservation.splits sum.splits if_splits)
  obtain q where q: "s1 k = Some q" "im_payloadHash q = h" "im_status q = ''Processing''" by (rule reserve_row [OF r])
  have "\<forall>p. fst st1 k = Some p \<longrightarrow> im_status p = ''Completed'' \<and> 400 \<le> im_statusCode p"
    using f q assms(2) by (auto simp: complete_record_def release_record_def result_of_def)
  then have "\<not> (\<exists>res s'. reserveOrGet rejected (ic_time c) k h (ic_worker c) (fst st1) = (AlreadyCompleted res, s'))"
    by (auto simp: reserveOrGet_def plan_of_def execute_plan_def split: option.splits if_splits)
  then show ?thesis using assms(3,4)
    by (cases st1) (auto simp: serve_def handle_idempotent_def Let_def k_def [symmetric] h_def [symmetric]
        split: prod.splits Reservation.splits sum.splits)
qed

definition rejecting_call :: "nat idem_call" where
  "rejecting_call = count_call \<lparr> ic_act :=
     (\<lambda>n. (Inr \<lparr> resp_status = 400, resp_contentType = ''c'', resp_body = ''no'' \<rparr>, n + 1)) \<rparr>"

lemma rejecting_call_first:
  "serve (\<lambda>_. False) id rejecting_call (\<lambda>_. None, 0) =
     (Executed \<lparr> resp_status = 400, resp_contentType = ''c'', resp_body = ''no'' \<rparr>,
      snd (serve (\<lambda>_. False) id rejecting_call (\<lambda>_. None, 0)))"
  by (simp add: serve_def handle_idempotent_def count_call_def rejecting_call_def reserveOrGet_def plan_of_def
      execute_plan_def shouldCache_def Let_def)

theorem stored_error_is_not_replayed_witness:
  "\<not> (\<exists>res. fst (serve (\<lambda>_. False) id rejecting_call
      (snd (serve (\<lambda>_. False) id rejecting_call (\<lambda>_. None, 0)))) = Replayed res)"
  by (rule stored_error_is_not_replayed [OF rejecting_call_first])
    (simp_all add: rejecting_call_def count_call_def)

end
