(* ===== verification/Sys_Time.thy ===== *)
theory Sys_Time
  imports Ecf_Prelude "HOL-Library.Word"
begin

unbundle bit_operations_syntax

text \<open>
  Shared/Common/Sys.cpp and the calendar functions of the C library it calls
  (\<open>gmtime_r\<close>, \<open>timegm\<close>, \<open>strftime\<close>, \<open>sscanf\<close>), in the proleptic Gregorian
  calendar.  A \<open>time_point\<close> is its number of whole seconds since the epoch; the
  default-constructed one, which the code returns for "could not parse", is 0.
\<close>

subsection \<open>The calendar of the C library\<close>

record tm =
  tm_year :: int
  tm_mon :: int
  tm_mday :: int
  tm_hour :: int
  tm_min :: int
  tm_sec :: int

definition leap :: "int \<Rightarrow> bool" where
  "leap y \<longleftrightarrow> (y mod 4 = 0 \<and> y mod 100 \<noteq> 0) \<or> y mod 400 = 0"

definition month_len :: "int \<Rightarrow> int \<Rightarrow> int" where
  "month_len y m = (if m = 2 then (if leap y then 29 else 28)
     else if m = 4 \<or> m = 6 \<or> m = 9 \<or> m = 11 then 30 else 31)"

text \<open>Days from 1970-01-01 to January 1st of year \<open>y\<close>.\<close>

definition days_before_year :: "int \<Rightarrow> int" where
  "days_before_year y = 365 * (y - 1970) + (y - 1) div 4 - (y - 1) div 100 + (y - 1) div 400 - 477"

function month_scan :: "int \<Rightarrow> int \<Rightarrow> int \<Rightarrow> int \<times> int" where
  "month_scan y m d =
     (if 12 \<le> m \<or> d < month_len y m then (m, d) else month_scan y (m + 1) (d - month_len y m))"
  by pat_completeness auto
termination by (relation "measure (\<lambda>(y, m, d). nat (12 - m))") auto

declare month_scan.simps [simp del]

function days_before_month :: "int \<Rightarrow> int \<Rightarrow> int" where
  "days_before_month y m =
     (if m \<le> 1 then 0 else days_before_month y (m - 1) + month_len y (m - 1))"
  by pat_completeness auto
termination by (relation "measure (\<lambda>(y, m). nat m)") auto

declare days_before_month.simps [simp del]

lemma div_step:
  fixes y n :: int
  assumes "0 < n"
  shows "y div n = (y - 1) div n + (if y mod n = 0 then 1 else 0)"
proof (cases "y mod n = 0")
  case True
  then have "y - 1 = n * (y div n - 1) + (n - 1)"
    using div_mult_mod_eq [of y n] by (simp add: algebra_simps)
  from int_div_pos_eq [OF this] assms True show ?thesis by simp
next
  case False
  then have "0 < y mod n" using assms pos_mod_sign [of n y] by linarith
  moreover have "y - 1 = n * (y div n) + (y mod n - 1)" by simp
  ultimately show ?thesis
    using int_div_pos_eq [of "y - 1" n "y div n" "y mod n - 1"] pos_mod_bound [OF assms, of y] False
    by simp
qed

lemma days_before_year_step:
  "days_before_year (y + 1) = days_before_year y + (if leap y then 366 else 365)"
proof -
  have n: "0 < (4::int)" "0 < (100::int)" "0 < (400::int)" by simp_all
  have d: "(100::int) dvd 400" "(4::int) dvd 100" by simp_all
  have m: "y mod 400 = 0 \<Longrightarrow> y mod 100 = 0" "y mod 100 = 0 \<Longrightarrow> y mod 4 = 0"
    using d dvd_trans by (auto simp only: mod_eq_0_iff_dvd)
  have "days_before_year (y + 1) = 365 * (y - 1970) + 365 + y div 4 - y div 100 + y div 400 - 477"
    by (simp add: days_before_year_def)
  also have "\<dots> = days_before_year y + (if leap y then 366 else 365)"
    unfolding div_step [OF n(1), of y] div_step [OF n(2), of y] div_step [OF n(3), of y]
      days_before_year_def leap_def using m by (simp split: if_splits)
  finally show ?thesis .
qed

lemma days_before_year_mono_step: "days_before_year y < days_before_year (y + 1)"
  by (simp add: days_before_year_step)

function year_scan :: "int \<Rightarrow> int \<Rightarrow> int" where
  "year_scan y d = (if d < days_before_year (y + 1) then y else year_scan (y + 1) d)"
  by pat_completeness auto
termination
proof (relation "measure (\<lambda>(y, d). nat (d + 1 - days_before_year y))")
  fix y d :: int
  assume "\<not> d < days_before_year (y + 1)"
  then show "((y + 1, d), (y, d)) \<in> measure (\<lambda>(y, d). nat (d + 1 - days_before_year y))"
    using days_before_year_mono_step [of y] by simp
qed simp

declare year_scan.simps [simp del]

definition year_guess :: "int \<Rightarrow> int" where
  "year_guess d = 1970 + (if 0 \<le> d then d div 366 else d div 365)"

definition civil_of_days :: "int \<Rightarrow> int \<times> int \<times> int" where
  "civil_of_days n = (let y = year_scan (year_guess n) n;
     (m, d) = month_scan y 1 (n - days_before_year y) in (y, m, d + 1))"

text \<open>\<open>timegm\<close> on a date normalises a month outside 1..12 into the year, and any day number.\<close>

definition days_of_civil :: "int \<Rightarrow> int \<Rightarrow> int \<Rightarrow> int" where
  "days_of_civil y m d = (let y' = y + (m - 1) div 12; m' = (m - 1) mod 12 + 1
     in days_before_year y' + days_before_month y' m' + d - 1)"

definition gmtime :: "int \<Rightarrow> tm" where
  "gmtime t = (let (y, m, d) = civil_of_days (t div 86400); s = t mod 86400 in
     \<lparr>tm_year = y, tm_mon = m, tm_mday = d,
      tm_hour = s div 3600, tm_min = s mod 3600 div 60, tm_sec = s mod 60\<rparr>)"

definition timegm :: "tm \<Rightarrow> int" where
  "timegm x = 86400 * days_of_civil (tm_year x) (tm_mon x) (tm_mday x)
     + 3600 * tm_hour x + 60 * tm_min x + tm_sec x"

subsection \<open>Correctness of the calendar\<close>

lemma days_before_year_bounds:
  "0 \<le> k \<Longrightarrow> days_before_year (1970 + k) \<le> 366 * k"
  "k \<le> 0 \<Longrightarrow> days_before_year (1970 + k) \<le> 365 * k"
proof -
  have z: "days_before_year 1970 = 0" by (simp add: days_before_year_def)
  show "days_before_year (1970 + k) \<le> 366 * k" if "0 \<le> k"
    using that
  proof (induction k rule: int_ge_induct)
    case (step i)
    then show ?case using days_before_year_step [of "1970 + i"] by (simp add: add.assoc split: if_splits)
  qed (simp add: z)
  show "days_before_year (1970 + k) \<le> 365 * k" if "k \<le> 0"
    using that
  proof (induction k rule: int_le_induct)
    case (step i)
    then show ?case using days_before_year_step [of "1970 + i - 1"] by (simp add: algebra_simps split: if_splits)
  qed (simp add: z)
qed

lemma year_guess_le: "days_before_year (year_guess n) \<le> n"
proof (cases "0 \<le> n")
  case True
  have "days_before_year (1970 + n div 366) \<le> 366 * (n div 366)"
    using True by (intro days_before_year_bounds) (simp add: pos_imp_zdiv_nonneg_iff)
  also have "\<dots> \<le> n" by presburger
  finally show ?thesis using True by (simp add: year_guess_def)
next
  case False
  have "days_before_year (1970 + n div 365) \<le> 365 * (n div 365)"
    using False by (intro days_before_year_bounds) presburger
  also have "\<dots> \<le> n" by presburger
  finally show ?thesis using False by (simp add: year_guess_def)
qed

lemma year_scan_bounds:
  "days_before_year y \<le> d \<Longrightarrow>
   days_before_year (year_scan y d) \<le> d \<and> d < days_before_year (year_scan y d + 1)"
proof (induction y d rule: year_scan.induct)
  case (1 y d)
  show ?case
  proof (cases "d < days_before_year (y + 1)")
    case True
    then show ?thesis using "1.prems" by (simp add: year_scan.simps [of y d])
  next
    case False
    then show ?thesis using "1.IH" by (simp add: year_scan.simps [of y d])
  qed
qed

lemma month_len_pos: "0 < month_len y m"
  by (simp add: month_len_def)

lemma days_before_month_Suc:
  "1 \<le> m \<Longrightarrow> days_before_month y (m + 1) = days_before_month y m + month_len y m"
  by (subst days_before_month.simps) simp

lemma month_scan_correct:
  "1 \<le> m \<Longrightarrow> m \<le> 12 \<Longrightarrow> 0 \<le> d \<Longrightarrow> month_scan y m d = (m', d') \<Longrightarrow>
   days_before_month y m' + d' = days_before_month y m + d \<and>
   m \<le> m' \<and> m' \<le> 12 \<and> 0 \<le> d' \<and> (d' < month_len y m' \<or> m' = 12)"
proof (induction y m d rule: month_scan.induct)
  case (1 y m d)
  show ?case
  proof (cases "12 \<le> m \<or> d < month_len y m")
    case True
    then show ?thesis using "1.prems" by (auto simp: month_scan.simps [of y m d])
  next
    case False
    then have "month_scan y (m + 1) (d - month_len y m) = (m', d')"
      using "1.prems" by (simp add: month_scan.simps [of y m d])
    with "1.IH" [OF False] False "1.prems" show ?thesis
      by (auto simp: days_before_month_Suc)
  qed
qed

lemma days_before_month_12: "days_before_month y 12 = (if leap y then 335 else 334)"
proof -
  have "days_before_month y 1 = 0" by (simp add: days_before_month.simps)
  then show ?thesis
    using days_before_month_Suc [of 1 y] days_before_month_Suc [of 2 y] days_before_month_Suc [of 3 y]
      days_before_month_Suc [of 4 y] days_before_month_Suc [of 5 y] days_before_month_Suc [of 6 y]
      days_before_month_Suc [of 7 y] days_before_month_Suc [of 8 y] days_before_month_Suc [of 9 y]
      days_before_month_Suc [of 10 y] days_before_month_Suc [of 11 y]
    by (simp add: month_len_def)
qed

lemma civil_of_days_correct:
  assumes "civil_of_days n = (y, m, d)"
  shows "days_of_civil y m d = n" "1 \<le> m" "m \<le> 12" "1 \<le> d" "d \<le> month_len y m"
proof -
  define r where "r = n - days_before_year y"
  obtain d' where ms: "month_scan y 1 r = (m, d')" and d: "d = d' + 1"
    and y: "y = year_scan (year_guess n) n"
    using assms by (auto simp: civil_of_days_def Let_def r_def split: prod.splits)
  have b: "days_before_year y \<le> n" "n < days_before_year (y + 1)"
    using year_scan_bounds [OF year_guess_le [of n]] y by simp_all
  have r: "0 \<le> r" "r < (if leap y then 366 else 365)"
    using b by (auto simp: r_def days_before_year_step)
  have m1: "days_before_month y 1 = 0" by (simp add: days_before_month.simps)
  have c: "days_before_month y m + d' = r" "1 \<le> m" "m \<le> 12" "0 \<le> d'"
      "d' < month_len y m \<or> m = 12"
    using month_scan_correct [OF _ _ r(1) ms] m1 by auto
  show "1 \<le> m" "m \<le> 12" "1 \<le> d" using c d by auto
  have "d' < month_len y m"
  proof (cases "m = 12")
    case True
    then show ?thesis
      using c(1) r(2) days_before_month_12 [of y] by (auto simp: month_len_def split: if_splits)
  qed (use c in auto)
  then show "d \<le> month_len y m" using d by simp
  have "(m - 1) div 12 = 0" "(m - 1) mod 12 = m - 1" using c by auto
  then show "days_of_civil y m d = n"
    using c(1) d by (simp add: days_of_civil_def Let_def r_def)
qed

lemma timegm_gmtime [simp]: "timegm (gmtime t) = t"
proof -
  obtain y m d where c: "civil_of_days (t div 86400) = (y, m, d)"
    by (cases "civil_of_days (t div 86400)") auto
  define r where "r = t mod 86400"
  define h where "h = r mod 3600"
  have "r mod 60 = h mod 60" by (simp add: h_def mod_mod_cancel)
  then have b: "60 * (h div 60) + r mod 60 = h" by simp
  have a: "3600 * (r div 3600) + h = r" by (simp add: h_def)
  have c0: "86400 * (t div 86400) + r = t" by (simp add: r_def)
  have "86400 * (t div 86400) + 3600 * (r div 3600) + 60 * (h div 60) + r mod 60 = t"
    by (subst add.assoc, subst b, subst add.assoc, subst a, subst c0) (rule refl)
  then show ?thesis
    using civil_of_days_correct(1) [OF c]
    by (simp only: gmtime_def timegm_def c Let_def prod.case tm.simps r_def [symmetric] h_def [symmetric])
qed

lemma gmtime_range:
  "1 \<le> tm_mon (gmtime t)" "tm_mon (gmtime t) \<le> 12"
  "1 \<le> tm_mday (gmtime t)" "tm_mday (gmtime t) \<le> 31"
  "0 \<le> tm_hour (gmtime t)" "tm_hour (gmtime t) \<le> 23"
  "0 \<le> tm_min (gmtime t)" "tm_min (gmtime t) \<le> 59"
  "0 \<le> tm_sec (gmtime t)" "tm_sec (gmtime t) \<le> 59"
proof -
  obtain y m d where c: "civil_of_days (t div 86400) = (y, m, d)"
    by (cases "civil_of_days (t div 86400)") auto
  note cd = civil_of_days_correct [OF c]
  have len: "month_len y m \<le> 31" by (simp add: month_len_def)
  have s: "0 \<le> t mod 86400" "t mod 86400 < 86400" by simp_all
  have sec: "0 \<le> s div 3600 \<and> s div 3600 \<le> 23 \<and> 0 \<le> s mod 3600 div 60 \<and> s mod 3600 div 60 \<le> 59"
    if "0 \<le> s" "s < 86400" for s :: int
  proof -
    have "s div 3600 < 24" using that by (simp add: div_less_iff_less_mult)
    moreover have "s mod 3600 div 60 < 60" by (simp add: div_less_iff_less_mult)
    ultimately show ?thesis using that by (simp add: pos_imp_zdiv_nonneg_iff)
  qed
  show "1 \<le> tm_mon (gmtime t)" "tm_mon (gmtime t) \<le> 12"
    "1 \<le> tm_mday (gmtime t)" "tm_mday (gmtime t) \<le> 31"
    using cd len by (simp_all add: gmtime_def c Let_def)
  show "0 \<le> tm_hour (gmtime t)" "tm_hour (gmtime t) \<le> 23"
    "0 \<le> tm_min (gmtime t)" "tm_min (gmtime t) \<le> 59"
    "0 \<le> tm_sec (gmtime t)" "tm_sec (gmtime t) \<le> 59"
    using sec [OF s] by (simp_all add: gmtime_def c Let_def)
qed


subsection \<open>\<open>toIsoUtc\<close> and \<open>parseIsoUtc\<close>\<close>

text \<open>\<open>strftime\<close> fields: \<open>%m\<close>, \<open>%d\<close>, \<open>%H\<close>, \<open>%M\<close>, \<open>%S\<close> are two digits wide.\<close>

definition two :: "int \<Rightarrow> string" where
  "two n = setw0 2 (dec_nat n)"

definition toIsoUtc :: "int \<Rightarrow> string" where
  "toIsoUtc t = (let x = gmtime t in
     dec_int (tm_year x) @ ''-'' @ two (tm_mon x) @ ''-'' @ two (tm_mday x) @ ''T'' @
     two (tm_hour x) @ '':'' @ two (tm_min x) @ '':'' @ two (tm_sec x) @ ''Z'')"

text \<open>
  \<open>sscanf\<close>: \<open>%d\<close> skips white space and reads an optionally signed run of digits;
  a literal character must match; \<open>%c\<close> reads any byte; \<open>%2d\<close> reads at most two
  characters.  \<open>None\<close> is a failed conversion.
\<close>

definition scan_digits :: "string \<Rightarrow> (int \<times> string) option" where
  "scan_digits s = (let ds = takeWhile isdigit s in
     if ds = [] then None else Some (digits_val ds, dropWhile isdigit s))"

definition scan_int :: "string \<Rightarrow> (int \<times> string) option" where
  "scan_int s = (case ltrim s of
       [] \<Rightarrow> None
     | c # cs \<Rightarrow>
         if c = CHR ''-'' then map_option (\<lambda>(n, r). (- n, r)) (scan_digits cs)
         else if c = CHR ''+'' then scan_digits cs
         else scan_digits (c # cs))"

text \<open>\<open>std::stoll\<close>: white space, a sign, digits; \<open>None\<close> when it throws.\<close>

definition stoll :: "string \<Rightarrow> int option" where
  "stoll s = (case scan_int s of
       None \<Rightarrow> None
     | Some (n, _) \<Rightarrow> if - (2 ^ 63) \<le> n \<and> n < 2 ^ 63 then Some n else None)"

text \<open>\<open>std::stoi\<close>, which refuses what does not fit an \<open>int\<close>.\<close>

definition stoi :: "string \<Rightarrow> int option" where
  "stoi s = (case stoll s of None \<Rightarrow> None | Some n \<Rightarrow> if n < - (2 ^ 31) \<or> 2 ^ 31 \<le> n then None else Some n)"

definition scan_lit :: "char \<Rightarrow> string \<Rightarrow> string option" where
  "scan_lit c s = (case s of [] \<Rightarrow> None | d # ds \<Rightarrow> if c = d then Some ds else None)"

text \<open>\<open>sscanf(s, "%d-%d-%d%c%d:%d:%d%n")\<close> with all seven conversions, and the rest of the input.\<close>

definition scan_datetime ::
    "string \<Rightarrow> (int \<times> int \<times> int \<times> char \<times> int \<times> int \<times> int \<times> string) option" where
  "scan_datetime s =
     (case scan_int s of None \<Rightarrow> None | Some (y, s1) \<Rightarrow>
     (case scan_lit (CHR ''-'') s1 of None \<Rightarrow> None | Some s2 \<Rightarrow>
     (case scan_int s2 of None \<Rightarrow> None | Some (mo, s3) \<Rightarrow>
     (case scan_lit (CHR ''-'') s3 of None \<Rightarrow> None | Some s4 \<Rightarrow>
     (case scan_int s4 of None \<Rightarrow> None | Some (d, s5) \<Rightarrow>
     (case s5 of [] \<Rightarrow> None | sep # s6 \<Rightarrow>
     (case scan_int s6 of None \<Rightarrow> None | Some (h, s7) \<Rightarrow>
     (case scan_lit (CHR '':'') s7 of None \<Rightarrow> None | Some s8 \<Rightarrow>
     (case scan_int s8 of None \<Rightarrow> None | Some (mi, s9) \<Rightarrow>
     (case scan_lit (CHR '':'') s9 of None \<Rightarrow> None | Some s10 \<Rightarrow>
     (case scan_int s10 of None \<Rightarrow> None | Some (se, s11) \<Rightarrow>
        Some (y, mo, d, sep, h, mi, se, s11))))))))))))"

text \<open>
  The zone after the seconds.  \<open>sscanf(ptr, "%d:%d", &tzHour, &tzMin) >= 1\<close> succeeds
  whenever there is a digit, so its first conversion takes every digit up to the colon
  and the \<open>%2d%2d\<close> branch below it never runs with something to read.
\<close>

definition tz_offset :: "string \<Rightarrow> int" where
  "tz_offset p =
     (case scan_int p of
        Some (h, r) \<Rightarrow>
          (case scan_lit (CHR '':'') r of
             None \<Rightarrow> h * 3600
           | Some r' \<Rightarrow>
               (case scan_int r' of None \<Rightarrow> h * 3600 | Some (mi, _) \<Rightarrow> h * 3600 + mi * 60))
      | None \<Rightarrow>
          (case scan_int (take 2 (ltrim p)) of
             None \<Rightarrow> 0
           | Some (h, _) \<Rightarrow>
               (case scan_int (take 2 (drop 2 (ltrim p))) of
                  None \<Rightarrow> h * 3600
                | Some (mi, _) \<Rightarrow> h * 3600 + mi * 60)))"

definition apply_zone :: "string \<Rightarrow> int \<Rightarrow> int" where
  "apply_zone rest t =
     (let p1 = (case rest of [] \<Rightarrow> [] | c # cs \<Rightarrow> if c = CHR ''.'' then dropWhile isdigit cs else c # cs);
          p2 = dropWhile (\<lambda>c. c = CHR '' '') p1
      in case p2 of [] \<Rightarrow> t
         | c # cs \<Rightarrow>
             if c = CHR ''Z'' \<or> c = CHR ''z'' then t
             else if c = CHR ''+'' then t - tz_offset cs
             else if c = CHR ''-'' then t + tz_offset cs
             else t)"

definition parseIsoUtc :: "string \<Rightarrow> int" where
  "parseIsoUtc stamp =
     (let s = dropWhile (\<lambda>c. code c \<in> {32, 9, 13, 10}) stamp in
      if s = [] then 0
      else case scan_datetime s of
        None \<Rightarrow> 0
      | Some (y, mo, d, sep, h, mi, se, rest) \<Rightarrow>
          if sep \<noteq> CHR ''T'' \<and> sep \<noteq> CHR ''t'' \<and> sep \<noteq> CHR '' '' then 0
          else if y < 1970 \<or> mo < 1 \<or> 12 < mo \<or> d < 1 \<or> 31 < d \<or>
                  h < 0 \<or> 23 < h \<or> mi < 0 \<or> 59 < mi \<or> se < 0 \<or> 60 < se then 0
          else
            let t = timegm \<lparr>tm_year = y, tm_mon = mo, tm_mday = d, tm_hour = h, tm_min = mi, tm_sec = se\<rparr>
            in if t = - 1 then 0 else apply_zone rest t)"

subsection \<open>Reading back what was printed\<close>

lemma scan_int_digits:
  assumes "all_digits ds" "ds \<noteq> []" "rest = [] \<or> \<not> isdigit (hd rest)"
  shows "scan_int (ds @ rest) = Some (digits_val ds, rest)"
proof -
  obtain c cs where ds: "ds = c # cs" using assms(2) by (cases ds) auto
  have c: "isdigit c" using assms(1) ds by simp
  then have "\<not> isspace c" "c \<noteq> CHR ''-''" "c \<noteq> CHR ''+''"
    by (auto simp: isdigit_def isspace_def code_def)
  moreover have "takeWhile isdigit (ds @ rest) = ds" "dropWhile isdigit (ds @ rest) = rest"
    using assms by (auto simp: list_all_iff takeWhile_append dropWhile_append
        takeWhile_eq_Nil_iff dropWhile_eq_self_iff)
  ultimately show ?thesis
    using ds by (simp add: scan_int_def ltrim_def scan_digits_def Let_def)
qed

lemma two_digits: "0 \<le> n \<Longrightarrow> all_digits (two n)"
  by (simp add: two_def setw0_digits dec_nat_digits)

lemma two_nonempty: "two n \<noteq> []"
  by (simp add: two_def setw0_def)

lemma two_val: "0 \<le> n \<Longrightarrow> digits_val (two n) = n"
  by (simp add: two_def setw0_val dec_nat_val)

lemma scan_two:
  "0 \<le> n \<Longrightarrow> rest = [] \<or> \<not> isdigit (hd rest) \<Longrightarrow> scan_int (two n @ rest) = Some (n, rest)"
  using scan_int_digits [of "two n" rest] by (simp add: two_digits two_nonempty two_val)

lemma not_digit_punct:
  "\<not> isdigit (CHR ''-'')" "\<not> isdigit (CHR '':'')" "\<not> isdigit (CHR ''T'')" "\<not> isdigit (CHR ''Z'')"
  by (simp_all add: isdigit_def code_def)

lemma scan_datetime_print:
  assumes "0 \<le> y" "0 \<le> mo" "0 \<le> d" "0 \<le> h" "0 \<le> mi" "0 \<le> se"
  shows "scan_datetime (dec_nat y @ ''-'' @ two mo @ ''-'' @ two d @ ''T'' @
           two h @ '':'' @ two mi @ '':'' @ two se @ ''Z'') = Some (y, mo, d, CHR ''T'', h, mi, se, ''Z'')"
proof -
  have y: "scan_int (dec_nat y @ CHR ''-'' # r) = Some (y, CHR ''-'' # r)" for r
    using scan_int_digits [of "dec_nat y" "CHR ''-'' # r"] assms
    by (simp add: dec_nat_digits dec_nat_val not_digit_punct)
  show ?thesis
    using assms by (simp add: scan_datetime_def y scan_two scan_lit_def not_digit_punct)
qed

lemma year_nonneg:
  assumes "0 \<le> t"
  shows "1970 \<le> tm_year (gmtime t)"
proof -
  obtain y m d where c: "civil_of_days (t div 86400) = (y, m, d)"
    by (cases "civil_of_days (t div 86400)") auto
  have y: "y = year_scan (year_guess (t div 86400)) (t div 86400)"
    using c by (auto simp: civil_of_days_def Let_def split: prod.splits)
  have "t div 86400 < days_before_year (y + 1)"
    using year_scan_bounds [OF year_guess_le [of "t div 86400"]] y by simp
  moreover have "0 \<le> t div 86400" using assms by (simp add: pos_imp_zdiv_nonneg_iff)
  moreover have "days_before_year (y + 1) \<le> 0" if "y < 1970"
    using that days_before_year_bounds(2) [of "y + 1 - 1970"] by (simp add: algebra_simps)
  ultimately have "1970 \<le> y" by linarith
  then show ?thesis by (simp add: gmtime_def c Let_def)
qed

text \<open>Every time stamp the program writes is read back as the same second, for every time
  from 1970 on: \<open>parseIsoUtc\<close> inverts \<open>toIsoUtc\<close>, leap years included.\<close>

theorem parseIsoUtc_toIsoUtc:
  assumes "0 \<le> t"
  shows "parseIsoUtc (toIsoUtc t) = t"
proof -
  let ?x = "gmtime t"
  note rng = gmtime_range [of t] and y = year_nonneg [OF assms]
  have y0: "0 \<le> tm_year ?x" using y by simp
  have print: "toIsoUtc t = dec_nat (tm_year ?x) @ ''-'' @ two (tm_mon ?x) @ ''-'' @
      two (tm_mday ?x) @ ''T'' @ two (tm_hour ?x) @ '':'' @ two (tm_min ?x) @ '':'' @
      two (tm_sec ?x) @ ''Z''"
    using y by (simp add: toIsoUtc_def dec_int_def Let_def)
  have scan: "scan_datetime (toIsoUtc t) = Some (tm_year ?x, tm_mon ?x, tm_mday ?x, CHR ''T'',
      tm_hour ?x, tm_min ?x, tm_sec ?x, ''Z'')"
    unfolding print using rng y by (intro scan_datetime_print) simp_all
  have "isdigit (hd (dec_nat (tm_year ?x)))"
    using dec_nat_digits [OF y0] by (cases "dec_nat (tm_year ?x)") auto
  then have h: "\<not> code (hd (toIsoUtc t)) \<in> {32, 9, 13, 10}"
    unfolding print by (auto simp: isdigit_def)
  have ne: "toIsoUtc t \<noteq> []" unfolding print by simp
  have drop: "dropWhile (\<lambda>c. code c \<in> {32, 9, 13, 10}) (toIsoUtc t) = toIsoUtc t"
    using h ne by (cases "toIsoUtc t") auto
  have tm: "\<lparr>tm_year = tm_year ?x, tm_mon = tm_mon ?x, tm_mday = tm_mday ?x, tm_hour = tm_hour ?x,
      tm_min = tm_min ?x, tm_sec = tm_sec ?x\<rparr> = ?x" by simp
  show ?thesis
    unfolding parseIsoUtc_def Let_def drop
    using ne rng y assms by (simp add: scan tm apply_zone_def)
qed

subsection \<open>\<open>newUuid\<close>\<close>

text \<open>
  The sixteen random bytes are the argument; the code stamps the version and the variant
  and prints two lower-case hex digits per byte with dashes after bytes 4, 6, 8 and 10.
\<close>

definition hex_char :: "nat \<Rightarrow> char" where
  "hex_char n = (if n < 10 then char_of (48 + n) else char_of (87 + n))"

definition hex2 :: "8 word \<Rightarrow> string" where
  "hex2 b = [hex_char (unat b div 16), hex_char (unat b mod 16)]"

definition uuid_stamp :: "8 word list \<Rightarrow> 8 word list" where
  "uuid_stamp b = b[6 := (b ! 6 AND 0x0F) OR 0x40, 8 := (b ! 8 AND 0x3F) OR 0x80]"

definition newUuid :: "8 word list \<Rightarrow> string" where
  "newUuid rnd = (let b = uuid_stamp rnd; hx = (\<lambda>xs. concat (map hex2 xs)) in
     hx (take 4 b) @ ''-'' @ hx (take 2 (drop 4 b)) @ ''-'' @ hx (take 2 (drop 6 b)) @ ''-'' @
     hx (take 2 (drop 8 b)) @ ''-'' @ hx (drop 10 b))"

lemma isxdigit_hex_char: "n < 16 \<Longrightarrow> isxdigit (hex_char n)"
  by (auto simp: hex_char_def isxdigit_def isdigit_def)

lemma hex2_props: "length (hex2 b) = 2" "list_all isxdigit (hex2 b)"
proof -
  have "unat b < 256" using unsigned_less [of b, where ?'a = nat] by simp
  then have "unat b div 16 < 16" "unat b mod 16 < 16" by (simp_all add: less_mult_imp_div_less)
  then show "length (hex2 b) = 2" "list_all isxdigit (hex2 b)"
    by (simp_all add: hex2_def isxdigit_hex_char)
qed

theorem parseIsoUtc_toIsoUtc_witness: "parseIsoUtc (toIsoUtc 1709210096) = 1709210096"
  by (rule parseIsoUtc_toIsoUtc) simp

text \<open>The shape of RFC 4122: hex digits in groups of 8, 4, 4, 4 and 12, version 4.\<close>

definition uuid_shape :: "string \<Rightarrow> bool" where
  "uuid_shape s \<longleftrightarrow> list_all2 (\<lambda>p c. p c)
     (replicate 8 isxdigit @ [\<lambda>c. c = CHR ''-''] @ replicate 4 isxdigit @ [\<lambda>c. c = CHR ''-''] @
      [\<lambda>c. c = CHR ''4''] @ replicate 3 isxdigit @ [\<lambda>c. c = CHR ''-''] @
      [\<lambda>c. c \<in> set ''89ab''] @ replicate 3 isxdigit @ [\<lambda>c. c = CHR ''-''] @ replicate 12 isxdigit) s"

lemma word_nibbles:
  fixes b :: "8 word"
  shows "unat ((b AND 0x0F) OR 0x40) div 16 = 4" "unat ((b AND 0x3F) OR 0x80) div 16 \<in> {8, 9, 10, 11}"
proof -
  have n: "unat b < 256" using unsigned_less [of b, where ?'a = nat] by simp
  have all: "\<forall>n \<in> set [0..<256]. unat (((word_of_nat n :: 8 word) AND 0x0F) OR 0x40) div 16 = 4
      \<and> unat (((word_of_nat n :: 8 word) AND 0x3F) OR 0x80) div 16 \<in> {8, 9, 10, 11}"
    by code_simp
  have "unat b \<in> set [0..<256]" using n by simp
  from bspec [OF all this]
  show "unat ((b AND 0x0F) OR 0x40) div 16 = 4" "unat ((b AND 0x3F) OR 0x80) div 16 \<in> {8, 9, 10, 11}"
    by simp_all
qed

lemma isxdigit_nibbles [simp]:
  "isxdigit (hex_char (unat (b :: 8 word) div 16))" "isxdigit (hex_char (unat (b :: 8 word) mod 16))"
proof -
  have "unat b < 256" using unsigned_less [of b, where ?'a = nat] by simp
  then show "isxdigit (hex_char (unat b div 16))" "isxdigit (hex_char (unat b mod 16))"
    by (intro isxdigit_hex_char; simp add: less_mult_imp_div_less)+
qed

lemma hex_char_eq: "hex_char 4 = CHR ''4''" "hex_char 8 = CHR ''8''" "hex_char 9 = CHR ''9''"
  "hex_char 10 = CHR ''a''" "hex_char 11 = CHR ''b''"
  by (simp_all add: hex_char_def code_eq_iff [symmetric]) (simp_all add: code_def)

lemma hex_char_variant: "n \<in> {8, 9, 10, 11} \<Longrightarrow> hex_char n \<in> set ''89ab''"
  by (elim insertE) (simp_all add: hex_char_eq)

lemma list_16:
  assumes "length xs = 16"
  obtains a b c d e f g h i j k l m n p q where "xs = [a, b, c, d, e, f, g, h, i, j, k, l, m, n, p, q]"
  using assms by (auto simp: numeral_eq_Suc length_Suc_conv)

text \<open>Sixteen random bytes always give an identifier of the RFC 4122 shape: 36 bytes,
  dashes at 8, 13, 18 and 23, hex digits elsewhere, version 4, variant 8, 9, a or b.\<close>

theorem newUuid_shape:
  assumes "length rnd = 16"
  shows "uuid_shape (newUuid rnd)"
proof (rule list_16 [OF assms])
  fix a b c d e f g h i j k l m n p q
  assume r: "rnd = [a, b, c, d, e, f, g, h, i, j, k, l, m, n, p, q]"
  let ?g = "(g AND 0x0F) OR 0x40" and ?i = "(i AND 0x3F) OR 0x80"
  have st: "uuid_stamp rnd = [a, b, c, d, e, f, ?g, h, ?i, j, k, l, m, n, p, q]"
    by (simp add: uuid_stamp_def r)
  have u: "newUuid rnd = concat (map hex2 [a, b, c, d]) @ ''-'' @ concat (map hex2 [e, f]) @ ''-'' @
      concat (map hex2 [?g, h]) @ ''-'' @ concat (map hex2 [?i, j]) @ ''-'' @
      concat (map hex2 [k, l, m, n, p, q])"
    unfolding newUuid_def Let_def st by (simp add: numeral_eq_Suc)
  have "hex_char (unat ?g div 16) = CHR ''4''" "hex_char (unat ?i div 16) \<in> set ''89ab''"
    using word_nibbles(1) [of g] hex_char_variant [OF word_nibbles(2) [of i]] by (simp_all only: hex_char_eq)
  moreover have "replicate 8 isxdigit = [isxdigit, isxdigit, isxdigit, isxdigit, isxdigit, isxdigit, isxdigit, isxdigit]" "replicate 4 isxdigit = [isxdigit, isxdigit, isxdigit, isxdigit]"
    "replicate 3 isxdigit = [isxdigit, isxdigit, isxdigit]"
    "replicate 12 isxdigit = [isxdigit, isxdigit, isxdigit, isxdigit, isxdigit, isxdigit, isxdigit, isxdigit, isxdigit, isxdigit, isxdigit, isxdigit]"
    by (simp_all add: numeral_eq_Suc)
  ultimately show ?thesis
    unfolding u uuid_shape_def hex2_def
    by (simp only: list.map concat.simps append.simps list.rel_inject
        list.rel_intros(1) isxdigit_nibbles simp_thms)
qed

theorem newUuid_shape_witness: "uuid_shape (newUuid (replicate 16 0xFF))"
  by (rule newUuid_shape) simp

end
