(* ===== verification/Worker_Auth.thy ===== *)
theory Worker_Auth
  imports Sys_Time
begin

text \<open>
  Who may call the service: CanonicalRequestHelper.cpp, NonceCache.cpp and the filters
  UserOrWorkerFilter.cpp, OptionalUserOrWorkerFilter.cpp, JwtAuthFilter.cpp and
  AdminRoleFilter.cpp.  The cryptographic functions (SHA-256 in hex, HMAC-SHA256 in
  base64, the verification of a JSON Web Token) are arguments.  The clock is an integer
  number of milliseconds; the source divides it by 1000.0 for the cache and truncates it
  to seconds for the drift check.
\<close>

subsection \<open>CanonicalRequestHelper.cpp\<close>

definition buildCanonicalString ::
    "(string \<Rightarrow> string) \<Rightarrow> string \<Rightarrow> string \<Rightarrow> string \<Rightarrow> string \<Rightarrow> string \<Rightarrow> string" where
  "buildCanonicalString sha meth pathAndQuery timestamp nonce body =
     upper meth @ [nl] @ (if pathAndQuery = [] then ''/'' else pathAndQuery) @ [nl] @
     timestamp @ [nl] @ nonce @ [nl] @ sha body"

definition safeCompare :: "string \<Rightarrow> string \<Rightarrow> bool" where
  "safeCompare a b \<longleftrightarrow> (if length a \<noteq> length b then False else a = b)"

subsection \<open>NonceCache.cpp\<close>

type_synonym nonce_cache = "string \<Rightarrow> int option"

definition prune :: "int \<Rightarrow> nonce_cache \<Rightarrow> nonce_cache" where
  "prune now cache = (\<lambda>k. case cache k of None \<Rightarrow> None | Some e \<Rightarrow> if e < now then None else Some e)"

definition cacheKey :: "string \<Rightarrow> string \<Rightarrow> string" where
  "cacheKey keyId nonce = ''nonce:'' @ keyId @ '':'' @ nonce"

definition tryAddNonce :: "string \<Rightarrow> string \<Rightarrow> int \<Rightarrow> int \<Rightarrow> nonce_cache \<Rightarrow> bool \<times> nonce_cache" where
  "tryAddNonce keyId nonce ttl now cache =
     (if keyId = [] \<or> nonce = [] then (False, cache)
      else let c = prune now cache; k = cacheKey keyId nonce in
        case c k of
          Some e \<Rightarrow> if now \<le> e then (False, c) else (True, c(k \<mapsto> now + ttl))
        | None \<Rightarrow> (True, c(k \<mapsto> now + ttl)))"

subsection \<open>The filters\<close>

record auth_config =
  ac_workerKeyId :: string
  ac_workerSecretKey :: string
  ac_workerTenantId :: string

record auth_request =
  rq_authorization :: string
  rq_workerKeyId :: string
  rq_timestamp :: string
  rq_nonce :: string
  rq_signature :: string
  rq_method :: string
  rq_path :: string
  rq_query :: string
  rq_body :: string

record identity =
  id_userId :: string
  id_username :: string
  id_role :: string
  id_tenantId :: string
  id_workerKeyId :: "string option"
  id_clientType :: string

datatype denial =
    InvalidToken string
  | MalformedAuthorization
  | MissingWorkerHeaders
  | InvalidTimestamp
  | TimestampDrift int
  | WorkerNotConfigured
  | UnknownKeyId
  | BadSignature
  | NonceReplayed
  | MissingCredentials

text \<open>
  A verified token: the value of a claim is absent (\<open>None\<close>), not a string (\<open>Some None\<close>,
  on which \<open>as_string\<close> throws) or a string.
\<close>

type_synonym claims = "string \<Rightarrow> string option option"

definition getClaim :: "claims \<Rightarrow> string \<Rightarrow> string option" where
  "getClaim cl name = (case cl name of None \<Rightarrow> Some [] | Some v \<Rightarrow> v)"

definition bearer :: string where
  "bearer = ''Bearer ''"

definition has_bearer :: "string \<Rightarrow> bool" where
  "has_bearer auth \<longleftrightarrow> length bearer < length auth \<and> take (length bearer) auth = bearer"

definition user_identity :: "claims \<Rightarrow> identity option" where
  "user_identity cl =
     (case (getClaim cl ''nameid'', getClaim cl ''name'', getClaim cl ''role'', getClaim cl ''tenant_id'') of
        (Some i, Some n, Some r, Some t) \<Rightarrow>
          Some \<lparr> id_userId = i, id_username = n, id_role = r,
            id_tenantId = (if t = [] then ''default-tenant'' else t),
            id_workerKeyId = None, id_clientType = ''user'' \<rparr>
      | _ \<Rightarrow> None)"

definition jwt_check ::
    "(string \<Rightarrow> string + claims) \<Rightarrow> string \<Rightarrow> denial + identity" where
  "jwt_check verify_jwt auth = (case verify_jwt (drop (length bearer) auth) of
       Inl what \<Rightarrow> Inl (InvalidToken what)
     | Inr cl \<Rightarrow> (case user_identity cl of
         None \<Rightarrow> Inl (InvalidToken ''std::bad_cast'')
       | Some ident \<Rightarrow> Inr ident))"

definition worker_identity :: "auth_config \<Rightarrow> identity" where
  "worker_identity cfg = \<lparr> id_userId = ac_workerKeyId cfg, id_username = ''Worker:'' @ ac_workerKeyId cfg,
     id_role = ''Worker'', id_tenantId = ac_workerTenantId cfg,
     id_workerKeyId = Some (ac_workerKeyId cfg), id_clientType = ''worker'' \<rparr>"

definition request_signature :: "(string \<Rightarrow> string) \<Rightarrow> (string \<Rightarrow> string \<Rightarrow> string) \<Rightarrow> auth_config \<Rightarrow> auth_request \<Rightarrow> string" where
  "request_signature sha hmac cfg rq =
     hmac (ac_workerSecretKey cfg)
       (buildCanonicalString sha (rq_method rq)
          (if rq_query rq \<noteq> [] then rq_path rq @ ''?'' @ rq_query rq else rq_path rq)
          (rq_timestamp rq) (rq_nonce rq) (rq_body rq))"

abbreviation any_worker_header :: "auth_request \<Rightarrow> bool" where
  "any_worker_header rq \<equiv> rq_workerKeyId rq \<noteq> [] \<or> rq_timestamp rq \<noteq> [] \<or> rq_nonce rq \<noteq> [] \<or> rq_signature rq \<noteq> []"

text \<open>The worker branch, up to the nonce; the cache is touched only by the last step.\<close>

definition worker_precheck ::
    "(string \<Rightarrow> string) \<Rightarrow> (string \<Rightarrow> string \<Rightarrow> string) \<Rightarrow> auth_config \<Rightarrow> int \<Rightarrow> auth_request \<Rightarrow> denial option" where
  "worker_precheck sha hmac cfg now rq =
     (if rq_workerKeyId rq = [] \<or> rq_timestamp rq = [] \<or> rq_nonce rq = [] \<or> rq_signature rq = []
      then Some MissingWorkerHeaders
      else case stoll (rq_timestamp rq) of
        None \<Rightarrow> Some InvalidTimestamp
      | Some clientTs \<Rightarrow>
          let drift = \<bar>now div 1000 - clientTs\<bar> in
          if 300 < drift then Some (TimestampDrift drift)
          else if ac_workerKeyId cfg = [] then Some WorkerNotConfigured
          else if rq_workerKeyId rq \<noteq> ac_workerKeyId cfg then Some UnknownKeyId
          else if \<not> safeCompare (request_signature sha hmac cfg rq) (rq_signature rq) then Some BadSignature
          else None)"

definition worker_check ::
    "(string \<Rightarrow> string) \<Rightarrow> (string \<Rightarrow> string \<Rightarrow> string) \<Rightarrow> auth_config \<Rightarrow> int \<Rightarrow> auth_request \<Rightarrow> nonce_cache
     \<Rightarrow> (denial + identity) \<times> nonce_cache" where
  "worker_check sha hmac cfg now rq cache = (case worker_precheck sha hmac cfg now rq of
       Some d \<Rightarrow> (Inl d, cache)
     | None \<Rightarrow> (case tryAddNonce (rq_workerKeyId rq) (rq_nonce rq) 300000 now cache of
           (False, c) \<Rightarrow> (Inl NonceReplayed, c)
         | (True, c) \<Rightarrow> (Inr (worker_identity cfg), c)))"

definition userOrWorkerFilter ::
    "(string \<Rightarrow> string) \<Rightarrow> (string \<Rightarrow> string \<Rightarrow> string) \<Rightarrow> (string \<Rightarrow> string + claims) \<Rightarrow> auth_config
     \<Rightarrow> int \<Rightarrow> auth_request \<Rightarrow> nonce_cache \<Rightarrow> (denial + identity) \<times> nonce_cache" where
  "userOrWorkerFilter sha hmac verify_jwt cfg now rq cache =
     (if has_bearer (rq_authorization rq) then (jwt_check verify_jwt (rq_authorization rq), cache)
      else if any_worker_header rq then worker_check sha hmac cfg now rq cache
      else (Inl MissingCredentials, cache))"

definition anonymous_identity :: identity where
  "anonymous_identity = \<lparr> id_userId = [], id_username = [], id_role = [], id_tenantId = [],
     id_workerKeyId = None, id_clientType = ''anonymous'' \<rparr>"

definition optionalUserOrWorkerFilter ::
    "(string \<Rightarrow> string) \<Rightarrow> (string \<Rightarrow> string \<Rightarrow> string) \<Rightarrow> (string \<Rightarrow> string + claims) \<Rightarrow> auth_config
     \<Rightarrow> int \<Rightarrow> auth_request \<Rightarrow> nonce_cache \<Rightarrow> (denial + identity) \<times> nonce_cache" where
  "optionalUserOrWorkerFilter sha hmac verify_jwt cfg now rq cache =
     (if rq_authorization rq \<noteq> [] then
        (if has_bearer (rq_authorization rq) then (jwt_check verify_jwt (rq_authorization rq), cache)
         else (Inl MalformedAuthorization, cache))
      else if any_worker_header rq then worker_check sha hmac cfg now rq cache
      else (Inr anonymous_identity, cache))"

text \<open>JwtAuthFilter.cpp sets three attributes; AdminRoleFilter.cpp reads one of them.\<close>

definition jwtAuthFilter ::
    "(string \<Rightarrow> string + claims) \<Rightarrow> string \<Rightarrow> denial + string \<times> string \<times> string" where
  "jwtAuthFilter verify_jwt auth =
     (if \<not> has_bearer auth then Inl MalformedAuthorization
      else case verify_jwt (drop (length bearer) auth) of
        Inl what \<Rightarrow> Inl (InvalidToken what)
      | Inr cl \<Rightarrow> (case (getClaim cl ''nameid'', getClaim cl ''name'', getClaim cl ''role'') of
            (Some i, Some n, Some r) \<Rightarrow> Inr (i, n, r)
          | _ \<Rightarrow> Inl (InvalidToken ''std::bad_cast'')))"

definition adminRoleFilter :: "string option \<Rightarrow> bool" where
  "adminRoleFilter role \<longleftrightarrow> value_or role [] = ''Admin''"

subsection \<open>Sequences of requests\<close>

record auth_call =
  cl_optional :: bool
  cl_time :: int
  cl_request :: auth_request

definition auth_step ::
    "(string \<Rightarrow> string) \<Rightarrow> (string \<Rightarrow> string \<Rightarrow> string) \<Rightarrow> (string \<Rightarrow> string + claims) \<Rightarrow> auth_config
     \<Rightarrow> auth_call \<Rightarrow> nonce_cache \<Rightarrow> (denial + identity) \<times> nonce_cache" where
  "auth_step sha hmac verify_jwt cfg cl cache =
     (if cl_optional cl then optionalUserOrWorkerFilter sha hmac verify_jwt cfg (cl_time cl) (cl_request cl) cache
      else userOrWorkerFilter sha hmac verify_jwt cfg (cl_time cl) (cl_request cl) cache)"

definition auth_run ::
    "(string \<Rightarrow> string) \<Rightarrow> (string \<Rightarrow> string \<Rightarrow> string) \<Rightarrow> (string \<Rightarrow> string + claims) \<Rightarrow> auth_config
     \<Rightarrow> auth_call list \<Rightarrow> nonce_cache \<Rightarrow> nonce_cache" where
  "auth_run sha hmac verify_jwt cfg cls cache =
     foldl (\<lambda>c cl. snd (auth_step sha hmac verify_jwt cfg cl c)) cache cls"

lemma prune_keeps: "cache k = Some e \<Longrightarrow> now \<le> e \<Longrightarrow> prune now cache k = Some e"
  by (simp add: prune_def)

lemma tryAddNonce_keeps:
  "cache k = Some e \<Longrightarrow> now \<le> e \<Longrightarrow> snd (tryAddNonce i n ttl now cache) k = Some e"
  by (cases "cacheKey i n = k")
    (auto simp: tryAddNonce_def Let_def prune_keeps split: option.splits)

lemma tryAddNonce_accept:
  "tryAddNonce i n ttl now cache = (True, c) \<Longrightarrow> c (cacheKey i n) = Some (now + ttl)"
  by (auto simp: tryAddNonce_def Let_def split: option.splits if_splits)

lemma worker_check_keeps:
  "cache k = Some e \<Longrightarrow> now \<le> e \<Longrightarrow> snd (worker_check sha hmac cfg now rq cache) k = Some e"
  using tryAddNonce_keeps [of cache k e now "rq_workerKeyId rq" "rq_nonce rq" 300000]
  by (auto simp: worker_check_def split: option.splits prod.splits bool.splits)

lemma auth_step_keeps:
  "cache k = Some e \<Longrightarrow> cl_time cl \<le> e \<Longrightarrow> snd (auth_step sha hmac verify_jwt cfg cl cache) k = Some e"
  by (simp add: auth_step_def userOrWorkerFilter_def optionalUserOrWorkerFilter_def worker_check_keeps)

lemma auth_run_keeps:
  assumes "cache k = Some e" "\<forall>cl \<in> set cls. cl_time cl \<le> e"
  shows "auth_run sha hmac verify_jwt cfg cls cache k = Some e"
  using assms
proof (induction cls arbitrary: cache)
  case (Cons cl cls)
  have "snd (auth_step sha hmac verify_jwt cfg cl cache) k = Some e"
    by (rule auth_step_keeps) (use Cons.prems in simp_all)
  then show ?case using Cons.IH Cons.prems(2) by (simp add: auth_run_def)
qed (simp add: auth_run_def)

lemma worker_precheck_none:
  assumes "worker_precheck sha hmac cfg now rq = None"
  shows "\<exists>c. stoll (rq_timestamp rq) = Some c \<and> \<bar>now div 1000 - c\<bar> \<le> 300"
    "rq_workerKeyId rq = ac_workerKeyId cfg" "rq_workerKeyId rq \<noteq> []" "rq_nonce rq \<noteq> []"
    "rq_signature rq = request_signature sha hmac cfg rq"
  using assms by (auto simp: worker_precheck_def Let_def safeCompare_def split: option.splits if_splits)

lemma auth_step_worker:
  assumes "auth_step sha hmac verify_jwt cfg cl cache = (Inr ident, cache')" "id_clientType ident = ''worker''"
    and "rq_authorization (cl_request cl) = []"
  shows "worker_precheck sha hmac cfg (cl_time cl) (cl_request cl) = None"
    "tryAddNonce (rq_workerKeyId (cl_request cl)) (rq_nonce (cl_request cl)) 300000 (cl_time cl) cache = (True, cache')"
    "ident = worker_identity cfg"
  using assms
  by (auto simp: auth_step_def userOrWorkerFilter_def optionalUserOrWorkerFilter_def worker_check_def
      has_bearer_def bearer_def anonymous_identity_def
      split: if_splits option.splits prod.splits bool.splits)

subsection \<open>Properties\<close>

lemma split_at_nl:
  assumes "a @ [nl] @ x = b @ [nl] @ y" "nl \<notin> set a" "nl \<notin> set b"
  shows "a = b \<and> x = y"
proof -
  have "takeWhile (\<lambda>c. c \<noteq> nl) (a @ [nl] @ x) = a" using assms(2) by (induction a) auto
  moreover have "takeWhile (\<lambda>c. c \<noteq> nl) (b @ [nl] @ y) = b" using assms(3) by (induction b) auto
  ultimately show ?thesis using assms(1) by auto
qed

lemma toupper_nl: "toupper c = nl \<Longrightarrow> c = nl"
proof (rule ccontr)
  assume a: "toupper c = nl" "c \<noteq> nl"
  then have l: "islower c" by (auto simp: toupper_def split: if_splits)
  then have "code c - 32 < 256" using code_less [of c] by linarith
  then have "code (toupper c) = code c - 32" using l by (simp add: toupper_def)
  then show False using l a(1) by (auto simp: islower_def nl_def code_def)
qed

lemma nl_upper: "nl \<notin> set s \<Longrightarrow> nl \<notin> set (upper s)"
  by (auto dest: toupper_nl [OF sym])

text \<open>What a worker signs pins down the request: for two requests whose method, path,
  time stamp and nonce hold no line break (no HTTP header or path does), equal canonical
  strings mean the same method up to case, the same path and query, the same time stamp and
  nonce, and bodies with the same SHA-256.\<close>

theorem canonical_string_injective:
  assumes "buildCanonicalString sha m1 p1 t1 n1 b1 = buildCanonicalString sha m2 p2 t2 n2 b2"
    and "nl \<notin> set (m1 @ p1 @ t1 @ n1)" "nl \<notin> set (m2 @ p2 @ t2 @ n2)"
  shows "upper m1 = upper m2 \<and> (if p1 = [] then ''/'' else p1) = (if p2 = [] then ''/'' else p2)
    \<and> t1 = t2 \<and> n1 = n2 \<and> sha b1 = sha b2"
proof -
  have p: "nl \<notin> set (if p1 = [] then ''/'' else p1)" "nl \<notin> set (if p2 = [] then ''/'' else p2)"
    using assms(2,3) by (auto simp: nl_def)
  have m: "nl \<notin> set (upper m1)" "nl \<notin> set (upper m2)" using assms(2,3) by (intro nl_upper; simp)+
  note 1 = split_at_nl [OF assms(1) [unfolded buildCanonicalString_def] m]
  note 2 = split_at_nl [OF 1 [THEN conjunct2] p]
  have tn: "nl \<notin> set t1" "nl \<notin> set t2" "nl \<notin> set n1" "nl \<notin> set n2" using assms(2,3) by auto
  note 3 = split_at_nl [OF 2 [THEN conjunct2] tn(1,2)]
  note 4 = split_at_nl [OF 3 [THEN conjunct2] tn(3,4)]
  show ?thesis using 1 2 3 4 by blast
qed

theorem canonical_string_injective_witness:
  "buildCanonicalString id ''post'' [] ''1'' ''n'' ''b'' = buildCanonicalString id ''POST'' ''/'' ''1'' ''n'' ''b''
   \<and> upper ''post'' = upper ''POST''"
proof -
  have e: "buildCanonicalString id ''post'' [] ''1'' ''n'' ''b'' = buildCanonicalString id ''POST'' ''/'' ''1'' ''n'' ''b''"
    by code_simp
  show ?thesis using e canonical_string_injective [OF e] by (simp add: nl_def)
qed


definition demo_cfg :: auth_config where
  "demo_cfg = \<lparr> ac_workerKeyId = ''w1'', ac_workerSecretKey = ''s'', ac_workerTenantId = ''t1'' \<rparr>"

definition demo_signed_request :: "string \<Rightarrow> auth_request" where
  "demo_signed_request ts = \<lparr> rq_authorization = [], rq_workerKeyId = ''w1'', rq_timestamp = ts, rq_nonce = ''n1'',
     rq_signature = ''sig'', rq_method = ''POST'', rq_path = ''/api'', rq_query = [], rq_body = ''b'' \<rparr>"

definition demo_call :: "int \<Rightarrow> string \<Rightarrow> auth_call" where
  "demo_call t ts = \<lparr> cl_optional = False, cl_time = t, cl_request = demo_signed_request ts \<rparr>"

abbreviation demo_step :: "auth_call \<Rightarrow> nonce_cache \<Rightarrow> (denial + identity) \<times> nonce_cache" where
  "demo_step \<equiv> auth_step (\<lambda>_. ''h'') (\<lambda>_ _. ''sig'') (\<lambda>_. Inl ''bad'') demo_cfg"

lemma demo_stoll: "stoll ''1000'' = Some 1000" "stoll ''1300'' = Some 1300"
  by code_simp+

lemmas demo_defs = auth_step_def userOrWorkerFilter_def worker_check_def worker_precheck_def demo_call_def
  demo_signed_request_def demo_cfg_def has_bearer_def bearer_def safeCompare_def request_signature_def
  tryAddNonce_def prune_def Let_def demo_stoll worker_identity_def

lemma demo_accept:
  "demo_step (demo_call 1001000 ''1000'') (\<lambda>_. None) =
     (Inr (worker_identity demo_cfg), [cacheKey ''w1'' ''n1'' \<mapsto> 1301000])"
  by (simp add: demo_defs)




text \<open>A worker whose clock runs ahead can be replayed: a request accepted with a time stamp
  300 seconds in the future is accepted a second time, with the same nonce and signature, as
  soon as the 300 seconds of the nonce are over, although its time stamp is then still
  fresh.\<close>

theorem future_timestamp_is_replayable:
  "let (r1, c1) = demo_step (demo_call 1000000 ''1300'') (\<lambda>_. None);
       (r2, c2) = demo_step (demo_call 1300001 ''1300'') c1
   in r1 = Inr (worker_identity demo_cfg) \<and> r2 = Inr (worker_identity demo_cfg)"
  by (simp add: demo_defs)

text \<open>Without any credentials the strict filter refuses and the optional one lets the caller
  in as anonymous, with no tenant and no role; neither touches the nonces.\<close>

theorem no_credentials:
  assumes "rq_authorization rq = []" "rq_workerKeyId rq = []" "rq_timestamp rq = []"
    and "rq_nonce rq = []" "rq_signature rq = []"
  shows "userOrWorkerFilter sha hmac verify_jwt cfg now rq cache = (Inl MissingCredentials, cache)
    \<and> optionalUserOrWorkerFilter sha hmac verify_jwt cfg now rq cache = (Inr anonymous_identity, cache)"
  using assms by (simp add: userOrWorkerFilter_def optionalUserOrWorkerFilter_def has_bearer_def)

theorem no_credentials_witness:
  "fst (optionalUserOrWorkerFilter id (\<lambda>_ _. []) (\<lambda>_. Inl []) demo_cfg 0
     ((demo_signed_request []) \<lparr> rq_workerKeyId := [], rq_nonce := [], rq_signature := [] \<rparr>) (\<lambda>_. None)) = Inr anonymous_identity"
  using no_credentials [of "(demo_signed_request []) \<lparr> rq_workerKeyId := [], rq_nonce := [], rq_signature := [] \<rparr>"]
  by (simp add: demo_signed_request_def)

end
