(* ===== verification/Xml_Text.thy ===== *)
theory Xml_Text
  imports Ecf_Prelude
begin

text \<open>
  The text layer under every XML the program writes: the three escaping functions of the
  sources (CanonicalXmlBuilder.cpp, EmisorReceptorController.cpp and
  EcfXmlSerializer.cpp), \<open>truncateUtf8\<close>, and the lines an \<open>ostringstream\<close> receives,
  kept as values (\<open>xline\<close>) and rendered to the exact bytes by \<open>render\<close>.  The locale
  \<open>xml_escaper\<close> is the contract of the escaping functions: no markup character
  survives, and an XML reader gets back the text less the stripped bytes.
\<close>

named_theorems xml_nest \<open>segments of a document that leave the element stack as they found it\<close>

subsection \<open>Escaping in CanonicalXmlBuilder.cpp\<close>

definition is_ctrl :: "char \<Rightarrow> bool" where
  "is_ctrl c \<longleftrightarrow> code c < 0x20 \<and> code c \<noteq> 0x09 \<and> code c \<noteq> 0x0A \<and> code c \<noteq> 0x0D"

text \<open>The bytes at \<open>i+1\<close> (and \<open>i+2\<close>), tested only when they exist.\<close>

definition next_is :: "nat list \<Rightarrow> string \<Rightarrow> bool" where
  "next_is ns cs \<longleftrightarrow> take (length ns) (map code cs) = ns"

function escapeXml :: "string \<Rightarrow> string" where
  "escapeXml [] = []"
| "escapeXml (c # cs) =
     (if is_ctrl c then escapeXml cs
      else if c = CHR ''&'' then ''&amp;'' @ escapeXml cs
      else if c = CHR ''<'' then ''&lt;'' @ escapeXml cs
      else if c = CHR ''>'' then ''&gt;'' @ escapeXml cs
      else if c = CHR 0x22 then ''&quot;'' @ escapeXml cs
      else if c = CHR 0x27 then ''&apos;'' @ escapeXml cs
      else if code c = 0xC2 \<and> next_is [0xA9] cs then ''&#169;'' @ escapeXml (drop 1 cs)
      else if code c = 0xC2 \<and> next_is [0xAE] cs then ''&#174;'' @ escapeXml (drop 1 cs)
      else if code c = 0xE2 \<and> next_is [0x82, 0xAC] cs then ''&#8364;'' @ escapeXml (drop 2 cs)
      else c # escapeXml cs)"
  by pat_completeness auto
termination by (relation "measure length") auto

subsection \<open>Escaping in the other two files\<close>

text \<open>EmisorReceptorController.cpp: the five predefined entities, nothing stripped.\<close>

primrec receptor_escapeXml :: "string \<Rightarrow> string" where
  "receptor_escapeXml [] = []"
| "receptor_escapeXml (c # cs) =
     (if c = CHR ''&'' then ''&amp;''
      else if c = CHR ''<'' then ''&lt;''
      else if c = CHR ''>'' then ''&gt;''
      else if c = CHR 0x22 then ''&quot;''
      else if c = CHR 0x27 then ''&apos;''
      else [c]) @ receptor_escapeXml cs"

text \<open>EcfXmlSerializer.cpp: control characters and DEL are stripped first.\<close>

primrec serializer_xmlEscape :: "string \<Rightarrow> string" where
  "serializer_xmlEscape [] = []"
| "serializer_xmlEscape (c # cs) =
     (if is_ctrl c then []
      else if code c = 0x7F then []
      else if c = CHR ''&'' then ''&amp;''
      else if c = CHR ''<'' then ''&lt;''
      else if c = CHR ''>'' then ''&gt;''
      else if c = CHR 0x22 then ''&quot;''
      else if c = CHR 0x27 then ''&apos;''
      else [c]) @ serializer_xmlEscape cs"

subsection \<open>What an XML reader makes of character data\<close>

text \<open>
  The predefined entities and the character references that occur in the sources, decoded
  to UTF-8 as an XML processor does.
\<close>

function xml_unescape :: "string \<Rightarrow> string" where
  "xml_unescape [] = []"
| "xml_unescape (c # cs) =
     (if c \<noteq> CHR ''&'' then c # xml_unescape cs
      else if prefix ''amp;'' cs then CHR ''&'' # xml_unescape (drop 4 cs)
      else if prefix ''lt;'' cs then CHR ''<'' # xml_unescape (drop 3 cs)
      else if prefix ''gt;'' cs then CHR ''>'' # xml_unescape (drop 3 cs)
      else if prefix ''quot;'' cs then CHR 0x22 # xml_unescape (drop 5 cs)
      else if prefix ''apos;'' cs then CHR 0x27 # xml_unescape (drop 5 cs)
      else if prefix ''#169;'' cs then [CHR 0xC2, CHR 0xA9] @ xml_unescape (drop 5 cs)
      else if prefix ''#174;'' cs then [CHR 0xC2, CHR 0xAE] @ xml_unescape (drop 5 cs)
      else if prefix ''#8364;'' cs then [CHR 0xE2, CHR 0x82, CHR 0xAC] @ xml_unescape (drop 6 cs)
      else c # xml_unescape cs)"
  by pat_completeness auto
termination by (relation "measure length") auto

definition markup :: "char \<Rightarrow> bool" where
  "markup c \<longleftrightarrow> c \<in> {CHR ''<'', CHR ''>'', CHR 0x22, CHR 0x27}"

definition xml_safe :: "string \<Rightarrow> bool" where
  "xml_safe s \<longleftrightarrow> list_all (\<lambda>c. \<not> markup c) s"

lemma xml_safe_Nil [simp]: "xml_safe []"
  by (simp add: xml_safe_def)

lemma xml_safe_append [simp]: "xml_safe (s @ t) \<longleftrightarrow> xml_safe s \<and> xml_safe t"
  by (simp add: xml_safe_def)

lemma xml_safe_Cons [simp]: "xml_safe (c # s) \<longleftrightarrow> \<not> markup c \<and> xml_safe s"
  by (simp add: xml_safe_def)

lemma markup_simps [simp]:
  "\<not> markup (CHR ''&'')" "\<not> markup (CHR '';'')" "\<not> markup (CHR ''#'')"
  by (simp_all add: markup_def)

lemma markup_alnum [simp]: "isalnum c \<Longrightarrow> \<not> markup c"
  by (auto simp: markup_def isalnum_def isalpha_def isupper_def islower_def isdigit_def code_def)

lemma isdigit_not_markup [ecf_chars]: "isdigit c \<Longrightarrow> \<not> markup c"
  by (simp add: isalnum_def)

lemma xml_safe_digits: "all_digits s \<Longrightarrow> xml_safe s"
  by (auto simp: xml_safe_def list_all_iff isdigit_not_markup)

locale xml_escaper =
  fixes esc :: "string \<Rightarrow> string"
    and keep :: "char \<Rightarrow> bool"
  assumes esc_safe: "xml_safe (esc s)"
    and esc_read: "xml_unescape (esc s) = filter keep s"
begin

lemma esc_Nil_iff: "esc s = [] \<Longrightarrow> filter keep s = []"
  using esc_read [of s] by simp

lemma esc_inj_kept: "esc s = esc t \<Longrightarrow> filter keep s = filter keep t"
  by (metis esc_read)

lemma esc_read_clean: "list_all keep s \<Longrightarrow> xml_unescape (esc s) = s"
  by (simp add: esc_read list_all_iff)

lemma esc_no_markup: "c \<in> set (esc s) \<Longrightarrow> \<not> markup c"
  using esc_safe [of s] by (auto simp: xml_safe_def list_all_iff)

end

subsection \<open>The three escaping functions meet the contract\<close>

abbreviation entity_char :: "char \<Rightarrow> bool" where
  "entity_char c \<equiv> c \<in> {CHR ''&'', CHR ''<'', CHR ''>'', CHR 0x22, CHR 0x27}"

lemma code_CHR: "code c = n \<Longrightarrow> c = char_of n"
  by (auto simp: code_def)

lemma char_of_bytes:
  "char_of (0xC2 :: nat) = CHR 0xC2" "char_of (0xA9 :: nat) = CHR 0xA9"
  "char_of (0xAE :: nat) = CHR 0xAE" "char_of (0xE2 :: nat) = CHR 0xE2"
  "char_of (0x82 :: nat) = CHR 0x82" "char_of (0xAC :: nat) = CHR 0xAC"
  by (simp_all add: code_eq_iff [symmetric], simp_all add: code_def)

lemma next_is_1: "next_is [n] cs \<Longrightarrow> \<exists>ds. cs = char_of n # ds"
  by (cases cs) (auto simp: next_is_def code_def)

lemma next_is_2: "next_is [n, m] cs \<Longrightarrow> \<exists>es. cs = char_of n # char_of m # es"
  by (cases cs; cases "tl cs") (auto simp: next_is_def code_def)

lemma escapeXml_entities:
  "escapeXml (CHR ''&'' # cs) = ''&amp;'' @ escapeXml cs"
  "escapeXml (CHR ''<'' # cs) = ''&lt;'' @ escapeXml cs"
  "escapeXml (CHR ''>'' # cs) = ''&gt;'' @ escapeXml cs"
  "escapeXml (CHR 0x22 # cs) = ''&quot;'' @ escapeXml cs"
  "escapeXml (CHR 0x27 # cs) = ''&apos;'' @ escapeXml cs"
  by (simp_all add: is_ctrl_def code_def)

lemma escapeXml_symbols:
  "escapeXml (CHR 0xC2 # CHR 0xA9 # cs) = ''&#169;'' @ escapeXml cs"
  "escapeXml (CHR 0xC2 # CHR 0xAE # cs) = ''&#174;'' @ escapeXml cs"
  "escapeXml (CHR 0xE2 # CHR 0x82 # CHR 0xAC # cs) = ''&#8364;'' @ escapeXml cs"
  by (simp_all add: is_ctrl_def code_def next_is_def)

lemma escapeXml_ctrl: "is_ctrl c \<Longrightarrow> escapeXml (c # cs) = escapeXml cs"
  by simp

definition symbol_at :: "char \<Rightarrow> string \<Rightarrow> bool" where
  "symbol_at c cs \<longleftrightarrow> code c = 0xC2 \<and> next_is [0xA9] cs \<or> code c = 0xC2 \<and> next_is [0xAE] cs
     \<or> code c = 0xE2 \<and> next_is [0x82, 0xAC] cs"

lemma escapeXml_plain:
  "\<not> is_ctrl c \<Longrightarrow> \<not> entity_char c \<Longrightarrow> \<not> symbol_at c cs \<Longrightarrow> escapeXml (c # cs) = c # escapeXml cs"
  by (auto simp: symbol_at_def)

declare escapeXml.simps(2) [simp del]

lemma symbol_at_cases:
  assumes "symbol_at c cs"
  obtains ds where "c = CHR 0xC2" "cs = CHR 0xA9 # ds"
    | ds where "c = CHR 0xC2" "cs = CHR 0xAE # ds"
    | ds where "c = CHR 0xE2" "cs = CHR 0x82 # CHR 0xAC # ds"
proof -
  consider "code c = 0xC2" "next_is [0xA9] cs" | "code c = 0xC2" "next_is [0xAE] cs"
    | "code c = 0xE2" "next_is [0x82, 0xAC] cs"
    using assms unfolding symbol_at_def by blast
  then show thesis
  proof cases
    case 1
    then show ?thesis using that(1) code_CHR [OF 1(1)] next_is_1 [OF 1(2)] by (auto simp: char_of_bytes)
  next
    case 2
    then show ?thesis using that(2) code_CHR [OF 2(1)] next_is_1 [OF 2(2)] by (auto simp: char_of_bytes)
  next
    case 3
    then show ?thesis using that(3) code_CHR [OF 3(1)] next_is_2 [OF 3(2)] by (auto simp: char_of_bytes)
  qed
qed

lemma escapeXml_induct [case_names Nil ctrl entity copy reg euro plain]:
  assumes nil: "P []"
    and ctrl: "\<And>c cs. is_ctrl c \<Longrightarrow> P cs \<Longrightarrow> P (c # cs)"
    and entity: "\<And>c cs. entity_char c \<Longrightarrow> P cs \<Longrightarrow> P (c # cs)"
    and copy: "\<And>cs. P cs \<Longrightarrow> P (CHR 0xC2 # CHR 0xA9 # cs)"
    and reg: "\<And>cs. P cs \<Longrightarrow> P (CHR 0xC2 # CHR 0xAE # cs)"
    and euro: "\<And>cs. P cs \<Longrightarrow> P (CHR 0xE2 # CHR 0x82 # CHR 0xAC # cs)"
    and plain: "\<And>c cs. \<not> is_ctrl c \<Longrightarrow> \<not> entity_char c \<Longrightarrow> \<not> symbol_at c cs \<Longrightarrow> P cs \<Longrightarrow> P (c # cs)"
  shows "P s"
proof (induction "length s" arbitrary: s rule: less_induct)
  case less
  show ?case
  proof (cases s)
    case Nil
    then show ?thesis using nil by simp
  next
    case (Cons c cs)
    have IH: "P t" if "length t \<le> length cs" for t
      using less Cons that by simp
    show ?thesis
    proof (cases "symbol_at c cs")
      case True
      then show ?thesis
      proof (cases rule: symbol_at_cases)
        case (1 ds)
        then show ?thesis using Cons copy [of ds] IH [of ds] by simp
      next
        case (2 ds)
        then show ?thesis using Cons reg [of ds] IH [of ds] by simp
      next
        case (3 ds)
        then show ?thesis using Cons euro [of ds] IH [of ds] by simp
      qed
    next
      case False
      have "P cs" using IH [of cs] by simp
      then have "P (c # cs)" using ctrl entity plain False
        by (cases "is_ctrl c") (simp, cases "entity_char c", simp_all only: not_False_eq_True)
      then show ?thesis using Cons by simp
    qed
  qed
qed

lemma escapeXml_safe: "xml_safe (escapeXml s)"
proof (induction s rule: escapeXml_induct)
  case (entity c cs)
  then show ?case by (auto simp: escapeXml_entities markup_def)
next
  case (plain c cs)
  then show ?case by (auto simp: escapeXml_plain markup_def)
qed (simp_all add: escapeXml_ctrl escapeXml_symbols markup_def)

lemma xml_unescape_plain: "c \<noteq> CHR ''&'' \<Longrightarrow> xml_unescape (c # cs) = c # xml_unescape cs"
  by simp

lemma xml_unescape_entities:
  "xml_unescape (''&amp;'' @ cs) = CHR ''&'' # xml_unescape cs"
  "xml_unescape (''&lt;'' @ cs) = CHR ''<'' # xml_unescape cs"
  "xml_unescape (''&gt;'' @ cs) = CHR ''>'' # xml_unescape cs"
  "xml_unescape (''&quot;'' @ cs) = CHR 0x22 # xml_unescape cs"
  "xml_unescape (''&apos;'' @ cs) = CHR 0x27 # xml_unescape cs"
  by simp_all

lemma xml_unescape_symbols:
  "xml_unescape (''&#169;'' @ cs) = [CHR 0xC2, CHR 0xA9] @ xml_unescape cs"
  "xml_unescape (''&#174;'' @ cs) = [CHR 0xC2, CHR 0xAE] @ xml_unescape cs"
  "xml_unescape (''&#8364;'' @ cs) = [CHR 0xE2, CHR 0x82, CHR 0xAC] @ xml_unescape cs"
  by simp_all

declare xml_unescape.simps(2) [simp del]

lemmas xml_unescape_refs =
  xml_unescape_entities [unfolded append.simps] xml_unescape_symbols [unfolded append.simps]

lemma entity_not_ctrl: "entity_char c \<Longrightarrow> \<not> is_ctrl c \<and> code c \<noteq> 0x7F"
  by (auto simp: is_ctrl_def code_def)

lemma symbols_not_ctrl:
  "\<not> is_ctrl (CHR 0xC2)" "\<not> is_ctrl (CHR 0xA9)" "\<not> is_ctrl (CHR 0xAE)"
  "\<not> is_ctrl (CHR 0xE2)" "\<not> is_ctrl (CHR 0x82)" "\<not> is_ctrl (CHR 0xAC)"
  by (simp_all add: is_ctrl_def code_def)

lemma escapeXml_read: "xml_unescape (escapeXml s) = filter (\<lambda>c. \<not> is_ctrl c) s"
proof (induction s rule: escapeXml_induct)
  case (entity c cs)
  then have "\<not> is_ctrl c" using entity_not_ctrl by blast
  with entity show ?case by (elim insertE) (simp_all add: escapeXml_entities xml_unescape_refs)
next
  case (plain c cs)
  then show ?case by (simp add: escapeXml_plain xml_unescape_plain)
qed (simp_all add: escapeXml_ctrl escapeXml_symbols xml_unescape_refs symbols_not_ctrl)

interpretation builder_esc: xml_escaper escapeXml "\<lambda>c. \<not> is_ctrl c"
  by unfold_locales (rule escapeXml_safe, rule escapeXml_read)

text \<open>One step of the two functions that escape byte by byte.\<close>

definition entity_of :: "char \<Rightarrow> string" where
  "entity_of c =
     (if c = CHR ''&'' then ''&amp;'' else if c = CHR ''<'' then ''&lt;''
      else if c = CHR ''>'' then ''&gt;'' else if c = CHR 0x22 then ''&quot;''
      else if c = CHR 0x27 then ''&apos;'' else [c])"

lemma entity_of_safe: "xml_safe (entity_of c)"
  by (simp add: entity_of_def markup_def)

lemma entity_of_read: "xml_unescape (entity_of c @ cs) = c # xml_unescape cs"
proof (cases "entity_char c")
  case True
  then show ?thesis by (elim insertE) (simp_all add: entity_of_def xml_unescape_refs)
next
  case False
  then show ?thesis by (simp add: entity_of_def xml_unescape_plain)
qed

lemma receptor_step: "receptor_escapeXml (c # cs) = entity_of c @ receptor_escapeXml cs"
  by (simp add: entity_of_def)

lemma serializer_step:
  "serializer_xmlEscape (c # cs) =
     (if is_ctrl c \<or> code c = 0x7F then [] else entity_of c) @ serializer_xmlEscape cs"
  by (simp add: entity_of_def)

declare receptor_escapeXml.simps(2) [simp del] serializer_xmlEscape.simps(2) [simp del]

interpretation receptor_esc: xml_escaper receptor_escapeXml "\<lambda>c. True"
proof
  show "xml_safe (receptor_escapeXml s)" for s
    by (induction s) (simp_all add: receptor_step entity_of_safe)
  show "xml_unescape (receptor_escapeXml s) = filter (\<lambda>c. True) s" for s
    by (induction s) (simp_all add: receptor_step entity_of_read)
qed

interpretation serializer_esc: xml_escaper serializer_xmlEscape "\<lambda>c. \<not> is_ctrl c \<and> code c \<noteq> 0x7F"
proof
  show "xml_safe (serializer_xmlEscape s)" for s
    by (induction s) (simp_all add: serializer_step entity_of_safe)
  show "xml_unescape (serializer_xmlEscape s) = filter (\<lambda>c. \<not> is_ctrl c \<and> code c \<noteq> 0x7F) s" for s
    by (induction s) (simp_all add: serializer_step entity_of_read)
qed

lemma escapeXml_id:
  "list_all (\<lambda>c. code c < 128 \<and> \<not> is_ctrl c \<and> \<not> entity_char c) s \<Longrightarrow> escapeXml s = s"
  by (induction s) (simp_all add: escapeXml_plain symbol_at_def)

subsection \<open>Properties\<close>

text \<open>C39. The text \<open>escapeXml\<close> returns holds no markup character, and an XML reader
  decodes it to the original bytes, less the control characters XML 1.0 forbids: the
  copyright, registered and euro signs come back as the UTF-8 they were.\<close>

theorem escapeXml_round_trip:
  "xml_safe (escapeXml s) \<and> xml_unescape (escapeXml s) = filter (\<lambda>c. \<not> is_ctrl c) s"
  using builder_esc.esc_safe builder_esc.esc_read by blast

text \<open>The escaping of the B2B responses loses nothing at all: decoding gives the bytes back,
  so two different texts never look the same in a response.\<close>

theorem receptor_escapeXml_injective:
  "inj receptor_escapeXml \<and> xml_safe (receptor_escapeXml s)"
  using receptor_esc.esc_inj_kept receptor_esc.esc_safe by (auto intro!: injI)

end
