(* ===== verification/Xml_Lines.thy ===== *)
theory Xml_Lines
  imports Xml_Text
begin

text \<open>
  \<open>truncateUtf8\<close> of CanonicalXmlBuilder.cpp, and the lines the builders push into their
  \<open>std::ostringstream\<close>.  A line keeps its indentation, its tag and its character data
  apart, and \<open>render\<close> gives the exact bytes of the stream.  \<open>walk\<close> is the check an
  XML reader makes of the element structure (every end tag closes the innermost open
  element), here together with the indentation of the sources.
\<close>

subsection \<open>Truncation by characters\<close>

text \<open>
  The bit masks of the source test the top bits of a byte: \<open>(c & 0x80) == 0\<close>,
  \<open>(c & 0xE0) == 0xC0\<close>, \<open>(c & 0xF0) == 0xE0\<close> and \<open>(c & 0xF8) == 0xF0\<close> are the
  quotients by 128, 32, 16 and 8.
\<close>

definition lead_len :: "char \<Rightarrow> nat option" where
  "lead_len c =
     (if code c div 128 = 0 then Some 1
      else if code c div 32 = 6 then Some 2
      else if code c div 16 = 14 then Some 3
      else if code c div 8 = 30 then Some 4
      else None)"

definition is_cont :: "char \<Rightarrow> bool" where
  "is_cont c \<longleftrightarrow> code c div 64 = 2"

lemma lead_len_pos: "lead_len c = Some n \<Longrightarrow> 1 \<le> n \<and> n \<le> 4"
  by (auto simp: lead_len_def split: if_splits)

text \<open>\<open>utf8_take k s\<close>: the bytes the loop passes over from the current position, where
  \<open>s\<close> is what is left of the string and \<open>k\<close> what is left of the count.\<close>

fun utf8_take :: "nat \<Rightarrow> string \<Rightarrow> string" where
  "utf8_take 0 s = []"
| "utf8_take (Suc k) [] = []"
| "utf8_take (Suc k) (c # cs) =
     (case lead_len c of
        None \<Rightarrow> c # utf8_take k cs
      | Some n \<Rightarrow>
          if length (c # cs) < n then []
          else if list_all is_cont (take (n - 1) cs)
          then c # take (n - 1) cs @ utf8_take k (drop (n - 1) cs)
          else c # utf8_take k cs)"

definition truncateUtf8 :: "string \<Rightarrow> nat \<Rightarrow> string" where
  "truncateUtf8 str maxChars =
     (if str = [] \<or> maxChars = 0 then [] else utf8_take maxChars str)"

text \<open>One encoded character: a lead byte and the continuation bytes it announces.\<close>

definition utf8_char :: "string \<Rightarrow> bool" where
  "utf8_char w \<longleftrightarrow> (case w of [] \<Rightarrow> False
     | c # cs \<Rightarrow> lead_len c = Some (length w) \<and> list_all is_cont cs)"

lemma truncateUtf8_alt: "truncateUtf8 s n = utf8_take n s"
  by (cases n; cases s) (simp_all add: truncateUtf8_def)

lemma utf8_take_char:
  assumes "utf8_char w"
  shows "utf8_take (Suc k) (w @ s) = w @ utf8_take k s"
proof -
  obtain c cs where w: "w = c # cs" using assms by (cases w) (auto simp: utf8_char_def)
  have "lead_len c = Some (Suc (length cs))" "list_all is_cont cs"
    using assms by (auto simp: utf8_char_def w)
  then show ?thesis by (simp add: w)
qed

lemma utf8_take_concat:
  "list_all utf8_char ws \<Longrightarrow> utf8_take k (concat ws) = concat (take k ws)"
proof (induction ws arbitrary: k)
  case Nil
  then show ?case by (cases k) simp_all
next
  case (Cons w ws)
  then show ?case by (cases k) (simp_all add: utf8_take_char)
qed

lemma utf8_take_prefix: "prefix (utf8_take k s) s"
proof (induction k s rule: utf8_take.induct)
  case (3 k c cs)
  show ?case
  proof (cases "lead_len c")
    case None
    then show ?thesis using "3.IH" by simp
  next
    case (Some n)
    have "prefix (take (n - 1) cs @ utf8_take k (drop (n - 1) cs)) cs"
      if "\<not> length (c # cs) < n" "list_all is_cont (take (n - 1) cs)"
    proof -
      have "prefix (utf8_take k (drop (n - 1) cs)) (drop (n - 1) cs)"
        using "3.IH"(2) [OF Some that] .
      then have "prefix (take (n - 1) cs @ utf8_take k (drop (n - 1) cs))
                   (take (n - 1) cs @ drop (n - 1) cs)"
        by (simp only: same_prefix_prefix)
      then show ?thesis by (simp only: append_take_drop_id)
    qed
    then show ?thesis using Some "3.IH"(3) [OF Some] by simp
  qed
qed simp_all

lemma utf8_take_length: "length (utf8_take k s) \<le> 4 * k"
proof (induction k s rule: utf8_take.induct)
  case (3 k c cs)
  then show ?case using lead_len_pos [of c]
    by (fastforce split: option.splits)
qed simp_all

lemma set_truncateUtf8: "set (truncateUtf8 s n) \<subseteq> set s"
  using utf8_take_prefix [of n s] set_mono_prefix by (auto simp: truncateUtf8_alt)

subsection \<open>Lines of a document\<close>

datatype xline =
    XDecl
  | XOpen nat string
  | XClose nat string
  | XLeaf nat string string

definition indent :: "nat \<Rightarrow> string" where
  "indent d = replicate d (CHR '' '')"

fun line_text :: "xline \<Rightarrow> string" where
  "line_text XDecl = ''<?xml version='' @ [CHR 0x22] @ ''1.0'' @ [CHR 0x22] @ '' encoding=''
     @ [CHR 0x22] @ ''utf-8'' @ [CHR 0x22] @ ''?>''"
| "line_text (XOpen d t) = indent d @ ''<'' @ t @ ''>''"
| "line_text (XClose d t) = indent d @ ''</'' @ t @ ''>''"
| "line_text (XLeaf d t s) = indent d @ ''<'' @ t @ ''>'' @ s @ ''</'' @ t @ ''>''"

definition render :: "xline list \<Rightarrow> string" where
  "render ls = concat (map (\<lambda>l. line_text l @ [nl]) ls)"

lemma render_append [simp]: "render (ls @ ms) = render ls @ render ms"
  by (simp add: render_def)

fun walk :: "xline list \<Rightarrow> string list \<Rightarrow> string list option" where
  "walk [] st = Some st"
| "walk (XDecl # ls) st = (if st = [] then walk ls st else None)"
| "walk (XOpen d t # ls) st = (if d = 2 * length st then walk ls (t # st) else None)"
| "walk (XClose d t # ls) st =
     (case st of [] \<Rightarrow> None
      | u # us \<Rightarrow> if u = t \<and> d = 2 * length us then walk ls us else None)"
| "walk (XLeaf d t s # ls) st = (if d = 2 * length st then walk ls st else None)"

definition well_nested :: "xline list \<Rightarrow> bool" where
  "well_nested ls \<longleftrightarrow> walk ls [] = Some []"

text \<open>A segment that is written with \<open>k\<close> elements open and leaves them as they were.\<close>

definition neutral :: "nat \<Rightarrow> xline list \<Rightarrow> bool" where
  "neutral k ls \<longleftrightarrow> (\<forall>st rest. length st = k \<longrightarrow> walk (ls @ rest) st = walk rest st)"

lemma walk_neutral: "neutral k ls \<Longrightarrow> length st = k \<Longrightarrow> walk (ls @ rest) st = walk rest st"
  by (simp add: neutral_def)

lemma neutral_Nil [simp, xml_nest]: "neutral k []"
  by (simp add: neutral_def)

lemma neutral_leaf [simp]: "neutral k (XLeaf d t s # ls) \<longleftrightarrow> d = 2 * k \<and> neutral k ls"
proof
  assume n: "neutral k (XLeaf d t s # ls)"
  have "walk ((XLeaf d t s # ls) @ []) (replicate k []) = walk [] (replicate k [])"
    using n walk_neutral by (metis length_replicate)
  then have "d = 2 * k" by (simp split: if_splits)
  with n show "d = 2 * k \<and> neutral k ls" by (auto simp: neutral_def)
qed (auto simp: neutral_def)

lemma neutral_append [xml_nest]: "neutral k ls \<Longrightarrow> neutral k ms \<Longrightarrow> neutral k (ls @ ms)"
  by (simp add: neutral_def)

lemma neutral_if [xml_nest]: "(b \<Longrightarrow> neutral k ls) \<Longrightarrow> (\<not> b \<Longrightarrow> neutral k ms) \<Longrightarrow> neutral k (if b then ls else ms)"
  by simp

lemma neutral_option [xml_nest]:
  "(x = None \<Longrightarrow> neutral k ls) \<Longrightarrow> (\<And>v. x = Some v \<Longrightarrow> neutral k (f v)) \<Longrightarrow>
    neutral k (case x of None \<Rightarrow> ls | Some v \<Rightarrow> f v)"
  by (cases x) simp_all

lemma neutral_concat_map [xml_nest]:
  "(\<And>x. x \<in> set xs \<Longrightarrow> neutral k (f x)) \<Longrightarrow> neutral k (concat (map f xs))"
  by (induction xs) (simp_all add: neutral_append)

lemma neutral_element:
  assumes "neutral (Suc k) body" "d = 2 * k"
  shows "neutral k ([XOpen d t] @ body @ [XClose d t])"
proof -
  have "walk (body @ XClose d t # rest) (t # st) = walk (XClose d t # rest) (t # st)"
    if "length st = k" for st rest
    using assms that by (simp add: neutral_def)
  then show ?thesis using assms by (simp add: neutral_def)
qed

text \<open>\<open>element d t body\<close>: a start tag, what it holds, and its end tag.\<close>

definition element :: "nat \<Rightarrow> string \<Rightarrow> xline list \<Rightarrow> xline list" where
  "element d t body = [XOpen d t] @ body @ [XClose d t]"

lemma neutral_elementI [xml_nest]: "d = 2 * k \<Longrightarrow> neutral (Suc k) body \<Longrightarrow> neutral k (element d t body)"
  by (simp only: element_def neutral_element)

lemma neutral_well_nested: "neutral 0 ls \<Longrightarrow> well_nested (XDecl # ls)"
  using walk_neutral [of 0 ls "[]" "[]"] by (simp add: well_nested_def)

subsection \<open>Character data that cannot break out of its element\<close>

fun line_safe :: "xline \<Rightarrow> bool" where
  "line_safe (XLeaf d t s) = xml_safe s"
| "line_safe _ = True"

definition lines_safe :: "xline list \<Rightarrow> bool" where
  "lines_safe ls \<longleftrightarrow> list_all line_safe ls"

lemma lines_safe_simps [simp]:
  "lines_safe []" "lines_safe (l # ls) \<longleftrightarrow> line_safe l \<and> lines_safe ls"
  "lines_safe (ls @ ms) \<longleftrightarrow> lines_safe ls \<and> lines_safe ms"
  "lines_safe (element d t ls) \<longleftrightarrow> lines_safe ls"
  by (simp_all add: lines_safe_def element_def)

named_theorems xml_leaves \<open>segments of a document whose character data holds no markup\<close>

lemma lines_safe_concat_map [xml_leaves]:
  "(\<And>x. x \<in> set xs \<Longrightarrow> lines_safe (f x)) \<Longrightarrow> lines_safe (concat (map f xs))"
  by (induction xs) simp_all

lemma lines_safe_Nil [xml_leaves]: "lines_safe []"
  by simp

lemma lines_safe_leaf [xml_leaves]: "xml_safe s \<Longrightarrow> lines_safe [XLeaf d t s]"
  by simp

lemma lines_safe_append [xml_leaves]: "lines_safe ls \<Longrightarrow> lines_safe ms \<Longrightarrow> lines_safe (ls @ ms)"
  by simp

lemma lines_safe_element [xml_leaves]: "lines_safe ls \<Longrightarrow> lines_safe (element d t ls)"
  by simp

lemma lines_safe_if [xml_leaves]:
  "(b \<Longrightarrow> lines_safe ls) \<Longrightarrow> (\<not> b \<Longrightarrow> lines_safe ms) \<Longrightarrow> lines_safe (if b then ls else ms)"
  by simp

lemma lines_safe_option [xml_leaves]:
  "(x = None \<Longrightarrow> lines_safe ls) \<Longrightarrow> (\<And>v. x = Some v \<Longrightarrow> lines_safe (f v)) \<Longrightarrow>
    lines_safe (case x of None \<Rightarrow> ls | Some v \<Rightarrow> f v)"
  by (cases x) simp_all

lemma escapeXml_leaf [xml_leaves]: "xml_safe (escapeXml s)"
  by (rule escapeXml_safe)

text \<open>The value of the first leaf with a given tag, as a reader of the document finds it.\<close>

fun leaf_value :: "string \<Rightarrow> xline list \<Rightarrow> string option" where
  "leaf_value t [] = None"
| "leaf_value t (XLeaf d u s # ls) = (if u = t then Some s else leaf_value t ls)"
| "leaf_value t (_ # ls) = leaf_value t ls"

subsection \<open>Properties\<close>

text \<open>On well formed UTF-8 the truncation keeps the first \<open>n\<close> characters, whole.\<close>

theorem truncateUtf8_keeps_characters:
  assumes "list_all utf8_char ws"
  shows "truncateUtf8 (concat ws) n = concat (take n ws)"
  using assms by (simp add: truncateUtf8_alt utf8_take_concat)

theorem truncateUtf8_keeps_characters_witness:
  "truncateUtf8 (concat [[CHR 0xC3, CHR 0xB1], ''a'', [CHR 0xE2, CHR 0x82, CHR 0xAC]]) 2 = [CHR 0xC3, CHR 0xB1, CHR ''a'']"
  using truncateUtf8_keeps_characters [of "[[CHR 0xC3, CHR 0xB1], ''a'', [CHR 0xE2, CHR 0x82, CHR 0xAC]]" 2]
  by (simp add: utf8_char_def lead_len_def is_cont_def code_def)

text \<open>On any bytes at all, valid or not, the truncation is a prefix of its input of at most
  four bytes per allowed character.\<close>

theorem truncateUtf8_prefix_bounded:
  "prefix (truncateUtf8 s n) s \<and> length (truncateUtf8 s n) \<le> 4 * n"
  by (simp add: truncateUtf8_alt utf8_take_prefix utf8_take_length)

end
