(* ===== verification/Binary64.thy ===== *)
theory Binary64
  imports Complex_Main Ecf_Prelude
begin

text \<open>
  The C++ type \<open>double\<close>: IEEE 754 binary64 with round-to-nearest-even, which is what
  the sources compute every amount with.  A finite value is a sign, an integer
  significand and a binary exponent, so \<open>DFin s m e\<close> is \<open>\<plusminus>m * 2^e\<close>; every
  operation computes the exact rational result as a fraction of integers and rounds it
  once with \<open>rnd\<close>, which returns the canonical significand (53 bits, or exponent
  \<open>-1074\<close> for subnormals) and overflows to an infinity.  Signed zeros, infinities and
  NaN are values, because the JSON layer can deliver them and the sources compare
  and print them.  The sign bit of a NaN is not modelled (the standard leaves it open).
\<close>

named_theorems dbl_nonneg \<open>operations that keep a double non-negative and not NaN\<close>

datatype dbl = DFin bool int int | DInf bool | DNaN

subsection \<open>Rounding an exact fraction\<close>

text \<open>Bit length of a non-negative integer, computed on the binary numeral.\<close>

primrec numlen :: "num \<Rightarrow> int" where
  "numlen num.One = 1"
| "numlen (num.Bit0 n) = numlen n + 1"
| "numlen (num.Bit1 n) = numlen n + 1"

function blen :: "int \<Rightarrow> int" where
  "blen n = (if n \<le> 0 then 0 else 1 + blen (n div 2))"
  by pat_completeness auto
termination by (relation "measure nat") auto

declare blen.simps [simp del]

lemma blen_numeral [simp]: "blen (numeral n) = numlen n"
proof (induction n)
  case One
  show ?case by (simp add: blen.simps)
next
  case (Bit0 n)
  then show ?case by (subst blen.simps) simp
next
  case (Bit1 n)
  then show ?case by (subst blen.simps) simp
qed

lemma blen_0 [simp]: "blen 0 = 0" by (simp add: blen.simps)
lemma blen_1 [simp]: "blen 1 = 1" by (simp add: blen.simps)

lemma blen_code [code]: "blen 0 = 0" "blen (Int.Pos n) = numlen n" "blen (Int.Neg n) = 0"
  by (simp_all only: Int.Pos_def blen_numeral blen_0) (simp_all add: blen.simps Int.Neg_def)

definition pow2 :: "int \<Rightarrow> int" where
  "pow2 e = 2 ^ nat e"

lemma pow2_code [code]: "pow2 e = (if e \<le> 0 then 1 else 2 * pow2 (e - 1))"
proof (cases "e \<le> 0")
  case False
  then have "nat e = Suc (nat (e - 1))" by simp
  then show ?thesis using False by (simp add: pow2_def)
qed (simp add: pow2_def)

lemma pow2_pos [simp]: "0 < pow2 e"
  by (simp add: pow2_def)

lemma pow2_sign [simp]:
  "0 \<le> pow2 e" "pow2 e \<noteq> 0" "\<not> pow2 e < 0" "\<not> pow2 e \<le> 0"
  by (simp_all add: pow2_def)

lemma pow2_mult_sign [simp]:
  "0 \<le> m * pow2 e \<longleftrightarrow> 0 \<le> m" "0 < m * pow2 e \<longleftrightarrow> 0 < m"
  "m * pow2 e < 0 \<longleftrightarrow> m < 0" "m * pow2 e \<le> 0 \<longleftrightarrow> m \<le> 0"
  by (simp_all add: zero_le_mult_iff zero_less_mult_iff mult_less_0_iff mult_le_0_iff)

text \<open>\<open>a / b\<close> to the nearest integer, ties to even.\<close>

definition rne :: "int \<Rightarrow> int \<Rightarrow> int" where
  "rne a b = (let q = a div b; r = a mod b in
     if 2 * r < b then q else if b < 2 * r then q + 1 else if even q then q else q + 1)"

text \<open>\<open>floor(log2(a / b))\<close> for positive \<open>a\<close> and \<open>b\<close>.\<close>

definition lg :: "int \<Rightarrow> int \<Rightarrow> int" where
  "lg a b = (let k = blen a - blen b in
     if (if 0 \<le> k then b * pow2 k \<le> a else b \<le> a * pow2 (- k)) then k else k - 1)"

definition rnd :: "bool \<Rightarrow> int \<Rightarrow> int \<Rightarrow> dbl" where
  "rnd s a b = (if a = 0 then DFin s 0 (- 1074) else
     let e = max (lg a b - 52) (- 1074);
         m = (if 0 \<le> e then rne a (b * pow2 e) else rne (a * pow2 (- e)) b);
         m' = (if m = 9007199254740992 then 4503599627370496 else m);
         e' = (if m = 9007199254740992 then e + 1 else e)
     in if 971 < e' then DInf s else DFin s m' e')"

text \<open>A literal of the source, \<open>0.05\<close> being \<open>dlit 5 100\<close>, and \<open>0.0\<close>.\<close>

definition dlit :: "int \<Rightarrow> int \<Rightarrow> dbl" where
  "dlit p q = rnd (p < 0) \<bar>p\<bar> q"

definition dzero :: dbl where
  "dzero = DFin False 0 (- 1074)"

lemma dlit_zero [simp]: "dlit 0 q = dzero"
  by (simp add: dlit_def rnd_def dzero_def)

subsection \<open>Arithmetic and comparison\<close>

text \<open>The signed significand of one operand, scaled to the common exponent of both.\<close>

definition sgm :: "bool \<Rightarrow> int \<Rightarrow> int" where
  "sgm s m = (if s then - m else m)"

text \<open>\<open>static_cast<int>\<close> of a double in range: towards zero.\<close>

fun dtrunc :: "dbl \<Rightarrow> int" where
  "dtrunc (DFin s m e) = sgm s (m * pow2 e div pow2 (- e))"
| "dtrunc d = 0"

fun dneg :: "dbl \<Rightarrow> dbl" where
  "dneg (DFin s m e) = DFin (\<not> s) m e"
| "dneg (DInf s) = DInf (\<not> s)"
| "dneg DNaN = DNaN"

fun dabs :: "dbl \<Rightarrow> dbl" where
  "dabs (DFin s m e) = DFin False m e"
| "dabs (DInf s) = DInf False"
| "dabs DNaN = DNaN"

fun dadd :: "dbl \<Rightarrow> dbl \<Rightarrow> dbl" where
  "dadd (DFin s m e) (DFin t n f) =
     (let v = sgm s m * pow2 (e - f) + sgm t n * pow2 (f - e); g = min e f in
      if v = 0 then DFin (s \<and> t) 0 (- 1074)
      else rnd (v < 0) (\<bar>v\<bar> * pow2 g) (pow2 (- g)))"
| "dadd (DInf s) (DInf t) = (if s = t then DInf s else DNaN)"
| "dadd (DInf s) (DFin _ _ _) = DInf s"
| "dadd (DFin _ _ _) (DInf t) = DInf t"
| "dadd _ _ = DNaN"

definition dsub :: "dbl \<Rightarrow> dbl \<Rightarrow> dbl" where
  "dsub x y = dadd x (dneg y)"

fun dmul :: "dbl \<Rightarrow> dbl \<Rightarrow> dbl" where
  "dmul (DFin s m e) (DFin t n f) = rnd (s \<noteq> t) (m * n * pow2 (e + f)) (pow2 (- (e + f)))"
| "dmul (DInf s) (DFin t n f) = (if n = 0 then DNaN else DInf (s \<noteq> t))"
| "dmul (DFin s m e) (DInf t) = (if m = 0 then DNaN else DInf (s \<noteq> t))"
| "dmul (DInf s) (DInf t) = DInf (s \<noteq> t)"
| "dmul _ _ = DNaN"

fun ddiv :: "dbl \<Rightarrow> dbl \<Rightarrow> dbl" where
  "ddiv (DFin s m e) (DFin t n f) =
     (if n = 0 then (if m = 0 then DNaN else DInf (s \<noteq> t))
      else rnd (s \<noteq> t) (m * pow2 (e - f)) (n * pow2 (f - e)))"
| "ddiv (DInf s) (DFin t n f) = DInf (s \<noteq> t)"
| "ddiv (DFin s m e) (DInf t) = DFin (s \<noteq> t) 0 (- 1074)"
| "ddiv _ _ = DNaN"

fun dlt :: "dbl \<Rightarrow> dbl \<Rightarrow> bool" where
  "dlt (DFin s m e) (DFin t n f) \<longleftrightarrow> sgm s m * pow2 (e - f) < sgm t n * pow2 (f - e)"
| "dlt (DInf s) (DInf t) \<longleftrightarrow> s \<and> \<not> t"
| "dlt (DInf s) (DFin _ _ _) \<longleftrightarrow> s"
| "dlt (DFin _ _ _) (DInf t) \<longleftrightarrow> \<not> t"
| "dlt _ _ \<longleftrightarrow> False"

fun deq :: "dbl \<Rightarrow> dbl \<Rightarrow> bool" where
  "deq (DFin s m e) (DFin t n f) \<longleftrightarrow> sgm s m * pow2 (e - f) = sgm t n * pow2 (f - e)"
| "deq (DInf s) (DInf t) \<longleftrightarrow> s = t"
| "deq _ _ \<longleftrightarrow> False"

definition dle :: "dbl \<Rightarrow> dbl \<Rightarrow> bool" where
  "dle x y \<longleftrightarrow> dlt x y \<or> deq x y"

text \<open>\<open>std::max(a, b)\<close> is \<open>(a < b) ? b : a\<close>, so a NaN second argument loses.\<close>

definition dmax :: "dbl \<Rightarrow> dbl \<Rightarrow> dbl" where
  "dmax a b = (if dlt a b then b else a)"

text \<open>\<open>std::round\<close>: to the nearest integer, halves away from zero, sign kept.\<close>

fun dround :: "dbl \<Rightarrow> dbl" where
  "dround (DFin s m e) =
     (if 0 \<le> e then DFin s m e
      else rnd s ((2 * m + pow2 (- e)) div (2 * pow2 (- e))) 1)"
| "dround x = x"

abbreviation dpos :: "dbl \<Rightarrow> bool" where
  "dpos x \<equiv> dlt dzero x"

abbreviation dis0 :: "dbl \<Rightarrow> bool" where
  "dis0 x \<equiv> deq x dzero"

subsection \<open>Printing\<close>

text \<open>
  \<open>os << std::fixed << std::setprecision(d) << v\<close> and \<open>snprintf("%.df", v)\<close>: the exact
  binary value rounded to \<open>d\<close> decimals, ties to even, with the sign bit printed.
\<close>

definition fixed_units :: "nat \<Rightarrow> int \<Rightarrow> int \<Rightarrow> int" where
  "fixed_units d m e = rne (m * 10 ^ d * pow2 e) (pow2 (- e))"

fun fmt_fixed :: "nat \<Rightarrow> dbl \<Rightarrow> string" where
  "fmt_fixed d (DFin s m e) =
     (let n = fixed_units d m e in
      (if s then ''-'' else []) @ dec_nat (n div 10 ^ d) @ ''.'' @ setw0 d (dec_nat (n mod 10 ^ d)))"
| "fmt_fixed d (DInf s) = (if s then ''-inf'' else ''inf'')"
| "fmt_fixed d DNaN = ''nan''"

subsection \<open>Non-negative doubles\<close>

text \<open>\<open>x\<close> is not NaN, its sign bit is clear: zero, a positive number or \<open>+inf\<close>.\<close>

fun nonneg :: "dbl \<Rightarrow> bool" where
  "nonneg (DFin s m e) \<longleftrightarrow> \<not> s \<and> 0 \<le> m"
| "nonneg (DInf s) \<longleftrightarrow> \<not> s"
| "nonneg DNaN \<longleftrightarrow> False"

text \<open>Every value the operations build has a non-negative significand.\<close>

fun dwf :: "dbl \<Rightarrow> bool" where
  "dwf (DFin s m e) \<longleftrightarrow> 0 \<le> m"
| "dwf _ \<longleftrightarrow> True"

lemma nonneg_dwf: "nonneg x \<Longrightarrow> dwf x"
  by (cases x) simp_all

lemma rne_nonneg: "0 \<le> a \<Longrightarrow> 0 < b \<Longrightarrow> 0 \<le> rne a b"
  by (auto simp: rne_def Let_def pos_imp_zdiv_nonneg_iff intro: add_nonneg_nonneg)

lemma rnd_cases:
  assumes "0 \<le> a" "0 < b"
  shows "(\<exists>m e. rnd s a b = DFin s m e \<and> 0 \<le> m) \<or> rnd s a b = DInf s"
  using assms by (simp add: rnd_def Let_def rne_nonneg)

lemma nonneg_rnd [dbl_nonneg]: "0 \<le> a \<Longrightarrow> 0 < b \<Longrightarrow> nonneg (rnd False a b)"
  using rnd_cases [of a b False] by auto

lemma dwf_rnd: "0 \<le> a \<Longrightarrow> 0 < b \<Longrightarrow> dwf (rnd s a b)"
  using rnd_cases [of a b s] by auto

lemma nonneg_dzero [simp]: "nonneg dzero"
  by (simp add: dzero_def)

lemma dwf_dzero [simp]: "dwf dzero"
  by (simp add: dzero_def)

lemma nonneg_dlit [simp]: "0 \<le> p \<Longrightarrow> 0 < q \<Longrightarrow> nonneg (dlit p q)"
  by (simp add: dlit_def nonneg_rnd)

lemma dwf_dlit [simp]: "0 < q \<Longrightarrow> dwf (dlit p q)"
  by (simp add: dlit_def dwf_rnd)

lemma dwf_dneg [simp]: "dwf (dneg x) = dwf x"
  by (cases x) simp_all

lemma dwf_dabs [simp]: "dwf (dabs x) = dwf x"
  by (cases x) simp_all

lemma dwf_dadd [simp]: "dwf (dadd x y)"
  by (cases x; cases y) (auto simp: Let_def intro!: dwf_rnd)

lemma dwf_dsub [simp]: "dwf (dsub x y)"
  by (simp add: dsub_def)

lemma dwf_dmul [simp]: "dwf x \<Longrightarrow> dwf y \<Longrightarrow> dwf (dmul x y)"
  by (cases x; cases y) (auto intro!: dwf_rnd)

lemma dwf_dmax [simp]: "dwf x \<Longrightarrow> dwf y \<Longrightarrow> dwf (dmax x y)"
  by (simp add: dmax_def)

lemma dwf_ddiv [simp]: "dwf x \<Longrightarrow> dwf y \<Longrightarrow> dwf (ddiv x y)"
  by (cases x; cases y) (auto intro!: dwf_rnd mult_pos_pos)

lemma dwf_dround [simp]: "dwf x \<Longrightarrow> dwf (dround x)"
  by (cases x) (auto intro!: dwf_rnd simp: pos_imp_zdiv_nonneg_iff less_imp_le)

lemma dpos_nonneg: "dwf x \<Longrightarrow> dpos x \<Longrightarrow> nonneg x"
  by (cases x) (auto simp: dzero_def sgm_def split: if_splits)

lemma nonneg_dmax0 [dbl_nonneg]: "dwf x \<Longrightarrow> nonneg (dmax dzero x)"
  by (simp add: dmax_def dpos_nonneg)

lemma nonneg_dabs [dbl_nonneg]: "dwf x \<Longrightarrow> x \<noteq> DNaN \<Longrightarrow> nonneg (dabs x)"
  by (cases x) simp_all

lemma nonneg_dadd [dbl_nonneg]: "nonneg x \<Longrightarrow> nonneg y \<Longrightarrow> nonneg (dadd x y)"
proof (cases x; cases y)
  fix s m e t n f
  assume xy: "x = DFin s m e" "y = DFin t n f" and nn: "nonneg x" "nonneg y"
  let ?v = "m * pow2 (e - f) + n * pow2 (f - e)"
  have v: "0 \<le> ?v" using nn xy by simp
  have "nonneg (rnd False (\<bar>?v\<bar> * pow2 (min e f)) (pow2 (- min e f)))"
    by (rule nonneg_rnd) simp_all
  then show ?thesis using nn xy v by (simp add: Let_def sgm_def not_less [symmetric])
qed auto

lemma nonneg_not_neg: "nonneg x \<Longrightarrow> \<not> dlt x dzero"
  by (cases x) (auto simp: dzero_def sgm_def not_less)

lemma dlt_irrefl [simp]: "\<not> dlt x x"
  by (cases x) simp_all

lemma deq_refl: "x \<noteq> DNaN \<Longrightarrow> deq x x"
  by (cases x) simp_all

lemma deq_sym: "deq x y \<Longrightarrow> deq y x"
  by (cases x; cases y) simp_all

lemma dpos_not_zero: "dpos x \<Longrightarrow> \<not> dis0 x"
  by (cases x) (auto simp: dzero_def sgm_def split: if_splits)

subsection \<open>\<open>round2\<close> and \<open>round4\<close>\<close>

text \<open>
  Modelled from \<open>CanonicalXmlBuilder.cpp\<close>: both scale, round to an integer and scale
  back in binary floating point, so they are the code's rounding and not a decimal one.
\<close>

definition round2 :: "dbl \<Rightarrow> dbl" where
  "round2 v = ddiv (dround (dmul v (dlit 100 1))) (dlit 100 1)"

definition round4 :: "dbl \<Rightarrow> dbl" where
  "round4 v = ddiv (dround (dmul v (dlit 10000 1))) (dlit 10000 1)"

lemma dlit_100: "dlit 100 1 = DFin False 7036874417766400 (- 46)"
  by (simp add: dlit_def rnd_def lg_def rne_def pow2_def)

lemma dlit_10000: "dlit 10000 1 = DFin False 5497558138880000 (- 39)"
  by (simp add: dlit_def rnd_def lg_def rne_def pow2_def)

lemma dwf_round2 [simp]: "dwf v \<Longrightarrow> dwf (round2 v)"
  by (simp add: round2_def)

lemma dwf_round4 [simp]: "dwf v \<Longrightarrow> dwf (round4 v)"
  by (simp add: round4_def)

lemma nonneg_scale:
  assumes "nonneg x" "0 < n"
  shows "nonneg (dmul x (DFin False n f))" "nonneg (ddiv x (DFin False n f))"
  using assms by (cases x; simp add: nonneg_rnd)+

lemma nonneg_dround [dbl_nonneg]: "nonneg x \<Longrightarrow> nonneg (dround x)"
  by (cases x) (auto intro!: nonneg_rnd simp: pos_imp_zdiv_nonneg_iff less_imp_le)

lemma nonneg_round2 [dbl_nonneg]: "nonneg x \<Longrightarrow> nonneg (round2 x)"
  by (simp add: round2_def dlit_100 nonneg_scale nonneg_dround)

lemma nonneg_round4 [dbl_nonneg]: "nonneg x \<Longrightarrow> nonneg (round4 x)"
  by (simp add: round4_def dlit_10000 nonneg_scale nonneg_dround)

end
