(* ===== verification/Canonical_Dto.thy ===== *)
theory Canonical_Dto
  imports Binary64 Sys_Time Xml_Lines
begin

text \<open>
  The data the issuing service works on: the canonical document of CanonicalDocumentDto.h,
  the line items of CanonicalXmlBuilder.h, and the helpers of CanonicalXmlBuilder.cpp that
  work on one field (currency resolution, NCF references, dates, number formats).  The
  clock is the argument \<open>now\<close> (seconds since the epoch), and \<open>std::mktime\<close>, which
  depends on the host's time zone, is the argument \<open>mkt\<close>.
\<close>

subsection \<open>CanonicalDocumentDto.h\<close>

record SourceReferenceDto =
  src_provider :: string
  src_txnId :: string
  src_editSequence :: string

record CanonicalHeaderDto =
  hdr_rncEmisor :: string
  hdr_razonSocialEmisor :: string
  hdr_rncComprador :: string
  hdr_identificadorExtranjero :: "string option"
  hdr_razonSocialComprador :: string
  hdr_correoComprador :: "string option"
  hdr_fechaEmision :: string
  hdr_fechaVencimientoSecuencia :: "string option"
  hdr_direccionEmisor :: "string option"
  hdr_tipoPago :: "int option"
  hdr_fechaLimitePago :: "string option"
  hdr_tipoIngresos :: "string option"

record CanonicalCurrencyDto =
  cur_code :: string
  cur_exchangeRate :: dbl

record CanonicalLineDto =
  ln_lineNumber :: int
  ln_itemName :: string
  ln_quantity :: dbl
  ln_unitPrice :: dbl
  ln_amount :: dbl
  ln_discountAmount :: dbl
  ln_indicadorFacturacion :: "int option"
  ln_taxRate :: "dbl option"
  ln_taxAmount :: "dbl option"
  ln_montoItbisRetenido :: "dbl option"
  ln_montoIsrRetenido :: "dbl option"

record CanonicalTaxBucketDto =
  bkt_rate :: int
  bkt_base :: dbl
  bkt_tax :: dbl

record CanonicalTotalsDto =
  tot_montoSubtotal :: dbl
  tot_montoGravadoTotal :: "dbl option"
  tot_montoExento :: "dbl option"
  tot_taxBuckets :: "CanonicalTaxBucketDto list"
  tot_montoItbis :: dbl
  tot_montoTotal :: dbl

record CanonicalReferencesDto =
  ref_correctsTxnId :: string
  ref_correctsENcf :: string
  ref_codigoModificacion :: "int option"
  ref_razonModificacion :: "string option"
  ref_fechaNcfModificado :: "string option"
  ref_rncOtroContribuyente :: "string option"
  ref_indicadorNotaCredito :: "int option"

record CanonicalRetentionDto =
  ret_indicadorAgente :: int
  ret_montoItbisRetenido :: dbl
  ret_montoIsrRetenido :: "dbl option"

record CanonicalCertificateDto =
  crt_certificateBase64 :: "string option"
  crt_password :: "string option"
  crt_certificatePath :: "string option"

record CanonicalDocumentDto =
  dto_tenantId :: "string option"
  dto_environment :: "string option"
  dto_certificate :: "CanonicalCertificateDto option"
  dto_ncf :: "string option"
  dto_sourceReference :: SourceReferenceDto
  dto_documentKind :: string
  dto_tipoComprobante :: string
  dto_header :: CanonicalHeaderDto
  dto_currency :: "CanonicalCurrencyDto option"
  dto_lines :: "CanonicalLineDto list"
  dto_totals :: CanonicalTotalsDto
  dto_references :: CanonicalReferencesDto
  dto_retention :: "CanonicalRetentionDto option"
  dto_fechaVencimientoSecuencia :: "string option"

text \<open>The default member initialisers.\<close>

definition default_line :: CanonicalLineDto where
  "default_line = \<lparr> ln_lineNumber = 0, ln_itemName = [], ln_quantity = dzero, ln_unitPrice = dzero,
     ln_amount = dzero, ln_discountAmount = dzero, ln_indicadorFacturacion = None, ln_taxRate = None,
     ln_taxAmount = None, ln_montoItbisRetenido = None, ln_montoIsrRetenido = None \<rparr>"

definition default_dto :: CanonicalDocumentDto where
  "default_dto = \<lparr> dto_tenantId = None, dto_environment = None, dto_certificate = None, dto_ncf = None,
     dto_sourceReference = \<lparr> src_provider = ''QuickBooksDesktop'', src_txnId = [], src_editSequence = [] \<rparr>,
     dto_documentKind = ''Invoice'', dto_tipoComprobante = ''E31'',
     dto_header = \<lparr> hdr_rncEmisor = [], hdr_razonSocialEmisor = [], hdr_rncComprador = [],
       hdr_identificadorExtranjero = None, hdr_razonSocialComprador = [], hdr_correoComprador = None,
       hdr_fechaEmision = [], hdr_fechaVencimientoSecuencia = None, hdr_direccionEmisor = None,
       hdr_tipoPago = None, hdr_fechaLimitePago = None, hdr_tipoIngresos = None \<rparr>,
     dto_currency = None, dto_lines = [],
     dto_totals = \<lparr> tot_montoSubtotal = dzero, tot_montoGravadoTotal = None, tot_montoExento = None,
       tot_taxBuckets = [], tot_montoItbis = dzero, tot_montoTotal = dzero \<rparr>,
     dto_references = \<lparr> ref_correctsTxnId = [], ref_correctsENcf = [], ref_codigoModificacion = None,
       ref_razonModificacion = None, ref_fechaNcfModificado = None, ref_rncOtroContribuyente = None,
       ref_indicadorNotaCredito = None \<rparr>,
     dto_retention = None, dto_fechaVencimientoSecuencia = None \<rparr>"

subsection \<open>String and number helpers of CanonicalXmlBuilder.cpp\<close>

abbreviation dint :: "int \<Rightarrow> dbl" where
  "dint n \<equiv> dlit n 1"

definition startsWithIgnoreCase :: "string \<Rightarrow> string \<Rightarrow> bool" where
  "startsWithIgnoreCase s p \<longleftrightarrow>
     \<not> length s < length p \<and> list_all2 (\<lambda>a b. toupper a = toupper b) (take (length p) s) p"

definition cleanDigits :: "string \<Rightarrow> string" where
  "cleanDigits s = filter isdigit s"

definition hasAlpha :: "string \<Rightarrow> bool" where
  "hasAlpha s \<longleftrightarrow> list_ex isalpha s"

text \<open>UTC-4 all the year round.\<close>

definition getDominicanTm :: "int \<Rightarrow> tm" where
  "getDominicanTm tt = gmtime (tt - 4 * 3600)"

definition formatMoney2 :: "dbl \<Rightarrow> string" where
  "formatMoney2 v = fmt_fixed 2 v"

text \<open>The two \<open>pop_back\<close> loops, on the reversed string.\<close>

fun pop_price :: "nat \<Rightarrow> string \<Rightarrow> string" where
  "pop_price keep [] = []"
| "pop_price keep (c # r) =
     (if keep < length (c # r) \<and> c = CHR ''0'' then pop_price keep r else c # r)"

definition formatPrice4 :: "dbl \<Rightarrow> string" where
  "formatPrice4 v = (let s = fmt_fixed 4 v; dot = length (takeWhile (\<lambda>c. c \<noteq> CHR ''.'') s) in
     if CHR ''.'' \<in> set s then rev (pop_price (dot + 3) (rev s)) else s)"

fun pop_qty :: "string \<Rightarrow> string" where
  "pop_qty [] = []"
| "pop_qty (c # r) =
     (if CHR ''.'' \<in> set (c # r) then
        if c = CHR ''.'' then r
        else if c = CHR ''0'' then pop_qty r
        else c # r
      else c # r)"

definition formatQty2 :: "dbl \<Rightarrow> string" where
  "formatQty2 v = rev (pop_qty (rev (fmt_fixed 2 v)))"

end
