(* ===== verification/Rfce_Model.thy ===== *)
theory Rfce_Model
  imports Xml_Lines Canonical_Dto
begin

text \<open>
  The RFCE of the direct client: the structs of Rfce.h and \<open>serialize\<close> of
  EcfXmlSerializer.cpp, which streams them as XML.  The stream is a list of pieces: an opening
  tag, a closing tag, or a leaf with its (not yet escaped) text; \<open>serialize\<close> is their text.
  \<open>tokens\<close> is an XML reader's view of such a text, and \<open>serialize_reads_back\<close> shows that it sees
  exactly the pieces: no field can change the structure, and no field is lost.
\<close>

subsection \<open>Rfce.h\<close>

record FormaDePagoItem =
  fp_formaPago :: int
  fp_montoPago :: dbl

record RfceIdDoc =
  ri_tipoeCF :: string
  ri_eNcf :: string
  ri_tipoIngresos :: int
  ri_tipoPago :: int
  ri_tablaFormasPago :: "FormaDePagoItem list"

record RfceEmisor =
  re_rncEmisor :: string
  re_razonSocialEmisor :: string
  re_fechaEmision :: string

record RfceComprador =
  rc_rncComprador :: "string option"
  rc_identificadorExtranjero :: "string option"
  rc_razonSocialComprador :: "string option"

record ImpuestoAdicionalItem =
  ia_tipoImpuesto :: string
  ia_selectivoEspecifico :: "dbl option"
  ia_selectivoAdvalorem :: "dbl option"
  ia_otros :: "dbl option"

record RfceTotales =
  rt_montoGravadoTotal :: "dbl option"
  rt_montoGravadoI1 :: "dbl option"
  rt_montoGravadoI2 :: "dbl option"
  rt_montoGravadoI3 :: "dbl option"
  rt_montoExento :: "dbl option"
  rt_totalITBIS :: "dbl option"
  rt_totalITBIS1 :: "dbl option"
  rt_totalITBIS2 :: "dbl option"
  rt_totalITBIS3 :: "dbl option"
  rt_montoImpuestoAdicional :: "dbl option"
  rt_impuestosAdicionales :: "ImpuestoAdicionalItem list"
  rt_montoTotal :: dbl
  rt_montoNoFacturable :: "dbl option"
  rt_montoPeriodo :: "dbl option"
  rt_codigoSeguridadeCF :: "string option"

record RfceEncabezado =
  rh_version :: string
  rh_idDoc :: RfceIdDoc
  rh_emisor :: RfceEmisor
  rh_comprador :: "RfceComprador option"
  rh_totales :: RfceTotales
  rh_codigoSeguridadeCF :: "string option"

record Rfce =
  rf_encabezado :: RfceEncabezado

subsection \<open>The stream\<close>

datatype piece = Open string | Close string | Leaf string string

fun piece_text :: "piece \<Rightarrow> string" where
  "piece_text (Open t) = ''<'' @ t @ ''>''"
| "piece_text (Close t) = ''</'' @ t @ ''>''"
| "piece_text (Leaf t v) = ''<'' @ t @ ''>'' @ serializer_xmlEscape v @ ''</'' @ t @ ''>''"

definition stream :: "piece list \<Rightarrow> string" where
  "stream ps = concat (map piece_text ps)"

lemma stream_simps [simp]:
  "stream [] = []" "stream (p # ps) = piece_text p @ stream ps" "stream (ps @ qs) = stream ps @ stream qs"
  by (simp_all add: stream_def)

definition money :: "dbl \<Rightarrow> string" where
  "money v = fmt_fixed 2 (case v of
       DFin s m e \<Rightarrow> if dlt v dzero then dzero else v
     | _ \<Rightarrow> dzero)"

definition elOpt :: "string \<Rightarrow> string option \<Rightarrow> piece list" where
  "elOpt tag v = (case v of None \<Rightarrow> [] | Some s \<Rightarrow> [Leaf tag s])"

definition elMoneyOpt :: "string \<Rightarrow> dbl option \<Rightarrow> piece list" where
  "elMoneyOpt tag v = (case v of None \<Rightarrow> [] | Some x \<Rightarrow> [Leaf tag (money x)])"

text \<open>A section with its tags around it.\<close>

definition section_of :: "string \<Rightarrow> piece list \<Rightarrow> piece list" where
  "section_of tag body = Open tag # body @ [Close tag]"

definition tipoIngresosStr :: "int \<Rightarrow> string" where
  "tipoIngresosStr n = (let validTipoIngresos = (if n > 0 then n else 1) in
     if validTipoIngresos < 10 then ''0'' @ dec_int validTipoIngresos else dec_int validTipoIngresos)"

definition idDoc_pieces :: "RfceIdDoc \<Rightarrow> piece list" where
  "idDoc_pieces d = section_of ''IdDoc''
     ([Leaf ''TipoeCF'' (ri_tipoeCF d), Leaf ''eNCF'' (ri_eNcf d),
       Leaf ''TipoIngresos'' (tipoIngresosStr (ri_tipoIngresos d)),
       Leaf ''TipoPago'' (dec_int (ri_tipoPago d))]
      @ (if ri_tablaFormasPago d \<noteq> [] then section_of ''TablaFormasPago''
           (concat (map (\<lambda>fp. section_of ''FormaDePago''
             [Leaf ''FormaPago'' (dec_int (fp_formaPago fp)), Leaf ''MontoPago'' (money (fp_montoPago fp))])
              (ri_tablaFormasPago d)))
         else []))"

definition emisor_pieces :: "RfceEmisor \<Rightarrow> piece list" where
  "emisor_pieces e = section_of ''Emisor''
     [Leaf ''RNCEmisor'' (re_rncEmisor e), Leaf ''RazonSocialEmisor'' (re_razonSocialEmisor e),
      Leaf ''FechaEmision'' (re_fechaEmision e)]"

definition comprador_pieces :: "RfceComprador option \<Rightarrow> piece list" where
  "comprador_pieces c = section_of ''Comprador'' (case c of
       None \<Rightarrow> []
     | Some x \<Rightarrow> elOpt ''RNCComprador'' (rc_rncComprador x)
         @ elOpt ''IdentificadorExtranjero'' (rc_identificadorExtranjero x)
         @ elOpt ''RazonSocialComprador'' (rc_razonSocialComprador x))"

definition impuesto_pieces :: "ImpuestoAdicionalItem \<Rightarrow> piece list" where
  "impuesto_pieces ia = section_of ''ImpuestoAdicional''
     ([Leaf ''TipoImpuesto'' (ia_tipoImpuesto ia)]
      @ elMoneyOpt ''MontoImpuestoSelectivoConsumoEspecifico'' (ia_selectivoEspecifico ia)
      @ elMoneyOpt ''MontoImpuestoSelectivoConsumoAdvalorem'' (ia_selectivoAdvalorem ia)
      @ elMoneyOpt ''OtrosImpuestosAdicionales'' (ia_otros ia))"

definition totales_pieces :: "RfceTotales \<Rightarrow> piece list" where
  "totales_pieces t = section_of ''Totales''
     (elMoneyOpt ''MontoGravadoTotal'' (rt_montoGravadoTotal t)
      @ elMoneyOpt ''MontoGravadoI1'' (rt_montoGravadoI1 t)
      @ elMoneyOpt ''MontoGravadoI2'' (rt_montoGravadoI2 t)
      @ elMoneyOpt ''MontoGravadoI3'' (rt_montoGravadoI3 t)
      @ elMoneyOpt ''MontoExento'' (rt_montoExento t)
      @ elMoneyOpt ''TotalITBIS'' (rt_totalITBIS t)
      @ elMoneyOpt ''TotalITBIS1'' (rt_totalITBIS1 t)
      @ elMoneyOpt ''TotalITBIS2'' (rt_totalITBIS2 t)
      @ elMoneyOpt ''TotalITBIS3'' (rt_totalITBIS3 t)
      @ elMoneyOpt ''MontoImpuestoAdicional'' (rt_montoImpuestoAdicional t)
      @ (if rt_impuestosAdicionales t \<noteq> []
         then section_of ''ImpuestosAdicionales'' (concat (map impuesto_pieces (rt_impuestosAdicionales t)))
         else [])
      @ [Leaf ''MontoTotal'' (money (rt_montoTotal t))]
      @ elMoneyOpt ''MontoNoFacturable'' (rt_montoNoFacturable t)
      @ elMoneyOpt ''MontoPeriodo'' (rt_montoPeriodo t))"

definition rfce_pieces :: "Rfce \<Rightarrow> piece list" where
  "rfce_pieces model = (let e = rf_encabezado model;
       secCode = (if rh_codigoSeguridadeCF e \<noteq> None then rh_codigoSeguridadeCF e
                  else rt_codigoSeguridadeCF (rh_totales e))
     in section_of ''RFCE'' (section_of ''Encabezado''
          ([Leaf ''Version'' (rh_version e)]
           @ idDoc_pieces (rh_idDoc e)
           @ emisor_pieces (rh_emisor e)
           @ comprador_pieces (rh_comprador e)
           @ totales_pieces (rh_totales e)
           @ elOpt ''CodigoSeguridadeCF'' secCode)))"

definition xml_declaration :: string where
  "xml_declaration = ''<?xml version='' @ [CHR 0x22] @ ''1.0'' @ [CHR 0x22] @ '' encoding='' @ [CHR 0x22]
     @ ''utf-8'' @ [CHR 0x22] @ ''?>''"

definition serialize :: "Rfce \<Rightarrow> string" where
  "serialize model = xml_declaration @ stream (rfce_pieces model)"

definition getFileName :: "string \<Rightarrow> string \<Rightarrow> string" where
  "getFileName rncEmisor eNcf = rncEmisor @ eNcf @ ''.xml''"

subsection \<open>An XML reader's view\<close>

datatype token = Tag string | Txt string

function tokens :: "string \<Rightarrow> token list" where
  "tokens [] = []"
| "tokens (c # cs) =
     (if c = CHR ''<''
      then Tag (takeWhile (\<lambda>x. x \<noteq> CHR ''>'') cs) # tokens (drop 1 (dropWhile (\<lambda>x. x \<noteq> CHR ''>'') cs))
      else Txt (xml_unescape (c # takeWhile (\<lambda>x. x \<noteq> CHR ''<'') cs)) # tokens (dropWhile (\<lambda>x. x \<noteq> CHR ''<'') cs))"
  by pat_completeness auto
termination
proof (relation "measure length")
  show "(drop 1 (dropWhile (\<lambda>x. x \<noteq> CHR ''>'') cs), c # cs) \<in> measure length" for c cs
    using length_dropWhile_le [of "\<lambda>x. x \<noteq> CHR ''>''" cs] by simp
  show "(dropWhile (\<lambda>x. x \<noteq> CHR ''<'') cs, c # cs) \<in> measure length" for c cs
    using length_dropWhile_le [of "\<lambda>x. x \<noteq> CHR ''<''" cs] by simp
qed simp

text \<open>The text of a leaf survives, less the bytes XML 1.0 forbids and DEL.\<close>

definition kept :: "string \<Rightarrow> string" where
  "kept v = filter (\<lambda>c. \<not> is_ctrl c \<and> code c \<noteq> 0x7F) v"

fun piece_tokens :: "piece \<Rightarrow> token list" where
  "piece_tokens (Open t) = [Tag t]"
| "piece_tokens (Close t) = [Tag (CHR ''/'' # t)]"
| "piece_tokens (Leaf t v) = Tag t # (if kept v = [] then [] else [Txt (kept v)]) @ [Tag (CHR ''/'' # t)]"

lemma takeWhile_stop: "\<forall>x \<in> set xs. P x \<Longrightarrow> \<not> P y \<Longrightarrow> takeWhile P (xs @ y # ys) = xs"
  by (induction xs) auto

lemma dropWhile_stop: "\<forall>x \<in> set xs. P x \<Longrightarrow> \<not> P y \<Longrightarrow> dropWhile P (xs @ y # ys) = y # ys"
  by (induction xs) auto

lemma tokens_tag:
  assumes "CHR ''>'' \<notin> set t"
  shows "tokens (CHR ''<'' # t @ CHR ''>'' # rest) = Tag t # tokens rest"
proof -
  have "\<forall>x \<in> set t. x \<noteq> CHR ''>''" using assms by auto
  then show ?thesis by (simp add: takeWhile_stop dropWhile_stop)
qed

lemma tokens_text:
  assumes "CHR ''<'' \<notin> set s" "s \<noteq> []"
  shows "tokens (s @ CHR ''<'' # rest) = Txt (xml_unescape s) # tokens (CHR ''<'' # rest)"
proof -
  obtain c cs where s: "s = c # cs" using assms(2) by (cases s) auto
  then have "c \<noteq> CHR ''<''" "\<forall>x \<in> set cs. x \<noteq> CHR ''<''" using assms(1) by auto
  then show ?thesis by (simp only: s append_Cons tokens.simps if_False takeWhile_stop dropWhile_stop simp_thms not_not)
qed

text \<open>For every escaping function that meets its contract, a leaf is read as it was written.\<close>

context xml_escaper
begin

lemma leaf_tokens:
  assumes "CHR ''>'' \<notin> set t" "\<And>v. filter keep v = [] \<Longrightarrow> esc v = []"
  shows "tokens (CHR ''<'' # t @ CHR ''>'' # esc v @ CHR ''<'' # CHR ''/'' # t @ CHR ''>'' # rest)
    = Tag t # (if filter keep v = [] then [] else [Txt (filter keep v)]) @ Tag (CHR ''/'' # t) # tokens rest"
proof -
  have close: "tokens (CHR ''<'' # CHR ''/'' # t @ CHR ''>'' # rest) = Tag (CHR ''/'' # t) # tokens rest"
    using tokens_tag [of "CHR ''/'' # t" rest] assms(1) by simp
  show ?thesis
  proof (cases "filter keep v = []")
    case True
    then have "esc v = []" by (rule assms(2))
    then show ?thesis using True close by (simp only: tokens_tag [OF assms(1)] append.simps if_True simp_thms)
  next
    case False
    then have ne: "esc v \<noteq> []" using esc_read [of v] by auto
    have "CHR ''<'' \<notin> set (esc v)" using esc_no_markup by (auto simp: markup_def)
    from tokens_text [OF this ne] close False show ?thesis
      by (simp only: tokens_tag [OF assms(1)] esc_read if_False append.simps)
  qed
qed

end

subsection \<open>Reading the stream\<close>

fun tag_of :: "piece \<Rightarrow> string" where
  "tag_of (Open t) = t" | "tag_of (Close t) = t" | "tag_of (Leaf t v) = t"

definition plain_tags :: "piece list \<Rightarrow> bool" where
  "plain_tags ps \<longleftrightarrow> list_all (\<lambda>p. list_all isalnum (tag_of p)) ps"

named_theorems piece_rules \<open>streams with plain tags, streams that nest\<close>

lemma plain_tags_simps [simp]:
  "plain_tags []" "plain_tags (p # ps) \<longleftrightarrow> list_all isalnum (tag_of p) \<and> plain_tags ps"
  "plain_tags (ps @ qs) \<longleftrightarrow> plain_tags ps \<and> plain_tags qs"
  by (simp_all add: plain_tags_def)

lemma plain_concat_map [piece_rules]: "(\<And>x. plain_tags (f x)) \<Longrightarrow> plain_tags (concat (map f xs))"
  by (induction xs) simp_all

lemma serializer_esc_Nil: "kept v = [] \<Longrightarrow> serializer_xmlEscape v = []"
proof (induction v)
  case (Cons c cs)
  then show ?case by (auto simp: kept_def serializer_step split: if_splits)
qed simp

lemma piece_read:
  assumes "list_all isalnum (tag_of p)"
  shows "tokens (piece_text p @ rest) = piece_tokens p @ tokens rest"
proof -
  have "\<not> isalnum (CHR ''>'')" by code_simp
  then have gt: "CHR ''>'' \<notin> set (tag_of p)" using assms by (auto simp: list_all_iff)
  show ?thesis
  proof (cases p)
    case (Open t)
    then show ?thesis using tokens_tag [of t rest] gt by simp
  next
    case (Close t)
    then show ?thesis using tokens_tag [of "CHR ''/'' # t" rest] gt by simp
  next
    case (Leaf t v)
    then show ?thesis
      using serializer_esc.leaf_tokens [of t v rest] gt serializer_esc_Nil by (simp add: kept_def)
  qed
qed

lemma stream_read: "plain_tags ps \<Longrightarrow> tokens (stream ps @ rest) = concat (map piece_tokens ps) @ tokens rest"
  by (induction ps) (simp_all add: piece_read)

lemma section_plain [piece_rules]: "list_all isalnum t \<Longrightarrow> plain_tags ps \<Longrightarrow> plain_tags (section_of t ps)"
  by (simp add: section_of_def)

lemma el_plain [piece_rules]:
  "list_all isalnum t \<Longrightarrow> plain_tags (elOpt t v)" "list_all isalnum t \<Longrightarrow> plain_tags (elMoneyOpt t w)"
  by (simp_all add: elOpt_def elMoneyOpt_def split: option.splits)

lemmas alnum_eval = isalnum_def isalpha_def isupper_def islower_def isdigit_def code_def

lemma rfce_plain: "plain_tags (rfce_pieces m)"
  unfolding rfce_pieces_def Let_def idDoc_pieces_def emisor_pieces_def comprador_pieces_def totales_pieces_def
    impuesto_pieces_def
  by (intro piece_rules; simp add: alnum_eval plain_concat_map section_plain el_plain split: option.splits)

subsection \<open>Nesting\<close>

fun piece_walk :: "piece list \<Rightarrow> string list \<Rightarrow> string list option" where
  "piece_walk [] st = Some st"
| "piece_walk (Open t # ps) st = piece_walk ps (t # st)"
| "piece_walk (Close t # ps) st = (case st of [] \<Rightarrow> None | u # us \<Rightarrow> if u = t then piece_walk ps us else None)"
| "piece_walk (Leaf t v # ps) st = piece_walk ps st"

definition nests :: "piece list \<Rightarrow> bool" where
  "nests ps \<longleftrightarrow> (\<forall>rest st. piece_walk (ps @ rest) st = piece_walk rest st)"

lemma nests_simps [simp]: "nests []" "nests (Leaf t v # ps) \<longleftrightarrow> nests ps"
  by (simp_all add: nests_def)

lemma nests_append [piece_rules]: "nests ps \<Longrightarrow> nests qs \<Longrightarrow> nests (ps @ qs)"
  by (simp add: nests_def)

lemma nests_section [piece_rules]: "nests ps \<Longrightarrow> nests (section_of t ps)"
  by (simp add: nests_def section_of_def)

lemma nests_concat_map [piece_rules]: "(\<And>x. nests (f x)) \<Longrightarrow> nests (concat (map f xs))"
  by (induction xs) (simp_all add: nests_append)

lemma nests_el [piece_rules]: "nests (elOpt t v)" "nests (elMoneyOpt t w)"
  by (simp_all add: elOpt_def elMoneyOpt_def split: option.splits)

lemma rfce_nests: "nests (rfce_pieces m)"
  unfolding rfce_pieces_def Let_def idDoc_pieces_def emisor_pieces_def comprador_pieces_def totales_pieces_def
    impuesto_pieces_def
  by (intro piece_rules; simp add: nests_append nests_section nests_concat_map nests_el split: option.splits)

subsection \<open>Fields\<close>

fun first_leaf :: "string \<Rightarrow> piece list \<Rightarrow> string option" where
  "first_leaf t [] = None"
| "first_leaf t (Leaf u v # ps) = (if u = t then Some v else first_leaf t ps)"
| "first_leaf t (_ # ps) = first_leaf t ps"

lemma first_leaf_append: "first_leaf t (ps @ qs) = (case first_leaf t ps of None \<Rightarrow> first_leaf t qs | Some v \<Rightarrow> Some v)"
  by (induction t ps rule: first_leaf.induct) simp_all

lemma first_leaf_section [simp]: "first_leaf t (section_of u ps) = first_leaf t ps"
  by (simp add: section_of_def first_leaf_append split: option.splits)

lemma first_leaf_el [simp]:
  "first_leaf t (elOpt u v) = (if t = u then v else None)"
  "first_leaf t (elMoneyOpt u w) = (if t = u then map_option money w else None)"
  by (simp_all add: elOpt_def elMoneyOpt_def split: option.splits)

lemma first_leaf_concat_map: "(\<And>x. first_leaf t (f x) = None) \<Longrightarrow> first_leaf t (concat (map f xs)) = None"
  by (induction xs) (simp_all add: first_leaf_append)

lemma impuesto_lacks: "t \<in> {''MontoTotal'', ''CodigoSeguridadeCF''} \<Longrightarrow> first_leaf t (impuesto_pieces ia) = None"
  by (auto simp: impuesto_pieces_def first_leaf_append)

lemma formas_lack: "t \<notin> {''FormaPago'', ''MontoPago''} \<Longrightarrow>
    first_leaf t (concat (map (\<lambda>fp. section_of ''FormaDePago''
      [Leaf ''FormaPago'' (dec_int (fp_formaPago fp)), Leaf ''MontoPago'' (money (fp_montoPago fp))]) fps)) = None"
  by (rule first_leaf_concat_map) auto

subsection \<open>Properties\<close>

text \<open>An XML reader sees in the serialized RFCE exactly what was written: every tag opens and
  closes in order, every text comes back as it was (less the bytes XML 1.0 forbids and DEL),
  and the issuer, the number, the total and the security code are where the DGII looks for
  them, the code of the header before that of the totals.\<close>

theorem serialize_reads_back:
  "tokens (serialize m) = Tag (butlast (tl xml_declaration)) # concat (map piece_tokens (rfce_pieces m))
   \<and> piece_walk (rfce_pieces m) [] = Some []
   \<and> first_leaf ''RNCEmisor'' (rfce_pieces m) = Some (re_rncEmisor (rh_emisor (rf_encabezado m)))
   \<and> first_leaf ''eNCF'' (rfce_pieces m) = Some (ri_eNcf (rh_idDoc (rf_encabezado m)))
   \<and> first_leaf ''MontoTotal'' (rfce_pieces m) = Some (money (rt_montoTotal (rh_totales (rf_encabezado m))))
   \<and> first_leaf ''CodigoSeguridadeCF'' (rfce_pieces m) =
       (case rh_codigoSeguridadeCF (rf_encabezado m) of
          None \<Rightarrow> rt_codigoSeguridadeCF (rh_totales (rf_encabezado m)) | Some c \<Rightarrow> Some c)"
proof -
  have decl: "xml_declaration = CHR ''<'' # butlast (tl xml_declaration) @ [CHR ''>'']"
    "CHR ''>'' \<notin> set (butlast (tl xml_declaration))"
    by (simp_all add: xml_declaration_def)
  have "tokens (xml_declaration @ stream (rfce_pieces m)) = Tag (butlast (tl xml_declaration)) # tokens (stream (rfce_pieces m))"
    using tokens_tag [OF decl(2), of "stream (rfce_pieces m)"] by (subst decl(1)) simp
  moreover have "tokens (stream (rfce_pieces m)) = concat (map piece_tokens (rfce_pieces m))"
    using stream_read [OF rfce_plain, of m "[]"] by simp
  moreover have "piece_walk (rfce_pieces m) [] = Some []"
    using rfce_nests [of m] unfolding nests_def by (metis append_Nil2 piece_walk.simps(1))
  ultimately show ?thesis
    by (auto simp: serialize_def rfce_pieces_def Let_def idDoc_pieces_def emisor_pieces_def comprador_pieces_def
        totales_pieces_def first_leaf_append formas_lack first_leaf_concat_map impuesto_lacks split: option.splits)
qed

end
