(* ===== verification/Canonical_Fields.thy ===== *)
theory Canonical_Fields
  imports Canonical_Dto
begin

text \<open>
  The functions of CanonicalXmlBuilder.cpp that normalise one field of the canonical
  document: \<open>resolveCanonicalCurrency\<close>, \<open>normalizeNcfReference\<close>,
  \<open>normalizeFechaDgii\<close> and \<open>parseDateToDays\<close>.
\<close>

subsection \<open>Currency\<close>

definition ValidDgiiForeignCurrencyCodes :: "string list" where
  "ValidDgiiForeignCurrencyCodes =
     [''BRL'', ''CAD'', ''CHF'', ''CHY'', ''XDR'', ''DKK'', ''EUR'', ''GBP'',
      ''JPY'', ''NOK'', ''SCP'', ''SEK'', ''USD'', ''VEF'', ''HTG'', ''MXN'', ''COP'']"

datatype currency_error =
    NoCurrencyError
  | NotADgiiCurrency string
  | ExchangeRateOutOfRange

record CanonicalCurrencyResolution =
  res_isForeign :: bool
  res_code :: string
  res_exchangeRate :: dbl
  res_validationError :: currency_error

definition domestic_currency :: CanonicalCurrencyResolution where
  "domestic_currency = \<lparr> res_isForeign = False, res_code = ''DOP'', res_exchangeRate = dint 1,
     res_validationError = NoCurrencyError \<rparr>"

definition resolveCanonicalCurrency :: "CanonicalCurrencyDto option \<Rightarrow> CanonicalCurrencyResolution" where
  "resolveCanonicalCurrency currency = (case currency of
       None \<Rightarrow> domestic_currency
     | Some cur \<Rightarrow>
         let rawCode = trim (cur_code cur) in
         if rawCode = [] then domestic_currency
         else let code0 = upper rawCode in
           if code0 = ''DOP'' \<or> code0 = ''RD$'' \<or> code0 = ''RDS'' then domestic_currency
           else
             let cc = (if code0 = ''CNY'' then ''CHY'' else if code0 = ''US$'' then ''USD'' else code0);
                 res = \<lparr> res_isForeign = True, res_code = cc, res_exchangeRate = cur_exchangeRate cur,
                   res_validationError = NoCurrencyError \<rparr>
             in if cc \<notin> set ValidDgiiForeignCurrencyCodes
                then res \<lparr> res_validationError := NotADgiiCurrency (cur_code cur) \<rparr>
                else if dle (cur_exchangeRate cur) dzero \<or> dle (dint 1000) (cur_exchangeRate cur)
                then res \<lparr> res_validationError := ExchangeRateOutOfRange \<rparr>
                else res \<lparr> res_exchangeRate := round4 (cur_exchangeRate cur) \<rparr>)"

text \<open>\<open>isForeign && validationError.empty()\<close>, and the rate the builder multiplies by.\<close>

definition usable_foreign :: "CanonicalCurrencyResolution \<Rightarrow> bool" where
  "usable_foreign r \<longleftrightarrow> res_isForeign r \<and> res_validationError r = NoCurrencyError"

definition builder_rate :: "CanonicalCurrencyResolution \<Rightarrow> dbl" where
  "builder_rate r = (if usable_foreign r then res_exchangeRate r else dint 1)"

lemma foreign_code_safe: "s \<in> set ValidDgiiForeignCurrencyCodes \<Longrightarrow> length s = 3 \<and> list_all isupper s"
  by (auto simp: ValidDgiiForeignCurrencyCodes_def isupper_def code_def)

lemma usable_foreign_code:
  "usable_foreign (resolveCanonicalCurrency c) \<Longrightarrow>
   res_code (resolveCanonicalCurrency c) \<in> set ValidDgiiForeignCurrencyCodes"
  by (auto simp: usable_foreign_def resolveCanonicalCurrency_def domestic_currency_def Let_def
      split: option.splits if_splits)

lemma builder_rate_nonneg:
  assumes "\<And>cur. c = Some cur \<Longrightarrow> dwf (cur_exchangeRate cur) \<and> cur_exchangeRate cur \<noteq> DNaN"
  shows "nonneg (builder_rate (resolveCanonicalCurrency c))"
proof (cases "usable_foreign (resolveCanonicalCurrency c)")
  case True
  then obtain cur where c: "c = Some cur" and u: "\<not> dle (cur_exchangeRate cur) dzero"
    and e: "res_exchangeRate (resolveCanonicalCurrency c) = round4 (cur_exchangeRate cur)"
    by (auto simp: usable_foreign_def resolveCanonicalCurrency_def domestic_currency_def Let_def
        split: option.splits if_splits)
  have w: "dwf (cur_exchangeRate cur)" "cur_exchangeRate cur \<noteq> DNaN" using assms c by auto
  then have "nonneg (cur_exchangeRate cur)"
    using u by (cases "cur_exchangeRate cur") (auto simp: dle_def dzero_def sgm_def split: if_splits)
  then show ?thesis using True e by (simp add: builder_rate_def nonneg_round4)
next
  case False
  then show ?thesis by (simp add: builder_rate_def)
qed

subsection \<open>NCF references\<close>

definition normalizeNcfReference :: "string \<Rightarrow> string" where
  "normalizeNcfReference raw =
     (let s = trim raw in
      if s = [] then s
      else let u = upper s in
        if u \<noteq> [] \<and> all_digits u then
          if length u = 9 then
            if hd u \<in> set ''1234'' then ''B0'' @ u
            else if hd u \<in> set ''567'' then ''B1'' @ u
            else u
          else if length u = 10 then
            if take 2 u \<in> {''01'', ''02'', ''03'', ''04'', ''14'', ''15'', ''16'', ''17''} then ''B'' @ u
            else u
          else if length u = 8 then ''B02'' @ u
          else u
        else u)"

lemma upper_nonempty [simp]: "upper s = [] \<longleftrightarrow> s = []"
  by simp

lemma trim_upper: "trim (upper s) = upper (trim s)"
proof -
  have c: "isspace \<circ> toupper = isspace" by (simp add: fun_eq_iff)
  have d: "dropWhile isspace (upper t) = upper (dropWhile isspace t)" for t
    by (simp add: dropWhile_map c)
  show ?thesis by (simp add: trim_def rtrim_def ltrim_def d rev_map)
qed

lemma trim_digits: "all_digits s \<Longrightarrow> trim s = s"
  by (rule trim_no_space) (auto simp: list_all_iff isdigit_not_space)

lemma upper_digits: "all_digits s \<Longrightarrow> upper s = s"
  by (induction s) auto

lemma all_digits_upper [simp]: "all_digits (upper s) = all_digits s"
  by (simp add: list_all_iff)

lemma toupper_B: "toupper (CHR ''B'') = CHR ''B''" "\<not> isspace (CHR ''B'')" "\<not> isdigit (CHR ''B'')"
  by (simp_all add: toupper_def islower_def isspace_def isdigit_def code_def)

text \<open>A reference that starts with a letter or has any other shape is only trimmed and upper-cased.\<close>

lemma normalizeNcf_other:
  assumes "\<not> all_digits (trim raw)"
  shows "normalizeNcfReference raw = upper (trim raw)"
  using assms by (auto simp: normalizeNcfReference_def Let_def)

definition ncf_prefixes :: "string set" where
  "ncf_prefixes = {''B0'', ''B1'', ''B'', ''B02''}"

lemma ncf_prefixes_mem:
  "''B0'' \<in> ncf_prefixes" "''B1'' \<in> ncf_prefixes" "''B'' \<in> ncf_prefixes" "''B02'' \<in> ncf_prefixes"
  by (simp_all add: ncf_prefixes_def)

lemma ncf_mem: "p \<in> ncf_prefixes \<Longrightarrow> p @ t \<in> insert t ((\<lambda>p. p @ t) ` ncf_prefixes)"
  by blast

lemma if_mem: "x \<in> S \<Longrightarrow> y \<in> S \<Longrightarrow> (if b then x else y) \<in> S"
  by simp

lemma normalizeNcf_digits:
  assumes "all_digits (trim raw)"
  shows "normalizeNcfReference raw \<in> insert (trim raw) ((\<lambda>p. p @ trim raw) ` ncf_prefixes)"
  unfolding normalizeNcfReference_def Let_def upper_digits [OF assms]
  by (intro if_mem ncf_mem ncf_prefixes_mem insertI1)

lemma normalizeNcf_upper_trim: "normalizeNcfReference (upper (trim raw)) = normalizeNcfReference raw"
proof -
  have u: "trim (upper (trim raw)) = upper (trim raw)" by (simp only: trim_upper trim_idem)
  have uu: "upper (upper (trim raw)) = upper (trim raw)" by simp
  show ?thesis
  proof (cases "trim raw = []")
    case False
    then have "upper (trim raw) \<noteq> []" by simp
    with False show ?thesis unfolding normalizeNcfReference_def Let_def u uu by (simp only: if_False)
  qed (simp add: normalizeNcfReference_def)
qed

lemma B_digits_fixed:
  assumes "all_digits s" "p \<in> ncf_prefixes"
  shows "upper (trim (p @ s)) = p @ s" "\<not> all_digits (p @ s)" "trim (p @ s) = p @ s"
proof -
  have sp: "\<forall>c \<in> set (p @ s). \<not> isspace c"
  proof -
    have "\<forall>c \<in> set s. \<not> isspace c" using assms(1) by (auto simp: list_all_iff isdigit_not_space)
    moreover have "\<forall>c \<in> set p. \<not> isspace c"
      using assms(2) by (auto simp: ncf_prefixes_def isspace_def code_def)
    ultimately show ?thesis by auto
  qed
  have up: "upper p = p" using assms by (auto simp: ncf_prefixes_def toupper_def islower_def code_def)
  show t: "trim (p @ s) = p @ s" using sp by (rule trim_no_space)
  show "upper (trim (p @ s)) = p @ s" unfolding t using assms up by (simp add: upper_digits)
  show "\<not> all_digits (p @ s)" using assms(2) toupper_B by (auto simp: ncf_prefixes_def)
qed

subsection \<open>Dates\<close>

text \<open>The four fixed-width patterns, one byte class per position.\<close>

definition fixed_match :: "(char \<Rightarrow> bool) list \<Rightarrow> string \<Rightarrow> bool" where
  "fixed_match ps s \<longleftrightarrow> list_all2 (\<lambda>p c. p c) ps s"

abbreviation lit :: "char \<Rightarrow> char \<Rightarrow> bool" where
  "lit c \<equiv> (\<lambda>d. d = c)"

definition rgx_ddmmyyyy :: "(char \<Rightarrow> bool) list" where
  "rgx_ddmmyyyy = replicate 2 isdigit @ [lit (CHR ''-'')] @ replicate 2 isdigit @ [lit (CHR ''-'')]
     @ replicate 4 isdigit"

definition rgx_iso :: "(char \<Rightarrow> bool) list" where
  "rgx_iso = replicate 4 isdigit @ [\<lambda>d. d \<in> set ''-/''] @ replicate 2 isdigit @ [\<lambda>d. d \<in> set ''-/'']
     @ replicate 2 isdigit"

definition rgx_slash :: "(char \<Rightarrow> bool) list" where
  "rgx_slash = replicate 2 isdigit @ [lit (CHR ''/'')] @ replicate 2 isdigit @ [lit (CHR ''/'')]
     @ replicate 4 isdigit"

definition rgx_compact :: "(char \<Rightarrow> bool) list" where
  "rgx_compact = replicate 8 isdigit"

text \<open>\<open>m[k].str()\<close>: the group that starts at \<open>i\<close> and is \<open>n\<close> bytes wide.\<close>

definition submatch :: "nat \<Rightarrow> nat \<Rightarrow> string \<Rightarrow> string" where
  "submatch i n s = take n (drop i s)"

definition ddmmyyyy :: "tm \<Rightarrow> string" where
  "ddmmyyyy x = two (tm_mday x) @ ''-'' @ two (tm_mon x) @ ''-'' @ dec_int (tm_year x)"

definition dashes :: "string \<Rightarrow> string" where
  "dashes s = map (\<lambda>c. if c = CHR ''/'' then CHR ''-'' else c) s"

definition normalizeFechaDgii :: "int \<Rightarrow> string \<Rightarrow> string" where
  "normalizeFechaDgii now value =
     (if value = [] then ddmmyyyy (getDominicanTm now)
      else let trimmed = trim value in
        if fixed_match rgx_ddmmyyyy trimmed then trimmed
        else if fixed_match rgx_iso trimmed
        then submatch 8 2 trimmed @ ''-'' @ submatch 5 2 trimmed @ ''-'' @ submatch 0 4 trimmed
        else if fixed_match rgx_slash trimmed
        then submatch 0 2 trimmed @ ''-'' @ submatch 3 2 trimmed @ ''-'' @ submatch 6 4 trimmed
        else if fixed_match rgx_compact trimmed
        then submatch 6 2 trimmed @ ''-'' @ submatch 4 2 trimmed @ ''-'' @ submatch 0 4 trimmed
        else dashes trimmed)"

text \<open>C++ division of a \<open>time_t\<close> truncates toward zero.\<close>

definition parseDateToDays :: "(int \<Rightarrow> int \<Rightarrow> int \<Rightarrow> int) \<Rightarrow> int \<Rightarrow> string \<Rightarrow> int" where
  "parseDateToDays mkt now raw =
     (if raw = [] then 0
      else let norm = normalizeFechaDgii now raw in
        if fixed_match rgx_ddmmyyyy norm
        then let t = mkt (digits_val (submatch 6 4 norm)) (digits_val (submatch 3 2 norm))
                       (digits_val (submatch 0 2 norm))
          in if t \<noteq> - 1 then (if 0 \<le> t then t div 86400 else - ((- t) div 86400)) else 0
        else 0)"

subsection \<open>The normal form of a date\<close>

lemma fixed_match_append:
  "fixed_match (ps @ qs) s \<longleftrightarrow>
     length ps \<le> length s \<and> fixed_match ps (take (length ps) s) \<and> fixed_match qs (drop (length ps) s)"
proof
  assume "fixed_match (ps @ qs) s"
  then obtain u v where "s = u @ v" "length u = length ps" "fixed_match ps u" "fixed_match qs v"
    unfolding fixed_match_def list_all2_append1 by auto
  then show "length ps \<le> length s \<and> fixed_match ps (take (length ps) s) \<and> fixed_match qs (drop (length ps) s)"
    by auto
next
  assume a: "length ps \<le> length s \<and> fixed_match ps (take (length ps) s) \<and> fixed_match qs (drop (length ps) s)"
  then have "list_all2 (\<lambda>p c. p c) (ps @ qs) (take (length ps) s @ drop (length ps) s)"
    unfolding fixed_match_def by (intro list_all2_appendI) auto
  then show "fixed_match (ps @ qs) s" by (simp add: fixed_match_def)
qed

lemma fixed_match_Nil [simp]: "fixed_match [] s \<longleftrightarrow> s = []"
  by (simp add: fixed_match_def)

lemma fixed_match_Cons [simp]: "fixed_match (p # ps) (c # cs) \<longleftrightarrow> p c \<and> fixed_match ps cs"
  by (simp add: fixed_match_def)

lemma fixed_match_Cons_Nil [simp]: "\<not> fixed_match (p # ps) []"
  by (simp add: fixed_match_def)

lemma fixed_match_drop:
  "fixed_match (p # ps) (drop n t) \<longleftrightarrow> n < length t \<and> p (t ! n) \<and> fixed_match ps (drop (Suc n) t)"
proof (cases "n < length t")
  case True
  then have "drop n t = t ! n # drop (Suc n) t" by (simp add: Cons_nth_drop_Suc)
  then show ?thesis using True by simp
qed simp

lemma fixed_match_replicate: "fixed_match (replicate n p) s \<longleftrightarrow> length s = n \<and> list_all p s"
proof (induction n arbitrary: s)
  case (Suc n)
  then show ?case by (cases s) auto
qed auto

text \<open>Three groups of digits, two bytes for day and month and four for the year.\<close>

definition dmy_groups :: "string \<Rightarrow> string \<Rightarrow> string \<Rightarrow> bool" where
  "dmy_groups d m y \<longleftrightarrow> length d = 2 \<and> length m = 2 \<and> length y = 4
     \<and> all_digits d \<and> all_digits m \<and> all_digits y"

lemma ddmmyyyy_built: "dmy_groups d m y \<Longrightarrow> fixed_match rgx_ddmmyyyy (d @ ''-'' @ m @ ''-'' @ y)"
  by (simp add: rgx_ddmmyyyy_def fixed_match_append fixed_match_replicate dmy_groups_def)

lemma slash_built: "dmy_groups d m y \<Longrightarrow> fixed_match rgx_slash (d @ ''/'' @ m @ ''/'' @ y)"
  by (simp add: rgx_slash_def fixed_match_append fixed_match_replicate dmy_groups_def)

lemma iso_built:
  "dmy_groups d m y \<Longrightarrow> a \<in> set ''-/'' \<Longrightarrow> b \<in> set ''-/'' \<Longrightarrow> fixed_match rgx_iso (y @ [a] @ m @ [b] @ d)"
  by (simp add: rgx_iso_def fixed_match_append fixed_match_replicate dmy_groups_def)

lemma compact_built: "dmy_groups d m y \<Longrightarrow> fixed_match rgx_compact (y @ m @ d)"
  by (simp add: rgx_compact_def fixed_match_replicate dmy_groups_def)

lemma iso_groups: "fixed_match rgx_iso t \<Longrightarrow> dmy_groups (submatch 8 2 t) (submatch 5 2 t) (submatch 0 4 t)"
  by (simp add: rgx_iso_def fixed_match_append fixed_match_replicate fixed_match_drop submatch_def dmy_groups_def)

lemma slash_groups: "fixed_match rgx_slash t \<Longrightarrow> dmy_groups (submatch 0 2 t) (submatch 3 2 t) (submatch 6 4 t)"
  by (simp add: rgx_slash_def fixed_match_append fixed_match_replicate fixed_match_drop submatch_def dmy_groups_def)

lemma compact_groups: "fixed_match rgx_compact t \<Longrightarrow> dmy_groups (submatch 6 2 t) (submatch 4 2 t) (submatch 0 4 t)"
  by (auto simp: rgx_compact_def fixed_match_replicate fixed_match_drop submatch_def dmy_groups_def list_all_iff
      dest: in_set_dropD in_set_takeD)

lemma fixed_match_classes:
  "fixed_match ps s \<Longrightarrow> (\<And>p c. p \<in> set ps \<Longrightarrow> p c \<Longrightarrow> q c) \<Longrightarrow> list_all q s"
  unfolding fixed_match_def by (induction rule: list_all2_induct) auto

lemma date_chars: "isdigit c \<or> c = CHR ''-'' \<or> c = CHR ''/'' \<Longrightarrow> \<not> isspace c"
  by (auto simp: isdigit_def isspace_def code_def)

lemma trim_date:
  "fixed_match rgx_ddmmyyyy s \<Longrightarrow> trim s = s" "fixed_match rgx_iso s \<Longrightarrow> trim s = s"
  "fixed_match rgx_slash s \<Longrightarrow> trim s = s" "fixed_match rgx_compact s \<Longrightarrow> trim s = s"
proof -
  have t: "trim s = s" if "list_all (\<lambda>c. isdigit c \<or> c = CHR ''-'' \<or> c = CHR ''/'') s"
    using that date_chars by (intro trim_no_space) (auto simp: list_all_iff)
  show "fixed_match rgx_ddmmyyyy s \<Longrightarrow> trim s = s" "fixed_match rgx_iso s \<Longrightarrow> trim s = s"
    "fixed_match rgx_slash s \<Longrightarrow> trim s = s" "fixed_match rgx_compact s \<Longrightarrow> trim s = s"
    by (rule t, erule fixed_match_classes,
        force simp: rgx_ddmmyyyy_def rgx_iso_def rgx_slash_def rgx_compact_def)+
qed

lemma fixed_match_length: "fixed_match ps s \<Longrightarrow> length s = length ps"
  by (simp add: fixed_match_def list_all2_lengthD)

lemma normalizeFecha_fixed:
  "fixed_match rgx_ddmmyyyy s \<Longrightarrow> normalizeFechaDgii now s = s"
  using fixed_match_length [of rgx_ddmmyyyy s]
  by (auto simp: normalizeFechaDgii_def trim_date rgx_ddmmyyyy_def)

lemma digit_not_sep: "\<not> isdigit (CHR ''-'')" "\<not> isdigit (CHR ''/'')"
  by (simp_all add: isdigit_def code_def)

lemma fixed_match_nth: "fixed_match ps s \<Longrightarrow> i < length ps \<Longrightarrow> (ps ! i) (s ! i)"
  unfolding fixed_match_def by (drule (1) list_all2_nthD)

lemma iso_not_ddmmyyyy: "fixed_match rgx_iso t \<Longrightarrow> \<not> fixed_match rgx_ddmmyyyy t"
  using fixed_match_nth [of rgx_iso t 2] fixed_match_nth [of rgx_ddmmyyyy t 2] digit_not_sep
  by (auto simp: rgx_iso_def rgx_ddmmyyyy_def nth_append)

lemma slash_not_others:
  "fixed_match rgx_slash t \<Longrightarrow> \<not> fixed_match rgx_ddmmyyyy t \<and> \<not> fixed_match rgx_iso t"
  using fixed_match_nth [of rgx_slash t 2] fixed_match_nth [of rgx_ddmmyyyy t 2]
    fixed_match_nth [of rgx_iso t 2] digit_not_sep
  by (auto simp: rgx_iso_def rgx_ddmmyyyy_def rgx_slash_def nth_append)

lemma compact_not_others:
  "fixed_match rgx_compact t \<Longrightarrow>
   \<not> fixed_match rgx_ddmmyyyy t \<and> \<not> fixed_match rgx_iso t \<and> \<not> fixed_match rgx_slash t"
  by (auto dest!: fixed_match_length simp: rgx_compact_def rgx_ddmmyyyy_def rgx_iso_def rgx_slash_def)

lemma group_parts:
  assumes "dmy_groups d m y"
  shows "submatch 8 2 (y @ [a] @ m @ [b] @ d) = d" "submatch 5 2 (y @ [a] @ m @ [b] @ d) = m"
    "submatch 0 4 (y @ [a] @ m @ [b] @ d) = y"
    "submatch 0 2 (d @ ''/'' @ m @ ''/'' @ y) = d" "submatch 3 2 (d @ ''/'' @ m @ ''/'' @ y) = m"
    "submatch 6 4 (d @ ''/'' @ m @ ''/'' @ y) = y"
    "submatch 6 2 (y @ m @ d) = d" "submatch 4 2 (y @ m @ d) = m" "submatch 0 4 (y @ m @ d) = y"
    "submatch 0 2 (d @ ''-'' @ m @ ''-'' @ y) = d" "submatch 3 2 (d @ ''-'' @ m @ ''-'' @ y) = m"
    "submatch 6 4 (d @ ''-'' @ m @ ''-'' @ y) = y"
  using assms by (simp_all add: submatch_def dmy_groups_def)

lemma normalizeFecha_formats:
  assumes "dmy_groups d m y" "a \<in> set ''-/''" "b \<in> set ''-/''"
  shows "normalizeFechaDgii now (d @ ''-'' @ m @ ''-'' @ y) = d @ ''-'' @ m @ ''-'' @ y"
    and "normalizeFechaDgii now (d @ ''/'' @ m @ ''/'' @ y) = d @ ''-'' @ m @ ''-'' @ y"
    and "normalizeFechaDgii now (y @ [a] @ m @ [b] @ d) = d @ ''-'' @ m @ ''-'' @ y"
    and "normalizeFechaDgii now (y @ m @ d) = d @ ''-'' @ m @ ''-'' @ y"
proof -
  note g = group_parts [OF assms(1)]
  have ne: "y @ m @ d \<noteq> []" using assms(1) by (auto simp: dmy_groups_def)
  show "normalizeFechaDgii now (d @ ''-'' @ m @ ''-'' @ y) = d @ ''-'' @ m @ ''-'' @ y"
    by (rule normalizeFecha_fixed [OF ddmmyyyy_built [OF assms(1)]])
  have sl: "fixed_match rgx_slash (d @ ''/'' @ m @ ''/'' @ y)" by (rule slash_built [OF assms(1)])
  show "normalizeFechaDgii now (d @ ''/'' @ m @ ''/'' @ y) = d @ ''-'' @ m @ ''-'' @ y"
    unfolding normalizeFechaDgii_def Let_def trim_date(3) [OF sl] g using sl slash_not_others [OF sl] by simp
  have ii: "fixed_match rgx_iso (y @ [a] @ m @ [b] @ d)" by (rule iso_built [OF assms])
  show "normalizeFechaDgii now (y @ [a] @ m @ [b] @ d) = d @ ''-'' @ m @ ''-'' @ y"
    unfolding normalizeFechaDgii_def Let_def trim_date(2) [OF ii] g using ii iso_not_ddmmyyyy [OF ii] by simp
  have co: "fixed_match rgx_compact (y @ m @ d)" by (rule compact_built [OF assms(1)])
  show "normalizeFechaDgii now (y @ m @ d) = d @ ''-'' @ m @ ''-'' @ y"
    unfolding normalizeFechaDgii_def Let_def trim_date(4) [OF co] g
    using co compact_not_others [OF co] ne by (simp only: if_True if_False)
qed

lemma dashes_match:
  assumes "fixed_match ps (dashes t)"
    and "\<And>p c. p \<in> set ps \<Longrightarrow> p (if c = CHR ''/'' then CHR ''-'' else c) \<Longrightarrow> p c"
  shows "fixed_match ps t"
proof -
  have "list_all2 (\<lambda>p c. p (if c = CHR ''/'' then CHR ''-'' else c)) ps t"
    using assms(1) by (simp add: fixed_match_def dashes_def list_all2_map2)
  then show ?thesis unfolding fixed_match_def
    by (rule list.rel_mono_strong) (use assms(2) in blast)
qed

lemma isspace_dash [simp]: "isspace (if c = CHR ''/'' then CHR ''-'' else c) = isspace c"
  by (auto simp: isspace_def code_def)

lemma trim_dashes: "trim (dashes t) = dashes (trim t)"
proof -
  have c: "isspace \<circ> (\<lambda>c. if c = CHR ''/'' then CHR ''-'' else c) = isspace" by (simp add: fun_eq_iff)
  have "dropWhile isspace (dashes t) = dashes (dropWhile isspace t)" for t
    by (simp only: dashes_def dropWhile_map c)
  then show ?thesis by (simp add: trim_def rtrim_def ltrim_def) (simp add: dashes_def rev_map)
qed

lemma dashes_no_slash: "CHR ''/'' \<notin> set (dashes t)"
  by (auto simp: dashes_def)

lemma normalizeFecha_other:
  assumes "\<not> fixed_match rgx_ddmmyyyy (trim v)" "\<not> fixed_match rgx_iso (trim v)"
    "\<not> fixed_match rgx_compact (trim v)" "trim v \<noteq> []"
  shows "normalizeFechaDgii now (dashes (trim v)) = dashes (trim v)"
proof (cases "fixed_match rgx_ddmmyyyy (dashes (trim v))")
  case True
  then show ?thesis by (rule normalizeFecha_fixed)
next
  case False
  have iso: "\<not> fixed_match rgx_iso (dashes (trim v))"
    using assms(2) by (rule contrapos_nn, elim dashes_match)
      (auto simp: rgx_iso_def digit_not_sep split: if_splits)
  have co: "\<not> fixed_match rgx_compact (dashes (trim v))"
    using assms(3) by (rule contrapos_nn, elim dashes_match)
      (auto simp: rgx_compact_def digit_not_sep split: if_splits)
  have sl: "\<not> fixed_match rgx_slash (dashes (trim v))"
  proof
    assume m: "fixed_match rgx_slash (dashes (trim v))"
    have "length (dashes (trim v)) = 10" using fixed_match_length [OF m] by (simp add: rgx_slash_def)
    moreover have "dashes (trim v) ! 2 = CHR ''/''"
      using fixed_match_nth [OF m, of 2] by (simp add: rgx_slash_def nth_append)
    ultimately show False using dashes_no_slash [of "trim v"] nth_mem [of 2 "dashes (trim v)"] by simp
  qed
  have "trim (dashes (trim v)) = dashes (trim v)" by (simp only: trim_dashes trim_idem)
  moreover have "dashes (dashes (trim v)) = dashes (trim v)" by (simp add: dashes_def)
  moreover have "dashes (trim v) \<noteq> []" using assms(4) by (simp add: dashes_def)
  ultimately show ?thesis using False iso co sl by (simp add: normalizeFechaDgii_def Let_def)
qed

lemma normalizeFecha_shape:
  assumes "v \<noteq> []"
  shows "fixed_match rgx_ddmmyyyy (normalizeFechaDgii now v) \<or>
    (\<not> fixed_match rgx_ddmmyyyy (trim v) \<and> \<not> fixed_match rgx_iso (trim v) \<and>
     \<not> fixed_match rgx_compact (trim v) \<and> normalizeFechaDgii now v = dashes (trim v))"
proof -
  note d = normalizeFechaDgii_def Let_def
  have b: "fixed_match rgx_ddmmyyyy (normalizeFechaDgii now v)"
    if "normalizeFechaDgii now v = d @ ''-'' @ m @ ''-'' @ y" "dmy_groups d m y" for d m y
    unfolding that(1) by (rule ddmmyyyy_built [OF that(2)])
  consider "fixed_match rgx_ddmmyyyy (trim v)"
    | "\<not> fixed_match rgx_ddmmyyyy (trim v)" "fixed_match rgx_iso (trim v)"
    | "\<not> fixed_match rgx_ddmmyyyy (trim v)" "\<not> fixed_match rgx_iso (trim v)" "fixed_match rgx_slash (trim v)"
    | "\<not> fixed_match rgx_ddmmyyyy (trim v)" "\<not> fixed_match rgx_iso (trim v)"
      "\<not> fixed_match rgx_slash (trim v)" "fixed_match rgx_compact (trim v)"
    | "\<not> fixed_match rgx_ddmmyyyy (trim v)" "\<not> fixed_match rgx_iso (trim v)"
      "\<not> fixed_match rgx_slash (trim v)" "\<not> fixed_match rgx_compact (trim v)"
    by blast
  then show ?thesis
  proof cases
    case 1
    then show ?thesis using assms by (simp add: d)
  next
    case 2
    then show ?thesis using assms by (intro disjI1 b [OF _ iso_groups [OF 2(2)]]) (simp only: d if_True if_False)
  next
    case 3
    then show ?thesis using assms by (intro disjI1 b [OF _ slash_groups [OF 3(3)]]) (simp only: d if_True if_False)
  next
    case 4
    then show ?thesis using assms by (intro disjI1 b [OF _ compact_groups [OF 4(4)]]) (simp only: d if_True if_False)
  next
    case 5
    then show ?thesis using assms by (simp only: d if_True if_False simp_thms)
  qed
qed

subsection \<open>Properties\<close>

text \<open>Normalising a reference NCF twice is the same as normalising it once: a short
  numeric reference gets its B-series prefix exactly one time, whatever the input.\<close>

theorem normalizeNcf_idempotent:
  "normalizeNcfReference (normalizeNcfReference raw) = normalizeNcfReference raw"
proof (cases "all_digits (trim raw)")
  case False
  then show ?thesis using normalizeNcf_other [OF False] normalizeNcf_upper_trim [of raw] by metis
next
  case True
  then consider "normalizeNcfReference raw = trim raw"
    | p where "p \<in> ncf_prefixes" "normalizeNcfReference raw = p @ trim raw"
    using normalizeNcf_digits by blast
  then show ?thesis
  proof cases
    case 1
    then show ?thesis using normalizeNcf_upper_trim [of raw] upper_digits [OF True] by metis
  next
    case 2
    note b = B_digits_fixed [OF True 2(1)]
    have "normalizeNcfReference (p @ trim raw) = upper (trim (p @ trim raw))"
      using b by (intro normalizeNcf_other) simp
    then show ?thesis using 2(2) b(1) by metis
  qed
qed

text \<open>A date in any of the four accepted spellings (dd-MM-yyyy, dd/MM/yyyy, yyyy-MM-dd
  or yyyy/MM/dd, yyyyMMdd) leaves \<open>normalizeFechaDgii\<close> as the same dd-MM-yyyy, whatever
  the clock says.\<close>

theorem normalizeFecha_four_spellings:
  assumes "length d = 2" "length m = 2" "length y = 4" "all_digits (d @ m @ y)"
    and "v \<in> {d @ ''-'' @ m @ ''-'' @ y, d @ ''/'' @ m @ ''/'' @ y, y @ ''-'' @ m @ ''-'' @ d,
              y @ ''/'' @ m @ ''/'' @ d, y @ m @ d}"
  shows "normalizeFechaDgii now v = d @ ''-'' @ m @ ''-'' @ y"
proof -
  have g: "dmy_groups d m y" using assms by (simp add: dmy_groups_def)
  note f = normalizeFecha_formats [OF g, of _ _ now]
  show ?thesis using assms(5)
    f(1) [of "CHR ''-''" "CHR ''-''"] f(2) [of "CHR ''-''" "CHR ''-''"] f(4) [of "CHR ''-''" "CHR ''-''"]
    f(3) [of "CHR ''-''" "CHR ''-''"] f(3) [of "CHR ''/''" "CHR ''/''"] by auto
qed

theorem normalizeFecha_four_spellings_witness:
  "normalizeFechaDgii 0 ''2024/03/15'' = ''15-03-2024''"
  using normalizeFecha_four_spellings [of "''15''" "''03''" "''2024''" "''2024/03/15''" 0]
  by (simp add: isdigit_def code_def)

text \<open>Normalising a date twice, even at two different clock times, is the same as
  normalising it once, for every text that is not blank (a blank text is trimmed to
  nothing, and an empty text is read as today).\<close>

theorem normalizeFecha_idempotent:
  assumes "trim v \<noteq> []"
  shows "normalizeFechaDgii later (normalizeFechaDgii now v) = normalizeFechaDgii now v"
proof -
  have v: "v \<noteq> []" using assms by auto
  consider "fixed_match rgx_ddmmyyyy (normalizeFechaDgii now v)"
    | "\<not> fixed_match rgx_ddmmyyyy (trim v)" "\<not> fixed_match rgx_iso (trim v)"
      "\<not> fixed_match rgx_compact (trim v)" "normalizeFechaDgii now v = dashes (trim v)"
    using normalizeFecha_shape [OF v] by blast
  then show ?thesis
  proof cases
    case 1
    then show ?thesis by (rule normalizeFecha_fixed)
  next
    case 2
    then show ?thesis using normalizeFecha_other [OF 2(1-3) assms] by simp
  qed
qed

theorem normalizeFecha_idempotent_witness:
  "normalizeFechaDgii 5 (normalizeFechaDgii 0 '' 1/2-3 '') = normalizeFechaDgii 0 '' 1/2-3 ''"
  by (rule normalizeFecha_idempotent) (simp add: trim_def ltrim_def rtrim_def isspace_def code_def)

end
