(* ===== verification/Canonical_Lines.thy ===== *)
theory Canonical_Lines
  imports Canonical_Fields
begin

text \<open>
  \<open>normalizeCanonicalLines\<close> of CanonicalXmlBuilder.cpp: the lines of the canonical
  document become the items of the e-CF.  The loop body is \<open>line_step\<close>, a fold over the
  lines whose accumulator is the vector \<open>result\<close>; its three stages (what a negative line
  does to the item before it, the derived price and amount, the discount reconciliation)
  are the definitions before it.
\<close>

record ProcessedLineItem =
  pi_lineNumber :: int
  pi_name :: string
  pi_description :: string
  pi_quantity :: dbl
  pi_unitPrice :: dbl
  pi_discountAmount :: dbl
  pi_montoItem :: dbl
  pi_indicadorFacturacion :: int
  pi_hasExplicitIndicador :: bool
  pi_unitPriceDop :: dbl
  pi_discountDop :: dbl
  pi_montoItemDop :: dbl
  pi_precioOtraMoneda :: dbl
  pi_discountOtraMoneda :: dbl
  pi_montoItemOtraMoneda :: dbl
  pi_montoItbisRetenido :: "dbl option"
  pi_montoIsrRetenido :: "dbl option"

definition default_item :: ProcessedLineItem where
  "default_item = \<lparr> pi_lineNumber = 0, pi_name = [], pi_description = [], pi_quantity = dint 1,
     pi_unitPrice = dzero, pi_discountAmount = dzero, pi_montoItem = dzero,
     pi_indicadorFacturacion = 1, pi_hasExplicitIndicador = False, pi_unitPriceDop = dzero,
     pi_discountDop = dzero, pi_montoItemDop = dzero, pi_precioOtraMoneda = dzero,
     pi_discountOtraMoneda = dzero, pi_montoItemOtraMoneda = dzero,
     pi_montoItbisRetenido = None, pi_montoIsrRetenido = None \<rparr>"

text \<open>\<open>rawQty\<close>, \<open>rawPrice\<close> and \<open>rawName\<close>.\<close>

definition raw_qty :: "CanonicalLineDto \<Rightarrow> dbl" where
  "raw_qty l = (if dpos (ln_quantity l) then ln_quantity l else dint 1)"

definition raw_price :: "CanonicalLineDto \<Rightarrow> dbl" where
  "raw_price l =
     (if dpos (ln_quantity l) then ln_unitPrice l
      else if \<not> dis0 (ln_unitPrice l) then ln_unitPrice l else ln_amount l)"

definition raw_name :: "CanonicalLineDto \<Rightarrow> string" where
  "raw_name l = (if ln_itemName l \<noteq> [] then ln_itemName l else ''Item'')"

text \<open>A negative line is a discount on the item before it.\<close>

definition negative_line :: "CanonicalLineDto \<Rightarrow> bool" where
  "negative_line l \<longleftrightarrow> dlt (ln_amount l) dzero \<or> dlt (raw_price l) dzero"

definition abs_discount :: "CanonicalLineDto \<Rightarrow> dbl" where
  "abs_discount l =
     dabs (if \<not> dis0 (ln_amount l) then ln_amount l else dmul (raw_price l) (raw_qty l))"

definition discount_previous :: "dbl \<Rightarrow> ProcessedLineItem \<Rightarrow> ProcessedLineItem" where
  "discount_previous d prev = prev
     \<lparr> pi_discountAmount := round2 (dadd (pi_discountAmount prev) d),
       pi_montoItem := dmax dzero (round2 (dsub (pi_montoItem prev) d)) \<rparr>"

text \<open>Price from amount or amount from price.\<close>

definition derive_price :: "dbl \<Rightarrow> dbl \<Rightarrow> dbl \<Rightarrow> dbl \<times> dbl" where
  "derive_price qty price amount =
     (if dpos amount \<and> dle price dzero then (ddiv amount qty, amount)
      else if dle amount dzero \<and> dpos price then (price, dmul price qty)
      else (price, amount))"

text \<open>The reconciliation of amount and discount: \<open>(safePrice, safeAmount, effectiveDiscount)\<close>.\<close>

definition near_cents :: "int \<Rightarrow> dbl \<Rightarrow> dbl \<Rightarrow> bool" where
  "near_cents cents x y \<longleftrightarrow> dle (dabs (dsub x y)) (dlit cents 100)"

definition gross_up :: "dbl \<Rightarrow> dbl \<Rightarrow> dbl \<Rightarrow> dbl \<Rightarrow> dbl \<times> dbl" where
  "gross_up safeQty safePrice safeAmount incoming =
     (let grossAmount = dadd safeAmount incoming;
          grossPrice2 = round2 (ddiv grossAmount safeQty) in
      if near_cents 1 (dsub (round2 (dmul safeQty grossPrice2)) incoming) safeAmount
      then (grossPrice2, incoming)
      else let grossPrice4 = round4 (ddiv grossAmount safeQty) in
        if near_cents 1 (dsub (round2 (dmul safeQty grossPrice4)) incoming) safeAmount
        then (grossPrice4, incoming)
        else (safePrice, dzero))"

definition settle_line :: "dbl \<Rightarrow> dbl \<Rightarrow> dbl \<Rightarrow> dbl \<Rightarrow> dbl \<times> dbl \<times> dbl" where
  "settle_line safeQty safePrice safeAmount incoming =
     (if dpos incoming then
        let calc = round2 (dsub (dmul safePrice safeQty) incoming) in
        if dis0 safeAmount \<and> dpos safePrice then (safePrice, dmax dzero calc, incoming)
        else if near_cents 5 safeAmount calc then (safePrice, dmax dzero calc, incoming)
        else if near_cents 5 (round2 (dmul safeQty safePrice)) safeAmount \<and> dpos safeQty
        then let (p, d) = gross_up safeQty safePrice safeAmount incoming in (p, safeAmount, d)
        else (safePrice, safeAmount, dzero)
      else
        let calculated = dmax dzero (round2 (dmul safePrice safeQty)) in
        if dis0 safeAmount \<and> dpos safePrice then (safePrice, calculated, dzero)
        else if near_cents 5 safeAmount calculated then (safePrice, calculated, dzero)
        else (safePrice, safeAmount, dzero))"

text \<open>The line's own \<open>IndicadorFacturacion\<close> and whether it was explicit.\<close>

definition line_indicador :: "CanonicalLineDto \<Rightarrow> int \<times> bool" where
  "line_indicador l =
     (if \<exists>i \<in> set_option (ln_indicadorFacturacion l). 0 \<le> i \<and> i \<le> 4
      then (the (ln_indicadorFacturacion l), True)
      else case ln_taxRate l of
        Some r \<Rightarrow> (if deq r (dint 18) then 1 else if deq r (dint 16) then 2
                   else if dis0 r then 4 else 1, True)
      | None \<Rightarrow> (case ln_taxAmount l of
          Some a \<Rightarrow> (if dpos a then 1 else 4, True)
        | None \<Rightarrow> (1, False)))"

definition make_item :: "int \<Rightarrow> CanonicalLineDto \<Rightarrow> dbl \<Rightarrow> dbl \<times> dbl \<times> dbl \<Rightarrow> ProcessedLineItem" where
  "make_item n l safeQty s = (case s of (safePrice, safeAmount, effectiveDiscount) \<Rightarrow>
     default_item
     \<lparr> pi_lineNumber := n,
       pi_name := truncateUtf8 (raw_name l) 80,
       pi_description := (if 80 < length (raw_name l) then truncateUtf8 (raw_name l) 1000 else []),
       pi_quantity := safeQty,
       pi_unitPrice := safePrice,
       pi_discountAmount := effectiveDiscount,
       pi_montoItem := safeAmount,
       pi_indicadorFacturacion := fst (line_indicador l),
       pi_hasExplicitIndicador := snd (line_indicador l),
       pi_montoItbisRetenido := ln_montoItbisRetenido l,
       pi_montoIsrRetenido := ln_montoIsrRetenido l \<rparr>)"

definition safe_qty :: "CanonicalLineDto \<Rightarrow> dbl" where
  "safe_qty l = (if dpos (raw_qty l) then round2 (raw_qty l) else dint 1)"

definition incoming_discount :: "CanonicalLineDto \<Rightarrow> dbl" where
  "incoming_discount l =
     (if dpos (ln_discountAmount l) then dmax dzero (round2 (ln_discountAmount l)) else dzero)"

definition line_step :: "ProcessedLineItem list \<Rightarrow> CanonicalLineDto \<Rightarrow> ProcessedLineItem list" where
  "line_step result l =
     (if negative_line l \<and> result \<noteq> [] then
        butlast result @ [discount_previous (abs_discount l) (last result)]
      else
        let (price, amount) = derive_price (raw_qty l) (raw_price l) (ln_amount l) in
        if dle amount dzero \<and> dle price dzero then result
        else result @ [make_item (int (length result) + 1) l (safe_qty l)
               (settle_line (safe_qty l) (dmax dzero (round4 price)) (dmax dzero (round2 amount))
                  (incoming_discount l))])"

definition general_item :: "dbl \<Rightarrow> ProcessedLineItem" where
  "general_item defaultTotal = default_item
     \<lparr> pi_lineNumber := 1, pi_name := ''Item General'', pi_quantity := dint 1,
       pi_unitPrice := defaultTotal, pi_discountAmount := dzero, pi_montoItem := defaultTotal,
       pi_indicadorFacturacion := 1, pi_hasExplicitIndicador := False \<rparr>"

definition normalizeCanonicalLines :: "CanonicalLineDto list \<Rightarrow> dbl \<Rightarrow> ProcessedLineItem list" where
  "normalizeCanonicalLines lines defaultTotal =
     (let result = foldl line_step [] lines in
      if result = [] then [general_item defaultTotal] else result)"

subsection \<open>What every item satisfies\<close>

text \<open>The doubles a JSON document can hold: normalised representation, not NaN.\<close>

definition num_ok :: "dbl \<Rightarrow> bool" where
  "num_ok x \<longleftrightarrow> dwf x \<and> x \<noteq> DNaN"

definition line_ok :: "CanonicalLineDto \<Rightarrow> bool" where
  "line_ok l \<longleftrightarrow> num_ok (ln_quantity l) \<and> num_ok (ln_unitPrice l) \<and> num_ok (ln_amount l)
     \<and> num_ok (ln_discountAmount l)"

definition item_ok :: "ProcessedLineItem \<Rightarrow> bool" where
  "item_ok it \<longleftrightarrow> nonneg (pi_quantity it) \<and> nonneg (pi_unitPrice it) \<and> nonneg (pi_discountAmount it)
     \<and> nonneg (pi_montoItem it) \<and> 0 \<le> pi_indicadorFacturacion it \<and> pi_indicadorFacturacion it \<le> 4"

definition numbered :: "ProcessedLineItem list \<Rightarrow> bool" where
  "numbered its \<longleftrightarrow> map pi_lineNumber its = map int [1..<Suc (length its)]"

lemma num_ok_dwf: "num_ok x \<Longrightarrow> dwf x"
  by (simp add: num_ok_def)

lemma near_cents_nan: "near_cents c x y \<Longrightarrow> x \<noteq> DNaN"
  by (cases y) (auto simp: near_cents_def dsub_def dle_def)

lemma round_nan [simp]: "round2 DNaN = DNaN" "round4 DNaN = DNaN"
  by (simp_all add: round2_def round4_def dlit_100 dlit_10000)

lemma dmul_nan [simp]: "dmul x DNaN = DNaN"
  by (cases x) simp_all

lemma dsub_nan [simp]: "dsub DNaN x = DNaN"
  by (simp add: dsub_def)

lemma dround_nan_iff: "dround x = DNaN \<longleftrightarrow> x = DNaN"
  by (cases x) (auto simp: rnd_def Let_def)

lemma nonneg_ddiv: "nonneg x \<Longrightarrow> nonneg y \<Longrightarrow> ddiv x y \<noteq> DNaN \<Longrightarrow> nonneg (ddiv x y)"
  by (cases x; cases y) (auto intro!: nonneg_rnd mult_pos_pos split: if_splits)

lemma nonneg_quotient:
  assumes "nonneg x" "nonneg y"
  shows "round2 (ddiv x y) \<noteq> DNaN \<Longrightarrow> nonneg (round2 (ddiv x y))"
    and "round4 (ddiv x y) \<noteq> DNaN \<Longrightarrow> nonneg (round4 (ddiv x y))"
proof -
  show "nonneg (round2 (ddiv x y))" if "round2 (ddiv x y) \<noteq> DNaN"
    using that assms by (intro nonneg_round2 nonneg_ddiv) auto
  show "nonneg (round4 (ddiv x y))" if "round4 (ddiv x y) \<noteq> DNaN"
    using that assms by (intro nonneg_round4 nonneg_ddiv) auto
qed

lemma gross_up_nonneg:
  assumes "nonneg q" "nonneg p" "nonneg a" "nonneg i"
  shows "nonneg (fst (gross_up q p a i))" "nonneg (snd (gross_up q p a i))"
proof -
  have g: "nonneg (dadd a i)" using assms by (simp add: nonneg_dadd)
  have n: "price \<noteq> DNaN" if "near_cents 1 (dsub (round2 (dmul q price)) i) a" for price
    using near_cents_nan [OF that] by auto
  show "nonneg (fst (gross_up q p a i))"
    using assms nonneg_quotient [OF g assms(1)] n by (auto simp: gross_up_def Let_def)
  show "nonneg (snd (gross_up q p a i))"
    using assms by (simp add: gross_up_def Let_def)
qed

lemma settle_line_nonneg:
  assumes "nonneg q" "nonneg p" "nonneg a" "nonneg i"
  shows "case settle_line q p a i of (p', a', d') \<Rightarrow> nonneg p' \<and> nonneg a' \<and> nonneg d'"
  using assms gross_up_nonneg [OF assms]
  by (auto simp: settle_line_def Let_def nonneg_dmax0 nonneg_dwf split: prod.splits)

lemma line_indicador_range: "0 \<le> fst (line_indicador l) \<and> fst (line_indicador l) \<le> 4"
  by (cases "ln_indicadorFacturacion l") (auto simp: line_indicador_def split: option.splits)

lemma item_ok_make:
  assumes "nonneg q" "case s of (p, a, d) \<Rightarrow> nonneg p \<and> nonneg a \<and> nonneg d"
  shows "item_ok (make_item n l q s)"
  using assms line_indicador_range [of l]
  by (cases s) (simp add: make_item_def item_ok_def default_item_def)

lemma item_ok_discount:
  assumes "item_ok it" "nonneg d"
  shows "item_ok (discount_previous d it)"
  using assms by (simp add: item_ok_def discount_previous_def nonneg_round2 nonneg_dadd nonneg_dmax0 nonneg_dwf)

lemma dmul_not_nan:
  "dwf p \<Longrightarrow> dwf q \<Longrightarrow> p \<noteq> DNaN \<Longrightarrow> q \<noteq> DNaN \<Longrightarrow> dlt p dzero \<Longrightarrow> dpos q \<Longrightarrow> dmul p q \<noteq> DNaN"
  by (cases p; cases q) (auto simp: dzero_def sgm_def rnd_def Let_def split: if_splits)

lemma raw_ok:
  assumes "line_ok l"
  shows "num_ok (raw_qty l)" "dpos (raw_qty l)" "num_ok (raw_price l)"
proof -
  have 1: "dpos (dint 1)" "dint 1 \<noteq> DNaN" by (simp_all add: dlit_def rnd_def lg_def rne_def pow2_def dzero_def sgm_def)
  show "num_ok (raw_qty l)" "dpos (raw_qty l)" "num_ok (raw_price l)"
    using assms 1 by (auto simp: raw_qty_def raw_price_def line_ok_def num_ok_def)
qed

lemma abs_discount_nonneg:
  assumes "line_ok l" "negative_line l"
  shows "nonneg (abs_discount l)"
proof (cases "dis0 (ln_amount l)")
  case True
  then have "\<not> dlt (ln_amount l) dzero"
    by (cases "ln_amount l") (auto simp: dzero_def)
  then have "dlt (raw_price l) dzero" using assms(2) by (simp add: negative_line_def)
  then have "dmul (raw_price l) (raw_qty l) \<noteq> DNaN"
    using raw_ok [OF assms(1)] by (intro dmul_not_nan) (auto simp: num_ok_def)
  then show ?thesis
    using True raw_ok [OF assms(1)] by (simp add: abs_discount_def nonneg_dabs num_ok_def)
next
  case False
  then show ?thesis using assms(1) by (simp add: abs_discount_def nonneg_dabs line_ok_def num_ok_def)
qed

lemma derive_price_dwf:
  "dwf q \<Longrightarrow> dwf p \<Longrightarrow> dwf a \<Longrightarrow> derive_price q p a = (p', a') \<Longrightarrow> dwf p' \<and> dwf a'"
  by (auto simp: derive_price_def split: if_splits)

lemma incoming_nonneg: "line_ok l \<Longrightarrow> nonneg (incoming_discount l)"
  by (simp add: incoming_discount_def nonneg_dmax0 line_ok_def num_ok_def)

lemma safe_qty_nonneg: "line_ok l \<Longrightarrow> nonneg (safe_qty l)"
  using raw_ok [of l] by (simp add: safe_qty_def nonneg_round2 dpos_nonneg num_ok_def)

lemma numbered_snoc: "numbered its \<Longrightarrow> pi_lineNumber it = int (length its) + 1 \<Longrightarrow> numbered (its @ [it])"
  by (simp add: numbered_def)

lemma numbered_last:
  assumes "numbered its" "its \<noteq> []" "pi_lineNumber it = pi_lineNumber (last its)"
  shows "numbered (butlast its @ [it])"
proof -
  have "its = butlast its @ [last its]" using assms(2) by simp
  then have "map pi_lineNumber its = map pi_lineNumber (butlast its) @ [pi_lineNumber (last its)]"
    by (metis list.simps(8,9) map_append)
  then show ?thesis using assms by (simp add: numbered_def)
qed

lemma line_step_cases:
  obtains (discount) "negative_line l" "result \<noteq> []"
      "line_step result l = butlast result @ [discount_previous (abs_discount l) (last result)]"
  | (skip) "line_step result l = result"
  | (item) p a where "derive_price (raw_qty l) (raw_price l) (ln_amount l) = (p, a)"
      "line_step result l = result @ [make_item (int (length result) + 1) l (safe_qty l)
         (settle_line (safe_qty l) (dmax dzero (round4 p)) (dmax dzero (round2 a)) (incoming_discount l))]"
proof (cases "negative_line l \<and> result \<noteq> []")
  case True
  then show ?thesis by (intro discount) (simp_all add: line_step_def)
next
  case neg: False
  obtain p a where d: "derive_price (raw_qty l) (raw_price l) (ln_amount l) = (p, a)" by force
  show ?thesis
  proof (cases "dle a dzero \<and> dle p dzero")
    case True
    then show ?thesis using neg d by (intro skip) (simp only: line_step_def if_True if_False prod.case Let_def simp_thms)
  next
    case False
    then show ?thesis using neg d by (intro item [OF d]) (simp only: line_step_def if_True if_False prod.case Let_def)
  qed
qed

definition items_ok :: "ProcessedLineItem list \<Rightarrow> bool" where
  "items_ok its \<longleftrightarrow> list_all item_ok its \<and> numbered its"

lemma line_step_ok:
  assumes "line_ok l" "items_ok result"
  shows "items_ok (line_step result l)"
proof (cases rule: line_step_cases [of l result])
  case discount
  have "item_ok (last result)" using assms(2) discount(2) by (simp add: items_ok_def list_all_iff)
  then have "item_ok (discount_previous (abs_discount l) (last result))"
    using abs_discount_nonneg [OF assms(1) discount(1)] by (rule item_ok_discount)
  moreover have "numbered (butlast result @ [discount_previous (abs_discount l) (last result)])"
    using assms(2) discount(2) by (intro numbered_last) (simp_all add: items_ok_def discount_previous_def)
  ultimately show ?thesis
    using assms(2) discount(3) by (auto simp: items_ok_def list_all_iff dest: in_set_butlastD)
next
  case skip
  then show ?thesis using assms(2) by simp
next
  case (item p a)
  have w: "dwf p \<and> dwf a"
    by (rule derive_price_dwf [OF _ _ _ item(1)])
      (use assms(1) raw_ok [OF assms(1)] in \<open>auto simp: num_ok_def line_ok_def\<close>)
  have "case settle_line (safe_qty l) (dmax dzero (round4 p)) (dmax dzero (round2 a)) (incoming_discount l)
      of (p', a', d') \<Rightarrow> nonneg p' \<and> nonneg a' \<and> nonneg d'"
    by (intro settle_line_nonneg safe_qty_nonneg nonneg_dmax0 incoming_nonneg assms) (use w in simp_all)
  then have "item_ok (make_item (int (length result) + 1) l (safe_qty l)
      (settle_line (safe_qty l) (dmax dzero (round4 p)) (dmax dzero (round2 a)) (incoming_discount l)))"
    by (intro item_ok_make safe_qty_nonneg assms)
  moreover have "pi_lineNumber (make_item n l q s) = n" for n q s
    by (cases s) (simp add: make_item_def)
  ultimately show ?thesis using assms(2) item(2) by (simp add: items_ok_def numbered_snoc)
qed

lemma line_step_length: "length (line_step result l) \<le> Suc (length result)"
  by (cases rule: line_step_cases [of l result]) simp_all

lemma fold_steps_ok: "list_all line_ok ls \<Longrightarrow> items_ok r \<Longrightarrow> items_ok (foldl line_step r ls)"
  by (induction ls arbitrary: r) (simp_all add: line_step_ok)

lemma fold_steps_length: "length (foldl line_step r ls) \<le> length r + length ls"
proof (induction ls arbitrary: r)
  case (Cons l ls)
  show ?case using Cons.IH [of "line_step r l"] line_step_length [of r l] by simp
qed simp

subsection \<open>Properties\<close>

text \<open>Whatever the lines of the document, the items of the e-CF are never empty, are
  numbered 1, 2, 3 and so on without gaps, are at most as many as the lines (or one), and
  every quantity, unit price, discount and amount in them is non-negative, every
  IndicadorFacturacion between 0 and 4, even after negative lines were folded in as
  discounts.\<close>

theorem normalizeCanonicalLines_items_ok:
  assumes "list_all line_ok lines" "nonneg defaultTotal"
  defines "its \<equiv> normalizeCanonicalLines lines defaultTotal"
  shows "its \<noteq> [] \<and> length its \<le> max 1 (length lines) \<and> list_all item_ok its
    \<and> map pi_lineNumber its = map int [1..<Suc (length its)]"
proof -
  have f: "items_ok (foldl line_step [] lines)"
    using assms(1) by (intro fold_steps_ok) (simp_all add: items_ok_def numbered_def)
  have g: "item_ok (general_item defaultTotal)" "pi_lineNumber (general_item defaultTotal) = 1"
    using assms(2) by (simp_all add: general_item_def item_ok_def default_item_def)
  show ?thesis
    using f g fold_steps_length [of "[]" lines]
    by (auto simp: its_def normalizeCanonicalLines_def Let_def items_ok_def numbered_def)
qed

definition sample_lines :: "CanonicalLineDto list" where
  "sample_lines =
     [default_line \<lparr> ln_itemName := ''Papel'', ln_quantity := dint 2, ln_unitPrice := dint 50,
        ln_amount := dint 100 \<rparr>,
      default_line \<lparr> ln_itemName := ''Descuento'', ln_amount := dint (- 10) \<rparr>]"

lemma dint_num_ok: "num_ok (dint 2)" "num_ok (dint 50)" "num_ok (dint 100)" "num_ok (dint (- 10))" "num_ok dzero"
  by (simp_all add: num_ok_def) (simp_all add: dlit_def rnd_def lg_def rne_def pow2_def dzero_def)

theorem normalizeCanonicalLines_items_ok_witness:
  "list_all item_ok (normalizeCanonicalLines sample_lines dzero)"
  using normalizeCanonicalLines_items_ok [of sample_lines dzero]
  by (simp add: sample_lines_def line_ok_def default_line_def dint_num_ok)

end
