(* ===== verification/Canonical_Context.thy ===== *)
theory Canonical_Context
  imports Canonical_Lines
begin

text \<open>
  The local variables of \<open>buildXmlFromCanonical\<close> (CanonicalXmlBuilder.cpp) that the rest of
  the function depends on: the e-CF type, what a reference modifies, whether the document
  is purely exempt, the default indicator, and the loop that gives every item its
  indicator and its amounts in pesos and in the foreign currency.
\<close>

definition tipoEcf_of :: "CanonicalDocumentDto \<Rightarrow> string" where
  "tipoEcf_of dto = (case dto_tipoComprobante dto of
       [] \<Rightarrow> ''31''
     | c # cs \<Rightarrow> if c = CHR ''E'' \<or> c = CHR ''e'' then cs else c # cs)"

definition rawRefEncf :: "CanonicalDocumentDto \<Rightarrow> string" where
  "rawRefEncf dto = trim (ref_correctsENcf (dto_references dto))"

definition normalizedRefEncf :: "CanonicalDocumentDto \<Rightarrow> string" where
  "normalizedRefEncf dto =
     (if rawRefEncf dto = [] then [] else normalizeNcfReference (rawRefEncf dto))"

text \<open>A debit or credit note whose reference is of series \<open>e\<close> (electronic) or \<open>b\<close> (paper).\<close>

definition refers_to :: "CanonicalDocumentDto \<Rightarrow> string \<Rightarrow> string \<Rightarrow> bool" where
  "refers_to dto e b \<longleftrightarrow> startsWithIgnoreCase (rawRefEncf dto) e
     \<or> startsWithIgnoreCase (normalizedRefEncf dto) e
     \<or> startsWithIgnoreCase (normalizedRefEncf dto) b"

definition is_note :: "CanonicalDocumentDto \<Rightarrow> bool" where
  "is_note dto \<longleftrightarrow> tipoEcf_of dto = ''33'' \<or> tipoEcf_of dto = ''34''"

definition modifiesGastosMenores :: "CanonicalDocumentDto \<Rightarrow> bool" where
  "modifiesGastosMenores dto \<longleftrightarrow> is_note dto \<and> refers_to dto ''E43'' ''B13''"

definition modifiesExport :: "CanonicalDocumentDto \<Rightarrow> bool" where
  "modifiesExport dto \<longleftrightarrow> is_note dto \<and> refers_to dto ''E46'' ''B16''"

definition modifiesExpenseEcf :: "CanonicalDocumentDto \<Rightarrow> bool" where
  "modifiesExpenseEcf dto \<longleftrightarrow> modifiesGastosMenores dto
     \<or> (is_note dto \<and> (refers_to dto ''E41'' ''B11'' \<or> refers_to dto ''E47'' ''B17''))"

definition explicit_taxed_line :: "CanonicalLineDto \<Rightarrow> bool" where
  "explicit_taxed_line l \<longleftrightarrow>
     (case ln_indicadorFacturacion l of None \<Rightarrow> False | Some i \<Rightarrow> 1 \<le> i \<and> i \<le> 3)
     \<or> (case ln_taxRate l of None \<Rightarrow> False | Some r \<Rightarrow> deq r (dint 18) \<or> deq r (dint 16))
     \<or> (case ln_taxAmount l of None \<Rightarrow> False | Some a \<Rightarrow> dpos a)"

definition isPurelyExempt :: "CanonicalDocumentDto \<Rightarrow> bool" where
  "isPurelyExempt dto \<longleftrightarrow> modifiesGastosMenores dto
     \<or> (\<not> list_ex explicit_taxed_line (dto_lines dto)
        \<and> \<not> list_ex (\<lambda>b. dpos (bkt_base b)) (tot_taxBuckets (dto_totals dto))
        \<and> dpos (value_or (tot_montoExento (dto_totals dto)) dzero)
        \<and> dis0 (value_or (tot_montoGravadoTotal (dto_totals dto)) dzero)
        \<and> dis0 (tot_montoItbis (dto_totals dto)))"

definition hasOnly16Bucket :: "CanonicalDocumentDto \<Rightarrow> bool" where
  "hasOnly16Bucket dto \<longleftrightarrow> (let bs = tot_taxBuckets (dto_totals dto) in
     bs \<noteq> [] \<and> list_all (\<lambda>b. bkt_rate b = 16) bs \<and> list_ex (\<lambda>b. dpos (bkt_base b)) bs)"

abbreviation tipo_in :: "CanonicalDocumentDto \<Rightarrow> string list \<Rightarrow> bool" where
  "tipo_in dto ts \<equiv> tipoEcf_of dto \<in> set ts"

definition defaultIndicador :: "CanonicalDocumentDto \<Rightarrow> int" where
  "defaultIndicador dto =
     (if tipo_in dto [''43'', ''44'', ''47''] then 4
      else if tipo_in dto [''46''] \<or> modifiesExport dto then 3
      else if isPurelyExempt dto then 4
      else if hasOnly16Bucket dto then 2
      else 1)"

definition indicadorBienoServicio :: "CanonicalDocumentDto \<Rightarrow> string" where
  "indicadorBienoServicio dto =
     (if tipo_in dto [''47''] then ''2''
      else if tipo_in dto [''41''] \<and>
        (case dto_retention dto of None \<Rightarrow> False | Some r \<Rightarrow> dpos (value_or (ret_montoIsrRetenido r) dzero))
      then ''2'' else ''1'')"

definition fallbackLineDefault :: "CanonicalDocumentDto \<Rightarrow> dbl" where
  "fallbackLineDefault dto = (let t = dto_totals dto in
     dmax dzero
       (if tipo_in dto [''43'', ''44'', ''46'', ''47''] \<or> modifiesExport dto then tot_montoTotal t
        else if dpos (tot_montoSubtotal t) then tot_montoSubtotal t
        else dmax dzero (dsub (tot_montoTotal t) (tot_montoItbis t))))"

subsection \<open>The loop over \<open>processedItems\<close>\<close>

definition effective_indicador :: "CanonicalDocumentDto \<Rightarrow> ProcessedLineItem \<Rightarrow> int" where
  "effective_indicador dto item =
     (if tipo_in dto [''43'', ''44'', ''47''] \<or> modifiesGastosMenores dto then 4
      else if tipo_in dto [''46''] \<or> modifiesExport dto
      then (if pi_hasExplicitIndicador item \<and> pi_indicadorFacturacion item = 0 then 0 else 3)
      else if isPurelyExempt dto then 4
      else if pi_hasExplicitIndicador item then pi_indicadorFacturacion item
      else defaultIndicador dto)"

abbreviation no_discount_type :: "CanonicalDocumentDto \<Rightarrow> bool" where
  "no_discount_type dto \<equiv> tipo_in dto [''43'', ''47'']"

definition foreign_amounts :: "CanonicalDocumentDto \<Rightarrow> dbl \<Rightarrow> ProcessedLineItem \<Rightarrow> ProcessedLineItem" where
  "foreign_amounts dto rate item =
     (let precio = round4 (pi_unitPrice item);
          descOtra = (if \<not> no_discount_type dto \<and> dpos (pi_discountAmount item)
                      then round2 (pi_discountAmount item) else dzero);
          montoOtra = round2 (pi_montoItem item);
          descDop = (if dpos descOtra then round2 (dmul descOtra rate) else dzero);
          item' = item \<lparr> pi_precioOtraMoneda := precio, pi_discountOtraMoneda := descOtra,
            pi_montoItemOtraMoneda := montoOtra, pi_discountDop := descDop \<rparr>
      in if dlt (dabs (dsub (pi_quantity item) (dint 1))) (dlit 1 1000000000) \<and> dis0 descDop
         then let m = round2 (dmul montoOtra rate) in
           item' \<lparr> pi_montoItemDop := m, pi_unitPriceDop := m \<rparr>
         else let p = round4 (dmul precio rate) in
           item' \<lparr> pi_unitPriceDop := p,
             pi_montoItemDop := dmax dzero (round2 (dsub (round2 (dmul (pi_quantity item) p)) descDop)) \<rparr>)"

definition domestic_amounts :: "CanonicalDocumentDto \<Rightarrow> ProcessedLineItem \<Rightarrow> ProcessedLineItem" where
  "domestic_amounts dto item = item
     \<lparr> pi_unitPriceDop := pi_unitPrice item,
       pi_discountDop := (if \<not> no_discount_type dto then pi_discountAmount item else dzero),
       pi_montoItemDop := pi_montoItem item \<rparr>"

definition scale_opt :: "dbl \<Rightarrow> dbl option \<Rightarrow> dbl option" where
  "scale_opt rate x = map_option (\<lambda>v. round2 (dmul v rate)) x"

definition convert_item :: "CanonicalDocumentDto \<Rightarrow> bool \<Rightarrow> dbl \<Rightarrow> ProcessedLineItem \<Rightarrow> ProcessedLineItem" where
  "convert_item dto foreign rate item =
     (let item1 = item \<lparr> pi_indicadorFacturacion := effective_indicador dto item \<rparr>;
          item2 = (if foreign then foreign_amounts dto rate item1 else domestic_amounts dto item1)
      in if foreign
         then item2 \<lparr> pi_montoItbisRetenido := scale_opt rate (pi_montoItbisRetenido item2),
                pi_montoIsrRetenido := scale_opt rate (pi_montoIsrRetenido item2) \<rparr>
         else item2)"

definition processed_items :: "CanonicalDocumentDto \<Rightarrow> bool \<Rightarrow> dbl \<Rightarrow> ProcessedLineItem list" where
  "processed_items dto foreign rate =
     map (convert_item dto foreign rate) (normalizeCanonicalLines (dto_lines dto) (fallbackLineDefault dto))"

definition effectiveRetention_of ::
    "CanonicalDocumentDto \<Rightarrow> bool \<Rightarrow> dbl \<Rightarrow> CanonicalRetentionDto option" where
  "effectiveRetention_of dto foreign rate =
     (if tipo_in dto [''31'', ''33'', ''34'', ''41'', ''47''] then
        (case dto_retention dto of
           Some r \<Rightarrow> Some (if foreign
             then r \<lparr> ret_montoItbisRetenido := round2 (dmul (ret_montoItbisRetenido r) rate),
                      ret_montoIsrRetenido := scale_opt rate (ret_montoIsrRetenido r) \<rparr>
             else r)
         | None \<Rightarrow>
             if tipo_in dto [''41'', ''47'']
             then Some \<lparr> ret_indicadorAgente = 1, ret_montoItbisRetenido = dzero,
                    ret_montoIsrRetenido = (if tipo_in dto [''47''] then Some dzero else None) \<rparr>
             else None)
      else None)"

end
