(* ===== verification/Canonical_Totals.thy ===== *)
theory Canonical_Totals
  imports Canonical_Context
begin

text \<open>
  The \<open><Totales>\<close> and \<open><OtraMoneda>\<close> sections of \<open>buildXmlFromCanonical\<close>
  (CanonicalXmlBuilder.cpp): the ITBIS slots, the totals in pesos of a domestic document,
  the totals in pesos and in the foreign currency of a foreign one, and the two
  out-parameters \<open>computedTotalDop\<close> and \<open>computedItbisDop\<close>.
\<close>

abbreviation leaf6 :: "string \<Rightarrow> string \<Rightarrow> xline list" where
  "leaf6 t s \<equiv> [XLeaf 6 t s]"

definition money6 :: "string \<Rightarrow> dbl \<Rightarrow> xline list" where
  "money6 t v = [XLeaf 6 t (formatMoney2 v)]"

subsection \<open>The ITBIS slots\<close>

definition DgiiItbisSlots :: "int \<Rightarrow> nat option" where
  "DgiiItbisSlots rate = (if rate = 18 then Some 1 else if rate = 16 then Some 2
     else if rate = 0 then Some 3 else None)"

type_synonym slots = "nat \<Rightarrow> dbl option"

definition slot_sum3 :: "slots \<Rightarrow> dbl" where
  "slot_sum3 s = dadd (dadd (value_or (s 1) dzero) (value_or (s 2) dzero)) (value_or (s 3) dzero)"

abbreviation no_slots :: "nat \<Rightarrow> 'a option" where
  "no_slots \<equiv> (\<lambda>_. None)"

text \<open>\<open>for (int slot = 1; slot <= 3; ++slot) if (s[slot].has_value()) ss << ...\<close>\<close>

definition for_slots :: "(nat \<Rightarrow> 'a option) \<Rightarrow> (nat \<Rightarrow> 'a \<Rightarrow> xline list) \<Rightarrow> xline list" where
  "for_slots s out = concat (map (\<lambda>k. case s k of None \<Rightarrow> [] | Some v \<Rightarrow> out k v) [1, 2, 3])"

definition slot_str :: "nat \<Rightarrow> string" where
  "slot_str k = dec_int (int k)"

record bucket_slots =
  bs_base :: slots
  bs_tax :: slots
  bs_rate :: "nat \<Rightarrow> int option"

definition add_bucket :: "bucket_slots \<Rightarrow> CanonicalTaxBucketDto \<Rightarrow> bucket_slots" where
  "add_bucket s b = (case DgiiItbisSlots (bkt_rate b) of
       None \<Rightarrow> s
     | Some k \<Rightarrow> s
         \<lparr> bs_base := (bs_base s)(k \<mapsto> dadd (value_or (bs_base s k) dzero) (bkt_base b)),
           bs_tax := (bs_tax s)(k \<mapsto> dadd (value_or (bs_tax s k) dzero) (bkt_tax b)),
           bs_rate := (bs_rate s)(k \<mapsto> bkt_rate b) \<rparr>)"

definition empty_slots :: bucket_slots where
  "empty_slots = \<lparr> bs_base = no_slots, bs_tax = no_slots, bs_rate = no_slots \<rparr>"

subsection \<open>What a totals section yields\<close>

record totals_out =
  to_totales :: "xline list"
  to_otra :: "xline list"
  to_totalDop :: dbl
  to_itbisDop :: dbl
  to_retention :: "CanonicalRetentionDto option"

definition isr_retention :: "CanonicalRetentionDto option \<Rightarrow> xline list" where
  "isr_retention ret = (case ret of
       None \<Rightarrow> []
     | Some r \<Rightarrow> (case ret_montoIsrRetenido r of
         None \<Rightarrow> []
       | Some isr \<Rightarrow> if dpos isr then money6 ''TotalISRRetencion'' isr else []))"

definition retention_totals :: "CanonicalDocumentDto \<Rightarrow> CanonicalRetentionDto option \<Rightarrow> xline list" where
  "retention_totals dto ret =
     (if tipo_in dto [''31'', ''33'', ''34'', ''41''] then
        (case ret of None \<Rightarrow> []
         | Some r \<Rightarrow>
             (if tipo_in dto [''41''] \<or> dpos (ret_montoItbisRetenido r)
              then money6 ''TotalITBISRetenido'' (ret_montoItbisRetenido r) else [])
             @ isr_retention ret)
      else [])"

text \<open>The five leaves of a document taxed at rate zero (export).\<close>

definition export_leaves :: "dbl \<Rightarrow> xline list" where
  "export_leaves v = money6 ''MontoGravadoTotal'' v @ money6 ''MontoGravadoI3'' v
     @ leaf6 ''ITBIS3'' ''0'' @ leaf6 ''TotalITBIS'' ''0.00'' @ leaf6 ''TotalITBIS3'' ''0.00''"

subsection \<open>A domestic document\<close>

definition domestic_exento :: "CanonicalDocumentDto \<Rightarrow> dbl" where
  "domestic_exento dto = (let t = dto_totals dto in
     if modifiesGastosMenores dto
     then (if dpos (tot_montoTotal t) then tot_montoTotal t
           else value_or (tot_montoExento t) (tot_montoSubtotal t))
     else value_or (tot_montoExento t) dzero)"

definition domestic_gravado :: "CanonicalDocumentDto \<Rightarrow> dbl" where
  "domestic_gravado dto = (let t = dto_totals dto in
     if modifiesGastosMenores dto \<or> isPurelyExempt dto then dzero
     else value_or (tot_montoGravadoTotal t) (dmax dzero (dsub (tot_montoSubtotal t) (domestic_exento dto))))"

definition domestic_slots :: "CanonicalDocumentDto \<Rightarrow> bucket_slots" where
  "domestic_slots dto = (let t = dto_totals dto; gravado = domestic_gravado dto in
     if tot_taxBuckets t \<noteq> [] \<and> \<not> isPurelyExempt dto
     then foldl add_bucket empty_slots (tot_taxBuckets t)
     else if dpos gravado then
       (if modifiesExport dto
        then \<lparr> bs_base = [3 \<mapsto> gravado], bs_tax = [3 \<mapsto> dzero], bs_rate = [3 \<mapsto> 0] \<rparr>
        else \<lparr> bs_base = [1 \<mapsto> gravado], bs_tax = [1 \<mapsto> tot_montoItbis t], bs_rate = [1 \<mapsto> 18] \<rparr>)
     else empty_slots)"

definition domestic_general :: "CanonicalDocumentDto \<Rightarrow> CanonicalRetentionDto option \<Rightarrow> xline list" where
  "domestic_general dto ret = (let t = dto_totals dto; s = domestic_slots dto; exento = domestic_exento dto;
       gravado = domestic_gravado dto in
     (if dpos gravado then money6 ''MontoGravadoTotal'' gravado else [])
     @ for_slots (bs_base s) (\<lambda>k. money6 (''MontoGravadoI'' @ slot_str k))
     @ (if dpos exento then money6 ''MontoExento'' exento else [])
     @ for_slots (bs_rate s) (\<lambda>k r. leaf6 (''ITBIS'' @ slot_str k) (dec_int r))
     @ (if (bs_tax s 1 \<noteq> None \<or> bs_tax s 2 \<noteq> None \<or> bs_tax s 3 \<noteq> None \<or> \<not> isPurelyExempt dto)
           \<and> \<not> isPurelyExempt dto
        then money6 ''TotalITBIS'' (tot_montoItbis t) else [])
     @ for_slots (bs_tax s) (\<lambda>k. money6 (''TotalITBIS'' @ slot_str k))
     @ money6 ''MontoTotal'' (tot_montoTotal t)
     @ retention_totals dto ret)"

definition domestic_totals :: "CanonicalDocumentDto \<Rightarrow> CanonicalRetentionDto option \<Rightarrow> totals_out" where
  "domestic_totals dto ret =
     (let total = tot_montoTotal (dto_totals dto); itbis = tot_montoItbis (dto_totals dto);
          out = (\<lambda>ls tot itb. \<lparr> to_totales = ls, to_otra = [], to_totalDop = tot, to_itbisDop = itb,
                   to_retention = ret \<rparr>)
      in if tipo_in dto [''43'', ''44''] then
           out ((if dpos total then money6 ''MontoExento'' total else []) @ money6 ''MontoTotal'' total)
             total dzero
         else if tipo_in dto [''47''] then
           out ((if dpos total then money6 ''MontoExento'' total else []) @ money6 ''MontoTotal'' total
                @ isr_retention ret) total dzero
         else if tipo_in dto [''46''] then
           out ((if dpos total then export_leaves total else []) @ money6 ''MontoTotal'' total) total dzero
         else out (domestic_general dto ret) total (if isPurelyExempt dto then dzero else itbis))"

subsection \<open>A document in a foreign currency\<close>

text \<open>\<open>acc = round2(acc + f(item))\<close> over the items that satisfy \<open>sel\<close>.\<close>

definition sum_items ::
    "(ProcessedLineItem \<Rightarrow> bool) \<Rightarrow> (ProcessedLineItem \<Rightarrow> dbl) \<Rightarrow> ProcessedLineItem list \<Rightarrow> dbl" where
  "sum_items sel f its = foldl (\<lambda>acc it. if sel it then round2 (dadd acc (f it)) else acc) dzero its"

definition foreign_exempt ::
    "CanonicalDocumentDto \<Rightarrow> CanonicalRetentionDto option \<Rightarrow> ProcessedLineItem list \<Rightarrow> totals_out" where
  "foreign_exempt dto ret its =
     (let exentoOtra = sum_items (\<lambda>_. True) pi_montoItemOtraMoneda its;
          exentoDop = sum_items (\<lambda>_. True) pi_montoItemDop its
      in \<lparr> to_totales = (if dpos exentoDop then money6 ''MontoExento'' exentoDop else [])
             @ money6 ''MontoTotal'' exentoDop
             @ (if tipo_in dto [''47''] then isr_retention ret else []),
           to_otra = (if dpos exentoOtra then money6 ''MontoExentoOtraMoneda'' exentoOtra else [])
             @ money6 ''MontoTotalOtraMoneda'' exentoOtra,
           to_totalDop = exentoDop, to_itbisDop = dzero, to_retention = ret \<rparr>)"

definition foreign_export ::
    "CanonicalRetentionDto option \<Rightarrow> ProcessedLineItem list \<Rightarrow> totals_out" where
  "foreign_export ret its =
     (let gOtra = sum_items (\<lambda>it. pi_indicadorFacturacion it \<noteq> 0) pi_montoItemOtraMoneda its;
          gDop = sum_items (\<lambda>it. pi_indicadorFacturacion it \<noteq> 0) pi_montoItemDop its
      in \<lparr> to_totales = (if dpos gDop then export_leaves gDop else []) @ money6 ''MontoTotal'' gDop,
           to_otra = (if dpos gOtra
               then money6 ''MontoGravadoTotalOtraMoneda'' gOtra @ money6 ''MontoGravado3OtraMoneda'' gOtra
                 @ leaf6 ''TotalITBISOtraMoneda'' ''0.00'' @ leaf6 ''TotalITBIS3OtraMoneda'' ''0.00''
               else []) @ money6 ''MontoTotalOtraMoneda'' gOtra,
           to_totalDop = gDop, to_itbisDop = dzero, to_retention = ret \<rparr>)"

text \<open>The general case keeps its running values in one record.\<close>

record foreign_slots =
  fs_baseOtra :: slots
  fs_taxOtra :: slots
  fs_baseDop :: slots
  fs_rate :: "nat \<Rightarrow> int option"
  fs_exentoOtra :: dbl
  fs_exentoDop :: dbl

definition no_foreign_slots :: foreign_slots where
  "no_foreign_slots = \<lparr> fs_baseOtra = no_slots, fs_taxOtra = no_slots, fs_baseDop = no_slots,
     fs_rate = no_slots, fs_exentoOtra = dzero, fs_exentoDop = dzero \<rparr>"

definition add_foreign_bucket :: "foreign_slots \<Rightarrow> CanonicalTaxBucketDto \<Rightarrow> foreign_slots" where
  "add_foreign_bucket s b = (case DgiiItbisSlots (bkt_rate b) of
       None \<Rightarrow> s
     | Some k \<Rightarrow> s
         \<lparr> fs_baseOtra := (fs_baseOtra s)
             (k \<mapsto> round2 (dadd (value_or (fs_baseOtra s k) dzero) (round2 (bkt_base b)))),
           fs_taxOtra := (fs_taxOtra s)
             (k \<mapsto> round2 (dadd (value_or (fs_taxOtra s k) dzero) (round2 (bkt_tax b)))),
           fs_rate := (fs_rate s)(k \<mapsto> bkt_rate b) \<rparr>)"

definition taxable_lines_dop :: "ProcessedLineItem list \<Rightarrow> dbl" where
  "taxable_lines_dop its = sum_items (\<lambda>it. pi_indicadorFacturacion it \<noteq> 0) pi_montoItemDop its"

text \<open>A rounding difference of at most ten cents is given to the first non-empty slot.\<close>

definition small_diff :: "dbl \<Rightarrow> bool" where
  "small_diff d \<longleftrightarrow> \<not> dis0 d \<and> dle (dabs d) (dlit 10 100)"

definition absorb_diff :: "dbl \<Rightarrow> foreign_slots \<Rightarrow> foreign_slots" where
  "absorb_diff d s =
     (let b = fs_baseDop s; bump = (\<lambda>k. s \<lparr> fs_baseDop := b(k \<mapsto> round2 (dadd (value_or (b k) dzero) d)) \<rparr>) in
      if dpos (value_or (b 1) dzero) then bump 1
      else if dpos (value_or (b 2) dzero) then bump 2
      else if dpos (value_or (b 3) dzero) then bump 3
      else if dpos (fs_exentoDop s) then s \<lparr> fs_exentoDop := round2 (dadd (fs_exentoDop s) d) \<rparr>
      else s)"

definition slots_from_buckets ::
    "CanonicalDocumentDto \<Rightarrow> dbl \<Rightarrow> ProcessedLineItem list \<Rightarrow> foreign_slots" where
  "slots_from_buckets dto rate its =
     (let t = dto_totals dto;
          s1 = foldl add_foreign_bucket no_foreign_slots (tot_taxBuckets t);
          exOtra = round2 (value_or (tot_montoExento t) dzero);
          s2 = s1 \<lparr> fs_exentoOtra := exOtra,
            fs_baseDop := (\<lambda>k. map_option (\<lambda>v. round2 (dmul v rate)) (fs_baseOtra s1 k)),
            fs_exentoDop := (if dpos exOtra then round2 (dmul exOtra rate) else dzero) \<rparr>;
          current = dadd (slot_sum3 (fs_baseDop s2)) (fs_exentoDop s2);
          diff = round2 (dsub (taxable_lines_dop its) current)
      in if small_diff diff then absorb_diff diff s2 else s2)"

definition slots_from_totals ::
    "CanonicalDocumentDto \<Rightarrow> dbl \<Rightarrow> ProcessedLineItem list \<Rightarrow> foreign_slots" where
  "slots_from_totals dto rate its =
     (let t = dto_totals dto;
          gOtra = round2 (value_or (tot_montoGravadoTotal t) (tot_montoSubtotal t));
          exOtra = round2 (value_or (tot_montoExento t) dzero);
          baseDop = round2 (dmul gOtra rate);
          exDop = round2 (dmul exOtra rate);
          diff = round2 (dsub (taxable_lines_dop its) (dadd baseDop exDop))
      in \<lparr> fs_baseOtra = [1 \<mapsto> gOtra], fs_taxOtra = [1 \<mapsto> round2 (tot_montoItbis t)],
           fs_baseDop = [1 \<mapsto> (if small_diff diff then round2 (dadd baseDop diff) else baseDop)],
           fs_rate = [1 \<mapsto> 18], fs_exentoOtra = exOtra, fs_exentoDop = exDop \<rparr>)"

definition add_slot_item :: "nat \<Rightarrow> int \<Rightarrow> ProcessedLineItem \<Rightarrow> foreign_slots \<Rightarrow> foreign_slots" where
  "add_slot_item k r it s = s
     \<lparr> fs_baseOtra := (fs_baseOtra s)
         (k \<mapsto> round2 (dadd (value_or (fs_baseOtra s k) dzero) (pi_montoItemOtraMoneda it))),
       fs_baseDop := (fs_baseDop s)
         (k \<mapsto> round2 (dadd (value_or (fs_baseDop s k) dzero) (pi_montoItemDop it))),
       fs_rate := (fs_rate s)(k \<mapsto> r) \<rparr>"

definition add_foreign_item :: "foreign_slots \<Rightarrow> ProcessedLineItem \<Rightarrow> foreign_slots" where
  "add_foreign_item s it =
     (let ind = pi_indicadorFacturacion it in
      if ind = 1 then add_slot_item 1 18 it s
      else if ind = 2 then add_slot_item 2 16 it s
      else if ind = 3 then add_slot_item 3 0 it s
      else if ind = 4 then s
        \<lparr> fs_exentoOtra := round2 (dadd (fs_exentoOtra s) (pi_montoItemOtraMoneda it)),
          fs_exentoDop := round2 (dadd (fs_exentoDop s) (pi_montoItemDop it)) \<rparr>
      else s)"

definition slot_taxes :: "slots \<Rightarrow> slots \<Rightarrow> slots" where
  "slot_taxes base old = (\<lambda>k. case base k of
       None \<Rightarrow> old k
     | Some v \<Rightarrow> if k = 1 then Some (round2 (dmul v (dlit 18 100)))
                 else if k = 2 then Some (round2 (dmul v (dlit 16 100)))
                 else if k = 3 then Some dzero else old k)"

definition slots_from_items :: "ProcessedLineItem list \<Rightarrow> foreign_slots" where
  "slots_from_items its = (let s = foldl add_foreign_item no_foreign_slots its in
     s \<lparr> fs_taxOtra := slot_taxes (fs_baseOtra s) (fs_taxOtra s) \<rparr>)"

definition foreign_slots_of :: "CanonicalDocumentDto \<Rightarrow> dbl \<Rightarrow> ProcessedLineItem list \<Rightarrow> foreign_slots" where
  "foreign_slots_of dto rate its =
     (let explicit = list_ex pi_hasExplicitIndicador its; t = dto_totals dto in
      if \<not> explicit \<and> tot_taxBuckets t \<noteq> [] \<and> \<not> isPurelyExempt dto
      then slots_from_buckets dto rate its
      else if \<not> explicit \<and> \<not> isPurelyExempt dto \<and> dpos (value_or (tot_montoExento t) dzero)
        \<and> dpos (value_or (tot_montoGravadoTotal t) dzero)
      then slots_from_totals dto rate its
      else slots_from_items its)"

text \<open>A 41 whose retention is the whole ITBIS keeps that equality in pesos.\<close>

definition adjusted_retention ::
    "CanonicalDocumentDto \<Rightarrow> dbl \<Rightarrow> CanonicalRetentionDto option \<Rightarrow> CanonicalRetentionDto option" where
  "adjusted_retention dto itbisDop ret =
     (case (ret, dto_retention dto) of
        (Some r, Some orig) \<Rightarrow>
          if tipo_in dto [''41''] \<and>
             dle (dabs (dsub (ret_montoItbisRetenido orig) (tot_montoItbis (dto_totals dto)))) (dlit 2 100)
          then Some (r \<lparr> ret_montoItbisRetenido := itbisDop \<rparr>)
          else ret
      | _ \<Rightarrow> ret)"

definition foreign_general_dop ::
    "CanonicalDocumentDto \<Rightarrow> foreign_slots \<Rightarrow> CanonicalRetentionDto option \<Rightarrow> xline list" where
  "foreign_general_dop dto s ret =
     (let taxDop = slot_taxes (fs_baseDop s) no_slots;
          gravadoDop = round2 (slot_sum3 (fs_baseDop s));
          itbisDop = round2 (slot_sum3 taxDop);
          totalDop = round2 (dadd (dadd gravadoDop (fs_exentoDop s)) itbisDop)
      in (if dpos gravadoDop then money6 ''MontoGravadoTotal'' gravadoDop else [])
         @ for_slots (fs_baseDop s) (\<lambda>k. money6 (''MontoGravadoI'' @ slot_str k))
         @ (if dpos (fs_exentoDop s) then money6 ''MontoExento'' (fs_exentoDop s) else [])
         @ for_slots (fs_rate s) (\<lambda>k r. leaf6 (''ITBIS'' @ slot_str k) (dec_int r))
         @ (if taxDop 1 \<noteq> None \<or> taxDop 2 \<noteq> None \<or> taxDop 3 \<noteq> None
            then money6 ''TotalITBIS'' itbisDop else [])
         @ for_slots taxDop (\<lambda>k. money6 (''TotalITBIS'' @ slot_str k))
         @ money6 ''MontoTotal'' totalDop
         @ retention_totals dto ret)"

definition foreign_general_otra :: "foreign_slots \<Rightarrow> xline list" where
  "foreign_general_otra s =
     (let gravadoOtra = round2 (slot_sum3 (fs_baseOtra s));
          itbisOtra = round2 (slot_sum3 (fs_taxOtra s));
          totalOtra = round2 (dadd (dadd gravadoOtra (fs_exentoOtra s)) itbisOtra)
      in (if dpos gravadoOtra then money6 ''MontoGravadoTotalOtraMoneda'' gravadoOtra else [])
         @ for_slots (fs_baseOtra s) (\<lambda>k. money6 (''MontoGravado'' @ slot_str k @ ''OtraMoneda''))
         @ (if dpos (fs_exentoOtra s) then money6 ''MontoExentoOtraMoneda'' (fs_exentoOtra s) else [])
         @ (if dpos gravadoOtra \<or> dpos itbisOtra then money6 ''TotalITBISOtraMoneda'' itbisOtra else [])
         @ for_slots (fs_taxOtra s) (\<lambda>k. money6 (''TotalITBIS'' @ slot_str k @ ''OtraMoneda''))
         @ money6 ''MontoTotalOtraMoneda'' totalOtra)"

definition foreign_general ::
    "CanonicalDocumentDto \<Rightarrow> dbl \<Rightarrow> CanonicalRetentionDto option \<Rightarrow> ProcessedLineItem list \<Rightarrow> totals_out" where
  "foreign_general dto rate ret its =
     (let s = foreign_slots_of dto rate its;
          gravadoDop = round2 (slot_sum3 (fs_baseDop s));
          itbisDop = round2 (slot_sum3 (slot_taxes (fs_baseDop s) no_slots));
          totalDop = round2 (dadd (dadd gravadoDop (fs_exentoDop s)) itbisDop);
          ret' = adjusted_retention dto itbisDop ret
      in \<lparr> to_totales = foreign_general_dop dto s ret', to_otra = foreign_general_otra s,
           to_totalDop = totalDop, to_itbisDop = itbisDop, to_retention = ret' \<rparr>)"

definition foreign_totals ::
    "CanonicalDocumentDto \<Rightarrow> dbl \<Rightarrow> CanonicalRetentionDto option \<Rightarrow> ProcessedLineItem list \<Rightarrow> totals_out" where
  "foreign_totals dto rate ret its =
     (if tipo_in dto [''43'', ''44'', ''47''] then foreign_exempt dto ret its
      else if tipo_in dto [''46''] then foreign_export ret its
      else foreign_general dto rate ret its)"

definition totals_of ::
    "CanonicalDocumentDto \<Rightarrow> bool \<Rightarrow> dbl \<Rightarrow> CanonicalRetentionDto option \<Rightarrow> ProcessedLineItem list \<Rightarrow> totals_out" where
  "totals_of dto foreign rate ret its =
     (if foreign then foreign_totals dto rate ret its else domestic_totals dto ret)"

definition otra_moneda_section :: "CanonicalCurrencyResolution \<Rightarrow> dbl \<Rightarrow> totals_out \<Rightarrow> xline list" where
  "otra_moneda_section cur rate out = element 4 ''OtraMoneda''
     (leaf6 ''TipoMoneda'' (escapeXml (res_code cur)) @ leaf6 ''TipoCambio'' (formatPrice4 rate) @ to_otra out)"

subsection \<open>The sections are well nested and print numbers only\<close>

lemma neutral_for_slots [xml_nest]:
  "(\<And>k v. neutral d (out k v)) \<Longrightarrow> neutral d (for_slots s out)"
  unfolding for_slots_def by (intro xml_nest)

lemma neutral_money6 [simp]: "neutral d (money6 t v) \<longleftrightarrow> d = 3"
  by (auto simp: money6_def)

lemma neutral_money6I [xml_nest]: "neutral 3 (money6 t v)" "neutral 3 (leaf6 t s)"
  by simp_all

lemma neutral_isr_retention [xml_nest]: "neutral 3 (isr_retention ret)"
  unfolding isr_retention_def by (intro xml_nest)

lemma neutral_retention_totals [xml_nest]: "neutral 3 (retention_totals dto ret)"
  unfolding retention_totals_def by (intro xml_nest)

lemma neutral_export_leaves [xml_nest]: "neutral 3 (export_leaves v)"
  unfolding export_leaves_def by (intro xml_nest)

lemma neutral_domestic_general: "neutral 3 (domestic_general dto ret)"
  unfolding domestic_general_def Let_def by (intro xml_nest)

lemma neutral_domestic: "neutral 3 (to_totales (domestic_totals dto ret)) \<and> neutral 3 (to_otra (domestic_totals dto ret))"
  unfolding domestic_totals_def Let_def
  by (auto intro!: neutral_domestic_general neutral_append neutral_isr_retention neutral_export_leaves)

lemma neutral_foreign_dop: "neutral 3 (foreign_general_dop dto s ret)"
  unfolding foreign_general_dop_def Let_def by (intro xml_nest)

lemma neutral_foreign_otra: "neutral 3 (foreign_general_otra s)"
  unfolding foreign_general_otra_def Let_def by (intro xml_nest)

lemma neutral_foreign: "neutral 3 (to_totales (foreign_totals dto rate ret its)) \<and> neutral 3 (to_otra (foreign_totals dto rate ret its))"
  unfolding foreign_totals_def foreign_exempt_def foreign_export_def foreign_general_def Let_def
  by (auto intro!: neutral_foreign_dop neutral_foreign_otra neutral_append neutral_isr_retention neutral_export_leaves)

lemma neutral_totals [xml_nest]: "neutral 3 (to_totales (totals_of dto f rate ret its))" "neutral 3 (to_otra (totals_of dto f rate ret its))"
  using neutral_domestic neutral_foreign by (simp_all add: totals_of_def)

lemma digit_char_any: "n < 10 \<Longrightarrow> isdigit (digit_char n)"
  by (simp add: digit_char_def isdigit_def)

lemma dec_nat_all_digits: "all_digits (dec_nat n)"
proof (induction n rule: dec_nat.induct)
  case (1 n)
  show ?case
  proof (cases "n < 10")
    case True
    then show ?thesis by (subst dec_nat.simps) (simp add: digit_char_any)
  next
    case False
    then have "dec_nat n = dec_nat (n div 10) @ [digit_char (n mod 10)]"
      by (subst dec_nat.simps) simp
    then show ?thesis using "1.IH" [OF False] by (simp add: digit_char_any)
  qed
qed

lemma dec_int_leaf [xml_leaves]: "xml_safe (dec_int n)"
  using xml_safe_digits dec_nat_all_digits by (auto simp: dec_int_def markup_def)

lemma fmt_fixed_safe: "xml_safe (fmt_fixed d v)"
  by (cases v) (auto simp: Let_def markup_def intro!: xml_safe_digits setw0_digits dec_nat_all_digits)

lemma xml_safe_subset: "set s \<subseteq> set t \<Longrightarrow> xml_safe t \<Longrightarrow> xml_safe s"
  by (auto simp: xml_safe_def list_all_iff)

lemma set_pop_price: "set (pop_price k r) \<subseteq> set r"
  by (induction k r rule: pop_price.induct) auto

lemma set_pop_qty: "set (pop_qty r) \<subseteq> set r"
  by (induction r rule: pop_qty.induct) (auto split: if_splits)

lemma money_leaf [xml_leaves]: "xml_safe (formatMoney2 v)"
  by (simp add: formatMoney2_def fmt_fixed_safe)

lemma price_leaf [xml_leaves]: "xml_safe (formatPrice4 v)"
proof -
  have "set (formatPrice4 v) \<subseteq> set (fmt_fixed 4 v)"
    using set_pop_price [of _ "rev (fmt_fixed 4 v)"] by (auto simp: formatPrice4_def Let_def)
  then show ?thesis using fmt_fixed_safe xml_safe_subset by blast
qed

lemma qty_leaf [xml_leaves]: "xml_safe (formatQty2 v)"
proof -
  have "set (formatQty2 v) \<subseteq> set (fmt_fixed 2 v)"
    using set_pop_qty [of "rev (fmt_fixed 2 v)"] by (auto simp: formatQty2_def)
  then show ?thesis using fmt_fixed_safe xml_safe_subset by blast
qed

lemma money6_safe [xml_leaves]: "lines_safe (money6 t v)"
  unfolding money6_def by (intro xml_leaves)

lemma literal_leaf [xml_leaves]:
  "xml_safe ''0''" "xml_safe ''0.00''" "xml_safe ''1''" "xml_safe ''2''" "xml_safe ''01''" "xml_safe ''02''"
  "xml_safe ''1.0''" "xml_safe ''$''" "xml_safe ''EXTRANJERO''" "xml_safe ''32''"
  by (simp_all add: markup_def)

lemma for_slots_safe [xml_leaves]:
  "(\<And>k v. lines_safe (out k v)) \<Longrightarrow> lines_safe (for_slots s out)"
  unfolding for_slots_def by (intro xml_leaves)

lemma isr_retention_safe [xml_leaves]: "lines_safe (isr_retention ret)"
  unfolding isr_retention_def by (intro xml_leaves)

lemma retention_totals_safe [xml_leaves]: "lines_safe (retention_totals dto ret)"
  unfolding retention_totals_def by (intro xml_leaves)

lemma export_leaves_safe [xml_leaves]: "lines_safe (export_leaves v)"
  unfolding export_leaves_def by (intro xml_leaves)

lemma domestic_general_safe [xml_leaves]: "lines_safe (domestic_general dto ret)"
  unfolding domestic_general_def Let_def by (intro xml_leaves)

lemma foreign_dop_safe [xml_leaves]: "lines_safe (foreign_general_dop dto s ret)"
  unfolding foreign_general_dop_def Let_def by (intro xml_leaves)

lemma foreign_otra_safe [xml_leaves]: "lines_safe (foreign_general_otra s)"
  unfolding foreign_general_otra_def Let_def by (intro xml_leaves)

lemma totals_safe [xml_leaves]:
  "lines_safe (to_totales (totals_of dto f rate ret its))" "lines_safe (to_otra (totals_of dto f rate ret its))"
  unfolding totals_of_def domestic_totals_def foreign_totals_def foreign_exempt_def foreign_export_def
    foreign_general_def Let_def
  by (auto intro!: xml_leaves simp: markup_def)

subsection \<open>What is printed is what is recorded\<close>

lemma leaf_value_append:
  "leaf_value t (ls @ ms) = (case leaf_value t ls of None \<Rightarrow> leaf_value t ms | Some v \<Rightarrow> Some v)"
proof (induction ls)
  case (Cons l ls)
  then show ?case by (cases l) simp_all
qed simp

definition lacks :: "string \<Rightarrow> xline list \<Rightarrow> bool" where
  "lacks t ls \<longleftrightarrow> leaf_value t ls = None"

named_theorems lacks_tag \<open>segments without a leaf of the given tag\<close>

lemma lacks_basic [lacks_tag]:
  "lacks t []" "lacks t ls \<Longrightarrow> lacks t ms \<Longrightarrow> lacks t (ls @ ms)"
  "(b \<Longrightarrow> lacks t ls) \<Longrightarrow> (\<not> b \<Longrightarrow> lacks t ms) \<Longrightarrow> lacks t (if b then ls else ms)"
  "u \<noteq> t \<Longrightarrow> lacks t [XLeaf d u s]" "u \<noteq> t \<Longrightarrow> lacks t (money6 u v)"
  by (auto simp: lacks_def leaf_value_append money6_def)

lemma lacks_option [lacks_tag]:
  "(x = None \<Longrightarrow> lacks t ls) \<Longrightarrow> (\<And>v. x = Some v \<Longrightarrow> lacks t (f v)) \<Longrightarrow>
    lacks t (case x of None \<Rightarrow> ls | Some v \<Rightarrow> f v)"
  by (cases x) simp_all

lemma lacks_for_slots [lacks_tag]: "(\<And>k v. lacks t (out k v)) \<Longrightarrow> lacks t (for_slots s out)"
  unfolding for_slots_def by (auto simp: lacks_def leaf_value_append split: option.splits)

lemma found_after: "lacks t ls \<Longrightarrow> leaf_value t (ls @ ms) = leaf_value t ms"
  by (simp add: lacks_def leaf_value_append)

lemma found_leaf: "leaf_value t ([XLeaf d t s] @ ms) = Some s" "leaf_value t (money6 t v @ ms) = Some (formatMoney2 v)"
  by (simp_all add: money6_def)

lemma lacks_export: "lacks ''MontoTotal'' (export_leaves v)"
  by (simp add: export_leaves_def lacks_def money6_def)

lemma monto_total_general:
  "leaf_value ''MontoTotal'' (domestic_general dto ret) = Some (formatMoney2 (tot_montoTotal (dto_totals dto)))"
  "leaf_value ''MontoTotal'' (foreign_general_dop dto s ret) =
     Some (formatMoney2 (round2 (dadd (dadd (round2 (slot_sum3 (fs_baseDop s))) (fs_exentoDop s))
       (round2 (slot_sum3 (slot_taxes (fs_baseDop s) no_slots))))))"
proof -
  have l: "lacks ''MontoTotal'' (if b then money6 ''MontoGravadoTotal'' v else [])"
    "lacks ''MontoTotal'' (if b then money6 ''MontoExento'' v else [])"
    "lacks ''MontoTotal'' (if b then money6 ''TotalITBIS'' v else [])"
    "lacks ''MontoTotal'' (for_slots sl (\<lambda>k. money6 (''MontoGravadoI'' @ slot_str k)))"
    "lacks ''MontoTotal'' (for_slots rt (\<lambda>k r. leaf6 (''ITBIS'' @ slot_str k) (dec_int r)))"
    "lacks ''MontoTotal'' (for_slots sl (\<lambda>k. money6 (''TotalITBIS'' @ slot_str k)))"
    for b v sl and rt :: "nat \<Rightarrow> int option"
    by (intro lacks_tag; simp)+
  show "leaf_value ''MontoTotal'' (domestic_general dto ret) = Some (formatMoney2 (tot_montoTotal (dto_totals dto)))"
    unfolding domestic_general_def Let_def by (simp only: found_after [OF l(1)] found_after [OF l(2)]
        found_after [OF l(3)] found_after [OF l(4)] found_after [OF l(5)] found_after [OF l(6)] found_leaf)
  show "leaf_value ''MontoTotal'' (foreign_general_dop dto s ret) =
     Some (formatMoney2 (round2 (dadd (dadd (round2 (slot_sum3 (fs_baseDop s))) (fs_exentoDop s))
       (round2 (slot_sum3 (slot_taxes (fs_baseDop s) no_slots))))))"
    unfolding foreign_general_dop_def Let_def by (simp only: found_after [OF l(1)] found_after [OF l(2)]
        found_after [OF l(3)] found_after [OF l(4)] found_after [OF l(5)] found_after [OF l(6)] found_leaf)
qed

lemma monto_total_foreign:
  "leaf_value ''MontoTotal'' (to_totales (foreign_exempt dto ret its)) =
     Some (formatMoney2 (to_totalDop (foreign_exempt dto ret its)))"
  "leaf_value ''MontoTotal'' (to_totales (foreign_export ret its)) =
     Some (formatMoney2 (to_totalDop (foreign_export ret its)))"
  by (simp_all add: foreign_exempt_def foreign_export_def Let_def money6_def export_leaves_def)

text \<open>The total the builder hands back (and the service stores with the document) is the
  one printed in \<open>MontoTotal\<close>, for every e-CF type and currency.\<close>

theorem printed_total_is_recorded:
  "leaf_value ''MontoTotal'' (to_totales (totals_of dto foreign rate ret its)) =
     Some (formatMoney2 (to_totalDop (totals_of dto foreign rate ret its)))"
proof (cases foreign)
  case True
  then show ?thesis
    by (simp add: totals_of_def foreign_totals_def monto_total_foreign)
      (simp add: foreign_general_def Let_def monto_total_general)
next
  case False
  then show ?thesis
    by (simp add: totals_of_def domestic_totals_def Let_def monto_total_general)
      (simp add: money6_def export_leaves_def)
qed

end
