(* ===== verification/Ecf_Regex.thy ===== *)
theory Ecf_Regex
  imports Ecf_Prelude
begin

text \<open>
  \<open>std::regex_match\<close> for the ECMAScript patterns the sources use: character classes,
  concatenation, alternation and repetition, matched against the whole string.  The
  matcher is by derivatives, so it computes; \<open>rx_match_iff\<close> says it decides membership
  in the language of the pattern.
\<close>

datatype rx =
    RNone
  | REps
  | RCls "char \<Rightarrow> bool"
  | RSeq rx rx
  | RAlt rx rx
  | RStar rx

text \<open>\<open>r+\<close>, \<open>r{n}\<close> and \<open>r{lo,hi}\<close>.\<close>

definition rx_plus :: "rx \<Rightarrow> rx" where
  "rx_plus r = RSeq r (RStar r)"

primrec rx_times :: "nat \<Rightarrow> rx \<Rightarrow> rx" where
  "rx_times 0 r = REps"
| "rx_times (Suc n) r = RSeq r (rx_times n r)"

primrec rx_upto :: "nat \<Rightarrow> rx \<Rightarrow> rx" where
  "rx_upto 0 r = REps"
| "rx_upto (Suc n) r = RAlt REps (RSeq r (rx_upto n r))"

definition rx_range :: "nat \<Rightarrow> nat \<Rightarrow> rx \<Rightarrow> rx" where
  "rx_range lo hi r = RSeq (rx_times lo r) (rx_upto (hi - lo) r)"

text \<open>\<open>\d\<close>, \<open>\w\<close> and \<open>\s\<close> of \<open>std::regex\<close> in the C locale, a literal and a bracket expression.\<close>

definition rx_digit :: rx where
  "rx_digit = RCls isdigit"

definition rx_word :: rx where
  "rx_word = RCls (\<lambda>c. isalnum c \<or> c = CHR ''_'')"

definition rx_lit :: "char \<Rightarrow> rx" where
  "rx_lit c = RCls (\<lambda>d. d = c)"

definition rx_any_of :: "string \<Rightarrow> rx" where
  "rx_any_of cs = RCls (\<lambda>d. d \<in> set cs)"

primrec nullable :: "rx \<Rightarrow> bool" where
  "nullable RNone = False"
| "nullable REps = True"
| "nullable (RCls p) = False"
| "nullable (RSeq r s) = (nullable r \<and> nullable s)"
| "nullable (RAlt r s) = (nullable r \<or> nullable s)"
| "nullable (RStar r) = True"

primrec deriv :: "char \<Rightarrow> rx \<Rightarrow> rx" where
  "deriv c RNone = RNone"
| "deriv c REps = RNone"
| "deriv c (RCls p) = (if p c then REps else RNone)"
| "deriv c (RSeq r s) =
     (if nullable r then RAlt (RSeq (deriv c r) s) (deriv c s) else RSeq (deriv c r) s)"
| "deriv c (RAlt r s) = RAlt (deriv c r) (deriv c s)"
| "deriv c (RStar r) = RSeq (deriv c r) (RStar r)"

primrec rx_match :: "rx \<Rightarrow> string \<Rightarrow> bool" where
  "rx_match r [] = nullable r"
| "rx_match r (c # cs) = rx_match (deriv c r) cs"

subsection \<open>The language of a pattern\<close>

inductive in_star :: "(string \<Rightarrow> bool) \<Rightarrow> string \<Rightarrow> bool" for P where
  star_nil: "in_star P []"
| star_step: "P u \<Longrightarrow> in_star P v \<Longrightarrow> in_star P (u @ v)"

primrec in_lang :: "rx \<Rightarrow> string \<Rightarrow> bool" where
  "in_lang RNone w = False"
| "in_lang REps w = (w = [])"
| "in_lang (RCls p) w = (\<exists>c. w = [c] \<and> p c)"
| "in_lang (RSeq r s) w = (\<exists>u v. w = u @ v \<and> in_lang r u \<and> in_lang s v)"
| "in_lang (RAlt r s) w = (in_lang r w \<or> in_lang s w)"
| "in_lang (RStar r) w = in_star (in_lang r) w"

lemma nullable_iff: "nullable r \<longleftrightarrow> in_lang r []"
  by (induction r) (auto intro: in_star.intros)

lemma in_star_Cons:
  "in_star P (c # w) \<longleftrightarrow> (\<exists>u v. w = u @ v \<and> P (c # u) \<and> in_star P v)"
proof
  assume "in_star P (c # w)"
  then show "\<exists>u v. w = u @ v \<and> P (c # u) \<and> in_star P v"
  proof (induction "c # w" arbitrary: w)
    case (star_step u v)
    then show ?case by (cases u) auto
  qed
next
  assume "\<exists>u v. w = u @ v \<and> P (c # u) \<and> in_star P v"
  then obtain u v where "w = u @ v" "P (c # u)" "in_star P v" by blast
  then show "in_star P (c # w)" using in_star.star_step [of P "c # u" v] by simp
qed

lemma in_lang_deriv: "in_lang (deriv c r) w \<longleftrightarrow> in_lang r (c # w)"
proof (induction r arbitrary: w)
  case (RSeq r s)
  have "in_lang (RSeq r s) (c # w) \<longleftrightarrow>
      (\<exists>u v. w = u @ v \<and> in_lang r (c # u) \<and> in_lang s v) \<or> (nullable r \<and> in_lang s (c # w))"
    by (auto simp: nullable_iff Cons_eq_append_conv)
  then show ?case using RSeq.IH by auto
next
  case (RStar r)
  then show ?case by (auto simp: in_star_Cons)
qed auto

lemma rx_match_iff: "rx_match r w \<longleftrightarrow> in_lang r w"
  by (induction w arbitrary: r) (simp_all add: nullable_iff in_lang_deriv)

lemma in_lang_seq_cls:
  "in_lang (RSeq (RCls p) r) w \<longleftrightarrow> (case w of [] \<Rightarrow> False | c # v \<Rightarrow> p c \<and> in_lang r v)"
proof (cases w)
  case (Cons c v)
  have "in_lang (RSeq (RCls p) r) (c # v) \<longleftrightarrow> p c \<and> in_lang r v"
  proof
    assume "in_lang (RSeq (RCls p) r) (c # v)"
    then obtain u v' where "c # v = u @ v'" "in_lang (RCls p) u" "in_lang r v'" by auto
    then show "p c \<and> in_lang r v" by auto
  next
    assume "p c \<and> in_lang r v"
    then have "c # v = [c] @ v \<and> in_lang (RCls p) [c] \<and> in_lang r v" by simp
    then show "in_lang (RSeq (RCls p) r) (c # v)" unfolding in_lang.simps(4) by blast
  qed
  then show ?thesis using Cons by simp
qed simp

lemma in_lang_times_cls:
  "in_lang (rx_times n (RCls p)) w \<longleftrightarrow> length w = n \<and> list_all p w"
proof (induction n arbitrary: w)
  case (Suc n)
  show ?case
    by (simp only: rx_times.simps in_lang_seq_cls Suc.IH) (auto split: list.split)
qed auto

lemma in_lang_upto_cls:
  "in_lang (rx_upto n (RCls p)) w \<longleftrightarrow> length w \<le> n \<and> list_all p w"
proof (induction n arbitrary: w)
  case (Suc n)
  show ?case
    by (simp only: rx_upto.simps in_lang.simps(5) in_lang_seq_cls Suc.IH) (auto split: list.split)
qed auto

lemma in_star_all: "in_star P w \<Longrightarrow> (\<And>u. P u \<Longrightarrow> list_all q u) \<Longrightarrow> list_all q w"
  by (induction rule: in_star.induct) auto

end
