(* ===== verification/Canonical_Builder.thy ===== *)
theory Canonical_Builder
  imports Canonical_Totals Ecf_Regex
begin

text \<open>
  \<open>buildXmlFromCanonical\<close> of CanonicalXmlBuilder.cpp: the sections of the e-CF in the order
  the function streams them, with the retentions prorated over the items in between.  The
  several reads of the clock are one value \<open>now\<close>; \<open>mkt\<close> is \<open>std::mktime\<close> on year,
  month and day.
\<close>

subsection \<open>\<open>IdDoc\<close>\<close>

definition indicadorNotaCredito_of ::
    "(int \<Rightarrow> int \<Rightarrow> int \<Rightarrow> int) \<Rightarrow> int \<Rightarrow> CanonicalDocumentDto \<Rightarrow> int" where
  "indicadorNotaCredito_of mkt now dto =
     (let refs = dto_references dto in
      case ref_indicadorNotaCredito refs of
        Some i \<Rightarrow> i
      | None \<Rightarrow>
          if has_text (ref_fechaNcfModificado refs) then
            let issueDays = parseDateToDays mkt now (hdr_fechaEmision (dto_header dto));
                modDays = parseDateToDays mkt now (value_or (ref_fechaNcfModificado refs) [])
            in if 0 < issueDays \<and> 0 < modDays \<and> 30 < issueDays - modDays then 1 else 0
          else 0)"

definition isTestOrCert :: "CanonicalDocumentDto \<Rightarrow> bool" where
  "isTestOrCert dto = (case dto_environment dto of
       None \<Rightarrow> False
     | Some env \<Rightarrow> lower env \<in> {''precertificacion'', ''certificacion'', ''test'', ''cert''})"

definition fechaVencimiento_of :: "int \<Rightarrow> CanonicalDocumentDto \<Rightarrow> string" where
  "fechaVencimiento_of now dto =
     (if has_text (dto_fechaVencimientoSecuencia dto)
      then normalizeFechaDgii now (value_or (dto_fechaVencimientoSecuencia dto) [])
      else if has_text (hdr_fechaVencimientoSecuencia (dto_header dto))
      then normalizeFechaDgii now (value_or (hdr_fechaVencimientoSecuencia (dto_header dto)) [])
      else let year = (if isTestOrCert dto then 2028
                       else max 2027 (tm_year (getDominicanTm now) + 1))
        in ''31-12-'' @ dec_int year)"

definition pad_tipo_ingresos :: "string \<Rightarrow> string" where
  "pad_tipo_ingresos s = (if length s = 1 then ''0'' @ s else s)"

definition tipoIngresos_of :: "CanonicalDocumentDto \<Rightarrow> string" where
  "tipoIngresos_of dto =
     (if has_text (hdr_tipoIngresos (dto_header dto))
      then pad_tipo_ingresos (value_or (hdr_tipoIngresos (dto_header dto)) [])
      else if tipo_in dto [''46''] then ''02'' else ''01'')"

definition tipoPago_of :: "CanonicalDocumentDto \<Rightarrow> int" where
  "tipoPago_of dto = (case hdr_tipoPago (dto_header dto) of
       None \<Rightarrow> 1 | Some p \<Rightarrow> if 1 \<le> p \<and> p \<le> 3 then p else 1)"

definition idDoc_lines ::
    "(int \<Rightarrow> int \<Rightarrow> int \<Rightarrow> int) \<Rightarrow> int \<Rightarrow> CanonicalDocumentDto \<Rightarrow> string \<Rightarrow> xline list" where
  "idDoc_lines mkt now dto eNcf = element 4 ''IdDoc''
     (leaf6 ''TipoeCF'' (tipoEcf_of dto) @ leaf6 ''eNCF'' eNcf
      @ (if tipo_in dto [''34'']
         then leaf6 ''IndicadorNotaCredito'' (dec_int (indicadorNotaCredito_of mkt now dto))
         else if \<not> tipo_in dto [''32'']
         then leaf6 ''FechaVencimientoSecuencia'' (fechaVencimiento_of now dto)
         else [])
      @ (if tipo_in dto [''31'', ''32'', ''33'', ''34'', ''41'', ''45''] \<and> \<not> isPurelyExempt dto
         then leaf6 ''IndicadorMontoGravado'' ''0'' else [])
      @ (if \<not> tipo_in dto [''41'', ''43'', ''47''] \<and> \<not> modifiesExpenseEcf dto
         then leaf6 ''TipoIngresos'' (tipoIngresos_of dto) else [])
      @ leaf6 ''TipoPago'' (dec_int (tipoPago_of dto))
      @ (if tipoPago_of dto = 2 \<and> has_text (hdr_fechaLimitePago (dto_header dto))
         then leaf6 ''FechaLimitePago''
           (normalizeFechaDgii now (value_or (hdr_fechaLimitePago (dto_header dto)) []))
         else []))"

subsection \<open>\<open>Emisor\<close> and \<open>Comprador\<close>\<close>

definition emisor_lines :: "int \<Rightarrow> CanonicalDocumentDto \<Rightarrow> string \<Rightarrow> string \<Rightarrow> xline list" where
  "emisor_lines now dto emisorRnc emisorRazonSocial =
     (let direccion = (if has_text (hdr_direccionEmisor (dto_header dto))
            then value_or (hdr_direccionEmisor (dto_header dto)) [] else ''Distrito Nacional, SD'')
      in element 4 ''Emisor''
        (leaf6 ''RNCEmisor'' emisorRnc
         @ leaf6 ''RazonSocialEmisor'' (escapeXml (truncateUtf8 emisorRazonSocial 150))
         @ leaf6 ''DireccionEmisor'' (escapeXml (truncateUtf8 direccion 100))
         @ leaf6 ''FechaEmision'' (normalizeFechaDgii now (hdr_fechaEmision (dto_header dto)))))"

definition foreign_id_leaf :: "string \<Rightarrow> xline list" where
  "foreign_id_leaf raw = leaf6 ''IdentificadorExtranjero'' (escapeXml (truncateUtf8 raw 20))"

definition explicitForeignId :: "CanonicalDocumentDto \<Rightarrow> string" where
  "explicitForeignId dto = (case hdr_identificadorExtranjero (dto_header dto) of
       None \<Rightarrow> [] | Some s \<Rightarrow> trim s)"

definition rnc_width :: "string \<Rightarrow> bool" where
  "rnc_width s \<longleftrightarrow> length s = 9 \<or> length s = 11"

definition comprador_id :: "CanonicalDocumentDto \<Rightarrow> xline list" where
  "comprador_id dto =
     (let ext = explicitForeignId dto; rnc = hdr_rncComprador (dto_header dto); clean = cleanDigits rnc in
      if tipo_in dto [''47''] then
        (let raw = (if ext \<noteq> [] then ext else rnc) in if raw \<noteq> [] then foreign_id_leaf raw else [])
      else if tipo_in dto [''46''] then
        (if ext \<noteq> [] then foreign_id_leaf ext
         else if rnc \<noteq> [] then
           (if hasAlpha rnc then foreign_id_leaf rnc
            else if rnc_width clean then leaf6 ''RNCComprador'' clean
            else foreign_id_leaf rnc)
         else leaf6 ''IdentificadorExtranjero'' ''EXTRANJERO'')
      else
        (if ext \<noteq> [] \<and> tipo_in dto [''32'', ''33'', ''34'', ''44''] then foreign_id_leaf ext
         else if rnc \<noteq> [] then
           (if hasAlpha rnc \<and> tipo_in dto [''32'', ''33'', ''34'', ''44''] then foreign_id_leaf rnc
            else if rnc_width clean \<or> tipo_in dto [''31'', ''41'', ''45'']
            then leaf6 ''RNCComprador'' clean
            else [])
         else if modifiesExport dto then leaf6 ''IdentificadorExtranjero'' ''EXTRANJERO''
         else []))"

text \<open>\<open>^\w+([-+.]\w+)*@\w+([-.]\w+)*\.\w+([-.]\w+)*$\<close>\<close>

definition emailRegex :: rx where
  "emailRegex = RSeq (rx_plus rx_word) (RSeq (RStar (RSeq (rx_any_of ''-+.'') (rx_plus rx_word)))
     (RSeq (rx_lit (CHR ''@'')) (RSeq (rx_plus rx_word) (RSeq (RStar (RSeq (rx_any_of ''-.'') (rx_plus rx_word)))
     (RSeq (rx_lit (CHR ''.'')) (RSeq (rx_plus rx_word) (RStar (RSeq (rx_any_of ''-.'') (rx_plus rx_word)))))))))"

definition primaryEmail :: "string \<Rightarrow> string" where
  "primaryEmail rawEmail =
     (let e = trim (takeWhile (\<lambda>c. c \<noteq> CHR '';'' \<and> c \<noteq> CHR '','') rawEmail)
      in if 80 < length e then truncateUtf8 e 80 else e)"

definition comprador_name :: "CanonicalDocumentDto \<Rightarrow> string" where
  "comprador_name dto =
     (let n = hdr_razonSocialComprador (dto_header dto) in
      if n = [] then (if tipo_in dto [''47''] then ''Beneficiario del Exterior''
        else if tipo_in dto [''46''] then ''Comprador Internacional'' else ''Consumidor Final'')
      else n)"

definition comprador_lines :: "CanonicalDocumentDto \<Rightarrow> xline list" where
  "comprador_lines dto =
     (if \<not> tipo_in dto [''43''] \<and> \<not> modifiesGastosMenores dto
      then element 4 ''Comprador''
        (comprador_id dto
         @ leaf6 ''RazonSocialComprador'' (escapeXml (truncateUtf8 (comprador_name dto) 150))
         @ (if \<not> tipo_in dto [''47''] \<and> has_text (hdr_correoComprador (dto_header dto))
            then let e = primaryEmail (value_or (hdr_correoComprador (dto_header dto)) []) in
              if rx_match emailRegex e then leaf6 ''CorreoComprador'' (escapeXml e) else []
            else []))
      else [])"

subsection \<open>Retentions\<close>

definition opt_dpos :: "dbl option \<Rightarrow> bool" where
  "opt_dpos x \<longleftrightarrow> (case x of None \<Rightarrow> False | Some v \<Rightarrow> dpos v)"

definition hasLineRetentions :: "ProcessedLineItem list \<Rightarrow> bool" where
  "hasLineRetentions its \<longleftrightarrow>
     list_ex (\<lambda>it. opt_dpos (pi_montoItbisRetenido it) \<or> opt_dpos (pi_montoIsrRetenido it)) its"

text \<open>The loop over the items; the two running sums are what was assigned so far.\<close>

fun prorate :: "dbl \<Rightarrow> dbl \<Rightarrow> dbl \<Rightarrow> dbl \<Rightarrow> dbl \<Rightarrow> ProcessedLineItem list \<Rightarrow> ProcessedLineItem list" where
  "prorate docItbis docIsr sumAmounts assignedItbis assignedIsr [] = []"
| "prorate docItbis docIsr sumAmounts assignedItbis assignedIsr [it] =
     [it \<lparr> pi_montoItbisRetenido := Some (dmax dzero (round2 (dsub docItbis assignedItbis))),
           pi_montoIsrRetenido := Some (dmax dzero (round2 (dsub docIsr assignedIsr))) \<rparr>]"
| "prorate docItbis docIsr sumAmounts assignedItbis assignedIsr (it # it2 # its) =
     (if dpos sumAmounts then
        let share = ddiv (pi_montoItemDop it) sumAmounts;
            itbisShare = round2 (dmul docItbis share);
            isrShare = round2 (dmul docIsr share)
        in it \<lparr> pi_montoItbisRetenido := Some itbisShare, pi_montoIsrRetenido := Some isrShare \<rparr>
           # prorate docItbis docIsr sumAmounts (dadd assignedItbis itbisShare)
               (dadd assignedIsr isrShare) (it2 # its)
      else it \<lparr> pi_montoItbisRetenido := Some dzero, pi_montoIsrRetenido := Some dzero \<rparr>
           # prorate docItbis docIsr sumAmounts assignedItbis assignedIsr (it2 # its))"

definition prorated_items ::
    "CanonicalRetentionDto option \<Rightarrow> ProcessedLineItem list \<Rightarrow> ProcessedLineItem list" where
  "prorated_items ret its = (case ret of
       None \<Rightarrow> its
     | Some r \<Rightarrow>
         if \<not> hasLineRetentions its \<and> its \<noteq> [] then
           prorate (ret_montoItbisRetenido r) (value_or (ret_montoIsrRetenido r) dzero)
             (foldl dadd dzero (map pi_montoItemDop its)) dzero dzero its
         else its)"

definition money8 :: "string \<Rightarrow> dbl \<Rightarrow> xline list" where
  "money8 t v = [XLeaf 8 t (formatMoney2 v)]"

definition appendLineRetencion :: "CanonicalDocumentDto \<Rightarrow> ProcessedLineItem \<Rightarrow> int \<Rightarrow> xline list" where
  "appendLineRetencion dto item indicadorAgente =
     (let itbis = value_or (pi_montoItbisRetenido item) dzero;
          isr = value_or (pi_montoIsrRetenido item) dzero;
          ind = [XLeaf 8 ''IndicadorAgenteRetencionoPercepcion'' (dec_int indicadorAgente)]
      in if tipo_in dto [''47''] then element 6 ''Retencion'' (ind @ money8 ''MontoISRRetenido'' isr)
         else if tipo_in dto [''41''] then
           element 6 ''Retencion'' (ind @ money8 ''MontoITBISRetenido'' itbis
             @ (if dpos isr then money8 ''MontoISRRetenido'' isr else []))
         else if tipo_in dto [''31'', ''33'', ''34''] then
           (if dpos itbis \<or> dpos isr then
              element 6 ''Retencion'' (ind
                @ (if dpos itbis then money8 ''MontoITBISRetenido'' itbis else [])
                @ (if dpos isr then money8 ''MontoISRRetenido'' isr else []))
            else [])
         else [])"

text \<open>\<open>appendRetencion\<close>, the document-level variant declared in the header.\<close>

definition appendRetencion :: "CanonicalRetentionDto option \<Rightarrow> string \<Rightarrow> xline list" where
  "appendRetencion retention tipoEcf = (case retention of
       None \<Rightarrow> []
     | Some r \<Rightarrow> element 6 ''Retencion''
         ([XLeaf 8 ''IndicadorAgenteRetencionoPercepcion'' (dec_int (ret_indicadorAgente r))]
          @ (if tipoEcf = ''47''
             then money8 ''MontoISRRetenido'' (value_or (ret_montoIsrRetenido r) dzero)
             else money8 ''MontoITBISRetenido'' (ret_montoItbisRetenido r)
               @ (case ret_montoIsrRetenido r of None \<Rightarrow> [] | Some isr \<Rightarrow> money8 ''MontoISRRetenido'' isr))))"

subsection \<open>\<open>DetallesItems\<close>\<close>

definition discount_lines :: "CanonicalDocumentDto \<Rightarrow> ProcessedLineItem \<Rightarrow> xline list" where
  "discount_lines dto item =
     (if \<not> no_discount_type dto \<and> dpos (pi_discountDop item) then
        money6 ''DescuentoMonto'' (pi_discountDop item)
        @ element 6 ''TablaSubDescuento'' (element 8 ''SubDescuento''
            ([XLeaf 10 ''TipoSubDescuento'' ''$'']
             @ [XLeaf 10 ''MontoSubDescuento'' (formatMoney2 (pi_discountDop item))]))
      else [])"

definition otra_detalle_lines :: "CanonicalDocumentDto \<Rightarrow> bool \<Rightarrow> ProcessedLineItem \<Rightarrow> xline list" where
  "otra_detalle_lines dto foreign item =
     (if foreign then
        element 6 ''OtraMonedaDetalle''
          ([XLeaf 8 ''PrecioOtraMoneda'' (formatPrice4 (pi_precioOtraMoneda item))]
           @ (if \<not> no_discount_type dto \<and> dpos (pi_discountOtraMoneda item)
              then money8 ''DescuentoOtraMoneda'' (pi_discountOtraMoneda item) else [])
           @ money8 ''MontoItemOtraMoneda'' (pi_montoItemOtraMoneda item))
      else [])"

definition item_lines ::
    "CanonicalDocumentDto \<Rightarrow> bool \<Rightarrow> CanonicalRetentionDto option \<Rightarrow> ProcessedLineItem \<Rightarrow> xline list" where
  "item_lines dto foreign ret item = element 4 ''Item''
     (leaf6 ''NumeroLinea'' (dec_int (pi_lineNumber item))
      @ leaf6 ''IndicadorFacturacion'' (dec_int (pi_indicadorFacturacion item))
      @ (case ret of None \<Rightarrow> [] | Some r \<Rightarrow> appendLineRetencion dto item (ret_indicadorAgente r))
      @ leaf6 ''NombreItem'' (escapeXml (pi_name item))
      @ leaf6 ''IndicadorBienoServicio'' (indicadorBienoServicio dto)
      @ (if pi_description item \<noteq> [] then leaf6 ''DescripcionItem'' (escapeXml (pi_description item)) else [])
      @ leaf6 ''CantidadItem'' (formatQty2 (pi_quantity item))
      @ leaf6 ''PrecioUnitarioItem'' (formatPrice4 (pi_unitPriceDop item))
      @ discount_lines dto item
      @ otra_detalle_lines dto foreign item
      @ money6 ''MontoItem'' (pi_montoItemDop item))"

subsection \<open>\<open>InformacionReferencia\<close> and the whole document\<close>

definition reference_lines :: "int \<Rightarrow> CanonicalDocumentDto \<Rightarrow> xline list" where
  "reference_lines now dto =
     (let refs = dto_references dto in
      if (is_note dto \<or> ref_codigoModificacion refs = Some 4) \<and> normalizedRefEncf dto \<noteq> [] then
        element 2 ''InformacionReferencia''
          ([XLeaf 4 ''NCFModificado'' (escapeXml (normalizedRefEncf dto))]
           @ (if has_text (ref_rncOtroContribuyente refs)
              then [XLeaf 4 ''RNCOtroContribuyente'' (escapeXml (trim (value_or (ref_rncOtroContribuyente refs) [])))]
              else [])
           @ [XLeaf 4 ''FechaNCFModificado'' (normalizeFechaDgii now (value_or (ref_fechaNcfModificado refs) []))]
           @ (case ref_codigoModificacion refs of
                Some cm \<Rightarrow> [XLeaf 4 ''CodigoModificacion'' (dec_int cm)]
              | None \<Rightarrow> if is_note dto then [XLeaf 4 ''CodigoModificacion'' ''1''] else [])
           @ (if is_note dto \<and> has_text (ref_razonModificacion refs)
              then [XLeaf 4 ''RazonModificacion'' (escapeXml (truncateUtf8 (value_or (ref_razonModificacion refs) []) 90))]
              else []))
      else [])"

definition fechaHoraFirma :: "int \<Rightarrow> string" where
  "fechaHoraFirma now = (let x = getDominicanTm now in
     ddmmyyyy x @ '' '' @ two (tm_hour x) @ '':'' @ two (tm_min x) @ '':'' @ two (tm_sec x))"

record built_document =
  bd_lines :: "xline list"
  bd_totalDop :: dbl
  bd_itbisDop :: dbl

definition build_document ::
    "(int \<Rightarrow> int \<Rightarrow> int \<Rightarrow> int) \<Rightarrow> int \<Rightarrow> CanonicalDocumentDto \<Rightarrow> string \<Rightarrow> string \<Rightarrow> string \<Rightarrow> built_document" where
  "build_document mkt now dto eNcf emisorRnc emisorRazonSocial =
     (let cur = resolveCanonicalCurrency (dto_currency dto);
          foreign = usable_foreign cur;
          rate = builder_rate cur;
          its = processed_items dto foreign rate;
          out = totals_of dto foreign rate (effectiveRetention_of dto foreign rate) its;
          ret = to_retention out
      in \<lparr> bd_lines = XDecl # element 0 ''ECF''
             (element 2 ''Encabezado''
               ([XLeaf 4 ''Version'' ''1.0'']
                @ idDoc_lines mkt now dto eNcf
                @ emisor_lines now dto emisorRnc emisorRazonSocial
                @ comprador_lines dto
                @ element 4 ''Totales'' (to_totales out)
                @ (if foreign then otra_moneda_section cur rate out else []))
              @ element 2 ''DetallesItems''
                  (concat (map (item_lines dto foreign ret) (prorated_items ret its)))
              @ reference_lines now dto
              @ [XLeaf 2 ''FechaHoraFirma'' (fechaHoraFirma now)]),
           bd_totalDop = to_totalDop out,
           bd_itbisDop = to_itbisDop out \<rparr>)"

text \<open>The six-argument overload: the text and the two out-parameters.\<close>

definition buildXmlFromCanonical ::
    "(int \<Rightarrow> int \<Rightarrow> int \<Rightarrow> int) \<Rightarrow> int \<Rightarrow> CanonicalDocumentDto \<Rightarrow> string \<Rightarrow> string \<Rightarrow> string \<Rightarrow> string \<times> dbl \<times> dbl" where
  "buildXmlFromCanonical mkt now dto eNcf emisorRnc emisorRazonSocial =
     (let d = build_document mkt now dto eNcf emisorRnc emisorRazonSocial
      in (render (bd_lines d), bd_totalDop d, bd_itbisDop d))"

subsection \<open>Every section is well nested\<close>

lemma neutral_at:
  "neutral 1 b \<Longrightarrow> neutral 0 (element 0 t b)" "neutral 2 b \<Longrightarrow> neutral 1 (element 2 t b)"
  "neutral 3 b \<Longrightarrow> neutral 2 (element 4 t b)" "neutral 4 b \<Longrightarrow> neutral 3 (element 6 t b)"
  "neutral 5 b \<Longrightarrow> neutral 4 (element 8 t b)"
  by (rule neutral_elementI; simp add: numeral_eq_Suc)+

lemma neutral_leafI [xml_nest]: "d = 2 * k \<Longrightarrow> neutral k [XLeaf d t s]"
  by simp

lemma neutral_money8 [xml_nest]: "neutral 4 (money8 t v)"
  by (simp add: money8_def)

lemma neutral_line_retencion [xml_nest]: "neutral 3 (appendLineRetencion dto item ind)"
  unfolding appendLineRetencion_def Let_def
  by (intro xml_nest; simp add: money8_def)

lemma neutral_discount [xml_nest]: "neutral 3 (discount_lines dto item)"
  unfolding discount_lines_def by (intro xml_nest; simp)

lemma neutral_otra_detalle [xml_nest]: "neutral 3 (otra_detalle_lines dto f item)"
  unfolding otra_detalle_lines_def by (intro xml_nest; simp add: money8_def)

lemma neutral_item [xml_nest]: "neutral 2 (item_lines dto f ret item)"
  unfolding item_lines_def by (rule neutral_at) (intro xml_nest; simp)

lemma neutral_idDoc [xml_nest]: "neutral 2 (idDoc_lines mkt now dto eNcf)"
  unfolding idDoc_lines_def by (intro xml_nest; simp)

lemma neutral_emisor [xml_nest]: "neutral 2 (emisor_lines now dto rnc rs)"
  unfolding emisor_lines_def Let_def by (intro xml_nest; simp)

lemma neutral_comprador_id [xml_nest]: "neutral 3 (comprador_id dto)"
  unfolding comprador_id_def Let_def foreign_id_leaf_def by (intro xml_nest)

lemma neutral_comprador [xml_nest]: "neutral 2 (comprador_lines dto)"
proof -
  have e: "neutral 3 (let e = x in if b e then leaf6 t (f e) else [])" for x b t f
    by (simp add: Let_def)
  show ?thesis unfolding comprador_lines_def
    by (intro neutral_if neutral_at neutral_Nil neutral_append neutral_comprador_id e neutral_leafI) simp_all
qed

lemma neutral_otra_moneda: "neutral 2 (otra_moneda_section cur rate (totals_of dto f r ret its))"
  unfolding otra_moneda_section_def by (rule neutral_at) (intro xml_nest; simp)

lemma neutral_reference: "neutral 1 (reference_lines now dto)"
  unfolding reference_lines_def Let_def
  by (intro neutral_if neutral_at neutral_Nil neutral_append neutral_option neutral_leafI) simp_all


subsection \<open>Character data cannot break out of its element\<close>

lemma money8_safe [xml_leaves]: "lines_safe (money8 t v)"
  unfolding money8_def by (intro xml_leaves)

lemma bienOServicio_leaf [xml_leaves]: "xml_safe (indicadorBienoServicio dto)"
  by (simp add: indicadorBienoServicio_def markup_def)

lemma line_retencion_safe [xml_leaves]: "lines_safe (appendLineRetencion dto item ind)"
  unfolding appendLineRetencion_def Let_def by (intro xml_leaves)

lemma discount_safe [xml_leaves]: "lines_safe (discount_lines dto item)"
  unfolding discount_lines_def by (intro xml_leaves)

lemma otra_detalle_safe [xml_leaves]: "lines_safe (otra_detalle_lines dto f item)"
  unfolding otra_detalle_lines_def by (intro xml_leaves)

lemma item_safe [xml_leaves]: "lines_safe (item_lines dto f ret item)"
  unfolding item_lines_def by (intro xml_leaves)

lemma otra_moneda_safe [xml_leaves]: "lines_safe (otra_moneda_section cur rate (totals_of dto f r ret its))"
  unfolding otra_moneda_section_def by (intro xml_leaves)

lemma clean_leaf [xml_leaves]: "xml_safe (cleanDigits s)"
  by (rule xml_safe_digits) (simp add: cleanDigits_def)

lemma comprador_id_safe [xml_leaves]: "lines_safe (comprador_id dto)"
  unfolding comprador_id_def Let_def foreign_id_leaf_def by (intro xml_leaves)

lemma comprador_safe [xml_leaves]: "lines_safe (comprador_lines dto)"
  unfolding comprador_lines_def Let_def by (intro xml_leaves)

lemma two_leaf [xml_leaves]: "xml_safe (two n)"
  unfolding two_def by (intro xml_safe_digits setw0_digits dec_nat_all_digits)

lemma xml_safe_parts [xml_leaves]:
  "xml_safe s \<Longrightarrow> xml_safe t \<Longrightarrow> xml_safe (s @ t)" "xml_safe ''-''" "xml_safe '' ''" "xml_safe '':''"
  "xml_safe ''31-12-''"
  by (simp_all add: markup_def)

lemma ddmmyyyy_leaf [xml_leaves]: "xml_safe (ddmmyyyy x)"
  unfolding ddmmyyyy_def by (intro xml_leaves)

lemma firma_leaf [xml_leaves]: "xml_safe (fechaHoraFirma now)"
  unfolding fechaHoraFirma_def Let_def by (intro xml_leaves)

lemma xml_safe_trim: "xml_safe s \<Longrightarrow> xml_safe (trim s)"
  using set_trim xml_safe_subset by blast

lemma xml_safe_submatch: "xml_safe s \<Longrightarrow> xml_safe (submatch i n s)"
  by (rule xml_safe_subset) (auto simp: submatch_def dest: in_set_takeD in_set_dropD)

lemma xml_safe_dashes: "xml_safe s \<Longrightarrow> xml_safe (dashes s)"
  by (auto simp: xml_safe_def dashes_def list_all_iff markup_def)

lemma fecha_leaf: "xml_safe v \<Longrightarrow> xml_safe (normalizeFechaDgii now v)"
  unfolding normalizeFechaDgii_def Let_def
  by (auto intro!: xml_leaves xml_safe_trim xml_safe_submatch xml_safe_dashes simp: markup_def)

text \<open>The fields the builder streams as they came, without \<open>escapeXml\<close>.\<close>

definition raw_fields_clean :: "CanonicalDocumentDto \<Rightarrow> string \<Rightarrow> string \<Rightarrow> bool" where
  "raw_fields_clean dto eNcf emisorRnc \<longleftrightarrow>
     xml_safe (dto_tipoComprobante dto) \<and> xml_safe eNcf \<and> xml_safe emisorRnc
     \<and> xml_safe (value_or (dto_fechaVencimientoSecuencia dto) [])
     \<and> xml_safe (value_or (hdr_fechaVencimientoSecuencia (dto_header dto)) [])
     \<and> xml_safe (value_or (hdr_tipoIngresos (dto_header dto)) [])
     \<and> xml_safe (value_or (hdr_fechaLimitePago (dto_header dto)) [])
     \<and> xml_safe (hdr_fechaEmision (dto_header dto))
     \<and> xml_safe (value_or (ref_fechaNcfModificado (dto_references dto)) [])"

lemma tipo_leaf: "xml_safe (dto_tipoComprobante dto) \<Longrightarrow> xml_safe (tipoEcf_of dto)"
  by (auto simp: tipoEcf_of_def markup_def split: list.splits)

lemma vencimiento_leaf: "raw_fields_clean dto e r \<Longrightarrow> xml_safe (fechaVencimiento_of now dto)"
  unfolding fechaVencimiento_of_def Let_def raw_fields_clean_def
  by (auto intro!: fecha_leaf dec_int_leaf simp: markup_def)

lemma ingresos_leaf: "raw_fields_clean dto e r \<Longrightarrow> xml_safe (tipoIngresos_of dto)"
  by (simp add: tipoIngresos_of_def pad_tipo_ingresos_def raw_fields_clean_def markup_def)

lemma idDoc_safe:
  assumes "raw_fields_clean dto eNcf r"
  shows "lines_safe (idDoc_lines mkt now dto eNcf)"
  unfolding idDoc_lines_def using assms
  by (intro xml_leaves vencimiento_leaf [OF assms] ingresos_leaf [OF assms] tipo_leaf fecha_leaf;
      simp add: raw_fields_clean_def)

lemma emisor_safe: "raw_fields_clean dto e rnc \<Longrightarrow> lines_safe (emisor_lines now dto rnc rs)"
  unfolding emisor_lines_def Let_def
  by (intro xml_leaves fecha_leaf; simp add: raw_fields_clean_def)

lemma reference_safe: "raw_fields_clean dto e r \<Longrightarrow> lines_safe (reference_lines now dto)"
  unfolding reference_lines_def Let_def
  by (intro xml_leaves fecha_leaf; simp add: raw_fields_clean_def)

text \<open>C38. Names, addresses, descriptions, e-mail, foreign identifiers and reasons may hold any
  bytes: as long as the nine raw fields (type, eNCF, RNC, dates, income type) hold no markup,
  no character data of the document contains a markup character, so no field can add or
  close an element.\<close>

theorem built_document_no_injection:
  assumes "raw_fields_clean dto eNcf emisorRnc"
  shows "lines_safe (bd_lines (build_document mkt now dto eNcf emisorRnc emisorRazonSocial))"
  unfolding build_document_def Let_def built_document.simps
  using assms by (simp only: lines_safe_simps line_safe.simps)
    (intro conjI xml_leaves idDoc_safe emisor_safe reference_safe; simp)

definition hostile_dto :: CanonicalDocumentDto where
  "hostile_dto = default_dto
     \<lparr> dto_header := dto_header default_dto \<lparr> hdr_razonSocialComprador := ''</ECF><ECF>'' \<rparr> \<rparr>"

theorem built_document_no_injection_witness:
  "lines_safe (bd_lines (build_document (\<lambda>_ _ _. 0) 0 hostile_dto ''E310000000001'' ''131234567'' ''A & B''))"
  by (rule built_document_no_injection)
    (simp add: raw_fields_clean_def hostile_dto_def default_dto_def markup_def)

text \<open>The hypothesis of the previous property is needed: the issue date is streamed as it
  came, so a date that holds markup puts that markup into the document.\<close>

theorem raw_date_reaches_document:
  "\<not> lines_safe (bd_lines (build_document mkt now
     (default_dto \<lparr> dto_header := dto_header default_dto \<lparr> hdr_fechaEmision := ''<a>'' \<rparr> \<rparr>) eNcf rnc rs))"
proof -
  have "normalizeFechaDgii now ''<a>'' = ''<a>''"
    by (simp add: normalizeFechaDgii_def trim_def ltrim_def rtrim_def isspace_def code_def fixed_match_def
        rgx_ddmmyyyy_def rgx_iso_def rgx_slash_def rgx_compact_def isdigit_def dashes_def numeral_eq_Suc)
  then show ?thesis
    by (simp add: build_document_def Let_def emisor_lines_def markup_def)
qed

text \<open>The buyer's name comes back from the document as it was sent, up to the 150 characters and
  without the control characters XML 1.0 forbids.\<close>

lemma buyer_name_read_back:
  "xml_unescape (escapeXml (truncateUtf8 (comprador_name dto) 150)) =
     filter (\<lambda>c. \<not> is_ctrl c) (truncateUtf8 (comprador_name dto) 150)"
  by (rule builder_esc.esc_read)

end
