(* ===== verification/Ecf_Sequences.thy ===== *)
theory Ecf_Sequences
  imports Sys_Time
begin

text \<open>
  The numbering of receipts: EcfSequence.h, EcfSequenceManager.cpp (the table
  ecf_sequences, one transaction per call) and MemorySequenceProvider.cpp.  The table is
  the list of its rows; a transaction that throws leaves it as it was.  The locale
  \<open>numbering\<close> is the contract a source of numbers keeps (each number it hands out is above
  every earlier one of the same series), and both providers are interpretations of it.
  The counters are PostgreSQL \<open>bigint\<close>s: \<open>getNextEncf_in_range\<close> shows that an increment
  never passes the end of the authorised range.
\<close>

subsection \<open>The table\<close>

record EcfSequence =
  es_id :: int
  es_tenantId :: string
  es_tipoComprobante :: string
  es_prefix :: string
  es_rangoDesde :: int
  es_rangoHasta :: int
  es_secuenciaActual :: int
  es_fechaVencimiento :: "string option"
  es_isActive :: bool
  es_updatedAt :: string

type_synonym seq_table = "EcfSequence list"

definition getCurrentEncfFormatted :: "EcfSequence \<Rightarrow> string" where
  "getCurrentEncfFormatted r = es_prefix r @ setw0 10 (dec_int (es_secuenciaActual r))"

datatype seq_error =
    NoAuthorizedRange string string
  | ScopeAlreadyRegistered
  | NoExpiryDate string
  | RangeExpired string string
  | RangeExhausted string

text \<open>\<open>SELECT ... WHERE tenant_id = $1 AND tipo_comprobante = $2 AND is_active = true\<close>\<close>

definition active_row :: "string \<Rightarrow> string \<Rightarrow> seq_table \<Rightarrow> EcfSequence option" where
  "active_row tenant tipo tbl =
     find (\<lambda>r. es_tenantId r = tenant \<and> es_tipoComprobante r = tipo \<and> es_isActive r) tbl"

definition update_row :: "int \<Rightarrow> (EcfSequence \<Rightarrow> EcfSequence) \<Rightarrow> seq_table \<Rightarrow> seq_table" where
  "update_row i f tbl = map (\<lambda>r. if es_id r = i then f r else r) tbl"

subsection \<open>\<open>getNextEncf\<close>\<close>

definition endsWithNoCase :: "string \<Rightarrow> string \<Rightarrow> bool" where
  "endsWithNoCase str suf \<longleftrightarrow> \<not> length str < length suf
     \<and> list_all2 (\<lambda>a b. tolower a = tolower b) (rev suf) (take (length suf) (rev str))"

definition swap_suffix :: "string \<Rightarrow> string \<Rightarrow> string \<Rightarrow> string" where
  "swap_suffix tenant old new = take (length tenant - length old) tenant @ new"

definition altTenantId_of :: "string \<Rightarrow> string" where
  "altTenantId_of tenant =
     (if endsWithNoCase tenant '':PreCertificacion'' then swap_suffix tenant '':PreCertificacion'' '':TestEcf''
      else if endsWithNoCase tenant '':TestEcf'' then swap_suffix tenant '':TestEcf'' '':PreCertificacion''
      else if endsWithNoCase tenant '':Certificacion'' then swap_suffix tenant '':Certificacion'' '':CertEcf''
      else if endsWithNoCase tenant '':CertEcf'' then swap_suffix tenant '':CertEcf'' '':Certificacion''
      else [])"

text \<open>
  The row to allocate from, and the table with the row of the alternative scope moved to
  this one.  The unique index on (tenant_id, tipo_comprobante) refuses the move when an
  inactive row already holds the name.
\<close>

definition locate_row :: "string \<Rightarrow> string \<Rightarrow> seq_table \<Rightarrow> seq_error + EcfSequence \<times> seq_table" where
  "locate_row tenant tipo tbl = (case active_row tenant tipo tbl of
       Some r \<Rightarrow> Inr (r, tbl)
     | None \<Rightarrow>
         (let alt = altTenantId_of tenant in
          case (if alt = [] then None else active_row alt tipo tbl) of
            None \<Rightarrow> Inl (NoAuthorizedRange tipo tenant)
          | Some r \<Rightarrow>
              if list_ex (\<lambda>q. es_tenantId q = tenant \<and> es_tipoComprobante q = tipo) tbl
              then Inl ScopeAlreadyRegistered
              else if es_id r = 0 then Inl (NoAuthorizedRange tipo tenant)
              else Inr (r \<lparr> es_tenantId := tenant \<rparr>,
                        update_row (es_id r) (\<lambda>q. q \<lparr> es_tenantId := tenant \<rparr>) tbl)))"

text \<open>\<open>std::string::operator<\<close> compares bytes.\<close>

fun bytes_less :: "string \<Rightarrow> string \<Rightarrow> bool" where
  "bytes_less s [] \<longleftrightarrow> False"
| "bytes_less [] (d # ds) \<longleftrightarrow> True"
| "bytes_less (c # cs) (d # ds) \<longleftrightarrow> code c < code d \<or> (c = d \<and> bytes_less cs ds)"

definition expired :: "int \<Rightarrow> string \<Rightarrow> bool" where
  "expired now fecha \<longleftrightarrow>
     bytes_less (if 10 \<le> length fecha then take 10 fecha else fecha) (take 10 (toIsoUtc now))"

definition bump :: "int \<Rightarrow> EcfSequence \<Rightarrow> EcfSequence" where
  "bump now r =
     (let cur = (if es_secuenciaActual r < es_rangoDesde r - 1 then es_rangoDesde r - 1
                 else es_secuenciaActual r)
      in r \<lparr> es_secuenciaActual := cur + 1, es_updatedAt := toIsoUtc now \<rparr>)"

text \<open>The guards and the increment; the value is the local variable \<open>seq\<close> and the table.\<close>

definition allocate ::
    "int \<Rightarrow> string \<Rightarrow> string \<Rightarrow> seq_table \<Rightarrow> seq_error + EcfSequence \<times> seq_table" where
  "allocate now tenant tipo tbl = (case locate_row tenant tipo tbl of
       Inl e \<Rightarrow> Inl e
     | Inr (r, tbl1) \<Rightarrow>
         if \<not> has_text (es_fechaVencimiento r) then Inl (NoExpiryDate tipo)
         else if expired now (value_or (es_fechaVencimiento r) [])
         then Inl (RangeExpired tipo (value_or (es_fechaVencimiento r) []))
         else if es_rangoHasta r \<le> max (es_secuenciaActual r) (es_rangoDesde r - 1)
         then Inl (RangeExhausted tipo)
         else let r' = bump now r in
           Inr (r', update_row (es_id r)
                  (\<lambda>q. q \<lparr> es_secuenciaActual := es_secuenciaActual r', es_updatedAt := es_updatedAt r' \<rparr>) tbl1))"

definition getNextEncf ::
    "int \<Rightarrow> string \<Rightarrow> string \<Rightarrow> seq_table \<Rightarrow> (seq_error + string) \<times> seq_table" where
  "getNextEncf now tenant tipo tbl = (case allocate now tenant tipo tbl of
       Inl e \<Rightarrow> (Inl e, tbl)
     | Inr (r, tbl') \<Rightarrow> (Inr (getCurrentEncfFormatted r), tbl'))"

subsection \<open>\<open>releaseUnusedEncf\<close>\<close>

definition releaseUnusedEncf :: "int \<Rightarrow> string \<Rightarrow> string \<Rightarrow> string \<Rightarrow> seq_table \<Rightarrow> seq_table" where
  "releaseUnusedEncf now tenant tipo encf tbl =
     (if length encf \<le> 3 then tbl
      else case stoll (drop 3 encf) of
        None \<Rightarrow> tbl
      | Some n \<Rightarrow>
          let alt = (if CHR '':'' \<in> set tenant then takeWhile (\<lambda>c. c \<noteq> CHR '':'') tenant else []) in
          map (\<lambda>r. if (es_tenantId r = tenant \<or> (alt \<noteq> [] \<and> es_tenantId r = alt))
                      \<and> es_tipoComprobante r = tipo \<and> es_secuenciaActual r = n
                   then r \<lparr> es_secuenciaActual := es_secuenciaActual r - 1, es_updatedAt := toIsoUtc now \<rparr>
                   else r) tbl)"

subsection \<open>MemorySequenceProvider.cpp\<close>

type_synonym mem_sequences = "string \<Rightarrow> int"

definition memory_getNext :: "string \<Rightarrow> mem_sequences \<Rightarrow> string \<times> mem_sequences" where
  "memory_getNext rnc seqs = (let n = seqs rnc + 1 in (''E31'' @ setw0 10 (dec_int n), seqs(rnc := n)))"

definition memory_release :: "string \<Rightarrow> string \<Rightarrow> mem_sequences \<Rightarrow> mem_sequences" where
  "memory_release rnc encf seqs = seqs"

subsection \<open>The contract of a source of numbers\<close>

text \<open>
  \<open>issue c s\<close> is one call with the arguments \<open>c\<close>: the series the number belongs to, the
  number, and the state after it; \<open>None\<close> is a call that failed (and changed nothing).
\<close>

fun run_issue :: "('c \<Rightarrow> 's \<Rightarrow> ('r \<times> int \<times> 's) option) \<Rightarrow> 'c list \<Rightarrow> 's \<Rightarrow> ('r \<times> int) list" where
  "run_issue f [] s = []"
| "run_issue f (c # cs) s = (case f c s of
       None \<Rightarrow> run_issue f cs s
     | Some (r, n, s') \<Rightarrow> (r, n) # run_issue f cs s')"

locale numbering =
  fixes issue :: "'c \<Rightarrow> 's \<Rightarrow> ('r \<times> int \<times> 's) option"
    and level :: "'s \<Rightarrow> 'r \<Rightarrow> int"
    and ok :: "'s \<Rightarrow> bool"
  assumes issue_ok: "ok s \<Longrightarrow> issue c s = Some (r, n, s') \<Longrightarrow> ok s'"
    and issue_above: "ok s \<Longrightarrow> issue c s = Some (r, n, s') \<Longrightarrow> level s r < n \<and> level s' r = n"
    and issue_other: "ok s \<Longrightarrow> issue c s = Some (r, n, s') \<Longrightarrow> q \<noteq> r \<Longrightarrow> level s' q = level s q"
begin

lemma level_mono: "ok s \<Longrightarrow> issue c s = Some (r, n, s') \<Longrightarrow> level s q \<le> level s' q"
  using issue_above [of s c r n s'] issue_other [of s c r n s' q] by (cases "q = r") auto

lemma run_above: "ok s \<Longrightarrow> (r, n) \<in> set (run_issue issue cs s) \<Longrightarrow> level s r < n"
proof (induction cs arbitrary: s)
  case (Cons c cs)
  show ?case
  proof (cases "issue c s")
    case None
    then show ?thesis using Cons by simp
  next
    case (Some x)
    then obtain q m s' where i: "issue c s = Some (q, m, s')" by (cases x) auto
    show ?thesis
      using Cons.prems Cons.IH [OF issue_ok [OF Cons.prems(1) i]] issue_above [OF Cons.prems(1) i]
        level_mono [OF Cons.prems(1) i, of r] i by auto
  qed
qed simp

lemma run_distinct: "ok s \<Longrightarrow> distinct (run_issue issue cs s)"
proof (induction cs arbitrary: s)
  case (Cons c cs)
  show ?case
  proof (cases "issue c s")
    case None
    then show ?thesis using Cons by simp
  next
    case (Some x)
    then obtain q m s' where i: "issue c s = Some (q, m, s')" by (cases x) auto
    have "(q, m) \<notin> set (run_issue issue cs s')"
      using run_above [OF issue_ok [OF Cons.prems i]] issue_above [OF Cons.prems i] by fastforce
    then show ?thesis using Cons.IH [OF issue_ok [OF Cons.prems i]] i by simp
  qed
qed simp

end

subsection \<open>Both providers keep it\<close>

definition row_of :: "seq_table \<Rightarrow> int \<Rightarrow> EcfSequence option" where
  "row_of tbl i = find (\<lambda>r. es_id r = i) tbl"

definition last_number :: "seq_table \<Rightarrow> int \<Rightarrow> int" where
  "last_number tbl i = (case row_of tbl i of None \<Rightarrow> 0 | Some r \<Rightarrow> es_secuenciaActual r)"

definition ids_distinct :: "seq_table \<Rightarrow> bool" where
  "ids_distinct tbl \<longleftrightarrow> distinct (map es_id tbl)"

definition manager_issue ::
    "int \<times> string \<times> string \<Rightarrow> seq_table \<Rightarrow> (int \<times> int \<times> seq_table) option" where
  "manager_issue call tbl = (case call of (now, tenant, tipo) \<Rightarrow>
     (case allocate now tenant tipo tbl of
        Inl e \<Rightarrow> None
      | Inr (r, tbl') \<Rightarrow> Some (es_id r, es_secuenciaActual r, tbl')))"

lemma row_of_update:
  assumes "\<And>r. es_id (f r) = es_id r"
  shows "row_of (update_row i f tbl) q = (if q = i then map_option f (row_of tbl i) else row_of tbl q)"
  using assms by (induction tbl) (auto simp: row_of_def update_row_def)

lemma update_row_ids [simp]:
  assumes "\<And>r. es_id (f r) = es_id r"
  shows "map es_id (update_row i f tbl) = map es_id tbl"
  using assms by (simp add: update_row_def)

lemma row_of_mem: "ids_distinct tbl \<Longrightarrow> r \<in> set tbl \<Longrightarrow> row_of tbl (es_id r) = Some r"
  by (induction tbl) (auto simp: row_of_def ids_distinct_def)

lemma find_mem: "find P xs = Some x \<Longrightarrow> x \<in> set xs \<and> P x"
  by (induction xs) (auto split: if_splits)

lemma active_row_mem:
  "active_row t k tbl = Some r \<Longrightarrow> r \<in> set tbl \<and> es_tenantId r = t \<and> es_tipoComprobante r = k \<and> es_isActive r"
  unfolding active_row_def by (drule find_mem) simp

text \<open>Apart from the scope it is filed under, the located row is a row of the table.\<close>

lemma locate_row_spec:
  assumes "ids_distinct tbl" "locate_row t k tbl = Inr (r, tbl1)"
  obtains r0 where "r0 \<in> set tbl" "r = r0 \<lparr> es_tenantId := t \<rparr>" "es_tenantId r = t"
    "es_tipoComprobante r = k" "es_isActive r"
    "row_of tbl1 (es_id r) = Some r" "ids_distinct tbl1"
    "\<And>q. q \<noteq> es_id r \<Longrightarrow> row_of tbl1 q = row_of tbl q"
proof (cases "active_row t k tbl")
  case (Some r')
  then have "r' = r" "tbl1 = tbl" using assms(2) by (simp_all add: locate_row_def)
  then show thesis using active_row_mem [OF Some] assms(1) row_of_mem by (intro that [of r]) auto
next
  case None
  then obtain r0 where r0: "active_row (altTenantId_of t) k tbl = Some r0" "r = r0 \<lparr> es_tenantId := t \<rparr>"
      "tbl1 = update_row (es_id r0) (\<lambda>q. q \<lparr> es_tenantId := t \<rparr>) tbl"
    using assms(2) by (auto simp: locate_row_def Let_def split: option.splits if_splits)
  show thesis
  proof (rule that [of r0])
    show "ids_distinct tbl1" using assms(1) r0 by (simp add: ids_distinct_def)
    show "row_of tbl1 (es_id r) = Some r"
      using r0 active_row_mem [OF r0(1)] row_of_mem [OF assms(1)] by (simp add: row_of_update)
    show "row_of tbl1 q = row_of tbl q" if "q \<noteq> es_id r" for q
      using that r0 by (simp add: row_of_update)
  qed (use r0 active_row_mem [OF r0(1)] in auto)
qed

lemma allocate_spec:
  assumes "allocate now t k tbl = Inr (r, tbl')"
  obtains r1 tbl1 where "locate_row t k tbl = Inr (r1, tbl1)" "r = bump now r1"
    "has_text (es_fechaVencimiento r1)" "\<not> expired now (value_or (es_fechaVencimiento r1) [])"
    "max (es_secuenciaActual r1) (es_rangoDesde r1 - 1) < es_rangoHasta r1"
    "tbl' = update_row (es_id r1)
       (\<lambda>q. q \<lparr> es_secuenciaActual := es_secuenciaActual r, es_updatedAt := es_updatedAt r \<rparr>) tbl1"
  using assms by (auto simp: allocate_def Let_def not_le split: sum.splits prod.splits if_splits)

lemma bump_simps [simp]:
  "es_id (bump now r) = es_id r" "es_rangoDesde (bump now r) = es_rangoDesde r"
  "es_rangoHasta (bump now r) = es_rangoHasta r" "es_prefix (bump now r) = es_prefix r"
  "es_secuenciaActual (bump now r) = max (es_secuenciaActual r) (es_rangoDesde r - 1) + 1"
  by (simp_all add: bump_def Let_def)

lemma manager_issue_step:
  assumes ok: "ids_distinct tbl" and i: "manager_issue c tbl = Some (i, n, tbl')"
  shows "ids_distinct tbl'" "last_number tbl i < n" "last_number tbl' i = n"
    and "q \<noteq> i \<Longrightarrow> last_number tbl' q = last_number tbl q"
proof -
  obtain now t k where c: "c = (now, t, k)" by (cases c)
  then obtain r where a: "allocate now t k tbl = Inr (r, tbl')" and id: "i = es_id r" "n = es_secuenciaActual r"
    using i by (auto simp: manager_issue_def split: sum.splits)
  obtain r1 tbl1 where l: "locate_row t k tbl = Inr (r1, tbl1)" and b: "r = bump now r1"
    and u: "tbl' = update_row (es_id r1)
       (\<lambda>q. q \<lparr> es_secuenciaActual := es_secuenciaActual r, es_updatedAt := es_updatedAt r \<rparr>) tbl1"
    by (rule allocate_spec [OF a])
  obtain r0 where r0: "r0 \<in> set tbl" "r1 = r0 \<lparr> es_tenantId := t \<rparr>"
    and t1: "row_of tbl1 (es_id r1) = Some r1" "ids_distinct tbl1"
    and o: "\<And>q. q \<noteq> es_id r1 \<Longrightarrow> row_of tbl1 q = row_of tbl q"
    by (rule locate_row_spec [OF ok l]) blast
  have same: "es_id r1 = es_id r0" "es_secuenciaActual r1 = es_secuenciaActual r0"
    using r0(2) by simp_all
  have row0: "row_of tbl (es_id r1) = Some r0" using row_of_mem [OF ok r0(1)] same by simp
  show "ids_distinct tbl'" using t1(2) u by (simp add: ids_distinct_def)
  show "last_number tbl i < n" using row0 id b same by (simp add: last_number_def)
  show "last_number tbl' i = n" using t1(1) id b u by (simp add: last_number_def row_of_update)
  show "last_number tbl' q = last_number tbl q" if "q \<noteq> i"
    using that id b u o [of q] by (simp add: last_number_def row_of_update)
qed

interpretation manager: numbering manager_issue last_number ids_distinct
proof
  fix s c r n s'
  assume a: "ids_distinct s" "manager_issue c s = Some (r, n, s')"
  show "ids_distinct s'" by (rule manager_issue_step(1) [OF a])
  show "last_number s r < n \<and> last_number s' r = n" using manager_issue_step(2,3) [OF a] ..
  show "last_number s' q = last_number s q" if "q \<noteq> r" for q by (rule manager_issue_step(4) [OF a that])
qed

definition memory_issue :: "string \<Rightarrow> mem_sequences \<Rightarrow> (string \<times> int \<times> mem_sequences) option" where
  "memory_issue rnc seqs = (let s' = snd (memory_getNext rnc seqs) in Some (rnc, s' rnc, s'))"

interpretation memory: numbering memory_issue "\<lambda>s. s" "\<lambda>_. True"
  by unfold_locales (auto simp: memory_issue_def memory_getNext_def Let_def)

subsection \<open>Properties\<close>


definition sample_row :: EcfSequence where
  "sample_row = \<lparr> es_id = 7, es_tenantId = ''t1'', es_tipoComprobante = ''31'', es_prefix = ''E31'',
     es_rangoDesde = 1, es_rangoHasta = 100, es_secuenciaActual = 4,
     es_fechaVencimiento = Some ''2030-12-31'', es_isActive = True, es_updatedAt = [] \<rparr>"


text \<open>C12. A call that succeeds takes its number from a row of the table that is active and of
  that type, whose expiry date is set and not past; the number is one more than the last one
  (or the first of the range), lies in the authorised range, and is printed after the prefix
  in ten digits.\<close>

theorem getNextEncf_in_range:
  assumes "ids_distinct tbl" "getNextEncf now tenant tipo tbl = (Inr e, tbl')"
  shows "\<exists>r \<in> set tbl. es_isActive r \<and> es_tipoComprobante r = tipo
    \<and> has_text (es_fechaVencimiento r) \<and> \<not> expired now (value_or (es_fechaVencimiento r) [])
    \<and> (let n = max (es_secuenciaActual r) (es_rangoDesde r - 1) + 1 in
       es_rangoDesde r \<le> n \<and> n \<le> es_rangoHasta r \<and> e = es_prefix r @ setw0 10 (dec_int n))"
proof -
  obtain r where a: "allocate now tenant tipo tbl = Inr (r, tbl')" and e: "e = getCurrentEncfFormatted r"
    using assms(2) by (auto simp: getNextEncf_def split: sum.splits)
  obtain r1 tbl1 where l: "locate_row tenant tipo tbl = Inr (r1, tbl1)" and b: "r = bump now r1"
    and f: "has_text (es_fechaVencimiento r1)" "\<not> expired now (value_or (es_fechaVencimiento r1) [])"
    and m: "max (es_secuenciaActual r1) (es_rangoDesde r1 - 1) < es_rangoHasta r1"
    by (rule allocate_spec [OF a])
  obtain r0 where r0: "r0 \<in> set tbl" "r1 = r0 \<lparr> es_tenantId := tenant \<rparr>"
    "es_tipoComprobante r1 = tipo" "es_isActive r1"
    by (rule locate_row_spec [OF assms(1) l]) blast
  show ?thesis
    by (rule bexI [OF _ r0(1)]) (use r0 f m b e in \<open>auto simp: getCurrentEncfFormatted_def Let_def\<close>)
qed

lemma toIsoUtc_0: "toIsoUtc 0 = ''1970-01-01T00:00:00Z''"
  by code_simp

theorem getNextEncf_in_range_witness:
  "\<exists>r \<in> set [sample_row]. ''E310000000005'' =
     es_prefix r @ setw0 10 (dec_int (max (es_secuenciaActual r) (es_rangoDesde r - 1) + 1))"
proof -
  have "fst (getNextEncf 0 ''t1'' ''31'' [sample_row]) = Inr ''E310000000005''" by code_simp
  then obtain tbl' where g: "getNextEncf 0 ''t1'' ''31'' [sample_row] = (Inr ''E310000000005'', tbl')"
    by (cases "getNextEncf 0 ''t1'' ''31'' [sample_row]") simp
  show ?thesis
    using getNextEncf_in_range [OF _ g] by (auto simp: ids_distinct_def Let_def)
qed

text \<open>A call that fails, for any of its reasons, leaves the table exactly as it was: no
  number is lost, and a row looked up under the alternative scope stays where it was.\<close>

theorem getNextEncf_failure_rolls_back:
  assumes "getNextEncf now tenant tipo tbl = (Inl err, tbl')"
  shows "tbl' = tbl"
  using assms by (auto simp: getNextEncf_def split: sum.splits)

theorem getNextEncf_failure_rolls_back_witness:
  "getNextEncf 0 ''t1'' ''32'' [sample_row] = (Inl (NoAuthorizedRange ''32'' ''t1''), [sample_row])"
proof -
  have "fst (getNextEncf 0 ''t1'' ''32'' [sample_row]) = Inl (NoAuthorizedRange ''32'' ''t1'')" by code_simp
  then obtain tbl' where g: "getNextEncf 0 ''t1'' ''32'' [sample_row] = (Inl (NoAuthorizedRange ''32'' ''t1''), tbl')"
    by (cases "getNextEncf 0 ''t1'' ''32'' [sample_row]") simp
  show ?thesis using getNextEncf_failure_rolls_back [OF g] g by simp
qed

definition two_scopes :: seq_table where
  "two_scopes = [sample_row, sample_row \<lparr> es_id := 8, es_tenantId := ''t1:TestEcf'' \<rparr>]"

text \<open>The release of an unused number undoes the allocation only within its own row: with
  one row of the base scope and one of an environment of it at the same count, releasing the
  number of the environment also takes back one of the base scope, which then issues an eNCF
  it has already issued.\<close>

theorem release_reissues_in_base_scope:
  "let (e1, t1) = getNextEncf 0 ''t1'' ''31'' two_scopes;
       (e2, t2) = getNextEncf 0 ''t1:TestEcf'' ''31'' t1;
       t3 = releaseUnusedEncf 0 ''t1:TestEcf'' ''31'' ''E310000000005'' t2;
       (e3, t4) = getNextEncf 0 ''t1'' ''31'' t3
   in e1 = Inr ''E310000000005'' \<and> e2 = Inr ''E310000000005'' \<and> e3 = e1"
  by code_simp

text \<open>In a scope without a suffix, releasing the number just issued puts every counter of
  the table back to what it was, so an allocation that is not used leaves no gap.\<close>

theorem release_undoes_allocation:
  assumes "ids_distinct tbl" "distinct (map (\<lambda>r. (es_tenantId r, es_tipoComprobante r)) tbl)"
    and "active_row tenant tipo tbl = Some r" "CHR '':'' \<notin> set tenant" "length (es_prefix r) = 3"
    and "1 \<le> es_rangoDesde r" "es_rangoDesde r - 1 \<le> es_secuenciaActual r" "es_rangoHasta r < 2 ^ 63"
    and "getNextEncf now tenant tipo tbl = (Inr e, tbl')"
  shows "map es_secuenciaActual (releaseUnusedEncf later tenant tipo e tbl') = map es_secuenciaActual tbl"
proof -
  note mem = active_row_mem [OF assms(3)]
  have loc: "locate_row tenant tipo tbl = Inr (r, tbl)" using assms(3) by (simp add: locate_row_def)
  obtain r' where a: "allocate now tenant tipo tbl = Inr (r', tbl')" and e: "e = getCurrentEncfFormatted r'"
    using assms(9) by (auto simp: getNextEncf_def split: sum.splits)
  define n where "n = es_secuenciaActual r + 1"
  obtain r1 tbl1 where l: "locate_row tenant tipo tbl = Inr (r1, tbl1)" and b1: "r' = bump now r1"
    and m1: "max (es_secuenciaActual r1) (es_rangoDesde r1 - 1) < es_rangoHasta r1"
    and u1: "tbl' = update_row (es_id r1)
       (\<lambda>q. q \<lparr> es_secuenciaActual := es_secuenciaActual r', es_updatedAt := es_updatedAt r' \<rparr>) tbl1"
    by (rule allocate_spec [OF a])
  have eqs: "r1 = r" "tbl1 = tbl" using l loc by simp_all
  have b: "r' = bump now r" using b1 eqs by simp
  then have num': "es_secuenciaActual r' = n" using assms(7) by (simp add: n_def)
  have r': "es_secuenciaActual r < es_rangoHasta r"
      "tbl' = update_row (es_id r) (\<lambda>q. q \<lparr> es_secuenciaActual := n, es_updatedAt := es_updatedAt r' \<rparr>) tbl"
    using m1 u1 num' assms(7) unfolding eqs by simp_all
  have n0: "1 \<le> n" "n < 2 ^ 63" using assms(6,7,8) r'(1) by (simp_all add: n_def)
  have num: "drop 3 e = setw0 10 (dec_nat n)" "length e > 3"
    using e b num' assms(5) n0 by (simp_all add: getCurrentEncfFormatted_def dec_int_def setw0_def)
  have "all_digits (setw0 10 (dec_nat n))" using n0 by (intro setw0_digits dec_nat_digits) simp
  moreover have "setw0 10 (dec_nat n) \<noteq> []" by (simp add: setw0_def)
  ultimately have "scan_int (setw0 10 (dec_nat n) @ []) = Some (digits_val (setw0 10 (dec_nat n)), [])"
    by (rule scan_int_digits) simp
  then have st: "stoll (drop 3 e) = Some n"
    using n0 num(1) by (simp add: stoll_def setw0_val dec_nat_val)
  have "es_secuenciaActual (if es_tenantId q = tenant \<and> es_tipoComprobante q = tipo \<and> es_secuenciaActual q = n
        then q \<lparr> es_secuenciaActual := es_secuenciaActual q - 1, es_updatedAt := u \<rparr> else q) = es_secuenciaActual p"
    if p: "p \<in> set tbl"
      and q: "q = (if es_id p = es_id r then p \<lparr> es_secuenciaActual := n, es_updatedAt := es_updatedAt r' \<rparr> else p)"
    for p q u
  proof (cases "p = r")
    case True
    then show ?thesis using q mem by (simp add: n_def)
  next
    case False
    then have "es_id p \<noteq> es_id r" using assms(1) p mem by (auto simp: ids_distinct_def distinct_map inj_on_def)
    moreover have "(es_tenantId p, es_tipoComprobante p) \<noteq> (tenant, tipo)"
      using False assms(2) p mem by (auto simp: distinct_map inj_on_def)
    ultimately show ?thesis using q by auto
  qed
  then show ?thesis
    using num(2) st assms(4) r'(2) by (simp add: releaseUnusedEncf_def Let_def update_row_def)
qed

theorem release_undoes_allocation_witness:
  "\<exists>e tbl'. getNextEncf 0 ''t1'' ''31'' [sample_row] = (Inr e, tbl')
     \<and> map es_secuenciaActual (releaseUnusedEncf 0 ''t1'' ''31'' e tbl') = [4]"
proof -
  have "fst (getNextEncf 0 ''t1'' ''31'' [sample_row]) = Inr ''E310000000005''" by code_simp
  then obtain tbl' where g: "getNextEncf 0 ''t1'' ''31'' [sample_row] = (Inr ''E310000000005'', tbl')"
    by (cases "getNextEncf 0 ''t1'' ''31'' [sample_row]") simp
  have "map es_secuenciaActual (releaseUnusedEncf 0 ''t1'' ''31'' ''E310000000005'' tbl')
      = map es_secuenciaActual [sample_row]"
    by (rule release_undoes_allocation [where r = sample_row, OF _ _ _ _ _ _ _ _ g])
      (simp_all add: ids_distinct_def active_row_def sample_row_def)
  then show ?thesis using g by (auto simp: sample_row_def)
qed

end
