(* ===== verification/Document_Store.thy ===== *)
theory Document_Store
  imports Ecf_Sequences Canonical_Dto
begin

text \<open>
  Where documents live: the entity EcfDocument (EcfDocument.h, AuditableEntity.h), the table
  ecf_documents with its unique indexes (DbInitializer.cpp), EcfDocumentRepository.cpp and
  the unit of work of DbContext.cpp, which queues statements and runs them in one
  transaction.  A statement is a value, \<open>saveChanges\<close> runs the queue on the table or leaves
  it as it was, and \<open>w_faults\<close> is the schedule of the outages of the database: the head
  says whether the next transaction loses its connection.  The \<open>w_trace\<close> lists, oldest
  first, what was committed and what was asked of or sent to the DGII.  Columns keep the
  value they are given (no rounding to numeric(18,2), no re-formatting of timestamps); the
  \<open>timestamptz\<close> columns are compared as the instants their text denotes.
\<close>

subsection \<open>The entity\<close>

record AuditableEntity =
  ae_id :: string
  ae_createdAt :: string
  ae_createdBy :: "string option"
  ae_updatedAt :: "string option"
  ae_updatedBy :: "string option"
  ae_deletedAt :: "string option"
  ae_deletedBy :: "string option"
  ae_isDeleted :: bool

record EcfDocument = AuditableEntity +
  d_eNcf :: string
  d_rncEmisor :: string
  d_rncComprador :: "string option"
  d_tenantId :: string
  d_sourceTxnId :: string
  d_editSequence :: string
  d_documentKind :: string
  d_ncf :: "string option"
  d_trackId :: "string option"
  d_state :: string
  d_totalAmount :: dbl
  d_itbisAmount :: dbl
  d_securityCode :: "string option"
  d_xmlContent :: string
  d_signedXmlContent :: "string option"
  d_dgiiResponseXml :: "string option"
  d_receiptDate :: "string option"
  d_sentToDgiiAt :: "string option"
  d_lastStatusCheckAt :: "string option"
  d_statusCheckAttempts :: int
  d_ambiente :: "string option"

definition new_document :: EcfDocument where
  "new_document = \<lparr> ae_id = [], ae_createdAt = [], ae_createdBy = None, ae_updatedAt = None,
     ae_updatedBy = None, ae_deletedAt = None, ae_deletedBy = None, ae_isDeleted = False,
     d_eNcf = [], d_rncEmisor = [], d_rncComprador = None, d_tenantId = ''default-tenant'',
     d_sourceTxnId = [], d_editSequence = [], d_documentKind = ''Invoice'', d_ncf = None,
     d_trackId = None, d_state = ''Received'', d_totalAmount = dzero, d_itbisAmount = dzero,
     d_securityCode = None, d_xmlContent = [], d_signedXmlContent = None, d_dgiiResponseXml = None,
     d_receiptDate = None, d_sentToDgiiAt = None, d_lastStatusCheckAt = None,
     d_statusCheckAttempts = 0, d_ambiente = None \<rparr>"

type_synonym doc_table = "EcfDocument list"

subsection \<open>Exceptions, events and the state of the service\<close>

datatype exn =
    SequenceExn seq_error
  | UniqueViolation string
  | ConnectionLost
  | OtherExn string

datatype event =
    Saved EcfDocument
  | SentEcf string string
  | SentRfce string string
  | AskedResultado string
  | AskedEstado string string
  | AskedTrackIds string string

record world =
  w_docs :: doc_table
  w_seqs :: seq_table
  w_faults :: "bool list"
  w_trace :: "event list"

definition log_events :: "event list \<Rightarrow> world \<Rightarrow> world" where
  "log_events evs w = w \<lparr> w_trace := w_trace w @ evs \<rparr>"

subsection \<open>Statements\<close>

definition TenantSourceTxnUniqueConstraint :: string where
  "TenantSourceTxnUniqueConstraint = ''uq_ecf_documents_tenant_source_txn''"

text \<open>
  The unique indexes: two rows conflict in an index when all its columns are equal and none
  is NULL.  The name is the one PostgreSQL reports.
\<close>

definition conflict :: "EcfDocument \<Rightarrow> EcfDocument \<Rightarrow> string option" where
  "conflict a b =
     (if ae_id a = ae_id b then Some ''ecf_documents_pkey''
      else if d_tenantId a = d_tenantId b \<and> d_sourceTxnId a = d_sourceTxnId b
              \<and> d_ambiente a \<noteq> None \<and> d_ambiente a = d_ambiente b
      then Some TenantSourceTxnUniqueConstraint
      else if d_rncEmisor a = d_rncEmisor b \<and> d_ambiente a \<noteq> None \<and> d_ambiente a = d_ambiente b
              \<and> d_eNcf a = d_eNcf b
      then Some ''uq_ecf_documents_rnc_emisor_encf''
      else None)"

fun first_conflict :: "EcfDocument \<Rightarrow> doc_table \<Rightarrow> string option" where
  "first_conflict d [] = None"
| "first_conflict d (r # rs) = (case conflict d r of Some c \<Rightarrow> Some c | None \<Rightarrow> first_conflict d rs)"

text \<open>A queued INSERT or UPDATE; the audit columns are bound when it is queued.\<close>

datatype db_op =
    InsertOp EcfDocument
  | UpdateOp EcfDocument

definition add_op :: "int \<Rightarrow> string \<Rightarrow> string \<Rightarrow> EcfDocument \<Rightarrow> db_op" where
  "add_op now uuid usr document = InsertOp (document \<lparr>
     ae_id := if ae_id document = [] then uuid else ae_id document,
     ae_createdAt := toIsoUtc now, ae_createdBy := Some usr, ae_updatedAt := None, ae_updatedBy := None,
     ae_deletedAt := None, ae_deletedBy := None, ae_isDeleted := False \<rparr>)"

definition update_op :: "int \<Rightarrow> string \<Rightarrow> EcfDocument \<Rightarrow> db_op" where
  "update_op now usr document =
     UpdateOp (document \<lparr> ae_updatedAt := Some (toIsoUtc now), ae_updatedBy := Some usr \<rparr>)"

text \<open>The columns an UPDATE does not name keep their value.\<close>

definition updated_row :: "EcfDocument \<Rightarrow> EcfDocument \<Rightarrow> EcfDocument" where
  "updated_row e r = e \<lparr> ae_createdAt := ae_createdAt r, ae_createdBy := ae_createdBy r,
     ae_deletedAt := ae_deletedAt r, ae_deletedBy := ae_deletedBy r, ae_isDeleted := ae_isDeleted r \<rparr>"

definition exec_op :: "db_op \<Rightarrow> doc_table \<Rightarrow> exn + doc_table" where
  "exec_op opn docs = (case opn of
       InsertOp e \<Rightarrow>
         (case first_conflict e docs of
            Some c \<Rightarrow> Inl (UniqueViolation c)
          | None \<Rightarrow> Inr (docs @ [e]))
     | UpdateOp e \<Rightarrow>
         if \<not> list_ex (\<lambda>r. ae_id r = ae_id e) docs then Inr docs
         else (case first_conflict e (filter (\<lambda>r. ae_id r \<noteq> ae_id e) docs) of
            Some c \<Rightarrow> Inl (UniqueViolation c)
          | None \<Rightarrow> Inr (map (\<lambda>r. if ae_id r = ae_id e then updated_row e r else r) docs)))"

subsection \<open>DbContext.cpp\<close>

definition auditUsername :: "string option \<Rightarrow> string" where
  "auditUsername user = (if has_text user then value_or user [] else ''System'')"

fun run_ops :: "db_op list \<Rightarrow> doc_table \<Rightarrow> exn + doc_table" where
  "run_ops [] docs = Inr docs"
| "run_ops (opn # ops) docs = (case exec_op opn docs of
       Inl e \<Rightarrow> Inl e
     | Inr docs' \<Rightarrow> run_ops ops docs')"

fun op_row :: "db_op \<Rightarrow> EcfDocument" where
  "op_row (InsertOp e) = e"
| "op_row (UpdateOp e) = e"

definition next_fault :: "world \<Rightarrow> bool \<times> world" where
  "next_fault w = (case w_faults w of
       [] \<Rightarrow> (False, w)
     | b # fs \<Rightarrow> (b, w \<lparr> w_faults := fs \<rparr>))"

text \<open>The queue is empty again afterwards, whatever the outcome.\<close>

definition saveChanges :: "db_op list \<Rightarrow> world \<Rightarrow> (exn + nat) \<times> world" where
  "saveChanges pending w =
     (if pending = [] then (Inr 0, w)
      else case next_fault w of (down, w1) \<Rightarrow>
        if down then (Inl ConnectionLost, w1)
        else case run_ops pending (w_docs w1) of
          Inl e \<Rightarrow> (Inl e, w1)
        | Inr docs \<Rightarrow> (Inr (length pending),
            log_events (map (Saved \<circ> op_row) pending) (w1 \<lparr> w_docs := docs \<rparr>)))"

subsection \<open>EcfDocumentRepository.cpp\<close>

definition queryOne :: "(EcfDocument \<Rightarrow> bool) \<Rightarrow> doc_table \<Rightarrow> EcfDocument option" where
  "queryOne where_clause docs = find (\<lambda>r. where_clause r \<and> \<not> ae_isDeleted r) docs"

definition doc_getById :: "string \<Rightarrow> doc_table \<Rightarrow> EcfDocument option" where
  "doc_getById i = queryOne (\<lambda>r. ae_id r = i)"

definition doc_getByENcf :: "string \<Rightarrow> doc_table \<Rightarrow> EcfDocument option" where
  "doc_getByENcf e = queryOne (\<lambda>r. d_eNcf r = e)"

definition doc_getByTrackId :: "string \<Rightarrow> doc_table \<Rightarrow> EcfDocument option" where
  "doc_getByTrackId t = queryOne (\<lambda>r. d_trackId r = Some t)"

text \<open>\<open>ORDER BY created_at DESC LIMIT 1\<close>; equal times keep the order of the table.\<close>

fun newest :: "doc_table \<Rightarrow> EcfDocument option" where
  "newest [] = None"
| "newest (r # rs) = (case newest rs of
       None \<Rightarrow> Some r
     | Some q \<Rightarrow> if parseIsoUtc (ae_createdAt r) < parseIsoUtc (ae_createdAt q) then Some q else Some r)"

definition source_match :: "string \<Rightarrow> string \<Rightarrow> string option \<Rightarrow> EcfDocument \<Rightarrow> bool" where
  "source_match tenant txn amb r \<longleftrightarrow> d_tenantId r = tenant \<and> d_sourceTxnId r = txn
     \<and> (has_text amb \<longrightarrow> d_ambiente r = None \<or> d_ambiente r = amb) \<and> \<not> ae_isDeleted r"

definition doc_getBySourceTxnId ::
    "string \<Rightarrow> string \<Rightarrow> string option \<Rightarrow> doc_table \<Rightarrow> EcfDocument option" where
  "doc_getBySourceTxnId tenant txn amb docs = newest (filter (source_match tenant txn amb) docs)"

text \<open>\<open>ORDER BY sent_to_dgii_at ASC LIMIT $3\<close>\<close>

definition at_or_before :: "string \<Rightarrow> string \<Rightarrow> bool" where
  "at_or_before a b \<longleftrightarrow> parseIsoUtc a \<le> parseIsoUtc b"

fun insert_by_sent :: "EcfDocument \<Rightarrow> doc_table \<Rightarrow> doc_table" where
  "insert_by_sent r [] = [r]"
| "insert_by_sent r (q # qs) =
     (if at_or_before (value_or (d_sentToDgiiAt r) []) (value_or (d_sentToDgiiAt q) [])
      then r # q # qs else q # insert_by_sent r qs)"

definition due_for_check :: "string \<Rightarrow> string \<Rightarrow> EcfDocument \<Rightarrow> bool" where
  "due_for_check minAge pollDue r \<longleftrightarrow> (d_state r = ''Signed'' \<or> d_state r = ''SentToDgii'')
     \<and> (case d_sentToDgiiAt r of None \<Rightarrow> False | Some t \<Rightarrow> at_or_before t minAge)
     \<and> (case d_lastStatusCheckAt r of None \<Rightarrow> True | Some t \<Rightarrow> at_or_before t pollDue)
     \<and> \<not> ae_isDeleted r"

definition getDueForStatusCheck :: "string \<Rightarrow> string \<Rightarrow> nat \<Rightarrow> doc_table \<Rightarrow> doc_table" where
  "getDueForStatusCheck minAge pollDue max_rows docs =
     take max_rows (foldr insert_by_sent (filter (due_for_check minAge pollDue) docs) [])"

subsection \<open>The contract of a document store\<close>

text \<open>What a document says, without the audit columns the store fills in.\<close>

definition content :: "EcfDocument \<Rightarrow> EcfDocument" where
  "content d = d \<lparr> ae_createdAt := [], ae_createdBy := None, ae_updatedAt := None, ae_updatedBy := None,
     ae_deletedAt := None, ae_deletedBy := None, ae_isDeleted := False \<rparr>"

locale document_store =
  fixes fetch :: "'i \<Rightarrow> 's \<Rightarrow> 'd option"
    and save :: "'d \<Rightarrow> 's \<Rightarrow> ('e + 'n) \<times> 's"
    and ident :: "'d \<Rightarrow> 'i"
    and says :: "'d \<Rightarrow> 'c"
  assumes save_found: "fetch (ident d) s = Some q \<Longrightarrow> save d s = (Inr n, s') \<Longrightarrow>
      \<exists>r. fetch (ident d) s' = Some r \<and> says r = says d"
    and save_missing: "fetch (ident d) s = None \<Longrightarrow> save d s = (x, s') \<Longrightarrow> fetch (ident d) s' = None"
    and save_other: "i \<noteq> ident d \<Longrightarrow> save d s = (x, s') \<Longrightarrow> fetch i s' = fetch i s"
    and save_failed: "save d s = (Inl e, s') \<Longrightarrow> fetch i s' = fetch i s"
begin

text \<open>
  \<open>holds d s\<close>: the store has a row under the document's identifier and it says what the
  document says.
\<close>

definition holds :: "'d \<Rightarrow> 's \<Rightarrow> bool" where
  "holds d s \<longleftrightarrow> (\<exists>r. fetch (ident d) s = Some r \<and> says r = says d)"

lemma holds_after_save: "fetch (ident d) s \<noteq> None \<Longrightarrow> save d s = (Inr n, s') \<Longrightarrow> holds d s'"
  using save_found by (auto simp: holds_def)

lemma present_after_save: "fetch i s \<noteq> None \<Longrightarrow> save d s = (x, s') \<Longrightarrow> fetch i s' \<noteq> None"
  using save_found [of d s _ _ s'] save_other [of i d s x s'] save_failed [of d s _ s' i]
  by (cases x; cases "i = ident d") auto

lemma absent_after_save: "fetch i s = None \<Longrightarrow> save d s = (x, s') \<Longrightarrow> fetch i s' = None"
  using save_missing [of d s x s'] save_other [of i d s x s'] by (cases "i = ident d") auto

end

lemma find_map_same: "(\<And>x. P (f x) \<longleftrightarrow> P x) \<Longrightarrow> find P (map f xs) = map_option f (find P xs)"
  by (induction xs) simp_all

lemma next_fault_docs [simp]:
  "next_fault w = (b, w1) \<Longrightarrow> w_docs w1 = w_docs w" "next_fault w = (b, w1) \<Longrightarrow> w_seqs w1 = w_seqs w"
  "next_fault w = (b, w1) \<Longrightarrow> w_trace w1 = w_trace w"
  by (auto simp: next_fault_def split: list.splits)

lemma log_events_simps [simp]:
  "w_docs (log_events evs w) = w_docs w" "w_seqs (log_events evs w) = w_seqs w"
  "w_faults (log_events evs w) = w_faults w" "w_trace (log_events evs w) = w_trace w @ evs"
  by (simp_all add: log_events_def)

lemma updated_row_simps [simp]:
  "ae_id (updated_row e r) = ae_id e" "ae_isDeleted (updated_row e r) = ae_isDeleted r"
  "content (updated_row e r) = content e"
  by (simp_all add: updated_row_def content_def)

lemma content_stamp [simp]:
  "content (d \<lparr> ae_updatedAt := t, ae_updatedBy := u \<rparr>) = content d"
  by (simp add: content_def)

lemma op_row_simps [simp]:
  "op_row (update_op now usr d) = d \<lparr> ae_updatedAt := Some (toIsoUtc now), ae_updatedBy := Some usr \<rparr>"
  by (simp add: update_op_def)

definition save_one :: "int \<Rightarrow> string \<Rightarrow> EcfDocument \<Rightarrow> world \<Rightarrow> (exn + nat) \<times> world" where
  "save_one now usr d w = saveChanges [update_op now usr d] w"

lemma exec_update:
  assumes "exec_op (update_op now usr d) docs = Inr docs'"
  shows "doc_getById i docs' =
    (if i = ae_id d
     then map_option (updated_row (d \<lparr> ae_updatedAt := Some (toIsoUtc now), ae_updatedBy := Some usr \<rparr>)) (doc_getById i docs)
     else doc_getById i docs)"
proof -
  let ?e = "d \<lparr> ae_updatedAt := Some (toIsoUtc now), ae_updatedBy := Some usr \<rparr>"
  let ?f = "\<lambda>r. if ae_id r = ae_id d then updated_row ?e r else r"
  have get_map: "doc_getById i (map ?f docs) = map_option ?f (doc_getById i docs)"
    unfolding doc_getById_def queryOne_def by (rule find_map_same) auto
  have idf: "doc_getById i docs = Some r \<Longrightarrow> ae_id r = i" for r
    by (auto simp: doc_getById_def queryOne_def find_Some_iff)
  show ?thesis
  proof (cases "list_ex (\<lambda>r. ae_id r = ae_id d) docs")
    case True
    then have docs': "docs' = map ?f docs"
      using assms by (auto simp: exec_op_def update_op_def split: option.splits)
    show ?thesis unfolding docs' get_map using idf by (cases "doc_getById i docs") auto
  next
    case False
    then have "docs' = docs" using assms by (simp add: exec_op_def update_op_def)
    moreover have "i = ae_id d \<Longrightarrow> doc_getById i docs = None"
      using False by (auto simp: doc_getById_def queryOne_def find_None_iff list_ex_iff)
    ultimately show ?thesis by auto
  qed
qed

lemma save_one_cases:
  assumes "save_one now usr d w = (res, w')"
  obtains e where "res = Inl e" "w_docs w' = w_docs w" "w_seqs w' = w_seqs w" "w_trace w' = w_trace w"
  | "res = Inr 1" "exec_op (update_op now usr d) (w_docs w) = Inr (w_docs w')" "w_seqs w' = w_seqs w"
    "w_trace w' = w_trace w @ [Saved (d \<lparr> ae_updatedAt := Some (toIsoUtc now), ae_updatedBy := Some usr \<rparr>)]"
proof -
  obtain down w1 where f: "next_fault w = (down, w1)" by (cases "next_fault w")
  show thesis
  proof (cases down)
    case True
    then show ?thesis using assms f by (intro that(1)) (auto simp: save_one_def saveChanges_def)
  next
    case False
    then show ?thesis using assms f
      by (cases "exec_op (update_op now usr d) (w_docs w)")
        (auto simp: save_one_def saveChanges_def intro: that)
  qed
qed

interpretation docs: document_store "\<lambda>i w. doc_getById i (w_docs w)" "save_one now usr" ae_id content for now usr
proof
  fix d s q n s'
  assume q: "doc_getById (ae_id d) (w_docs s) = Some q" and "save_one now usr d s = (Inr n, s')"
  then show "\<exists>r. doc_getById (ae_id d) (w_docs s') = Some r \<and> content r = content d"
    by (elim save_one_cases) (auto simp: exec_update)
next
  fix d s x s'
  assume "doc_getById (ae_id d) (w_docs s) = None" "save_one now usr d s = (x, s')"
  then show "doc_getById (ae_id d) (w_docs s') = None"
    by (elim save_one_cases) (auto simp: exec_update)
next
  fix i d s x s'
  assume "i \<noteq> ae_id d" "save_one now usr d s = (x, s')"
  then show "doc_getById i (w_docs s') = doc_getById i (w_docs s)"
    by (elim save_one_cases) (auto simp: exec_update)
next
  fix d s e s' i
  assume "save_one now usr d s = (Inl e, s')"
  then show "doc_getById i (w_docs s') = doc_getById i (w_docs s)"
    by (elim save_one_cases) auto
qed

subsection \<open>The unique indexes hold of every table\<close>

definition unique_indexes :: "doc_table \<Rightarrow> bool" where
  "unique_indexes docs \<longleftrightarrow> sorted_wrt (\<lambda>a b. conflict a b = None) docs"

lemma conflict_sym: "conflict a b = None \<Longrightarrow> conflict b a = None"
  by (auto simp: conflict_def split: if_splits)

lemma conflict_updated [simp]: "conflict (updated_row e r) b = conflict e b"
proof -
  have "ae_id (updated_row e r) = ae_id e" "d_tenantId (updated_row e r) = d_tenantId e"
    "d_sourceTxnId (updated_row e r) = d_sourceTxnId e" "d_ambiente (updated_row e r) = d_ambiente e"
    "d_rncEmisor (updated_row e r) = d_rncEmisor e" "d_eNcf (updated_row e r) = d_eNcf e"
    by (simp_all add: updated_row_def)
  then show ?thesis unfolding conflict_def by (simp only:)
qed

lemma first_conflict_None: "first_conflict d docs = None \<longleftrightarrow> (\<forall>r \<in> set docs. conflict d r = None)"
  by (induction docs) (auto split: option.splits)

lemma exec_op_keeps_indexes:
  assumes "unique_indexes docs" "exec_op opn docs = Inr docs'"
  shows "unique_indexes docs'"
proof (cases opn)
  case (InsertOp e)
  then have "first_conflict e docs = None" "docs' = docs @ [e]"
    using assms(2) by (auto simp: exec_op_def split: option.splits)
  then show ?thesis
    using assms(1) by (auto simp: unique_indexes_def sorted_wrt_append first_conflict_None intro: conflict_sym)
next
  case (UpdateOp e)
  let ?f = "\<lambda>r. if ae_id r = ae_id e then updated_row e r else r"
  show ?thesis
  proof (cases "list_ex (\<lambda>r. ae_id r = ae_id e) docs")
    case True
    then have fc: "\<And>r. r \<in> set docs \<Longrightarrow> ae_id r \<noteq> ae_id e \<Longrightarrow> conflict e r = None"
      and d': "docs' = map ?f docs"
      using assms(2) UpdateOp by (auto simp: exec_op_def first_conflict_None split: option.splits if_splits)
    have "conflict (?f a) (?f b) = None" if "a \<in> set docs" "b \<in> set docs" "conflict a b = None" for a b
    proof -
      have ne: "ae_id a \<noteq> ae_id b" using that(3) by (auto simp: conflict_def split: if_splits)
      consider "ae_id a = ae_id e" | "ae_id b = ae_id e" "ae_id a \<noteq> ae_id e" | "ae_id a \<noteq> ae_id e" "ae_id b \<noteq> ae_id e"
        by blast
      then show ?thesis
      proof cases
        case 1
        then have "ae_id b \<noteq> ae_id e" using ne by simp
        then show ?thesis using fc [OF that(2)] 1 by simp
      next
        case 2
        then have "conflict (updated_row e b) a = None" using fc [OF that(1)] by simp
        then show ?thesis using 2 by (simp add: conflict_sym)
      next
        case 3
        then show ?thesis using that(3) by simp
      qed
    qed
    then show ?thesis
      using assms(1) unfolding unique_indexes_def d' sorted_wrt_map by (rule sorted_wrt_mono_rel)
  next
    case False
    then show ?thesis using assms UpdateOp by (simp add: exec_op_def)
  qed
qed

lemma run_ops_keeps_indexes: "unique_indexes docs \<Longrightarrow> run_ops ops docs = Inr docs' \<Longrightarrow> unique_indexes docs'"
  by (induction ops arbitrary: docs) (auto split: sum.splits intro: exec_op_keeps_indexes)

lemma saveChanges_unique:
  assumes "unique_indexes (w_docs w)" "saveChanges ops w = (r, w')"
  shows "unique_indexes (w_docs w')"
proof -
  obtain b w1 where "next_fault w = (b, w1)" by force
  with assms show ?thesis
    by (auto simp: saveChanges_def intro: run_ops_keeps_indexes split: if_splits sum.splits)
qed

text \<open>A unit of work runs all its statements or none.\<close>

lemma saveChanges_docs:
  assumes "saveChanges ops w = (r, w')"
  shows "w_docs w' = w_docs w \<or> run_ops ops (w_docs w) = Inr (w_docs w')"
proof -
  obtain b w1 where f: "next_fault w = (b, w1)" by force
  have w1: "w_docs w1 = w_docs w" using f by (rule next_fault_docs)
  show ?thesis
  proof (cases "run_ops ops (w_docs w)")
    case (Inl e)
    then have "run_ops ops (w_docs w1) = Inl e" by (simp add: w1)
    then show ?thesis using assms w1 by (cases b; cases "ops = []") (auto simp: saveChanges_def f)
  next
    case (Inr docs)
    then have "run_ops ops (w_docs w1) = Inr docs" by (simp add: w1)
    then show ?thesis using assms w1 Inr by (cases b; cases "ops = []") (auto simp: saveChanges_def f)
  qed
qed

lemma unique_indexes_distinct: "unique_indexes docs \<Longrightarrow> distinct (map ae_id docs)"
proof (induction docs)
  case (Cons r docs)
  then show ?case by (force simp: unique_indexes_def conflict_def split: if_splits)
qed simp

lemma unique_rows:
  assumes "unique_indexes docs" "a \<in> set docs" "b \<in> set docs" "a \<noteq> b"
  shows "conflict a b = None"
proof -
  obtain i j where ij: "i < length docs" "docs ! i = a" "j < length docs" "docs ! j = b"
    using assms(2,3) by (auto simp: in_set_conv_nth)
  then consider "i < j" | "j < i" using assms(4) by (metis nat_neq_iff)
  then show ?thesis
  proof cases
    case 1
    then show ?thesis using sorted_wrt_nth_less [OF assms(1) [unfolded unique_indexes_def] 1 ij(3)] ij by simp
  next
    case 2
    then have "conflict b a = None" using sorted_wrt_nth_less [OF assms(1) [unfolded unique_indexes_def] 2 ij(1)] ij by simp
    then show ?thesis by (rule conflict_sym)
  qed
qed

end
