(* ===== verification/Rfce_Builder.thy ===== *)
theory Rfce_Builder
  imports Canonical_Builder Document_Store
begin

text \<open>
  \<open>buildRfceXml\<close> (CanonicalXmlBuilder.cpp): the summary (RFCE) of a consumer invoice below
  RD$ 250,000 that is sent instead of the invoice itself.  It is built from the stored
  document and, where the caller has it, the canonical document it came from.  The source
  writes the last line without a newline and then trims trailing white space; the model
  trims the rendered lines.
\<close>

subsection \<open>Identification\<close>

definition rfce_tipo_ingreso :: "CanonicalDocumentDto option \<Rightarrow> string" where
  "rfce_tipo_ingreso dto = (case dto of
       None \<Rightarrow> ''01''
     | Some d \<Rightarrow> if has_text (hdr_tipoIngresos (dto_header d))
         then pad_tipo_ingresos (value_or (hdr_tipoIngresos (dto_header d)) []) else ''01'')"

definition rfce_tipo_pago :: "CanonicalDocumentDto option \<Rightarrow> int" where
  "rfce_tipo_pago dto = (case dto of
       None \<Rightarrow> 1
     | Some d \<Rightarrow> (case hdr_tipoPago (dto_header d) of
         None \<Rightarrow> 1 | Some p \<Rightarrow> if 1 \<le> p \<and> p \<le> 3 then p else 1))"

definition rfce_id_lines :: "EcfDocument \<Rightarrow> CanonicalDocumentDto option \<Rightarrow> xline list" where
  "rfce_id_lines doc dto = element 4 ''IdDoc''
     (leaf6 ''TipoeCF'' ''32''
      @ leaf6 ''eNCF'' (d_eNcf doc)
      @ leaf6 ''TipoIngresos'' (rfce_tipo_ingreso dto)
      @ leaf6 ''TipoPago'' (dec_int (rfce_tipo_pago dto)))"

definition rfce_emisor_lines ::
    "int \<Rightarrow> EcfDocument \<Rightarrow> CanonicalDocumentDto option \<Rightarrow> string \<Rightarrow> xline list" where
  "rfce_emisor_lines now doc dto emisorRazonSocial =
     (let rawFechaEmision = (case dto of
            None \<Rightarrow> []
          | Some d \<Rightarrow> if hdr_fechaEmision (dto_header d) \<noteq> [] then hdr_fechaEmision (dto_header d) else [])
      in element 4 ''Emisor''
           (leaf6 ''RNCEmisor'' (d_rncEmisor doc)
            @ leaf6 ''RazonSocialEmisor'' (escapeXml (truncateUtf8 emisorRazonSocial 150))
            @ leaf6 ''FechaEmision'' (normalizeFechaDgii now rawFechaEmision)))"

definition rfce_comprador_lines :: "EcfDocument \<Rightarrow> CanonicalDocumentDto option \<Rightarrow> xline list" where
  "rfce_comprador_lines doc dto =
     (let cleanRnc = cleanDigits (value_or (d_rncComprador doc) []);
          compradorName = (case dto of
            None \<Rightarrow> ''CONSUMIDOR FINAL''
          | Some d \<Rightarrow> if hdr_razonSocialComprador (dto_header d) \<noteq> []
              then hdr_razonSocialComprador (dto_header d) else ''CONSUMIDOR FINAL'')
      in element 4 ''Comprador''
           ((if has_text (d_rncComprador doc) \<and> (length cleanRnc = 9 \<or> length cleanRnc = 11)
             then leaf6 ''RNCComprador'' cleanRnc else [])
            @ leaf6 ''RazonSocialComprador'' (escapeXml (truncateUtf8 compradorName 150))))"

subsection \<open>Totals\<close>

record rfce_amounts =
  ra_base :: slots
  ra_tax :: slots
  ra_gravado :: dbl
  ra_exento :: dbl

definition rfce_add_bucket :: "rfce_amounts \<Rightarrow> CanonicalTaxBucketDto \<Rightarrow> rfce_amounts" where
  "rfce_add_bucket a b = (case DgiiItbisSlots (bkt_rate b) of
       None \<Rightarrow> a
     | Some k \<Rightarrow> a
         \<lparr> ra_base := (ra_base a)(k \<mapsto> dadd (value_or (ra_base a k) dzero) (bkt_base b)),
           ra_tax := (ra_tax a)(k \<mapsto> dadd (value_or (ra_tax a k) dzero) (bkt_tax b)) \<rparr>)"

definition rfce_amounts_of :: "EcfDocument \<Rightarrow> CanonicalDocumentDto \<Rightarrow> rfce_amounts" where
  "rfce_amounts_of doc dto =
     (let t = dto_totals dto;
          a = \<lparr> ra_base = no_slots, ra_tax = no_slots,
                ra_gravado = value_or (tot_montoGravadoTotal t) dzero,
                ra_exento = value_or (tot_montoExento t) dzero \<rparr>
      in if tot_taxBuckets t \<noteq> [] then
           let b = foldl rfce_add_bucket a (tot_taxBuckets t) in
           (if deq (ra_gravado b) dzero then b \<lparr> ra_gravado := slot_sum3 (ra_base b) \<rparr> else b)
         else if dlt dzero (d_itbisAmount doc) then
           let base = dmax dzero (dsub (d_totalAmount doc) (d_itbisAmount doc)) in
           a \<lparr> ra_base := (ra_base a)(1 \<mapsto> base), ra_tax := (ra_tax a)(1 \<mapsto> d_itbisAmount doc),
               ra_gravado := base \<rparr>
         else a \<lparr> ra_exento := d_totalAmount doc \<rparr>)"

definition positive_slots :: "slots \<Rightarrow> slots" where
  "positive_slots s k = (case s k of None \<Rightarrow> None | Some v \<Rightarrow> if dlt dzero v then Some v else None)"

definition rfce_detailed_totals :: "EcfDocument \<Rightarrow> CanonicalDocumentDto \<Rightarrow> xline list" where
  "rfce_detailed_totals doc dto =
     (let a = rfce_amounts_of doc dto; itbisTotal = tot_montoItbis (dto_totals dto);
          taxSum = slot_sum3 (ra_tax a)
      in (if dlt dzero (ra_gravado a) then money6 ''MontoGravadoTotal'' (ra_gravado a) else [])
         @ for_slots (positive_slots (ra_base a)) (\<lambda>k. money6 (''MontoGravadoI'' @ slot_str k))
         @ (if dlt dzero (ra_exento a) then money6 ''MontoExento'' (ra_exento a) else [])
         @ (if dlt dzero itbisTotal \<or> dlt dzero taxSum
            then money6 ''TotalITBIS'' (if dlt dzero itbisTotal then itbisTotal else taxSum)
                 @ for_slots (positive_slots (ra_tax a)) (\<lambda>k. money6 (''TotalITBIS'' @ slot_str k))
            else []))"

definition rfce_plain_totals :: "EcfDocument \<Rightarrow> xline list" where
  "rfce_plain_totals doc =
     (if dlt dzero (d_itbisAmount doc) then
        let gravado = dmax dzero (dsub (d_totalAmount doc) (d_itbisAmount doc)) in
        money6 ''MontoGravadoTotal'' gravado
        @ money6 ''MontoGravadoI1'' gravado
        @ money6 ''TotalITBIS'' (d_itbisAmount doc)
        @ money6 ''TotalITBIS1'' (d_itbisAmount doc)
      else money6 ''MontoExento'' (d_totalAmount doc))"

definition rfce_uses_dto_totals :: "CanonicalDocumentDto \<Rightarrow> bool" where
  "rfce_uses_dto_totals d \<longleftrightarrow> \<not> res_isForeign (resolveCanonicalCurrency (dto_currency d))
     \<and> (tot_taxBuckets (dto_totals d) \<noteq> [] \<or> tot_montoGravadoTotal (dto_totals d) \<noteq> None
        \<or> tot_montoExento (dto_totals d) \<noteq> None)"

definition rfce_totals_lines :: "EcfDocument \<Rightarrow> CanonicalDocumentDto option \<Rightarrow> xline list" where
  "rfce_totals_lines doc dto = element 4 ''Totales''
     ((case dto of
         None \<Rightarrow> rfce_plain_totals doc
       | Some d \<Rightarrow> if rfce_uses_dto_totals d then rfce_detailed_totals doc d else rfce_plain_totals doc)
      @ money6 ''MontoTotal'' (d_totalAmount doc))"

subsection \<open>The summary\<close>

definition rfce_lines ::
    "int \<Rightarrow> EcfDocument \<Rightarrow> CanonicalDocumentDto option \<Rightarrow> string \<Rightarrow> xline list" where
  "rfce_lines now doc dto emisorRazonSocial =
     XDecl # element 0 ''RFCE''
       (element 2 ''Encabezado''
         ([XLeaf 4 ''Version'' ''1.0'']
          @ rfce_id_lines doc dto
          @ rfce_emisor_lines now doc dto emisorRazonSocial
          @ rfce_comprador_lines doc dto
          @ rfce_totals_lines doc dto
          @ [XLeaf 4 ''CodigoSeguridadeCF'' (value_or (d_securityCode doc) [])]))"

definition buildRfceXml :: "int \<Rightarrow> EcfDocument \<Rightarrow> CanonicalDocumentDto option \<Rightarrow> string \<Rightarrow> string" where
  "buildRfceXml now doc dto emisorRazonSocial = rtrim (render (rfce_lines now doc dto emisorRazonSocial))"

subsection \<open>Lemmas\<close>

lemma neutral_rfce_sections [xml_nest]:
  "neutral 2 (rfce_id_lines doc dto)" "neutral 2 (rfce_emisor_lines now doc dto rs)"
  "neutral 2 (rfce_comprador_lines doc dto)"
  unfolding rfce_id_lines_def rfce_emisor_lines_def rfce_comprador_lines_def Let_def
  by (intro neutral_at xml_nest; simp)+

lemma neutral_rfce_amounts [xml_nest]: "neutral 3 (rfce_detailed_totals doc d)" "neutral 3 (rfce_plain_totals doc)"
  unfolding rfce_detailed_totals_def rfce_plain_totals_def Let_def
  by (intro xml_nest)+

lemma neutral_rfce_totals [xml_nest]: "neutral 2 (rfce_totals_lines doc dto)"
  unfolding rfce_totals_lines_def by (intro neutral_at xml_nest)

lemma leaf_value_element [simp]: "leaf_value t (element d u ls) = leaf_value t ls"
  by (simp add: element_def leaf_value_append split: option.splits)

lemma rfce_amounts_lack:
  "t \<in> {''MontoTotal'', ''CodigoSeguridadeCF''} \<Longrightarrow> leaf_value t (rfce_detailed_totals doc d) = None"
  "t \<in> {''MontoTotal'', ''CodigoSeguridadeCF''} \<Longrightarrow> leaf_value t (rfce_plain_totals doc) = None"
  unfolding rfce_detailed_totals_def rfce_plain_totals_def Let_def lacks_def [symmetric]
  by (intro lacks_tag; auto)+

subsection \<open>Properties\<close>

text \<open>The summary sent for a small consumer invoice is a well nested document.\<close>

theorem rfce_well_nested: "well_nested (rfce_lines now doc dto emisorRazonSocial)"
  unfolding rfce_lines_def
  by (intro neutral_well_nested neutral_at xml_nest; simp)

text \<open>Whatever the canonical document says, the summary reports the number, the total and
  the security code of the stored document.\<close>

theorem rfce_reports_stored_document:
  "leaf_value ''eNCF'' (rfce_lines now doc dto rs) = Some (d_eNcf doc)
   \<and> leaf_value ''MontoTotal'' (rfce_lines now doc dto rs) = Some (formatMoney2 (d_totalAmount doc))
   \<and> leaf_value ''CodigoSeguridadeCF'' (rfce_lines now doc dto rs) = Some (value_or (d_securityCode doc) [])"
  by (auto simp: rfce_lines_def rfce_id_lines_def rfce_emisor_lines_def rfce_comprador_lines_def
      rfce_totals_lines_def Let_def leaf_value_append rfce_amounts_lack money6_def split: option.splits)

end
