(* ===== verification/Documents_Transmit.thy ===== *)
theory Documents_Transmit
  imports Rfce_Builder
begin

text \<open>
  The first half of DocumentsController.cpp: choosing the certificate and the client, putting
  the canonical content into a document, and \<open>signAndSend\<close>, which signs, validates, stores
  and transmits it.  What is not this program is an argument: \<open>xml_signer\<close> is a loaded
  certificate (IEcfXmlSigner), \<open>dgii_client\<close> the answers of the DGII's services
  (IEcfClient), \<open>services\<close> the rest of AppServices.  A call that throws answers \<open>Inl\<close>.  The
  clock is read once per request (\<open>now\<close>), and the audit user of the request is \<open>usr\<close>.
\<close>

named_theorems transmit_cases \<open>how one step of the transmission may end\<close>

subsection \<open>The DGII's answers\<close>

record MensajeCodigo =
  msg_codigo :: string
  msg_valor :: string

record EcfRecepcionResponse =
  rec_trackId :: string
  rec_error :: "string option"
  rec_mensaje :: "string option"

record RfceRecepcionResponse =
  rfr_codigo :: int
  rfr_estado :: string
  rfr_mensajes :: "MensajeCodigo list"
  rfr_eNcf :: string
  rfr_secuenciaUtilizada :: bool

record ConsultaResultadoResponse =
  crr_trackId :: string
  crr_codigo :: int
  crr_estado :: string
  crr_rnc :: string
  crr_eNcf :: string
  crr_secuenciaUtilizada :: bool
  crr_fechaRecepcion :: string
  crr_mensajes :: "MensajeCodigo list"

record ConsultaEstadoResponse =
  cer_codigo :: int
  cer_estado :: string
  cer_rncEmisor :: string
  cer_ncfElectronico :: string
  cer_montoTotal :: dbl
  cer_totalITBIS :: dbl
  cer_fechaEmision :: string
  cer_fechaFirma :: string
  cer_rncComprador :: string
  cer_codigoSeguridad :: string
  cer_idExtranjero :: string

record TrackIdDetalle =
  tid_trackId :: string
  tid_estado :: string
  tid_fechaRecepcion :: string

record dgii_client =
  cl_sendEcf :: "string \<Rightarrow> string \<Rightarrow> exn + EcfRecepcionResponse"
  cl_sendRfce :: "string \<Rightarrow> string \<Rightarrow> exn + RfceRecepcionResponse"
  cl_consultarResultado :: "string \<Rightarrow> exn + ConsultaResultadoResponse"
  cl_consultarEstado :: "string \<Rightarrow> string \<Rightarrow> string option \<Rightarrow> string option \<Rightarrow> exn + ConsultaEstadoResponse"
  cl_consultarTrackIds :: "string \<Rightarrow> string \<Rightarrow> exn + TrackIdDetalle list"

text \<open>\<open>sg_id\<close> is the identity of the object a \<open>shared_ptr\<close> points to.\<close>

record xml_signer =
  sg_id :: nat
  sg_signXml :: "string \<Rightarrow> string \<Rightarrow> exn + string"
  sg_usesFallbackCertificate :: bool
  sg_validateCertificateSn :: "string \<Rightarrow> bool"

datatype AmbienteEnum = PreCertificacion | Certificacion | Produccion

datatype EcfEnvironment = EnvTest | EnvCert | EnvProd

definition toAmbiente :: "EcfEnvironment \<Rightarrow> AmbienteEnum" where
  "toAmbiente env = (case env of EnvTest \<Rightarrow> PreCertificacion | EnvCert \<Rightarrow> Certificacion | EnvProd \<Rightarrow> Produccion)"

definition ambienteToString :: "AmbienteEnum \<Rightarrow> string" where
  "ambienteToString amb = (case amb of
       PreCertificacion \<Rightarrow> ''PreCertificacion''
     | Produccion \<Rightarrow> ''Produccion''
     | Certificacion \<Rightarrow> ''Certificacion'')"

text \<open>
  \<open>sv_certFile path password\<close> is \<open>None\<close> when the file cannot be opened; \<open>sv_makeClient\<close>
  builds a client for an issuer, an environment and a signer.
\<close>

record services =
  sv_signer :: xml_signer
  sv_ecfClient :: dgii_client
  sv_makeClient :: "string \<Rightarrow> EcfEnvironment \<Rightarrow> xml_signer \<Rightarrow> dgii_client"
  sv_base64Decode :: "string \<Rightarrow> string"
  sv_loadCertificate :: "string \<Rightarrow> string \<Rightarrow> exn + xml_signer"
  sv_tenantSigner :: "(string \<Rightarrow> string \<Rightarrow> exn + xml_signer option) option"
  sv_certFile :: "string \<Rightarrow> string \<Rightarrow> (exn + xml_signer) option"
  sv_certPassword :: "string option"
  sv_extractSignatureValue :: "string \<Rightarrow> exn + string"
  sv_schemaErrors :: "string \<Rightarrow> string list option"
  sv_validateSchemasLocal :: bool
  sv_environment :: EcfEnvironment
  sv_optionsRnc :: "string option"
  sv_emisorRnc :: string
  sv_emisorRazonSocial :: string
  sv_mktime :: "int \<Rightarrow> int \<Rightarrow> int \<Rightarrow> int"

subsection \<open>Certificates and clients\<close>

definition safeTenantRgx :: "string \<Rightarrow> bool" where
  "safeTenantRgx s \<longleftrightarrow> 1 \<le> length s \<and> length s \<le> 100
     \<and> list_all (\<lambda>c. isalnum c \<or> c = CHR ''_'' \<or> c = CHR ''-'') s"

definition safeRncRgx :: "string \<Rightarrow> bool" where
  "safeRncRgx s \<longleftrightarrow> 9 \<le> length s \<and> length s \<le> 11 \<and> all_digits s"

text \<open>The certificate that came with the request.\<close>

definition request_signer ::
    "services \<Rightarrow> string \<Rightarrow> CanonicalCertificateDto option \<Rightarrow> xml_signer option" where
  "request_signer sv rncEmisor certDto = (case certDto of
       None \<Rightarrow> None
     | Some c \<Rightarrow>
         if has_text (crt_certificateBase64 c)
            \<and> length (value_or (crt_certificateBase64 c) []) \<le> 3 * 1024 * 1024
         then let rawBytes = sv_base64Decode sv (value_or (crt_certificateBase64 c) []) in
           (if length rawBytes \<le> 2 * 1024 * 1024 then
              (case sv_loadCertificate sv rawBytes (value_or (crt_password c) []) of
                 Inl e \<Rightarrow> None
               | Inr s \<Rightarrow> if rncEmisor = [] \<or> sg_validateCertificateSn s rncEmisor then Some s else None)
            else None)
         else None)"

text \<open>The certificate of the tenants table; the default signer does not count.\<close>

definition tenant_signer :: "services \<Rightarrow> string \<Rightarrow> string \<Rightarrow> xml_signer option" where
  "tenant_signer sv tenantId rncEmisor = (case sv_tenantSigner sv of
       None \<Rightarrow> None
     | Some resolve \<Rightarrow>
         if rncEmisor = [] then None
         else (case resolve rncEmisor tenantId of
             Inl e \<Rightarrow> None
           | Inr None \<Rightarrow> None
           | Inr (Some s) \<Rightarrow> if sg_id s = sg_id (sv_signer sv) then None else Some s))"

definition file_signer ::
    "services \<Rightarrow> CanonicalCertificateDto option \<Rightarrow> string \<Rightarrow> xml_signer option" where
  "file_signer sv certDto name =
     (let pwd = (case certDto of
            Some c \<Rightarrow> value_or (crt_password c) (value_or (sv_certPassword sv) [])
          | None \<Rightarrow> value_or (sv_certPassword sv) [])
      in case sv_certFile sv (''/app/certificates/'' @ name @ ''.pfx'') pwd of
           Some (Inr s) \<Rightarrow> Some s | _ \<Rightarrow> None)"

definition resolveSigner ::
    "services \<Rightarrow> string \<Rightarrow> string \<Rightarrow> CanonicalCertificateDto option \<Rightarrow> bool \<Rightarrow> xml_signer" where
  "resolveSigner sv tenantId rncEmisor certDto isDefaultFallback =
     (if isDefaultFallback then sv_signer sv
      else case request_signer sv rncEmisor certDto of Some s \<Rightarrow> s | None \<Rightarrow>
        (case tenant_signer sv tenantId rncEmisor of Some s \<Rightarrow> s | None \<Rightarrow>
          (case (if safeTenantRgx tenantId then file_signer sv certDto tenantId else None) of Some s \<Rightarrow> s | None \<Rightarrow>
            (case (if safeRncRgx rncEmisor then file_signer sv certDto rncEmisor else None) of Some s \<Rightarrow> s | None \<Rightarrow>
              sv_signer sv))))"

definition environment_of :: "AmbienteEnum \<Rightarrow> EcfEnvironment" where
  "environment_of amb = (case amb of PreCertificacion \<Rightarrow> EnvTest | Certificacion \<Rightarrow> EnvCert | Produccion \<Rightarrow> EnvProd)"

definition resolveEcfClient ::
    "services \<Rightarrow> string \<Rightarrow> xml_signer \<Rightarrow> AmbienteEnum \<Rightarrow> bool \<Rightarrow> dgii_client" where
  "resolveEcfClient sv rncEmisor signer ambiente isDefaultFallback =
     (if isDefaultFallback \<or> (sg_id signer = sg_id (sv_signer sv) \<and> rncEmisor = sv_emisorRnc sv
          \<and> ambiente = toAmbiente (sv_environment sv))
      then sv_ecfClient sv
      else sv_makeClient sv rncEmisor (environment_of ambiente) signer)"

subsection \<open>\<open>applyCanonicalContent\<close>\<close>

definition applyCanonicalContent ::
    "services \<Rightarrow> int \<Rightarrow> CanonicalDocumentDto \<Rightarrow> string \<Rightarrow> string \<Rightarrow> string \<Rightarrow> EcfDocument \<Rightarrow> EcfDocument" where
  "applyCanonicalContent sv now dto editSequence emisorRnc emisorRazonSocial doc =
     (case buildXmlFromCanonical (sv_mktime sv) now dto (d_eNcf doc) emisorRnc emisorRazonSocial of
        (xml, totalDop, itbisDop) \<Rightarrow> doc
          \<lparr> d_editSequence := editSequence,
            d_documentKind := (if dto_documentKind dto = [] then ''Invoice'' else dto_documentKind dto),
            d_ncf := (case dto_ncf dto of None \<Rightarrow> d_ncf doc | Some n \<Rightarrow> Some n),
            d_rncEmisor := emisorRnc,
            d_rncComprador := Some (hdr_rncComprador (dto_header dto)),
            d_xmlContent := xml,
            d_totalAmount := totalDop,
            d_itbisAmount := itbisDop,
            d_state := ''SequenceAllocated'' \<rparr>)"

subsection \<open>Replies\<close>

datatype jval = JStr string | JNum dbl | JNull | JStrs "string list" | JBool bool

record reply =
  rp_status :: int
  rp_json :: "(string \<times> jval) list"

definition opt_json :: "string option \<Rightarrow> jval" where
  "opt_json x = (case x of None \<Rightarrow> JNull | Some s \<Rightarrow> JStr s)"

definition err_reply :: "string \<Rightarrow> int \<Rightarrow> reply" where
  "err_reply message status = \<lparr> rp_status = status, rp_json = [(''error'', JStr message)] \<rparr>"

text \<open>The accented letters of the messages, as UTF-8 bytes, and an apostrophe.\<close>

definition u_a :: string where "u_a = [CHR 0xC3, CHR 0xA1]"
definition u_e :: string where "u_e = [CHR 0xC3, CHR 0xA9]"
definition u_i :: string where "u_i = [CHR 0xC3, CHR 0xAD]"
definition u_o :: string where "u_o = [CHR 0xC3, CHR 0xB3]"
definition apo :: string where "apo = [CHR 0x27]"

text \<open>\<open>ex.what()\<close>\<close>

fun seq_what :: "seq_error \<Rightarrow> string" where
  "seq_what (NoAuthorizedRange tipo tenant) =
     ''No existe un rango de secuencias eNCF activo y autorizado para el tipo '' @ apo @ tipo @ apo
     @ '' en el '' @ u_a @ ''mbito '' @ apo @ tenant @ apo
     @ ''. Debe registrar el rango otorgado por la DGII antes de emitir.''"
| "seq_what ScopeAlreadyRegistered = ''ERROR:  duplicate key value violates unique constraint''"
| "seq_what (NoExpiryDate tipo) = ''La secuencia eNCF para el tipo '' @ apo @ tipo @ apo
     @ '' no tiene fecha de vencimiento configurada.''"
| "seq_what (RangeExpired tipo fecha) = ''El rango autorizado eNCF para el tipo '' @ apo @ tipo @ apo
     @ '' ha expirado el '' @ fecha @ ''.''"
| "seq_what (RangeExhausted tipo) = ''Rango de secuencia eNCF agotado para el tipo '' @ apo @ tipo @ apo @ ''.''"

fun exn_what :: "exn \<Rightarrow> string" where
  "exn_what (SequenceExn s) = seq_what s"
| "exn_what (UniqueViolation c) =
     ''ERROR:  duplicate key value violates unique constraint '' @ [CHR 0x22] @ c @ [CHR 0x22]"
| "exn_what ConnectionLost = ''Lost connection to the database server.''"
| "exn_what (OtherExn s) = s"

text \<open>The body of \<open>signAndSend\<close>, and the shorter one of \<open>reconcileUncertain\<close>.\<close>

definition status_fields :: "EcfDocument \<Rightarrow> (string \<times> jval) list" where
  "status_fields doc =
     [(''documentId'', JStr (ae_id doc)), (''eNcf'', JStr (d_eNcf doc)), (''state'', JStr (d_state doc)),
      (''trackId'', opt_json (d_trackId doc)), (''securityCode'', opt_json (d_securityCode doc)),
      (''signedXml'', opt_json (d_signedXmlContent doc)), (''dgiiResponse'', opt_json (d_dgiiResponseXml doc))]"

definition sent_fields :: "EcfDocument \<Rightarrow> (string \<times> jval) list" where
  "sent_fields doc = status_fields doc
     @ [(''totalAmount'', JNum (d_totalAmount doc)), (''itbisAmount'', JNum (d_itbisAmount doc)),
        (''dgiiResponseXml'', opt_json (d_dgiiResponseXml doc))]"

definition status_of_state :: "string \<Rightarrow> int" where
  "status_of_state st =
     (if st = ''AcceptedByDgii'' then 200
      else if st = ''Signed'' then 202
      else if st = ''RejectedByDgii'' then 422
      else if st = ''AwaitingTransmission'' then 409
      else if st = ''Uncertain'' then 503
      else 202)"

definition sent_reply :: "EcfDocument \<Rightarrow> reply" where
  "sent_reply doc = \<lparr> rp_status = status_of_state (d_state doc), rp_json = sent_fields doc
     @ (if d_state doc = ''RejectedByDgii''
        then [(''error'', JStr (value_or (d_dgiiResponseXml doc) ''Rechazado por DGII''))]
        else if d_state doc = ''Uncertain''
        then [(''error'', JStr (value_or (d_dgiiResponseXml doc) (''Transmisi'' @ u_o @ ''n incierta a DGII.'')))]
        else []) \<rparr>"

subsection \<open>\<open>signAndSend\<close>\<close>

definition calcularCodigoSeguridad :: "services \<Rightarrow> string \<Rightarrow> exn + string" where
  "calcularCodigoSeguridad sv signedXml = (case sv_extractSignatureValue sv signedXml of
       Inl e \<Rightarrow> Inl e
     | Inr v \<Rightarrow> if v = [] \<or> length v < 6
         then Inl (OtherExn (''El SignatureValue es inv'' @ u_a @ ''lido o tiene menos de 6 caracteres.''))
         else Inr (take 6 v))"

definition sign_document ::
    "services \<Rightarrow> xml_signer \<Rightarrow> EcfDocument \<Rightarrow> exn + string \<times> EcfDocument" where
  "sign_document sv signer doc = (case sg_signXml signer (d_xmlContent doc) (d_rncEmisor doc) of
       Inl e \<Rightarrow> Inl e
     | Inr signedXml \<Rightarrow> (case calcularCodigoSeguridad sv signedXml of
         Inl e \<Rightarrow> Inl e
       | Inr secCode \<Rightarrow> Inr (signedXml, doc \<lparr> d_signedXmlContent := Some signedXml,
           d_securityCode := Some secCode, d_state := ''AwaitingTransmission'' \<rparr>)))"

text \<open>\<open>"[codigo] valor; [codigo] valor"\<close>\<close>

fun mensajes_text :: "MensajeCodigo list \<Rightarrow> string" where
  "mensajes_text [] = []"
| "mensajes_text [m] = ''['' @ msg_codigo m @ ''] '' @ msg_valor m"
| "mensajes_text (m # ms) = ''['' @ msg_codigo m @ ''] '' @ msg_valor m @ ''; '' @ mensajes_text ms"

definition accepted_estado :: "string \<Rightarrow> bool" where
  "accepted_estado estado \<longleftrightarrow> lower estado = ''aceptado'' \<or> lower estado = ''aceptado condicional''"

definition is_rfce :: "EcfDocument \<Rightarrow> bool" where
  "is_rfce doc \<longleftrightarrow> (starts_with ''E32'' (d_eNcf doc) \<or> starts_with ''e32'' (d_eNcf doc))
     \<and> dlt (d_totalAmount doc) (dint 250000)"

definition file_name :: "EcfDocument \<Rightarrow> string" where
  "file_name doc = d_rncEmisor doc @ d_eNcf doc @ ''.xml''"

definition rfce_razon ::
    "services \<Rightarrow> CanonicalDocumentDto option \<Rightarrow> bool \<Rightarrow> string \<Rightarrow> string" where
  "rfce_razon sv dto isDefaultFallback emisorRazonSocial =
     (let d0 = (if emisorRazonSocial \<noteq> [] then emisorRazonSocial else sv_emisorRazonSocial sv);
          defaultRazon = (if d0 = [] then ''EMPRESA EMISORA'' else d0)
      in case dto of
           None \<Rightarrow> defaultRazon
         | Some d \<Rightarrow> if \<not> isDefaultFallback \<and> hdr_razonSocialEmisor (dto_header d) \<noteq> []
             then hdr_razonSocialEmisor (dto_header d) else defaultRazon)"

definition rfce_outcome :: "int \<Rightarrow> RfceRecepcionResponse \<Rightarrow> EcfDocument \<Rightarrow> EcfDocument" where
  "rfce_outcome now resp doc =
     (if rfr_codigo resp = 1 \<or> accepted_estado (trim (rfr_estado resp)) then
        doc \<lparr> d_trackId := d_securityCode doc, d_state := ''AcceptedByDgii'',
          d_sentToDgiiAt := Some (toIsoUtc now),
          d_dgiiResponseXml := Some (''Aceptado por DGII (RecepcionFC): ''
            @ (if rfr_estado resp = [] then ''Aceptado'' else rfr_estado resp)) \<rparr>
      else doc \<lparr> d_state := ''RejectedByDgii'',
          d_dgiiResponseXml := Some
            (if rfr_mensajes resp \<noteq> [] then mensajes_text (rfr_mensajes resp)
             else if rfr_estado resp \<noteq> [] then rfr_estado resp else ''Rechazado por RecepcionFC'') \<rparr>)"

definition transmit_rfce ::
    "services \<Rightarrow> int \<Rightarrow> xml_signer \<Rightarrow> dgii_client \<Rightarrow> CanonicalDocumentDto option \<Rightarrow> bool \<Rightarrow> string
     \<Rightarrow> EcfDocument \<Rightarrow> (exn + EcfDocument) \<times> event list" where
  "transmit_rfce sv now signer client dto isDefaultFallback emisorRazonSocial doc =
     (case sg_signXml signer (buildRfceXml now doc dto (rfce_razon sv dto isDefaultFallback emisorRazonSocial))
         (d_rncEmisor doc) of
        Inl e \<Rightarrow> (Inl e, [])
      | Inr signedRfce \<Rightarrow>
          (case cl_sendRfce client signedRfce (file_name doc) of
             Inl e \<Rightarrow> (Inl e, [SentRfce signedRfce (file_name doc)])
           | Inr resp \<Rightarrow> (Inr (rfce_outcome now resp doc), [SentRfce signedRfce (file_name doc)])))"

text \<open>What \<open>consultarResultado\<close> says of a document, here and in \<open>getBySourceTxnId\<close>.\<close>

definition apply_resultado :: "ConsultaResultadoResponse \<Rightarrow> EcfDocument \<Rightarrow> EcfDocument" where
  "apply_resultado resultado doc =
     (let estado = trim (crr_estado resultado) in
      if crr_estado resultado = [] then doc
      else if accepted_estado estado then
        doc \<lparr> d_state := ''AcceptedByDgii'', d_dgiiResponseXml := Some (''Aceptado por DGII: '' @ estado) \<rparr>
      else if lower estado = ''rechazado'' then
        doc \<lparr> d_state := ''RejectedByDgii'', d_dgiiResponseXml := Some
          (if crr_mensajes resultado \<noteq> [] then mensajes_text (crr_mensajes resultado)
           else ''Rechazado por DGII'') \<rparr>
      else doc)"

definition transmit_ecf ::
    "int \<Rightarrow> dgii_client \<Rightarrow> EcfDocument \<Rightarrow> (exn + EcfDocument) \<times> event list" where
  "transmit_ecf now client doc = (case d_signedXmlContent doc of
       None \<Rightarrow> (Inl (OtherExn ''bad optional access''), [])
     | Some signedXml \<Rightarrow>
         (case cl_sendEcf client signedXml (file_name doc) of
            Inl e \<Rightarrow> (Inl e, [SentEcf signedXml (file_name doc)])
          | Inr response \<Rightarrow>
              if rec_trackId response \<noteq> [] then
                let d1 = doc \<lparr> d_trackId := Some (rec_trackId response), d_state := ''Signed'',
                      d_sentToDgiiAt := Some (toIsoUtc now) \<rparr>
                in (Inr (case cl_consultarResultado client (rec_trackId response) of
                          Inl e \<Rightarrow> d1 | Inr resultado \<Rightarrow> apply_resultado resultado d1),
                    [SentEcf signedXml (file_name doc), AskedResultado (rec_trackId response)])
              else
                let err = value_or (rec_error response) (value_or (rec_mensaje response) []) in
                (Inr (if err \<noteq> []
                      then doc \<lparr> d_state := ''RejectedByDgii'', d_dgiiResponseXml := Some err \<rparr>
                      else doc \<lparr> d_state := ''Uncertain'', d_dgiiResponseXml := Some (''Transmisi'' @ u_o
                        @ ''n incierta: DGII no devolvi'' @ u_o @ '' trackId ni mensaje de rechazo.'') \<rparr>),
                 [SentEcf signedXml (file_name doc)])))"

definition transmit ::
    "services \<Rightarrow> int \<Rightarrow> xml_signer \<Rightarrow> dgii_client \<Rightarrow> CanonicalDocumentDto option \<Rightarrow> bool \<Rightarrow> string
     \<Rightarrow> EcfDocument \<Rightarrow> EcfDocument \<times> event list" where
  "transmit sv now signer client dto isDefaultFallback emisorRazonSocial doc =
     (case (if is_rfce doc
            then transmit_rfce sv now signer client dto isDefaultFallback emisorRazonSocial doc
            else transmit_ecf now client doc) of
        (Inl e, evs) \<Rightarrow> (doc \<lparr> d_state := ''Uncertain'' \<rparr>, evs)
      | (Inr d, evs) \<Rightarrow> (d, evs))"

text \<open>The last save: a failure is retried once in a new scope without a user, then ignored.\<close>

definition save_outcome :: "int \<Rightarrow> string \<Rightarrow> EcfDocument \<Rightarrow> world \<Rightarrow> world" where
  "save_outcome now usr doc w = (case save_one now usr doc w of
       (Inr n, w1) \<Rightarrow> w1
     | (Inl e, w1) \<Rightarrow> snd (save_one now (auditUsername None) doc w1))"

text \<open>The outcome that needs no transmission: the document is saved and the request answered.\<close>

definition save_and_reply ::
    "int \<Rightarrow> string \<Rightarrow> EcfDocument \<Rightarrow> reply \<Rightarrow> world \<Rightarrow> (exn + reply) \<times> world" where
  "save_and_reply now usr doc rep w = (case save_one now usr doc w of
       (Inl e, w1) \<Rightarrow> (Inl e, w1)
     | (Inr n, w1) \<Rightarrow> (Inr rep, w1))"

definition no_certificate :: string where
  "no_certificate = ''Certificado digital de producci'' @ u_o @ ''n no configurado para el tenant. Comprobante no firmado.''"

definition unsigned_reply :: "EcfDocument \<Rightarrow> reply" where
  "unsigned_reply doc = \<lparr> rp_status = 422, rp_json =
     [(''documentId'', JStr (ae_id doc)), (''eNcf'', JStr (d_eNcf doc)), (''state'', JStr (d_state doc)),
      (''trackId'', JNull), (''securityCode'', JNull), (''signedXml'', JNull),
      (''dgiiResponse'', JStr (value_or (d_dgiiResponseXml doc) no_certificate)),
      (''error'', JStr no_certificate)] \<rparr>"

definition schema_reply :: "string list \<Rightarrow> reply" where
  "schema_reply errs = \<lparr> rp_status = 400, rp_json =
     [(''error'', JStr (''El XML firmado no es v'' @ u_a @ ''lido contra el esquema DGII (validaci'' @ u_o
        @ ''n local, antes de enviar a DGII).'')),
      (''details'', JStrs errs)] \<rparr>"

definition signAndSend ::
    "services \<Rightarrow> int \<Rightarrow> string \<Rightarrow> xml_signer \<Rightarrow> dgii_client \<Rightarrow> CanonicalDocumentDto option \<Rightarrow> bool \<Rightarrow> string
     \<Rightarrow> EcfDocument \<Rightarrow> world \<Rightarrow> (exn + reply) \<times> world" where
  "signAndSend sv now usr signer client dto isDefaultFallback emisorRazonSocial doc w =
     (case sign_document sv signer doc of
        Inl e \<Rightarrow> save_and_reply now usr
          (doc \<lparr> d_state := ''SigningFailed'', d_signedXmlContent := Some (d_xmlContent doc) \<rparr>)
          (err_reply (''Error al firmar digitalmente el XML de e-CF: '' @ exn_what e) 500) w
      | Inr (signedXml, d0) \<Rightarrow>
          (case (if sv_validateSchemasLocal sv then sv_schemaErrors sv signedXml else None) of
             Some errs \<Rightarrow> save_and_reply now usr (d0 \<lparr> d_state := ''SchemaInvalid'' \<rparr>) (schema_reply errs) w
           | None \<Rightarrow>
               if sg_usesFallbackCertificate signer then
                 let d1 = d0 \<lparr> d_state := ''Unsigned'', d_signedXmlContent := None, d_securityCode := None \<rparr>
                 in save_and_reply now usr d1 (unsigned_reply d1) w
               else (case save_one now usr d0 w of
                   (Inl e, w1) \<Rightarrow> (Inl e, w1)
                 | (Inr n, w1) \<Rightarrow>
                     (case transmit sv now signer client dto isDefaultFallback emisorRazonSocial d0 of
                        (d1, evs) \<Rightarrow> (Inr (sent_reply d1), save_outcome now usr d1 (log_events evs w1))))))"

subsection \<open>What a request adds to the trace\<close>

fun is_sent :: "event \<Rightarrow> bool" where
  "is_sent (SentEcf x f) = True"
| "is_sent (SentRfce x f) = True"
| "is_sent _ = False"

definition transmissions :: "event list \<Rightarrow> nat" where
  "transmissions evs = length (filter is_sent evs)"

lemma transmissions_simps [simp]:
  "transmissions [] = 0" "transmissions (e # evs) = (if is_sent e then 1 else 0) + transmissions evs"
  "transmissions (evs @ evs') = transmissions evs + transmissions evs'"
  by (simp_all add: transmissions_def)

definition new_events :: "world \<Rightarrow> world \<Rightarrow> event list" where
  "new_events w w' = drop (length (w_trace w)) (w_trace w')"

lemma new_events_append [simp]: "w_trace w' = w_trace w @ evs \<Longrightarrow> new_events w w' = evs"
  by (simp add: new_events_def)

text \<open>
  Every transmission comes after the commit of a document that awaits it, with the same
  signed text (or, for a summary, the same issuer and number).
\<close>

definition covers :: "event \<Rightarrow> EcfDocument \<Rightarrow> bool" where
  "covers e d \<longleftrightarrow> d_state d = ''AwaitingTransmission'' \<and>
     (case e of
        SentEcf x f \<Rightarrow> d_signedXmlContent d = Some x \<and> file_name d = f
      | SentRfce x f \<Rightarrow> file_name d = f
      | _ \<Rightarrow> True)"

fun journalled :: "EcfDocument list \<Rightarrow> event list \<Rightarrow> bool" where
  "journalled js [] \<longleftrightarrow> True"
| "journalled js (e # evs) \<longleftrightarrow> (is_sent e \<longrightarrow> list_ex (covers e) js)
     \<and> journalled (case e of Saved d \<Rightarrow> d # js | _ \<Rightarrow> js) evs"

lemma journalled_mono: "journalled js evs \<Longrightarrow> set js \<subseteq> set js' \<Longrightarrow> journalled js' evs"
proof (induction evs arbitrary: js js')
  case (Cons e evs)
  have "list_ex (covers e) js \<Longrightarrow> list_ex (covers e) js'"
    using Cons.prems(2) by (auto simp: list_ex_iff)
  moreover have "journalled (case e of Saved d \<Rightarrow> d # js' | _ \<Rightarrow> js') evs"
  proof (rule Cons.IH)
    show "journalled (case e of Saved d \<Rightarrow> d # js | _ \<Rightarrow> js) evs" using Cons.prems(1) by simp
    show "set (case e of Saved d \<Rightarrow> d # js | _ \<Rightarrow> js) \<subseteq> set (case e of Saved d \<Rightarrow> d # js' | _ \<Rightarrow> js')"
      using Cons.prems(2) by (cases e) auto
  qed
  ultimately show ?case using Cons.prems(1) by auto
qed simp

lemma journalled_append: "journalled js evs \<Longrightarrow> journalled js evs' \<Longrightarrow> journalled js (evs @ evs')"
proof (induction evs arbitrary: js)
  case (Cons e evs)
  have "journalled (case e of Saved d \<Rightarrow> d # js | _ \<Rightarrow> js) evs'"
    using Cons.prems(2) by (rule journalled_mono) (auto split: event.splits)
  with Cons show ?case by simp
qed simp

subsection \<open>Lemmas on the transmission\<close>

lemma sign_document_Inr:
  assumes "sign_document sv signer doc = Inr (sx, d0)"
  shows "\<exists>code. d0 = doc \<lparr> d_signedXmlContent := Some sx, d_securityCode := Some code, d_state := ''AwaitingTransmission'' \<rparr>"
  using assms by (auto simp: sign_document_def split: sum.splits)

text \<open>The columns that identify a document in the table.\<close>

definition keys :: "EcfDocument \<Rightarrow> string \<times> string \<times> string \<times> string option \<times> string \<times> string" where
  "keys d = (ae_id d, d_tenantId d, d_sourceTxnId d, d_ambiente d, d_rncEmisor d, d_eNcf d)"

lemma keys_simps [simp]:
  "keys (d \<lparr> d_state := s \<rparr>) = keys d" "keys (d \<lparr> d_trackId := t \<rparr>) = keys d"
  "keys (d \<lparr> d_signedXmlContent := x \<rparr>) = keys d" "keys (d \<lparr> d_securityCode := x \<rparr>) = keys d"
  "keys (d \<lparr> d_dgiiResponseXml := x \<rparr>) = keys d" "keys (d \<lparr> d_sentToDgiiAt := x \<rparr>) = keys d"
  "keys (d \<lparr> ae_updatedAt := x \<rparr>) = keys d" "keys (d \<lparr> ae_updatedBy := x \<rparr>) = keys d"
  by (simp_all add: keys_def)

lemma keys_apply_resultado [simp]: "keys (apply_resultado r d) = keys d"
  by (simp add: apply_resultado_def Let_def)

lemma keys_rfce_outcome [simp]: "keys (rfce_outcome now r d) = keys d"
  by (simp add: rfce_outcome_def)

lemma transmit_rfce_keys: "transmit_rfce sv now sg cl dto fb rs doc = (Inr d, evs) \<Longrightarrow> keys d = keys doc"
  by (auto simp: transmit_rfce_def split: sum.splits)

lemma transmit_ecf_keys: "transmit_ecf now cl doc = (Inr d, evs) \<Longrightarrow> keys d = keys doc"
  by (auto simp: transmit_ecf_def Let_def split: option.splits sum.splits if_splits)

lemma transmit_keys: "transmit sv now sg cl dto fb rs doc = (d, evs) \<Longrightarrow> keys d = keys doc"
  using transmit_rfce_keys transmit_ecf_keys
  by (fastforce simp: transmit_def split: prod.splits sum.splits if_splits)

lemma transmit_events:
  assumes "transmit sv now sg cl dto fb rs doc = (d, evs)"
  shows "evs = [] \<or> (\<exists>x. evs = [SentRfce x (file_name doc)])
    \<or> (\<exists>x. d_signedXmlContent doc = Some x \<and>
        (evs = [SentEcf x (file_name doc)] \<or> (\<exists>t. evs = [SentEcf x (file_name doc), AskedResultado t])))"
  using assms
  by (auto simp: transmit_def transmit_rfce_def transmit_ecf_def Let_def
      split: prod.splits sum.splits if_splits option.splits)

lemma transmit_at_most_once: "transmit sv now sg cl dto fb rs doc = (d, evs) \<Longrightarrow> transmissions evs \<le> 1"
  using transmit_events by fastforce

lemma file_name_keys: "keys a = keys b \<Longrightarrow> file_name a = file_name b"
  by (simp add: keys_def file_name_def)

lemma transmit_journalled:
  assumes "transmit sv now sg cl dto fb rs doc = (d, evs)" "d_state doc = ''AwaitingTransmission''"
    and "j = doc \<lparr> ae_updatedAt := t, ae_updatedBy := u \<rparr>"
  shows "journalled [j] evs"
  using transmit_events [OF assms(1)] assms(2,3)
  by (auto simp: covers_def file_name_def)

text \<open>Saving adds at most the record that it happened.\<close>

abbreviation stamped :: "int \<Rightarrow> string \<Rightarrow> EcfDocument \<Rightarrow> EcfDocument" where
  "stamped now usr d \<equiv> d \<lparr> ae_updatedAt := Some (toIsoUtc now), ae_updatedBy := Some usr \<rparr>"

lemma save_one_trace:
  assumes "save_one now usr d w = (res, w')"
  shows "w_trace w' = w_trace w @ (case res of Inl e \<Rightarrow> [] | Inr n \<Rightarrow> [Saved (stamped now usr d)])"
  using assms by (elim save_one_cases) auto

lemma save_outcome_trace:
  "\<exists>u. w_trace (save_outcome now usr d w) = w_trace w @ u \<and> (u = [] \<or> (\<exists>v. u = [Saved (stamped now v d)]))"
proof -
  obtain res w1 where s1: "save_one now usr d w = (res, w1)" by force
  obtain res2 w2 where s2: "save_one now (auditUsername None) d w1 = (res2, w2)" by force
  show ?thesis
    using save_one_trace [OF s1] save_one_trace [OF s2] s1 s2
    by (cases res; cases res2) (auto simp: save_outcome_def)
qed

lemma save_and_reply_trace:
  assumes "save_and_reply now usr d rep w = (r, w')"
  shows "w_trace w' = w_trace w @ (case r of Inl e \<Rightarrow> [] | Inr q \<Rightarrow> [Saved (stamped now usr d)])"
    and "r = Inr q \<Longrightarrow> q = rep"
  using assms save_one_trace [of now usr d w]
  by (auto simp: save_and_reply_def split: prod.splits sum.splits)

text \<open>The two shapes a call of \<open>signAndSend\<close> has: nothing is sent, or it is sent after a save.\<close>

lemma signAndSend_shape:
  assumes "signAndSend sv now usr sg cl dto fb rs doc w = (r, w')"
  obtains (kept) evs where "w_trace w' = w_trace w @ evs" "transmissions evs = 0"
      "\<And>q. r = Inr q \<Longrightarrow> rp_status q \<in> {400, 422, 500}" "journalled [] evs"
  | (sent) d0 d1 w1 tevs code sx post n where "\<not> sg_usesFallbackCertificate sg"
      "d0 = doc \<lparr> d_signedXmlContent := Some sx, d_securityCode := Some code, d_state := ''AwaitingTransmission'' \<rparr>"
      "save_one now usr d0 w = (Inr n, w1)"
      "transmit sv now sg cl dto fb rs d0 = (d1, tevs)"
      "r = Inr (sent_reply d1)" "w' = save_outcome now usr d1 (log_events tevs w1)"
      "w_trace w' = w_trace w @ [Saved (stamped now usr d0)] @ tevs @ post"
      "post = [] \<or> (\<exists>v. post = [Saved (stamped now v d1)])"
proof -
  have saved: thesis
    if "save_and_reply now usr d rep w = (r, w')" "rp_status rep \<in> {400, 422, 500}" for d rep
    using save_and_reply_trace [OF that(1)] that(2)
    by (intro kept [of "case r of Inl e \<Rightarrow> [] | Inr q \<Rightarrow> [Saved (stamped now usr d)]"]) (auto split: sum.splits)
  show thesis
  proof (cases "sign_document sv sg doc")
    case (Inl e)
    then show ?thesis using assms saved by (auto simp: signAndSend_def err_reply_def)
  next
    case (Inr p)
    then obtain sx d0 where p: "sign_document sv sg doc = Inr (sx, d0)" by (cases p) auto
    obtain code where d0: "d0 = doc \<lparr> d_signedXmlContent := Some sx, d_securityCode := Some code,
        d_state := ''AwaitingTransmission'' \<rparr>"
      using sign_document_Inr [OF p] by auto
    consider (schema) errs where "(if sv_validateSchemasLocal sv then sv_schemaErrors sv sx else None) = Some errs"
      | (fallback) "(if sv_validateSchemasLocal sv then sv_schemaErrors sv sx else None) = None" "sg_usesFallbackCertificate sg"
      | (go) "(if sv_validateSchemasLocal sv then sv_schemaErrors sv sx else None) = None" "\<not> sg_usesFallbackCertificate sg"
      by (cases "if sv_validateSchemasLocal sv then sv_schemaErrors sv sx else None") auto
    then show ?thesis
    proof cases
      case schema
      then show ?thesis using assms p saved by (auto simp: signAndSend_def schema_reply_def)
    next
      case fallback
      then show ?thesis using assms p saved by (auto simp: signAndSend_def unsigned_reply_def Let_def)
    next
      case go
      obtain res w1 where s1: "save_one now usr d0 w = (res, w1)" by force
      obtain d1 tevs where t: "transmit sv now sg cl dto fb rs d0 = (d1, tevs)" by force
      show ?thesis
      proof (cases res)
        case (Inl e)
        then have "r = Inl e" "w' = w1" using assms p go s1 by (simp_all add: signAndSend_def)
        then show ?thesis using save_one_trace [OF s1] Inl by (intro kept [of "[]"]) auto
      next
        case (Inr n)
        then have r: "r = Inr (sent_reply d1)" "w' = save_outcome now usr d1 (log_events tevs w1)"
          using assms p go s1 t by (simp_all add: signAndSend_def)
        obtain post where "w_trace w' = w_trace (log_events tevs w1) @ post"
          and post: "post = [] \<or> (\<exists>v. post = [Saved (stamped now v d1)])"
          using save_outcome_trace [of now usr d1 "log_events tevs w1"] r(2) by auto
        then have "w_trace w' = w_trace w @ [Saved (stamped now usr d0)] @ tevs @ post"
          using save_one_trace [OF s1] Inr by simp
        with go d0 s1 t r post Inr show ?thesis by (intro sent) auto
      qed
    qed
  qed
qed

lemma signAndSend_trace:
  assumes "signAndSend sv now usr sg cl dto fb rs doc w = (r, w')"
  obtains evs where "w_trace w' = w_trace w @ evs" "journalled [] evs" "transmissions evs \<le> 1"
    "sg_usesFallbackCertificate sg \<Longrightarrow> transmissions evs = 0"
  using assms
proof (cases rule: signAndSend_shape)
  case (kept evs)
  then show ?thesis by (intro that [of evs]) simp_all
next
  case (sent d0 d1 w1 tevs code sx post n)
  have "journalled [stamped now usr d0] tevs"
    using transmit_journalled [OF sent(4) _ refl] sent(2) by simp
  moreover have "transmissions tevs \<le> 1" using transmit_at_most_once [OF sent(4)] .
  moreover have "journalled [stamped now usr d0] post" using sent(8) by auto
  ultimately show ?thesis using sent
    by (intro that [of "[Saved (stamped now usr d0)] @ tevs @ post"]) (auto simp: journalled_append)
qed

subsection \<open>A second save of the same document succeeds\<close>

lemma conflict_keys: "keys a = keys a' \<Longrightarrow> conflict a b = conflict a' b"
  unfolding keys_def conflict_def prod.inject by (elim conjE) (simp only:)

lemma first_conflict_keys: "keys a = keys a' \<Longrightarrow> first_conflict a docs = first_conflict a' docs"
  by (induction docs) (auto simp: conflict_keys [of a a'] split: option.splits)

lemma exec_again:
  assumes "exec_op (update_op now u d) docs = Inr docs1" "keys d' = keys d"
  shows "\<exists>docs2. exec_op (update_op now v d') docs1 = Inr docs2"
proof -
  let ?e = "stamped now u d" and ?e' = "stamped now v d'"
  have eid: "ae_id d' = ae_id d" and k: "keys ?e' = keys ?e" using assms(2) by (simp_all add: keys_def)
  show ?thesis
  proof (cases "list_ex (\<lambda>r. ae_id r = ae_id d) docs")
    case True
    then have f: "first_conflict ?e (filter (\<lambda>r. ae_id r \<noteq> ae_id d) docs) = None"
      and d1: "docs1 = map (\<lambda>r. if ae_id r = ae_id d then updated_row ?e r else r) docs"
      using assms(1) by (auto simp: exec_op_def update_op_def split: option.splits)
    have "filter (\<lambda>r. ae_id r \<noteq> ae_id d) docs1 = filter (\<lambda>r. ae_id r \<noteq> ae_id d) docs"
      unfolding d1 by (induction docs) auto
    then have "first_conflict ?e' (filter (\<lambda>r. ae_id r \<noteq> ae_id d') docs1) = None"
      using f eid first_conflict_keys [OF k] by simp
    then show ?thesis by (simp add: exec_op_def update_op_def)
  next
    case False
    then have "docs1 = docs" using assms(1) by (simp add: exec_op_def update_op_def)
    with False eid show ?thesis by (simp add: exec_op_def update_op_def)
  qed
qed

lemma save_one_no_fault:
  "w_faults w = [] \<Longrightarrow> exec_op (update_op now usr d) (w_docs w) = Inr docs \<Longrightarrow>
    \<exists>w'. save_one now usr d w = (Inr 1, w') \<and> w_docs w' = docs \<and> w_faults w' = []"
  by (simp add: save_one_def saveChanges_def next_fault_def)

lemma save_one_Inr_exec:
  "save_one now usr d w = (Inr n, w') \<Longrightarrow> exec_op (update_op now usr d) (w_docs w) = Inr (w_docs w')"
  by (elim save_one_cases) auto

lemma save_one_faults: "w_faults w = [] \<Longrightarrow> save_one now usr d w = (res, w') \<Longrightarrow> w_faults w' = []"
  by (auto simp: save_one_def saveChanges_def next_fault_def log_events_def split: sum.splits if_splits)

text \<open>Without an outage the row says what the last save said.\<close>

lemma stored_after_save:
  assumes "save_one now usr d w = (Inr n, w')" "doc_getById (ae_id d) (w_docs w) \<noteq> None"
  shows "\<exists>r. doc_getById (ae_id d) (w_docs w') = Some r \<and> content r = content d"
  using docs.holds_after_save [OF assms(2,1)] by (simp add: docs.holds_def)

text \<open>The status a stored state is answered with.\<close>

definition status_of_stored :: "string \<Rightarrow> int" where
  "status_of_stored st =
     (if st = ''SigningFailed'' then 500 else if st = ''SchemaInvalid'' then 400
      else if st = ''Unsigned'' then 422 else status_of_state st)"

definition transmit_states :: "string set" where
  "transmit_states = {''AwaitingTransmission'', ''AcceptedByDgii'', ''RejectedByDgii'', ''Signed'', ''Uncertain''}"

lemma transmit_state:
  assumes "transmit sv now sg cl dto fb rs doc = (d, evs)"
  shows "d_state d \<in> {''AcceptedByDgii'', ''RejectedByDgii'', ''Signed'', ''Uncertain''}"
  using assms
  by (auto simp: transmit_def transmit_rfce_def transmit_ecf_def rfce_outcome_def apply_resultado_def Let_def
      split: prod.splits sum.splits if_splits option.splits)

lemma content_state: "content a = content b \<Longrightarrow> d_state a = d_state b"
  unfolding content_def
  by (drule arg_cong [where f = d_state]) simp

subsection \<open>A small environment to run the definitions in\<close>

definition demo_signer :: "bool \<Rightarrow> xml_signer" where
  "demo_signer fallback = \<lparr> sg_id = 0, sg_signXml = (\<lambda>x r. Inr (''<S>'' @ x)),
     sg_usesFallbackCertificate = fallback, sg_validateCertificateSn = (\<lambda>r. True) \<rparr>"

definition demo_resultado :: "string \<Rightarrow> ConsultaResultadoResponse" where
  "demo_resultado estado = \<lparr> crr_trackId = [], crr_codigo = 0, crr_estado = estado, crr_rnc = [], crr_eNcf = [],
     crr_secuenciaUtilizada = False, crr_fechaRecepcion = [], crr_mensajes = [] \<rparr>"

definition demo_estado :: "string \<Rightarrow> ConsultaEstadoResponse" where
  "demo_estado estado = \<lparr> cer_codigo = 0, cer_estado = estado, cer_rncEmisor = [], cer_ncfElectronico = [],
     cer_montoTotal = dzero, cer_totalITBIS = dzero, cer_fechaEmision = [], cer_fechaFirma = [],
     cer_rncComprador = [], cer_codigoSeguridad = [], cer_idExtranjero = [] \<rparr>"

text \<open>A DGII that takes every document and reports the estado it is given.\<close>

definition demo_client :: "string \<Rightarrow> dgii_client" where
  "demo_client estado = \<lparr>
     cl_sendEcf = (\<lambda>x f. Inr \<lparr> rec_trackId = ''T-1'', rec_error = None, rec_mensaje = None \<rparr>),
     cl_sendRfce = (\<lambda>x f. Inr \<lparr> rfr_codigo = 1, rfr_estado = ''Aceptado'', rfr_mensajes = [],
       rfr_eNcf = [], rfr_secuenciaUtilizada = True \<rparr>),
     cl_consultarResultado = (\<lambda>t. Inr (demo_resultado estado)),
     cl_consultarEstado = (\<lambda>r e b c. Inr (demo_estado estado)),
     cl_consultarTrackIds = (\<lambda>r e. Inr []) \<rparr>"

definition demo_services :: "bool \<Rightarrow> string \<Rightarrow> services" where
  "demo_services fallback estado = \<lparr> sv_signer = demo_signer fallback, sv_ecfClient = demo_client estado,
     sv_makeClient = (\<lambda>r e s. demo_client estado), sv_base64Decode = (\<lambda>s. s),
     sv_loadCertificate = (\<lambda>b p. Inl (OtherExn ''bad certificate'')), sv_tenantSigner = None,
     sv_certFile = (\<lambda>f p. None), sv_certPassword = None,
     sv_extractSignatureValue = (\<lambda>x. Inr ''qWeRtY12''), sv_schemaErrors = (\<lambda>x. None),
     sv_validateSchemasLocal = False, sv_environment = EnvTest, sv_optionsRnc = None,
     sv_emisorRnc = ''131234567'', sv_emisorRazonSocial = ''ACME'', sv_mktime = (\<lambda>y m d. 0) \<rparr>"

definition demo_document :: EcfDocument where
  "demo_document = new_document \<lparr> ae_id := ''d1'', d_eNcf := ''E310000000001'', d_rncEmisor := ''131234567'',
     d_sourceTxnId := ''T'', d_xmlContent := ''<E/>'', d_ambiente := Some ''PreCertificacion'' \<rparr>"

definition demo_world :: world where
  "demo_world = \<lparr> w_docs = [demo_document], w_seqs = [], w_faults = [], w_trace = [] \<rparr>"

definition demo_send :: "bool \<Rightarrow> string \<Rightarrow> (exn + reply) \<times> world" where
  "demo_send fallback estado = signAndSend (demo_services fallback estado) 1709210096 ''System''
     (demo_signer fallback) (demo_client estado) None True [] demo_document demo_world"

definition demo_signed :: EcfDocument where
  "demo_signed = demo_document \<lparr> d_signedXmlContent := Some ''<S><E/>'', d_securityCode := Some ''qWeRtY'',
     d_state := ''AwaitingTransmission'' \<rparr>"

definition reply_status :: "(exn + reply) \<Rightarrow> int option" where
  "reply_status r = (case r of Inl e \<Rightarrow> None | Inr rep \<Rightarrow> Some (rp_status rep))"

lemma demo_runs:
  "reply_status (fst (demo_send True ''Aceptado'')) = Some 422"
  "reply_status (fst (demo_send False ''Aceptado'')) = Some 200"
  "reply_status (fst (demo_send False ''En Proceso'')) = Some 202"
  "reply_status (fst (demo_send False ''RECHAZADO '')) = Some 422"
  by code_simp+

lemma reply_status_Inr: "reply_status r = Some n \<Longrightarrow> r = Inr (projr r) \<and> rp_status (projr r) = n"
  by (auto simp: reply_status_def split: sum.splits)

subsection \<open>Properties\<close>

text \<open>One call of \<open>signAndSend\<close> transmits at most once, and whatever it transmits it has
  committed before as a document that awaits transmission: a crash or a lost answer leaves a
  record of the attempt.\<close>

lemma signAndSend_journals_first:
  "let w' = snd (signAndSend sv now usr signer client dto fb rs doc w) in
     prefix (w_trace w) (w_trace w') \<and> journalled [] (new_events w w') \<and> transmissions (new_events w w') \<le> 1"
proof -
  obtain r w' where s: "signAndSend sv now usr signer client dto fb rs doc w = (r, w')" by force
  from s show ?thesis by (rule signAndSend_trace) (simp add: s)
qed

text \<open>A document signed with the fallback (self-made) certificate never leaves the service:
  nothing is transmitted, and the caller gets an error status.\<close>

theorem fallback_certificate_never_transmits:
  assumes "sg_usesFallbackCertificate signer"
    and "signAndSend sv now usr signer client dto fb rs doc w = (r, w')"
  shows "transmissions (new_events w w') = 0 \<and> (\<forall>rep. r = Inr rep \<longrightarrow> rp_status rep \<in> {400, 422, 500})"
  using assms(2)
proof (cases rule: signAndSend_shape)
  case (kept evs)
  then show ?thesis by auto
next
  case sent
  with assms(1) show ?thesis by simp
qed

theorem fallback_certificate_never_transmits_witness:
  "transmissions (new_events demo_world (snd (demo_send True ''Aceptado''))) = 0"
  using fallback_certificate_never_transmits
    [of "demo_signer True" "demo_services True ''Aceptado''" 1709210096 "''System''" "demo_client ''Aceptado''" None True
      "[]" demo_document demo_world "fst (demo_send True ''Aceptado'')" "snd (demo_send True ''Aceptado'')"]
  by (simp add: demo_send_def demo_signer_def)

lemma saved_reply_agrees:
  assumes "save_and_reply now usr d q w = (Inr rep, w')" "rp_status q = status_of_stored (d_state d)"
    and "doc_getById (ae_id d) (w_docs w) \<noteq> None"
  shows "\<exists>r. doc_getById (ae_id d) (w_docs w') = Some r \<and> rp_status rep = status_of_stored (d_state r)"
proof -
  from assms(1) obtain n where s: "save_one now usr d w = (Inr n, w')" and q: "rep = q"
    by (auto simp: save_and_reply_def split: prod.splits sum.splits)
  from stored_after_save [OF s assms(3)] obtain r
    where "doc_getById (ae_id d) (w_docs w') = Some r" "content r = content d" by blast
  then show ?thesis using assms(2) q content_state [of r d] by simp
qed

lemma sent_reply_agrees:
  assumes s1: "save_one now usr d0 w = (Inr n, w1)" and t: "transmit sv now signer client dto fb rs d0 = (d1, evs)"
    and "w_faults w = []" "doc_getById (ae_id d0) (w_docs w) \<noteq> None"
  shows "\<exists>r. doc_getById (ae_id d0) (w_docs (save_outcome now usr d1 (log_events evs w1))) = Some r
    \<and> rp_status (sent_reply d1) = status_of_stored (d_state r)"
proof -
  have k: "keys d1 = keys d0" using transmit_keys [OF t] .
  have f1: "w_faults (log_events evs w1) = []" using save_one_faults [OF assms(3) s1] by simp
  obtain docs2 where "exec_op (update_op now usr d1) (w_docs (log_events evs w1)) = Inr docs2"
    using exec_again [OF save_one_Inr_exec [OF s1] k] by auto
  then obtain w2 where s2: "save_one now usr d1 (log_events evs w1) = (Inr 1, w2)"
    using save_one_no_fault [OF f1] by blast
  then have w2: "save_outcome now usr d1 (log_events evs w1) = w2" by (simp add: save_outcome_def)
  have "doc_getById (ae_id d1) (w_docs (log_events evs w1)) \<noteq> None"
    using docs.present_after_save [OF assms(4) s1] k by (simp add: keys_def)
  from stored_after_save [OF s2 this] obtain r
    where r: "doc_getById (ae_id d1) (w_docs w2) = Some r" "d_state r = d_state d1"
    using content_state by blast
  have "ae_id d1 = ae_id d0" using k by (simp add: keys_def)
  with r w2 transmit_state [OF t] show ?thesis
    by (auto simp: sent_reply_def status_of_stored_def)
qed



text \<open>C15. A document becomes accepted only on the word of the DGII: the summary service said so,
  or the status query for the track id it had just handed out.\<close>

theorem accepted_only_by_dgii:
  assumes "transmit sv now signer client dto fb rs doc = (d, evs)" "d_state d = ''AcceptedByDgii''"
    and "d_state doc \<noteq> ''AcceptedByDgii''"
  shows "(\<exists>x f resp. SentRfce x f \<in> set evs \<and> cl_sendRfce client x f = Inr resp
            \<and> (rfr_codigo resp = 1 \<or> accepted_estado (trim (rfr_estado resp))))
       \<or> (\<exists>t res. AskedResultado t \<in> set evs \<and> d_trackId d = Some t \<and> cl_consultarResultado client t = Inr res
            \<and> accepted_estado (trim (crr_estado res)))"
proof (cases "is_rfce doc")
  case True
  then show ?thesis using assms
    by (auto simp: transmit_def transmit_rfce_def rfce_outcome_def split: prod.splits sum.splits if_splits)
next
  case False
  then show ?thesis using assms
    by (auto simp: transmit_def transmit_ecf_def apply_resultado_def Let_def
        split: prod.splits sum.splits if_splits option.splits)
qed

theorem accepted_only_by_dgii_witness:
  "\<exists>t res. cl_consultarResultado (demo_client ''Aceptado'') t = Inr res \<and> accepted_estado (trim (crr_estado res))"
proof -
  let ?t = "transmit (demo_services False ''Aceptado'') 0 (demo_signer False) (demo_client ''Aceptado'') None True [] demo_signed"
  have a: "d_state (fst ?t) = ''AcceptedByDgii''" "\<not> is_sent (last (snd ?t)) \<and> length (snd ?t) = 2"
    "list_all (\<lambda>e. case e of SentRfce x f \<Rightarrow> False | _ \<Rightarrow> True) (snd ?t)"
    by code_simp+
  from accepted_only_by_dgii [of "demo_services False ''Aceptado''" 0 "demo_signer False" "demo_client ''Aceptado''" None True
      "[]" demo_signed "fst ?t" "snd ?t"] a(1,3)
  show ?thesis by (auto simp: demo_signed_def list_all_iff)
qed

end
