(* ===== verification/Rfce_Client.thy ===== *)
theory Rfce_Client
  imports Rfce_Model Documents_Transmit
begin

text \<open>
  EcfValidator.cpp and EcfClient.cpp: the rules an RFCE has to meet, and the client that
  validates, serialises, signs and sends it, and tries again with a new number when the DGII
  rejects it without using up the sequence.  A rule is a constructor of \<open>rfce_error\<close>.  The
  transport, the schema validator, the signer and the sequence provider are the fields of
  \<open>ecf_client\<close>.  The lemmas show what a valid RFCE is, that nothing invalid is transmitted and
  that a send makes three attempts at most.
\<close>

subsection \<open>EcfValidator.cpp\<close>

datatype rfce_error =
    BadRncEmisor
  | BadENcfLength
  | BadTipoeCF
  | BadFechaEmision
  | NegativeMontoTotal
  | MontoTotalOverThreshold
  | RncAndForeignId
  | MontoTotalNotSum
  | MontoTotalNotExento
  | GravadoNotSum
  | ItbisNotSum
  | PeriodoNotSum
  | TooManyFormasPago
  | TooManyImpuestos

definition isLeapYear :: "int \<Rightarrow> bool" where
  "isLeapYear y \<longleftrightarrow> (y mod 4 = 0 \<and> y mod 100 \<noteq> 0) \<or> y mod 400 = 0"

definition daysInMonth :: "int \<Rightarrow> int \<Rightarrow> int" where
  "daysInMonth m y =
     (if m \<in> {1, 3, 5, 7, 8, 10, 12} then 31 else if m \<in> {4, 6, 9, 11} then 30
      else if m = 2 then (if isLeapYear y then 29 else 28) else 0)"

definition tryParseDate :: "string \<Rightarrow> bool" where
  "tryParseDate s \<longleftrightarrow> length s = 10 \<and> s ! 2 = CHR ''-'' \<and> s ! 5 = CHR ''-''
     \<and> list_all (\<lambda>i. i = 2 \<or> i = 5 \<or> isdigit (s ! i)) [0..<10]
     \<and> (let d = digits_val (take 2 s); m = digits_val (take 2 (drop 3 s)); y = digits_val (drop 6 s)
        in 1900 \<le> y \<and> y \<le> 2100 \<and> 1 \<le> m \<and> m \<le> 12 \<and> 1 \<le> d \<and> d \<le> daysInMonth m y)"

definition isValidRnc :: "string \<Rightarrow> bool" where
  "isValidRnc rnc \<longleftrightarrow> rnc \<noteq> [] \<and> (length rnc = 9 \<or> length rnc = 11) \<and> all_digits rnc"

definition kRfceThreshold :: dbl where
  "kRfceThreshold = dint 250000"

definition off_by_a_cent :: "dbl \<Rightarrow> dbl \<Rightarrow> bool" where
  "off_by_a_cent a b \<longleftrightarrow> dlt (dlit 1 100) (dabs (dsub a b))"

definition or0 :: "dbl option \<Rightarrow> dbl" where
  "or0 x = value_or x dzero"

definition err_if :: "bool \<Rightarrow> rfce_error \<Rightarrow> rfce_error list" where
  "err_if b e = (if b then [e] else [])"

definition validateTotalesConsistency :: "RfceTotales \<Rightarrow> rfce_error list" where
  "validateTotalesConsistency t =
     (case rt_montoGravadoTotal t of
        Some g \<Rightarrow> err_if (off_by_a_cent (rt_montoTotal t)
            (dadd (dadd (dadd g (or0 (rt_totalITBIS t))) (or0 (rt_montoExento t))) (or0 (rt_montoImpuestoAdicional t))))
            MontoTotalNotSum
      | None \<Rightarrow> (case rt_montoExento t of
            None \<Rightarrow> []
          | Some x \<Rightarrow> err_if (rt_totalITBIS t = None
              \<and> off_by_a_cent (rt_montoTotal t) (dadd x (or0 (rt_montoImpuestoAdicional t)))) MontoTotalNotExento))
     @ (case rt_montoGravadoTotal t of
          None \<Rightarrow> []
        | Some g \<Rightarrow> err_if ((rt_montoGravadoI1 t \<noteq> None \<or> rt_montoGravadoI2 t \<noteq> None \<or> rt_montoGravadoI3 t \<noteq> None)
            \<and> off_by_a_cent g (dadd (dadd (or0 (rt_montoGravadoI1 t)) (or0 (rt_montoGravadoI2 t))) (or0 (rt_montoGravadoI3 t))))
            GravadoNotSum)
     @ (case rt_totalITBIS t of
          None \<Rightarrow> []
        | Some i \<Rightarrow> err_if ((rt_totalITBIS1 t \<noteq> None \<or> rt_totalITBIS2 t \<noteq> None \<or> rt_totalITBIS3 t \<noteq> None)
            \<and> off_by_a_cent i (dadd (dadd (or0 (rt_totalITBIS1 t)) (or0 (rt_totalITBIS2 t))) (or0 (rt_totalITBIS3 t))))
            ItbisNotSum)
     @ (case (rt_montoPeriodo t, rt_montoNoFacturable t) of
          (Some p, Some n) \<Rightarrow> err_if (off_by_a_cent p (dadd (rt_montoTotal t) n)) PeriodoNotSum
        | _ \<Rightarrow> [])"

definition validateRfce :: "Rfce \<Rightarrow> rfce_error list" where
  "validateRfce rfce = (let e = rf_encabezado rfce; t = rh_totales e in
     err_if (\<not> isValidRnc (re_rncEmisor (rh_emisor e))) BadRncEmisor
     @ err_if (length (ri_eNcf (rh_idDoc e)) \<noteq> 13) BadENcfLength
     @ err_if (ri_tipoeCF (rh_idDoc e) \<noteq> ''32'') BadTipoeCF
     @ err_if (\<not> tryParseDate (re_fechaEmision (rh_emisor e))) BadFechaEmision
     @ err_if (dlt (rt_montoTotal t) dzero) NegativeMontoTotal
     @ err_if (dle kRfceThreshold (rt_montoTotal t)) MontoTotalOverThreshold
     @ (case rh_comprador e of
          None \<Rightarrow> []
        | Some c \<Rightarrow> err_if (has_text (rc_rncComprador c) \<and> has_text (rc_identificadorExtranjero c)) RncAndForeignId)
     @ validateTotalesConsistency t
     @ err_if (7 < length (ri_tablaFormasPago (rh_idDoc e))) TooManyFormasPago
     @ err_if (20 < length (rt_impuestosAdicionales t)) TooManyImpuestos)"

subsection \<open>EcfClient.cpp\<close>

datatype send_error =
    InvalidRfce "rfce_error list"
  | SchemaErrors "string list"
  | SendFailed exn

text \<open>\<open>ec_schema\<close> is \<open>None\<close> unless schemas are validated locally; \<open>ec_signer\<close> may be null.\<close>

record 's ecf_client =
  ec_schema :: "(string \<Rightarrow> string list option) option"
  ec_signer :: "(string \<Rightarrow> string \<Rightarrow> exn + string) option"
  ec_sendEcf :: "string \<Rightarrow> string \<Rightarrow> exn + EcfRecepcionResponse"
  ec_sendRfce :: "string \<Rightarrow> string \<Rightarrow> exn + RfceRecepcionResponse"
  ec_autoRetry :: bool
  ec_getNext :: "string \<Rightarrow> 's \<Rightarrow> string \<times> 's"

definition schema_errors :: "'s ecf_client \<Rightarrow> string \<Rightarrow> string list option" where
  "schema_errors c xml = (case ec_schema c of None \<Rightarrow> None | Some check \<Rightarrow> check xml)"

definition client_sendEcf :: "'s ecf_client \<Rightarrow> string \<Rightarrow> string \<Rightarrow> (send_error + EcfRecepcionResponse) \<times> event list" where
  "client_sendEcf c xml fileName = (case schema_errors c xml of
       Some errs \<Rightarrow> (Inl (SchemaErrors errs), [])
     | None \<Rightarrow> ((case ec_sendEcf c xml fileName of Inl e \<Rightarrow> Inl (SendFailed e) | Inr r \<Rightarrow> Inr r),
                [SentEcf xml fileName]))"

definition client_sendRfceXml :: "'s ecf_client \<Rightarrow> string \<Rightarrow> string \<Rightarrow> (send_error + RfceRecepcionResponse) \<times> event list" where
  "client_sendRfceXml c xml fileName = (case schema_errors c xml of
       Some errs \<Rightarrow> (Inl (SchemaErrors errs), [])
     | None \<Rightarrow> ((case ec_sendRfce c xml fileName of Inl e \<Rightarrow> Inl (SendFailed e) | Inr r \<Rightarrow> Inr r),
                [SentRfce xml fileName]))"

definition with_eNcf :: "string \<Rightarrow> Rfce \<Rightarrow> Rfce" where
  "with_eNcf n rfce = rfce \<lparr> rf_encabezado := (rf_encabezado rfce)
     \<lparr> rh_idDoc := (rh_idDoc (rf_encabezado rfce)) \<lparr> ri_eNcf := n \<rparr> \<rparr> \<rparr>"

abbreviation rfce_rnc :: "Rfce \<Rightarrow> string" where
  "rfce_rnc rfce \<equiv> re_rncEmisor (rh_emisor (rf_encabezado rfce))"

abbreviation rfce_encf :: "Rfce \<Rightarrow> string" where
  "rfce_encf rfce \<equiv> ri_eNcf (rh_idDoc (rf_encabezado rfce))"

definition sign_rfce :: "'s ecf_client \<Rightarrow> Rfce \<Rightarrow> exn + string" where
  "sign_rfce c rfce = (case ec_signer c of
       None \<Rightarrow> Inr (serialize rfce)
     | Some sign \<Rightarrow> sign (serialize rfce) (rfce_rnc rfce))"

text \<open>The loop: the model that was last tried comes back, as the source changes it in place.\<close>

function sendRfce_loop ::
    "'s ecf_client \<Rightarrow> nat \<Rightarrow> Rfce \<Rightarrow> 's \<Rightarrow> (send_error + RfceRecepcionResponse) \<times> Rfce \<times> 's \<times> event list" where
  "sendRfce_loop c retries rfce s =
     (if validateRfce rfce \<noteq> [] then (Inl (InvalidRfce (validateRfce rfce)), rfce, s, [])
      else case sign_rfce c rfce of
          Inl e \<Rightarrow> (Inl (SendFailed e), rfce, s, [])
        | Inr signedXml \<Rightarrow> (case client_sendRfceXml c signedXml (getFileName (rfce_rnc rfce) (rfce_encf rfce)) of
              (Inl e, evs) \<Rightarrow> (Inl e, rfce, s, evs)
            | (Inr response, evs) \<Rightarrow>
                if ec_autoRetry c \<and> rfr_estado response = ''Rechazado'' \<and> \<not> rfr_secuenciaUtilizada response \<and> retries < 2
                then (case ec_getNext c (rfce_rnc rfce) s of (newENcf, s') \<Rightarrow>
                  case sendRfce_loop c (retries + 1) (with_eNcf newENcf rfce) s' of
                    (r, m, s'', evs') \<Rightarrow> (r, m, s'', evs @ evs'))
                else (Inr response, rfce, s, evs)))"
  by pat_completeness auto
termination by (relation "measure (\<lambda>(c, retries, rfce, s). 2 - retries)") auto

declare sendRfce_loop.simps [simp del]

definition client_sendRfce ::
    "'s ecf_client \<Rightarrow> Rfce \<Rightarrow> 's \<Rightarrow> (send_error + RfceRecepcionResponse) \<times> Rfce \<times> 's \<times> event list" where
  "client_sendRfce c rfce s = sendRfce_loop c 0 rfce s"

subsection \<open>Dates\<close>

definition valid_date :: "int \<Rightarrow> int \<Rightarrow> int \<Rightarrow> bool" where
  "valid_date d m y \<longleftrightarrow> 1900 \<le> y \<and> y \<le> 2100 \<and> 1 \<le> m \<and> m \<le> 12 \<and> 1 \<le> d \<and> d \<le> month_len y m"

lemma daysInMonth_month_len: "1 \<le> m \<Longrightarrow> m \<le> 12 \<Longrightarrow> daysInMonth m y = month_len y m"
  unfolding daysInMonth_def month_len_def isLeapYear_def leap_def by (simp; presburger)

lemma setw0_Suc: "setw0 (Suc n) (s @ [c]) = setw0 n s @ [c]"
  by (simp add: setw0_def)

lemma isdigit_val: "isdigit c \<Longrightarrow> 0 \<le> digit_val c \<and> digit_val c < 10 \<and> digit_char (digit_val c) = c"
proof -
  assume d: "isdigit c"
  then have "48 + nat (int (code c) - 48) = code c" unfolding isdigit_def by arith
  then have "digit_char (digit_val c) = c" by (simp add: digit_char_def digit_val_def code_def)
  then show "0 \<le> digit_val c \<and> digit_val c < 10 \<and> digit_char (digit_val c) = c"
    using d by (simp add: isdigit_def digit_val_def)
qed

lemma digit_char_0: "digit_char 0 = CHR ''0''"
  by code_simp

lemma digits_val_nonneg: "all_digits s \<Longrightarrow> 0 \<le> digits_val s"
proof (induction s rule: rev_induct)
  case (snoc c s)
  then show ?case using isdigit_val [of c] by simp
qed simp

text \<open>Reading a field of digits and printing it at its width gives it back.\<close>

lemma print_read_digits: "all_digits s \<Longrightarrow> s \<noteq> [] \<Longrightarrow> setw0 (length s) (dec_nat (digits_val s)) = s"
proof (induction s rule: rev_induct)
  case (snoc c s)
  have c: "isdigit c" "all_digits s" using snoc.prems by simp_all
  note v = isdigit_val [OF c(1)]
  show ?case
  proof (cases "digits_val s = 0")
    case True
    have d: "dec_nat (digit_val c) = [c]" using v by (simp add: dec_nat.simps)
    have "setw0 (Suc (length s)) [c] = s @ [c]"
    proof (cases "s = []")
      case True
      then show ?thesis by (simp add: setw0_def)
    next
      case False
      then have "setw0 (length s) ''0'' = s" using snoc.IH [OF c(2)] True by (simp add: dec_nat.simps digit_char_0)
      then have "s = replicate (length s) (CHR ''0'')"
        using False by (cases s) (auto simp: setw0_def replicate_append_same)
      then show ?thesis by (metis append_Nil setw0_Suc setw0_def length_0_conv length_append list.size(3) diff_zero append_Nil2)
    qed
    then show ?thesis using True d by simp
  next
    case False
    then have p: "0 < digits_val s" using digits_val_nonneg [OF c(2)] by simp
    then have ne: "s \<noteq> []" by auto
    have "dec_nat (10 * digits_val s + digit_val c) = dec_nat (digits_val s) @ [c]"
      using v p by (subst dec_nat.simps) auto
    then show ?thesis using snoc.IH [OF c(2) ne] by (simp add: setw0_Suc)
  qed
qed simp

lemma list_10:
  assumes "length s = 10"
  obtains a b c d e f g h i j where "s = [a, b, c, d, e, f, g, h, i, j]"
  using assms by (auto simp: numeral_eq_Suc length_Suc_conv)

lemma date_fields:
  assumes "tryParseDate s"
  shows "all_digits (take 2 s)" "all_digits (take 2 (drop 3 s))" "all_digits (drop 6 s)"
    "s = take 2 s @ ''-'' @ take 2 (drop 3 s) @ ''-'' @ drop 6 s" "length s = 10"
proof -
  have len: "length s = 10" using assms by (simp add: tryParseDate_def)
  show "length s = 10" by (rule len)
  obtain a b c d e f g h i j where s: "s = [a, b, c, d, e, f, g, h, i, j]" by (rule list_10 [OF len])
  have "[0..<10] = [0, 1, 2, 3, 4, 5, 6, 7, 8, 9]" by (simp add: upt_rec)
  then show "all_digits (take 2 s)" "all_digits (take 2 (drop 3 s))" "all_digits (drop 6 s)"
    "s = take 2 s @ ''-'' @ take 2 (drop 3 s) @ ''-'' @ drop 6 s"
    using assms by (simp_all add: tryParseDate_def s)
qed

lemma all_digits_two: "0 \<le> n \<Longrightarrow> n < 100 \<Longrightarrow> length (two n) = 2 \<and> all_digits (two n)"
  using length_dec_nat_le [of n 2] length_setw0 [of "dec_nat n" 2] two_digits [of n] by (simp add: two_def)

lemma digit_nth: "all_digits s \<Longrightarrow> i < length s \<Longrightarrow> isdigit (s ! i)"
  by (simp add: list_all_length)

subsection \<open>What a send transmits\<close>

definition same_but_eNcf :: "Rfce \<Rightarrow> Rfce \<Rightarrow> bool" where
  "same_but_eNcf a b \<longleftrightarrow> with_eNcf [] a = with_eNcf [] b"

lemma same_but_eNcf_simps [simp]: "same_but_eNcf a a" "same_but_eNcf (with_eNcf n a) b \<longleftrightarrow> same_but_eNcf a b"
  by (simp_all add: same_but_eNcf_def with_eNcf_def)

definition sent_valid :: "'s ecf_client \<Rightarrow> Rfce \<Rightarrow> event \<Rightarrow> bool" where
  "sent_valid c rfce e \<longleftrightarrow> (\<exists>q x. validateRfce q = [] \<and> same_but_eNcf q rfce \<and> sign_rfce c q = Inr x
     \<and> e = SentRfce x (getFileName (rfce_rnc q) (rfce_encf q)))"

lemma sent_valid_with [simp]: "sent_valid c (with_eNcf n rfce) = sent_valid c rfce"
  by (rule ext) (simp add: sent_valid_def same_but_eNcf_def with_eNcf_def)

lemma sendRfceXml_events:
  "client_sendRfceXml c x f = (r, evs) \<Longrightarrow> evs = [] \<and> (\<exists>errs. r = Inl (SchemaErrors errs))
    \<or> evs = [SentRfce x f] \<and> (\<forall>resp. r = Inr resp \<longrightarrow> ec_sendRfce c x f = Inr resp)"
  by (auto simp: client_sendRfceXml_def split: option.splits sum.splits)

lemma sendRfce_loop_events:
  "sendRfce_loop c retries rfce s = (r, m, s', evs) \<Longrightarrow> retries \<le> 2 \<Longrightarrow>
    length evs \<le> 3 - retries \<and> list_all (sent_valid c rfce) evs
    \<and> (\<forall>resp. r = Inr resp \<longrightarrow> (\<exists>x. evs \<noteq> [] \<and> last evs = SentRfce x (getFileName (rfce_rnc m) (rfce_encf m))
         \<and> sign_rfce c m = Inr x \<and> ec_sendRfce c x (getFileName (rfce_rnc m) (rfce_encf m)) = Inr resp))"
proof (induction "2 - retries" arbitrary: retries rfce s r m s' evs rule: less_induct)
  case less
  let ?f = "getFileName (rfce_rnc rfce) (rfce_encf rfce)"
  note run = less.prems(1) [unfolded sendRfce_loop.simps [of c retries rfce s]]
  show ?case
  proof (cases "validateRfce rfce = []")
    case False
    then show ?thesis using run by auto
  next
    case ok: True
    show ?thesis
    proof (cases "sign_rfce c rfce")
      case (Inl e)
      then show ?thesis using run ok by auto
    next
      case x: (Inr x)
      obtain r1 ev1 where t: "client_sendRfceXml c x ?f = (r1, ev1)" by force
      note te = sendRfceXml_events [OF t]
      have v: "sent_valid c rfce (SentRfce x ?f)" using ok x by (auto simp: sent_valid_def)
      show ?thesis
      proof (cases r1)
        case (Inl e)
        then have "r = Inl e" "evs = ev1" using run ok x t by simp_all
        then show ?thesis using te v less.prems(2) by auto
      next
        case resp: (Inr resp)
        have ev1: "ev1 = [SentRfce x ?f]" "ec_sendRfce c x ?f = Inr resp" using te resp by auto
        show ?thesis
        proof (cases "ec_autoRetry c \<and> rfr_estado resp = ''Rechazado'' \<and> \<not> rfr_secuenciaUtilizada resp \<and> retries < 2")
          case again: True
          obtain n s1 where n: "ec_getNext c (rfce_rnc rfce) s = (n, s1)" by force
          obtain r2 m2 s2 ev2 where l: "sendRfce_loop c (retries + 1) (with_eNcf n rfce) s1 = (r2, m2, s2, ev2)"
            by (cases "sendRfce_loop c (retries + 1) (with_eNcf n rfce) s1") auto
          have eqs: "r = r2" "m = m2" "evs = ev1 @ ev2" using run ok x t resp again n l by simp_all
          have "2 - (retries + 1) < 2 - retries" "retries + 1 \<le> 2" using again by linarith+
          from less.hyps [OF this(1) l this(2)] show ?thesis
            using eqs ev1 v again by auto
        next
          case False
          then have "r = Inr resp" "evs = ev1" "m = rfce" using run ok x t resp by auto
          then show ?thesis using ev1 v x less.prems(2) by auto
        qed
      qed
    qed
  qed
qed

subsection \<open>A retry with the in-memory provider\<close>

lemma memory_E31: "starts_with ''E31'' (fst (memory_getNext rnc seqs))"
  by (simp add: memory_getNext_def Let_def)

lemma loop_keeps_E31:
  "sendRfce_loop c retries rfce s = (r, m, s', evs) \<Longrightarrow> ec_getNext c = memory_getNext \<Longrightarrow>
    starts_with ''E31'' (rfce_encf rfce) \<Longrightarrow>
    starts_with ''E31'' (rfce_encf m) \<and> ri_tipoeCF (rh_idDoc (rf_encabezado m)) = ri_tipoeCF (rh_idDoc (rf_encabezado rfce))"
proof (induction "2 - retries" arbitrary: retries rfce s r m s' evs rule: less_induct)
  case less
  note run = less.prems(1) [unfolded sendRfce_loop.simps [of c retries rfce s]]
  show ?case
  proof (cases "m = rfce")
    case True
    then show ?thesis using less.prems(3) by simp
  next
    case False
    then obtain x resp ev1 where "retries < 2" and again: "validateRfce rfce = []" "sign_rfce c rfce = Inr x"
      "client_sendRfceXml c x (getFileName (rfce_rnc rfce) (rfce_encf rfce)) = (Inr resp, ev1)"
      "ec_autoRetry c \<and> rfr_estado resp = ''Rechazado'' \<and> \<not> rfr_secuenciaUtilizada resp"
      using run by (auto split: if_splits sum.splits prod.splits)
    obtain n s1 where n: "memory_getNext (rfce_rnc rfce) s = (n, s1)" by force
    obtain r2 m2 s2 ev2 where l: "sendRfce_loop c (retries + 1) (with_eNcf n rfce) s1 = (r2, m2, s2, ev2)"
      by (cases "sendRfce_loop c (retries + 1) (with_eNcf n rfce) s1") auto
    have "m = m2" using run again \<open>retries < 2\<close> n l less.prems(2) by simp
    moreover have "starts_with ''E31'' (rfce_encf (with_eNcf n rfce))"
      using memory_E31 [of "rfce_rnc rfce" s] n by (simp add: with_eNcf_def)
    ultimately show ?thesis
      using less.hyps [OF _ l less.prems(2)] \<open>retries < 2\<close> by (simp add: with_eNcf_def)
  qed
qed

subsection \<open>Properties\<close>

text \<open>The date test of the validator accepts exactly the texts \<open>dd-mm-yyyy\<close> of the calendar
  dates from 1900 to 2100, leap days included.\<close>

theorem tryParseDate_iff_date:
  "tryParseDate s \<longleftrightarrow> (\<exists>d m y. valid_date d m y \<and> s = two d @ ''-'' @ two m @ ''-'' @ setw0 4 (dec_nat y))"
proof
  assume t: "tryParseDate s"
  let ?d = "digits_val (take 2 s)" and ?m = "digits_val (take 2 (drop 3 s))" and ?y = "digits_val (drop 6 s)"
  note f = date_fields [OF t]
  have len: "length (take 2 s) = 2" "length (take 2 (drop 3 s)) = 2" "length (drop 6 s) = 4" using f(5) by simp_all
  have "take 2 s \<noteq> []" "take 2 (drop 3 s) \<noteq> []" "drop 6 s \<noteq> []" using f(5) by auto
  then have p: "two ?d = take 2 s" "two ?m = take 2 (drop 3 s)" "setw0 4 (dec_nat ?y) = drop 6 s"
    using print_read_digits [OF f(1)] print_read_digits [OF f(2)] print_read_digits [OF f(3)] len
    by (simp_all only: two_def simp_thms)
  have "valid_date ?d ?m ?y" using t daysInMonth_month_len by (auto simp: tryParseDate_def valid_date_def Let_def)
  with p f(4) show "\<exists>d m y. valid_date d m y \<and> s = two d @ ''-'' @ two m @ ''-'' @ setw0 4 (dec_nat y)" by metis
next
  assume "\<exists>d m y. valid_date d m y \<and> s = two d @ ''-'' @ two m @ ''-'' @ setw0 4 (dec_nat y)"
  then obtain d m y where v: "valid_date d m y" and s: "s = two d @ ''-'' @ two m @ ''-'' @ setw0 4 (dec_nat y)" by blast
  have ml: "month_len y m \<le> 31" by (simp add: month_len_def)
  have b: "0 \<le> d" "d < 100" "0 \<le> m" "m < 100" "0 \<le> y" "y < 10000" using v ml by (auto simp: valid_date_def)
  have dd: "length (two d) = 2" "all_digits (two d)" "length (two m) = 2" "all_digits (two m)"
    using all_digits_two b by auto
  have yy: "length (setw0 4 (dec_nat y)) = 4" "all_digits (setw0 4 (dec_nat y))"
    using length_setw0 [OF length_dec_nat_le [of y 4]] setw0_digits [OF dec_nat_digits [of y]] b by simp_all
  have vals: "digits_val (two d) = d" "digits_val (two m) = m" "digits_val (setw0 4 (dec_nat y)) = y"
    using b by (simp_all add: two_val setw0_val dec_nat_val)
  have parts: "take 2 s = two d" "take 2 (drop 3 s) = two m" "drop 6 s = setw0 4 (dec_nat y)" "length s = 10"
    "s ! 2 = CHR ''-''" "s ! 5 = CHR ''-''"
    using dd yy by (simp_all add: s nth_append)
  have dig: "isdigit (s ! 0)" "isdigit (s ! Suc 0)" "isdigit (s ! 3)" "isdigit (s ! 4)"
    "isdigit (s ! 6)" "isdigit (s ! 7)" "isdigit (s ! 8)" "isdigit (s ! 9)"
    using dd yy by (simp_all add: s nth_append digit_nth)
  have "[0..<10] = [0, 1, 2, 3, 4, 5, 6, 7, 8, 9]" by (simp add: upt_rec)
  then show "tryParseDate s"
    using v daysInMonth_month_len [of m y] by (simp add: tryParseDate_def parts vals dig valid_date_def)
qed

text \<open>C40. One send makes three attempts at most, each with a summary that passed the validation and
  differs from the given one in its number only; an answer is the DGII's answer to the last of
  them, which is the summary the caller gets back.\<close>

theorem rfce_send_bounded_and_valid:
  assumes "client_sendRfce c rfce s = (r, m, s', evs)"
  shows "length evs \<le> 3 \<and> list_all (sent_valid c rfce) evs
    \<and> (\<forall>resp. r = Inr resp \<longrightarrow> (\<exists>x. evs \<noteq> [] \<and> last evs = SentRfce x (getFileName (rfce_rnc m) (rfce_encf m))
         \<and> sign_rfce c m = Inr x \<and> ec_sendRfce c x (getFileName (rfce_rnc m) (rfce_encf m)) = Inr resp))"
  using sendRfce_loop_events [OF assms [unfolded client_sendRfce_def]] by simp

text \<open>With the provider the client makes for itself, a retry numbers the summary of a consumer
  invoice (type 32) as a tax credit invoice: the new number starts with E31.\<close>

theorem retried_rfce_gets_E31:
  assumes "client_sendRfce c rfce s = (r, m, s', evs)" "ec_getNext c = memory_getNext"
    and "rfce_encf m \<noteq> rfce_encf rfce"
  shows "starts_with ''E31'' (rfce_encf m) \<and> ri_tipoeCF (rh_idDoc (rf_encabezado m)) = ri_tipoeCF (rh_idDoc (rf_encabezado rfce))"
proof -
  note run = assms(1) [unfolded client_sendRfce_def sendRfce_loop.simps [of c 0 rfce s]]
  have "m \<noteq> rfce" using assms(3) by auto
  then obtain x resp ev1 where again: "validateRfce rfce = []" "sign_rfce c rfce = Inr x"
    "client_sendRfceXml c x (getFileName (rfce_rnc rfce) (rfce_encf rfce)) = (Inr resp, ev1)"
    "ec_autoRetry c \<and> rfr_estado resp = ''Rechazado'' \<and> \<not> rfr_secuenciaUtilizada resp"
    using run by (auto split: if_splits sum.splits prod.splits)
  obtain n s1 where n: "memory_getNext (rfce_rnc rfce) s = (n, s1)" by force
  obtain r2 m2 s2 ev2 where l: "sendRfce_loop c 1 (with_eNcf n rfce) s1 = (r2, m2, s2, ev2)"
    by (cases "sendRfce_loop c 1 (with_eNcf n rfce) s1") auto
  have "m = m2" using run again n l assms(2) by simp
  moreover have "starts_with ''E31'' (rfce_encf (with_eNcf n rfce))"
    using memory_E31 [of "rfce_rnc rfce" s] n by (simp add: with_eNcf_def)
  ultimately show ?thesis using loop_keeps_E31 [OF l assms(2)] by (simp add: with_eNcf_def)
qed

subsection \<open>A concrete send\<close>

definition demo_rfce :: Rfce where
  "demo_rfce = \<lparr> rf_encabezado = \<lparr> rh_version = ''1.0'',
     rh_idDoc = \<lparr> ri_tipoeCF = ''32'', ri_eNcf = ''E320000000007'', ri_tipoIngresos = 1, ri_tipoPago = 1,
       ri_tablaFormasPago = [] \<rparr>,
     rh_emisor = \<lparr> re_rncEmisor = ''131234567'', re_razonSocialEmisor = ''ACME'', re_fechaEmision = ''29-02-2024'' \<rparr>,
     rh_comprador = None,
     rh_totales = \<lparr> rt_montoGravadoTotal = None, rt_montoGravadoI1 = None, rt_montoGravadoI2 = None,
       rt_montoGravadoI3 = None, rt_montoExento = Some (dint 100), rt_totalITBIS = None, rt_totalITBIS1 = None,
       rt_totalITBIS2 = None, rt_totalITBIS3 = None, rt_montoImpuestoAdicional = None, rt_impuestosAdicionales = [],
       rt_montoTotal = dint 100, rt_montoNoFacturable = None, rt_montoPeriodo = None, rt_codigoSeguridadeCF = None \<rparr>,
     rh_codigoSeguridadeCF = Some ''abc123'' \<rparr> \<rparr>"

definition demo_ecf_client :: "mem_sequences ecf_client" where
  "demo_ecf_client = \<lparr> ec_schema = None, ec_signer = None, ec_sendEcf = (\<lambda>x f. Inl ConnectionLost),
     ec_sendRfce = (\<lambda>x f. Inr \<lparr> rfr_codigo = 2, rfr_estado = ''Rechazado'', rfr_mensajes = [], rfr_eNcf = [],
       rfr_secuenciaUtilizada = False \<rparr>),
     ec_autoRetry = True, ec_getNext = memory_getNext \<rparr>"

abbreviation demo_rfce_run :: "(send_error + RfceRecepcionResponse) \<times> Rfce \<times> mem_sequences \<times> event list" where
  "demo_rfce_run \<equiv> client_sendRfce demo_ecf_client demo_rfce (\<lambda>_. 0)"

lemma validateRfce_with:
  "length n = 13 \<Longrightarrow> length (rfce_encf rfce) = 13 \<Longrightarrow> validateRfce (with_eNcf n rfce) = validateRfce rfce"
  by (simp add: validateRfce_def with_eNcf_def Let_def)

lemma demo_rfce_valid: "validateRfce demo_rfce = []"
  by code_simp

lemma demo_rfce_facts:
  "validateRfce demo_rfce = []" "rfce_encf (fst (snd demo_rfce_run)) = ''E310000000002''"
  "length (snd (snd (snd demo_rfce_run))) = 3"
proof -
  have n: "memory_getNext ''131234567'' (\<lambda>_. 0) = (''E310000000001'', (\<lambda>_. 0)(''131234567'' := 1))"
    "memory_getNext ''131234567'' ((\<lambda>_. 0)(''131234567'' := 1)) = (''E310000000002'', (\<lambda>_. 0)(''131234567'' := 2))"
  proof -
    have d: "dec_nat 1 = ''1''" "dec_nat 2 = ''2''" by code_simp+
    show "memory_getNext ''131234567'' (\<lambda>_. 0) = (''E310000000001'', (\<lambda>_. 0)(''131234567'' := 1))"
      "memory_getNext ''131234567'' ((\<lambda>_. 0)(''131234567'' := 1)) = (''E310000000002'', (\<lambda>_. 0)(''131234567'' := 2))"
      by (simp_all add: memory_getNext_def Let_def dec_int_def d setw0_def numeral_eq_Suc)
  qed
  have e: "rfce_encf demo_rfce = ''E320000000007''" "rfce_rnc demo_rfce = ''131234567''" by (simp_all add: demo_rfce_def)
  have v: "validateRfce (with_eNcf x demo_rfce) = []" if "length x = 13" for x
    using validateRfce_with [OF that, of demo_rfce] demo_rfce_valid e by simp
  have w: "with_eNcf x (with_eNcf y q) = with_eNcf x q" "rfce_rnc (with_eNcf x q) = rfce_rnc q" "rfce_encf (with_eNcf x q) = x"
    for x y q by (simp_all add: with_eNcf_def)
  have "fst (snd demo_rfce_run) = with_eNcf ''E310000000002'' demo_rfce \<and> length (snd (snd (snd demo_rfce_run))) = 3"
    by (simp add: client_sendRfce_def sendRfce_loop.simps [of _ 0] sendRfce_loop.simps [of _ "Suc 0"] sendRfce_loop.simps [of _ "Suc (Suc 0)"]
      sendRfce_loop.simps [of _ 2]
      demo_rfce_valid v w e n demo_ecf_client_def sign_rfce_def client_sendRfceXml_def schema_errors_def
      del: fun_upd_apply)
  then show "validateRfce demo_rfce = []" "rfce_encf (fst (snd demo_rfce_run)) = ''E310000000002''"
    "length (snd (snd (snd demo_rfce_run))) = 3"
    using demo_rfce_valid w by simp_all
qed

theorem rfce_send_bounded_and_valid_witness:
  "length (snd (snd (snd demo_rfce_run))) = 3 \<and> list_all (sent_valid demo_ecf_client demo_rfce) (snd (snd (snd demo_rfce_run)))"
  using rfce_send_bounded_and_valid [of demo_ecf_client demo_rfce "\<lambda>_. 0" "fst demo_rfce_run" "fst (snd demo_rfce_run)"
      "fst (snd (snd demo_rfce_run))" "snd (snd (snd demo_rfce_run))"] demo_rfce_facts(3)
  by simp

theorem retried_rfce_gets_E31_witness:
  "starts_with ''E31'' (rfce_encf (fst (snd demo_rfce_run))) \<and> ri_tipoeCF (rh_idDoc (rf_encabezado demo_rfce)) = ''32''"
proof -
  have "rfce_encf (fst (snd demo_rfce_run)) \<noteq> rfce_encf demo_rfce"
    unfolding demo_rfce_facts(2) by (simp add: demo_rfce_def)
  then show ?thesis
    using retried_rfce_gets_E31 [of demo_ecf_client demo_rfce "\<lambda>_. 0" "fst demo_rfce_run" "fst (snd demo_rfce_run)"
      "fst (snd (snd demo_rfce_run))" "snd (snd (snd demo_rfce_run))"]
    by (simp add: demo_ecf_client_def demo_rfce_def)
qed

end
