(* ===== verification/Documents_Submit.thy ===== *)
theory Documents_Submit
  imports Documents_Transmit
begin

text \<open>
  The second half of the issuing path of DocumentsController.cpp: \<open>reconcileUncertain\<close>,
  \<open>handleExistingDocument\<close> and \<open>submit\<close> with its validations, the choice of tenant,
  environment and sequence scope, the allocation of the number and the insertion of the
  document.  The parsed body and the headers and attributes the filters left are the record
  \<open>submit_request\<close>; a refusal of the validations is a value of \<open>submit_error\<close>, one
  constructor per message.
\<close>

subsection \<open>A document whose transmission is uncertain\<close>

definition NeverTransmittedStates :: "string list" where
  "NeverTransmittedStates = [''SequenceAllocated'', ''SigningFailed'', ''SchemaInvalid'', ''Unsigned'']"

definition not_found_estado :: "string \<Rightarrow> bool" where
  "not_found_estado estado \<longleftrightarrow> estado = ''No encontrado'' \<or> estado = ''no encontrado''"

text \<open>\<open>now - docTime < 2 min\<close>; the epoch stands for a time that did not parse.\<close>

definition too_young :: "int \<Rightarrow> EcfDocument \<Rightarrow> bool" where
  "too_young now doc \<longleftrightarrow> (let timestampStr = value_or (ae_updatedAt doc) (ae_createdAt doc);
       docTime = parseIsoUtc timestampStr
     in timestampStr \<noteq> [] \<and> docTime \<noteq> 0 \<and> now - docTime < 120)"

text \<open>The state and the response that follow from what \<open>consultarEstado\<close> reported.\<close>

definition apply_estado :: "string \<Rightarrow> EcfDocument \<Rightarrow> EcfDocument" where
  "apply_estado estadoTrim doc =
     (if accepted_estado estadoTrim then
        doc \<lparr> d_state := ''AcceptedByDgii'',
          d_dgiiResponseXml := Some (''Aceptado por DGII (Reconciliado): '' @ estadoTrim) \<rparr>
      else if lower estadoTrim = ''rechazado'' then
        doc \<lparr> d_state := ''RejectedByDgii'',
          d_dgiiResponseXml := Some (''Rechazado por DGII (Reconciliado): '' @ estadoTrim) \<rparr>
      else doc \<lparr> d_state := ''Signed'',
          d_dgiiResponseXml := Some (''En proceso en DGII: '' @ estadoTrim) \<rparr>)"

definition recover_trackId :: "dgii_client \<Rightarrow> EcfDocument \<Rightarrow> EcfDocument" where
  "recover_trackId client doc = (case cl_consultarTrackIds client (d_rncEmisor doc) (d_eNcf doc) of
       Inl e \<Rightarrow> doc
     | Inr [] \<Rightarrow> doc
     | Inr (t # ts) \<Rightarrow> if tid_trackId t \<noteq> [] then doc \<lparr> d_trackId := Some (tid_trackId t) \<rparr> else doc)"

definition stamp_sent :: "int \<Rightarrow> ConsultaEstadoResponse \<Rightarrow> EcfDocument \<Rightarrow> EcfDocument" where
  "stamp_sent now status doc =
     (if has_text (d_sentToDgiiAt doc) then doc
      else doc \<lparr> d_sentToDgiiAt := Some
        (if cer_fechaEmision status \<noteq> [] then cer_fechaEmision status else toIsoUtc now) \<rparr>)"

definition reconciled ::
    "int \<Rightarrow> dgii_client \<Rightarrow> ConsultaEstadoResponse \<Rightarrow> EcfDocument \<Rightarrow> EcfDocument \<times> event list" where
  "reconciled now client status doc =
     (let ask = \<not> has_text (d_trackId doc);
          d1 = (if ask then recover_trackId client doc else doc)
      in (apply_estado (trim (cer_estado status)) (stamp_sent now status d1),
          if ask then [AskedTrackIds (d_rncEmisor doc) (d_eNcf doc)] else []))"

definition reconciled_reply :: "EcfDocument \<Rightarrow> reply" where
  "reconciled_reply doc = \<lparr>
     rp_status = (if d_state doc = ''AcceptedByDgii'' then 200
       else if d_state doc = ''Signed'' then 202
       else if d_state doc = ''RejectedByDgii'' then 422 else 202),
     rp_json = status_fields doc
       @ (if d_state doc = ''RejectedByDgii''
          then [(''error'', JStr (value_or (d_dgiiResponseXml doc) ''Rechazado por DGII (Reconciliado)''))]
          else []) \<rparr>"

definition query_failed :: string where
  "query_failed = ''Fallo de comunicaci'' @ u_o @ ''n al consultar estado en DGII. Documento permanece en estado incierto.''"

text \<open>
  \<open>target\<close> gathers the arguments that say for whom a document is issued: tenant, environment,
  whether the defaults of the installation apply, issuer, its name and the sequence scope.
\<close>

record target =
  tg_tenant :: string
  tg_ambiente :: AmbienteEnum
  tg_isDefaultFallback :: bool
  tg_scope :: string
  tg_rnc :: string
  tg_razon :: string

text \<open>The content is rebuilt, saved, signed and sent.\<close>

definition reissue ::
    "services \<Rightarrow> int \<Rightarrow> string \<Rightarrow> xml_signer \<Rightarrow> dgii_client \<Rightarrow> CanonicalDocumentDto \<Rightarrow> target
     \<Rightarrow> EcfDocument \<Rightarrow> world \<Rightarrow> (exn + reply) \<times> world" where
  "reissue sv now usr signer client dto tg doc w =
     (let d = applyCanonicalContent sv now dto (src_editSequence (dto_sourceReference dto)) (tg_rnc tg) (tg_razon tg) doc
      in case save_one now usr d w of
           (Inl e, w1) \<Rightarrow> (Inl e, w1)
         | (Inr n, w1) \<Rightarrow> signAndSend sv now usr signer client (Some dto) (tg_isDefaultFallback tg) (tg_razon tg) d w1)"

definition reconcileUncertain ::
    "services \<Rightarrow> int \<Rightarrow> string \<Rightarrow> xml_signer \<Rightarrow> dgii_client \<Rightarrow> CanonicalDocumentDto \<Rightarrow> target
     \<Rightarrow> EcfDocument \<Rightarrow> world \<Rightarrow> (exn + reply) \<times> world" where
  "reconcileUncertain sv now usr signer client dto tg doc w =
     (if too_young now doc
      then (Inr \<lparr> rp_status = (if d_state doc = ''Signed'' then 202 else 409), rp_json = status_fields doc \<rparr>, w)
      else let w1 = log_events [AskedEstado (d_rncEmisor doc) (d_eNcf doc)] w in
        (case cl_consultarEstado client (d_rncEmisor doc) (d_eNcf doc) None None of
           Inl e \<Rightarrow> (Inr \<lparr> rp_status = 503,
             rp_json = status_fields doc @ [(''error'', JStr query_failed)] \<rparr>, w1)
         | Inr status \<Rightarrow>
             let estadoTrim = trim (cer_estado status) in
             if \<not> not_found_estado estadoTrim \<and> estadoTrim \<noteq> [] then
               (case reconciled now client status doc of (d1, evs) \<Rightarrow>
                  save_and_reply now usr d1 (reconciled_reply d1) (log_events evs w1))
             else reissue sv now usr signer client dto tg doc w1))"

subsection \<open>A document that exists already\<close>

text \<open>Calls of the sequence manager; each is one transaction on its own connection.\<close>

definition next_encf :: "int \<Rightarrow> string \<Rightarrow> string \<Rightarrow> world \<Rightarrow> (exn + string) \<times> world" where
  "next_encf now scope tipo w = (case next_fault w of (down, w1) \<Rightarrow>
     if down then (Inl ConnectionLost, w1)
     else case getNextEncf now scope tipo (w_seqs w1) of
         (Inl e, t) \<Rightarrow> (Inl (SequenceExn e), w1 \<lparr> w_seqs := t \<rparr>)
       | (Inr n, t) \<Rightarrow> (Inr n, w1 \<lparr> w_seqs := t \<rparr>))"

definition release_encf :: "int \<Rightarrow> string \<Rightarrow> string \<Rightarrow> string \<Rightarrow> world \<Rightarrow> world" where
  "release_encf now scope tipo encf w =
     (if length encf \<le> 3 then w
      else case next_fault w of (down, w1) \<Rightarrow>
        if down then w1 else w1 \<lparr> w_seqs := releaseUnusedEncf now scope tipo encf (w_seqs w1) \<rparr>)"

definition tipo_or_e31 :: "CanonicalDocumentDto \<Rightarrow> string" where
  "tipo_or_e31 dto = (if dto_tipoComprobante dto = [] then ''E31'' else dto_tipoComprobante dto)"

definition reissue_rejected ::
    "services \<Rightarrow> int \<Rightarrow> string \<Rightarrow> xml_signer \<Rightarrow> dgii_client \<Rightarrow> CanonicalDocumentDto \<Rightarrow> target
     \<Rightarrow> EcfDocument \<Rightarrow> world \<Rightarrow> (exn + reply) \<times> world" where
  "reissue_rejected sv now usr signer client dto tg doc w =
     (case next_encf now (tg_scope tg) (tipo_or_e31 dto) w of
        (Inl e, w1) \<Rightarrow> (Inl e, w1)
      | (Inr newEncf, w1) \<Rightarrow>
          let d0 = doc \<lparr> d_eNcf := newEncf, d_trackId := None, d_securityCode := None,
                d_dgiiResponseXml := None, d_sentToDgiiAt := None, d_state := ''AwaitingTransmission'' \<rparr>;
              d = applyCanonicalContent sv now dto (src_editSequence (dto_sourceReference dto)) (tg_rnc tg) (tg_razon tg) d0
          in (case save_one now usr d w1 of
                (Inl e, w2) \<Rightarrow> (Inl e, release_encf now (tg_scope tg) (tipo_or_e31 dto) newEncf w2)
              | (Inr n, w2) \<Rightarrow>
                  signAndSend sv now usr signer client (Some dto) (tg_isDefaultFallback tg) (tg_razon tg) d w2))"

definition edit_conflict_text :: string where
  "edit_conflict_text = ''SourceReference.EditSequence differs from the version already processed for this TxnId. ''
     @ ''The invoice was modified after its e-CF was issued; issue a correction document instead of resubmitting.''"

definition conflict_reply :: "EcfDocument \<Rightarrow> string \<Rightarrow> reply" where
  "conflict_reply doc editSequence = \<lparr> rp_status = 409, rp_json =
     [(''error'', JStr edit_conflict_text), (''documentId'', JStr (ae_id doc)), (''eNcf'', JStr (d_eNcf doc)),
      (''state'', JStr (d_state doc)), (''previousEditSequence'', JStr (d_editSequence doc)),
      (''incomingEditSequence'', JStr editSequence)] \<rparr>"

definition existing_reply :: "EcfDocument \<Rightarrow> reply" where
  "existing_reply doc = \<lparr>
     rp_status = (if d_state doc = ''AcceptedByDgii'' then 200
       else if d_state doc = ''RejectedByDgii'' then 422
       else if d_state doc = ''AwaitingTransmission'' then 409
       else if d_state doc = ''Uncertain'' then 503 else 202),
     rp_json =
     [(''documentId'', JStr (ae_id doc)), (''eNcf'', JStr (d_eNcf doc)), (''state'', JStr (d_state doc)),
      (''totalAmount'', JNum (d_totalAmount doc)), (''itbisAmount'', JNum (d_itbisAmount doc)),
      (''trackId'', JStr (value_or (d_trackId doc) [])), (''securityCode'', JStr (value_or (d_securityCode doc) [])),
      (''signedXml'', JStr (value_or (d_signedXmlContent doc) [])),
      (''dgiiResponse'', JStr (value_or (d_dgiiResponseXml doc) [])),
      (''dgiiResponseXml'', JStr (value_or (d_dgiiResponseXml doc) []))] \<rparr>"

definition handleExistingDocument ::
    "services \<Rightarrow> int \<Rightarrow> string \<Rightarrow> xml_signer \<Rightarrow> dgii_client \<Rightarrow> CanonicalDocumentDto \<Rightarrow> target
     \<Rightarrow> EcfDocument \<Rightarrow> world \<Rightarrow> (exn + reply) \<times> world" where
  "handleExistingDocument sv now usr signer client dto tg doc w =
     (if d_state doc \<in> set NeverTransmittedStates then reissue sv now usr signer client dto tg doc w
      else if d_state doc = ''Uncertain'' \<or> d_state doc = ''AwaitingTransmission''
      then reconcileUncertain sv now usr signer client dto tg doc w
      else if d_state doc = ''RejectedByDgii'' then reissue_rejected sv now usr signer client dto tg doc w
      else if d_editSequence doc \<noteq> src_editSequence (dto_sourceReference dto)
      then (Inr (conflict_reply doc (src_editSequence (dto_sourceReference dto))), w)
      else (Inr (existing_reply doc), w))"

subsection \<open>The validations of \<open>submit\<close>\<close>

datatype submit_error =
    InvalidJsonBody
  | JsonParsingError string
  | TxnIdRequired
  | CurrencyError currency_error
  | NoLines
  | TooManyLines
  | DiscountBeforeItem
  | NegativeQuantity string
  | NegativeDiscount string
  | NoBillableLine
  | NegativeTotals
  | InvalidRncEmisor string
  | InvalidTipo string
  | CorrectsEncfRequired string
  | CodigoModificacionRequired string
  | CodigoModificacionNotAllowed "int option" string
  | RncCompradorRequired string
  | InvalidRncComprador string string
  | BuyerIdRequiredOver250000
  | InvalidBuyerOver250000 string
  | VendorRncRequired
  | InvalidVendorRnc string
  | RetentionRequired string
  | NoBucketForRate int
  | ForeignTenant
  | UnknownEnvironment string

definition first_error :: "(bool \<times> 'e) list \<Rightarrow> 'e option" where
  "first_error checks = map_option snd (find fst checks)"

definition first_some :: "'a option \<Rightarrow> 'a option \<Rightarrow> 'a option" where
  "first_some x y = (case x of None \<Rightarrow> y | Some v \<Rightarrow> x)"

fun line_errors :: "CanonicalLineDto list \<Rightarrow> submit_error option" where
  "line_errors [] = None"
| "line_errors (l # ls) =
     (if dlt (ln_quantity l) dzero then Some (NegativeQuantity (ln_itemName l))
      else if dlt (ln_discountAmount l) dzero then Some (NegativeDiscount (ln_itemName l))
      else line_errors ls)"

definition hasBillableLine :: "CanonicalLineDto list \<Rightarrow> bool" where
  "hasBillableLine ls = list_ex (\<lambda>l. \<not> (deq (ln_amount l) dzero \<and> deq (ln_unitPrice l) dzero)) ls"

definition rnc_length_ok :: "string \<Rightarrow> bool" where
  "rnc_length_ok s \<longleftrightarrow> length (cleanDigits s) = 9 \<or> length (cleanDigits s) = 11"

definition normalizeTipo :: "string \<Rightarrow> string" where
  "normalizeTipo raw = (let t = trim (upper raw) in
     case t of [] \<Rightarrow> [] | c # cs \<Rightarrow> if c \<noteq> CHR ''E'' \<and> isdigit c then CHR ''E'' # t else t)"

definition ValidTipoEcfSet :: "string list" where
  "ValidTipoEcfSet = [''E31'', ''E32'', ''E33'', ''E34'', ''E41'', ''E43'', ''E44'', ''E45'', ''E46'', ''E47'']"

definition body_errors :: "CanonicalDocumentDto \<Rightarrow> submit_error option" where
  "body_errors dto =
     (let ls = dto_lines dto; t = dto_totals dto; cur = resolveCanonicalCurrency (dto_currency dto) in
      first_some
        (first_error
          [(src_txnId (dto_sourceReference dto) = [], TxnIdRequired),
           (res_validationError cur \<noteq> NoCurrencyError, CurrencyError (res_validationError cur)),
           (ls = [], NoLines),
           (1000 < length ls, TooManyLines),
           (case ls of [] \<Rightarrow> False
             | l # _ \<Rightarrow> dlt (ln_amount l) dzero \<or> dlt (ln_unitPrice l) dzero, DiscountBeforeItem)])
        (first_some (line_errors ls)
          (first_error
            [(\<not> hasBillableLine ls \<and> dlt dzero (tot_montoTotal t), NoBillableLine),
             (dlt (tot_montoSubtotal t) dzero \<or> dlt (tot_montoItbis t) dzero \<or> dlt (tot_montoTotal t) dzero,
              NegativeTotals),
             (hdr_rncEmisor (dto_header dto) \<noteq> [] \<and> \<not> rnc_length_ok (hdr_rncEmisor (dto_header dto)),
              InvalidRncEmisor (hdr_rncEmisor (dto_header dto))),
             (normalizeTipo (dto_tipoComprobante dto) \<notin> set ValidTipoEcfSet, InvalidTipo (dto_tipoComprobante dto))])))"

text \<open>\<open>tipo\<close> is the normalised type, already written back into the document.\<close>

definition reference_errors :: "string \<Rightarrow> CanonicalDocumentDto \<Rightarrow> submit_error option" where
  "reference_errors tipo dto =
     (let refs = dto_references dto in
      if tipo = ''E34'' \<or> tipo = ''E33'' then
        first_error
          [(ref_correctsENcf refs = [], CorrectsEncfRequired tipo),
           (ref_codigoModificacion refs = None, CodigoModificacionRequired tipo)]
      else if ref_correctsENcf refs \<noteq> [] \<and> value_or (ref_codigoModificacion refs) 0 \<noteq> 4
      then Some (CodigoModificacionNotAllowed (ref_codigoModificacion refs) tipo)
      else None)"

definition consumo_limit_reached :: "CanonicalDocumentDto \<Rightarrow> bool" where
  "consumo_limit_reached dto \<longleftrightarrow> dle (dint 250000)
     (round2 (dmul (tot_montoTotal (dto_totals dto)) (res_exchangeRate (resolveCanonicalCurrency (dto_currency dto)))))"

definition buyer_errors :: "string \<Rightarrow> CanonicalDocumentDto \<Rightarrow> submit_error option" where
  "buyer_errors tipo dto =
     (let rnc = hdr_rncComprador (dto_header dto) in
      if tipo = ''E31'' \<or> tipo = ''E45'' then
        first_error [(rnc = [], RncCompradorRequired tipo), (\<not> rnc_length_ok rnc, InvalidRncComprador rnc tipo)]
      else if tipo = ''E32'' then
        (if consumo_limit_reached dto then
           first_error
             [(rnc = [] \<and> \<not> has_text (hdr_identificadorExtranjero (dto_header dto)), BuyerIdRequiredOver250000),
              (rnc \<noteq> [] \<and> \<not> hasAlpha rnc \<and> \<not> rnc_length_ok rnc, InvalidBuyerOver250000 rnc)]
         else None)
      else if tipo = ''E41'' then
        first_error
          [(rnc = [], VendorRncRequired), (\<not> rnc_length_ok rnc, InvalidVendorRnc rnc),
           (dto_retention dto = None, RetentionRequired tipo)]
      else if tipo = ''E47'' then first_error [(dto_retention dto = None, RetentionRequired tipo)]
      else None)"

definition bucket_errors :: "CanonicalDocumentDto \<Rightarrow> submit_error option" where
  "bucket_errors dto = map_option (\<lambda>b. NoBucketForRate (bkt_rate b))
     (find (\<lambda>b. DgiiItbisSlots (bkt_rate b) = None) (tot_taxBuckets (dto_totals dto)))"

definition validate_submission :: "CanonicalDocumentDto \<Rightarrow> submit_error + CanonicalDocumentDto" where
  "validate_submission dto = (case body_errors dto of
       Some e \<Rightarrow> Inl e
     | None \<Rightarrow>
         let tipo = normalizeTipo (dto_tipoComprobante dto); dto1 = dto \<lparr> dto_tipoComprobante := tipo \<rparr> in
         (case first_some (reference_errors tipo dto1)
             (first_some (buyer_errors tipo dto1) (bucket_errors dto1)) of
            Some e \<Rightarrow> Inl e
          | None \<Rightarrow> Inr dto1))"

subsection \<open>Tenant, environment and scope\<close>

definition tryResolveAmbienteEnum :: "string \<Rightarrow> AmbienteEnum option" where
  "tryResolveAmbienteEnum rawEnv =
     (if rawEnv = [] then None
      else let lo = trim (lower rawEnv) in
        if lo = ''test'' \<or> lo = ''testecf'' \<or> contains ''precert'' lo \<or> lo = ''1'' then Some PreCertificacion
        else if lo = ''cert'' \<or> lo = ''certecf'' \<or> contains ''certific'' lo \<or> contains ''homolog'' lo \<or> lo = ''3''
        then Some Certificacion
        else if lo = ''prod'' \<or> lo = ''prd'' \<or> lo = ''production'' \<or> lo = ''ecf'' \<or> contains ''producc'' lo \<or> lo = ''2''
        then Some Produccion
        else None)"

definition resolveAmbienteEnum :: "string \<Rightarrow> AmbienteEnum \<Rightarrow> AmbienteEnum" where
  "resolveAmbienteEnum rawEnv dflt = value_or (tryResolveAmbienteEnum rawEnv) dflt"

datatype parsed_body =
    NoJson
  | BadDto string
  | Parsed CanonicalDocumentDto

text \<open>The attributes the filters set, the headers, and the body.\<close>

record submit_request =
  sr_tenantId :: "string option"
  sr_role :: "string option"
  sr_clientType :: "string option"
  sr_workerKeyId :: "string option"
  sr_username :: "string option"
  sr_hdrTenant :: string
  sr_hdrEnvironment :: string
  sr_body :: parsed_body

text \<open>The tenant at the top of \<open>submit\<close>, which also scopes the idempotency key.\<close>

definition request_tenant :: "submit_request \<Rightarrow> string" where
  "request_tenant req =
     (if sr_hdrTenant req \<noteq> [] then sr_hdrTenant req else value_or (sr_tenantId req) ''default-tenant'')"

definition is_worker_or_superadmin :: "submit_request \<Rightarrow> bool" where
  "is_worker_or_superadmin req \<longleftrightarrow> value_or (sr_clientType req) [] = ''worker''
     \<or> value_or (sr_role req) [] = ''Worker'' \<or> value_or (sr_role req) [] = ''SuperAdmin''"

definition effective_tenant :: "submit_request \<Rightarrow> CanonicalDocumentDto \<Rightarrow> submit_error + string" where
  "effective_tenant req dto =
     (if is_worker_or_superadmin req then
        Inr (if sr_hdrTenant req \<noteq> [] then sr_hdrTenant req
             else if has_text (dto_tenantId dto) then value_or (dto_tenantId dto) []
             else request_tenant req)
      else if has_text (dto_tenantId dto) \<and> value_or (dto_tenantId dto) [] \<noteq> request_tenant req
      then Inl ForeignTenant
      else Inr (request_tenant req))"

definition raw_environment :: "submit_request \<Rightarrow> CanonicalDocumentDto \<Rightarrow> string" where
  "raw_environment req dto =
     (if sr_hdrEnvironment req = [] then value_or (dto_environment dto) [] else sr_hdrEnvironment req)"

definition target_ambiente :: "services \<Rightarrow> string \<Rightarrow> submit_error + AmbienteEnum" where
  "target_ambiente sv rawEnv =
     (if rawEnv = [] then Inr (toAmbiente (sv_environment sv))
      else case tryResolveAmbienteEnum rawEnv of
          None \<Rightarrow> Inl (UnknownEnvironment rawEnv)
        | Some a \<Rightarrow> Inr a)"

definition default_issuer :: "services \<Rightarrow> string" where
  "default_issuer sv = (if sv_emisorRnc sv = [] then value_or (sv_optionsRnc sv) ''101672919'' else sv_emisorRnc sv)"

definition default_razon :: "services \<Rightarrow> string" where
  "default_razon sv = (if sv_emisorRazonSocial sv = [] then ''EMPRESA EMISORA'' else sv_emisorRazonSocial sv)"

definition sequence_scope :: "bool \<Rightarrow> string \<Rightarrow> AmbienteEnum \<Rightarrow> string" where
  "sequence_scope isDefaultFallback tenantId amb =
     (if isDefaultFallback then ''default-tenant'' else tenantId @ '':'' @ ambienteToString amb)"

definition resolve_target :: "services \<Rightarrow> submit_request \<Rightarrow> CanonicalDocumentDto \<Rightarrow> submit_error + target" where
  "resolve_target sv req dto = (case effective_tenant req dto of
       Inl e \<Rightarrow> Inl e
     | Inr tenant \<Rightarrow> (case target_ambiente sv (raw_environment req dto) of
         Inl e \<Rightarrow> Inl e
       | Inr amb \<Rightarrow>
           let fb = (tenant = ''default-tenant'' \<and> raw_environment req dto = [] \<and> sr_hdrTenant req = []
                     \<and> \<not> has_text (dto_tenantId dto))
           in Inr \<lparr> tg_tenant = tenant, tg_ambiente = amb, tg_isDefaultFallback = fb,
                tg_scope = sequence_scope fb tenant amb,
                tg_rnc = (if \<not> fb \<and> hdr_rncEmisor (dto_header dto) \<noteq> []
                  then hdr_rncEmisor (dto_header dto) else default_issuer sv),
                tg_razon = (if \<not> fb \<and> hdr_razonSocialEmisor (dto_header dto) \<noteq> []
                  then hdr_razonSocialEmisor (dto_header dto) else default_razon sv) \<rparr>))"

subsection \<open>\<open>submit\<close>\<close>

definition db_read :: "(doc_table \<Rightarrow> 'a) \<Rightarrow> world \<Rightarrow> (exn + 'a) \<times> world" where
  "db_read q w = (case next_fault w of (down, w1) \<Rightarrow>
     if down then (Inl ConnectionLost, w1) else (Inr (q (w_docs w1)), w1))"

text \<open>\<open>makeScope\<close> opens the connection of the unit of work.\<close>

definition makeScope :: "world \<Rightarrow> (exn + unit) \<times> world" where
  "makeScope w = db_read (\<lambda>_. ()) w"

definition race_lost :: "exn \<Rightarrow> bool" where
  "race_lost e \<longleftrightarrow> contains TenantSourceTxnUniqueConstraint (exn_what e) \<or> contains ''23505'' (exn_what e)"

definition find_submitted :: "CanonicalDocumentDto \<Rightarrow> target \<Rightarrow> doc_table \<Rightarrow> EcfDocument option" where
  "find_submitted dto tg = doc_getBySourceTxnId (tg_tenant tg) (src_txnId (dto_sourceReference dto))
     (Some (ambienteToString (tg_ambiente tg)))"

definition internal_error :: reply where
  "internal_error = err_reply ''Error interno al procesar el documento en base de datos.'' 500"

text \<open>After a failed insert: the number goes back, and the winner of a race is served instead.\<close>

definition recover_insert ::
    "services \<Rightarrow> int \<Rightarrow> string \<Rightarrow> xml_signer \<Rightarrow> dgii_client \<Rightarrow> CanonicalDocumentDto \<Rightarrow> target
     \<Rightarrow> string \<Rightarrow> exn \<Rightarrow> world \<Rightarrow> (exn + reply) \<times> world" where
  "recover_insert sv now usr signer client dto tg eNcf e w =
     (let w1 = release_encf now (tg_scope tg) (dto_tipoComprobante dto) eNcf w in
      if race_lost e then
        (case makeScope w1 of
           (Inl x, w2) \<Rightarrow> (Inl x, w2)
         | (Inr u, w2) \<Rightarrow> (case db_read (find_submitted dto tg) w2 of
             (Inl x, w3) \<Rightarrow> (Inl x, w3)
           | (Inr (Some winner), w3) \<Rightarrow> handleExistingDocument sv now usr signer client dto tg winner w3
           | (Inr None, w3) \<Rightarrow> (Inr internal_error, w3)))
      else (Inr internal_error, w1))"

definition created_document ::
    "services \<Rightarrow> int \<Rightarrow> string \<Rightarrow> CanonicalDocumentDto \<Rightarrow> target \<Rightarrow> string \<Rightarrow> EcfDocument" where
  "created_document sv now uuid dto tg eNcf =
     applyCanonicalContent sv now dto (src_editSequence (dto_sourceReference dto)) (tg_rnc tg) (tg_razon tg)
       (new_document \<lparr> ae_id := uuid, d_tenantId := tg_tenant tg,
          d_sourceTxnId := src_txnId (dto_sourceReference dto), d_eNcf := eNcf,
          d_ambiente := Some (ambienteToString (tg_ambiente tg)) \<rparr>)"

definition create_document ::
    "services \<Rightarrow> int \<Rightarrow> string \<Rightarrow> string \<Rightarrow> xml_signer \<Rightarrow> dgii_client \<Rightarrow> CanonicalDocumentDto \<Rightarrow> target
     \<Rightarrow> world \<Rightarrow> (exn + reply) \<times> world" where
  "create_document sv now usr uuid signer client dto tg w =
     (case next_encf now (tg_scope tg) (dto_tipoComprobante dto) w of
        (Inl e, w1) \<Rightarrow> (Inr (err_reply (exn_what e) 503), w1)
      | (Inr eNcf, w1) \<Rightarrow>
          let doc = created_document sv now uuid dto tg eNcf in
          (case saveChanges [add_op now uuid usr doc] w1 of
             (Inl e, w2) \<Rightarrow> recover_insert sv now usr signer client dto tg eNcf e w2
           | (Inr n, w2) \<Rightarrow>
               signAndSend sv now usr signer client (Some dto) (tg_isDefaultFallback tg) (tg_razon tg) doc w2))"

definition issue_document ::
    "services \<Rightarrow> int \<Rightarrow> string \<Rightarrow> string \<Rightarrow> CanonicalDocumentDto \<Rightarrow> target \<Rightarrow> world \<Rightarrow> (exn + reply) \<times> world" where
  "issue_document sv now usr uuid dto tg w =
     (let signer = resolveSigner sv (tg_tenant tg) (tg_rnc tg) (dto_certificate dto) (tg_isDefaultFallback tg);
          client = resolveEcfClient sv (tg_rnc tg) signer (tg_ambiente tg) (tg_isDefaultFallback tg)
      in case makeScope w of
           (Inl e, w1) \<Rightarrow> (Inl e, w1)
         | (Inr u, w1) \<Rightarrow> (case db_read (find_submitted dto tg) w1 of
             (Inl e, w2) \<Rightarrow> (Inr (err_reply (''Database query error: '' @ exn_what e) 500), w2)
           | (Inr (Some existing), w2) \<Rightarrow>
               (case handleExistingDocument sv now usr signer client dto tg existing w2 of
                  (Inl e, w3) \<Rightarrow> (Inr (err_reply (''Database query error: '' @ exn_what e) 500), w3)
                | (Inr rep, w3) \<Rightarrow> (Inr rep, w3))
           | (Inr None, w2) \<Rightarrow> create_document sv now usr uuid signer client dto tg w2))"

datatype submit_outcome =
    Refused submit_error
  | Answered reply

text \<open>The endpoint behind the idempotency handler.\<close>

definition submit_action ::
    "services \<Rightarrow> int \<Rightarrow> string \<Rightarrow> submit_request \<Rightarrow> world \<Rightarrow> (exn + submit_outcome) \<times> world" where
  "submit_action sv now uuid req w = (case sr_body req of
       NoJson \<Rightarrow> (Inr (Refused InvalidJsonBody), w)
     | BadDto s \<Rightarrow> (Inr (Refused (JsonParsingError s)), w)
     | Parsed dto0 \<Rightarrow> (case validate_submission dto0 of
         Inl e \<Rightarrow> (Inr (Refused e), w)
       | Inr dto \<Rightarrow> (case resolve_target sv req dto of
           Inl e \<Rightarrow> (Inr (Refused e), w)
         | Inr tg \<Rightarrow>
             (case issue_document sv now (auditUsername (sr_username req)) uuid dto tg w of
                (Inl e, w1) \<Rightarrow> (Inl e, w1)
              | (Inr rep, w1) \<Rightarrow> (Inr (Answered rep), w1)))))"

subsection \<open>Steps that transmit nothing, and steps that journal what they transmit\<close>

definition quiet :: "world \<Rightarrow> world \<Rightarrow> bool" where
  "quiet w w' \<longleftrightarrow> prefix (w_trace w) (w_trace w') \<and> transmissions (new_events w w') = 0"

definition careful :: "world \<Rightarrow> world \<Rightarrow> bool" where
  "careful w w' \<longleftrightarrow> prefix (w_trace w) (w_trace w') \<and> journalled [] (new_events w w')
     \<and> transmissions (new_events w w') \<le> 1"

named_theorems quiet_steps \<open>operations that transmit nothing\<close>

lemma silent_journalled: "transmissions evs = 0 \<Longrightarrow> journalled js evs"
proof (induction evs arbitrary: js)
  case (Cons e evs)
  then show ?case by (cases e) auto
qed simp

lemma new_events_trans:
  "prefix (w_trace w) (w_trace w1) \<Longrightarrow> prefix (w_trace w1) (w_trace w2) \<Longrightarrow>
    prefix (w_trace w) (w_trace w2) \<and> new_events w w2 = new_events w w1 @ new_events w1 w2"
  by (auto simp: prefix_def new_events_def)

lemma quiet_refl [simp, quiet_steps]: "quiet w w"
  by (simp add: quiet_def new_events_def)

lemma quiet_trans: "quiet w w1 \<Longrightarrow> quiet w1 w2 \<Longrightarrow> quiet w w2"
  using new_events_trans [of w w1 w2] by (auto simp: quiet_def)

lemma quiet_careful: "quiet w w' \<Longrightarrow> careful w w'"
  by (simp add: quiet_def careful_def silent_journalled)

lemma quiet_then_careful: "quiet w w1 \<Longrightarrow> careful w1 w2 \<Longrightarrow> careful w w2"
  using new_events_trans [of w w1 w2]
  by (auto simp: quiet_def careful_def silent_journalled journalled_append)

lemma quiet_traceI: "w_trace w' = w_trace w @ evs \<Longrightarrow> transmissions evs = 0 \<Longrightarrow> quiet w w'"
  by (simp add: quiet_def)

lemma quiet_log [quiet_steps]: "transmissions evs = 0 \<Longrightarrow> quiet w (log_events evs w)"
  by (rule quiet_traceI [of _ _ evs]) simp_all

lemma quiet_next_fault [quiet_steps]: "next_fault w = (b, w1) \<Longrightarrow> quiet w w1"
  by (rule quiet_traceI [of _ _ "[]"]) simp_all

lemma quiet_saveChanges [quiet_steps]: "saveChanges ops w = (r, w') \<Longrightarrow> quiet w w'"
proof -
  assume s: "saveChanges ops w = (r, w')"
  have z: "transmissions (map (Saved \<circ> op_row) xs) = 0" for xs by (induction xs) simp_all
  obtain b w1 where f: "next_fault w = (b, w1)" by force
  show ?thesis
  proof (cases "\<exists>n. r = Inr n \<and> ops \<noteq> []")
    case True
    then have "w_trace w' = w_trace w @ map (Saved \<circ> op_row) ops"
      using s f by (auto simp: saveChanges_def split: if_splits sum.splits)
    then show ?thesis using z by (rule quiet_traceI)
  next
    case False
    then have "w_trace w' = w_trace w @ []"
      using s f by (auto simp: saveChanges_def split: if_splits sum.splits)
    then show ?thesis by (rule quiet_traceI) simp
  qed
qed

lemma quiet_save_one [quiet_steps]: "save_one now usr d w = (r, w') \<Longrightarrow> quiet w w'"
  unfolding save_one_def by (rule quiet_saveChanges)

lemma quiet_save_and_reply [quiet_steps]: "save_and_reply now usr d rep w = (r, w') \<Longrightarrow> quiet w w'"
  by (auto simp: save_and_reply_def intro: quiet_save_one split: prod.splits sum.splits)

lemma quiet_next_encf [quiet_steps]: "next_encf now scope tipo w = (r, w') \<Longrightarrow> quiet w w'"
  by (intro quiet_traceI [of _ _ "[]"]) (auto simp: next_encf_def split: prod.splits sum.splits if_splits)

lemma quiet_release [quiet_steps]: "quiet w (release_encf now scope tipo encf w)"
  by (intro quiet_traceI [of _ _ "[]"]) (auto simp: release_encf_def split: prod.splits if_splits)

lemma quiet_db_read [quiet_steps]: "db_read q w = (r, w') \<Longrightarrow> quiet w w'"
  by (intro quiet_traceI [of _ _ "[]"]) (auto simp: db_read_def split: prod.splits if_splits)

lemma quiet_makeScope [quiet_steps]: "makeScope w = (r, w') \<Longrightarrow> quiet w w'"
  unfolding makeScope_def by (rule quiet_db_read)

subsection \<open>Every path of \<open>submit\<close> is careful\<close>

lemma careful_signAndSend: "signAndSend sv now usr sg cl dto fb rs d w = (r, w') \<Longrightarrow> careful w w'"
  using signAndSend_journals_first [of sv now usr sg cl dto fb rs d w] by (simp add: careful_def Let_def)

lemma careful_reissue: "reissue sv now usr sg cl dto tg d w = (r, w') \<Longrightarrow> careful w w'"
  by (auto simp: reissue_def Let_def intro: quiet_careful quiet_save_one quiet_then_careful careful_signAndSend
      split: prod.splits sum.splits)

lemma quiet_reconciled: "reconciled now cl st d = (d1, evs) \<Longrightarrow> quiet w (log_events evs w)"
  by (auto simp: reconciled_def Let_def intro!: quiet_log split: if_splits)

lemma careful_reconcileUncertain:
  assumes "reconcileUncertain sv now usr sg cl dto tg d w = (r, w')"
  shows "careful w w'"
proof (cases "too_young now d")
  case True
  then show ?thesis using assms by (auto simp: reconcileUncertain_def intro: quiet_careful)
next
  case False
  let ?w1 = "log_events [AskedEstado (d_rncEmisor d) (d_eNcf d)] w"
  have q1: "quiet w ?w1" by (simp add: quiet_log)
  show ?thesis
  proof (cases "cl_consultarEstado cl (d_rncEmisor d) (d_eNcf d) None None")
    case (Inl e)
    then show ?thesis using assms False q1 by (auto simp: reconcileUncertain_def Let_def intro: quiet_careful)
  next
    case (Inr st)
    obtain d1 evs where rc: "reconciled now cl st d = (d1, evs)" by force
    show ?thesis
    proof (cases "\<not> not_found_estado (trim (cer_estado st)) \<and> trim (cer_estado st) \<noteq> []")
      case True
      then have "save_and_reply now usr d1 (reconciled_reply d1) (log_events evs ?w1) = (r, w')"
        using assms False Inr rc by (simp add: reconcileUncertain_def Let_def)
      from quiet_save_and_reply [OF this] quiet_reconciled [OF rc] q1 show ?thesis
        by (blast intro: quiet_careful quiet_trans)
    next
      case unknown: False
      then have "reissue sv now usr sg cl dto tg d ?w1 = (r, w')"
        using assms False Inr by (auto simp: reconcileUncertain_def Let_def)
      from careful_reissue [OF this] q1 show ?thesis by (blast intro: quiet_then_careful)
    qed
  qed
qed

lemma careful_reissue_rejected:
  assumes "reissue_rejected sv now usr sg cl dto tg d w = (r, w')"
  shows "careful w w'"
proof -
  obtain x w1 where n: "next_encf now (tg_scope tg) (tipo_or_e31 dto) w = (x, w1)" by force
  note q1 = quiet_next_encf [OF n]
  show ?thesis
  proof (cases x)
    case (Inl e)
    then show ?thesis using assms n q1 by (auto simp: reissue_rejected_def intro: quiet_careful)
  next
    case (Inr newEncf)
    let ?d = "applyCanonicalContent sv now dto (src_editSequence (dto_sourceReference dto)) (tg_rnc tg) (tg_razon tg)
      (d \<lparr> d_eNcf := newEncf, d_trackId := None, d_securityCode := None, d_dgiiResponseXml := None,
          d_sentToDgiiAt := None, d_state := ''AwaitingTransmission'' \<rparr>)"
    obtain y w2 where s: "save_one now usr ?d w1 = (y, w2)" by force
    note q2 = quiet_trans [OF q1 quiet_save_one [OF s]]
    show ?thesis
    proof (cases y)
      case (Inl e)
      then have "w' = release_encf now (tg_scope tg) (tipo_or_e31 dto) newEncf w2"
        using assms n s Inr by (simp add: reissue_rejected_def Let_def)
      then show ?thesis using q2 quiet_release quiet_trans quiet_careful by blast
    next
      case (Inr k)
      then have "signAndSend sv now usr sg cl (Some dto) (tg_isDefaultFallback tg) (tg_razon tg) ?d w2 = (r, w')"
        using assms n s \<open>x = Inr newEncf\<close> by (simp add: reissue_rejected_def Let_def)
      from careful_signAndSend [OF this] q2 show ?thesis by (blast intro: quiet_then_careful)
    qed
  qed
qed

lemma careful_handleExisting:
  "handleExistingDocument sv now usr sg cl dto tg d w = (r, w') \<Longrightarrow> careful w w'"
  by (auto simp: handleExistingDocument_def careful_reissue careful_reconcileUncertain careful_reissue_rejected
      quiet_careful split: if_splits)

lemma careful_recover_insert:
  assumes "recover_insert sv now usr sg cl dto tg e x w = (r, w')"
  shows "careful w w'"
proof -
  let ?w1 = "release_encf now (tg_scope tg) (dto_tipoComprobante dto) e w"
  obtain a w2 where m: "makeScope ?w1 = (a, w2)" by force
  obtain b w3 where f: "db_read (find_submitted dto tg) w2 = (b, w3)" by force
  have q1: "quiet w ?w1" by (rule quiet_release)
  have q2: "quiet w w2" by (rule quiet_trans [OF q1 quiet_makeScope [OF m]])
  have q3: "quiet w w3" by (rule quiet_trans [OF q2 quiet_db_read [OF f]])
  show ?thesis
    using assms m f q1 q2 q3 careful_handleExisting
    by (auto simp: recover_insert_def Let_def intro: quiet_careful quiet_then_careful
        split: if_splits sum.splits option.splits)
qed

lemma careful_create:
  assumes "create_document sv now usr uuid sg cl dto tg w = (r, w')"
  shows "careful w w'"
proof -
  obtain x w1 where n: "next_encf now (tg_scope tg) (dto_tipoComprobante dto) w = (x, w1)" by force
  note q1 = quiet_next_encf [OF n]
  show ?thesis
  proof (cases x)
    case (Inl e)
    then show ?thesis using assms n q1 by (auto simp: create_document_def intro: quiet_careful)
  next
    case (Inr encf)
    obtain y w2 where s: "saveChanges [add_op now uuid usr (created_document sv now uuid dto tg encf)] w1 = (y, w2)"
      by force
    have q2: "quiet w w2" by (rule quiet_trans [OF q1 quiet_saveChanges [OF s]])
    show ?thesis
      using assms n s Inr q2 careful_recover_insert careful_signAndSend
      by (cases y) (auto simp: create_document_def Let_def intro: quiet_then_careful)
  qed
qed

lemma careful_issue:
  assumes "issue_document sv now usr uuid dto tg w = (r, w')"
  shows "careful w w'"
proof -
  obtain a w1 where m: "makeScope w = (a, w1)" by force
  obtain b w2 where f: "db_read (find_submitted dto tg) w1 = (b, w2)" by force
  have q2: "quiet w w2" by (rule quiet_trans [OF quiet_makeScope [OF m] quiet_db_read [OF f]])
  show ?thesis
    using assms m f q2 quiet_makeScope [OF m] careful_handleExisting careful_create
    by (auto simp: issue_document_def Let_def intro: quiet_careful quiet_then_careful
        split: prod.splits sum.splits option.splits)
qed

lemma careful_submit: "submit_action sv now uuid req w = (r, w') \<Longrightarrow> careful w w'"
  using careful_issue
  by (auto simp: submit_action_def intro: quiet_careful split: parsed_body.splits sum.splits prod.splits)

lemma first_error_None [simp]: "first_error checks = None \<longleftrightarrow> (\<forall>c \<in> set checks. \<not> fst c)"
  by (auto simp: first_error_def find_None_iff)

lemma first_some_None [simp]: "first_some x y = None \<longleftrightarrow> x = None \<and> y = None"
  by (simp add: first_some_def split: option.splits)

lemma line_errors_None:
  "line_errors ls = None \<longleftrightarrow> (\<forall>l \<in> set ls. \<not> dlt (ln_quantity l) dzero \<and> \<not> dlt (ln_discountAmount l) dzero)"
  by (induction ls) auto

lemma normalizeTipo_valid: "t \<in> set ValidTipoEcfSet \<Longrightarrow> normalizeTipo t = t"
  unfolding ValidTipoEcfSet_def by (simp; elim disjE; simp only:; code_simp)

text \<open>A state in which a resubmission is answered from the table.\<close>

definition settled_state :: "string \<Rightarrow> bool" where
  "settled_state st \<longleftrightarrow> st \<notin> set NeverTransmittedStates
     \<and> st \<notin> {''Uncertain'', ''AwaitingTransmission'', ''RejectedByDgii''}"

definition demo_request :: submit_request where
  "demo_request = \<lparr> sr_tenantId = Some ''tenant-a'', sr_role = Some ''User'', sr_clientType = None,
     sr_workerKeyId = None, sr_username = None, sr_hdrTenant = ''tenant-b'', sr_hdrEnvironment = [],
     sr_body = Parsed default_dto \<rparr>"

definition demo_line :: CanonicalLineDto where
  "demo_line = default_line \<lparr> ln_itemName := ''Tinta'', ln_quantity := dint 1, ln_unitPrice := dint 100,
     ln_amount := dint 100 \<rparr>"

definition demo_invoice :: CanonicalDocumentDto where
  "demo_invoice = default_dto \<lparr> dto_tipoComprobante := ''31'',
     dto_sourceReference := \<lparr> src_provider = ''QuickBooksDesktop'', src_txnId = ''T'', src_editSequence = ''1'' \<rparr>,
     dto_header := dto_header default_dto \<lparr> hdr_rncComprador := ''101-00000-1'' \<rparr>,
     dto_lines := [demo_line] \<rparr>"

lemma demo_invoice_valid:
  "validate_submission demo_invoice = Inr (demo_invoice \<lparr> dto_tipoComprobante := ''E31'' \<rparr>)"
proof -
  have a: "body_errors demo_invoice = None" by code_simp
  have t: "normalizeTipo (dto_tipoComprobante demo_invoice) = ''E31''" by code_simp
  let ?d = "demo_invoice \<lparr> dto_tipoComprobante := ''E31'' \<rparr>"
  have b: "reference_errors ''E31'' ?d = None" "buyer_errors ''E31'' ?d = None" "bucket_errors ?d = None"
    by code_simp+
  show ?thesis using a t b by (simp add: validate_submission_def first_some_def Let_def)
qed

definition demo_target :: target where
  "demo_target = \<lparr> tg_tenant = ''default-tenant'', tg_ambiente = PreCertificacion, tg_isDefaultFallback = True,
     tg_scope = ''default-tenant'', tg_rnc = ''131234567'', tg_razon = ''ACME'' \<rparr>"

definition demo_doubtful :: EcfDocument where
  "demo_doubtful = demo_document \<lparr> d_state := ''Uncertain'' \<rparr>"

definition demo_uncertain :: "string \<Rightarrow> (exn + reply) \<times> world" where
  "demo_uncertain estado = reconcileUncertain (demo_services False estado) 1709210096 ''System'' (demo_signer False)
     (demo_client estado) demo_invoice demo_target demo_doubtful demo_world"

lemma transmit_sends:
  "transmit sv now sg cl dto fb rs doc = (d, evs) \<Longrightarrow> d_state d \<noteq> ''Uncertain'' \<Longrightarrow> transmissions evs = 1"
  by (auto simp: transmit_def transmit_rfce_def transmit_ecf_def Let_def
      split: prod.splits sum.splits if_splits option.splits)

lemma reply_status_pair: "reply_status (fst p) = Some n \<Longrightarrow> p = (Inr (projr (fst p)), snd p)"
  by (cases p) (auto simp: reply_status_def split: sum.splits)

lemma demo_doc_facts: "d_eNcf demo_document = ''E310000000001''" "ae_id demo_document = ''d1''"
  "d_rncEmisor demo_document = ''131234567''" "d_ncf demo_document = None"
  by (simp_all add: demo_document_def new_document_def)

lemma demo_uncertain_run:
  "reply_status (fst (demo_uncertain [])) = Some 202 \<and> transmissions (new_events demo_world (snd (demo_uncertain []))) = 1"
proof -
  obtain x t i where b: "buildXmlFromCanonical (\<lambda>y m d. 0) 1709210096 demo_invoice ''E310000000001'' ''131234567'' ''ACME'' = (x, t, i)"
    by (cases "buildXmlFromCanonical (\<lambda>y m d. 0) 1709210096 demo_invoice ''E310000000001'' ''131234567'' ''ACME''") auto
  have y: "\<not> too_young 1709210096 (demo_document \<lparr> d_state := ''Uncertain'' \<rparr>)"
    by (simp add: too_young_def demo_document_def new_document_def)
  show ?thesis
    using b y
    by (simp add: demo_uncertain_def demo_doubtful_def demo_target_def reconcileUncertain_def reissue_def applyCanonicalContent_def demo_services_def
      demo_client_def demo_estado_def demo_resultado_def demo_signer_def demo_world_def signAndSend_def sign_document_def calcularCodigoSeguridad_def
      transmit_def transmit_ecf_def save_one_def saveChanges_def next_fault_def exec_op_def update_op_def is_rfce_def
      demo_doc_facts save_outcome_def apply_resultado_def sent_reply_def status_of_state_def reply_status_def
      not_found_estado_def Let_def new_events_def log_events_def updated_row_def)
qed

lemmas demo_uncertain_status = demo_uncertain_run [THEN conjunct1]

subsection \<open>Properties\<close>

text \<open>C5. A whole submission, on whatever path (new document, resubmission, lost race, rejected
  document issued again), transmits at most once, and only what it has committed before.\<close>

theorem submit_journals_first:
  "careful w (snd (submit_action sv now uuid req w))"
  by (rule careful_submit) (rule prod.collapse [symmetric])

text \<open>A request the validations refuse changes nothing: no number is taken, nothing is stored,
  nothing is sent.\<close>

theorem refused_submission_changes_nothing:
  assumes "submit_action sv now uuid req w = (Inr (Refused e), w')"
  shows "w' = w"
  using assms by (auto simp: submit_action_def split: parsed_body.splits sum.splits prod.splits)

theorem refused_submission_changes_nothing_witness:
  "snd (submit_action (demo_services False []) 0 [] demo_request demo_world) = demo_world"
proof -
  have "validate_submission default_dto = Inl TxnIdRequired" by code_simp
  then have "submit_action (demo_services False []) 0 [] demo_request demo_world = (Inr (Refused TxnIdRequired), demo_world)"
    by (simp add: submit_action_def demo_request_def)
  from refused_submission_changes_nothing [OF this] this show ?thesis by simp
qed

text \<open>What passes the validations meets the rules of its e-CF type: a supported type, 1 to
  1000 lines without negative quantities or discounts, a 9 or 11 digit buyer where the type
  names one, a modified receipt with a code for notes, a retention for purchases and payments
  abroad, an identified buyer from RD$ 250,000 on, and only ITBIS rates with a slot.\<close>

theorem validated_submission_meets_rules:
  assumes "validate_submission dto = Inr dto'"
  shows "dto_tipoComprobante dto' \<in> set ValidTipoEcfSet \<and> dto_lines dto' \<noteq> [] \<and> length (dto_lines dto') \<le> 1000
    \<and> (\<forall>l \<in> set (dto_lines dto'). \<not> dlt (ln_quantity l) dzero \<and> \<not> dlt (ln_discountAmount l) dzero)
    \<and> (dto_tipoComprobante dto' \<in> {''E31'', ''E45'', ''E41''} \<longrightarrow> rnc_length_ok (hdr_rncComprador (dto_header dto')))
    \<and> (dto_tipoComprobante dto' \<in> {''E33'', ''E34''} \<longrightarrow> ref_correctsENcf (dto_references dto') \<noteq> []
         \<and> ref_codigoModificacion (dto_references dto') \<noteq> None)
    \<and> (dto_tipoComprobante dto' \<in> {''E41'', ''E47''} \<longrightarrow> dto_retention dto' \<noteq> None)
    \<and> (dto_tipoComprobante dto' = ''E32'' \<and> consumo_limit_reached dto' \<longrightarrow>
         hdr_rncComprador (dto_header dto') \<noteq> [] \<or> has_text (hdr_identificadorExtranjero (dto_header dto')))
    \<and> (\<forall>b \<in> set (tot_taxBuckets (dto_totals dto')). DgiiItbisSlots (bkt_rate b) \<noteq> None)"
proof -
  let ?t = "normalizeTipo (dto_tipoComprobante dto)"
  have b: "body_errors dto = None" and d': "dto' = dto \<lparr> dto_tipoComprobante := ?t \<rparr>"
    and r: "reference_errors ?t dto' = None" and y: "buyer_errors ?t dto' = None" and k: "bucket_errors dto' = None"
    using assms by (auto simp: validate_submission_def Let_def split: option.splits)
  have body: "?t \<in> set ValidTipoEcfSet" "dto_lines dto \<noteq> []" "length (dto_lines dto) \<le> 1000" "line_errors (dto_lines dto) = None"
    using b by (auto simp: body_errors_def Let_def)
  have buckets: "\<forall>b \<in> set (tot_taxBuckets (dto_totals dto')). DgiiItbisSlots (bkt_rate b) \<noteq> None"
    using k by (auto simp: bucket_errors_def find_None_iff)
  have tipo: "dto_tipoComprobante dto' = ?t" by (simp add: d')
  have modif: "?t \<in> {''E33'', ''E34''} \<longrightarrow> ref_correctsENcf (dto_references dto') \<noteq> []
      \<and> ref_codigoModificacion (dto_references dto') \<noteq> None"
    using r by (auto simp: reference_errors_def Let_def)
  have buyer: "?t \<in> {''E31'', ''E45'', ''E41''} \<longrightarrow> rnc_length_ok (hdr_rncComprador (dto_header dto'))"
    "?t \<in> {''E41'', ''E47''} \<longrightarrow> dto_retention dto' \<noteq> None"
    "?t = ''E32'' \<and> consumo_limit_reached dto' \<longrightarrow>
       hdr_rncComprador (dto_header dto') \<noteq> [] \<or> has_text (hdr_identificadorExtranjero (dto_header dto'))"
    using y by (auto simp: buyer_errors_def Let_def split: if_splits)
  show ?thesis unfolding tipo using body buckets modif buyer line_errors_None [of "dto_lines dto"]
    by (simp add: d')
qed

theorem validated_submission_meets_rules_witness:
  "rnc_length_ok (hdr_rncComprador (dto_header demo_invoice)) \<and> normalizeTipo (dto_tipoComprobante demo_invoice) = ''E31''"
proof -
  have "normalizeTipo (dto_tipoComprobante demo_invoice) = ''E31''" by code_simp
  with validated_submission_meets_rules [OF demo_invoice_valid] show ?thesis by simp
qed

text \<open>A document in a settled state (accepted, in process at the DGII, under manual review)
  is never touched by a resubmission: the answer comes from the table, 409 when the source
  document was edited since.\<close>

theorem settled_document_is_final:
  assumes "settled_state (d_state doc)"
  shows "\<exists>rep. handleExistingDocument sv now usr signer client dto tg doc w = (Inr rep, w)
    \<and> rp_status rep = (if d_editSequence doc \<noteq> src_editSequence (dto_sourceReference dto) then 409
        else if d_state doc = ''AcceptedByDgii'' then 200 else 202)"
  using assms
  by (auto simp: handleExistingDocument_def settled_state_def conflict_reply_def existing_reply_def)

theorem settled_document_is_final_witness:
  "\<exists>rep. handleExistingDocument (demo_services False []) 0 [] (demo_signer False) (demo_client []) default_dto demo_target
      (demo_document \<lparr> d_state := ''AcceptedByDgii'' \<rparr>) demo_world = (Inr rep, demo_world) \<and> rp_status rep = 200"
  using settled_document_is_final [of "demo_document \<lparr> d_state := ''AcceptedByDgii'' \<rparr>" "demo_services False []" 0 "[]"
      "demo_signer False" "demo_client []" default_dto demo_target demo_world]
  by (simp add: settled_state_def NeverTransmittedStates_def demo_document_def new_document_def default_dto_def)

text \<open>A document whose transmission is uncertain is transmitted again only after the DGII
  answered a query for it, and the answer was that it is unknown, or was empty.\<close>

theorem uncertain_resent_only_if_unknown:
  assumes "reconcileUncertain sv now usr signer client dto tg doc w = (r, w')"
    and "transmissions (new_events w w') \<noteq> 0"
  shows "\<exists>st. cl_consultarEstado client (d_rncEmisor doc) (d_eNcf doc) None None = Inr st
    \<and> (not_found_estado (trim (cer_estado st)) \<or> trim (cer_estado st) = []) \<and> \<not> too_young now doc"
proof (rule ccontr)
  let ?w1 = "log_events [AskedEstado (d_rncEmisor doc) (d_eNcf doc)] w"
  assume no: "\<not> ?thesis"
  have q1: "quiet w ?w1" by (simp add: quiet_log)
  have "quiet w w'"
  proof (cases "too_young now doc")
    case True
    then show ?thesis using assms(1) by (simp add: reconcileUncertain_def)
  next
    case False
    show ?thesis
    proof (cases "cl_consultarEstado client (d_rncEmisor doc) (d_eNcf doc) None None")
      case (Inl e)
      then show ?thesis using assms(1) False q1 by (auto simp: reconcileUncertain_def Let_def)
    next
      case (Inr st)
      obtain d1 evs where rc: "reconciled now client st doc = (d1, evs)" by force
      have "save_and_reply now usr d1 (reconciled_reply d1) (log_events evs ?w1) = (r, w')"
        using assms(1) no False Inr rc by (simp add: reconcileUncertain_def Let_def)
      from quiet_save_and_reply [OF this] quiet_reconciled [OF rc] q1 show ?thesis
        by (blast intro: quiet_trans)
    qed
  qed
  with assms(2) show False by (simp add: quiet_def)
qed

theorem uncertain_resent_only_if_unknown_witness:
  "\<exists>st. cl_consultarEstado (demo_client []) ''131234567'' ''E310000000001'' None None = Inr st
    \<and> (not_found_estado (trim (cer_estado st)) \<or> trim (cer_estado st) = [])"
proof -
  have run: "reconcileUncertain (demo_services False []) 1709210096 ''System'' (demo_signer False) (demo_client [])
      demo_invoice demo_target demo_doubtful demo_world = (fst (demo_uncertain []), snd (demo_uncertain []))"
    unfolding demo_uncertain_def by simp
  from uncertain_resent_only_if_unknown [OF run] demo_uncertain_run show ?thesis
    by (auto simp: demo_doubtful_def demo_doc_facts)
qed

text \<open>The empty answer is the weak spot of the previous property: a query that succeeds
  without an estado does not say that the document is unknown, yet whenever such a
  resubmission succeeds the document has been sent a second time.\<close>

lemma empty_estado_is_resent:
  assumes "cl_consultarEstado client (d_rncEmisor doc) (d_eNcf doc) None None = Inr st"
    and "cer_estado st = []" "\<not> too_young now doc"
    and "reconcileUncertain sv now usr signer client dto tg doc w = (Inr rep, w')" "rp_status rep \<in> {200, 202}"
  shows "transmissions (new_events w w') = 1"
proof -
  let ?w1 = "log_events [AskedEstado (d_rncEmisor doc) (d_eNcf doc)] w"
  have "reissue sv now usr signer client dto tg doc ?w1 = (Inr rep, w')"
    using assms(1-4) by (simp add: reconcileUncertain_def Let_def)
  then obtain d n w2 where s: "save_one now usr d ?w1 = (Inr n, w2)"
    and g: "signAndSend sv now usr signer client (Some dto) (tg_isDefaultFallback tg) (tg_razon tg) d w2 = (Inr rep, w')"
    by (auto simp: reissue_def Let_def split: prod.splits sum.splits)
  from g show ?thesis
  proof (cases rule: signAndSend_shape)
    case (kept evs)
    from kept(3) [of rep] have "rp_status rep \<in> {400, 422, 500}" by simp
    with assms(5) have False by auto
    then show ?thesis ..
  next
    case (sent d0 d1 w3 tevs code sx post k)
    have "rp_status (sent_reply d1) \<in> {200, 202}" using sent(5) assms(5) by simp
    then have "d_state d1 \<noteq> ''Uncertain''" by (cases "d_state d1 = ''Uncertain''") (simp_all add: sent_reply_def status_of_state_def)
    then have "transmissions tevs = 1" using transmit_sends [OF sent(4)] by simp
    moreover have "transmissions post = 0" using sent(8) by auto
    ultimately have "transmissions (new_events w2 w') = 1" using sent(7) by simp
    moreover have "quiet w w2"
      using quiet_trans [OF quiet_log [of "[AskedEstado (d_rncEmisor doc) (d_eNcf doc)]" w] quiet_save_one [OF s]] by simp
    moreover have "prefix (w_trace w2) (w_trace w')" using sent(7) by simp
    ultimately show ?thesis using new_events_trans [of w w2 w'] by (simp add: quiet_def)
  qed
qed

text \<open>A caller who is neither a worker nor a super administrator issues documents for any
  tenant it names in the X-Tenant-Id header.\<close>

theorem header_overrides_tenant:
  assumes "\<not> is_worker_or_superadmin req" "sr_hdrTenant req \<noteq> []" "\<not> has_text (dto_tenantId dto)"
  shows "effective_tenant req dto = Inr (sr_hdrTenant req)"
  using assms by (simp add: effective_tenant_def request_tenant_def)

theorem header_overrides_tenant_witness:
  "sr_tenantId demo_request = Some ''tenant-a'' \<and> effective_tenant demo_request default_dto = Inr ''tenant-b''"
  using header_overrides_tenant [of demo_request default_dto]
  by (simp add: demo_request_def is_worker_or_superadmin_def default_dto_def)

end
