(* ===== verification/Documents_Once.thy ===== *)
theory Documents_Once
  imports Documents_Submit
begin

text \<open>
  What a second submission of the same transaction does (DocumentsController.cpp \<open>submit\<close>
  over EcfDocumentRepository.cpp).  Once a submission has been answered with 200 or 202 the
  table holds a document in a settled state under its tenant, transaction and environment,
  and \<open>getBySourceTxnId\<close> finds it: every later submission is answered from the table.  The
  lemmas follow the row through the writes of one submission.
\<close>

subsection \<open>The row a transaction is found under\<close>

definition distinct_ids :: "doc_table \<Rightarrow> bool" where
  "distinct_ids docs \<longleftrightarrow> distinct (map ae_id docs)"

text \<open>What a lookup by transaction compares.\<close>

definition source_key :: "EcfDocument \<Rightarrow> string \<times> string \<times> string option" where
  "source_key d = (d_tenantId d, d_sourceTxnId d, d_ambiente d)"

lemma source_key_simps [simp]:
  "source_key (d \<lparr> d_state := s \<rparr>) = source_key d" "source_key (d \<lparr> d_trackId := t \<rparr>) = source_key d"
  "source_key (d \<lparr> d_signedXmlContent := x \<rparr>) = source_key d" "source_key (d \<lparr> d_securityCode := x \<rparr>) = source_key d"
  "source_key (d \<lparr> d_dgiiResponseXml := x \<rparr>) = source_key d" "source_key (d \<lparr> d_sentToDgiiAt := x \<rparr>) = source_key d"
  "source_key (d \<lparr> d_eNcf := n \<rparr>) = source_key d"
  "source_key (d \<lparr> ae_updatedAt := x \<rparr>) = source_key d" "source_key (d \<lparr> ae_updatedBy := x \<rparr>) = source_key d"
  by (simp_all add: source_key_def)

lemma source_key_keys: "keys a = keys b \<Longrightarrow> source_key a = source_key b \<and> ae_id a = ae_id b"
  by (simp add: keys_def source_key_def)

lemma source_key_apply [simp]:
  "source_key (applyCanonicalContent sv now dto es rnc rs d) = source_key d"
  "ae_id (applyCanonicalContent sv now dto es rnc rs d) = ae_id d"
  by (simp_all add: applyCanonicalContent_def source_key_def split: prod.splits)

lemma newest_in: "newest docs = Some r \<Longrightarrow> r \<in> set docs"
  by (induction docs arbitrary: r) (auto split: option.splits if_splits)

lemma newest_map:
  assumes "\<And>r. r \<in> set docs \<Longrightarrow> ae_createdAt (f r) = ae_createdAt r"
  shows "newest (map f docs) = map_option f (newest docs)"
  using assms
proof (induction docs)
  case (Cons r docs)
  then have "newest (map f docs) = map_option f (newest docs)" by simp
  then show ?case using Cons.prems by (auto split: option.splits dest: newest_in)
qed simp

lemma filter_map_same:
  "(\<And>r. r \<in> set docs \<Longrightarrow> P (f r) = P r) \<Longrightarrow> filter P (map f docs) = map f (filter P docs)"
  by (induction docs) auto

lemma lookup_found:
  assumes "doc_getBySourceTxnId t x a docs = Some q"
  shows "q \<in> set docs" "source_match t x a q"
  using newest_in [of "filter (source_match t x a) docs" q] assms
  by (auto simp: doc_getBySourceTxnId_def)

text \<open>An update of the row that was found is found in its place.\<close>

lemma lookup_after_update:
  assumes "exec_op (update_op now usr d) docs = Inr docs'" "distinct_ids docs"
    and "doc_getBySourceTxnId t x a docs = Some q" "ae_id d = ae_id q" "source_key d = source_key q"
  shows "\<exists>r. doc_getBySourceTxnId t x a docs' = Some r \<and> content r = content d \<and> ae_id r = ae_id d
    \<and> source_key r = source_key d" and "distinct_ids docs'"
proof -
  let ?e = "stamped now usr d"
  let ?f = "\<lambda>r. if ae_id r = ae_id d then updated_row ?e r else r"
  have q: "q \<in> set docs" "source_match t x a q" using lookup_found [OF assms(3)] .
  then have docs': "docs' = map ?f docs"
    using assms(1,4) by (auto simp: exec_op_def update_op_def list_ex_iff split: option.splits if_splits)
  have only: "r = q" if "r \<in> set docs" "ae_id r = ae_id d" for r
    using assms(2,4) that q(1) by (auto simp: distinct_ids_def distinct_map inj_on_def)
  have "source_match t x a (updated_row ?e q)"
    using q(2) assms(5) by (simp add: source_match_def updated_row_def source_key_def)
  then have same: "source_match t x a (?f r) = source_match t x a r" if "r \<in> set docs" for r
    using only [OF that] q(2) by auto
  have "filter (source_match t x a) docs' = map ?f (filter (source_match t x a) docs)"
    unfolding docs' by (rule filter_map_same) (rule same)
  moreover have "newest (map ?f (filter (source_match t x a) docs)) = map_option ?f (newest (filter (source_match t x a) docs))"
    by (rule newest_map) (auto simp: updated_row_def)
  ultimately have found: "doc_getBySourceTxnId t x a docs' = Some (updated_row ?e q)"
    using assms(3,4) by (simp add: doc_getBySourceTxnId_def)
  show "\<exists>r. doc_getBySourceTxnId t x a docs' = Some r \<and> content r = content d \<and> ae_id r = ae_id d
    \<and> source_key r = source_key d"
    unfolding found by (simp add: updated_row_def source_key_def content_def)
  have "map ae_id docs' = map ae_id docs" by (simp add: docs')
  then show "distinct_ids docs'" using assms(2) by (simp add: distinct_ids_def)
qed

text \<open>
  \<open>on_file t x a w d\<close>: the lookup of the transaction finds the row of \<open>d\<close>, which says what
  \<open>d\<close> says.
\<close>

definition on_file :: "string \<Rightarrow> string \<Rightarrow> string option \<Rightarrow> world \<Rightarrow> EcfDocument \<Rightarrow> bool" where
  "on_file t x a w d \<longleftrightarrow> w_faults w = [] \<and> distinct_ids (w_docs w)
     \<and> (\<exists>r. doc_getBySourceTxnId t x a (w_docs w) = Some r \<and> ae_id r = ae_id d \<and> source_key r = source_key d
          \<and> content r = content d)"

lemma on_file_save:
  assumes "save_one now usr d w = (Inr n, w')" "on_file t x a w d0" "ae_id d = ae_id d0" "source_key d = source_key d0"
  shows "on_file t x a w' d"
proof -
  have e: "exec_op (update_op now usr d) (w_docs w) = Inr (w_docs w')" by (rule save_one_Inr_exec [OF assms(1)])
  obtain q where q: "doc_getBySourceTxnId t x a (w_docs w) = Some q" "ae_id q = ae_id d0" "source_key q = source_key d0"
    using assms(2) by (auto simp: on_file_def)
  have di: "distinct_ids (w_docs w)" and nf: "w_faults w = []" using assms(2) by (simp_all add: on_file_def)
  have k: "ae_id d = ae_id q" "source_key d = source_key q" using assms(3,4) q by simp_all
  show ?thesis
    using lookup_after_update [OF e di q(1) k] save_one_faults [OF nf assms(1)]
    by (auto simp: on_file_def)
qed

lemma on_file_log [simp]: "on_file t x a (log_events evs w) d = on_file t x a w d"
  by (simp add: on_file_def)

text \<open>What a request is looked up under.\<close>

definition filed_settled :: "string \<Rightarrow> string \<Rightarrow> string option \<Rightarrow> world \<Rightarrow> bool" where
  "filed_settled t x a w \<longleftrightarrow> (\<exists>d. on_file t x a w d \<and> settled_state (d_state d))"

lemma filed_settledI: "on_file t x a w d \<Longrightarrow> settled_state (d_state d) \<Longrightarrow> filed_settled t x a w"
  by (auto simp: filed_settled_def)

subsection \<open>The row through the operations of a submission\<close>

lemma on_file_sent:
  assumes "signAndSend sv now usr sg cl dto fb rs doc w = (Inr rep, w')" "rp_status rep \<in> {200, 202}"
    and "on_file t x a w doc"
  shows "\<exists>d1. on_file t x a w' d1 \<and> source_key d1 = source_key doc \<and> rp_status rep = status_of_state (d_state d1)
    \<and> d_state d1 \<in> {''AcceptedByDgii'', ''RejectedByDgii'', ''Signed'', ''Uncertain''}"
  using assms(1)
proof (cases rule: signAndSend_shape)
  case (kept evs)
  from kept(3) [of rep] have "rp_status rep \<in> {400, 422, 500}" by simp
  with assms(2) have False by auto
  then show ?thesis ..
next
  case (sent d0 d1 w1 tevs code sx post n)
  have f1: "on_file t x a w1 d0"
    by (rule on_file_save [OF sent(3) assms(3)]) (simp_all add: sent(2))
  have k: "keys d1 = keys d0" by (rule transmit_keys [OF sent(4)])
  have nf: "w_faults (log_events tevs w1) = []" using f1 by (simp add: on_file_def)
  obtain docs2 where "exec_op (update_op now usr d1) (w_docs (log_events tevs w1)) = Inr docs2"
    using exec_again [OF save_one_Inr_exec [OF sent(3)] k] by auto
  then obtain w2 where s2: "save_one now usr d1 (log_events tevs w1) = (Inr 1, w2)"
    using save_one_no_fault [OF nf] by blast
  have "on_file t x a w2 d1"
    by (rule on_file_save [OF s2, where ?d0.0 = d0]) (use f1 source_key_keys [OF k] in simp_all)
  moreover have "w' = w2" using sent(6) s2 by (simp add: save_outcome_def)
  moreover have "rp_status rep = status_of_state (d_state d1)" using sent(5) by (simp add: sent_reply_def)
  moreover have "source_key d1 = source_key doc" using source_key_keys [OF k] sent(2) by simp
  ultimately show ?thesis using transmit_state [OF sent(4)] by blast
qed

lemma on_file_signAndSend:
  assumes "signAndSend sv now usr sg cl dto fb rs doc w = (Inr rep, w')" "rp_status rep \<in> {200, 202}"
    and "on_file t x a w doc"
  shows "filed_settled t x a w'"
proof -
  obtain d1 where f: "on_file t x a w' d1" and "rp_status rep = status_of_state (d_state d1)"
    "d_state d1 \<in> {''AcceptedByDgii'', ''RejectedByDgii'', ''Signed'', ''Uncertain''}"
    using on_file_sent [OF assms] by blast
  then have "settled_state (d_state d1)" using assms(2)
    by (auto simp: settled_state_def NeverTransmittedStates_def status_of_state_def)
  with f show ?thesis by (rule filed_settledI)
qed

lemma on_file_row:
  "on_file t x a w d \<Longrightarrow> \<exists>r \<in> set (w_docs w). d_state r = d_state d \<and> source_key r = source_key d"
  unfolding on_file_def using content_state lookup_found(1) by blast

lemma on_file_reissue:
  assumes "reissue sv now usr sg cl dto tg doc w = (Inr rep, w')" "rp_status rep \<in> {200, 202}"
    and "on_file t x a w doc"
  shows "filed_settled t x a w'"
proof -
  let ?d = "applyCanonicalContent sv now dto (src_editSequence (dto_sourceReference dto)) (tg_rnc tg) (tg_razon tg) doc"
  obtain n w1 where s: "save_one now usr ?d w = (Inr n, w1)"
    and g: "signAndSend sv now usr sg cl (Some dto) (tg_isDefaultFallback tg) (tg_razon tg) ?d w1 = (Inr rep, w')"
    using assms(1) by (auto simp: reissue_def Let_def split: prod.splits sum.splits)
  have "on_file t x a w1 ?d" by (rule on_file_save [OF s assms(3)]) simp_all
  with g assms(2) show ?thesis by (rule on_file_signAndSend)
qed

lemma apply_estado_settled: "settled_state (d_state (apply_estado e d)) \<or> d_state (apply_estado e d) = ''RejectedByDgii''"
  by (simp add: apply_estado_def settled_state_def NeverTransmittedStates_def)

lemma reconciled_keys: "reconciled now cl st d = (d1, evs) \<Longrightarrow> source_key d1 = source_key d \<and> ae_id d1 = ae_id d"
  by (auto simp: reconciled_def apply_estado_def stamp_sent_def recover_trackId_def Let_def
      split: sum.splits list.splits)

lemma on_file_reconcile:
  assumes "reconcileUncertain sv now usr sg cl dto tg doc w = (Inr rep, w')" "rp_status rep \<in> {200, 202}"
    and "on_file t x a w doc" "d_state doc \<noteq> ''Signed''"
  shows "filed_settled t x a w'"
proof -
  let ?w1 = "log_events [AskedEstado (d_rncEmisor doc) (d_eNcf doc)] w"
  have y: "\<not> too_young now doc" using assms(1,2,4) by (auto simp: reconcileUncertain_def)
  with assms(1,2) obtain st where st: "cl_consultarEstado cl (d_rncEmisor doc) (d_eNcf doc) None None = Inr st"
    by (auto simp: reconcileUncertain_def Let_def split: sum.splits)
  obtain d1 evs where rc: "reconciled now cl st doc = (d1, evs)" by force
  show ?thesis
  proof (cases "\<not> not_found_estado (trim (cer_estado st)) \<and> trim (cer_estado st) \<noteq> []")
    case True
    then have "save_and_reply now usr d1 (reconciled_reply d1) (log_events evs ?w1) = (Inr rep, w')"
      using assms(1) y st rc by (simp add: reconcileUncertain_def Let_def)
    then obtain n where s: "save_one now usr d1 (log_events evs ?w1) = (Inr n, w')" and rep: "rep = reconciled_reply d1"
      by (auto simp: save_and_reply_def split: prod.splits sum.splits)
    have "on_file t x a w' d1"
      by (rule on_file_save [OF s, where ?d0.0 = doc]) (use assms(3) reconciled_keys [OF rc] in simp_all)
    moreover have "d_state d1 \<noteq> ''RejectedByDgii''" using assms(2) rep by (auto simp: reconciled_reply_def)
    then have "settled_state (d_state d1)"
      using rc apply_estado_settled by (auto simp: reconciled_def Let_def)
    ultimately show ?thesis by (rule filed_settledI)
  next
    case False
    then have "reissue sv now usr sg cl dto tg doc ?w1 = (Inr rep, w')"
      using assms(1) y st by (auto simp: reconcileUncertain_def Let_def)
    from on_file_reissue [OF this assms(2)] assms(3) show ?thesis by simp
  qed
qed

lemma next_encf_no_fault:
  "next_encf now scope tipo w = (r, w') \<Longrightarrow> w_faults w = [] \<Longrightarrow> w_docs w' = w_docs w \<and> w_faults w' = []"
  by (auto simp: next_encf_def next_fault_def split: prod.splits sum.splits if_splits)

lemma release_no_fault:
  "w_faults w = [] \<Longrightarrow> w_docs (release_encf now scope tipo n w) = w_docs w \<and> w_faults (release_encf now scope tipo n w) = []"
  by (auto simp: release_encf_def next_fault_def)

lemma on_file_reissue_rejected:
  assumes "reissue_rejected sv now usr sg cl dto tg doc w = (Inr rep, w')" "rp_status rep \<in> {200, 202}"
    and "on_file t x a w doc"
  shows "filed_settled t x a w'"
proof -
  obtain newEncf w1 where n: "next_encf now (tg_scope tg) (tipo_or_e31 dto) w = (Inr newEncf, w1)"
    using assms(1) by (auto simp: reissue_rejected_def split: prod.splits sum.splits)
  let ?d = "applyCanonicalContent sv now dto (src_editSequence (dto_sourceReference dto)) (tg_rnc tg) (tg_razon tg)
      (doc \<lparr> d_eNcf := newEncf, d_trackId := None, d_securityCode := None, d_dgiiResponseXml := None,
          d_sentToDgiiAt := None, d_state := ''AwaitingTransmission'' \<rparr>)"
  obtain k w2 where s: "save_one now usr ?d w1 = (Inr k, w2)"
    and g: "signAndSend sv now usr sg cl (Some dto) (tg_isDefaultFallback tg) (tg_razon tg) ?d w2 = (Inr rep, w')"
    using assms(1) n by (auto simp: reissue_rejected_def Let_def split: prod.splits sum.splits)
  have "w_faults w = []" using assms(3) by (simp add: on_file_def)
  from next_encf_no_fault [OF n this] assms(3) have "on_file t x a w1 doc" by (simp add: on_file_def)
  then have "on_file t x a w2 ?d" by (rule on_file_save [OF s]) simp_all
  with g assms(2) show ?thesis by (rule on_file_signAndSend)
qed

lemma on_file_existing:
  assumes "handleExistingDocument sv now usr sg cl dto tg doc w = (Inr rep, w')" "rp_status rep \<in> {200, 202}"
    and "on_file t x a w doc"
  shows "filed_settled t x a w'"
proof -
  consider (never) "d_state doc \<in> set NeverTransmittedStates"
    | (doubt) "d_state doc \<notin> set NeverTransmittedStates" "d_state doc = ''Uncertain'' \<or> d_state doc = ''AwaitingTransmission''"
    | (rejected) "d_state doc \<notin> set NeverTransmittedStates" "d_state doc = ''RejectedByDgii''"
    | (settled) "settled_state (d_state doc)"
    unfolding settled_state_def by blast
  then show ?thesis
  proof cases
    case never
    then show ?thesis using assms on_file_reissue by (simp add: handleExistingDocument_def)
  next
    case doubt
    then have "d_state doc \<noteq> ''Signed''" by auto
    with doubt assms on_file_reconcile show ?thesis by (simp add: handleExistingDocument_def)
  next
    case rejected
    then show ?thesis using assms on_file_reissue_rejected by (simp add: handleExistingDocument_def)
  next
    case settled
    then have "w' = w"
      using assms(1) by (auto simp: handleExistingDocument_def settled_state_def split: if_splits)
    with settled assms(3) show ?thesis by (blast intro: filed_settledI)
  qed
qed

text \<open>A document inserted under a transaction nothing was found under is found.\<close>

lemma newest_None [simp]: "newest docs = None \<longleftrightarrow> docs = []"
  by (induction docs) (auto split: option.splits)

lemma on_file_insert:
  assumes "saveChanges [add_op now uuid usr doc] w = (Inr n, w')" "w_faults w = []" "distinct_ids (w_docs w)"
    and "doc_getBySourceTxnId t x a (w_docs w) = None" "source_key doc = (t, x, a)" "ae_id doc = uuid"
  shows "on_file t x a w' doc"
proof -
  obtain e where e: "add_op now uuid usr doc = InsertOp e" and id: "ae_id e = uuid" and k: "source_key e = (t, x, a)"
    and nd: "\<not> ae_isDeleted e" and c: "content e = content doc"
    using assms(5,6) by (auto simp: add_op_def content_def source_key_def)
  have d': "w_docs w' = w_docs w @ [e]" and nf: "w_faults w' = []" and fc: "first_conflict e (w_docs w) = None"
    using assms(1,2) e by (auto simp: saveChanges_def next_fault_def exec_op_def log_events_def split: option.splits)
  have "source_match t x a e" using k nd by (simp add: source_match_def source_key_def)
  moreover have "filter (source_match t x a) (w_docs w) = []" using assms(4) by (simp add: doc_getBySourceTxnId_def)
  ultimately have "doc_getBySourceTxnId t x a (w_docs w') = Some e" by (simp add: doc_getBySourceTxnId_def d')
  moreover have "ae_id r \<noteq> ae_id e" if "r \<in> set (w_docs w)" for r
  proof -
    have "conflict e r = None" using fc that by (simp add: first_conflict_None)
    then show ?thesis by (auto simp: conflict_def split: if_splits)
  qed
  then have "distinct_ids (w_docs w')"
    using assms(3) by (force simp: d' distinct_ids_def)
  ultimately show ?thesis using nf id k c assms(5,6) by (simp add: on_file_def)
qed

lemma created_document_key:
  "source_key (created_document sv now uuid dto tg encf) = (tg_tenant tg, src_txnId (dto_sourceReference dto),
     Some (ambienteToString (tg_ambiente tg)))" "ae_id (created_document sv now uuid dto tg encf) = uuid"
  by (simp_all add: created_document_def) (simp add: source_key_def)

text \<open>Without outages the reads of \<open>submit\<close> change nothing.\<close>

lemma reads_no_fault:
  "w_faults w = [] \<Longrightarrow> db_read q w = (Inr (q (w_docs w)), w)" "w_faults w = [] \<Longrightarrow> makeScope w = (Inr (), w)"
  by (simp_all add: db_read_def makeScope_def next_fault_def)

abbreviation key_of :: "CanonicalDocumentDto \<Rightarrow> target \<Rightarrow> string \<times> string \<times> string option" where
  "key_of dto tg \<equiv> (tg_tenant tg, src_txnId (dto_sourceReference dto), Some (ambienteToString (tg_ambiente tg)))"

lemma on_file_found:
  assumes "w_faults w = []" "distinct_ids (w_docs w)" "find_submitted dto tg (w_docs w) = Some r" "key_of dto tg = (t, x, a)"
  shows "on_file t x a w r"
  using assms by (auto simp: on_file_def find_submitted_def)

lemma on_file_create:
  assumes "create_document sv now usr uuid sg cl dto tg w = (Inr rep, w')" "rp_status rep \<in> {200, 202}"
    and "w_faults w = []" "distinct_ids (w_docs w)" "find_submitted dto tg (w_docs w) = None"
    and "key_of dto tg = (t, x, a)"
  shows "filed_settled t x a w'"
proof -
  obtain encf w1 where n: "next_encf now (tg_scope tg) (dto_tipoComprobante dto) w = (Inr encf, w1)"
    using assms(1,2) by (auto simp: create_document_def err_reply_def split: prod.splits sum.splits)
  let ?d = "created_document sv now uuid dto tg encf"
  have w1: "w_docs w1 = w_docs w" "w_faults w1 = []" using next_encf_no_fault [OF n assms(3)] by simp_all
  obtain y w2 where s: "saveChanges [add_op now uuid usr ?d] w1 = (y, w2)" by force
  show ?thesis
  proof (cases y)
    case (Inr k)
    have "on_file t x a w2 ?d"
    proof (rule on_file_insert)
      show "saveChanges [add_op now uuid usr ?d] w1 = (Inr k, w2)" using s Inr by simp
      show "doc_getBySourceTxnId t x a (w_docs w1) = None" using assms(5,6) w1 by (auto simp: find_submitted_def)
      show "source_key ?d = (t, x, a)" "ae_id ?d = uuid" using assms(6) by (simp_all add: created_document_key)
    qed (use assms(4) w1 in simp_all)
    moreover have "signAndSend sv now usr sg cl (Some dto) (tg_isDefaultFallback tg) (tg_razon tg) ?d w2 = (Inr rep, w')"
      using assms(1) n s Inr by (simp add: create_document_def Let_def)
    ultimately show ?thesis using assms(2) on_file_signAndSend by blast
  next
    case (Inl e)
    have w2: "w_docs w2 = w_docs w" "w_faults w2 = []"
      using s Inl w1 by (auto simp: saveChanges_def next_fault_def split: sum.splits)
    let ?w3 = "release_encf now (tg_scope tg) (dto_tipoComprobante dto) encf w2"
    have w3: "w_docs ?w3 = w_docs w" "w_faults ?w3 = []" using release_no_fault [OF w2(2)] w2 by simp_all
    have "recover_insert sv now usr sg cl dto tg encf e w2 = (Inr rep, w')"
      using assms(1) n s Inl by (simp add: create_document_def Let_def)
    then have "rep = internal_error"
      using w3(1) assms(5)
      by (simp add: recover_insert_def Let_def reads_no_fault [OF w3(2)] split: if_splits)
    then show ?thesis using assms(2) by (simp add: internal_error_def err_reply_def)
  qed
qed

lemma issue_files:
  assumes "issue_document sv now usr uuid dto tg w = (Inr rep, w')" "rp_status rep \<in> {200, 202}"
    and "w_faults w = []" "distinct_ids (w_docs w)" "key_of dto tg = (t, x, a)"
  shows "filed_settled t x a w'"
proof (cases "find_submitted dto tg (w_docs w)")
  case None
  have "\<exists>sg cl. create_document sv now usr uuid sg cl dto tg w = (Inr rep, w')"
    using assms(1) unfolding issue_document_def Let_def reads_no_fault [OF assms(3)] prod.case sum.case None option.case
    by blast
  then show ?thesis using on_file_create assms None by blast
next
  case (Some r)
  note f = on_file_found [OF assms(3,4) Some assms(5)]
  let ?sg = "resolveSigner sv (tg_tenant tg) (tg_rnc tg) (dto_certificate dto) (tg_isDefaultFallback tg)"
  let ?cl = "resolveEcfClient sv (tg_rnc tg) ?sg (tg_ambiente tg) (tg_isDefaultFallback tg)"
  obtain y w2 where h: "handleExistingDocument sv now usr ?sg ?cl dto tg r w = (y, w2)" by force
  have i: "(case y of Inl e \<Rightarrow> (Inr (err_reply (''Database query error: '' @ exn_what e) 500), w2) | Inr q \<Rightarrow> (Inr q, w2))
      = ((Inr rep, w') :: (exn + reply) \<times> world)"
    using assms(1) unfolding issue_document_def Let_def reads_no_fault [OF assms(3)] prod.case sum.case Some option.case h
    by (cases y) simp_all
  have "y = Inr rep \<and> w2 = w'"
  proof (cases y)
    case (Inl e)
    then have "rp_status rep = 500" using i by (auto simp: err_reply_def)
    then show ?thesis using assms(2) by simp
  next
    case (Inr q)
    then show ?thesis using i by simp
  qed
  then have "handleExistingDocument sv now usr ?sg ?cl dto tg r w = (Inr rep, w')" using h by (simp only:)
  then show ?thesis using assms(2) f by (rule on_file_existing)
qed

text \<open>A submission that finds a settled document.\<close>

lemma issue_settled:
  assumes "filed_settled t x a w" "key_of dto tg = (t, x, a)"
  shows "\<exists>rep. issue_document sv now usr uuid dto tg w = (Inr rep, w) \<and> rp_status rep \<in> {200, 202, 409}"
proof -
  obtain d r where nf: "w_faults w = []" and f: "doc_getBySourceTxnId t x a (w_docs w) = Some r"
    and c: "content r = content d" and "settled_state (d_state d)"
    using assms(1) unfolding filed_settled_def on_file_def by blast
  then have st: "settled_state (d_state r)" using content_state [OF c] by simp
  have f: "find_submitted dto tg (w_docs w) = Some r" using f assms(2) by (simp add: find_submitted_def)
  show ?thesis
    using f st by (auto simp: issue_document_def Let_def reads_no_fault [OF nf] handleExistingDocument_def
        settled_state_def conflict_reply_def existing_reply_def)
qed

text \<open>The tenant, transaction and environment a request is about, when it is valid.\<close>

definition request_key :: "services \<Rightarrow> submit_request \<Rightarrow> (string \<times> string \<times> string option) option" where
  "request_key sv req = (case sr_body req of
       Parsed dto0 \<Rightarrow> (case validate_submission dto0 of
           Inr dto \<Rightarrow> (case resolve_target sv req dto of Inr tg \<Rightarrow> Some (key_of dto tg) | Inl e \<Rightarrow> None)
         | Inl e \<Rightarrow> None)
     | _ \<Rightarrow> None)"

lemma request_key_Some:
  assumes "request_key sv req = Some k"
  obtains dto0 dto tg where "sr_body req = Parsed dto0" "validate_submission dto0 = Inr dto"
    "resolve_target sv req dto = Inr tg" "key_of dto tg = k"
  using assms by (auto simp: request_key_def split: parsed_body.splits sum.splits)

lemma submit_answered:
  assumes "submit_action sv now uuid req w = (Inr (Answered rep), w')"
  obtains dto tg where "request_key sv req = Some (key_of dto tg)"
    "issue_document sv now (auditUsername (sr_username req)) uuid dto tg w = (Inr rep, w')"
  using assms by (auto simp: submit_action_def request_key_def split: parsed_body.splits sum.splits prod.splits)

subsection \<open>A first submission\<close>

definition demo_first :: submit_request where
  "demo_first = \<lparr> sr_tenantId = None, sr_role = None, sr_clientType = None, sr_workerKeyId = None,
     sr_username = None, sr_hdrTenant = [], sr_hdrEnvironment = [], sr_body = Parsed demo_invoice \<rparr>"

definition demo_stock :: world where
  "demo_stock = \<lparr> w_docs = [], w_seqs = [sample_row \<lparr> es_tenantId := ''default-tenant'', es_tipoComprobante := ''E31'' \<rparr>],
     w_faults = [], w_trace = [] \<rparr>"

abbreviation demo_submit :: "world \<Rightarrow> (exn + submit_outcome) \<times> world" where
  "demo_submit w \<equiv> submit_action (demo_services False ''Aceptado'') 1709210096 ''u-1'' demo_first w"

definition demo_e31 :: CanonicalDocumentDto where
  "demo_e31 = demo_invoice \<lparr> dto_tipoComprobante := ''E31'' \<rparr>"

lemma demo_first_target:
  "resolve_target (demo_services False ''Aceptado'') demo_first demo_e31 = Inr demo_target"
  by code_simp

lemma demo_number:
  "\<exists>tbl. next_encf 1709210096 ''default-tenant'' ''E31'' demo_stock = (Inr ''E310000000005'',
     \<lparr> w_docs = [], w_seqs = tbl, w_faults = [], w_trace = [] \<rparr>)"
proof -
  have "fst (getNextEncf 1709210096 ''default-tenant'' ''E31'' (w_seqs demo_stock)) = Inr ''E310000000005''" by code_simp
  then show ?thesis
    by (cases "getNextEncf 1709210096 ''default-tenant'' ''E31'' (w_seqs demo_stock)")
      (simp add: next_encf_def next_fault_def demo_stock_def)
qed

lemma demo_dto_facts: "dto_tipoComprobante demo_e31 = ''E31''" "dto_sourceReference demo_e31 = dto_sourceReference demo_invoice"
  "src_txnId (dto_sourceReference demo_e31) = ''T''" "dto_ncf demo_e31 = None"
  by (simp_all add: demo_e31_def demo_invoice_def default_dto_def)

lemma demo_estado_accepted: "accepted_estado (trim ''Aceptado'')"
  by code_simp

lemma demo_sends:
  assumes "d_eNcf d = ''E310000000005''" "w_faults w = []" "w_docs w = [e]" "ae_id e = ae_id d"
  shows "\<exists>rep w'. signAndSend (demo_services False ''Aceptado'') now usr (demo_signer False) (demo_client ''Aceptado'') dto fb rs d w
    = (Inr rep, w') \<and> rp_status rep = 200"
proof -
  let ?d = "d \<lparr> d_signedXmlContent := Some (''<S>'' @ d_xmlContent d), d_securityCode := Some ''qWeRtY'',
    d_state := ''AwaitingTransmission'' \<rparr>"
  have "sign_document (demo_services False ''Aceptado'') (demo_signer False) d = Inr (''<S>'' @ d_xmlContent d, ?d)"
    by (simp add: sign_document_def calcularCodigoSeguridad_def demo_services_def demo_signer_def)
  moreover have "exec_op (update_op now usr ?d) (w_docs w) = Inr [updated_row (stamped now usr ?d) e]"
    using assms(3,4) by (simp add: exec_op_def update_op_def)
  then obtain w1 where "save_one now usr ?d w = (Inr 1, w1)" using save_one_no_fault [OF assms(2)] by blast
  moreover have "\<exists>d1 evs. transmit (demo_services False ''Aceptado'') now (demo_signer False) (demo_client ''Aceptado'') dto fb rs ?d
      = (d1, evs) \<and> d_state d1 = ''AcceptedByDgii''"
    using assms(1) demo_estado_accepted
    by (simp add: transmit_def transmit_ecf_def is_rfce_def demo_client_def demo_resultado_def apply_resultado_def Let_def)
  ultimately show ?thesis
    by (auto simp: signAndSend_def demo_services_def demo_signer_def sent_reply_def status_of_state_def)
qed

lemma demo_first_run:
  "\<exists>rep w'. demo_submit demo_stock = (Inr (Answered rep), w') \<and> rp_status rep = 200
    \<and> (\<exists>d \<in> set (w_docs w'). d_state d = ''AcceptedByDgii''
         \<and> source_key d = (''default-tenant'', ''T'', Some ''PreCertificacion''))"
proof -
  let ?sv = "demo_services False ''Aceptado''" and ?a = "Some ''PreCertificacion''"
  obtain tbl where n: "next_encf 1709210096 ''default-tenant'' ''E31'' demo_stock = (Inr ''E310000000005'',
     \<lparr> w_docs = [], w_seqs = tbl, w_faults = [], w_trace = [] \<rparr>)"
    using demo_number by blast
  let ?d = "created_document ?sv 1709210096 ''u-1'' demo_e31 demo_target ''E310000000005''"
    and ?w1 = "\<lparr> w_docs = [], w_seqs = tbl, w_faults = [], w_trace = [] \<rparr>"
  obtain e where e: "add_op 1709210096 ''u-1'' ''System'' ?d = InsertOp e" "ae_id e = ae_id ?d"
    by (simp add: add_op_def created_document_key)
  obtain w2 where w2: "saveChanges [add_op 1709210096 ''u-1'' ''System'' ?d] ?w1 = (Inr 1, w2)" "w_docs w2 = [e]" "w_faults w2 = []"
    by (simp add: saveChanges_def next_fault_def e exec_op_def)
  have key: "source_key ?d = (''default-tenant'', ''T'', ?a)"
    unfolding created_document_key(1) demo_dto_facts(3) by (simp add: demo_target_def ambienteToString_def)
  have f: "on_file ''default-tenant'' ''T'' ?a w2 ?d"
    by (rule on_file_insert [OF w2(1) _ _ _ key created_document_key(2)])
      (simp_all add: distinct_ids_def doc_getBySourceTxnId_def)
  have nd: "d_eNcf ?d = ''E310000000005''" by (simp add: created_document_def applyCanonicalContent_def split: prod.splits)
  obtain rep w' where r: "signAndSend ?sv 1709210096 ''System'' (demo_signer False) (demo_client ''Aceptado'') (Some demo_e31)
      True ''ACME'' ?d w2 = (Inr rep, w')" and ok: "rp_status rep = 200"
    using demo_sends [OF nd w2(3,2) e(2)] by blast
  have "rp_status rep \<in> {200, 202}" using ok by simp
  then obtain d1 where d1: "on_file ''default-tenant'' ''T'' ?a w' d1" "rp_status rep = status_of_state (d_state d1)"
      "source_key d1 = source_key ?d"
    using on_file_sent [OF r _ f] by blast
  have "d_state d1 = ''AcceptedByDgii''" using d1(2) ok by (simp add: status_of_state_def split: if_splits)
  moreover have "source_key d1 = (''default-tenant'', ''T'', ?a)" using d1(3) key by simp
  ultimately have stored: "\<exists>d \<in> set (w_docs w'). d_state d = ''AcceptedByDgii''
      \<and> source_key d = (''default-tenant'', ''T'', ?a)"
    using on_file_row [OF d1(1)] by auto
  have c: "create_document ?sv 1709210096 ''System'' ''u-1'' (demo_signer False) (demo_client ''Aceptado'')
      demo_e31 demo_target demo_stock = (Inr rep, w')"
    using n w2(1) r by (simp add: create_document_def demo_dto_facts demo_target_def Let_def)
  have "issue_document ?sv 1709210096 ''System'' ''u-1'' demo_e31 demo_target demo_stock = (Inr rep, w')"
    using c by (simp add: issue_document_def Let_def reads_no_fault demo_stock_def find_submitted_def
      doc_getBySourceTxnId_def resolveSigner_def resolveEcfClient_def demo_target_def demo_services_def)
  then have "demo_submit demo_stock = (Inr (Answered rep), w')"
    using demo_invoice_valid demo_first_target
    by (simp add: submit_action_def demo_first_def demo_e31_def auditUsername_def)
  with ok stored show ?thesis by blast
qed

lemma demo_first_answered:
  "\<exists>rep. fst (demo_submit demo_stock) = Inr (Answered rep) \<and> rp_status rep = 200"
  using demo_first_run by auto

subsection \<open>Properties\<close>

text \<open>C4. Once a submission has been answered with 200 or 202, any later submission about the same
  tenant, transaction and environment (whatever it changes in the invoice, whatever the DGII and
  the certificates are then) allocates no number, stores and sends nothing: it is answered from
  the table with 200, 202, or 409 for an edited invoice.\<close>

theorem answered_submission_is_final:
  assumes "submit_action sv now uuid req w = (Inr (Answered rep), w')" "rp_status rep \<in> {200, 202}"
    and "w_faults w = []" "distinct_ids (w_docs w)"
    and "request_key sv2 req2 = request_key sv req"
  shows "\<exists>rep2. submit_action sv2 now2 uuid2 req2 w' = (Inr (Answered rep2), w')
    \<and> rp_status rep2 \<in> {200, 202, 409}"
proof -
  obtain dto tg where k: "request_key sv req = Some (key_of dto tg)"
    and i: "issue_document sv now (auditUsername (sr_username req)) uuid dto tg w = (Inr rep, w')"
    by (rule submit_answered [OF assms(1)])
  have fs: "filed_settled (tg_tenant tg) (src_txnId (dto_sourceReference dto)) (Some (ambienteToString (tg_ambiente tg))) w'"
    by (rule issue_files [OF i assms(2-4)]) simp
  have k2: "request_key sv2 req2 = Some (key_of dto tg)" using k assms(5) by simp
  obtain dto0 dto2 tg2 where r: "sr_body req2 = Parsed dto0" "validate_submission dto0 = Inr dto2"
    "resolve_target sv2 req2 dto2 = Inr tg2" and e: "key_of dto2 tg2 = key_of dto tg"
    by (rule request_key_Some [OF k2])
  obtain rep2 where "issue_document sv2 now2 (auditUsername (sr_username req2)) uuid2 dto2 tg2 w' = (Inr rep2, w')"
    "rp_status rep2 \<in> {200, 202, 409}"
    using issue_settled [OF fs e] by blast
  then show ?thesis by (simp add: submit_action_def r)
qed

theorem answered_submission_is_final_witness:
  "\<exists>rep2. demo_submit (snd (demo_submit demo_stock)) = (Inr (Answered rep2), snd (demo_submit demo_stock))"
proof -
  obtain rep where a: "demo_submit demo_stock = (Inr (Answered rep), snd (demo_submit demo_stock))" "rp_status rep = 200"
    using demo_first_answered by (metis prod.collapse)
  have "w_faults demo_stock = []" "distinct_ids (w_docs demo_stock)" by (simp_all add: demo_stock_def distinct_ids_def)
  from answered_submission_is_final [OF a(1) _ this refl] a(2) show ?thesis by auto
qed

end
