(* ===== verification/Documents_Query.thy ===== *)
theory Documents_Query
  imports Documents_Once
begin

text \<open>
  The reading endpoints of DocumentsController.cpp: \<open>getBySourceTxnId\<close> (which asks the DGII
  about a document that is not settled yet), \<open>getXmlBySourceTxnId\<close>, \<open>getXmlById\<close>, \<open>getById\<close>
  and \<open>reconcileBySourceTxnId\<close>.  A JSON body is a value of \<open>reply\<close>, an XML download is its
  file name and its bytes.  The lemmas show that a caller without a privileged role reads
  documents of its own tenant only, that no query transmits or allocates, and what a query
  may do to a stored document.
\<close>

subsection \<open>\<open>isValidUuid\<close>\<close>

definition uuid_dash :: "nat \<Rightarrow> bool" where
  "uuid_dash i \<longleftrightarrow> i = 8 \<or> i = 13 \<or> i = 18 \<or> i = 23"

definition isValidUuid :: "string \<Rightarrow> bool" where
  "isValidUuid s \<longleftrightarrow> length s = 36
     \<and> list_all (\<lambda>i. if uuid_dash i then s ! i = CHR ''-'' else isxdigit (s ! i)) [0..<36]"

subsection \<open>The caller\<close>

record query_request =
  qr_role :: "string option"
  qr_clientType :: "string option"
  qr_tenantId :: "string option"
  qr_username :: "string option"
  qr_hdrTenant :: string
  qr_hdrEnvironment :: string

definition isWorkerOrSuperAdmin :: "query_request \<Rightarrow> bool" where
  "isWorkerOrSuperAdmin req \<longleftrightarrow> value_or (qr_clientType req) [] = ''worker''
     \<or> value_or (qr_role req) [] = ''Worker'' \<or> value_or (qr_role req) [] = ''SuperAdmin''"

text \<open>The two download endpoints take an empty tenant attribute as it is.\<close>

definition query_tenant :: "query_request \<Rightarrow> string" where
  "query_tenant req =
     (let tenantId = (if has_text (qr_tenantId req) then value_or (qr_tenantId req) [] else ''default-tenant'')
      in if isWorkerOrSuperAdmin req \<and> qr_hdrTenant req \<noteq> [] then qr_hdrTenant req else tenantId)"

definition download_tenant :: "query_request \<Rightarrow> string" where
  "download_tenant req =
     (if isWorkerOrSuperAdmin req \<and> qr_hdrTenant req \<noteq> [] then qr_hdrTenant req
      else value_or (qr_tenantId req) ''default-tenant'')"

definition query_ambiente :: "query_request \<Rightarrow> string option" where
  "query_ambiente req = (if qr_hdrEnvironment req = [] then None else Some (qr_hdrEnvironment req))"

subsection \<open>Looking a document up\<close>

text \<open>A document found by track id or number counts only for its tenant and environment.\<close>

definition may_see :: "query_request \<Rightarrow> string \<Rightarrow> EcfDocument \<Rightarrow> bool" where
  "may_see req tenantId d \<longleftrightarrow> (isWorkerOrSuperAdmin req \<or> d_tenantId d = tenantId)
     \<and> (query_ambiente req = None \<or> d_ambiente d = None \<or> d_ambiente d = query_ambiente req)"

definition visible :: "query_request \<Rightarrow> string \<Rightarrow> EcfDocument option \<Rightarrow> EcfDocument option" where
  "visible req tenantId found = (case found of
       None \<Rightarrow> None
     | Some d \<Rightarrow> if may_see req tenantId d then Some d else None)"

definition lookup_document ::
    "query_request \<Rightarrow> string \<Rightarrow> string \<Rightarrow> world \<Rightarrow> (exn + EcfDocument option) \<times> world" where
  "lookup_document req tenantId txnId w =
     (case db_read (doc_getBySourceTxnId tenantId txnId (query_ambiente req)) w of
        (Inl e, w1) \<Rightarrow> (Inl e, w1)
      | (Inr (Some d), w1) \<Rightarrow> (Inr (Some d), w1)
      | (Inr None, w1) \<Rightarrow> (case db_read (doc_getByTrackId txnId) w1 of
            (Inl e, w2) \<Rightarrow> (Inl e, w2)
          | (Inr byTrack, w2) \<Rightarrow> (case visible req tenantId byTrack of
                Some d \<Rightarrow> (Inr (Some d), w2)
              | None \<Rightarrow> (case db_read (doc_getByENcf txnId) w2 of
                    (Inl e, w3) \<Rightarrow> (Inl e, w3)
                  | (Inr byNcf, w3) \<Rightarrow> (Inr (visible req tenantId byNcf), w3)))))"

definition scoped_lookup ::
    "query_request \<Rightarrow> string \<Rightarrow> string \<Rightarrow> world \<Rightarrow> (exn + EcfDocument option) \<times> world" where
  "scoped_lookup req tenantId txnId w = (case makeScope w of
       (Inl e, w1) \<Rightarrow> (Inl e, w1)
     | (Inr u, w1) \<Rightarrow> lookup_document req tenantId txnId w1)"

subsection \<open>Replies\<close>

datatype query_reply = JsonReply reply | XmlReply string string

definition query_fields :: "EcfDocument \<Rightarrow> (string \<times> jval) list" where
  "query_fields doc = (''documentId'', JStr (ae_id doc))
     # (case d_ncf doc of None \<Rightarrow> [] | Some n \<Rightarrow> [(''ncf'', JStr n)])
     @ [(''eNcf'', JStr (d_eNcf doc)), (''state'', JStr (d_state doc)),
        (''totalAmount'', JNum (d_totalAmount doc)), (''itbisAmount'', JNum (d_itbisAmount doc)),
        (''trackId'', JStr (value_or (d_trackId doc) [])), (''securityCode'', JStr (value_or (d_securityCode doc) [])),
        (''receiptDate'', JStr (value_or (d_receiptDate doc) [])),
        (''signedXml'', JStr (value_or (d_signedXmlContent doc) [])),
        (''dgiiResponse'', JStr (value_or (d_dgiiResponseXml doc) [])),
        (''dgiiResponseXml'', JStr (value_or (d_dgiiResponseXml doc) []))]"

definition not_found_reply :: "string \<Rightarrow> reply" where
  "not_found_reply txnId = err_reply (''Document with source TxnId '' @ apo @ txnId @ apo @ '' not found.'') 404"

definition xml_reply :: "EcfDocument \<Rightarrow> query_reply" where
  "xml_reply doc = XmlReply (d_rncEmisor doc @ ''-'' @ d_eNcf doc @ ''.xml'') (value_or (d_signedXmlContent doc) [])"

subsection \<open>\<open>getBySourceTxnId\<close>\<close>

definition pending_state :: "string \<Rightarrow> bool" where
  "pending_state st \<longleftrightarrow> st \<in> {''Signed'', ''SentToDgii'', ''Processing'', ''Uncertain'', ''AwaitingTransmission''}"

definition final_estado :: "string \<Rightarrow> bool" where
  "final_estado estado \<longleftrightarrow> accepted_estado estado \<or> lower estado = ''rechazado''"

text \<open>A failed save is logged; the document in memory keeps what the DGII said.\<close>

definition poll_trackId ::
    "int \<Rightarrow> string \<Rightarrow> dgii_client \<Rightarrow> string \<Rightarrow> EcfDocument \<Rightarrow> world \<Rightarrow> EcfDocument \<times> world" where
  "poll_trackId now usr client trackId doc w =
     (let w1 = log_events [AskedResultado trackId] w in
      case cl_consultarResultado client trackId of
        Inl e \<Rightarrow> (doc, w1)
      | Inr resultado \<Rightarrow>
          let d1 = apply_resultado resultado doc in
          if crr_estado resultado \<noteq> [] \<and> final_estado (trim (crr_estado resultado))
          then (d1, snd (save_one now usr d1 w1))
          else (d1, w1))"

definition poll_estado ::
    "int \<Rightarrow> string \<Rightarrow> dgii_client \<Rightarrow> EcfDocument \<Rightarrow> world \<Rightarrow> EcfDocument \<times> world" where
  "poll_estado now usr client doc w =
     (let w1 = log_events [AskedEstado (d_rncEmisor doc) (d_eNcf doc)] w in
      case cl_consultarEstado client (d_rncEmisor doc) (d_eNcf doc) None None of
        Inl e \<Rightarrow> (doc, w1)
      | Inr status \<Rightarrow>
          let estadoTrim = trim (cer_estado status) in
          if estadoTrim \<noteq> [] \<and> \<not> not_found_estado estadoTrim then
            let d1 = apply_estado estadoTrim (recover_trackId client doc)
            in (d1, snd (save_one now usr d1 (log_events [AskedTrackIds (d_rncEmisor doc) (d_eNcf doc)] w1)))
          else (doc, w1))"

definition refresh_document ::
    "services \<Rightarrow> int \<Rightarrow> string \<Rightarrow> EcfDocument \<Rightarrow> world \<Rightarrow> EcfDocument \<times> world" where
  "refresh_document sv now usr doc w =
     (if pending_state (d_state doc) then
        let signer = resolveSigner sv (d_tenantId doc) (d_rncEmisor doc) None False;
            amb = resolveAmbienteEnum (value_or (d_ambiente doc) []) (toAmbiente (sv_environment sv));
            client = resolveEcfClient sv (d_rncEmisor doc) signer amb False
        in if has_text (d_trackId doc) then poll_trackId now usr client (value_or (d_trackId doc) []) doc w
           else if d_eNcf doc \<noteq> [] then poll_estado now usr client doc w
           else (doc, w)
      else (doc, w))"

definition getBySourceTxnId ::
    "services \<Rightarrow> int \<Rightarrow> query_request \<Rightarrow> string \<Rightarrow> world \<Rightarrow> reply \<times> world" where
  "getBySourceTxnId sv now req txnId w =
     (case scoped_lookup req (query_tenant req) txnId w of
        (Inl e, w1) \<Rightarrow> (err_reply (exn_what e) 500, w1)
      | (Inr None, w1) \<Rightarrow> (not_found_reply txnId, w1)
      | (Inr (Some doc), w1) \<Rightarrow>
          if \<not> isWorkerOrSuperAdmin req \<and> d_tenantId doc \<noteq> query_tenant req then (not_found_reply txnId, w1)
          else (case refresh_document sv now (auditUsername (qr_username req)) doc w1 of
              (d1, w2) \<Rightarrow> (\<lparr> rp_status = 200, rp_json = query_fields d1 \<rparr>, w2)))"

subsection \<open>The other endpoints\<close>

definition getXmlBySourceTxnId :: "query_request \<Rightarrow> string \<Rightarrow> world \<Rightarrow> query_reply \<times> world" where
  "getXmlBySourceTxnId req txnId w =
     (case scoped_lookup req (download_tenant req) txnId w of
        (Inl e, w1) \<Rightarrow> (JsonReply (err_reply (exn_what e) 500), w1)
      | (Inr found, w1) \<Rightarrow>
          (case found of
             Some doc \<Rightarrow> if has_text (d_signedXmlContent doc) then (xml_reply doc, w1)
               else (JsonReply (err_reply (''Document with source TxnId '' @ apo @ txnId @ apo @ '' not found or has no XML.'') 404), w1)
           | None \<Rightarrow>
               (JsonReply (err_reply (''Document with source TxnId '' @ apo @ txnId @ apo @ '' not found or has no XML.'') 404), w1)))"

definition bad_uuid_reply :: reply where
  "bad_uuid_reply = err_reply (''El identificador proporcionado no es un UUID v'' @ u_a @ ''lido.'') 400"

definition read_by_id :: "string \<Rightarrow> world \<Rightarrow> (exn + EcfDocument option) \<times> world" where
  "read_by_id i w = (case makeScope w of
       (Inl e, w1) \<Rightarrow> (Inl e, w1)
     | (Inr u, w1) \<Rightarrow> db_read (doc_getById i) w1)"

definition getXmlById :: "query_request \<Rightarrow> string \<Rightarrow> world \<Rightarrow> query_reply \<times> world" where
  "getXmlById req i w =
     (if \<not> isValidUuid i then (JsonReply bad_uuid_reply, w)
      else case read_by_id i w of
          (Inl e, w1) \<Rightarrow> (JsonReply (err_reply (exn_what e) 500), w1)
        | (Inr found, w1) \<Rightarrow>
            (case found of
               Some doc \<Rightarrow>
                 if (\<not> isWorkerOrSuperAdmin req \<and> d_tenantId doc \<noteq> download_tenant req)
                    \<or> \<not> has_text (d_signedXmlContent doc)
                 then (JsonReply (err_reply (''Document '' @ apo @ i @ apo @ '' not found or has no XML.'') 404), w1)
                 else (xml_reply doc, w1)
             | None \<Rightarrow> (JsonReply (err_reply (''Document '' @ apo @ i @ apo @ '' not found or has no XML.'') 404), w1)))"

definition getById :: "query_request \<Rightarrow> string \<Rightarrow> world \<Rightarrow> reply \<times> world" where
  "getById req i w =
     (if \<not> isValidUuid i then (bad_uuid_reply, w)
      else case read_by_id i w of
          (Inl e, w1) \<Rightarrow> (err_reply ''Ha ocurrido un error al obtener el documento.'' 500, w1)
        | (Inr found, w1) \<Rightarrow>
            (case found of
               Some doc \<Rightarrow>
                 if \<not> isWorkerOrSuperAdmin req \<and> d_tenantId doc \<noteq> query_tenant req
                 then (err_reply (''Document '' @ apo @ i @ apo @ '' not found.'') 404, w1)
                 else (\<lparr> rp_status = 200, rp_json = query_fields doc \<rparr>, w1)
             | None \<Rightarrow> (err_reply (''Document '' @ apo @ i @ apo @ '' not found.'') 404, w1)))"

definition reconcileBySourceTxnId :: "query_request \<Rightarrow> string \<Rightarrow> world \<Rightarrow> reply \<times> world" where
  "reconcileBySourceTxnId req txnId w =
     (case scoped_lookup req (query_tenant req) txnId w of
        (Inl e, w1) \<Rightarrow> (err_reply (''Error reconciling document: '' @ exn_what e) 500, w1)
      | (Inr None, w1) \<Rightarrow> (not_found_reply txnId, w1)
      | (Inr (Some doc), w1) \<Rightarrow>
          (\<lparr> rp_status = 200, rp_json = query_fields doc @ [(''reconciled'', JBool True)] \<rparr>, w1))"

subsection \<open>Reading changes nothing\<close>

text \<open>A read may use up an outage; the tables and the trace stay.\<close>

definition same_data :: "world \<Rightarrow> world \<Rightarrow> bool" where
  "same_data w w' \<longleftrightarrow> w_docs w' = w_docs w \<and> w_seqs w' = w_seqs w \<and> w_trace w' = w_trace w"

lemma same_data_trans: "same_data w w1 \<Longrightarrow> same_data w1 w2 \<Longrightarrow> same_data w w2"
  by (simp add: same_data_def)

lemma db_read_same: "db_read q w = (r, w') \<Longrightarrow> same_data w w' \<and> (\<forall>x. r = Inr x \<longrightarrow> x = q (w_docs w))"
  by (auto simp: db_read_def same_data_def split: prod.splits if_splits)

lemma makeScope_same: "makeScope w = (r, w') \<Longrightarrow> same_data w w'"
  unfolding makeScope_def by (drule db_read_same) simp

lemma queryOne_in: "queryOne P docs = Some d \<Longrightarrow> d \<in> set docs \<and> P d"
  by (auto simp: queryOne_def find_Some_iff)

lemma visible_Some: "visible req t found = Some d \<longleftrightarrow> found = Some d \<and> may_see req t d"
  by (auto simp: visible_def split: option.splits)

lemma lookup_document_spec:
  assumes "lookup_document req t x w = (r, w')"
  shows "same_data w w'" and "r = Inr (Some d) \<Longrightarrow> d \<in> set (w_docs w) \<and> (d_tenantId d = t \<or> isWorkerOrSuperAdmin req)
    \<and> (query_ambiente req = None \<or> d_ambiente d = None \<or> d_ambiente d = query_ambiente req)"
proof -
  obtain r1 w1 where r1: "db_read (doc_getBySourceTxnId t x (query_ambiente req)) w = (r1, w1)" by force
  obtain r2 w2 where r2: "db_read (doc_getByTrackId x) w1 = (r2, w2)" by force
  obtain r3 w3 where r3: "db_read (doc_getByENcf x) w2 = (r3, w3)" by force
  note s = db_read_same [OF r1] db_read_same [OF r2] db_read_same [OF r3]
  have s2: "same_data w w2" "same_data w w3" using s same_data_trans by blast+
  show "same_data w w'"
    using assms s s2 by (auto simp: lookup_document_def r1 r2 r3 split: sum.splits option.splits)
  assume d: "r = Inr (Some d)"
  have docs: "w_docs w1 = w_docs w" "w_docs w2 = w_docs w" using s s2 by (auto simp: same_data_def)
  consider (source) "r1 = Inr (Some d)" | (track) b where "r2 = Inr b" "visible req t b = Some d"
    | (ncf) b where "r3 = Inr b" "visible req t b = Some d"
    using assms d by (auto simp: lookup_document_def r1 r2 r3 split: sum.splits option.splits)
  then show "d \<in> set (w_docs w) \<and> (d_tenantId d = t \<or> isWorkerOrSuperAdmin req)
    \<and> (query_ambiente req = None \<or> d_ambiente d = None \<or> d_ambiente d = query_ambiente req)"
  proof cases
    case source
    then have "doc_getBySourceTxnId t x (query_ambiente req) (w_docs w) = Some d" using s by simp
    from lookup_found [OF this] show ?thesis
      by (auto simp: source_match_def query_ambiente_def)
  next
    case track
    then have "doc_getByTrackId x (w_docs w) = Some d" using s docs by (simp add: visible_Some)
    then show ?thesis using track queryOne_in by (auto simp: doc_getByTrackId_def visible_Some may_see_def)
  next
    case ncf
    then have "doc_getByENcf x (w_docs w) = Some d" using s docs by (simp add: visible_Some)
    then show ?thesis using ncf queryOne_in by (auto simp: doc_getByENcf_def visible_Some may_see_def)
  qed
qed

lemma scoped_lookup_spec:
  assumes "scoped_lookup req t x w = (r, w')"
  shows "same_data w w'" and "r = Inr (Some d) \<Longrightarrow> d \<in> set (w_docs w) \<and> (d_tenantId d = t \<or> isWorkerOrSuperAdmin req)
    \<and> (query_ambiente req = None \<or> d_ambiente d = None \<or> d_ambiente d = query_ambiente req)"
proof -
  obtain m w1 where m: "makeScope w = (m, w1)" by force
  note sm = makeScope_same [OF m]
  show "same_data w w'"
    using assms sm lookup_document_spec(1) same_data_trans by (auto simp: scoped_lookup_def m split: sum.splits)
  assume "r = Inr (Some d)"
  then have "lookup_document req t x w1 = (Inr (Some d), w')"
    using assms by (auto simp: scoped_lookup_def m split: sum.splits)
  from lookup_document_spec(2) [OF this refl] sm show "d \<in> set (w_docs w) \<and> (d_tenantId d = t \<or> isWorkerOrSuperAdmin req)
    \<and> (query_ambiente req = None \<or> d_ambiente d = None \<or> d_ambiente d = query_ambiente req)"
    by (simp add: same_data_def)
qed

lemma read_by_id_spec:
  assumes "read_by_id i w = (r, w')"
  shows "same_data w w'" and "r = Inr (Some d) \<Longrightarrow> doc_getById i (w_docs w) = Some d"
proof -
  obtain m w1 where m: "makeScope w = (m, w1)" by force
  note sm = makeScope_same [OF m]
  show "same_data w w'"
    using assms sm db_read_same same_data_trans by (fastforce simp: read_by_id_def m split: sum.splits)
  assume "r = Inr (Some d)"
  then have "db_read (doc_getById i) w1 = (Inr (Some d), w')"
    using assms by (auto simp: read_by_id_def m split: sum.splits)
  from db_read_same [OF this] sm show "doc_getById i (w_docs w) = Some d" by (simp add: same_data_def)
qed

subsection \<open>Asking about a document\<close>

lemma refresh_cases:
  assumes "refresh_document sv now usr doc w = (d1, w')"
  obtains (same) "d1 = doc" "\<exists>evs. transmissions evs = 0 \<and> w' = log_events evs w"
  | (saved) evs r where "pending_state (d_state doc)" "transmissions evs = 0"
      "save_one now usr d1 (log_events evs w) = (r, w')" "keys d1 = keys doc"
      "d_state d1 \<in> {''AcceptedByDgii'', ''RejectedByDgii'', ''Signed''}"
proof -
  have nil: "w = log_events [] w" by (simp add: log_events_def)
  consider (idle) "d1 = doc" "w' = w"
    | (track) t cl where "pending_state (d_state doc)" "poll_trackId now usr cl t doc w = (d1, w')"
    | (est) cl where "pending_state (d_state doc)" "poll_estado now usr cl doc w = (d1, w')"
    using assms unfolding refresh_document_def Let_def by (metis prod.inject)
  then show thesis
  proof cases
    case idle
    then show ?thesis using nil by (intro same) (auto intro!: exI [of _ "[]"])
  next
    case (track t cl)
    show ?thesis
    proof (cases "\<exists>res. cl_consultarResultado cl t = Inr res \<and> crr_estado res \<noteq> [] \<and> final_estado (trim (crr_estado res))")
      case True
      then obtain res where res: "cl_consultarResultado cl t = Inr res" "crr_estado res \<noteq> []"
        "final_estado (trim (crr_estado res))" by blast
      then have d1: "d1 = apply_resultado res doc" and w': "w' = snd (save_one now usr d1 (log_events [AskedResultado t] w))"
        using track(2) by (auto simp: poll_trackId_def Let_def)
      show ?thesis
      proof (rule saved [OF track(1), of "[AskedResultado t]"])
        show "save_one now usr d1 (log_events [AskedResultado t] w)
            = (fst (save_one now usr d1 (log_events [AskedResultado t] w)), w')" by (simp add: w')
        show "keys d1 = keys doc" by (simp add: d1)
        show "d_state d1 \<in> {''AcceptedByDgii'', ''RejectedByDgii'', ''Signed''}"
          using res(2,3) by (auto simp: d1 apply_resultado_def Let_def final_estado_def)
      qed simp
    next
      case False
      then have "d1 = doc \<and> w' = log_events [AskedResultado t] w"
        using track(2) by (auto simp: poll_trackId_def Let_def apply_resultado_def final_estado_def split: sum.splits if_splits)
      then show ?thesis by (intro same) (auto intro!: exI [of _ "[AskedResultado t]"])
    qed
  next
    case (est cl)
    let ?a = "AskedEstado (d_rncEmisor doc) (d_eNcf doc)" and ?t = "AskedTrackIds (d_rncEmisor doc) (d_eNcf doc)"
    show ?thesis
    proof (cases "\<exists>st. cl_consultarEstado cl (d_rncEmisor doc) (d_eNcf doc) None None = Inr st
        \<and> trim (cer_estado st) \<noteq> [] \<and> \<not> not_found_estado (trim (cer_estado st))")
      case True
      then obtain st where st: "cl_consultarEstado cl (d_rncEmisor doc) (d_eNcf doc) None None = Inr st"
        "trim (cer_estado st) \<noteq> []" "\<not> not_found_estado (trim (cer_estado st))" by blast
      let ?w1 = "log_events [?a, ?t] w"
      have w1: "log_events [?t] (log_events [?a] w) = ?w1" by (simp add: log_events_def)
      have d1: "d1 = apply_estado (trim (cer_estado st)) (recover_trackId cl doc)" and w': "w' = snd (save_one now usr d1 ?w1)"
        using est(2) st w1 by (auto simp: poll_estado_def Let_def)
      show ?thesis
      proof (rule saved [OF est(1), of "[?a, ?t]"])
        show "save_one now usr d1 ?w1 = (fst (save_one now usr d1 ?w1), w')" by (simp add: w')
        show "keys d1 = keys doc"
          by (simp add: d1 apply_estado_def recover_trackId_def split: sum.splits list.splits)
        show "d_state d1 \<in> {''AcceptedByDgii'', ''RejectedByDgii'', ''Signed''}"
          by (simp add: d1 apply_estado_def)
      qed simp
    next
      case False
      then have "d1 = doc \<and> w' = log_events [?a] w"
        using est(2) by (auto simp: poll_estado_def Let_def split: sum.splits if_splits)
      then show ?thesis by (intro same) (auto intro!: exI [of _ "[?a]"])
    qed
  qed
qed

text \<open>An update that keeps the keys of its row goes through.\<close>

lemma update_same_keys:
  assumes "unique_indexes docs" "r \<in> set docs" "keys d = keys r"
  shows "\<exists>docs'. exec_op (update_op now usr d) docs = Inr docs'"
proof -
  have id: "ae_id d = ae_id r" using assms(3) by (simp add: keys_def)
  have "conflict (stamped now usr d) q = None" if q: "q \<in> set docs" "ae_id q \<noteq> ae_id d" for q
  proof -
    have "conflict r q = None" by (rule unique_rows [OF assms(1,2) q(1)]) (use q(2) id in auto)
    moreover have "keys (stamped now usr d) = keys r" using assms(3) by simp
    ultimately show ?thesis using conflict_keys by metis
  qed
  then have "first_conflict (stamped now usr d) (filter (\<lambda>q. ae_id q \<noteq> ae_id d) docs) = None"
    by (simp add: first_conflict_None)
  then show ?thesis by (simp add: exec_op_def update_op_def)
qed

subsection \<open>When the DGII has decided\<close>

definition asked_client :: "services \<Rightarrow> EcfDocument \<Rightarrow> dgii_client" where
  "asked_client sv doc = resolveEcfClient sv (d_rncEmisor doc)
     (resolveSigner sv (d_tenantId doc) (d_rncEmisor doc) None False)
     (resolveAmbienteEnum (value_or (d_ambiente doc) []) (toAmbiente (sv_environment sv))) False"

text \<open>The service that \<open>refresh_document\<close> asks knows the document as accepted or rejected.\<close>

definition dgii_has_verdict :: "services \<Rightarrow> EcfDocument \<Rightarrow> bool" where
  "dgii_has_verdict sv doc \<longleftrightarrow>
     (if has_text (d_trackId doc)
      then case cl_consultarResultado (asked_client sv doc) (value_or (d_trackId doc) []) of
          Inl e \<Rightarrow> False | Inr res \<Rightarrow> final_estado (trim (crr_estado res))
      else case cl_consultarEstado (asked_client sv doc) (d_rncEmisor doc) (d_eNcf doc) None None of
          Inl e \<Rightarrow> False | Inr st \<Rightarrow> final_estado (trim (cer_estado st)))"

lemma final_estado_known: "final_estado e \<Longrightarrow> e \<noteq> [] \<and> \<not> not_found_estado e"
proof -
  have "\<not> final_estado []" "\<not> final_estado ''No encontrado''" "\<not> final_estado ''no encontrado''" by code_simp+
  then show "final_estado e \<Longrightarrow> e \<noteq> [] \<and> \<not> not_found_estado e" by (auto simp: not_found_estado_def)
qed

lemma trim_blank [simp]: "trim [] = []"
  by code_simp

lemma refresh_verdict:
  assumes "refresh_document sv now usr doc w = (d1, w')" "pending_state (d_state doc)" "d_eNcf doc \<noteq> []"
    and "dgii_has_verdict sv doc"
  shows "\<exists>evs r. save_one now usr d1 (log_events evs w) = (r, w') \<and> keys d1 = keys doc
    \<and> d_state d1 \<in> {''AcceptedByDgii'', ''RejectedByDgii''}"
proof (cases "has_text (d_trackId doc)")
  case True
  let ?t = "value_or (d_trackId doc) []"
  obtain res where res: "cl_consultarResultado (asked_client sv doc) ?t = Inr res" "final_estado (trim (crr_estado res))"
    using assms(4) True by (auto simp: dgii_has_verdict_def split: sum.splits)
  have ne: "crr_estado res \<noteq> []" using final_estado_known [OF res(2)] by auto
  have "poll_trackId now usr (asked_client sv doc) ?t doc w = (d1, w')"
    using assms(1,2) True by (simp add: refresh_document_def asked_client_def Let_def)
  then have d1: "d1 = apply_resultado res doc" and w': "w' = snd (save_one now usr d1 (log_events [AskedResultado ?t] w))"
    using res ne by (auto simp: poll_trackId_def Let_def)
  have "d_state d1 \<in> {''AcceptedByDgii'', ''RejectedByDgii''}"
    using res(2) ne by (auto simp: d1 apply_resultado_def Let_def final_estado_def)
  moreover have "keys d1 = keys doc" by (simp add: d1)
  ultimately show ?thesis using w' by (metis prod.collapse)
next
  case False
  let ?a = "AskedEstado (d_rncEmisor doc) (d_eNcf doc)" and ?t = "AskedTrackIds (d_rncEmisor doc) (d_eNcf doc)"
  obtain st where st: "cl_consultarEstado (asked_client sv doc) (d_rncEmisor doc) (d_eNcf doc) None None = Inr st"
    "final_estado (trim (cer_estado st))"
    using assms(4) False by (auto simp: dgii_has_verdict_def split: sum.splits)
  have "poll_estado now usr (asked_client sv doc) doc w = (d1, w')"
    using assms(1,2,3) False by (simp add: refresh_document_def asked_client_def Let_def)
  then have d1: "d1 = apply_estado (trim (cer_estado st)) (recover_trackId (asked_client sv doc) doc)"
    and w': "w' = snd (save_one now usr d1 (log_events [?t] (log_events [?a] w)))"
    using st final_estado_known [OF st(2)] by (auto simp: poll_estado_def Let_def)
  have "d_state d1 \<in> {''AcceptedByDgii'', ''RejectedByDgii''}"
    using st(2) by (auto simp: d1 apply_estado_def final_estado_def)
  moreover have "keys d1 = keys doc"
    by (simp add: d1 apply_estado_def recover_trackId_def split: sum.splits list.splits)
  moreover have "log_events [?t] (log_events [?a] w) = log_events [?a, ?t] w" by (simp add: log_events_def)
  ultimately show ?thesis using w' by (metis prod.collapse)
qed

subsection \<open>Properties\<close>

text \<open>Every identifier the service makes passes the test of the endpoints that take one.\<close>

theorem newUuid_is_valid:
  assumes "length bs = 16"
  shows "isValidUuid (newUuid bs)"
proof (rule list_16 [OF assms])
  fix a b c d e f g h i j k l m n p q
  assume r: "bs = [a, b, c, d, e, f, g, h, i, j, k, l, m, n, p, q]"
  have u: "newUuid bs = concat (map hex2 [a, b, c, d]) @ ''-'' @ concat (map hex2 [e, f]) @ ''-'' @
      concat (map hex2 [(g AND 0x0F) OR 0x40, h]) @ ''-'' @ concat (map hex2 [(i AND 0x3F) OR 0x80, j]) @ ''-'' @
      concat (map hex2 [k, l, m, n, p, q])"
    by (simp add: newUuid_def uuid_stamp_def r Let_def numeral_eq_Suc)
  have "[0..<36] = [0, 1, 2, 3, 4, 5, 6, 7, 8, 9, 10, 11, 12, 13, 14, 15, 16, 17, 18, 19, 20, 21, 22, 23, 24, 25,
      26, 27, 28, 29, 30, 31, 32, 33, 34, 35]" by (simp add: upt_rec)
  then show ?thesis
    unfolding u isValidUuid_def by (simp add: hex2_def uuid_dash_def isxdigit_nibbles)
qed

theorem newUuid_is_valid_witness: "isValidUuid (newUuid (replicate 16 0xFF))"
  by (rule newUuid_is_valid) simp

text \<open>What each reading endpoint shows to a caller without a privileged role.\<close>

lemma getBySource_shows:
  assumes "\<not> isWorkerOrSuperAdmin req" "rp_status (fst (getBySourceTxnId sv now req x w)) = 200"
  shows "\<exists>d \<in> set (w_docs w). d_tenantId d = query_tenant req
      \<and> (\<exists>d1. keys d1 = keys d \<and> rp_json (fst (getBySourceTxnId sv now req x w)) = query_fields d1)"
proof -
  obtain r w1 where l: "scoped_lookup req (query_tenant req) x w = (r, w1)" by force
  obtain doc where r: "r = Inr (Some doc)" and t: "d_tenantId doc = query_tenant req"
    using assms by (auto simp: getBySourceTxnId_def l err_reply_def not_found_reply_def split: sum.splits option.splits if_splits)
  obtain d1 w2 where f: "refresh_document sv now (auditUsername (qr_username req)) doc w1 = (d1, w2)" by force
  have "keys d1 = keys doc" using f by (cases rule: refresh_cases) auto
  moreover have "rp_json (fst (getBySourceTxnId sv now req x w)) = query_fields d1"
    by (simp add: getBySourceTxnId_def l r t f)
  ultimately show ?thesis using scoped_lookup_spec(2) [OF l r] t by blast
qed

lemma getById_shows:
  assumes "\<not> isWorkerOrSuperAdmin req" "rp_status (fst (getById req i w)) = 200"
  shows "\<exists>d \<in> set (w_docs w). d_tenantId d = query_tenant req \<and> rp_json (fst (getById req i w)) = query_fields d"
proof -
  obtain r w1 where l: "read_by_id i w = (r, w1)" by force
  obtain doc where r: "r = Inr (Some doc)" and t: "d_tenantId doc = query_tenant req"
    and j: "rp_json (fst (getById req i w)) = query_fields doc"
    using assms by (auto simp: getById_def l err_reply_def bad_uuid_reply_def split: sum.splits option.splits if_splits)
  then show ?thesis using read_by_id_spec(2) [OF l r] queryOne_in by (auto simp: doc_getById_def)
qed

lemma has_text_some: "has_text x \<Longrightarrow> x = Some (value_or x [])"
  by (cases x) simp_all

lemma getXmlBySource_shows:
  assumes "\<not> isWorkerOrSuperAdmin req" "fst (getXmlBySourceTxnId req x w) = XmlReply name body"
  shows "\<exists>d \<in> set (w_docs w). d_tenantId d = download_tenant req \<and> d_signedXmlContent d = Some body"
proof -
  obtain r w1 where l: "scoped_lookup req (download_tenant req) x w = (r, w1)" by force
  obtain doc where r: "r = Inr (Some doc)" and b: "has_text (d_signedXmlContent doc)" "body = value_or (d_signedXmlContent doc) []"
    using assms(2) by (auto simp: getXmlBySourceTxnId_def l xml_reply_def split: sum.splits option.splits if_splits)
  then show ?thesis using scoped_lookup_spec(2) [OF l r] assms(1) has_text_some [OF b(1)] by auto
qed

lemma getXmlById_shows:
  assumes "\<not> isWorkerOrSuperAdmin req" "fst (getXmlById req i w) = XmlReply name body"
  shows "\<exists>d \<in> set (w_docs w). d_tenantId d = download_tenant req \<and> d_signedXmlContent d = Some body"
proof -
  obtain r w1 where l: "read_by_id i w = (r, w1)" by force
  obtain doc where r: "r = Inr (Some doc)" and t: "d_tenantId doc = download_tenant req"
    and b: "has_text (d_signedXmlContent doc)" "body = value_or (d_signedXmlContent doc) []"
    using assms by (auto simp: getXmlById_def l xml_reply_def split: sum.splits option.splits if_splits)
  then show ?thesis using read_by_id_spec(2) [OF l r] queryOne_in has_text_some [OF b(1)]
    by (auto simp: doc_getById_def)
qed

text \<open>C33. A caller without a privileged role reads documents of its own tenant only, whichever of
  the identifiers of a document it asks with.\<close>

theorem queries_respect_tenant:
  assumes "\<not> isWorkerOrSuperAdmin req"
  shows "(rp_status (fst (getBySourceTxnId sv now req x w)) = 200 \<longrightarrow>
        (\<exists>d \<in> set (w_docs w). d_tenantId d = query_tenant req
           \<and> (\<exists>d1. keys d1 = keys d \<and> rp_json (fst (getBySourceTxnId sv now req x w)) = query_fields d1)))
    \<and> (rp_status (fst (getById req i w)) = 200 \<longrightarrow>
        (\<exists>d \<in> set (w_docs w). d_tenantId d = query_tenant req \<and> rp_json (fst (getById req i w)) = query_fields d))
    \<and> (\<forall>name body. fst (getXmlBySourceTxnId req x w) = XmlReply name body \<longrightarrow>
        (\<exists>d \<in> set (w_docs w). d_tenantId d = download_tenant req \<and> d_signedXmlContent d = Some body))
    \<and> (\<forall>name body. fst (getXmlById req i w) = XmlReply name body \<longrightarrow>
        (\<exists>d \<in> set (w_docs w). d_tenantId d = download_tenant req \<and> d_signedXmlContent d = Some body))"
  by (intro conjI allI impI getBySource_shows getById_shows getXmlBySource_shows getXmlById_shows assms)

text \<open>A query never transmits a document and never takes a number; the queries other than
  \<open>getBySourceTxnId\<close> leave the tables as they are.\<close>

theorem queries_never_transmit:
  "quiet w (snd (getBySourceTxnId sv now req x w)) \<and> w_seqs (snd (getBySourceTxnId sv now req x w)) = w_seqs w
   \<and> same_data w (snd (getXmlBySourceTxnId req x w)) \<and> same_data w (snd (getXmlById req i w))
   \<and> same_data w (snd (getById req i w)) \<and> same_data w (snd (reconcileBySourceTxnId req x w))"
proof -
  obtain r w1 where l: "scoped_lookup req (query_tenant req) x w = (r, w1)" by force
  obtain r' w1' where l': "scoped_lookup req (download_tenant req) x w = (r', w1')" by force
  obtain b w3 where b: "read_by_id i w = (b, w3)" by force
  note s = scoped_lookup_spec(1) [OF l] scoped_lookup_spec(1) [OF l'] read_by_id_spec(1) [OF b]
  have q1: "quiet w w1" using s(1) by (auto simp: same_data_def intro: quiet_traceI [of _ _ "[]"])
  have refreshed: "quiet w w2 \<and> w_seqs w2 = w_seqs w" if "refresh_document sv now u doc w1 = (d1, w2)" for doc d1 w2 u
    using that
  proof (cases rule: refresh_cases)
    case same
    then show ?thesis using q1 s(1) quiet_trans quiet_log by (fastforce simp: same_data_def)
  next
    case (saved evs r2)
    have "quiet w w2" using q1 quiet_log [OF saved(2), of w1] quiet_save_one [OF saved(3)] by (blast intro: quiet_trans)
    moreover have "w_seqs w2 = w_seqs w" using saved(3) s(1) by (elim save_one_cases) (auto simp: same_data_def)
    ultimately show ?thesis by simp
  qed
  have "quiet w (snd (getBySourceTxnId sv now req x w)) \<and> w_seqs (snd (getBySourceTxnId sv now req x w)) = w_seqs w"
    using q1 s(1) refreshed by (auto simp: getBySourceTxnId_def l same_data_def split: sum.splits option.splits prod.splits)
  moreover have "snd (getXmlBySourceTxnId req x w) = w1'" "snd (reconcileBySourceTxnId req x w) = w1"
    by (simp_all add: getXmlBySourceTxnId_def reconcileBySourceTxnId_def l l' split: sum.splits option.splits)
  moreover have "same_data w w" by (simp add: same_data_def)
  moreover have "snd (getXmlById req i w) \<in> {w, w3}" "snd (getById req i w) \<in> {w, w3}"
    by (simp_all add: getXmlById_def getById_def b split: sum.splits option.splits)
  ultimately show ?thesis using s by (metis insertE singletonD)
qed

text \<open>The endpoint that reconciles does not: when it answers 200 it reports the document as
  reconciled, although nobody was asked and nothing was stored.\<close>

theorem reconcile_endpoint_asks_nobody:
  assumes "reconcileBySourceTxnId req x w = (rep, w')" "rp_status rep = 200"
  shows "(''reconciled'', JBool True) \<in> set (rp_json rep) \<and> w_trace w' = w_trace w \<and> w_docs w' = w_docs w"
proof -
  obtain r w1 where l: "scoped_lookup req (query_tenant req) x w = (r, w1)" by force
  from assms scoped_lookup_spec(1) [OF l] show ?thesis
    by (auto simp: reconcileBySourceTxnId_def l same_data_def err_reply_def not_found_reply_def
        split: sum.splits option.splits)
qed

text \<open>C32. A pending document is settled by the next query once the DGII has a verdict on it: the
  stored state becomes accepted or rejected, and that state is what the caller is told.\<close>

theorem pending_document_is_settled_by_query:
  assumes "doc_getBySourceTxnId (query_tenant req) x (query_ambiente req) (w_docs w) = Some doc"
    and "pending_state (d_state doc)" "d_eNcf doc \<noteq> []" "dgii_has_verdict sv doc"
    and "w_faults w = []" "unique_indexes (w_docs w)"
    and "getBySourceTxnId sv now req x w = (rep, w')"
  shows "\<exists>r. doc_getById (ae_id doc) (w_docs w') = Some r \<and> d_state r \<in> {''AcceptedByDgii'', ''RejectedByDgii''}
    \<and> rp_status rep = 200 \<and> (''state'', JStr (d_state r)) \<in> set (rp_json rep)"
proof -
  note found = lookup_found [OF assms(1)]
  have t: "d_tenantId doc = query_tenant req" "\<not> ae_isDeleted doc" using found(2) by (simp_all add: source_match_def)
  have l: "scoped_lookup req (query_tenant req) x w = (Inr (Some doc), w)"
    by (simp add: scoped_lookup_def lookup_document_def reads_no_fault [OF assms(5)] assms(1))
  obtain d1 w2 where f: "refresh_document sv now (auditUsername (qr_username req)) doc w = (d1, w2)" by force
  have rep: "rep = \<lparr> rp_status = 200, rp_json = query_fields d1 \<rparr>" "w' = w2"
    using assms(7) by (simp_all add: getBySourceTxnId_def l t f)
  obtain evs r where s: "save_one now (auditUsername (qr_username req)) d1 (log_events evs w) = (r, w2)"
    and k: "keys d1 = keys doc" and st: "d_state d1 \<in> {''AcceptedByDgii'', ''RejectedByDgii''}"
    using refresh_verdict [OF f assms(2-4)] by blast
  obtain docs2 where "exec_op (update_op now (auditUsername (qr_username req)) d1) (w_docs (log_events evs w)) = Inr docs2"
    using update_same_keys [OF assms(6) found(1) k] by auto
  then obtain w3 where "save_one now (auditUsername (qr_username req)) d1 (log_events evs w) = (Inr 1, w3)"
    using save_one_no_fault [of "log_events evs w" now "auditUsername (qr_username req)" d1 docs2] assms(5) by auto
  then have s: "save_one now (auditUsername (qr_username req)) d1 (log_events evs w) = (Inr 1, w2)" using s by simp
  have id: "ae_id d1 = ae_id doc" using k by (simp add: keys_def)
  have "doc_getById (ae_id d1) (w_docs (log_events evs w)) \<noteq> None"
    using found(1) t(2) id by (auto simp: doc_getById_def queryOne_def find_None_iff)
  from stored_after_save [OF s this] obtain q where q: "doc_getById (ae_id d1) (w_docs w2) = Some q" "content q = content d1"
    by blast
  have "d_state q = d_state d1" by (rule content_state [OF q(2)])
  with q(1) st show ?thesis by (simp add: rep id query_fields_def)
qed

definition demo_query :: query_request where
  "demo_query = \<lparr> qr_role = None, qr_clientType = None, qr_tenantId = None, qr_username = None,
     qr_hdrTenant = [], qr_hdrEnvironment = [] \<rparr>"

theorem pending_document_is_settled_by_query_witness:
  "\<exists>r. doc_getById ''d1'' (w_docs (snd (getBySourceTxnId (demo_services False ''Rechazado'') 0 demo_query ''T''
     (demo_world \<lparr> w_docs := [demo_doubtful] \<rparr>)))) = Some r \<and> d_state r \<in> {''AcceptedByDgii'', ''RejectedByDgii''}"
proof -
  let ?w = "demo_world \<lparr> w_docs := [demo_doubtful] \<rparr>"
  have "asked_client (demo_services False ''Rechazado'') demo_doubtful = demo_client ''Rechazado''"
    by (simp add: asked_client_def resolveEcfClient_def demo_services_def)
  moreover have "final_estado (trim ''Rechazado'')" by code_simp
  ultimately have "dgii_has_verdict (demo_services False ''Rechazado'') demo_doubtful"
    by (simp add: dgii_has_verdict_def demo_client_def demo_estado_def demo_doubtful_def demo_document_def new_document_def)
  moreover have "doc_getBySourceTxnId (query_tenant demo_query) ''T'' (query_ambiente demo_query) (w_docs ?w) = Some demo_doubtful"
    by code_simp
  moreover have "pending_state (d_state demo_doubtful)" "d_eNcf demo_doubtful \<noteq> []" "w_faults ?w = []" "unique_indexes (w_docs ?w)"
    "ae_id demo_doubtful = ''d1''"
    by (simp_all add: demo_doubtful_def demo_document_def pending_state_def demo_world_def unique_indexes_def)
  ultimately show ?thesis
    using pending_document_is_settled_by_query [OF _ _ _ _ _ _ prod.collapse [symmetric],
        of demo_query "''T''" ?w demo_doubtful "demo_services False ''Rechazado''" 0]
    by auto
qed

definition demo_download :: world where
  "demo_download = demo_world \<lparr> w_docs := [demo_document \<lparr> d_signedXmlContent := Some ''<S/>'' \<rparr>] \<rparr>"

theorem queries_respect_tenant_witness:
  "\<exists>d \<in> set (w_docs demo_download). d_tenantId d = download_tenant demo_query \<and> d_signedXmlContent d = Some ''<S/>''"
proof -
  have "\<not> isWorkerOrSuperAdmin demo_query" by code_simp
  moreover have "fst (getXmlBySourceTxnId demo_query ''T'' demo_download) = xml_reply (demo_document \<lparr> d_signedXmlContent := Some ''<S/>'' \<rparr>)"
    by code_simp
  ultimately show ?thesis
    using queries_respect_tenant [of demo_query "demo_services False []" 0 "''T''" demo_download "[]"] by (auto simp: xml_reply_def)
qed

theorem reconcile_endpoint_asks_nobody_witness:
  "w_trace (snd (reconcileBySourceTxnId demo_query ''T'' demo_world)) = []"
proof -
  have "rp_status (fst (reconcileBySourceTxnId demo_query ''T'' demo_world)) = 200" by code_simp
  from reconcile_endpoint_asks_nobody [OF prod.collapse [symmetric] this] show ?thesis
    by (simp add: demo_world_def)
qed

end
