(* ===== verification/Status_Reconciler.thy ===== *)
theory Status_Reconciler
  imports Documents_Query
begin

text \<open>
  The background poller: EcfStatusReconciler.cpp.  One pass (\<open>reconcile\<close>) reads the documents
  that are due, asks the DGII about each of them, queues an update per document and commits
  all of them in one transaction.  \<open>check_document\<close> is the body of its loop: the document as
  it will be saved, and what was asked.  The lemmas show what one check may do to a document,
  that a pass without an outage stores exactly the checked documents and touches no other,
  and that a document cannot be polled for ever.
\<close>

subsection \<open>The options and the collaborators\<close>

record EcfStatusPollingOptions =
  po_pollingIntervalMinutes :: int
  po_minDocumentAgeMinutes :: int
  po_maxPollingWindowHours :: int

text \<open>\<open>rc_resolveSigner\<close> is \<open>None\<close> without a resolver; a null signer is \<open>Inr None\<close>.\<close>

record reconciler =
  rc_client :: dgii_client
  rc_options :: EcfStatusPollingOptions
  rc_resolveSigner :: "(string \<Rightarrow> exn + xml_signer option) option"
  rc_makeClient :: "string \<Rightarrow> EcfEnvironment \<Rightarrow> xml_signer \<Rightarrow> dgii_client"

type_synonym client_cache = "(string \<times> dgii_client) list"

definition poll_environment :: "EcfDocument \<Rightarrow> EcfEnvironment" where
  "poll_environment doc = (case d_ambiente doc of
       None \<Rightarrow> EnvCert
     | Some a \<Rightarrow> let ambLower = lower a in
         if ambLower = ''produccion'' \<or> ambLower = ''ecf'' \<or> ambLower = ''prod'' \<or> ambLower = ''3'' then EnvProd
         else if ambLower = ''precertificacion'' \<or> ambLower = ''testecf'' \<or> ambLower = ''test'' \<or> ambLower = ''1''
         then EnvTest
         else EnvCert)"

definition environment_digit :: "EcfEnvironment \<Rightarrow> string" where
  "environment_digit env = (case env of EnvTest \<Rightarrow> ''0'' | EnvCert \<Rightarrow> ''1'' | EnvProd \<Rightarrow> ''2'')"

definition client_for ::
    "reconciler \<Rightarrow> EcfDocument \<Rightarrow> client_cache \<Rightarrow> dgii_client \<times> client_cache" where
  "client_for rc doc cache =
     (let envToUse = poll_environment doc;
          cacheKey = d_rncEmisor doc @ ''_'' @ environment_digit envToUse
      in case map_of cache cacheKey of
           Some c \<Rightarrow> (c, cache)
         | None \<Rightarrow> (case rc_resolveSigner rc of
               None \<Rightarrow> (rc_client rc, cache)
             | Some resolve \<Rightarrow>
                 if d_rncEmisor doc = [] then (rc_client rc, cache)
                 else (case resolve (d_rncEmisor doc) of
                     Inl e \<Rightarrow> (rc_client rc, cache)
                   | Inr None \<Rightarrow> (rc_client rc, cache)
                   | Inr (Some s) \<Rightarrow>
                       let c = rc_makeClient rc (d_rncEmisor doc) envToUse s in (c, (cacheKey, c) # cache))))"

subsection \<open>One document\<close>

definition window_over :: "reconciler \<Rightarrow> int \<Rightarrow> EcfDocument \<Rightarrow> bool" where
  "window_over rc now doc \<longleftrightarrow> (case d_sentToDgiiAt doc of
       None \<Rightarrow> False
     | Some s \<Rightarrow> parseIsoUtc s \<noteq> 0
         \<and> 3600 * po_maxPollingWindowHours (rc_options rc) \<le> now - parseIsoUtc s)"

text \<open>The answer for the track id: the estado, and the document with its new response.\<close>

definition poll_resultado :: "dgii_client \<Rightarrow> EcfDocument \<Rightarrow> string \<times> EcfDocument \<times> event list" where
  "poll_resultado client doc =
     (if has_text (d_trackId doc) then
        (case cl_consultarResultado client (value_or (d_trackId doc) []) of
           Inl e \<Rightarrow> ([], doc, [AskedResultado (value_or (d_trackId doc) [])])
         | Inr resultado \<Rightarrow>
             if crr_estado resultado \<noteq> [] then
               (trim (crr_estado resultado),
                doc \<lparr> d_dgiiResponseXml := Some
                  (if crr_mensajes resultado \<noteq> []
                   then ''['' @ crr_estado resultado @ ''] '' @ mensajes_text (crr_mensajes resultado)
                   else ''Estado DGII: '' @ trim (crr_estado resultado)) \<rparr>,
                [AskedResultado (value_or (d_trackId doc) [])])
             else ([], doc, [AskedResultado (value_or (d_trackId doc) [])]))
      else ([], doc, []))"

text \<open>The state that follows from the estado.\<close>

definition settle :: "string \<Rightarrow> EcfDocument \<Rightarrow> EcfDocument" where
  "settle estado doc =
     (if accepted_estado estado then doc \<lparr> d_state := ''AcceptedByDgii'' \<rparr>
      else if lower estado = ''rechazado'' then doc \<lparr> d_state := ''RejectedByDgii'' \<rparr>
      else doc)"

definition count_check :: "int \<Rightarrow> EcfDocument \<Rightarrow> EcfDocument" where
  "count_check now doc = doc \<lparr> d_lastStatusCheckAt := Some (toIsoUtc now),
     d_statusCheckAttempts := d_statusCheckAttempts doc + 1 \<rparr>"

definition ask_document :: "int \<Rightarrow> dgii_client \<Rightarrow> EcfDocument \<Rightarrow> EcfDocument \<times> event list" where
  "ask_document now client doc = (case poll_resultado client doc of (estado, d1, evs) \<Rightarrow>
     if estado = [] \<or> not_found_estado estado then
       (case cl_consultarEstado client (d_rncEmisor d1) (d_eNcf d1) (d_rncComprador d1) (d_securityCode d1) of
          Inl e \<Rightarrow> (count_check now d1, evs @ [AskedEstado (d_rncEmisor d1) (d_eNcf d1)])
        | Inr response \<Rightarrow>
            if cer_estado response \<noteq> [] then
              (settle (trim (cer_estado response))
                 (count_check now (d1 \<lparr> d_dgiiResponseXml := Some (''Estado DGII: '' @ trim (cer_estado response)) \<rparr>)),
               evs @ [AskedEstado (d_rncEmisor d1) (d_eNcf d1)])
            else (settle estado (count_check now d1), evs @ [AskedEstado (d_rncEmisor d1) (d_eNcf d1)]))
     else (settle estado (count_check now d1), evs))"

definition check_document ::
    "reconciler \<Rightarrow> int \<Rightarrow> EcfDocument \<Rightarrow> client_cache \<Rightarrow> EcfDocument \<times> event list \<times> client_cache" where
  "check_document rc now doc cache =
     (if window_over rc now doc
      then (doc \<lparr> d_state := ''RequiresManualReview'', d_lastStatusCheckAt := Some (toIsoUtc now) \<rparr>, [], cache)
      else case client_for rc doc cache of (client, cache') \<Rightarrow>
        (case ask_document now client doc of (d1, evs) \<Rightarrow> (d1, evs, cache')))"

fun check_all ::
    "reconciler \<Rightarrow> int \<Rightarrow> client_cache \<Rightarrow> EcfDocument list \<Rightarrow> EcfDocument list \<times> event list" where
  "check_all rc now cache [] = ([], [])"
| "check_all rc now cache (doc # docs) =
     (case check_document rc now doc cache of (d1, evs, cache') \<Rightarrow>
        case check_all rc now cache' docs of (ds, evs') \<Rightarrow> (d1 # ds, evs @ evs'))"

subsection \<open>A pass\<close>

definition due_documents :: "reconciler \<Rightarrow> int \<Rightarrow> doc_table \<Rightarrow> doc_table" where
  "due_documents rc now =
     getDueForStatusCheck (toIsoUtc (now - 60 * po_minDocumentAgeMinutes (rc_options rc)))
       (toIsoUtc (now - 60 * po_pollingIntervalMinutes (rc_options rc))) 100"

definition reconcile :: "reconciler \<Rightarrow> int \<Rightarrow> string \<Rightarrow> world \<Rightarrow> nat \<times> world" where
  "reconcile rc now usr w = (case db_read (due_documents rc now) w of
       (Inl e, w1) \<Rightarrow> (0, w1)
     | (Inr due, w1) \<Rightarrow>
         (case check_all rc now [] due of (ds, evs) \<Rightarrow>
            (length due, snd (saveChanges (map (update_op now usr) ds) (log_events evs w1)))))"

subsection \<open>What a check does to a document\<close>

lemma keys_check_simps [simp]:
  "keys (settle e d) = keys d" "keys (count_check now d) = keys d"
  "keys (d \<lparr> d_lastStatusCheckAt := t \<rparr>) = keys d"
  by (simp_all add: settle_def count_check_def keys_def)

lemma attempts_simps [simp]:
  "d_statusCheckAttempts (settle e d) = d_statusCheckAttempts d"
  "d_statusCheckAttempts (count_check now d) = d_statusCheckAttempts d + 1"
  "d_lastStatusCheckAt (settle e d) = d_lastStatusCheckAt d"
  "d_lastStatusCheckAt (count_check now d) = Some (toIsoUtc now)"
  "d_state (count_check now d) = d_state d"
  by (simp_all add: settle_def count_check_def)

lemma settle_state: "d_state (settle e d) \<in> {d_state d, ''AcceptedByDgii'', ''RejectedByDgii''}"
  by (simp add: settle_def)

lemma poll_resultado_spec:
  assumes "poll_resultado cl doc = (estado, d1, evs)"
  shows "keys d1 = keys doc" "d_state d1 = d_state doc" "d_statusCheckAttempts d1 = d_statusCheckAttempts doc"
    "transmissions evs = 0" "d_rncComprador d1 = d_rncComprador doc" "d_securityCode d1 = d_securityCode doc"
    "estado \<noteq> [] \<Longrightarrow> \<exists>res. cl_consultarResultado cl (value_or (d_trackId doc) []) = Inr res \<and> estado = trim (crr_estado res)"
  using assms by (auto simp: poll_resultado_def split: sum.splits if_splits)

text \<open>A state that changes, changes to what the DGII said of the document.\<close>

definition dgii_said :: "dgii_client \<Rightarrow> EcfDocument \<Rightarrow> string \<Rightarrow> bool" where
  "dgii_said cl doc estado \<longleftrightarrow>
     (\<exists>res. cl_consultarResultado cl (value_or (d_trackId doc) []) = Inr res \<and> estado = trim (crr_estado res))
   \<or> (\<exists>st. cl_consultarEstado cl (d_rncEmisor doc) (d_eNcf doc) (d_rncComprador doc) (d_securityCode doc) = Inr st
        \<and> estado = trim (cer_estado st))"

lemma ask_document_spec:
  assumes "ask_document now cl doc = (d, evs)"
  shows "keys d = keys doc" "transmissions evs = 0" "d_statusCheckAttempts d = d_statusCheckAttempts doc + 1"
    "d_lastStatusCheckAt d = Some (toIsoUtc now)"
    "d_state d = d_state doc
     \<or> (\<exists>estado. dgii_said cl doc estado \<and> (d_state d = ''AcceptedByDgii'' \<and> accepted_estado estado
          \<or> d_state d = ''RejectedByDgii'' \<and> lower estado = ''rechazado''))"
proof -
  obtain estado d1 ev1 where p: "poll_resultado cl doc = (estado, d1, ev1)" by (cases "poll_resultado cl doc") auto
  note s = poll_resultado_spec [OF p]
  have k: "d_rncEmisor d1 = d_rncEmisor doc" "d_eNcf d1 = d_eNcf doc" using s(1) by (simp_all add: keys_def)
  show "keys d = keys doc" "transmissions evs = 0" "d_statusCheckAttempts d = d_statusCheckAttempts doc + 1"
    "d_lastStatusCheckAt d = Some (toIsoUtc now)"
    using assms s(1-4) by (auto simp: ask_document_def p split: if_splits sum.splits)
  have said: "dgii_said cl doc estado" if "estado \<noteq> []" using s(7) [OF that] by (auto simp: dgii_said_def)
  have none: "d_state (settle [] x) = d_state x" for x by (simp add: settle_def accepted_estado_def)
  have by_estado: "d_state (settle e (count_check now x)) = d_state doc
     \<or> (\<exists>estado. dgii_said cl doc estado \<and> (d_state (settle e (count_check now x)) = ''AcceptedByDgii'' \<and> accepted_estado estado
          \<or> d_state (settle e (count_check now x)) = ''RejectedByDgii'' \<and> lower estado = ''rechazado''))"
    if "dgii_said cl doc e \<or> e = []" "d_state x = d_state doc" for e x
    using that none by (auto simp: settle_def)
  have live_said: "dgii_said cl doc (trim (cer_estado st))"
    if "cl_consultarEstado cl (d_rncEmisor d1) (d_eNcf d1) (d_rncComprador d1) (d_securityCode d1) = Inr st" for st
    using that k s(5,6) by (auto simp: dgii_said_def)
  consider (known) "d = settle estado (count_check now d1)"
    | (failed) "d = count_check now d1"
    | (live) st x where "cl_consultarEstado cl (d_rncEmisor d1) (d_eNcf d1) (d_rncComprador d1) (d_securityCode d1) = Inr st"
        "d = settle (trim (cer_estado st)) (count_check now (d1 \<lparr> d_dgiiResponseXml := x \<rparr>))"
    using assms by (auto simp: ask_document_def p split: if_splits sum.splits)
  then show "d_state d = d_state doc
     \<or> (\<exists>estado. dgii_said cl doc estado \<and> (d_state d = ''AcceptedByDgii'' \<and> accepted_estado estado
          \<or> d_state d = ''RejectedByDgii'' \<and> lower estado = ''rechazado''))"
  proof cases
    case known
    show ?thesis unfolding known by (rule by_estado) (use said s(2) in auto)
  next
    case failed
    then show ?thesis using s(2) by simp
  next
    case (live st x)
    show ?thesis unfolding live(2) by (rule by_estado) (use live_said [OF live(1)] s(2) in auto)
  qed
qed

subsection \<open>A queue of updates\<close>

lemma other_row_stays:
  assumes "exec_op (update_op now usr d) docs = Inr docs1" "r \<in> set docs" "ae_id r \<noteq> ae_id d"
  shows "r \<in> set docs1"
proof (cases "list_ex (\<lambda>q. ae_id q = ae_id d) docs")
  case True
  then have "docs1 = map (\<lambda>q. if ae_id q = ae_id d then updated_row (stamped now usr d) q else q) docs"
    using assms(1) by (auto simp: exec_op_def update_op_def split: option.splits)
  then show ?thesis using assms(2,3) by (force simp: image_iff)
next
  case False
  then show ?thesis using assms(1,2) by (simp add: exec_op_def update_op_def)
qed

lemma keys_id: "keys a = keys b \<Longrightarrow> ae_id a = ae_id b"
  by (simp add: keys_def)

lemma run_updates:
  assumes "unique_indexes docs" "distinct (map ae_id ds)" "\<And>d. d \<in> set ds \<Longrightarrow> \<exists>r \<in> set docs. keys r = keys d"
  shows "\<exists>docs'. run_ops (map (update_op now usr) ds) docs = Inr docs' \<and> unique_indexes docs'
    \<and> (\<forall>d \<in> set ds. doc_getById (ae_id d) docs \<noteq> None \<longrightarrow>
         (\<exists>r. doc_getById (ae_id d) docs' = Some r \<and> content r = content d))
    \<and> (\<forall>i. i \<notin> ae_id ` set ds \<longrightarrow> doc_getById i docs' = doc_getById i docs)"
  using assms
proof (induction ds arbitrary: docs)
  case (Cons d ds)
  obtain r where r: "r \<in> set docs" "keys r = keys d" using Cons.prems(3) [of d] by auto
  obtain docs1 where e: "exec_op (update_op now usr d) docs = Inr docs1"
    using update_same_keys [OF Cons.prems(1) r(1) r(2) [symmetric]] by blast
  have u1: "unique_indexes docs1" by (rule exec_op_keeps_indexes [OF Cons.prems(1) e])
  have "\<exists>q \<in> set docs1. keys q = keys d'" if d': "d' \<in> set ds" for d'
  proof -
    obtain q where q: "q \<in> set docs" "keys q = keys d'" using Cons.prems(3) [of d'] d' by auto
    have "ae_id d' \<noteq> ae_id d" using Cons.prems(2) d' by (metis distinct.simps(2) image_eqI list.simps(9) set_map)
    then have "ae_id q \<noteq> ae_id d" using keys_id [OF q(2)] by simp
    with other_row_stays [OF e q(1)] q(2) show ?thesis by blast
  qed
  moreover have "distinct (map ae_id ds)" using Cons.prems(2) by simp
  ultimately obtain docs' where run: "run_ops (map (update_op now usr) ds) docs1 = Inr docs'"
    and u': "unique_indexes docs'"
    and hit: "\<And>d'. d' \<in> set ds \<Longrightarrow> doc_getById (ae_id d') docs1 \<noteq> None \<Longrightarrow>
         \<exists>r. doc_getById (ae_id d') docs' = Some r \<and> content r = content d'"
    and miss: "\<And>i. i \<notin> ae_id ` set ds \<Longrightarrow> doc_getById i docs' = doc_getById i docs1"
    using Cons.IH [OF u1] by blast
  have "doc_getById (ae_id d') docs \<noteq> None \<longrightarrow>
      (\<exists>r. doc_getById (ae_id d') docs' = Some r \<and> content r = content d')" if d': "d' \<in> set (d # ds)" for d'
  proof (cases "d' \<in> set ds")
    case True
    then have "ae_id d' \<noteq> ae_id d" using Cons.prems(2) by (metis distinct.simps(2) image_eqI list.simps(9) set_map)
    then show ?thesis using hit [OF True] exec_update [OF e, of "ae_id d'"] by simp
  next
    case False
    then have [simp]: "d' = d" using d' by simp
    have "ae_id d \<notin> ae_id ` set ds" using Cons.prems(2) by simp
    then show ?thesis using miss exec_update [OF e, of "ae_id d"] by auto
  qed
  moreover have "doc_getById i docs' = doc_getById i docs" if "i \<notin> ae_id ` set (d # ds)" for i
    using that miss exec_update [OF e, of i] by simp
  ultimately show ?case using e run u' by auto
qed simp

subsection \<open>The documents that are due\<close>

lemma set_insert_by_sent [simp]: "set (insert_by_sent r qs) = insert r (set qs)"
  by (induction qs) auto

lemma distinct_insert_by_sent [simp]:
  "distinct (map ae_id (insert_by_sent r qs)) \<longleftrightarrow> ae_id r \<notin> ae_id ` set qs \<and> distinct (map ae_id qs)"
  by (induction qs) auto

lemma sorted_by_sent: "set (foldr insert_by_sent docs []) = set docs"
  "distinct (map ae_id docs) \<Longrightarrow> distinct (map ae_id (foldr insert_by_sent docs []))"
proof -
  show s: "set (foldr insert_by_sent docs []) = set docs" for docs by (induction docs) auto
  show "distinct (map ae_id docs) \<Longrightarrow> distinct (map ae_id (foldr insert_by_sent docs []))"
    by (induction docs) (auto simp: s)
qed

lemma due_facts:
  assumes "unique_indexes docs"
  shows "length (getDueForStatusCheck a b n docs) \<le> n"
    "d \<in> set (getDueForStatusCheck a b n docs) \<Longrightarrow> d \<in> set docs \<and> due_for_check a b d"
    "distinct (map ae_id (getDueForStatusCheck a b n docs))"
proof -
  have "distinct (map ae_id (filter (due_for_check a b) docs))"
    using unique_indexes_distinct [OF assms] by (rule distinct_map_filter)
  from sorted_by_sent(2) [OF this]
  show "distinct (map ae_id (getDueForStatusCheck a b n docs))"
    unfolding getDueForStatusCheck_def take_map [symmetric] by (rule distinct_take)
  show "length (getDueForStatusCheck a b n docs) \<le> n" by (simp add: getDueForStatusCheck_def)
  assume "d \<in> set (getDueForStatusCheck a b n docs)"
  then have "d \<in> set (foldr insert_by_sent (filter (due_for_check a b) docs) [])"
    unfolding getDueForStatusCheck_def by (rule in_set_takeD)
  then show "d \<in> set docs \<and> due_for_check a b d" by (simp add: sorted_by_sent)
qed

subsection \<open>A whole pass\<close>

lemma check_document_spec:
  assumes "check_document rc now doc cache = (d, evs, cache')"
  shows "keys d = keys doc" "transmissions evs = 0"
    "window_over rc now doc \<Longrightarrow> d_state d = ''RequiresManualReview''"
    "\<not> window_over rc now doc \<Longrightarrow> \<exists>cl. ask_document now cl doc = (d, evs)"
  using assms ask_document_spec(1,2)
  by (auto simp: check_document_def split: if_splits prod.splits)

lemma check_all_spec:
  assumes "check_all rc now cache docs = (ds, evs)"
  shows "map keys ds = map keys docs" "transmissions evs = 0"
    "list_all2 (\<lambda>doc d. \<exists>c evs c'. check_document rc now doc c = (d, evs, c')) docs ds"
proof -
  have "map keys ds = map keys docs \<and> transmissions evs = 0
      \<and> list_all2 (\<lambda>doc d. \<exists>c evs c'. check_document rc now doc c = (d, evs, c')) docs ds"
    using assms
  proof (induction docs arbitrary: cache ds evs)
    case (Cons doc docs)
    obtain d1 ev1 c1 where c: "check_document rc now doc cache = (d1, ev1, c1)" by (cases "check_document rc now doc cache") auto
    obtain ds2 ev2 where r: "check_all rc now c1 docs = (ds2, ev2)" by force
    have ds: "ds = d1 # ds2" "evs = ev1 @ ev2" using Cons.prems c r by simp_all
    have "\<exists>c evs c'. check_document rc now doc c = (d1, evs, c')" using c by blast
    then show ?case using Cons.IH [OF r] check_document_spec(1,2) [OF c] by (simp add: ds)
  qed simp
  then show "map keys ds = map keys docs" "transmissions evs = 0"
    "list_all2 (\<lambda>doc d. \<exists>c evs c'. check_document rc now doc c = (d, evs, c')) docs ds" by simp_all
qed

lemma map_keys_ids: "map keys ds = map keys docs \<Longrightarrow> map ae_id ds = map ae_id docs"
proof -
  assume k: "map keys ds = map keys docs"
  have "map ae_id xs = map fst (map keys xs)" for xs by (simp add: keys_def)
  then show "map ae_id ds = map ae_id docs" by (simp only: k)
qed

text \<open>The documents of a pass, as they were read and as they are saved.\<close>

definition checked :: "reconciler \<Rightarrow> int \<Rightarrow> doc_table \<Rightarrow> (EcfDocument \<times> EcfDocument) list" where
  "checked rc now docs = (let due = due_documents rc now docs in zip due (fst (check_all rc now [] due)))"

lemma reconcile_run:
  assumes "w_faults w = []" "unique_indexes (w_docs w)" "reconcile rc now usr w = (n, w')"
  shows "n = length (checked rc now (w_docs w)) \<and> n \<le> 100"
    "(doc, d) \<in> set (checked rc now (w_docs w)) \<Longrightarrow>
      \<exists>r. doc_getById (ae_id doc) (w_docs w') = Some r \<and> content r = content d"
    "i \<notin> (ae_id \<circ> fst) ` set (checked rc now (w_docs w)) \<Longrightarrow> doc_getById i (w_docs w') = doc_getById i (w_docs w)"
    "unique_indexes (w_docs w')"
proof -
  let ?due = "due_documents rc now (w_docs w)"
  obtain ds evs where c: "check_all rc now [] ?due = (ds, evs)" by force
  note cs = check_all_spec [OF c]
  have ids: "map ae_id ds = map ae_id ?due" by (rule map_keys_ids [OF cs(1)])
  have len: "length ds = length ?due" using ids by (metis length_map)
  have ck: "checked rc now (w_docs w) = zip ?due ds" by (simp add: checked_def c)
  have due: "distinct (map ae_id ?due)" "\<And>d. d \<in> set ?due \<Longrightarrow> d \<in> set (w_docs w) \<and> \<not> ae_isDeleted d" "length ?due \<le> 100"
    using due_facts [OF assms(2)] by (auto simp: due_documents_def due_for_check_def)
  have has: "\<exists>r \<in> set (w_docs w). keys r = keys d" if "d \<in> set ds" for d
  proof -
    have "keys d \<in> set (map keys ?due)" using that cs(1) [symmetric] by simp
    then show ?thesis using due(2) by fastforce
  qed
  obtain docs' where run: "run_ops (map (update_op now usr) ds) (w_docs w) = Inr docs'" and u: "unique_indexes docs'"
    and hit: "\<And>d. d \<in> set ds \<Longrightarrow> doc_getById (ae_id d) (w_docs w) \<noteq> None \<Longrightarrow>
         \<exists>r. doc_getById (ae_id d) docs' = Some r \<and> content r = content d"
    and miss: "\<And>i. i \<notin> ae_id ` set ds \<Longrightarrow> doc_getById i docs' = doc_getById i (w_docs w)"
    using run_updates [OF assms(2), of ds now usr] has due(1) ids by auto
  have n: "n = length ?due" and w': "w' = snd (saveChanges (map (update_op now usr) ds) (log_events evs w))"
    using assms(3) c by (simp_all add: reconcile_def reads_no_fault [OF assms(1)])
  have docs: "w_docs w' = docs'"
    using run assms(1) by (cases "ds = []") (simp_all add: w' saveChanges_def next_fault_def)
  show "n = length (checked rc now (w_docs w)) \<and> n \<le> 100" using n len due(3) ck by simp
  show "unique_indexes (w_docs w')" using u docs by simp
  have fst_ids: "(ae_id \<circ> fst) ` set (zip ?due ds) = ae_id ` set ds"
  proof -
    have "map (ae_id \<circ> fst) (zip ?due ds) = map ae_id ?due" using len by (simp add: map_fst_zip flip: map_map)
    also have "\<dots> = map ae_id ds" using ids by simp
    finally show ?thesis by (metis image_set)
  qed
  show "i \<notin> (ae_id \<circ> fst) ` set (checked rc now (w_docs w)) \<Longrightarrow> doc_getById i (w_docs w') = doc_getById i (w_docs w)"
    using miss docs ck fst_ids by simp
  assume "(doc, d) \<in> set (checked rc now (w_docs w))"
  then obtain k where k: "k < length ?due" "doc = ?due ! k" "d = ds ! k" using len ck by (auto simp: set_zip)
  then have mem: "doc \<in> set ?due" "d \<in> set ds" using len by simp_all
  have id: "ae_id d = ae_id doc" using ids k len by (metis nth_map)
  have "doc_getById (ae_id doc) (w_docs w) \<noteq> None"
    using due(2) [OF mem(1)] by (auto simp: doc_getById_def queryOne_def find_None_iff)
  with hit [OF mem(2)] id docs show "\<exists>r. doc_getById (ae_id doc) (w_docs w') = Some r \<and> content r = content d" by simp
qed

definition demo_poller :: "int \<Rightarrow> reconciler" where
  "demo_poller hours = \<lparr> rc_client = demo_client ''RECHAZADO'',
     rc_options = \<lparr> po_pollingIntervalMinutes = 15, po_minDocumentAgeMinutes = 2, po_maxPollingWindowHours = hours \<rparr>,
     rc_resolveSigner = None, rc_makeClient = (\<lambda>r e s. demo_client ''RECHAZADO'') \<rparr>"

definition demo_polled :: EcfDocument where
  "demo_polled = demo_document \<lparr> d_state := ''Signed'', d_trackId := Some ''T-1'',
     d_sentToDgiiAt := Some ''2024-02-29T11:00:00Z'' \<rparr>"

definition demo_poll_world :: world where
  "demo_poll_world = demo_world \<lparr> w_docs := [demo_polled] \<rparr>"

lemma demo_due: "due_documents (demo_poller h) 1709210096 [demo_polled] = [demo_polled]"
proof -
  have "due_for_check (toIsoUtc (1709210096 - 60 * 2)) (toIsoUtc (1709210096 - 60 * 15)) demo_polled" by code_simp
  then show ?thesis by (simp add: due_documents_def getDueForStatusCheck_def demo_poller_def)
qed

lemma demo_poll_facts: "w_faults demo_poll_world = []" "unique_indexes (w_docs demo_poll_world)"
  "w_docs demo_poll_world = [demo_polled]" "ae_id demo_polled = ''d1''"
  by (simp_all add: demo_poll_world_def demo_world_def unique_indexes_def demo_polled_def demo_document_def)

lemma demo_window: "window_over (demo_poller 1) 1709210096 demo_polled" "\<not> window_over (demo_poller 72) 1709210096 demo_polled"
  by code_simp+

subsection \<open>Properties\<close>

text \<open>Without an outage a pass reads at most a hundred documents, stores every one of them as
  it was checked, leaves every other document as it was, and keeps the unique indexes.\<close>

theorem pass_stores_what_it_checked:
  assumes "w_faults w = []" "unique_indexes (w_docs w)" "reconcile rc now usr w = (n, w')"
  shows "n \<le> 100
    \<and> (\<forall>(doc, d) \<in> set (checked rc now (w_docs w)). \<exists>r. doc_getById (ae_id doc) (w_docs w') = Some r \<and> content r = content d)
    \<and> (\<forall>i. i \<notin> (ae_id \<circ> fst) ` set (checked rc now (w_docs w)) \<longrightarrow> doc_getById i (w_docs w') = doc_getById i (w_docs w))
    \<and> unique_indexes (w_docs w')"
  using reconcile_run [OF assms] by auto

theorem pass_stores_what_it_checked_witness:
  "unique_indexes (w_docs (snd (reconcile (demo_poller 72) 1709210096 ''System'' demo_poll_world)))"
  using pass_stores_what_it_checked [OF demo_poll_facts(1,2) prod.collapse [symmetric],
      of "demo_poller 72" 1709210096 "''System''"] by blast

text \<open>A check counts one attempt and leaves the state alone, or follows the word of the DGII on
  this document; or, past the polling window, hands the document over to a person.\<close>

theorem check_follows_dgii:
  assumes "check_document rc now doc cache = (d, evs, cache')"
  shows "keys d = keys doc \<and> transmissions evs = 0 \<and>
    (if window_over rc now doc then d_state d = ''RequiresManualReview'' \<and> evs = []
     else d_statusCheckAttempts d = d_statusCheckAttempts doc + 1
       \<and> (d_state d = d_state doc \<or> (\<exists>cl estado. dgii_said cl doc estado
          \<and> (d_state d = ''AcceptedByDgii'' \<and> accepted_estado estado
             \<or> d_state d = ''RejectedByDgii'' \<and> lower estado = ''rechazado''))))"
proof (cases "window_over rc now doc")
  case True
  then show ?thesis using assms by (auto simp: check_document_def keys_def)
next
  case False
  then obtain cl where a: "ask_document now cl doc = (d, evs)" using check_document_spec(4) [OF assms] by blast
  note s = ask_document_spec [OF a]
  have "d_state d = d_state doc \<or> (\<exists>cl estado. dgii_said cl doc estado
      \<and> (d_state d = ''AcceptedByDgii'' \<and> accepted_estado estado \<or> d_state d = ''RejectedByDgii'' \<and> lower estado = ''rechazado''))"
    using s(5) by (rule disj_forward) (assumption, rule exI [of _ cl], assumption)
  with s(1-3) False show ?thesis by (simp only: if_False simp_thms)
qed

theorem check_follows_dgii_witness:
  "\<exists>cl estado. dgii_said cl demo_polled estado \<and> lower estado = ''rechazado''"
proof -
  let ?c = "check_document (demo_poller 72) 1709210096 demo_polled []"
  have "d_state (fst ?c) = ''RejectedByDgii''" by code_simp
  moreover have "d_state demo_polled = ''Signed''" by (simp add: demo_polled_def)
  ultimately show ?thesis
    using check_follows_dgii [of "demo_poller 72" 1709210096 demo_polled "[]" "fst ?c" "fst (snd ?c)" "snd (snd ?c)"] demo_window(2)
    by auto
qed

text \<open>No document is polled for ever: the first pass after the polling window (that is not
  struck by an outage) moves it to manual review, and no later pass finds it due.\<close>

theorem polling_ends:
  assumes "w_faults w = []" "unique_indexes (w_docs w)" "reconcile rc now usr w = (n, w')"
    and "doc \<in> set (due_documents rc now (w_docs w))" "window_over rc now doc"
  shows "\<exists>r. doc_getById (ae_id doc) (w_docs w') = Some r \<and> d_state r = ''RequiresManualReview''
    \<and> \<not> due_for_check a b r"
proof -
  let ?due = "due_documents rc now (w_docs w)"
  obtain ds evs where c: "check_all rc now [] ?due = (ds, evs)" by force
  note l = check_all_spec(3) [OF c]
  obtain k where k: "k < length ?due" "doc = ?due ! k" using assms(4) by (auto simp: in_set_conv_nth)
  have len: "length ds = length ?due" using l by (simp add: list_all2_lengthD)
  have "(doc, ds ! k) \<in> set (checked rc now (w_docs w))"
    using k len by (auto simp: checked_def c set_zip)
  from reconcile_run(2) [OF assms(1-3) this] obtain r
    where r: "doc_getById (ae_id doc) (w_docs w') = Some r" "content r = content (ds ! k)" by blast
  obtain c evs c' where "check_document rc now doc c = (ds ! k, evs, c')"
    using list_all2_nthD [OF l k(1)] k(2) by blast
  then have "d_state (ds ! k) = ''RequiresManualReview''" using check_document_spec(3) assms(5) by blast
  then have "d_state r = ''RequiresManualReview''" using content_state [OF r(2)] by simp
  then show ?thesis using r(1) by (simp add: due_for_check_def)
qed

theorem polling_ends_witness:
  "\<exists>r. doc_getById ''d1'' (w_docs (snd (reconcile (demo_poller 1) 1709210096 ''System'' demo_poll_world))) = Some r
     \<and> d_state r = ''RequiresManualReview''"
proof -
  have "demo_polled \<in> set (due_documents (demo_poller 1) 1709210096 (w_docs demo_poll_world))"
    by (simp add: demo_due demo_poll_facts)
  from polling_ends [OF demo_poll_facts(1,2) prod.collapse [symmetric] this demo_window(1), of "''System''" "[]" "[]"]
  show ?thesis by (auto simp: demo_poll_facts)
qed

text \<open>The poller and the controller ask about a document in the environment it was issued in.\<close>

theorem poller_asks_issuing_environment:
  assumes "d_ambiente doc = Some (ambienteToString a)"
  shows "poll_environment doc = environment_of a
    \<and> environment_of (resolveAmbienteEnum (value_or (d_ambiente doc) []) dflt) = environment_of a"
proof -
  have e: "poll_environment (new_document \<lparr> d_ambiente := Some (ambienteToString b) \<rparr>) = environment_of b"
    and t: "tryResolveAmbienteEnum (ambienteToString b) = Some b" for b
    by (cases b; simp only:; code_simp)+
  have "poll_environment doc = poll_environment (new_document \<lparr> d_ambiente := Some (ambienteToString a) \<rparr>)"
    using assms by (simp only: poll_environment_def) simp
  then show ?thesis using assms e t by (simp add: resolveAmbienteEnum_def)
qed

theorem poller_asks_issuing_environment_witness: "poll_environment demo_polled = EnvTest"
proof -
  have "d_ambiente demo_polled = Some (ambienteToString PreCertificacion)"
    by (simp add: demo_polled_def demo_document_def ambienteToString_def)
  from poller_asks_issuing_environment [OF this] show ?thesis by (simp add: environment_of_def)
qed

end
