(* ===== verification/Ecf_Handlers.thy ===== *)
theory Ecf_Handlers
  imports Rfce_Client Status_Reconciler
begin

text \<open>
  EcfHandlers.cpp: the commands behind /api/ecf, which send an XML or an RFCE the caller made
  and store a record of it, and the query that asks the DGII for the status of a document.
  A \<open>ResultT\<close> is a sum: \<open>Inl\<close> the message of a failure, \<open>Inr\<close> the value.  The lemmas show what
  each handler stores; unlike \<open>submit\<close>, the commands send first and store afterwards.
\<close>

subsection \<open>\<open>SendEcfCommandHandler\<close>\<close>

record SendEcfCommand =
  se_xmlContent :: string
  se_fileName :: string
  se_rncEmisor :: string
  se_eNcf :: string
  se_rncComprador :: "string option"
  se_totalAmount :: dbl
  se_itbisAmount :: dbl

definition reception_failed :: "EcfRecepcionResponse \<Rightarrow> bool" where
  "reception_failed r \<longleftrightarrow> has_text (rec_error r) \<or> rec_trackId r = []"

definition sent_document :: "int \<Rightarrow> SendEcfCommand \<Rightarrow> EcfRecepcionResponse \<Rightarrow> EcfDocument" where
  "sent_document now cmd response = new_document \<lparr> d_eNcf := se_eNcf cmd, d_rncEmisor := se_rncEmisor cmd,
     d_rncComprador := se_rncComprador cmd, d_trackId := Some (rec_trackId response),
     d_state := (if reception_failed response then ''Rechazado'' else ''Recibido''),
     d_totalAmount := se_totalAmount cmd, d_itbisAmount := se_itbisAmount cmd,
     d_xmlContent := se_xmlContent cmd, d_receiptDate := Some (toIsoUtc now) \<rparr>"

definition no_trackId :: string where
  "no_trackId = ''La DGII no devolvi'' @ u_o @ '' un trackId de recepci'' @ u_o @ ''n v'' @ u_a @ ''lido.''"

definition sendEcf_handle ::
    "int \<Rightarrow> string \<Rightarrow> string \<Rightarrow> dgii_client \<Rightarrow> SendEcfCommand \<Rightarrow> world \<Rightarrow> (string + EcfRecepcionResponse) \<times> world" where
  "sendEcf_handle now uuid usr client cmd w =
     (let w1 = log_events [SentEcf (se_xmlContent cmd) (se_fileName cmd)] w in
      case cl_sendEcf client (se_xmlContent cmd) (se_fileName cmd) of
        Inl e \<Rightarrow> (Inl (''Failed to send e-CF: '' @ exn_what e), w1)
      | Inr response \<Rightarrow>
          (case saveChanges [add_op now uuid usr (sent_document now cmd response)] w1 of
             (Inl e, w2) \<Rightarrow> (Inl (''Failed to send e-CF: '' @ exn_what e), w2)
           | (Inr n, w2) \<Rightarrow>
               if reception_failed response then
                 (Inl (value_or (rec_mensaje response) (value_or (rec_error response)
                    (if rec_trackId response = [] then no_trackId else ''Error''))), w2)
               else (Inr response, w2)))"

subsection \<open>\<open>SendRfceCommandHandler\<close>\<close>

text \<open>\<open>send\<close> is \<open>IEcfClient::sendRfce(Rfce&)\<close>: the answer, the model it left behind, what was sent.\<close>

type_synonym rfce_send = "Rfce \<Rightarrow> (string + RfceRecepcionResponse) \<times> Rfce \<times> event list"

definition rfce_document :: "int \<Rightarrow> Rfce \<Rightarrow> RfceRecepcionResponse \<Rightarrow> EcfDocument" where
  "rfce_document now rfce response = (let e = rf_encabezado rfce; t = rh_totales e in
     new_document \<lparr> d_eNcf := ri_eNcf (rh_idDoc e), d_rncEmisor := re_rncEmisor (rh_emisor e),
       d_rncComprador := (case rh_comprador e of None \<Rightarrow> None | Some c \<Rightarrow> rc_rncComprador c),
       d_trackId := None, d_state := rfr_estado response, d_totalAmount := rt_montoTotal t,
       d_itbisAmount := or0 (rt_totalITBIS t),
       d_securityCode := (if rh_codigoSeguridadeCF e \<noteq> None then rh_codigoSeguridadeCF e else rt_codigoSeguridadeCF t),
       d_xmlContent := serialize rfce, d_receiptDate := Some (toIsoUtc now) \<rparr>)"

definition sendRfce_handle ::
    "int \<Rightarrow> string \<Rightarrow> string \<Rightarrow> rfce_send \<Rightarrow> Rfce \<Rightarrow> world \<Rightarrow> (string + RfceRecepcionResponse) \<times> world" where
  "sendRfce_handle now uuid usr send model w = (case send model of
       (Inl msg, rfce, evs) \<Rightarrow> (Inl (''Failed to send RFCE: '' @ msg), log_events evs w)
     | (Inr response, rfce, evs) \<Rightarrow>
         (case saveChanges [add_op now uuid usr (rfce_document now rfce response)] (log_events evs w) of
            (Inl e, w2) \<Rightarrow> (Inl (''Failed to send RFCE: '' @ exn_what e), w2)
          | (Inr n, w2) \<Rightarrow>
              if rfr_estado response = ''Rechazado'' then
                (Inl (case rfr_mensajes response of m # _ \<Rightarrow> msg_valor m | [] \<Rightarrow> ''Rechazado por DGII''), w2)
              else (Inr response, w2)))"

subsection \<open>\<open>GetEcfStatusQueryHandler\<close>\<close>

definition strip_rnc :: "string \<Rightarrow> string" where
  "strip_rnc s = filter (\<lambda>c. c \<noteq> CHR ''-'' \<and> c \<noteq> CHR '' '') s"

definition foreign_issuer :: "string \<Rightarrow> EcfDocument \<Rightarrow> bool" where
  "foreign_issuer rnc d \<longleftrightarrow> rnc \<noteq> [] \<and> strip_rnc rnc \<noteq> [] \<and> strip_rnc (d_rncEmisor d) \<noteq> []
     \<and> strip_rnc rnc \<noteq> strip_rnc (d_rncEmisor d)"

definition access_denied :: string where
  "access_denied = ''Acceso denegado: El RNC emisor no coincide con el emisor del comprobante fiscal.''"

definition local_status :: "EcfDocument \<Rightarrow> ConsultaEstadoResponse" where
  "local_status d = \<lparr> cer_codigo = 0, cer_estado = ''Aceptado'', cer_rncEmisor = d_rncEmisor d,
     cer_ncfElectronico = d_eNcf d, cer_montoTotal = d_totalAmount d, cer_totalITBIS = d_itbisAmount d,
     cer_fechaEmision = ae_createdAt d, cer_fechaFirma = [], cer_rncComprador = value_or (d_rncComprador d) [],
     cer_codigoSeguridad = value_or (d_securityCode d) [], cer_idExtranjero = [] \<rparr>"

definition mappedState :: "string \<Rightarrow> string" where
  "mappedState estado =
     (if estado = ''Aceptado'' \<or> estado = ''Accepted'' then ''AcceptedByDgii''
      else if estado = ''Rechazado'' \<or> estado = ''Rejected'' then ''RejectedByDgii''
      else if estado = ''En Proceso'' \<or> estado = ''EnProceso'' \<or> estado = ''Processing'' then ''SentToDgii''
      else estado)"

definition status_failed :: "exn \<Rightarrow> string + 'a" where
  "status_failed e = Inl (''Failed to retrieve status: '' @ exn_what e)"

definition ask_live ::
    "int \<Rightarrow> string \<Rightarrow> dgii_client \<Rightarrow> string \<Rightarrow> string \<Rightarrow> EcfDocument option \<Rightarrow> world
     \<Rightarrow> (string + ConsultaEstadoResponse) \<times> world" where
  "ask_live now usr client rnc eNcf localDoc w =
     (let w1 = log_events [AskedEstado rnc eNcf] w in
      case cl_consultarEstado client rnc eNcf
          (case localDoc of None \<Rightarrow> None | Some d \<Rightarrow> d_rncComprador d)
          (case localDoc of None \<Rightarrow> None | Some d \<Rightarrow> d_securityCode d) of
        Inl e \<Rightarrow> (status_failed e, w1)
      | Inr live \<Rightarrow>
          (case localDoc of
             None \<Rightarrow> (Inr live, w1)
           | Some d \<Rightarrow>
               if d_state d = mappedState (cer_estado live) then (Inr live, w1)
               else (case save_one now usr (d \<lparr> d_state := mappedState (cer_estado live) \<rparr>) w1 of
                   (Inl e, w2) \<Rightarrow> (status_failed e, w2)
                 | (Inr n, w2) \<Rightarrow> (Inr live, w2))))"

definition getEcfStatus_handle ::
    "int \<Rightarrow> string \<Rightarrow> dgii_client \<Rightarrow> string \<Rightarrow> string \<Rightarrow> world \<Rightarrow> (string + ConsultaEstadoResponse) \<times> world" where
  "getEcfStatus_handle now usr client rnc eNcf w = (case db_read (doc_getByENcf eNcf) w of
       (Inl e, w1) \<Rightarrow> (status_failed e, w1)
     | (Inr None, w1) \<Rightarrow> ask_live now usr client rnc eNcf None w1
     | (Inr (Some d), w1) \<Rightarrow>
         if foreign_issuer rnc d then (Inl access_denied, w1)
         else if d_state d = ''AcceptedByDgii'' \<or> d_state d = ''Aceptado'' then (Inr (local_status d), w1)
         else ask_live now usr client rnc eNcf (Some d) w1)"

subsection \<open>A row is found by its identifier\<close>

lemma distinct_getById:
  assumes "distinct (map ae_id docs)" "d \<in> set docs" "\<not> ae_isDeleted d"
  shows "doc_getById (ae_id d) docs = Some d"
  using assms
proof (induction docs)
  case (Cons r docs)
  then show ?case by (cases "r = d") (auto simp: doc_getById_def queryOne_def image_iff)
qed simp

subsection \<open>Properties\<close>

text \<open>The command that sends an e-CF sends before it stores: when the database is lost in
  between, the DGII has the document, the table has no trace of it, and the caller is told
  that it was not sent.\<close>

theorem legacy_send_can_lose_document:
  assumes "cl_sendEcf client (se_xmlContent cmd) (se_fileName cmd) = Inr response" "w_faults w = True # fs"
    and "sendEcf_handle now uuid usr client cmd w = (r, w')"
  shows "transmissions (new_events w w') = 1 \<and> w_docs w' = w_docs w \<and> (\<exists>why. r = Inl (''Failed to send e-CF: '' @ why))"
proof -
  let ?w1 = "log_events [SentEcf (se_xmlContent cmd) (se_fileName cmd)] w"
  have n: "next_fault ?w1 = (True, ?w1 \<lparr> w_faults := fs \<rparr>)" using assms(2) by (simp add: next_fault_def)
  have "w' = ?w1 \<lparr> w_faults := fs \<rparr>" "r = Inl (''Failed to send e-CF: '' @ exn_what ConnectionLost)"
    using assms(1,3) n by (simp_all add: sendEcf_handle_def saveChanges_def Let_def)
  moreover have "new_events w (?w1 \<lparr> w_faults := fs \<rparr>) = [SentEcf (se_xmlContent cmd) (se_fileName cmd)]"
    by (rule new_events_append) simp
  ultimately show ?thesis by auto
qed

definition demo_command :: SendEcfCommand where
  "demo_command = \<lparr> se_xmlContent = ''<ECF/>'', se_fileName = ''f.xml'', se_rncEmisor = ''131234567'',
     se_eNcf = ''E310000000009'', se_rncComprador = None, se_totalAmount = dzero, se_itbisAmount = dzero \<rparr>"

theorem legacy_send_can_lose_document_witness:
  "w_docs (snd (sendEcf_handle 0 ''u'' ''s'' (demo_client []) demo_command (demo_world \<lparr> w_faults := [True] \<rparr>)))
    = [demo_document]"
proof -
  have "cl_sendEcf (demo_client []) (se_xmlContent demo_command) (se_fileName demo_command)
      = Inr \<lparr> rec_trackId = ''T-1'', rec_error = None, rec_mensaje = None \<rparr>"
    by (simp add: demo_client_def)
  from legacy_send_can_lose_document [OF this, of "demo_world \<lparr> w_faults := [True] \<rparr>" "[]" 0 "''u''" "''s''"
      "fst (sendEcf_handle 0 ''u'' ''s'' (demo_client []) demo_command (demo_world \<lparr> w_faults := [True] \<rparr>))"]
  show ?thesis by (simp add: demo_world_def)
qed

text \<open>A status query answers from the table for an accepted document and refuses the issuer of
  another one: in both cases nobody is asked and nothing is stored.  Otherwise the stored state
  becomes whatever the DGII says, in words of its own if they are not among the known ones.\<close>

theorem status_query_stores_dgii_state:
  assumes "doc_getByENcf eNcf (w_docs w) = Some d" "w_faults w = []" "unique_indexes (w_docs w)"
    and "getEcfStatus_handle now usr client rnc eNcf w = (r, w')"
  shows "if foreign_issuer rnc d then r = Inl access_denied \<and> w' = w
    else if d_state d = ''AcceptedByDgii'' \<or> d_state d = ''Aceptado'' then r = Inr (local_status d) \<and> w' = w
    else case cl_consultarEstado client rnc eNcf (d_rncComprador d) (d_securityCode d) of
        Inl e \<Rightarrow> w_docs w' = w_docs w
      | Inr live \<Rightarrow> r = Inr live \<and> (\<exists>q. doc_getById (ae_id d) (w_docs w') = Some q \<and> d_state q = mappedState (cer_estado live))"
proof -
  note read = reads_no_fault(1) [OF assms(2)]
  have d: "d \<in> set (w_docs w)" "\<not> ae_isDeleted d" using assms(1) by (auto simp: doc_getByENcf_def queryOne_def find_Some_iff)
  have run: "getEcfStatus_handle now usr client rnc eNcf w =
      (if foreign_issuer rnc d then (Inl access_denied, w)
       else if d_state d = ''AcceptedByDgii'' \<or> d_state d = ''Aceptado'' then (Inr (local_status d), w)
       else ask_live now usr client rnc eNcf (Some d) w)"
    by (simp only: getEcfStatus_handle_def read assms(1) prod.case sum.case option.case)
  show ?thesis
  proof (cases "foreign_issuer rnc d \<or> d_state d = ''AcceptedByDgii'' \<or> d_state d = ''Aceptado''")
    case True
    then show ?thesis using assms(4) run by (auto split: if_splits)
  next
    case False
    let ?w1 = "log_events [AskedEstado rnc eNcf] w"
    have ask: "ask_live now usr client rnc eNcf (Some d) w = (r, w')" using assms(4) run False by auto
    show ?thesis
    proof (cases "cl_consultarEstado client rnc eNcf (d_rncComprador d) (d_securityCode d)")
      case (Inl e)
      then have "w' = ?w1" using ask by (simp add: ask_live_def Let_def)
      then show ?thesis using False Inl by simp
    next
      case (Inr live)
      let ?d1 = "d \<lparr> d_state := mappedState (cer_estado live) \<rparr>"
      have stored: "doc_getById (ae_id d) (w_docs w) \<noteq> None"
        using d by (auto simp: doc_getById_def queryOne_def find_None_iff)
      show ?thesis
      proof (cases "d_state d = mappedState (cer_estado live)")
        case True
        then have "r = Inr live" "w' = ?w1" using ask Inr by (simp_all add: ask_live_def Let_def)
        moreover have "doc_getById (ae_id d) (w_docs w) = Some d"
          by (rule distinct_getById [OF unique_indexes_distinct [OF assms(3)] d])
        ultimately show ?thesis using False Inr True by simp
      next
        case ne: False
        have "keys ?d1 = keys d" by simp
        from update_same_keys [OF assms(3) d(1) this] obtain docs'
          where "exec_op (update_op now usr ?d1) (w_docs ?w1) = Inr docs'" by auto
        then obtain w2 where s: "save_one now usr ?d1 ?w1 = (Inr 1, w2)"
          using save_one_no_fault [of ?w1 now usr ?d1 docs'] assms(2) by auto
        then have r: "r = Inr live" "w' = w2" using ask Inr ne by (simp_all add: ask_live_def Let_def)
        have "doc_getById (ae_id ?d1) (w_docs ?w1) \<noteq> None" using stored by simp
        from stored_after_save [OF s this] obtain q where q: "doc_getById (ae_id d) (w_docs w2) = Some q" "content q = content ?d1"
          by auto
        then have "d_state q = mappedState (cer_estado live)" using content_state [OF q(2)] by simp
        then show ?thesis using False Inr r q(1) by simp
      qed
    qed
  qed
qed

theorem status_query_stores_dgii_state_witness:
  "\<exists>q. doc_getById ''d1'' (w_docs (snd (getEcfStatus_handle 0 ''s'' (demo_client ''Observado'') [] ''E310000000001'' demo_world)))
     = Some q \<and> d_state q = ''Observado''"
proof -
  have f: "doc_getByENcf ''E310000000001'' (w_docs demo_world) = Some demo_document"
    by (simp add: demo_world_def doc_getByENcf_def queryOne_def demo_document_def new_document_def)
  have g: "w_faults demo_world = []" "unique_indexes (w_docs demo_world)" "\<not> foreign_issuer [] demo_document"
    "d_state demo_document = ''Received''" "ae_id demo_document = ''d1''" "mappedState ''Observado'' = ''Observado''"
    by (simp_all add: demo_world_def unique_indexes_def foreign_issuer_def demo_document_def new_document_def mappedState_def)
  have c: "cl_consultarEstado (demo_client ''Observado'') [] ''E310000000001'' x y = Inr (demo_estado ''Observado'')" for x y
    by (simp add: demo_client_def)
  have e: "cer_estado (demo_estado ''Observado'') = ''Observado''" by (simp add: demo_estado_def)
  from status_query_stores_dgii_state [OF f g(1,2) prod.collapse [symmetric],
      where now = 0 and usr = "''s''" and client = "demo_client ''Observado''" and rnc = "[]"]
  show ?thesis by (simp add: g c e)
qed

end
