(* ===== verification/Documents_Lifecycle.thy ===== *)
theory Documents_Lifecycle
  imports Ecf_Handlers
begin

text \<open>
  The life of the table of documents under every operation of the service, in any order: the
  endpoints of DocumentsController.cpp, the background poller, the commands of EcfHandlers.cpp
  and outages of the database.  \<open>service_step\<close> is one operation, whatever the request, the
  clock and the answers of the DGII; a run is a finite sequence of them.  The lemmas show that
  each operation keeps the unique indexes, loses no row and leaves an accepted document as it
  is; rule induction carries that to runs of any length.
\<close>

named_theorems evolving \<open>operations after which the table is a later one\<close>

subsection \<open>A later table\<close>

text \<open>Rows are neither lost nor, once accepted, changed (beyond the audit columns).\<close>

definition later :: "doc_table \<Rightarrow> doc_table \<Rightarrow> bool" where
  "later docs docs' \<longleftrightarrow> ae_id ` set docs \<subseteq> ae_id ` set docs'
     \<and> (\<forall>d \<in> set docs. d_state d = ''AcceptedByDgii'' \<longrightarrow> (\<exists>d' \<in> set docs'. content d' = content d))"

text \<open>
  What holds of the table besides the unique indexes: no row is marked as deleted, and a row
  without environment (made by the commands of EcfHandlers.cpp) has no source transaction.
\<close>

definition key_ok :: "string \<times> string \<times> string option \<Rightarrow> bool" where
  "key_ok k \<longleftrightarrow> (case k of (t, x, a) \<Rightarrow> a = None \<longrightarrow> x = [])"

definition proper :: "doc_table \<Rightarrow> bool" where
  "proper docs \<longleftrightarrow> unique_indexes docs \<and> (\<forall>r \<in> set docs. \<not> ae_isDeleted r \<and> key_ok (source_key r))"

lemma proper_unique: "proper docs \<Longrightarrow> unique_indexes docs"
  by (simp add: proper_def)

definition evolves :: "world \<Rightarrow> world \<Rightarrow> bool" where
  "evolves w w' \<longleftrightarrow> proper (w_docs w') \<and> later (w_docs w) (w_docs w')"

lemma later_refl [simp]: "later docs docs"
  by (auto simp: later_def)

lemma later_append [simp]: "later docs (docs @ rest)"
  unfolding later_def by (intro conjI ballI impI) (force, metis Un_iff set_append)

lemma content_id: "content a = content b \<Longrightarrow> ae_id a = ae_id b"
  unfolding content_def by (drule arg_cong [where f = ae_id]) simp

lemma later_trans:
  assumes "later a b" "later b c"
  shows "later a c"
  unfolding later_def
proof (intro conjI ballI impI)
  show "ae_id ` set a \<subseteq> ae_id ` set c" using assms unfolding later_def by (elim conjE) (rule subset_trans)
  fix d assume d: "d \<in> set a" "d_state d = ''AcceptedByDgii''"
  then obtain d1 where d1: "d1 \<in> set b" "content d1 = content d" using assms(1) by (auto simp: later_def)
  have "d_state d1 = ''AcceptedByDgii''" using content_state [OF d1(2)] d(2) by simp
  then obtain d2 where "d2 \<in> set c" "content d2 = content d1" using assms(2) d1(1) unfolding later_def by blast
  then show "\<exists>d' \<in> set c. content d' = content d" using d1(2) by auto
qed

lemma evolves_refl: "proper (w_docs w) \<Longrightarrow> evolves w w"
  by (simp add: evolves_def)

lemma evolves_trans: "evolves w w1 \<Longrightarrow> evolves w1 w2 \<Longrightarrow> evolves w w2"
  by (auto simp: evolves_def intro: later_trans)

lemma evolves_same_docs: "proper (w_docs w) \<Longrightarrow> w_docs w' = w_docs w \<Longrightarrow> evolves w w'"
  by (simp add: evolves_def)

lemma evolves_proper: "evolves w w' \<Longrightarrow> proper (w_docs w')"
  by (simp add: evolves_def)

text \<open>Nothing accepted is stored under the identifier.\<close>

definition open_row :: "string \<Rightarrow> doc_table \<Rightarrow> bool" where
  "open_row i docs \<longleftrightarrow> (\<forall>r \<in> set docs. ae_id r = i \<longrightarrow> d_state r \<noteq> ''AcceptedByDgii'')"

lemma open_row_of:
  assumes "proper docs" "d \<in> set docs" "d_state d \<noteq> ''AcceptedByDgii''"
  shows "open_row (ae_id d) docs"
  using unique_indexes_distinct [OF proper_unique [OF assms(1)]] assms(2,3)
  by (auto simp: open_row_def distinct_map inj_on_def)

subsection \<open>One statement\<close>

lemma exec_update_later:
  assumes "exec_op (update_op now usr d) docs = Inr docs'" "open_row (ae_id d) docs"
  shows "later docs docs'"
proof (cases "list_ex (\<lambda>r. ae_id r = ae_id d) docs")
  case True
  let ?f = "\<lambda>r. if ae_id r = ae_id d then updated_row (stamped now usr d) r else r"
  have d': "docs' = map ?f docs" using True assms(1) by (auto simp: exec_op_def update_op_def split: option.splits)
  have "map ae_id docs' = map ae_id docs" by (simp add: d')
  then have "ae_id ` set docs' = ae_id ` set docs" by (metis set_map)
  moreover have "?f r = r" if "r \<in> set docs" "d_state r = ''AcceptedByDgii''" for r
    using assms(2) that by (auto simp: open_row_def)
  then have "r \<in> set docs'" if "r \<in> set docs" "d_state r = ''AcceptedByDgii''" for r
    using that by (force simp: d')
  ultimately show ?thesis unfolding later_def by blast
next
  case False
  then have "docs' = docs" using assms(1) by (simp add: exec_op_def update_op_def)
  then show ?thesis by simp
qed

lemma exec_update_open:
  assumes "exec_op (update_op now usr d) docs = Inr docs'" "open_row i docs" "i = ae_id d \<Longrightarrow> d_state d \<noteq> ''AcceptedByDgii''"
  shows "open_row i docs'"
proof (cases "list_ex (\<lambda>r. ae_id r = ae_id d) docs")
  case True
  let ?f = "\<lambda>r. if ae_id r = ae_id d then updated_row (stamped now usr d) r else r"
  have "docs' = map ?f docs" using True assms(1) by (auto simp: exec_op_def update_op_def split: option.splits)
  moreover have "d_state (updated_row (stamped now usr d) r) = d_state d" for r by (simp add: updated_row_def)
  ultimately show ?thesis using assms(2,3) by (auto simp: open_row_def)
next
  case False
  then show ?thesis using assms(1,2) by (simp add: exec_op_def update_op_def)
qed

lemma exec_update_proper:
  assumes "exec_op (update_op now usr d) docs = Inr docs'" "proper docs" "key_ok (source_key d)"
  shows "proper docs'"
proof -
  have "unique_indexes docs'" using assms(1,2) by (auto simp: proper_def intro: exec_op_keeps_indexes)
  moreover have "\<not> ae_isDeleted r \<and> key_ok (source_key r)" if "r \<in> set docs'" for r
  proof (cases "list_ex (\<lambda>r. ae_id r = ae_id d) docs")
    case True
    then have "docs' = map (\<lambda>r. if ae_id r = ae_id d then updated_row (stamped now usr d) r else r) docs"
      using assms(1) by (auto simp: exec_op_def update_op_def split: option.splits)
    moreover have "source_key (updated_row (stamped now usr d) q) = source_key d" for q
      by (simp add: updated_row_def source_key_def)
    ultimately show ?thesis using that assms(2,3) by (auto simp: proper_def)
  next
    case False
    then show ?thesis using assms(1,2) that by (simp add: exec_op_def update_op_def proper_def)
  qed
  ultimately show ?thesis by (simp add: proper_def)
qed

lemma save_one_evolves:
  assumes "save_one now usr d w = (res, w')" "proper (w_docs w)" "open_row (ae_id d) (w_docs w)"
    "key_ok (source_key d)"
  shows "evolves w w'" "d_state d \<noteq> ''AcceptedByDgii'' \<or> res = Inl e \<Longrightarrow> open_row (ae_id d) (w_docs w')"
  using assms(1)
proof -
  show "evolves w w'"
    using assms(1) by (rule save_one_cases)
      (use assms(2-4) in \<open>auto simp: evolves_def intro: exec_update_proper exec_update_later\<close>)
  assume "d_state d \<noteq> ''AcceptedByDgii'' \<or> res = Inl e"
  with assms(1) show "open_row (ae_id d) (w_docs w')"
    by (rule_tac save_one_cases [OF assms(1)]) (use assms(3) in \<open>auto intro: exec_update_open\<close>)
qed

lemma insert_evolves:
  assumes "saveChanges [add_op now uuid usr d] w = (res, w')" "proper (w_docs w)" "key_ok (source_key d)"
  shows "evolves w w'"
    "res = Inr n \<Longrightarrow> d_state d \<noteq> ''AcceptedByDgii'' \<Longrightarrow> ae_id d = uuid \<Longrightarrow> open_row uuid (w_docs w')"
proof -
  obtain e where e: "add_op now uuid usr d = InsertOp e" and s: "d_state e = d_state d"
    and k: "\<not> ae_isDeleted e" "source_key e = source_key d"
    and id: "ae_id d = uuid \<longrightarrow> ae_id e = uuid" by (auto simp: add_op_def source_key_def)
  obtain b w1 where f: "next_fault w = (b, w1)" by force
  have w1: "w_docs w1 = w_docs w" using f by (rule next_fault_docs)
  have run: "saveChanges [InsertOp e] w = (res, w')" using assms(1) e by simp
  have cases: "w_docs w' = w_docs w \<and> (\<exists>x. res = Inl x)
      \<or> first_conflict e (w_docs w) = None \<and> w_docs w' = w_docs w @ [e]"
  proof (cases "first_conflict e (w_docs w)")
    case None
    then have "exec_op (InsertOp e) (w_docs w1) = Inr (w_docs w @ [e])" by (simp add: exec_op_def w1)
    then show ?thesis using run w1 None by (cases b) (auto simp: saveChanges_def f)
  next
    case (Some c)
    then have "exec_op (InsertOp e) (w_docs w1) = Inl (UniqueViolation c)" by (simp add: exec_op_def w1)
    then show ?thesis using run w1 by (cases b) (auto simp: saveChanges_def f)
  qed
  have "unique_indexes (w_docs w')" by (rule saveChanges_unique [OF proper_unique [OF assms(2)] assms(1)])
  then have "proper (w_docs w')" using cases assms(2,3) k unfolding proper_def by (elim disjE conjE) simp_all
  then show "evolves w w'" using cases unfolding evolves_def by (elim disjE conjE) simp_all
  assume r: "res = Inr n" "d_state d \<noteq> ''AcceptedByDgii''" "ae_id d = uuid"
  then have c: "first_conflict e (w_docs w) = None" and d': "w_docs w' = w_docs w @ [e]" using cases by simp_all
  have ne: "ae_id r \<noteq> ae_id e" if "r \<in> set (w_docs w)" for r
  proof -
    have "conflict e r = None" using c that unfolding first_conflict_None by (rule bspec)
    then show ?thesis by (auto simp: conflict_def split: if_splits)
  qed
  have "ae_id e = uuid" using id r(3) by (rule mp)
  then show "open_row uuid (w_docs w')" unfolding open_row_def d' using r(2) s ne by auto
qed

subsection \<open>Steps that leave the table alone\<close>

lemma next_encf_docs [simp]: "next_encf now scope tipo w = (r, w') \<Longrightarrow> w_docs w' = w_docs w"
  by (auto simp: next_encf_def split: prod.splits sum.splits if_splits)

lemma release_docs [simp]: "w_docs (release_encf now scope tipo n w) = w_docs w"
  by (auto simp: release_encf_def split: prod.splits)

lemma db_read_docs [simp]: "db_read q w = (r, w') \<Longrightarrow> w_docs w' = w_docs w"
  by (drule db_read_same) (simp add: same_data_def)

lemma makeScope_docs [simp]: "makeScope w = (r, w') \<Longrightarrow> w_docs w' = w_docs w"
  by (drule makeScope_same) (simp add: same_data_def)

lemma evolves_log [simp]:
  "evolves (log_events evs w) w' \<longleftrightarrow> evolves w w'" "evolves w (log_events evs w') \<longleftrightarrow> evolves w w'"
  by (simp_all add: evolves_def)

subsection \<open>The operations on one document\<close>

text \<open>
  \<open>ready d w\<close>: the table is proper, and the row of the document under way is not accepted yet.
\<close>

definition ready :: "EcfDocument \<Rightarrow> world \<Rightarrow> bool" where
  "ready d w \<longleftrightarrow> proper (w_docs w) \<and> open_row (ae_id d) (w_docs w) \<and> key_ok (source_key d)"

lemma ready_log [simp]: "ready d (log_events evs w) = ready d w"
  by (simp add: ready_def)

lemma ready_docs: "ready d w \<Longrightarrow> w_docs w' = w_docs w \<Longrightarrow> ready d w' \<and> evolves w w'"
  by (simp add: ready_def evolves_def)

lemma ready_same: "ready d w \<Longrightarrow> ae_id d' = ae_id d \<Longrightarrow> source_key d' = source_key d \<Longrightarrow> ready d' w"
  by (simp add: ready_def)

lemma ready_of: "proper (w_docs w) \<Longrightarrow> d \<in> set (w_docs w) \<Longrightarrow> d_state d \<noteq> ''AcceptedByDgii'' \<Longrightarrow> ready d w"
  by (auto simp: ready_def open_row_of) (simp add: proper_def)

lemma ready_save:
  assumes "save_one now usr d w = (res, w')" "ready d w"
  shows "evolves w w'" "d_state d \<noteq> ''AcceptedByDgii'' \<Longrightarrow> ready d w'" "res = Inl e \<Longrightarrow> ready d w'"
proof -
  have u: "proper (w_docs w)" and o: "open_row (ae_id d) (w_docs w)" and k: "key_ok (source_key d)" using assms(2) by (simp_all add: ready_def)
  show ev: "evolves w w'" by (rule save_one_evolves(1) [OF assms(1) u o k])
  show "d_state d \<noteq> ''AcceptedByDgii'' \<Longrightarrow> ready d w'" "res = Inl e \<Longrightarrow> ready d w'"
    using save_one_evolves(2) [OF assms(1) u o k, of e] evolves_proper [OF ev] k by (simp_all add: ready_def)
qed

lemma save_and_reply_evolves:
  assumes "save_and_reply now usr d rep w = (r, w')" "ready d w"
  shows "evolves w w'"
proof -
  obtain res w1 where s: "save_one now usr d w = (res, w1)" by force
  then have "w' = w1" using assms(1) by (auto simp: save_and_reply_def split: sum.splits)
  then show ?thesis using ready_save(1) [OF s assms(2)] by simp
qed

lemma save_outcome_evolves:
  assumes "ready d w"
  shows "evolves w (save_outcome now usr d w)"
proof -
  obtain res w1 where s1: "save_one now usr d w = (res, w1)" by force
  note e1 = ready_save(1) [OF s1 assms]
  show ?thesis
  proof (cases res)
    case (Inr n)
    then show ?thesis using s1 e1 by (simp add: save_outcome_def)
  next
    case (Inl e)
    obtain res2 w2 where s2: "save_one now (auditUsername None) d w1 = (res2, w2)" by force
    have "evolves w1 w2" by (rule ready_save(1) [OF s2 ready_save(3) [OF s1 assms Inl]])
    then show ?thesis using s1 s2 Inl evolves_trans [OF e1] by (simp add: save_outcome_def)
  qed
qed

lemma signAndSend_evolves:
  assumes "signAndSend sv now usr sg cl dto fb rs doc w = (r, w')" "ready doc w"
  shows "evolves w w'"
proof (cases "sign_document sv sg doc")
  case (Inl e)
  then have "save_and_reply now usr
      (doc \<lparr> d_state := ''SigningFailed'', d_signedXmlContent := Some (d_xmlContent doc) \<rparr>)
      (err_reply (''Error al firmar digitalmente el XML de e-CF: '' @ exn_what e) 500) w = (r, w')"
    using assms(1) by (simp add: signAndSend_def)
  then show ?thesis by (rule save_and_reply_evolves) (rule ready_same [OF assms(2)]; simp)
next
  case (Inr p)
  then obtain sx d0 where p: "sign_document sv sg doc = Inr (sx, d0)" by (cases p) auto
  have d0: "ae_id d0 = ae_id doc" "d_state d0 = ''AwaitingTransmission''" using sign_document_Inr [OF p] by auto
  have rd: "ready d0 w" by (rule ready_same [OF assms(2)]) (use sign_document_Inr [OF p] in auto)
  consider (schema) errs where "(if sv_validateSchemasLocal sv then sv_schemaErrors sv sx else None) = Some errs"
    | (fallback) "(if sv_validateSchemasLocal sv then sv_schemaErrors sv sx else None) = None" "sg_usesFallbackCertificate sg"
    | (go) "(if sv_validateSchemasLocal sv then sv_schemaErrors sv sx else None) = None" "\<not> sg_usesFallbackCertificate sg"
    by (cases "if sv_validateSchemasLocal sv then sv_schemaErrors sv sx else None") auto
  then show ?thesis
  proof cases
    case schema
    then have "save_and_reply now usr (d0 \<lparr> d_state := ''SchemaInvalid'' \<rparr>) (schema_reply errs) w = (r, w')"
      using assms(1) p by (simp add: signAndSend_def)
    then show ?thesis by (rule save_and_reply_evolves) (rule ready_same [OF rd]; simp)
  next
    case fallback
    let ?d = "d0 \<lparr> d_state := ''Unsigned'', d_signedXmlContent := None, d_securityCode := None \<rparr>"
    have "save_and_reply now usr ?d (unsigned_reply ?d) w = (r, w')"
      using fallback assms(1) p by (simp add: signAndSend_def Let_def)
    then show ?thesis by (rule save_and_reply_evolves) (rule ready_same [OF rd]; simp)
  next
    case go
    obtain res w1 where s1: "save_one now usr d0 w = (res, w1)" by force
    obtain d1 tevs where t: "transmit sv now sg cl dto fb rs d0 = (d1, tevs)" by force
    note e1 = ready_save(1) [OF s1 rd]
    show ?thesis
    proof (cases res)
      case (Inl e)
      then have "w' = w1" using assms(1) p go s1 by (simp add: signAndSend_def)
      then show ?thesis using e1 by simp
    next
      case (Inr n)
      then have w': "w' = save_outcome now usr d1 (log_events tevs w1)" using assms(1) p go s1 t by (simp add: signAndSend_def)
      have "ready d0 w1" by (rule ready_save(2) [OF s1 rd]) (simp add: d0)
      then have "ready d1 w1" by (rule ready_same) (simp_all add: source_key_keys [OF transmit_keys [OF t]])
      then have "evolves (log_events tevs w1) w'" unfolding w' by (intro save_outcome_evolves) simp
      then show ?thesis using evolves_trans [OF e1] by simp
    qed
  qed
qed

text \<open>Saving a document that is not accepted and then sending it, as resubmissions do.\<close>

lemma save_and_send_evolves:
  assumes "save_one now usr d w = (Inr n, w1)" "signAndSend sv now usr sg cl dto fb rs d w1 = (r, w')"
    and "ready d w" "d_state d \<noteq> ''AcceptedByDgii''"
  shows "evolves w w'"
  by (rule evolves_trans [OF ready_save(1) [OF assms(1,3)] signAndSend_evolves [OF assms(2) ready_save(2) [OF assms(1,3,4)]]])

lemma applied_state: "d_state (applyCanonicalContent sv now dto es rnc rs d) = ''SequenceAllocated''"
  by (simp add: applyCanonicalContent_def split: prod.splits)

lemma reissue_evolves:
  assumes "reissue sv now usr sg cl dto tg doc w = (r, w')" "ready doc w"
  shows "evolves w w'"
proof -
  let ?d = "applyCanonicalContent sv now dto (src_editSequence (dto_sourceReference dto)) (tg_rnc tg) (tg_razon tg) doc"
  obtain res w1 where s: "save_one now usr ?d w = (res, w1)" by force
  have rd: "ready ?d w" by (rule ready_same [OF assms(2)]) simp_all
  show ?thesis
  proof (cases res)
    case (Inl e)
    then have "w' = w1" using assms(1) s by (simp add: reissue_def Let_def)
    then show ?thesis using ready_save(1) [OF s rd] by simp
  next
    case (Inr n)
    have g: "signAndSend sv now usr sg cl (Some dto) (tg_isDefaultFallback tg) (tg_razon tg) ?d w1 = (r, w')"
      using assms(1) s Inr by (simp add: reissue_def Let_def)
    show ?thesis by (rule save_and_send_evolves [OF s [unfolded Inr] g rd]) (simp add: applied_state)
  qed
qed

lemma reconcileUncertain_evolves:
  assumes "reconcileUncertain sv now usr sg cl dto tg doc w = (r, w')" "ready doc w"
  shows "evolves w w'"
proof -
  let ?w1 = "log_events [AskedEstado (d_rncEmisor doc) (d_eNcf doc)] w"
  have u: "proper (w_docs w)" using assms(2) by (simp add: ready_def)
  consider (same) "w' = w \<or> w' = ?w1"
    | (known) st d1 evs where "reconciled now cl st doc = (d1, evs)"
        "save_and_reply now usr d1 (reconciled_reply d1) (log_events evs ?w1) = (r, w')"
    | (unknown) "reissue sv now usr sg cl dto tg doc ?w1 = (r, w')"
    using assms(1) by (auto simp: reconcileUncertain_def Let_def split: if_splits sum.splits prod.splits)
  then show ?thesis
  proof cases
    case same
    then show ?thesis using evolves_refl [OF u] by auto
  next
    case known
    have "ready d1 w" using reconciled_keys [OF known(1)] by (intro ready_same [OF assms(2)]) simp_all
    then have "ready d1 (log_events evs ?w1)" by simp
    from save_and_reply_evolves [OF known(2) this] show ?thesis by simp
  next
    case unknown
    from reissue_evolves [OF this] assms(2) show ?thesis by simp
  qed
qed

lemma reissue_rejected_evolves:
  assumes "reissue_rejected sv now usr sg cl dto tg doc w = (r, w')" "ready doc w"
  shows "evolves w w'"
proof -
  obtain x w1 where n: "next_encf now (tg_scope tg) (tipo_or_e31 dto) w = (x, w1)" by force
  have w1: "ready doc w1" "evolves w w1" using ready_docs [OF assms(2) next_encf_docs [OF n]] by simp_all
  show ?thesis
  proof (cases x)
    case (Inl e)
    then show ?thesis using assms(1) n w1 by (auto simp: reissue_rejected_def)
  next
    case (Inr newEncf)
    let ?d = "applyCanonicalContent sv now dto (src_editSequence (dto_sourceReference dto)) (tg_rnc tg) (tg_razon tg)
      (doc \<lparr> d_eNcf := newEncf, d_trackId := None, d_securityCode := None, d_dgiiResponseXml := None,
          d_sentToDgiiAt := None, d_state := ''AwaitingTransmission'' \<rparr>)"
    obtain y w2 where s: "save_one now usr ?d w1 = (y, w2)" by force
    have rd: "ready ?d w1" by (rule ready_same [OF w1(1)]) simp_all
    show ?thesis
    proof (cases y)
      case (Inl e)
      then have w': "w' = release_encf now (tg_scope tg) (tipo_or_e31 dto) newEncf w2"
        using assms(1) n s Inr by (simp add: reissue_rejected_def Let_def)
      have "evolves w2 w'" unfolding w' by (rule evolves_same_docs [OF evolves_proper [OF ready_save(1) [OF s rd]] release_docs])
      then show ?thesis using evolves_trans [OF w1(2) evolves_trans [OF ready_save(1) [OF s rd]]] by simp
    next
      case yr: (Inr k)
      have g: "signAndSend sv now usr sg cl (Some dto) (tg_isDefaultFallback tg) (tg_razon tg) ?d w2 = (r, w')"
        using assms(1) n s Inr yr by (simp add: reissue_rejected_def Let_def)
      have "evolves w1 w'" by (rule save_and_send_evolves [OF s [unfolded yr] g rd]) (simp add: applied_state)
      then show ?thesis by (rule evolves_trans [OF w1(2)])
    qed
  qed
qed

lemma handleExisting_evolves:
  assumes "handleExistingDocument sv now usr sg cl dto tg doc w = (r, w')" "proper (w_docs w)" "doc \<in> set (w_docs w)"
  shows "evolves w w'"
proof (cases "d_state doc = ''AcceptedByDgii''")
  case True
  then have "settled_state (d_state doc)" by (simp add: settled_state_def NeverTransmittedStates_def)
  then have "w' = w" using assms(1) by (auto simp: handleExistingDocument_def settled_state_def split: if_splits)
  then show ?thesis using evolves_refl [OF assms(2)] by simp
next
  case False
  note rd = ready_of [OF assms(2,3) False]
  from assms(1) consider "reissue sv now usr sg cl dto tg doc w = (r, w')"
    | "reconcileUncertain sv now usr sg cl dto tg doc w = (r, w')"
    | "reissue_rejected sv now usr sg cl dto tg doc w = (r, w')" | "w' = w"
    by (auto simp: handleExistingDocument_def split: if_splits)
  then show ?thesis
    by cases (use rd evolves_refl [OF assms(2)] in \<open>auto intro: reissue_evolves reconcileUncertain_evolves reissue_rejected_evolves\<close>)
qed

subsection \<open>The whole submission\<close>

lemma recover_insert_evolves:
  assumes "recover_insert sv now usr sg cl dto tg n e w = (r, w')" "proper (w_docs w)"
  shows "evolves w w'"
proof -
  let ?w1 = "release_encf now (tg_scope tg) (dto_tipoComprobante dto) n w"
  obtain a w2 where m: "makeScope ?w1 = (a, w2)" by force
  obtain b w3 where f: "db_read (find_submitted dto tg) w2 = (b, w3)" by force
  have docs: "w_docs w2 = w_docs w" "w_docs w3 = w_docs w" using makeScope_docs [OF m] db_read_docs [OF f] by simp_all
  consider (same) "w' = ?w1 \<or> w' = w2 \<or> w' = w3"
    | (race) d where "b = Inr (Some d)" "handleExistingDocument sv now usr sg cl dto tg d w3 = (r, w')"
    using assms(1) m f by (auto simp: recover_insert_def Let_def split: if_splits sum.splits option.splits)
  then show ?thesis
  proof cases
    case same
    then show ?thesis using docs by (auto intro: evolves_same_docs [OF assms(2)])
  next
    case race
    have "find_submitted dto tg (w_docs w3) = Some d" using db_read_same [OF f] race(1) docs by auto
    then have "d \<in> set (w_docs w3)" using lookup_found(1) by (auto simp: find_submitted_def)
    with race(2) assms(2) docs have "evolves w3 w'" by (intro handleExisting_evolves) simp_all
    then show ?thesis using docs by (simp add: evolves_def)
  qed
qed

lemma created_state: "d_state (created_document sv now uuid dto tg encf) = ''SequenceAllocated''"
  by (simp add: created_document_def applied_state)

lemma create_evolves:
  assumes "create_document sv now usr uuid sg cl dto tg w = (r, w')" "proper (w_docs w)"
  shows "evolves w w'"
proof -
  obtain x w1 where n: "next_encf now (tg_scope tg) (dto_tipoComprobante dto) w = (x, w1)" by force
  have e1: "evolves w w1" by (rule evolves_same_docs [OF assms(2) next_encf_docs [OF n]])
  note u1 = evolves_proper [OF e1]
  show ?thesis
  proof (cases x)
    case (Inl e)
    then show ?thesis using assms(1) n e1 by (auto simp: create_document_def)
  next
    case (Inr encf)
    let ?d = "created_document sv now uuid dto tg encf"
    obtain y w2 where s: "saveChanges [add_op now uuid usr ?d] w1 = (y, w2)" by force
    have key: "key_ok (source_key ?d)" by (simp add: created_document_key key_ok_def)
    note e2 = insert_evolves(1) [OF s u1 key]
    show ?thesis
    proof (cases y)
      case (Inl e)
      then have "recover_insert sv now usr sg cl dto tg encf e w2 = (r, w')"
        using assms(1) n s Inr by (simp add: create_document_def Let_def)
      from recover_insert_evolves [OF this evolves_proper [OF e2]] show ?thesis
        by (rule evolves_trans [OF evolves_trans [OF e1 e2]])
    next
      case yr: (Inr k)
      then have g: "signAndSend sv now usr sg cl (Some dto) (tg_isDefaultFallback tg) (tg_razon tg) ?d w2 = (r, w')"
        using assms(1) n s Inr by (simp add: create_document_def Let_def)
      have id: "ae_id ?d = uuid" by (rule created_document_key(2))
      have "open_row uuid (w_docs w2)" by (rule insert_evolves(2) [OF s u1 key yr _ id]) (simp add: created_state)
      then have "ready ?d w2" using evolves_proper [OF e2] id key by (simp add: ready_def)
      from signAndSend_evolves [OF g this] show ?thesis by (rule evolves_trans [OF evolves_trans [OF e1 e2]])
    qed
  qed
qed

lemma issue_evolves:
  assumes "issue_document sv now usr uuid dto tg w = (r, w')" "proper (w_docs w)"
  shows "evolves w w'"
proof -
  obtain a w1 where m: "makeScope w = (a, w1)" by force
  obtain b w2 where f: "db_read (find_submitted dto tg) w1 = (b, w2)" by force
  have docs: "w_docs w1 = w_docs w" "w_docs w2 = w_docs w" using makeScope_docs [OF m] db_read_docs [OF f] by simp_all
  consider (same) "w' = w1 \<or> w' = w2"
    | (existing) sg cl d r' where "b = Inr (Some d)" "handleExistingDocument sv now usr sg cl dto tg d w2 = (r', w')"
    | (fresh) sg cl r' where "create_document sv now usr uuid sg cl dto tg w2 = (r', w')"
    using assms(1) m f by (auto simp: issue_document_def Let_def split: prod.splits sum.splits option.splits)
  then show ?thesis
  proof cases
    case same
    then show ?thesis using docs by (auto intro: evolves_same_docs [OF assms(2)])
  next
    case existing
    have "find_submitted dto tg (w_docs w2) = Some d" using db_read_same [OF f] existing(1) docs by auto
    then have "d \<in> set (w_docs w2)" using lookup_found(1) by (auto simp: find_submitted_def)
    with existing(2) assms(2) docs have "evolves w2 w'" by (intro handleExisting_evolves) simp_all
    then show ?thesis using docs by (simp add: evolves_def)
  next
    case fresh
    with assms(2) docs have "evolves w2 w'" by (intro create_evolves) simp_all
    then show ?thesis using docs by (simp add: evolves_def)
  qed
qed

lemma submit_evolves:
  assumes "submit_action sv now uuid req w = (r, w')" "proper (w_docs w)"
  shows "evolves w w'"
proof -
  from assms(1) consider "w' = w"
    | usr dto tg r' where "issue_document sv now usr uuid dto tg w = (r', w')"
    by (auto simp: submit_action_def split: parsed_body.splits sum.splits prod.splits)
  then show ?thesis by cases (use assms(2) issue_evolves evolves_refl in auto)
qed

subsection \<open>Queries, the poller and the commands\<close>

lemma same_data_evolves: "same_data w w' \<Longrightarrow> proper (w_docs w) \<Longrightarrow> evolves w w'"
  by (simp add: same_data_def evolves_def)

lemma getBySourceTxnId_evolves:
  assumes "getBySourceTxnId sv now req txn w = (r, w')" "proper (w_docs w)"
  shows "evolves w w'"
proof -
  obtain x w1 where l: "scoped_lookup req (query_tenant req) txn w = (x, w1)" by force
  note sd = scoped_lookup_spec(1) [OF l]
  note e1 = same_data_evolves [OF sd assms(2)]
  from assms(1) l consider (same) "w' = w1"
    | (asked) doc usr d1 where "x = Inr (Some doc)" "refresh_document sv now usr doc w1 = (d1, w')"
    by (auto simp: getBySourceTxnId_def split: sum.splits option.splits if_splits prod.splits)
  then show ?thesis
  proof cases
    case same
    then show ?thesis using e1 by simp
  next
    case asked
    have doc: "doc \<in> set (w_docs w1)" using scoped_lookup_spec(2) [OF l asked(1)] sd by (simp add: same_data_def)
    from asked(2) have "evolves w1 w'"
    proof (cases rule: refresh_cases)
      case same
      then show ?thesis using evolves_refl [OF evolves_proper [OF e1]] by auto
    next
      case (saved evs r)
      have "d_state doc \<noteq> ''AcceptedByDgii''" using saved(1) by (auto simp: pending_state_def)
      from ready_of [OF evolves_proper [OF e1] doc this]
      have "ready d1 w1" by (rule ready_same) (simp_all add: source_key_keys [OF saved(4)])
      then have "ready d1 (log_events evs w1)" by simp
      from ready_save(1) [OF saved(3) this] show ?thesis by simp
    qed
    then show ?thesis by (rule evolves_trans [OF e1])
  qed
qed

lemma reads_evolve:
  assumes "proper (w_docs w)"
  shows "evolves w (snd (getXmlBySourceTxnId req txn w))" "evolves w (snd (getXmlById req i w))"
    "evolves w (snd (getById req i w))" "evolves w (snd (reconcileBySourceTxnId req txn w))"
proof -
  have l: "evolves w (snd (scoped_lookup req t x w))" for t x
    by (rule same_data_evolves [OF scoped_lookup_spec(1) assms]) (rule prod.collapse [symmetric])
  have b: "evolves w (snd (read_by_id i w))"
    by (rule same_data_evolves [OF read_by_id_spec(1) assms]) (rule prod.collapse [symmetric])
  show "evolves w (snd (getXmlBySourceTxnId req txn w))"
    using l [of "download_tenant req" txn]
    by (auto simp: getXmlBySourceTxnId_def split: prod.splits sum.splits option.splits)
  show "evolves w (snd (reconcileBySourceTxnId req txn w))"
    using l [of "query_tenant req" txn] by (auto simp: reconcileBySourceTxnId_def split: prod.splits sum.splits option.splits)
  show "evolves w (snd (getXmlById req i w))"
    using b evolves_refl [OF assms] by (auto simp: getXmlById_def split: prod.splits sum.splits option.splits)
  show "evolves w (snd (getById req i w))"
    using b evolves_refl [OF assms] by (auto simp: getById_def split: prod.splits sum.splits option.splits)
qed

text \<open>The poller updates several rows, each at most once.\<close>

lemma run_updates_later:
  assumes "run_ops (map (update_op now usr) ds) docs = Inr docs'" "distinct (map ae_id ds)" "proper docs"
    and "\<And>d. d \<in> set ds \<Longrightarrow> open_row (ae_id d) docs \<and> key_ok (source_key d)"
  shows "proper docs' \<and> later docs docs'"
  using assms
proof (induction ds arbitrary: docs)
  case (Cons d ds)
  obtain docs1 where e: "exec_op (update_op now usr d) docs = Inr docs1" and r: "run_ops (map (update_op now usr) ds) docs1 = Inr docs'"
    using Cons.prems(1) by (auto split: sum.splits)
  have d: "open_row (ae_id d) docs" "key_ok (source_key d)" using Cons.prems(4) [of d] by simp_all
  have "proper docs' \<and> later docs1 docs'"
  proof (rule Cons.IH [OF r])
    show "distinct (map ae_id ds)" using Cons.prems(2) by simp
    show "proper docs1" by (rule exec_update_proper [OF e Cons.prems(3) d(2)])
    fix d' assume d': "d' \<in> set ds"
    then have "ae_id d' \<noteq> ae_id d" using Cons.prems(2) by (metis distinct.simps(2) image_eqI list.simps(9) set_map)
    then show "open_row (ae_id d') docs1 \<and> key_ok (source_key d')"
      using exec_update_open [OF e, of "ae_id d'"] Cons.prems(4) [of d'] d' by simp
  qed
  then show ?case using later_trans [OF exec_update_later [OF e d(1)]] by blast
qed simp

lemma reconcile_evolves:
  assumes "reconcile rc now usr w = (n, w')" "proper (w_docs w)"
  shows "evolves w w'"
proof -
  obtain x w1 where r: "db_read (due_documents rc now) w = (x, w1)" by force
  have docs: "w_docs w1 = w_docs w" by (rule db_read_docs [OF r])
  show ?thesis
  proof (cases x)
    case (Inl e)
    then show ?thesis using assms r docs by (auto simp: reconcile_def intro: evolves_same_docs)
  next
    case (Inr due)
    then have due: "due = due_documents rc now (w_docs w)" using db_read_same [OF r] by simp
    obtain ds evs where c: "check_all rc now [] due = (ds, evs)" by force
    have ids: "map ae_id ds = map ae_id due" by (rule map_keys_ids [OF check_all_spec(1) [OF c]])
    note u = proper_unique [OF assms(2)]
    have dist: "distinct (map ae_id ds)"
      unfolding ids due due_documents_def by (rule due_facts(3) [OF u])
    have rows: "ready d w" if "d \<in> set ds" for d
    proof -
      have "keys d \<in> set (map keys due)" using that by (simp flip: check_all_spec(1) [OF c])
      then obtain q where q: "q \<in> set due" "keys d = keys q" by auto
      have "q \<in> set (w_docs w) \<and> (d_state q = ''Signed'' \<or> d_state q = ''SentToDgii'')"
        using due_facts(2) [OF u q(1) [unfolded due due_documents_def]] by (simp add: due_for_check_def)
      then have "q \<in> set (w_docs w)" "d_state q \<noteq> ''AcceptedByDgii''" by auto
      from ready_of [OF assms(2) this] show ?thesis by (rule ready_same) (simp_all add: source_key_keys [OF q(2)])
    qed
    obtain y w2 where s: "saveChanges (map (update_op now usr) ds) (log_events evs w1) = (y, w2)" by force
    have w': "w' = w2" using assms(1) r Inr c s by (simp add: reconcile_def)
    have "w_docs w2 = w_docs w \<or> run_ops (map (update_op now usr) ds) (w_docs w) = Inr (w_docs w2)"
      by (rule saveChanges_docs [OF s, simplified log_events_simps docs])
    then have "proper (w_docs w2) \<and> later (w_docs w) (w_docs w2)"
      using run_updates_later [OF _ dist] rows assms(2) by (auto simp: ready_def)
    then show ?thesis by (simp add: evolves_def w')
  qed
qed

lemma sendEcf_evolves:
  assumes "sendEcf_handle now uuid usr cl cmd w = (r, w')" "proper (w_docs w)"
  shows "evolves w w'"
proof -
  let ?w1 = "log_events [SentEcf (se_xmlContent cmd) (se_fileName cmd)] w"
  from assms(1) consider "w' = ?w1" | resp x where "saveChanges [add_op now uuid usr (sent_document now cmd resp)] ?w1 = (x, w')"
    by (auto simp: sendEcf_handle_def Let_def split: sum.splits prod.splits if_splits)
  then show ?thesis
  proof cases
    case 1
    then show ?thesis using evolves_refl [OF assms(2)] by simp
  next
    case (2 resp x)
    have "key_ok (source_key (sent_document now cmd resp))" by (simp add: sent_document_def new_document_def source_key_def key_ok_def)
    from insert_evolves(1) [OF 2 _ this] assms(2) show ?thesis by simp
  qed
qed

lemma sendRfce_evolves:
  assumes "sendRfce_handle now uuid usr send model w = (r, w')" "proper (w_docs w)"
  shows "evolves w w'"
proof -
  from assms(1) consider evs where "w' = log_events evs w"
    | m resp x evs where "saveChanges [add_op now uuid usr (rfce_document now m resp)] (log_events evs w) = (x, w')"
    by (auto simp: sendRfce_handle_def split: sum.splits prod.splits if_splits)
  then show ?thesis
  proof cases
    case 1
    then show ?thesis using evolves_refl [OF assms(2)] by simp
  next
    case (2 m resp x evs)
    have "key_ok (source_key (rfce_document now m resp))"
      by (simp add: rfce_document_def new_document_def source_key_def key_ok_def Let_def)
    from insert_evolves(1) [OF 2 _ this] assms(2) show ?thesis by simp
  qed
qed

lemma getEcfStatus_evolves:
  assumes "getEcfStatus_handle now usr cl rnc encf w = (r, w')" "proper (w_docs w)"
  shows "evolves w w'"
proof -
  obtain x w1 where rd: "db_read (doc_getByENcf encf) w = (x, w1)" by force
  have docs: "w_docs w1 = w_docs w" by (rule db_read_docs [OF rd])
  let ?w2 = "log_events [AskedEstado rnc encf] w1"
  from assms(1) rd consider (same) "w' = w1 \<or> w' = ?w2"
    | (stored) d st y where "x = Inr (Some d)" "d_state d \<noteq> ''AcceptedByDgii''"
        "save_one now usr (d \<lparr> d_state := st \<rparr>) ?w2 = (y, w')"
    by (auto simp: getEcfStatus_handle_def ask_live_def Let_def split: sum.splits option.splits prod.splits if_splits)
  then show ?thesis
  proof cases
    case same
    then show ?thesis using docs by (auto intro: evolves_same_docs [OF assms(2)])
  next
    case (stored d st y)
    have "doc_getByENcf encf (w_docs w) = Some d" using db_read_same [OF rd] stored(1) by auto
    then have "d \<in> set (w_docs w)" using queryOne_in by (auto simp: doc_getByENcf_def)
    from ready_same [OF ready_of [OF assms(2) this stored(2)], of "d \<lparr> d_state := st \<rparr>"] docs
    have "ready (d \<lparr> d_state := st \<rparr>) ?w2" by (simp add: ready_def)
    from ready_save(1) [OF stored(3) this] docs show ?thesis by (simp add: evolves_def)
  qed
qed

subsection \<open>Runs of the service\<close>

text \<open>
  The operations that issue and follow documents, and outages: \<open>fs\<close> says which of the next
  accesses to the database fail.
\<close>

inductive issuing_step :: "world \<Rightarrow> world \<Rightarrow> bool" where
  submitting: "submit_action sv now uuid req w = (r, w') \<Longrightarrow> issuing_step w w'"
| querying: "getBySourceTxnId sv now q txn w = (rep, w') \<Longrightarrow> issuing_step w w'"
| downloading: "getXmlBySourceTxnId q txn w = (xrep, w') \<Longrightarrow> issuing_step w w'"
| downloading_id: "getXmlById q i w = (xrep, w') \<Longrightarrow> issuing_step w w'"
| reading: "getById q i w = (rep, w') \<Longrightarrow> issuing_step w w'"
| reconciling: "reconcileBySourceTxnId q txn w = (rep, w') \<Longrightarrow> issuing_step w w'"
| polling: "reconcile rc now usr w = (n, w') \<Longrightarrow> issuing_step w w'"
| outage: "issuing_step w (w \<lparr> w_faults := fs \<rparr>)"

inductive service_step :: "world \<Rightarrow> world \<Rightarrow> bool" where
  issuing: "issuing_step w w' \<Longrightarrow> service_step w w'"
| sending_ecf: "sendEcf_handle now uuid usr cl cmd w = (r, w') \<Longrightarrow> service_step w w'"
| sending_rfce: "sendRfce_handle now uuid usr send model w = (r, w') \<Longrightarrow> service_step w w'"
| asking_status: "getEcfStatus_handle now usr cl rnc encf w = (r, w') \<Longrightarrow> service_step w w'"

lemma issuing_step_evolves:
  assumes "issuing_step w w'" "proper (w_docs w)"
  shows "evolves w w'"
  using assms(1)
proof cases
  case (submitting sv now uuid req r)
  then show ?thesis using assms(2) by (rule submit_evolves)
next
  case (querying sv now q txn rep)
  then show ?thesis using assms(2) by (rule getBySourceTxnId_evolves)
next
  case (polling rc now usr n)
  then show ?thesis using assms(2) by (rule reconcile_evolves)
next
  case (outage fs)
  then show ?thesis using evolves_same_docs [OF assms(2), of w'] by simp
qed (use reads_evolve [OF assms(2)] in \<open>metis snd_conv\<close>)+

lemma service_step_evolves:
  assumes "service_step w w'" "proper (w_docs w)"
  shows "evolves w w'"
  using assms(1)
proof cases
  case issuing
  then show ?thesis using assms(2) by (rule issuing_step_evolves)
next
  case sending_ecf
  then show ?thesis using assms(2) by (rule sendEcf_evolves)
next
  case sending_rfce
  then show ?thesis using assms(2) by (rule sendRfce_evolves)
next
  case asking_status
  then show ?thesis using assms(2) by (rule getEcfStatus_evolves)
qed

lemma run_evolves:
  assumes "service_step\<^sup>*\<^sup>* w w'" "proper (w_docs w)"
  shows "evolves w w'"
  using assms(1)
proof (induction rule: rtranclp_induct)
  case base
  show ?case by (rule evolves_refl [OF assms(2)])
next
  case (step w1 w2)
  show ?case by (rule evolves_trans [OF step.IH service_step_evolves [OF step.hyps(2) evolves_proper [OF step.IH]]])
qed

lemma reachable_proper: "service_step\<^sup>*\<^sup>* w w' \<Longrightarrow> w_docs w = [] \<Longrightarrow> proper (w_docs w')"
  by (rule evolves_proper [OF run_evolves], assumption) (simp add: proper_def unique_indexes_def)

subsection \<open>The trace of a run\<close>

text \<open>Every operation of \<open>issuing_step\<close> adds events that are journalled among themselves.\<close>

lemma quiet_same_data: "same_data w w' \<Longrightarrow> quiet w w'"
  by (rule quiet_traceI [of _ _ "[]"]) (simp_all add: same_data_def)

lemma quiet_getBySourceTxnId:
  assumes "getBySourceTxnId sv now req txn w = (r, w')"
  shows "quiet w w'"
proof -
  obtain x w1 where l: "scoped_lookup req (query_tenant req) txn w = (x, w1)" by force
  note q1 = quiet_same_data [OF scoped_lookup_spec(1) [OF l]]
  from assms l consider (same) "w' = w1"
    | (asked) doc usr d1 where "refresh_document sv now usr doc w1 = (d1, w')"
    by (auto simp: getBySourceTxnId_def split: sum.splits option.splits if_splits prod.splits)
  then show ?thesis
  proof cases
    case same
    then show ?thesis using q1 by simp
  next
    case asked
    then show ?thesis
    proof (cases rule: refresh_cases)
      case same
      then show ?thesis using quiet_trans [OF q1 quiet_log] by auto
    next
      case (saved evs r)
      show ?thesis by (rule quiet_trans [OF quiet_trans [OF q1 quiet_log [OF saved(2)]] quiet_save_one [OF saved(3)]])
    qed
  qed
qed

lemma quiet_reads:
  "quiet w (snd (getXmlBySourceTxnId req txn w))" "quiet w (snd (getXmlById req i w))"
  "quiet w (snd (getById req i w))" "quiet w (snd (reconcileBySourceTxnId req txn w))"
proof -
  have l: "quiet w (snd (scoped_lookup req t x w))" for t x
    by (rule quiet_same_data [OF scoped_lookup_spec(1)]) (rule prod.collapse [symmetric])
  have b: "quiet w (snd (read_by_id i w))"
    by (rule quiet_same_data [OF read_by_id_spec(1)]) (rule prod.collapse [symmetric])
  show "quiet w (snd (getXmlBySourceTxnId req txn w))"
    using l [of "download_tenant req" txn]
    by (auto simp: getXmlBySourceTxnId_def split: prod.splits sum.splits option.splits)
  show "quiet w (snd (reconcileBySourceTxnId req txn w))"
    using l [of "query_tenant req" txn] by (auto simp: reconcileBySourceTxnId_def split: prod.splits sum.splits option.splits)
  show "quiet w (snd (getXmlById req i w))"
    using b by (auto simp: getXmlById_def split: prod.splits sum.splits option.splits)
  show "quiet w (snd (getById req i w))"
    using b by (auto simp: getById_def split: prod.splits sum.splits option.splits)
qed

lemma quiet_reconcile: "reconcile rc now usr w = (n, w') \<Longrightarrow> quiet w w'"
proof -
  assume r: "reconcile rc now usr w = (n, w')"
  obtain x w1 where d: "db_read (due_documents rc now) w = (x, w1)" by force
  note q1 = quiet_db_read [OF d]
  show ?thesis
  proof (cases x)
    case (Inl e)
    then show ?thesis using r d q1 by (simp add: reconcile_def)
  next
    case (Inr due)
    obtain ds evs where c: "check_all rc now [] due = (ds, evs)" by force
    obtain y w2 where s: "saveChanges (map (update_op now usr) ds) (log_events evs w1) = (y, w2)" by force
    have "w' = w2" using r d Inr c s by (simp add: reconcile_def)
    then show ?thesis
      using quiet_trans [OF quiet_trans [OF q1 quiet_log [OF check_all_spec(2) [OF c]]] quiet_saveChanges [OF s]] by simp
  qed
qed

lemma issuing_step_careful:
  assumes "issuing_step w w'"
  shows "careful w w'"
  using assms
proof cases
  case (submitting sv now uuid req r)
  then show ?thesis by (rule careful_submit)
next
  case querying
  then show ?thesis by (intro quiet_careful quiet_getBySourceTxnId)
next
  case polling
  then show ?thesis by (intro quiet_careful quiet_reconcile)
next
  case outage
  then show ?thesis by (intro quiet_careful quiet_same_data) (simp add: same_data_def)
qed (use quiet_reads quiet_careful in \<open>metis snd_conv\<close>)+

subsection \<open>An accepted transaction\<close>

lemma found_by_source:
  assumes "proper docs" "d \<in> set docs" "source_key d = (t, x, Some a)" "x \<noteq> []" "a \<noteq> []"
  shows "doc_getBySourceTxnId t x (Some a) docs = Some d"
proof -
  have k: "d_tenantId d = t" "d_sourceTxnId d = x" "d_ambiente d = Some a" using assms(3) by (simp_all add: source_key_def)
  have only: "r = d" if r: "r \<in> set docs" "source_match t x (Some a) r" for r
  proof (rule ccontr)
    assume "r \<noteq> d"
    then have c: "conflict r d = None" by (rule unique_rows [OF proper_unique [OF assms(1)] r(1) assms(2)])
    have "key_ok (source_key r)" using assms(1) r(1) by (simp add: proper_def)
    then have "d_ambiente r = Some a" "d_tenantId r = t" "d_sourceTxnId r = x"
      using r(2) assms(4,5) by (auto simp: source_match_def key_ok_def source_key_def)
    then have "conflict r d \<noteq> None" using k by (simp add: conflict_def)
    with c show False by simp
  qed
  have "d \<in> set (filter (source_match t x (Some a)) docs)"
    using assms(1,2) k by (simp add: proper_def source_match_def)
  then obtain r where r: "newest (filter (source_match t x (Some a)) docs) = Some r"
    by (metis empty_iff list.set(1) newest_None not_None_eq)
  from newest_in [OF r] only have "r = d" by simp
  with r show ?thesis by (simp add: doc_getBySourceTxnId_def)
qed

lemma valid_txn: "validate_submission dto0 = Inr dto \<Longrightarrow> src_txnId (dto_sourceReference dto) \<noteq> []"
  by (auto simp: validate_submission_def body_errors_def Let_def split: option.splits)

lemma issue_accepted:
  assumes "find_submitted dto tg (w_docs w) = Some d" "d_state d = ''AcceptedByDgii''"
  shows "same_data w (snd (issue_document sv now usr uuid dto tg w))"
proof -
  obtain a w1 where m: "makeScope w = (a, w1)" by force
  obtain b w2 where f: "db_read (find_submitted dto tg) w1 = (b, w2)" by force
  note s1 = makeScope_same [OF m]
  have s2: "same_data w w2" using same_data_trans [OF s1] db_read_same [OF f] by simp
  have "b = Inr (Some d) \<or> (\<exists>e. b = Inl e)"
    using db_read_same [OF f] s1 assms(1) by (cases b) (auto simp: same_data_def)
  moreover have "snd (handleExistingDocument sv now usr sg cl dto tg d w2) = w2" for sg cl
    using assms(2) by (auto simp: handleExistingDocument_def NeverTransmittedStates_def)
  then have "p = handleExistingDocument sv now usr sg cl dto tg d w2 \<Longrightarrow> snd p = w2" for p sg cl by simp
  ultimately show ?thesis using m f s1 s2
    by (auto simp: issue_document_def Let_def split: sum.splits option.splits prod.splits) (metis snd_conv)+
qed

text \<open>A submission under the key of an accepted document.\<close>

lemma accepted_submission_inert:
  assumes "proper (w_docs w)"
    and "d \<in> set (w_docs w)" "d_state d = ''AcceptedByDgii''" "request_key sv req = Some (source_key d)"
  shows "same_data w (snd (submit_action sv now uuid req w))"
proof -
  obtain dto0 dto tg where r: "sr_body req = Parsed dto0" "validate_submission dto0 = Inr dto"
    "resolve_target sv req dto = Inr tg" "key_of dto tg = source_key d"
    by (rule request_key_Some [OF assms(4)])
  have "ambienteToString (tg_ambiente tg) \<noteq> []" by (simp add: ambienteToString_def split: AmbienteEnum.splits)
  then have "find_submitted dto tg (w_docs w) = Some d"
    unfolding find_submitted_def
    by (intro found_by_source [OF assms(1) assms(2)]) (simp_all add: r(4) valid_txn [OF r(2)])
  from issue_accepted [OF this assms(3)] show ?thesis
    by (auto simp: submit_action_def r split: prod.splits sum.splits) (metis snd_conv)+
qed

lemma snd_steps:
  "issuing_step w (snd (submit_action sv now uuid req w))" "issuing_step w (snd (reconcile rc now usr w))"
  by (rule submitting [OF prod.collapse [symmetric]], rule polling [OF prod.collapse [symmetric]])

lemma demo_reachable: "service_step\<^sup>*\<^sup>* demo_stock (snd (demo_submit demo_stock))" "w_docs demo_stock = []"
proof -
  have "service_step demo_stock (snd (demo_submit demo_stock))"
    by (intro issuing snd_steps)
  then show "service_step\<^sup>*\<^sup>* demo_stock (snd (demo_submit demo_stock))" by (rule r_into_rtranclp)
qed (simp add: demo_stock_def)

lemma demo_accepted:
  obtains d where "d \<in> set (w_docs (snd (demo_submit demo_stock)))" "d_state d = ''AcceptedByDgii''"
    "source_key d = (''default-tenant'', ''T'', Some ''PreCertificacion'')"
  using demo_first_run by auto

lemma demo_first_key: "request_key (demo_services False ''Aceptado'') demo_first
    = Some (''default-tenant'', ''T'', Some ''PreCertificacion'')"
  using demo_invoice_valid demo_first_target demo_dto_facts(3)
  by (simp add: request_key_def demo_first_def demo_e31_def demo_target_def ambienteToString_def)

subsection \<open>Properties\<close>

text \<open>C3. A document the DGII accepted is never changed again: in every state the service can reach
  from an empty table, and after any further operations and outages, it still stands in the
  table with the same content (the audit columns aside).\<close>

theorem accepted_document_is_immutable:
  assumes "service_step\<^sup>*\<^sup>* w0 w" "w_docs w0 = []" "service_step\<^sup>*\<^sup>* w w'"
    and "d \<in> set (w_docs w)" "d_state d = ''AcceptedByDgii''"
  shows "\<exists>d' \<in> set (w_docs w'). content d' = content d"
proof -
  have "evolves w w'" by (rule run_evolves [OF assms(3) reachable_proper [OF assms(1,2)]])
  then have "later (w_docs w) (w_docs w')" by (simp add: evolves_def)
  then show ?thesis using assms(4,5) unfolding later_def by blast
qed

theorem accepted_document_is_immutable_witness:
  "\<exists>d \<in> set (w_docs (snd (demo_submit demo_stock))). d_state d = ''AcceptedByDgii'' \<and>
     (\<exists>d' \<in> set (w_docs (snd (reconcile (demo_poller 72) 1709300000 ''System'' (snd (demo_submit demo_stock))))).
        content d' = content d)"
proof -
  obtain d where d: "d \<in> set (w_docs (snd (demo_submit demo_stock)))" "d_state d = ''AcceptedByDgii''"
    by (rule demo_accepted)
  have "service_step (snd (demo_submit demo_stock))
      (snd (reconcile (demo_poller 72) 1709300000 ''System'' (snd (demo_submit demo_stock))))"
    by (intro issuing snd_steps)
  from accepted_document_is_immutable [OF demo_reachable r_into_rtranclp [of service_step, OF this] d] d show ?thesis by blast
qed



text \<open>C6. Whatever operations, clocks, answers and outages follow one another, every transmission
  of the issuing service comes after the commit of a document that awaits it, with the same
  signed text (or, for a summary, the same issuer and number).\<close>

theorem every_transmission_is_journalled:
  assumes "issuing_step\<^sup>*\<^sup>* w0 w" "w_trace w0 = []"
  shows "journalled [] (w_trace w)"
  using assms(1)
proof (induction rule: rtranclp_induct)
  case base
  show ?case by (simp add: assms(2))
next
  case (step w1 w2)
  have c: "careful w1 w2" by (rule issuing_step_careful [OF step.hyps(2)])
  then obtain evs where evs: "w_trace w2 = w_trace w1 @ evs" by (auto simp: careful_def prefix_def)
  have "journalled [] evs" using c new_events_append [OF evs] by (simp add: careful_def)
  with step.IH show ?case unfolding evs by (rule journalled_append)
qed

theorem every_transmission_is_journalled_witness:
  "journalled [] (w_trace (snd (demo_submit demo_stock)))"
  by (rule every_transmission_is_journalled [OF r_into_rtranclp [of issuing_step, OF snd_steps(1)]]) (simp add: demo_stock_def)

text \<open>C1. A transaction whose document the DGII accepted is never issued again: in every reachable
  state a submission under its tenant, transaction and environment allocates no number, stores
  nothing and sends nothing, even when the database fails during it.\<close>

theorem accepted_transaction_is_never_resent:
  assumes "service_step\<^sup>*\<^sup>* w0 w" "w_docs w0 = []"
    and "d \<in> set (w_docs w)" "d_state d = ''AcceptedByDgii''" "request_key sv req = Some (source_key d)"
  shows "same_data w (snd (submit_action sv now uuid req w))"
  by (rule accepted_submission_inert [OF reachable_proper [OF assms(1,2)] assms(3-5)])

theorem accepted_transaction_is_never_resent_witness:
  "same_data (snd (demo_submit demo_stock)) (snd (demo_submit (snd (demo_submit demo_stock))))"
proof -
  obtain d where d: "d \<in> set (w_docs (snd (demo_submit demo_stock)))" "d_state d = ''AcceptedByDgii''"
    "source_key d = (''default-tenant'', ''T'', Some ''PreCertificacion'')"
    by (rule demo_accepted)
  then have "request_key (demo_services False ''Aceptado'') demo_first = Some (source_key d)" using demo_first_key by simp
  from accepted_transaction_is_never_resent [OF demo_reachable d(1,2) this] show ?thesis .
qed

end
