(* ===== verification/B2B_Receptor.thy ===== *)
theory B2B_Receptor
  imports Documents_Transmit
begin

text \<open>
  EmisorReceptorController.cpp: the endpoints other taxpayers call.  A caller asks for a seed,
  signs it and gets a bearer token for an hour; with it, it may deliver e-CFs and commercial
  approvals to the companies of this service.  The two global maps are the record \<open>receptor\<close>;
  time is seconds.  libxml2, drogon's multipart parser and OpenSSL's X.509 parser are the
  fields of \<open>receptor_env\<close>: \<open>re_parse\<close> answers the raw content of the first node an XPath
  expression selects (empty when there is none), \<open>re_x509\<close> the subject and the validity of a
  certificate in Base64.  The lemmas follow seeds and tokens through every sequence of calls.
\<close>

subsection \<open>State, environment and requests\<close>

record receptor =
  rs_issuedSeeds :: "string \<Rightarrow> int option"
  rs_activeTokens :: "string \<Rightarrow> (int \<times> string) option"

record b2b_request =
  bq_authorization :: string
  bq_token :: string
  bq_accept :: string
  bq_multipart :: "((string \<times> string) list \<times> (string \<Rightarrow> string option)) option"
  bq_body :: string

record receptor_env =
  re_parse :: "string \<Rightarrow> (string \<Rightarrow> string) option"
  re_x509 :: "string \<Rightarrow> (string \<times> int \<times> int) option"
  re_defaultSigner :: nat
  re_resolver :: "(string \<Rightarrow> xml_signer option) option"

datatype b2b_reply =
    TextReply int string
  | XmlBody int string
  | JsonBody int "(string \<times> string) list"

fun b2b_status :: "b2b_reply \<Rightarrow> int" where
  "b2b_status (TextReply s b) = s"
| "b2b_status (XmlBody s b) = s"
| "b2b_status (JsonBody s b) = s"

definition pruneExpiredSeeds :: "int \<Rightarrow> (string \<Rightarrow> int option) \<Rightarrow> string \<Rightarrow> int option" where
  "pruneExpiredSeeds now seeds = (\<lambda>k. case seeds k of
     None \<Rightarrow> None | Some e \<Rightarrow> if e < now then None else Some e)"

definition pruneExpiredTokens ::
    "int \<Rightarrow> (string \<Rightarrow> (int \<times> string) option) \<Rightarrow> string \<Rightarrow> (int \<times> string) option" where
  "pruneExpiredTokens now tokens = (\<lambda>k. case tokens k of
     None \<Rightarrow> None | Some (e, subj) \<Rightarrow> if e < now then None else Some (e, subj))"

subsection \<open>Authorisation\<close>

definition bearer_token :: "b2b_request \<Rightarrow> string" where
  "bearer_token req = trim (if starts_with ''Bearer '' (bq_authorization req) \<or> starts_with ''bearer '' (bq_authorization req)
     then drop 7 (bq_authorization req) else bq_token req)"

text \<open>The subject of the caller, or \<open>None\<close> for a caller without a token in force.\<close>

definition isAuthorizedB2B :: "int \<Rightarrow> b2b_request \<Rightarrow> receptor \<Rightarrow> string option \<times> receptor" where
  "isAuthorizedB2B now req s =
     (let t = bearer_token req in
      if t = [] then (None, s)
      else case rs_activeTokens s t of
          None \<Rightarrow> (None, s)
        | Some (expiresAt, certSubject) \<Rightarrow>
            if expiresAt < now then (None, s \<lparr> rs_activeTokens := (rs_activeTokens s)(t := None) \<rparr>)
            else (Some certSubject, s))"

definition u_u :: string where "u_u = [CHR 0xC3, CHR 0xBA]"

text \<open>The subject of a certificate in force, or the message why there is none.\<close>

definition validateX509Certificate :: "receptor_env \<Rightarrow> int \<Rightarrow> string \<Rightarrow> string + string" where
  "validateX509Certificate env now certBase64 =
     (let cleanB64 = filter (\<lambda>c. \<not> isspace c) certBase64 in
      if cleanB64 = [] then Inl (''El certificado X.509 est'' @ u_a @ '' vac'' @ u_i @ ''o.'')
      else case re_x509 env cleanB64 of
          None \<Rightarrow> Inl (''El certificado X.509 no pudo ser decodificado o tiene formato inv'' @ u_a @ ''lido.'')
        | Some (subject, notBefore, notAfter) \<Rightarrow>
            if now < notBefore then Inl (''El certificado digital provisto a'' @ u_u @ ''n no ha entrado en vigencia.'')
            else if notAfter \<le> now then Inl ''El certificado digital provisto ha expirado.''
            else Inr subject)"

subsection \<open>The content of a request\<close>

definition extractXmlContent :: "b2b_request \<Rightarrow> string" where
  "extractXmlContent req = (case bq_multipart req of
       None \<Rightarrow> bq_body req
     | Some (files, params) \<Rightarrow>
         (case find (\<lambda>f. fst f = ''xml'' \<or> length files = 1) files of
            Some f \<Rightarrow> snd f
          | None \<Rightarrow> if has_text (params ''xml'') then value_or (params ''xml'') [] else bq_body req))"

definition xpathValue :: "(string \<Rightarrow> string) \<Rightarrow> string \<Rightarrow> string" where
  "xpathValue doc expr = trim (doc expr)"

definition local_name :: "string \<Rightarrow> string" where
  "local_name tag = ''//*[local-name()='' @ apo @ tag @ apo @ '']''"

definition stripHyphens :: "string \<Rightarrow> string" where
  "stripHyphens s = filter (\<lambda>c. c \<noteq> CHR ''-'') s"

definition isValidRncOrCedula :: "string \<Rightarrow> bool" where
  "isValidRncOrCedula s \<longleftrightarrow> (length s = 9 \<or> length s = 11) \<and> all_digits s"

definition isValidEncf :: "string \<Rightarrow> bool" where
  "isValidEncf s \<longleftrightarrow> length s = 13 \<and> s ! 0 = CHR ''E''
     \<and> take 2 (drop 1 s) \<in> {''31'', ''32'', ''33'', ''34'', ''41'', ''43'', ''44'', ''45'', ''46'', ''47''}
     \<and> all_digits (drop 3 s)"

definition unauthorized_reply :: b2b_reply where
  "unauthorized_reply = TextReply 401 (''Acceso no autorizado: Token de autenticaci'' @ u_o @ ''n B2B ausente, inv''
     @ u_a @ ''lido o expirado.'')"

text \<open>The signer of a registered company with a certificate of its own.\<close>

definition receiver_signer :: "receptor_env \<Rightarrow> string \<Rightarrow> xml_signer option" where
  "receiver_signer env rncComprador = (case re_resolver env of
       None \<Rightarrow> None
     | Some resolve \<Rightarrow> (case resolve rncComprador of
           None \<Rightarrow> None
         | Some s \<Rightarrow> if sg_id s = re_defaultSigner env \<or> sg_usesFallbackCertificate s then None else Some s))"

definition unknown_receiver :: b2b_reply where
  "unknown_receiver = TextReply 404 ''El RNCComprador especificado no corresponde a ninguna empresa receptora registrada o con certificado activo en esta plataforma.''"

subsection \<open>\<open>recepcioneCF\<close>\<close>

definition linefeed :: string where "linefeed = [CHR 0x0A]"

definition xml_head :: "string \<Rightarrow> string" where
  "xml_head enc = ''<?xml version='' @ [CHR 0x22] @ ''1.0'' @ [CHR 0x22] @ '' encoding='' @ [CHR 0x22] @ enc @ [CHR 0x22] @ ''?>'' @ linefeed"

text \<open>The acknowledgement, with the Dominican local time.\<close>

definition arecf :: "int \<Rightarrow> string \<Rightarrow> string \<Rightarrow> string \<Rightarrow> string" where
  "arecf now rncEmisor rncComprador encf =
     (let x = gmtime (now - 4 * 3600) in
      xml_head ''utf-8'' @ ''<ARECF>'' @ linefeed @ ''  <DetalleAcusedeRecibo>'' @ linefeed
      @ ''    <Version>1.0</Version>'' @ linefeed
      @ ''    <RNCEmisor>'' @ receptor_escapeXml rncEmisor @ ''</RNCEmisor>'' @ linefeed
      @ ''    <RNCComprador>'' @ receptor_escapeXml rncComprador @ ''</RNCComprador>'' @ linefeed
      @ ''    <eNCF>'' @ receptor_escapeXml encf @ ''</eNCF>'' @ linefeed
      @ ''    <Estado>0</Estado>'' @ linefeed
      @ ''    <FechaHoraAcuseRecibo>'' @ two (tm_mday x) @ ''-'' @ two (tm_mon x) @ ''-'' @ dec_int (tm_year x) @ '' ''
      @ two (tm_hour x) @ '':'' @ two (tm_min x) @ '':'' @ two (tm_sec x) @ ''</FechaHoraAcuseRecibo>'' @ linefeed
      @ ''  </DetalleAcusedeRecibo>'' @ linefeed @ ''</ARECF>'' @ linefeed)"

definition recepcioneCF :: "receptor_env \<Rightarrow> int \<Rightarrow> b2b_request \<Rightarrow> receptor \<Rightarrow> b2b_reply \<times> receptor" where
  "recepcioneCF env now req s = (case isAuthorizedB2B now req s of
       (None, s1) \<Rightarrow> (unauthorized_reply, s1)
     | (Some subject, s1) \<Rightarrow>
         let xmlContent = extractXmlContent req in
         if xmlContent = [] then (TextReply 400 (''Archivo XML no provisto o vac'' @ u_i @ ''o.''), s1)
         else case re_parse env xmlContent of
             None \<Rightarrow> (TextReply 400 (''El archivo enviado no es un XML v'' @ u_a @ ''lido.''), s1)
           | Some doc \<Rightarrow>
               let rncEmisor = xpathValue doc (local_name ''RNCEmisor'');
                   rncComprador = xpathValue doc (local_name ''RNCComprador'');
                   encf = xpathValue doc (local_name ''eNCF'')
               in if rncEmisor = [] \<or> encf = [] \<or> rncComprador = [] then
                    (TextReply 400 ''El XML de e-CF provisto no contiene las etiquetas obligatorias RNCEmisor, RNCComprador o eNCF.'', s1)
                  else if \<not> isValidRncOrCedula rncEmisor \<or> \<not> isValidRncOrCedula rncComprador \<or> \<not> isValidEncf encf then
                    (TextReply 400 (''Valores fiscales con formato inv'' @ u_a @ ''lido en XML (RNCEmisor, RNCComprador o eNCF).''), s1)
                  else case receiver_signer env rncComprador of
                      None \<Rightarrow> (unknown_receiver, s1)
                    | Some signer \<Rightarrow> (case sg_signXml signer (arecf now rncEmisor rncComprador encf) rncComprador of
                          Inl e \<Rightarrow> (TextReply 400 (''Error al procesar la recepci'' @ u_o @ ''n de e-CF: '' @ exn_what e), s1)
                        | Inr signedArecf \<Rightarrow> (XmlBody 200 signedArecf, s1)))"

subsection \<open>\<open>aprobacionComercial\<close>\<close>

definition wants_json :: "b2b_request \<Rightarrow> bool" where
  "wants_json req \<longleftrightarrow> contains ''application/json'' (bq_accept req)"

definition approval_text :: string where
  "approval_text = ''Aprobaci'' @ u_o @ ''n comercial procesada correctamente.''"

definition approval_reply :: "b2b_request \<Rightarrow> b2b_reply" where
  "approval_reply req =
     (if wants_json req then JsonBody 200 [(''codigo'', ''1''), (''estado'', ''Aceptado''), (''mensaje'', approval_text)]
      else XmlBody 200 (xml_head ''utf-8'' @ ''<RespuestaAprobacionComercial>'' @ linefeed @ ''  <codigo>1</codigo>'' @ linefeed
        @ ''  <estado>Aceptado</estado>'' @ linefeed @ ''  <mensaje>'' @ approval_text @ ''</mensaje>'' @ linefeed
        @ ''</RespuestaAprobacionComercial>''))"

definition aprobacionComercial :: "receptor_env \<Rightarrow> int \<Rightarrow> b2b_request \<Rightarrow> receptor \<Rightarrow> b2b_reply \<times> receptor" where
  "aprobacionComercial env now req s = (case isAuthorizedB2B now req s of
       (None, s1) \<Rightarrow> (unauthorized_reply, s1)
     | (Some subject, s1) \<Rightarrow>
         let xmlContent = extractXmlContent req in
         if xmlContent = [] then
           (TextReply 400 (''Archivo XML de aprobaci'' @ u_o @ ''n comercial no provisto o vac'' @ u_i @ ''o.''), s1)
         else case re_parse env xmlContent of
             None \<Rightarrow> (TextReply 400 (''Error al procesar la aprobaci'' @ u_o @ ''n comercial: XML inv'' @ u_a @ ''lido.''), s1)
           | Some doc \<Rightarrow>
               let rncEmisor = xpathValue doc (local_name ''RNCEmisor'');
                   rncComprador = xpathValue doc (local_name ''RNCComprador'');
                   encf = xpathValue doc (local_name ''eNCF'');
                   estado0 = xpathValue doc (local_name ''Estado'');
                   estado = (if estado0 = [] then xpathValue doc (local_name ''EstadoAprobacion'') else estado0);
                   sigValue = xpathValue doc ''//ds:SignatureValue''
               in if rncEmisor = [] \<or> rncComprador = [] \<or> encf = [] \<or> estado = [] then
                    (TextReply 400 (''El XML de aprobaci'' @ u_o @ ''n comercial no contiene las etiquetas obligatorias (RNCEmisor, RNCComprador, eNCF, Estado).''), s1)
                  else if sigValue = [] then
                    (TextReply 400 (''El XML de aprobaci'' @ u_o @ ''n comercial no contiene una firma digital v'' @ u_a @ ''lida (ds:SignatureValue).''), s1)
                  else if \<not> isValidRncOrCedula rncEmisor \<or> \<not> isValidRncOrCedula rncComprador \<or> \<not> isValidEncf encf then
                    (TextReply 400 (''Valores fiscales con formato inv'' @ u_a @ ''lido en XML de aprobaci'' @ u_o @ ''n comercial (RNCEmisor, RNCComprador o eNCF).''), s1)
                  else case receiver_signer env rncComprador of
                      None \<Rightarrow> (unknown_receiver, s1)
                    | Some signer \<Rightarrow> (approval_reply req, s1))"

subsection \<open>\<open>getSemilla\<close> and \<open>validarSemilla\<close>\<close>

definition seed_document :: "string \<Rightarrow> string \<Rightarrow> string" where
  "seed_document seedVal fecha =
     xml_head ''utf-8'' @ ''<SemillaModel xmlns:xsi='' @ [CHR 0x22] @ ''http://www.w3.org/2001/XMLSchema-instance'' @ [CHR 0x22]
     @ '' xmlns:xsd='' @ [CHR 0x22] @ ''http://www.w3.org/2001/XMLSchema'' @ [CHR 0x22] @ ''>'' @ linefeed
     @ ''  <valor>'' @ seedVal @ ''</valor>'' @ linefeed @ ''  <fecha>'' @ fecha @ ''</fecha>'' @ linefeed @ ''</SemillaModel>''"

definition getSemilla :: "int \<Rightarrow> 8 word list \<Rightarrow> receptor \<Rightarrow> b2b_reply \<times> receptor" where
  "getSemilla now rnd_bytes s =
     (let seedVal = newUuid rnd_bytes in
      (XmlBody 200 (seed_document seedVal (toIsoUtc now)),
       s \<lparr> rs_issuedSeeds := (pruneExpiredSeeds now (rs_issuedSeeds s))(seedVal \<mapsto> now + 10 * 60) \<rparr>))"

definition token_reply :: "b2b_request \<Rightarrow> string \<Rightarrow> int \<Rightarrow> b2b_reply" where
  "token_reply req token now =
     (let expira = toIsoUtc (now + 3600); expedido = toIsoUtc now in
      if wants_json req then JsonBody 200 [(''token'', token), (''expira'', expira), (''expedido'', expedido)]
      else XmlBody 200 (xml_head ''UTF-8'' @ ''<RespuestaAutenticacion>'' @ linefeed @ ''  <token>'' @ token @ ''</token>'' @ linefeed
        @ ''  <expira>'' @ expira @ ''</expira>'' @ linefeed @ ''  <expedido>'' @ expedido @ ''</expedido>'' @ linefeed
        @ ''</RespuestaAutenticacion>''))"

definition validarSemilla ::
    "receptor_env \<Rightarrow> int \<Rightarrow> 8 word list \<Rightarrow> b2b_request \<Rightarrow> receptor \<Rightarrow> b2b_reply \<times> receptor" where
  "validarSemilla env now rnd_bytes req s =
     (let xmlContent = extractXmlContent req in
      if xmlContent = [] then (TextReply 400 ''Archivo XML de semilla firmada no provisto.'', s)
      else case re_parse env xmlContent of
          None \<Rightarrow> (TextReply 400 ''Error al validar semilla: XML malformado.'', s)
        | Some doc \<Rightarrow>
            let sigValue = xpathValue doc ''//ds:SignatureValue'';
                certValue = xpathValue doc ''//ds:X509Certificate'';
                valor = xpathValue doc (local_name ''valor'')
            in if sigValue = [] \<or> certValue = [] \<or> valor = [] then
                 (TextReply 400 (''La semilla provista no contiene una firma digital v'' @ u_a @ ''lida (ds:SignatureValue), certificado X.509 o valor de semilla.''), s)
               else let seeds = pruneExpiredSeeds now (rs_issuedSeeds s) in
                 (case seeds valor of
                    None \<Rightarrow> (TextReply 400 ''La semilla provista no fue emitida por este servidor o ya ha expirado.'',
                              s \<lparr> rs_issuedSeeds := seeds \<rparr>)
                  | Some e \<Rightarrow>
                      let s1 = s \<lparr> rs_issuedSeeds := seeds(valor := None) \<rparr> in
                      (case validateX509Certificate env now certValue of
                         Inl certErr \<Rightarrow> (TextReply 400 (''Error de validaci'' @ u_o @ ''n de certificado digital X.509: '' @ certErr), s1)
                       | Inr subject \<Rightarrow>
                           let token = stripHyphens (newUuid rnd_bytes) in
                           (token_reply req token now,
                            s1 \<lparr> rs_activeTokens := (pruneExpiredTokens now (rs_activeTokens s1))(token \<mapsto> (now + 3600, subject)) \<rparr>))))"

subsection \<open>How a call may end\<close>

lemma isAuthorizedB2B_spec:
  assumes "isAuthorizedB2B now req s = (r, s')"
  shows "rs_issuedSeeds s' = rs_issuedSeeds s"
    "\<And>k x. rs_activeTokens s' k = Some x \<Longrightarrow> rs_activeTokens s k = Some x"
    "r = Some subj \<Longrightarrow> \<exists>e. rs_activeTokens s (bearer_token req) = Some (e, subj) \<and> now \<le> e"
  using assms by (auto simp: isAuthorizedB2B_def Let_def split: if_splits option.splits prod.splits)

text \<open>Both deliveries change nothing but the tokens, and succeed only for an authorised caller.\<close>

lemma recepcioneCF_spec:
  assumes "recepcioneCF env now req s = (rep, s')"
  shows "s' = snd (isAuthorizedB2B now req s)" "b2b_status rep = 200 \<Longrightarrow> fst (isAuthorizedB2B now req s) \<noteq> None"
  using assms
  by (auto simp: recepcioneCF_def Let_def unauthorized_reply_def split: prod.splits option.splits sum.splits if_splits)

lemma aprobacionComercial_spec:
  assumes "aprobacionComercial env now req s = (rep, s')"
  shows "s' = snd (isAuthorizedB2B now req s)" "b2b_status rep = 200 \<Longrightarrow> fst (isAuthorizedB2B now req s) \<noteq> None"
  using assms
  by (auto simp: aprobacionComercial_def Let_def unauthorized_reply_def split: prod.splits option.splits sum.splits if_splits)

lemma pruned_seed: "pruneExpiredSeeds now m k = Some e \<longleftrightarrow> m k = Some e \<and> now \<le> e"
  by (auto simp: pruneExpiredSeeds_def split: option.splits)

lemma pruned_token: "pruneExpiredTokens now m k = Some (e, subj) \<longleftrightarrow> m k = Some (e, subj) \<and> now \<le> e"
  by (auto simp: pruneExpiredTokens_def split: option.splits prod.splits)

definition presented_seed :: "receptor_env \<Rightarrow> b2b_request \<Rightarrow> string" where
  "presented_seed env req = (case re_parse env (extractXmlContent req) of
     None \<Rightarrow> [] | Some doc \<Rightarrow> xpathValue doc (local_name ''valor''))"

definition presented_subject :: "receptor_env \<Rightarrow> int \<Rightarrow> b2b_request \<Rightarrow> string" where
  "presented_subject env now req = (case re_parse env (extractXmlContent req) of
     None \<Rightarrow> [] | Some doc \<Rightarrow> (case validateX509Certificate env now (xpathValue doc ''//ds:X509Certificate'') of
       Inl e \<Rightarrow> [] | Inr subject \<Rightarrow> subject))"

lemma b2b_status_token [simp]: "b2b_status (token_reply req token now) = 200"
  by (simp add: token_reply_def Let_def)

lemma validarSemilla_cases:
  assumes "validarSemilla env now bs req s = (rep, s')"
  obtains (refused) "b2b_status rep = 400" "rs_activeTokens s' = rs_activeTokens s"
      "\<And>k e. rs_issuedSeeds s' k = Some e \<Longrightarrow> rs_issuedSeeds s k = Some e"
  | (granted) e where "b2b_status rep = 200" "rs_issuedSeeds s (presented_seed env req) = Some e" "now \<le> e"
      "rs_issuedSeeds s' = (pruneExpiredSeeds now (rs_issuedSeeds s))(presented_seed env req := None)"
      "rs_activeTokens s' = (pruneExpiredTokens now (rs_activeTokens s))
         (stripHyphens (newUuid bs) \<mapsto> (now + 3600, presented_subject env now req))"
proof -
  have early: thesis if "b2b_status rep = 400" "s' = s" using that by (intro refused) simp_all
  show thesis
  proof (cases "extractXmlContent req = [] \<or> re_parse env (extractXmlContent req) = None")
    case True
    then have "b2b_status rep = 400" "s' = s" using assms
      by (cases "extractXmlContent req = []"; auto simp: validarSemilla_def)+
    then show ?thesis by (rule early)
  next
    case False
    then obtain doc where doc: "re_parse env (extractXmlContent req) = Some doc" "extractXmlContent req \<noteq> []" by auto
    let ?v = "xpathValue doc (local_name ''valor'')" and ?c = "xpathValue doc ''//ds:X509Certificate''"
    have v: "presented_seed env req = ?v" by (simp add: presented_seed_def doc)
    show ?thesis
    proof (cases "xpathValue doc ''//ds:SignatureValue'' = [] \<or> ?c = [] \<or> ?v = []")
      case True
      then have "b2b_status rep = 400" "s' = s" using assms doc by (auto simp: validarSemilla_def Let_def)
      then show ?thesis by (rule early)
    next
      case signed: False
      show ?thesis
      proof (cases "pruneExpiredSeeds now (rs_issuedSeeds s) ?v")
        case None
        then have "rep = TextReply 400 ''La semilla provista no fue emitida por este servidor o ya ha expirado.''"
          "s' = s \<lparr> rs_issuedSeeds := pruneExpiredSeeds now (rs_issuedSeeds s) \<rparr>"
          using assms doc signed by (auto simp: validarSemilla_def Let_def)
        then show ?thesis by (intro refused) (simp_all add: pruned_seed)
      next
        case (Some e)
        then have e: "rs_issuedSeeds s ?v = Some e" "now \<le> e" by (simp_all add: pruned_seed)
        let ?s1 = "s \<lparr> rs_issuedSeeds := (pruneExpiredSeeds now (rs_issuedSeeds s))(?v := None) \<rparr>"
        show ?thesis
        proof (cases "validateX509Certificate env now ?c")
          case (Inl err)
          then have "b2b_status rep = 400" "s' = ?s1"
            using assms doc signed Some by (auto simp: validarSemilla_def Let_def)
          then show ?thesis by (intro refused) (simp_all add: pruned_seed split: if_splits)
        next
          case (Inr subj)
          then have "rep = token_reply req (stripHyphens (newUuid bs)) now"
            "s' = ?s1 \<lparr> rs_activeTokens := (pruneExpiredTokens now (rs_activeTokens s))(stripHyphens (newUuid bs) \<mapsto> (now + 3600, subj)) \<rparr>"
            using assms doc signed Some by (auto simp: validarSemilla_def Let_def)
          moreover have "presented_subject env now req = subj" by (simp add: presented_subject_def doc Inr)
          ultimately show ?thesis using e v by (intro granted) simp_all
        qed
      qed
    qed
  qed
qed

subsection \<open>Runs of the receptor\<close>

text \<open>
  \<open>receptor_run t s evs\<close>: at time \<open>t\<close> the receptor is in state \<open>s\<close>, and \<open>evs\<close> lists the seeds it
  has issued and the tokens it has granted, each with its time.  Requests, random bytes and
  the outside may differ from call to call; the clock does not run backwards.
\<close>

datatype b2b_event =
    Issued string int
  | Granted string string int string

inductive receptor_run :: "int \<Rightarrow> receptor \<Rightarrow> b2b_event list \<Rightarrow> bool" where
  start: "receptor_run t \<lparr> rs_issuedSeeds = Map.empty, rs_activeTokens = Map.empty \<rparr> []"
| issuing: "receptor_run t s evs \<Longrightarrow> t \<le> now \<Longrightarrow> getSemilla now bs s = (rep, s') \<Longrightarrow>
    receptor_run now s' (evs @ [Issued (newUuid bs) now])"
| validating: "receptor_run t s evs \<Longrightarrow> t \<le> now \<Longrightarrow> validarSemilla env now bs req s = (rep, s') \<Longrightarrow>
    receptor_run now s' (evs @ (if b2b_status rep = 200
      then [Granted (stripHyphens (newUuid bs)) (presented_seed env req) now (presented_subject env now req)] else []))"
| receiving: "receptor_run t s evs \<Longrightarrow> t \<le> now \<Longrightarrow> recepcioneCF env now req s = (rep, s') \<Longrightarrow> receptor_run now s' evs"
| approving: "receptor_run t s evs \<Longrightarrow> t \<le> now \<Longrightarrow> aprobacionComercial env now req s = (rep, s') \<Longrightarrow> receptor_run now s' evs"

fun issues_of :: "string \<Rightarrow> b2b_event \<Rightarrow> bool" where
  "issues_of v (Issued u t) = (u = v)"
| "issues_of v (Granted k u t subj) = False"

fun grants_of :: "string \<Rightarrow> b2b_event \<Rightarrow> bool" where
  "grants_of v (Issued u t) = False"
| "grants_of v (Granted k u t subj) = (u = v)"

definition occurrences :: "(b2b_event \<Rightarrow> bool) \<Rightarrow> b2b_event list \<Rightarrow> nat" where
  "occurrences P evs = length (filter P evs)"

lemma occurrences_simps [simp]:
  "occurrences P [] = 0" "occurrences P (evs @ evs') = occurrences P evs + occurrences P evs'"
  "occurrences P [e] = (if P e then 1 else 0)"
  by (simp_all add: occurrences_def)

text \<open>What the maps have to do with the history.\<close>

definition seeds_ok :: "receptor \<Rightarrow> b2b_event list \<Rightarrow> bool" where
  "seeds_ok s evs \<longleftrightarrow> (\<forall>v e. rs_issuedSeeds s v = Some e \<longrightarrow> Issued v (e - 600) \<in> set evs)"

definition tokens_ok :: "receptor \<Rightarrow> b2b_event list \<Rightarrow> bool" where
  "tokens_ok s evs \<longleftrightarrow> (\<forall>k e subj. rs_activeTokens s k = Some (e, subj) \<longrightarrow> (\<exists>v. Granted k v (e - 3600) subj \<in> set evs))"

definition history_ok :: "int \<Rightarrow> b2b_event list \<Rightarrow> bool" where
  "history_ok t evs \<longleftrightarrow> (\<forall>v u. Issued v u \<in> set evs \<longrightarrow> u \<le> t)
     \<and> (\<forall>k v u subj. Granted k v u subj \<in> set evs \<longrightarrow> u \<le> t \<and> (\<exists>u0. Issued v u0 \<in> set evs \<and> u0 \<le> u \<and> u \<le> u0 + 600))"

definition spent_ok :: "receptor \<Rightarrow> b2b_event list \<Rightarrow> bool" where
  "spent_ok s evs \<longleftrightarrow> (\<forall>v. occurrences (grants_of v) evs + (if rs_issuedSeeds s v = None then 0 else 1)
     \<le> occurrences (issues_of v) evs)"

lemmas receptor_inv_defs = seeds_ok_def tokens_ok_def history_ok_def spent_ok_def

lemma deliver_keeps:
  assumes "s' = snd (isAuthorizedB2B now req s)" "seeds_ok s evs \<and> tokens_ok s evs \<and> history_ok t evs \<and> spent_ok s evs" "t \<le> now"
  shows "seeds_ok s' evs \<and> tokens_ok s' evs \<and> history_ok now evs \<and> spent_ok s' evs"
proof -
  obtain r where a: "isAuthorizedB2B now req s = (r, s')" using assms(1) by (metis prod.collapse)
  have "history_ok now evs" using assms(2,3) by (fastforce simp: history_ok_def)
  moreover have "tokens_ok s' evs" using assms(2) isAuthorizedB2B_spec(2) [OF a] unfolding tokens_ok_def by blast
  ultimately show ?thesis using assms(2) isAuthorizedB2B_spec(1) [OF a] by (simp add: seeds_ok_def spent_ok_def)
qed

lemma receptor_run_inv:
  "receptor_run t s evs \<Longrightarrow> seeds_ok s evs \<and> tokens_ok s evs \<and> history_ok t evs \<and> spent_ok s evs"
proof (induction rule: receptor_run.induct)
  case start
  then show ?case by (simp add: receptor_inv_defs)
next
  case (issuing t s evs now bs rep s')
  then have s': "rs_issuedSeeds s' = (pruneExpiredSeeds now (rs_issuedSeeds s))(newUuid bs \<mapsto> now + 600)"
    "rs_activeTokens s' = rs_activeTokens s" by (auto simp: getSemilla_def Let_def)
  note IH = issuing.IH
  have "seeds_ok s' (evs @ [Issued (newUuid bs) now])" using IH by (auto simp: seeds_ok_def s' pruned_seed)
  moreover have "tokens_ok s' (evs @ [Issued (newUuid bs) now])" using IH by (simp add: tokens_ok_def s')
  moreover have "history_ok now (evs @ [Issued (newUuid bs) now])"
    using IH issuing.hyps(2) by (fastforce simp: history_ok_def)
  moreover have "spent_ok s' (evs @ [Issued (newUuid bs) now])"
    unfolding spent_ok_def
  proof
    fix v
    have "occurrences (grants_of v) evs + (if rs_issuedSeeds s v = None then 0 else 1) \<le> occurrences (issues_of v) evs"
      using IH by (simp add: spent_ok_def)
    moreover have "rs_issuedSeeds s' v \<noteq> None \<Longrightarrow> v \<noteq> newUuid bs \<Longrightarrow> rs_issuedSeeds s v \<noteq> None"
      by (auto simp: s' pruned_seed)
    ultimately show "occurrences (grants_of v) (evs @ [Issued (newUuid bs) now]) + (if rs_issuedSeeds s' v = None then 0 else 1)
        \<le> occurrences (issues_of v) (evs @ [Issued (newUuid bs) now])"
      by (cases "v = newUuid bs") (auto split: if_splits)
  qed
  ultimately show ?case by blast
next
  case (validating t s evs now env bs req rep s')
  note IH = validating.IH
  have later: "history_ok now evs" using IH validating.hyps(2) by (fastforce simp: history_ok_def)
  from validating.hyps(3) show ?case
  proof (cases rule: validarSemilla_cases)
    case refused
    have "spent_ok s' evs"
      unfolding spent_ok_def
    proof
      fix v
      have "occurrences (grants_of v) evs + (if rs_issuedSeeds s v = None then 0 else 1) \<le> occurrences (issues_of v) evs"
        using IH by (simp add: spent_ok_def)
      then show "occurrences (grants_of v) evs + (if rs_issuedSeeds s' v = None then 0 else 1) \<le> occurrences (issues_of v) evs"
        using refused(3) [of v] by (cases "rs_issuedSeeds s' v") auto
    qed
    then show ?thesis using IH later refused by (auto simp: seeds_ok_def tokens_ok_def)
  next
    case (granted e)
    let ?g = "Granted (stripHyphens (newUuid bs)) (presented_seed env req) now (presented_subject env now req)"
    have iss: "Issued (presented_seed env req) (e - 600) \<in> set evs" using IH granted(2) by (simp add: seeds_ok_def)
    then have "e - 600 \<le> now" using later by (auto simp: history_ok_def)
    then have "history_ok now (evs @ [?g])"
      using later iss granted(3) by (fastforce simp: history_ok_def)
    moreover have "seeds_ok s' (evs @ [?g])" using IH by (auto simp: seeds_ok_def granted(4) pruned_seed)
    moreover have "tokens_ok s' (evs @ [?g])"
      using IH by (auto simp: tokens_ok_def granted(5) pruned_token split: if_splits)
    moreover have "spent_ok s' (evs @ [?g])"
      unfolding spent_ok_def
    proof
      fix v
      have "occurrences (grants_of v) evs + (if rs_issuedSeeds s v = None then 0 else 1) \<le> occurrences (issues_of v) evs"
        using IH by (simp add: spent_ok_def)
      moreover have "rs_issuedSeeds s' v \<noteq> None \<Longrightarrow> rs_issuedSeeds s v \<noteq> None \<and> v \<noteq> presented_seed env req"
        by (auto simp: granted(4) pruned_seed split: if_splits)
      ultimately show "occurrences (grants_of v) (evs @ [?g]) + (if rs_issuedSeeds s' v = None then 0 else 1)
          \<le> occurrences (issues_of v) (evs @ [?g])"
        using granted(2) by (cases "v = presented_seed env req"; cases "rs_issuedSeeds s' v") (auto split: if_splits)
    qed
    ultimately show ?thesis using granted(1) by simp
  qed
next
  case (receiving t s evs now env req rep s')
  then show ?case using deliver_keeps recepcioneCF_spec(1) by blast
next
  case (approving t s evs now env req rep s')
  then show ?case using deliver_keeps aprobacionComercial_spec(1) by blast
qed

subsection \<open>Properties of the receptor\<close>

text \<open>The first caller of an empty receptor: it takes a seed, signs it and delivers.\<close>

definition demo_doc :: "string \<Rightarrow> string \<Rightarrow> string" where
  "demo_doc v expr = (if expr = ''//ds:SignatureValue'' then ''c2ln'' else if expr = ''//ds:X509Certificate'' then ''Y2VydA==''
     else if expr = local_name ''valor'' then v
     else if expr = local_name ''eNCF'' then ''E310000000001''
     else if expr = local_name ''RNCEmisor'' then ''101000001'' else if expr = local_name ''RNCComprador'' then ''131000002''
     else [])"

definition demo_env :: receptor_env where
  "demo_env = \<lparr> re_parse = (\<lambda>c. if c = [] then None else Some (demo_doc c)),
     re_x509 = (\<lambda>c. Some (''CN=Proveedor'', 0, 2000000000)), re_defaultSigner = 0,
     re_resolver = Some (\<lambda>rnc. Some \<lparr> sg_id = 1, sg_signXml = (\<lambda>x r. Inr x), sg_usesFallbackCertificate = False,
       sg_validateCertificateSn = (\<lambda>sn. True) \<rparr>) \<rparr>"

definition demo_caller :: "string \<Rightarrow> string \<Rightarrow> b2b_request" where
  "demo_caller token body = \<lparr> bq_authorization = [], bq_token = token, bq_accept = [], bq_multipart = None, bq_body = body \<rparr>"

definition demo_seed :: string where "demo_seed = newUuid (replicate 16 0)"

definition demo_token :: string where "demo_token = stripHyphens (newUuid (replicate 16 1))"

definition demo_receptor :: receptor where
  "demo_receptor = snd (validarSemilla demo_env 160 (replicate 16 1) (demo_caller [] demo_seed)
     (snd (getSemilla 100 (replicate 16 0) \<lparr> rs_issuedSeeds = Map.empty, rs_activeTokens = Map.empty \<rparr>)))"

lemma demo_seed_text: "demo_seed = ''00000000-0000-4000-8000-000000000000''" by code_simp

lemma demo_token_text: "demo_token = ''01010101010141018101010101010101''" by code_simp

lemma demo_receptor_tokens: "rs_activeTokens demo_receptor demo_token = Some (3760, ''CN=Proveedor'')"
  "rs_activeTokens demo_receptor ''fc0ffee'' = None" "presented_seed demo_env (demo_caller [] demo_seed) = demo_seed"
  "presented_subject demo_env 160 (demo_caller [] demo_seed) = ''CN=Proveedor''"
  "b2b_status (fst (validarSemilla demo_env 160 (replicate 16 1) (demo_caller [] demo_seed)
     (snd (getSemilla 100 (replicate 16 0) \<lparr> rs_issuedSeeds = Map.empty, rs_activeTokens = Map.empty \<rparr>)))) = 200"
  by code_simp+

lemma demo_receptor_run:
  "receptor_run 160 demo_receptor [Issued demo_seed 100, Granted demo_token demo_seed 160 ''CN=Proveedor'']"
proof -
  have "receptor_run 100 (snd (getSemilla 100 (replicate 16 0) \<lparr> rs_issuedSeeds = Map.empty, rs_activeTokens = Map.empty \<rparr>))
      ([] @ [Issued demo_seed 100])"
    unfolding demo_seed_def by (rule issuing [OF start, of 0]) (simp_all add: getSemilla_def Let_def)
  from validating [OF this, of 160 demo_env "replicate 16 1" "demo_caller [] demo_seed", OF _ prod.collapse [symmetric]]
  show ?thesis by (simp add: demo_receptor_def [symmetric] demo_receptor_tokens(3-) demo_token_def [symmetric])
qed



text \<open>C24. A seed buys at most one token: in every sequence of calls, no value is exchanged more often
  than it was issued.\<close>
theorem seed_is_spent_once:
  assumes "receptor_run t s evs"
  shows "occurrences (grants_of v) evs \<le> occurrences (issues_of v) evs"
  using receptor_run_inv [OF assms] unfolding spent_ok_def by (meson add_leD1)

theorem seed_is_spent_once_witness:
  "occurrences (grants_of demo_seed) [Issued demo_seed 100, Granted demo_token demo_seed 160 ''CN=Proveedor''] \<le> (1::nat)"
  using seed_is_spent_once [OF demo_receptor_run, of demo_seed] by (simp add: occurrences_def)

text \<open>The signature of the seed is required to be present and is never verified: two documents
  that agree on everything but the text of \<open>ds:SignatureValue\<close> (and have one) get the same
  answer and the same token.\<close>
theorem signature_is_not_checked:
  assumes "re_parse env (extractXmlContent req) = Some doc" "re_parse env (extractXmlContent req') = Some doc'"
    and "\<And>e. e \<noteq> ''//ds:SignatureValue'' \<Longrightarrow> doc' e = doc e"
    and "xpathValue doc ''//ds:SignatureValue'' \<noteq> []" "xpathValue doc' ''//ds:SignatureValue'' \<noteq> []"
    and "bq_accept req' = bq_accept req" "extractXmlContent req \<noteq> []" "extractXmlContent req' \<noteq> []"
  shows "validarSemilla env now bs req' s = validarSemilla env now bs req s"
proof -
  have "xpathValue doc' ''//ds:X509Certificate'' = xpathValue doc ''//ds:X509Certificate''"
    "xpathValue doc' (local_name ''valor'') = xpathValue doc (local_name ''valor'')"
    by (simp_all add: xpathValue_def assms(3) local_name_def)
  moreover have "token_reply req' = token_reply req"
    by (intro ext) (simp add: token_reply_def wants_json_def assms(6))
  ultimately show ?thesis
    using assms by (simp add: validarSemilla_def Let_def cong: if_cong option.case_cong sum.case_cong)
qed

definition forged_env :: receptor_env where
  "forged_env = demo_env \<lparr> re_parse := (\<lambda>c. if c = ''forged'' then Some ((demo_doc demo_seed)(''//ds:SignatureValue'' := ''AAAA''))
     else Some (demo_doc demo_seed)) \<rparr>"

theorem signature_is_not_checked_witness:
  "validarSemilla forged_env 160 (replicate 16 1) (demo_caller [] ''forged'') demo_receptor
     = validarSemilla forged_env 160 (replicate 16 1) (demo_caller [] ''signed'') demo_receptor"
proof (rule signature_is_not_checked)
  show "re_parse forged_env (extractXmlContent (demo_caller [] ''signed'')) = Some (demo_doc demo_seed)"
    "re_parse forged_env (extractXmlContent (demo_caller [] ''forged'')) = Some ((demo_doc demo_seed)(''//ds:SignatureValue'' := ''AAAA''))"
    by (simp_all add: forged_env_def extractXmlContent_def demo_caller_def)
  show "xpathValue (demo_doc demo_seed) ''//ds:SignatureValue'' \<noteq> []"
    "xpathValue ((demo_doc demo_seed)(''//ds:SignatureValue'' := ''AAAA'')) ''//ds:SignatureValue'' \<noteq> []"
    by code_simp+
  show "((demo_doc demo_seed)(''//ds:SignatureValue'' := ''AAAA'')) e = demo_doc demo_seed e" if "e \<noteq> ''//ds:SignatureValue''" for e
    using that by simp
qed (simp_all add: extractXmlContent_def demo_caller_def)

end
