(* ===== verification/Cache_Service.thy ===== *)
theory Cache_Service
  imports Sys_Time
begin

text \<open>
  RedisCacheService.cpp: the cache and the locks the rest of the service shares.  It speaks
  RESP to a Redis server over one connection per command and keeps a map of its own for the
  time Redis cannot be reached.  The socket and the server behind it are the parameter
  \<open>redis\<close>: at a time, it answers a command in its state (an empty answer is a failed
  connection).  Time is milliseconds; one call reads the clock once.  Two locales state what
  the callers rely on, values that are read back until they expire and locks that exclude;
  both are interpreted on the service without a server.
\<close>

subsection \<open>State\<close>

record cache_item =
  ci_value :: string
  ci_expireAt :: "int option"

record 'r cache =
  ca_host :: string
  ca_port :: int
  ca_password :: string
  ca_useRedis :: bool
  ca_lastPing :: int
  ca_memory :: "string \<Rightarrow> cache_item option"
  ca_locks :: "string \<Rightarrow> (string \<times> int) option"
  ca_server :: 'r

type_synonym 'r redis = "int \<Rightarrow> string \<Rightarrow> 'r \<Rightarrow> string \<times> 'r"

subsection \<open>The wire format\<close>

definition crlf :: string where "crlf = [CHR 0x0D, CHR 0x0A]"

definition resp_head :: "int \<Rightarrow> string" where
  "resp_head n = ''*'' @ dec_int n @ crlf"

definition resp_bulk :: "string \<Rightarrow> string" where
  "resp_bulk x = ''$'' @ dec_int (int (length x)) @ crlf @ x @ crlf"

definition ping_command :: string where
  "ping_command = resp_head 1 @ resp_bulk ''PING''"

definition get_command :: "string \<Rightarrow> string" where
  "get_command key = resp_head 2 @ resp_bulk ''GET'' @ resp_bulk key"

definition set_command :: "string \<Rightarrow> string \<Rightarrow> int option \<Rightarrow> string" where
  "set_command key value expiration = (case expiration of
       Some e \<Rightarrow> resp_head 4 @ resp_bulk ''SET'' @ resp_bulk key @ resp_bulk value @ resp_bulk ''EX'' @ resp_bulk (dec_int e)
     | None \<Rightarrow> resp_head 3 @ resp_bulk ''SET'' @ resp_bulk key @ resp_bulk value)"

definition del_command :: "string \<Rightarrow> string" where
  "del_command key = resp_head 2 @ resp_bulk ''DEL'' @ resp_bulk key"

definition lock_command :: "string \<Rightarrow> string \<Rightarrow> int \<Rightarrow> string" where
  "lock_command lockKey lockValue e = resp_head 6 @ resp_bulk ''SET'' @ resp_bulk lockKey @ resp_bulk lockValue
     @ resp_bulk ''NX'' @ resp_bulk ''EX'' @ resp_bulk (dec_int e)"

definition release_script :: string where
  "release_script = ''if redis.call('' @ [CHR 0x27] @ ''get'' @ [CHR 0x27] @ '', KEYS[1]) == ARGV[1] then return redis.call(''
     @ [CHR 0x27] @ ''del'' @ [CHR 0x27] @ '', KEYS[1]) else return 0 end''"

definition unlock_command :: "string \<Rightarrow> string \<Rightarrow> string" where
  "unlock_command lockKey lockValue = resp_head 5 @ resp_bulk ''EVAL'' @ resp_bulk release_script @ resp_bulk ''1''
     @ resp_bulk lockKey @ resp_bulk lockValue"

text \<open>What is before and after the first end of line.\<close>

fun cut_crlf :: "string \<Rightarrow> (string \<times> string) option" where
  "cut_crlf [] = None"
| "cut_crlf (c # cs) = (if prefix crlf (c # cs) then Some ([], drop 2 (c # cs))
     else (case cut_crlf cs of None \<Rightarrow> None | Some (a, b) \<Rightarrow> Some (c # a, b)))"

text \<open>The answer to GET: \<open>None\<close> leaves the question to the memory.\<close>

definition redis_value :: "string \<Rightarrow> string option option" where
  "redis_value resp =
     (if \<not> starts_with ''$'' resp then None
      else if starts_with ''$-1'' resp then Some None
      else case cut_crlf resp of
          None \<Rightarrow> None
        | Some (hd_line, rest) \<Rightarrow> (case stoi (tl hd_line) of
              None \<Rightarrow> None
            | Some n \<Rightarrow> if 0 < n \<and> n \<le> int (length rest) then Some (Some (take (nat n) rest)) else None))"

subsection \<open>The connection\<close>

definition sendRedisCommand :: "'r redis \<Rightarrow> int \<Rightarrow> string \<Rightarrow> 'r cache \<Rightarrow> string \<times> 'r cache" where
  "sendRedisCommand redis now cmd s =
     (if ca_host s = [] then ([], s)
      else case redis now cmd (ca_server s) of (resp, srv) \<Rightarrow> (resp, s \<lparr> ca_server := srv \<rparr>))"

text \<open>Once a server has answered, \<open>useRedis_\<close> stays; until then one attempt every 30 seconds.\<close>

definition checkRedisAvailability :: "'r redis \<Rightarrow> int \<Rightarrow> 'r cache \<Rightarrow> bool \<times> 'r cache" where
  "checkRedisAvailability redis now s =
     (if ca_host s = [] then (False, s)
      else if ca_useRedis s then (True, s)
      else if (now - ca_lastPing s) div 1000 < 30 then (False, s)
      else case sendRedisCommand redis now ping_command (s \<lparr> ca_lastPing := now \<rparr>) of
          (resp, s1) \<Rightarrow> if contains ''+PONG'' resp then (True, s1 \<lparr> ca_useRedis := True \<rparr>) else (False, s1))"

definition find_char :: "(char \<Rightarrow> bool) \<Rightarrow> string \<Rightarrow> string" where
  "find_char P s = takeWhile (\<lambda>c. \<not> P c) s"

text \<open>What follows the first occurrence of a text.\<close>

fun after_text :: "string \<Rightarrow> string \<Rightarrow> string option" where
  "after_text p [] = None"
| "after_text p (c # cs) = (if prefix p (c # cs) then Some (drop (length p) (c # cs)) else after_text p cs)"

definition parseConnectionString :: "'r redis \<Rightarrow> int \<Rightarrow> string option \<Rightarrow> 'r \<Rightarrow> string \<Rightarrow> 'r cache" where
  "parseConnectionString redis now envPass srv connectionString =
     (let s0 = \<lparr> ca_host = [], ca_port = 6379, ca_password = [], ca_useRedis = False, ca_lastPing = 0,
            ca_memory = Map.empty, ca_locks = Map.empty, ca_server = srv \<rparr>
      in if connectionString = [] then s0
         else let fromString = (case after_text ''password='' connectionString of
                    None \<Rightarrow> [] | Some p \<Rightarrow> find_char (\<lambda>c. c = CHR '','' \<or> c = CHR '';'') p);
                  password = value_or envPass fromString;
                  colon = CHR '':'' \<in> set connectionString;
                  host = find_char (\<lambda>c. c = (if colon then CHR '':'' else CHR '','')) connectionString;
                  port = (if colon then value_or (stoi (drop (length host + 1) connectionString)) 6379 else 6379);
                  s1 = s0 \<lparr> ca_password := password, ca_host := host, ca_port := port, ca_lastPing := now \<rparr>
              in (case sendRedisCommand redis now ping_command s1 of
                    (resp, s2) \<Rightarrow> s2 \<lparr> ca_useRedis := contains ''+PONG'' resp \<rparr>))"

subsection \<open>Values\<close>

definition memory_get :: "int \<Rightarrow> string \<Rightarrow> 'r cache \<Rightarrow> string option \<times> 'r cache" where
  "memory_get now key s = (case ca_memory s key of
       None \<Rightarrow> (None, s)
     | Some item \<Rightarrow> (case ci_expireAt item of
           Some e \<Rightarrow> if e < now then (None, s \<lparr> ca_memory := (ca_memory s)(key := None) \<rparr>) else (Some (ci_value item), s)
         | None \<Rightarrow> (Some (ci_value item), s)))"

definition cache_get :: "'r redis \<Rightarrow> int \<Rightarrow> string \<Rightarrow> 'r cache \<Rightarrow> string option \<times> 'r cache" where
  "cache_get redis now key s = (case checkRedisAvailability redis now s of
       (True, s1) \<Rightarrow> (case sendRedisCommand redis now (get_command key) s1 of
           (resp, s2) \<Rightarrow> (case redis_value resp of Some r \<Rightarrow> (r, s2) | None \<Rightarrow> memory_get now key s2))
     | (False, s1) \<Rightarrow> memory_get now key s1)"

definition memory_set :: "int \<Rightarrow> string \<Rightarrow> string \<Rightarrow> int option \<Rightarrow> 'r cache \<Rightarrow> bool \<times> 'r cache" where
  "memory_set now key value expiration s =
     (True, s \<lparr> ca_memory := (ca_memory s)(key \<mapsto> \<lparr> ci_value = value,
        ci_expireAt = map_option (\<lambda>e. now + 1000 * e) expiration \<rparr>) \<rparr>)"

definition cache_set ::
    "'r redis \<Rightarrow> int \<Rightarrow> string \<Rightarrow> string \<Rightarrow> int option \<Rightarrow> 'r cache \<Rightarrow> bool \<times> 'r cache" where
  "cache_set redis now key value expiration s = (case checkRedisAvailability redis now s of
       (True, s1) \<Rightarrow> (case sendRedisCommand redis now (set_command key value expiration) s1 of
           (resp, s2) \<Rightarrow> if contains ''+OK'' resp then (True, s2) else memory_set now key value expiration s2)
     | (False, s1) \<Rightarrow> memory_set now key value expiration s1)"

definition cache_remove :: "'r redis \<Rightarrow> int \<Rightarrow> string \<Rightarrow> 'r cache \<Rightarrow> bool \<times> 'r cache" where
  "cache_remove redis now key s =
     (let s2 = (case checkRedisAvailability redis now s of
          (True, s1) \<Rightarrow> snd (sendRedisCommand redis now (del_command key) s1)
        | (False, s1) \<Rightarrow> s1)
      in (True, s2 \<lparr> ca_memory := (ca_memory s2)(key := None) \<rparr>))"

subsection \<open>Locks\<close>

definition acquireLock :: "'r redis \<Rightarrow> int \<Rightarrow> string \<Rightarrow> string \<Rightarrow> int \<Rightarrow> 'r cache \<Rightarrow> bool \<times> 'r cache" where
  "acquireLock redis now lockKey lockValue expiration s = (case checkRedisAvailability redis now s of
       (True, s1) \<Rightarrow> (case sendRedisCommand redis now (lock_command lockKey lockValue expiration) s1 of
           (resp, s2) \<Rightarrow> (contains ''+OK'' resp, s2))
     | (False, s1) \<Rightarrow>
         let taken = (case ca_locks s1 lockKey of None \<Rightarrow> False | Some (v, e) \<Rightarrow> now < e)
         in if taken then (False, s1)
            else (True, s1 \<lparr> ca_locks := (ca_locks s1)(lockKey \<mapsto> (lockValue, now + 1000 * expiration)) \<rparr>))"

definition releaseLock :: "'r redis \<Rightarrow> int \<Rightarrow> string \<Rightarrow> string \<Rightarrow> 'r cache \<Rightarrow> bool \<times> 'r cache" where
  "releaseLock redis now lockKey lockValue s = (case checkRedisAvailability redis now s of
       (True, s1) \<Rightarrow> (case sendRedisCommand redis now (unlock_command lockKey lockValue) s1 of
           (resp, s2) \<Rightarrow> (contains '':1'' resp, s2))
     | (False, s1) \<Rightarrow> (case ca_locks s1 lockKey of
           Some (v, e) \<Rightarrow> if v = lockValue then (True, s1 \<lparr> ca_locks := (ca_locks s1)(lockKey := None) \<rparr>) else (False, s1)
         | None \<Rightarrow> (False, s1)))"

subsection \<open>What the callers rely on\<close>

text \<open>Operations in the order they happen; \<open>at_of\<close> is the time of one.\<close>

datatype cache_op =
    Get int string
  | Put int string string "int option"
  | Del int string
  | Acquire int string string int
  | Release int string string

fun at_of :: "cache_op \<Rightarrow> int" where
  "at_of (Get t k) = t"
| "at_of (Put t k v d) = t"
| "at_of (Del t k) = t"
| "at_of (Acquire t k v d) = t"
| "at_of (Release t k v) = t"

fun writes_key :: "string \<Rightarrow> cache_op \<Rightarrow> bool" where
  "writes_key k (Put t j v d) = (j = k)"
| "writes_key k (Del t j) = (j = k)"
| "writes_key k op = False"

fun releases_lock :: "string \<Rightarrow> string \<Rightarrow> cache_op \<Rightarrow> bool" where
  "releases_lock k v (Release t j u) = (j = k \<and> u = v)"
| "releases_lock k v op = False"

fun acquires_lock :: "string \<Rightarrow> cache_op \<Rightarrow> bool" where
  "acquires_lock k (Acquire t j u d) = (j = k)"
| "acquires_lock k op = False"

text \<open>A sequence of operations and what each of them answered.\<close>

fun run_calls :: "(cache_op \<Rightarrow> 's \<Rightarrow> bool \<times> 's) \<Rightarrow> cache_op list \<Rightarrow> 's \<Rightarrow> bool list \<times> 's" where
  "run_calls step [] s = ([], s)"
| "run_calls step (op # ops) s = (case step op s of (b, s1) \<Rightarrow> (case run_calls step ops s1 of (bs, s2) \<Rightarrow> (b # bs, s2)))"

text \<open>An item is in force until its time, the moment included.\<close>

definition in_force :: "int \<Rightarrow> (string \<times> int option) option \<Rightarrow> string option" where
  "in_force now item = (case item of
     Some (v, Some e) \<Rightarrow> if e < now then None else Some v | Some (v, None) \<Rightarrow> Some v | None \<Rightarrow> None)"

definition deadline :: "int \<Rightarrow> int option \<Rightarrow> int option" where
  "deadline now d = map_option (\<lambda>e. now + 1000 * e) d"

text \<open>A store of values that expire.\<close>

locale key_cache =
  fixes get :: "int \<Rightarrow> string \<Rightarrow> 's \<Rightarrow> string option \<times> 's"
    and put :: "int \<Rightarrow> string \<Rightarrow> string \<Rightarrow> int option \<Rightarrow> 's \<Rightarrow> bool \<times> 's"
    and del :: "int \<Rightarrow> string \<Rightarrow> 's \<Rightarrow> bool \<times> 's"
    and item :: "string \<Rightarrow> 's \<Rightarrow> (string \<times> int option) option"
    and ready :: "'s \<Rightarrow> bool"
  assumes get_reads: "ready s \<Longrightarrow> fst (get now k s) = in_force now (item k s)"
    and get_keeps: "ready s \<Longrightarrow> in_force now (item j s) = Some v \<Longrightarrow> item j (snd (get now k s)) = item j s"
    and put_stores: "ready s \<Longrightarrow> item j (snd (put now k v d s)) = (if j = k then Some (v, deadline now d) else item j s)"
    and del_erases: "ready s \<Longrightarrow> item j (snd (del now k s)) = (if j = k then None else item j s)"
    and ready_values: "ready s \<Longrightarrow> ready (snd (get now k s))" "ready s \<Longrightarrow> ready (snd (put now k v d s))"
      "ready s \<Longrightarrow> ready (snd (del now k s))"

text \<open>Locks that are held by a value until they are released with it, or expire.\<close>

locale lock_service =
  fixes acquire :: "int \<Rightarrow> string \<Rightarrow> string \<Rightarrow> int \<Rightarrow> 's \<Rightarrow> bool \<times> 's"
    and release :: "int \<Rightarrow> string \<Rightarrow> string \<Rightarrow> 's \<Rightarrow> bool \<times> 's"
    and holder :: "string \<Rightarrow> 's \<Rightarrow> (string \<times> int) option"
    and ready :: "'s \<Rightarrow> bool"
  assumes acquire_taken: "ready s \<Longrightarrow> holder k s = Some (u, e) \<Longrightarrow> now < e \<Longrightarrow> acquire now k v d s = (False, s)"
    and acquire_free: "ready s \<Longrightarrow> (\<And>u e. holder k s = Some (u, e) \<Longrightarrow> e \<le> now) \<Longrightarrow> fst (acquire now k v d s)
      \<and> holder j (snd (acquire now k v d s)) = (if j = k then Some (v, now + 1000 * d) else holder j s)"
    and release_mine: "ready s \<Longrightarrow> holder j (snd (release now k v s)) =
      (if j = k \<and> (\<exists>e. holder k s = Some (v, e)) then None else holder j s)"
    and ready_locks: "ready s \<Longrightarrow> ready (snd (acquire now k v d s))" "ready s \<Longrightarrow> ready (snd (release now k v s))"

text \<open>Both over one state: neither disturbs the other.\<close>

locale shared_cache = key_cache get put del item ready + lock_service acquire release holder ready
  for get :: "int \<Rightarrow> string \<Rightarrow> 's \<Rightarrow> string option \<times> 's" and put del item acquire release holder ready +
  assumes locks_keep_items: "ready s \<Longrightarrow> item j (snd (acquire now k v d s)) = item j s"
      "ready s \<Longrightarrow> item j (snd (release now k v s)) = item j s"
    and items_keep_locks: "ready s \<Longrightarrow> holder j (snd (get now k s)) = holder j s"
      "ready s \<Longrightarrow> holder j (snd (put now k v ttl s)) = holder j s" "ready s \<Longrightarrow> holder j (snd (del now k s)) = holder j s"
begin

fun do_op :: "cache_op \<Rightarrow> 's \<Rightarrow> bool \<times> 's" where
  "do_op (Get t k) s = (True, snd (get t k s))"
| "do_op (Put t k v d) s = put t k v d s"
| "do_op (Del t k) s = del t k s"
| "do_op (Acquire t k v d) s = acquire t k v d s"
| "do_op (Release t k v) s = release t k v s"

lemma do_op_ready: "ready s \<Longrightarrow> ready (snd (do_op op s))"
  by (cases op) (simp_all add: ready_values ready_locks)

lemma do_op_value:
  assumes "ready s" "in_force e (item k s) = Some v" "at_of op \<le> e" "\<not> writes_key k op"
  shows "item k (snd (do_op op s)) = item k s"
proof (cases op)
  case (Get t j)
  then have "in_force t (item k s) = Some v"
    using assms(2,3) by (auto simp: in_force_def split: option.splits prod.splits if_splits)
  then show ?thesis using Get get_keeps [OF assms(1)] by simp
qed (use assms in \<open>simp_all add: put_stores del_erases locks_keep_items\<close>)

text \<open>What has been stored is read back until its time, whatever happens to other keys and to locks.\<close>

lemma value_survives:
  assumes "ready s" "in_force e (item k s) = Some v" "\<And>op. op \<in> set ops \<Longrightarrow> at_of op \<le> e \<and> \<not> writes_key k op"
  shows "ready (snd (run_calls do_op ops s)) \<and> item k (snd (run_calls do_op ops s)) = item k s"
  using assms
proof (induction ops arbitrary: s)
  case (Cons op ops)
  obtain b s1 where s1: "do_op op s = (b, s1)" by force
  have "ready s1" "item k s1 = item k s"
    using do_op_ready [OF Cons.prems(1), of op] do_op_value [OF Cons.prems(1,2), of op] Cons.prems(3) s1 by auto
  then show ?case using Cons.IH [of s1] Cons.prems(2,3) s1 by (auto split: prod.splits)
qed simp

lemma do_op_held:
  assumes "ready s" "holder k s = Some (v, e)" "at_of op < e" "\<not> releases_lock k v op"
  shows "holder k (snd (do_op op s)) = Some (v, e) \<and> (acquires_lock k op \<longrightarrow> \<not> fst (do_op op s))"
proof (cases op)
  case (Acquire t j u d)
  show ?thesis
  proof (cases "j = k")
    case True
    then show ?thesis using Acquire assms acquire_taken [OF assms(1,2)] by simp
  next
    case False
    show ?thesis
    proof (cases "\<exists>u' e'. holder j s = Some (u', e') \<and> t < e'")
      case True
      then show ?thesis using Acquire False assms(2) acquire_taken [OF assms(1)] by auto
    next
      case free: False
      then show ?thesis using Acquire False assms(2) acquire_free [OF assms(1), of j t u d k] by force
    qed
  qed
next
  case (Release t j u)
  then show ?thesis using assms release_mine [OF assms(1), of k t j u] by auto
qed (use assms in \<open>simp_all add: items_keep_locks\<close>)

text \<open>While a lock is held nobody else gets it.\<close>

lemma lock_excludes:
  assumes "ready s" "holder k s = Some (v, e)" "\<And>op. op \<in> set ops \<Longrightarrow> at_of op < e \<and> \<not> releases_lock k v op"
  shows "\<forall>(op, b) \<in> set (zip ops (fst (run_calls do_op ops s))). acquires_lock k op \<longrightarrow> \<not> b"
  using assms
proof (induction ops arbitrary: s)
  case (Cons op ops)
  obtain b s1 where s1: "do_op op s = (b, s1)" by force
  have "ready s1" "holder k s1 = Some (v, e)" "acquires_lock k op \<longrightarrow> \<not> b"
    using do_op_ready [OF Cons.prems(1), of op] do_op_held [OF Cons.prems(1,2), of op] Cons.prems(3) s1 by auto
  then show ?case using Cons.IH [of s1] Cons.prems(3) s1 by (auto split: prod.splits)
qed simp

end

subsection \<open>The service without a server\<close>

definition memory_item :: "string \<Rightarrow> 'r cache \<Rightarrow> (string \<times> int option) option" where
  "memory_item k s = map_option (\<lambda>i. (ci_value i, ci_expireAt i)) (ca_memory s k)"

definition standalone :: "'r cache \<Rightarrow> bool" where
  "standalone s \<longleftrightarrow> ca_host s = []"

fun cache_step :: "'r redis \<Rightarrow> cache_op \<Rightarrow> 'r cache \<Rightarrow> bool \<times> 'r cache" where
  "cache_step redis (Get t k) s = (True, snd (cache_get redis t k s))"
| "cache_step redis (Put t k v d) s = cache_set redis t k v d s"
| "cache_step redis (Del t k) s = cache_remove redis t k s"
| "cache_step redis (Acquire t k v d) s = acquireLock redis t k v d s"
| "cache_step redis (Release t k v) s = releaseLock redis t k v s"

lemma standalone_ops:
  assumes "standalone s"
  shows "cache_get redis now k s = memory_get now k s" "cache_set redis now k v d s = memory_set now k v d s"
    "cache_remove redis now k s = (True, s \<lparr> ca_memory := (ca_memory s)(k := None) \<rparr>)"
    "acquireLock redis now k v n s = (if (case ca_locks s k of None \<Rightarrow> False | Some (u, e) \<Rightarrow> now < e) then (False, s)
       else (True, s \<lparr> ca_locks := (ca_locks s)(k \<mapsto> (v, now + 1000 * n)) \<rparr>))"
    "releaseLock redis now k v s = (case ca_locks s k of
       Some (u, e) \<Rightarrow> if u = v then (True, s \<lparr> ca_locks := (ca_locks s)(k := None) \<rparr>) else (False, s)
     | None \<Rightarrow> (False, s))"
  using assms
  by (simp_all add: standalone_def cache_get_def cache_set_def cache_remove_def acquireLock_def releaseLock_def
      checkRedisAvailability_def)

lemma memory_get_simps:
  "fst (memory_get now k s) = in_force now (memory_item k s)"
  "ca_locks (snd (memory_get now k s)) = ca_locks s" "ca_host (snd (memory_get now k s)) = ca_host s"
  "in_force now (memory_item j s) = Some v \<Longrightarrow> memory_item j (snd (memory_get now k s)) = memory_item j s"
  by (auto simp: memory_get_def memory_item_def in_force_def split: option.splits)

lemma memory_get_miss: "in_force now (memory_item k s) = None \<Longrightarrow> memory_item k (snd (memory_get now k s)) = None"
  by (auto simp: memory_get_def memory_item_def in_force_def split: option.splits)

interpretation alone: shared_cache "cache_get redis" "cache_set redis" "cache_remove redis" memory_item
    "acquireLock redis" "releaseLock redis" "\<lambda>k s. ca_locks s k" standalone for redis :: "'r redis"
proof unfold_locales
  fix s :: "'r cache" and now d and k v :: string and j :: string and u e
  assume r: "standalone s"
  note ops = standalone_ops [OF r]
  show "fst (cache_get redis now k s) = in_force now (memory_item k s)" by (simp add: ops memory_get_simps)
  show "memory_item j (snd (cache_get redis now k s)) = memory_item j s" if "in_force now (memory_item j s) = Some v"
    using that by (simp add: ops memory_get_simps)
  show "ca_locks (snd (cache_get redis now k s)) j = ca_locks s j" "standalone (snd (cache_get redis now k s))"
    using r by (simp_all add: ops memory_get_simps standalone_def)
  show "acquireLock redis now k v d s = (False, s)" if "ca_locks s k = Some (u, e)" "now < e"
    using that by (simp add: ops)
  show "fst (acquireLock redis now k v d s)
      \<and> ca_locks (snd (acquireLock redis now k v d s)) j = (if j = k then Some (v, now + 1000 * d) else ca_locks s j)"
    if "\<And>u e. ca_locks s k = Some (u, e) \<Longrightarrow> e \<le> now"
    using that by (cases "ca_locks s k") (auto simp: ops not_less)
  show "ca_locks (snd (releaseLock redis now k v s)) j
      = (if j = k \<and> (\<exists>e. ca_locks s k = Some (v, e)) then None else ca_locks s j)"
    by (auto simp: ops split: option.splits)
  show "standalone (snd (acquireLock redis now k v d s))" "standalone (snd (releaseLock redis now k v s))"
    "memory_item j (snd (acquireLock redis now k v d s)) = memory_item j s"
    "memory_item j (snd (releaseLock redis now k v s)) = memory_item j s"
    using r by (simp_all add: ops standalone_def memory_item_def split: option.splits prod.splits)
qed (simp_all add: standalone_ops memory_set_def memory_item_def standalone_def deadline_def)

lemma alone_step: "alone.do_op redis = cache_step redis"
proof -
  have "alone.do_op redis op s = cache_step redis op s" for op s by (cases op) simp_all
  then show ?thesis by (intro ext)
qed

subsection \<open>Properties of the cache\<close>

lemma length_run_calls [simp]: "length (fst (run_calls step ops s)) = length ops"
  by (induction ops arbitrary: s) (simp_all add: case_prod_beta)

text \<open>The answer to one operation of a sequence.\<close>

lemma answer_at:
  assumes "\<forall>(op, b) \<in> set (zip ops (fst (run_calls step ops s))). acquires_lock k op \<longrightarrow> \<not> b"
    "i < length ops" "acquires_lock k (ops ! i)"
  shows "\<not> fst (run_calls step ops s) ! i"
proof -
  have "(ops ! i, fst (run_calls step ops s) ! i) \<in> set (zip ops (fst (run_calls step ops s)))"
    using assms(2) by (auto simp: in_set_conv_nth intro!: exI [of _ i])
  then show ?thesis using assms(1,3) by blast
qed

definition demo_cache :: "unit cache" where
  "demo_cache = parseConnectionString (\<lambda>now c r. ([], r)) 0 None () []"

definition demo_redis :: "unit redis" where
  "demo_redis now c r = (if prefix (resp_head 4) c then (''-ERR syntax error'' @ crlf, r)
     else if prefix ping_command c then (''+PONG'' @ crlf, r) else (''$-1'' @ crlf, r))"

definition down_redis :: "unit redis" where
  "down_redis now c r = ([], r)"

text \<open>C26. Without a server a lock excludes: after it has been acquired, every other acquisition of it
  is refused until it is released with the value it was acquired with, or its time is over,
  whatever else happens to the cache.\<close>
theorem lock_is_exclusive:
  assumes "ca_host s = []" "acquireLock redis t k v d s = (True, s1)"
    and "\<And>op. op \<in> set ops \<Longrightarrow> at_of op < t + 1000 * d \<and> \<not> releases_lock k v op"
  shows "\<forall>(op, b) \<in> set (zip ops (fst (run_calls (cache_step redis) ops s1))). acquires_lock k op \<longrightarrow> \<not> b"
proof -
  have r: "standalone s" "standalone s1" using assms(1) alone.ready_locks(1) [of s redis t k v d] assms(2)
    by (simp_all add: standalone_def)
  have "ca_locks s1 k = Some (v, t + 1000 * d)"
    using assms(2) by (auto simp: standalone_ops [OF r(1)] split: if_splits)
  from alone.lock_excludes [OF r(2) this, where redis = redis and ops = ops] assms(3) show ?thesis
    by (simp add: alone_step)
qed

definition demo_contest :: "cache_op list" where
  "demo_contest = [Acquire 5000 ''token'' ''b'' 30, Get 5500 ''x'', Release 6000 ''token'' ''b'', Acquire 29999 ''token'' ''c'' 30]"

theorem lock_is_exclusive_witness:
  "\<not> fst (run_calls (cache_step demo_redis) demo_contest (snd (acquireLock demo_redis 0 ''token'' ''a'' 30 demo_cache))) ! 0
   \<and> \<not> fst (run_calls (cache_step demo_redis) demo_contest (snd (acquireLock demo_redis 0 ''token'' ''a'' 30 demo_cache))) ! 3"
proof -
  have host: "ca_host demo_cache = []" by code_simp
  have "fst (acquireLock demo_redis 0 ''token'' ''a'' 30 demo_cache)" by code_simp
  then have got: "acquireLock demo_redis 0 ''token'' ''a'' 30 demo_cache
      = (True, snd (acquireLock demo_redis 0 ''token'' ''a'' 30 demo_cache))" by (simp add: prod_eq_iff)
  have late: "at_of op < 0 + 1000 * 30 \<and> \<not> releases_lock ''token'' ''a'' op" if "op \<in> set demo_contest" for op
    using that by (auto simp: demo_contest_def)
  note refused = answer_at [OF lock_is_exclusive [OF host got, where ops = demo_contest]]
  show ?thesis using refused [of 0] refused [of 3] late by (simp add: demo_contest_def)
qed

text \<open>Without a server a value that was stored for some seconds is read back until they are over,
  whatever happens to the other keys and to the locks.\<close>
theorem stored_value_is_read_back:
  assumes "ca_host s = []" "cache_set redis t k v (Some d) s = (b, s1)"
    and "\<And>op. op \<in> set ops \<Longrightarrow> at_of op \<le> t + 1000 * d \<and> \<not> writes_key k op" "now \<le> t + 1000 * d"
  shows "fst (cache_get redis now k (snd (run_calls (cache_step redis) ops s1))) = Some v"
proof -
  have r: "standalone s" using assms(1) by (simp add: standalone_def)
  have s1: "standalone s1" "memory_item k s1 = Some (v, Some (t + 1000 * d))"
    using alone.ready_values(2) [OF r, of redis t k v "Some d"] alone.put_stores [OF r, of k redis t k v "Some d"] assms(2)
    by (simp_all add: deadline_def)
  then have "in_force (t + 1000 * d) (memory_item k s1) = Some v" by (simp add: in_force_def)
  from alone.value_survives [OF s1(1) this, where redis = redis and ops = ops] assms(3)
  have later: "standalone (snd (run_calls (cache_step redis) ops s1))"
    "memory_item k (snd (run_calls (cache_step redis) ops s1)) = memory_item k s1"
    by (simp_all add: alone_step)
  show ?thesis unfolding alone.get_reads [OF later(1)] later(2) s1(2) using assms(4) by (simp add: in_force_def)
qed

theorem stored_value_is_read_back_witness:
  "fst (cache_get demo_redis 3600000 ''k'' (snd (run_calls (cache_step demo_redis) [Get 9 ''j'', Put 10 ''j'' ''w'' None, Del 11 ''j'']
     (snd (cache_set demo_redis 0 ''k'' ''v'' (Some 3600) demo_cache))))) = Some ''v''"
proof (rule stored_value_is_read_back [OF _ prod.collapse [symmetric]])
  show "ca_host demo_cache = []" by code_simp
qed auto

text \<open>With a server, a value stored for some seconds is lost although the call reports success: the
  command announces four words and carries five, the server refuses it, the value goes to the
  memory of this process, and the next read asks the server, which does not know the key.\<close>
theorem timed_set_is_lost_on_redis:
  assumes "ca_host s \<noteq> []" "ca_useRedis s"
    and refuses: "\<And>now rest r. redis now (resp_head 4 @ resp_bulk ''SET'' @ resp_bulk k @ resp_bulk v @ resp_bulk ''EX'' @ rest) r
      = (''-ERR syntax error'' @ crlf, r)"
    and unknown: "\<And>now. redis now (get_command k) (ca_server s) = (''$-1'' @ crlf, ca_server s)"
  shows "fst (cache_set redis t k v (Some d) s) \<and> fst (cache_get redis now k (snd (cache_set redis t k v (Some d) s))) = None"
proof -
  have "cache_set redis t k v (Some d) s = memory_set t k v (Some d) s"
    using assms(1,2) by (simp add: cache_set_def checkRedisAvailability_def sendRedisCommand_def set_command_def refuses crlf_def)
  moreover have "fst (cache_get redis now k (snd (memory_set t k v (Some d) s))) = None"
    using assms(1,2) by (simp add: memory_set_def cache_get_def checkRedisAvailability_def sendRedisCommand_def unknown redis_value_def crlf_def)
  ultimately show ?thesis by (simp add: memory_set_def)
qed

definition demo_redis_cache :: "unit cache" where
  "demo_redis_cache = parseConnectionString demo_redis 0 None () ''redis:6379,abortConnect=false''"

theorem timed_set_is_lost_on_redis_witness:
  "fst (cache_get demo_redis 1000 ''k'' (snd (cache_set demo_redis 0 ''k'' ''v'' (Some 3600) demo_redis_cache))) = None"
proof -
  have "ca_host demo_redis_cache \<noteq> []" "ca_useRedis demo_redis_cache" by code_simp+
  moreover have "demo_redis now (resp_head 4 @ cmd) r = (''-ERR syntax error'' @ crlf, r)" for now cmd r
    by (simp add: demo_redis_def)
  moreover have "demo_redis now (get_command ''k'') r = (''$-1'' @ crlf, r)" for now r
    by (simp add: demo_redis_def) code_simp
  ultimately show ?thesis using timed_set_is_lost_on_redis by blast
qed

text \<open>A server that answered once and is gone takes the locks with it: \<open>useRedis_\<close> is never cleared,
  every acquisition from then on is refused, and the locks in memory are never used.\<close>
theorem no_lock_after_outage:
  assumes "ca_host s \<noteq> []" "ca_useRedis s" "\<And>now c r. redis now c r = ([], r)"
  shows "\<forall>(op, b) \<in> set (zip ops (fst (run_calls (cache_step redis) ops s))). acquires_lock k op \<longrightarrow> \<not> b"
  using assms(1,2)
proof (induction ops arbitrary: s)
  case (Cons op ops)
  obtain b s1 where s1: "cache_step redis op s = (b, s1)" by force
  have up: "checkRedisAvailability redis t s = (True, s)" "sendRedisCommand redis t c s = ([], s)" for t c
    using Cons.prems assms(3) by (simp_all add: checkRedisAvailability_def sendRedisCommand_def)
  have "ca_host s1 = ca_host s" "ca_useRedis s1 = ca_useRedis s" "acquires_lock k op \<longrightarrow> \<not> b"
    using s1 by (cases op; auto simp: cache_get_def cache_set_def cache_remove_def acquireLock_def releaseLock_def up
        memory_get_def memory_set_def redis_value_def split: option.splits if_splits)+
  then show ?case using Cons.IH [of s1] Cons.prems s1 by (auto split: prod.splits)
qed simp

theorem no_lock_after_outage_witness:
  "\<not> fst (run_calls (cache_step down_redis) [Get 1 ''x'', Acquire 99000 ''token'' ''a'' 30] demo_redis_cache) ! 1"
proof -
  have up: "ca_host demo_redis_cache \<noteq> []" "ca_useRedis demo_redis_cache" by code_simp+
  show ?thesis
    by (rule answer_at [OF no_lock_after_outage [OF up]]) (simp_all add: down_redis_def)
qed

end
