(* ===== verification/Token_Manager.thy ===== *)
theory Token_Manager
  imports Cache_Service Documents_Transmit
begin

text \<open>
  EcfTokenManager.cpp: the bearer token of one issuer in one environment, taken from the shared
  cache, from the manager's own memory, or from a new challenge-response with the DGII under
  a lock of the cache.  HTTP (cpr), libxml2 and the JSON parser are the fields of
  \<open>auth_env\<close>; what other instances do to the cache while this one sleeps is the argument
  \<open>others\<close> of the waiting loop.  A call reads the clock once and again after each sleep; time
  is milliseconds.  EcfEnvironmentConfig.cpp is here too.
\<close>

subsection \<open>The endpoints of an environment\<close>

record EcfEnvironmentConfig =
  ec_ambiente :: AmbienteEnum
  ec_autenticacionUrl :: string
  ec_recepcionUrl :: string
  ec_recepcionFcUrl :: string
  ec_consultaResultadoUrl :: string
  ec_consultaEstadoUrl :: string
  ec_consultaTrackIdsUrl :: string
  ec_consultaRfceUrl :: string
  ec_aprobacionComercialUrl :: string
  ec_anulacionRangosUrl :: string
  ec_directorioUrl :: string
  ec_timbreUrl :: string
  ec_timbreFcUrl :: string
  ec_estatusServiciosUrl :: string

fun env_path :: "AmbienteEnum \<Rightarrow> string" where
  "env_path PreCertificacion = ''testecf''"
| "env_path Certificacion = ''certecf''"
| "env_path Produccion = ''ecf''"

definition getConfig :: "AmbienteEnum \<Rightarrow> EcfEnvironmentConfig" where
  "getConfig ambiente =
     (let ecf = ''https://ecf.dgii.gov.do/'' @ env_path ambiente; fc = ''https://fc.dgii.gov.do/'' @ env_path ambiente
      in \<lparr> ec_ambiente = ambiente,
           ec_autenticacionUrl = ecf @ ''/autenticacion'',
           ec_recepcionUrl = ecf @ ''/recepcion'',
           ec_recepcionFcUrl = fc @ ''/recepcionfc'',
           ec_consultaResultadoUrl = ecf @ ''/consultaresultado'',
           ec_consultaEstadoUrl = ecf @ ''/consultaestado'',
           ec_consultaTrackIdsUrl = ecf @ ''/consultatrackids'',
           ec_consultaRfceUrl = fc @ ''/consultarfce'',
           ec_aprobacionComercialUrl = ecf @ ''/aprobacioncomercial'',
           ec_anulacionRangosUrl = ecf @ ''/anulacionrangos'',
           ec_directorioUrl = ecf @ ''/consultadirectorio'',
           ec_timbreUrl = ecf @ ''/consultatimbre'',
           ec_timbreFcUrl = fc @ ''/consultatimbrefc'',
           ec_estatusServiciosUrl = ''https://statusecf.dgii.gov.do'' \<rparr>)"

fun ambiente_code :: "AmbienteEnum \<Rightarrow> int" where
  "ambiente_code PreCertificacion = 1"
| "ambiente_code Certificacion = 2"
| "ambiente_code Produccion = 3"

subsection \<open>The expiry of a token\<close>

text \<open>The milliseconds of the fraction and what follows it; the fraction, when there is one, is
  looked for from character 19 on.\<close>

definition expiry_tail :: "string \<Rightarrow> int \<times> string" where
  "expiry_tail s =
     (let t = drop 19 s; frac = dropWhile (\<lambda>c. c \<noteq> CHR ''.'') t in
      if frac = [] then (0, t)
      else let ds = takeWhile isdigit (tl frac) in
        (if ds = [] then 0 else digits_val (take 3 (ds @ replicate (3 - length ds) (CHR ''0''))), dropWhile isdigit (tl frac)))"

definition expiry_zone :: "string \<Rightarrow> int" where
  "expiry_zone tz = (case tz of
       [] \<Rightarrow> 0
     | c # cs \<Rightarrow>
         if c = CHR ''+'' \<or> c = CHR ''-'' then
           (let sign = (if c = CHR ''-'' then - 1 else 1) in
            case scan_int cs of
               None \<Rightarrow> 0
             | Some (h, r) \<Rightarrow> (case scan_lit (CHR '':'') r of
                   None \<Rightarrow> sign * (h * 3600)
                 | Some r' \<Rightarrow> (case scan_int r' of None \<Rightarrow> sign * (h * 3600) | Some (m, x) \<Rightarrow> sign * (h * 3600 + m * 60))))
         else 0)"

definition parseExpiry :: "string \<Rightarrow> int option" where
  "parseExpiry s = (case scan_datetime s of
       None \<Rightarrow> None
     | Some (y, mo, d, sep, h, mi, se, rest) \<Rightarrow>
         let (ms, tz) = expiry_tail s;
             tt = timegm \<lparr> tm_year = y, tm_mon = mo, tm_mday = d, tm_hour = h, tm_min = mi, tm_sec = se \<rparr>
         in if tt = - 1 then None else Some (1000 * (tt - expiry_zone tz) + ms))"

subsection \<open>State and environment\<close>

record http_reply =
  hr_error :: "string option"
  hr_status :: int
  hr_text :: string

record auth_env =
  ae_signer :: xml_signer
  ae_config :: EcfEnvironmentConfig
  ae_rncEmisor :: string
  ae_seed :: "int \<Rightarrow> http_reply"
  ae_validate :: "int \<Rightarrow> string \<Rightarrow> http_reply"
  ae_xml_root :: "string \<Rightarrow> (string \<Rightarrow> string) option"
  ae_json :: "string \<Rightarrow> string + (string \<Rightarrow> string option)"

text \<open>The manager with the cache it shares; \<open>tk_requests\<close> are the times it asked the DGII for a
  token.\<close>

record 'r token_state =
  tk_cachedToken :: string
  tk_tokenExpiry :: int
  tk_cache :: "'r cache option"
  tk_requests :: "int list"

definition cache_key :: "auth_env \<Rightarrow> string" where
  "cache_key env = ''ecf:tokens:'' @ ae_rncEmisor env @ '':'' @ dec_int (ambiente_code (ec_ambiente (ae_config env)))"

definition lock_key :: "auth_env \<Rightarrow> string" where
  "lock_key env = ''ecf:tokens:lock:'' @ ae_rncEmisor env @ '':'' @ dec_int (ambiente_code (ec_ambiente (ae_config env)))"

definition fifty_minutes :: int where "fifty_minutes = 50 * 60 * 1000"

definition adopt :: "int \<Rightarrow> string \<Rightarrow> 'r token_state \<Rightarrow> 'r token_state" where
  "adopt now token st = st \<lparr> tk_cachedToken := token, tk_tokenExpiry := now + fifty_minutes \<rparr>"

text \<open>A token of the shared cache becomes the manager's own, for fifty minutes.\<close>

definition from_cache ::
    "'r redis \<Rightarrow> auth_env \<Rightarrow> int \<Rightarrow> 'r cache \<Rightarrow> 'r token_state \<Rightarrow> string option \<times> 'r token_state" where
  "from_cache redis env now c st = (case cache_get redis now (cache_key env) c of
       (r, c1) \<Rightarrow> if has_text r then (r, adopt now (value_or r []) (st \<lparr> tk_cache := Some c1 \<rparr>))
         else (None, st \<lparr> tk_cache := Some c1 \<rparr>))"

definition to_minutes :: "int \<Rightarrow> int" where
  "to_minutes ms = (if 0 \<le> ms then ms div 60000 else - ((- ms) div 60000))"

definition validMemoryToken :: "int \<Rightarrow> 'r token_state \<Rightarrow> string option" where
  "validMemoryToken now st =
     (if tk_cachedToken st \<noteq> [] \<and> 5 < to_minutes (tk_tokenExpiry st - now) then Some (tk_cachedToken st) else None)"

subsection \<open>\<open>renewToken\<close>\<close>

definition failed_request :: "http_reply \<Rightarrow> bool" where
  "failed_request r \<longleftrightarrow> hr_error r \<noteq> None \<or> hr_status r = 0"

definition error_or :: "string \<Rightarrow> http_reply \<Rightarrow> string" where
  "error_or other r = (if has_text (hr_error r) then value_or (hr_error r) [] else other)"

definition read_grant :: "auth_env \<Rightarrow> string \<Rightarrow> exn + string \<times> string" where
  "read_grant env body =
     (if starts_with ''<'' (ltrim body) then
        (case ae_xml_root env body of
           None \<Rightarrow> Inl (OtherExn (''Respuesta de autenticaci'' @ u_o @ ''n inv'' @ u_a @ ''lida: XML malformado.''))
         | Some child \<Rightarrow> Inr (child ''token'', child ''expira''))
      else (case ae_json env body of
           Inl what \<Rightarrow> Inl (OtherExn (''Respuesta de autenticaci'' @ u_o @ ''n inv'' @ u_a @ ''lida (JSON/XML): '' @ what))
         | Inr field \<Rightarrow> Inr (value_or (field ''token'') [], value_or (field ''expira'') [])))"

definition request_grant :: "auth_env \<Rightarrow> int \<Rightarrow> exn + string \<times> string" where
  "request_grant env now =
     (let seed = ae_seed env now in
      if failed_request seed then Inl (OtherExn (''No se pudo obtener la semilla: '' @ error_or ''HTTP 0'' seed))
      else case sg_signXml (ae_signer env) (hr_text seed) (ae_rncEmisor env) of
          Inl e \<Rightarrow> Inl e
        | Inr signedSeed \<Rightarrow>
            let reply = ae_validate env now signedSeed in
            if hr_error reply \<noteq> None \<or> hr_status reply < 200 \<or> 300 \<le> hr_status reply then
              Inl (OtherExn (''Fallo la validaci'' @ u_o @ ''n de la semilla (HTTP '' @ dec_int (hr_status reply) @ ''): ''
                @ error_or (hr_text reply) reply))
            else (case read_grant env (hr_text reply) of
                Inl e \<Rightarrow> Inl e
              | Inr (token, expira) \<Rightarrow>
                  if token = [] then Inl (OtherExn (''Respuesta de autenticaci'' @ u_o @ ''n inv'' @ u_a
                    @ ''lida de DGII: falta token o fecha de expiraci'' @ u_o @ ''n.''))
                  else Inr (token, expira)))"

definition renewToken :: "auth_env \<Rightarrow> int \<Rightarrow> 'r token_state \<Rightarrow> (exn + unit) \<times> 'r token_state" where
  "renewToken env now st0 =
     (let st = st0 \<lparr> tk_requests := tk_requests st0 @ [now] \<rparr> in
      case request_grant env now of
        Inl e \<Rightarrow> (Inl e, st)
      | Inr (token, expira) \<Rightarrow>
          (Inr (), st \<lparr> tk_cachedToken := token, tk_tokenExpiry := value_or (parseExpiry expira) (now + 3600 * 1000) \<rparr>))"

subsection \<open>\<open>getToken\<close>\<close>

text \<open>The loop of 250 ms sleeps; the caller says how many attempts are left.\<close>

fun poll_cache ::
    "'r redis \<Rightarrow> auth_env \<Rightarrow> (int \<Rightarrow> 'r cache \<Rightarrow> 'r cache) \<Rightarrow> nat \<Rightarrow> int \<Rightarrow> 'r cache \<Rightarrow> 'r token_state
     \<Rightarrow> int \<times> string option \<times> 'r token_state" where
  "poll_cache redis env others 0 now c st = (now, None, st \<lparr> tk_cache := Some c \<rparr>)"
| "poll_cache redis env others (Suc n) now c st =
     (let now1 = now + 250 in
      case from_cache redis env now1 (others now1 c) st of
        (Some t, st1) \<Rightarrow> (now1, Some t, st1)
      | (None, st1) \<Rightarrow> (case tk_cache st1 of
            None \<Rightarrow> (now1, None, st1)
          | Some c1 \<Rightarrow> poll_cache redis env others n now1 c1 st1))"

definition poll_attempts :: nat where "poll_attempts = 12"

text \<open>The renewal itself, with the lock held or no cache at all; the guard releases the lock on
  every way out.\<close>

definition release_guard :: "'r redis \<Rightarrow> auth_env \<Rightarrow> int \<Rightarrow> string \<Rightarrow> 'r token_state \<Rightarrow> 'r token_state" where
  "release_guard redis env now lockValue st = (case tk_cache st of
       None \<Rightarrow> st
     | Some c \<Rightarrow> st \<lparr> tk_cache := Some (snd (releaseLock redis now (lock_key env) lockValue c)) \<rparr>)"

definition share_token :: "'r redis \<Rightarrow> auth_env \<Rightarrow> int \<Rightarrow> 'r token_state \<Rightarrow> 'r token_state" where
  "share_token redis env now st =
     (let left = tk_tokenExpiry st - now; ttl = (if 0 \<le> left then left div 1000 else - ((- left) div 1000)) in
      case tk_cache st of
        None \<Rightarrow> st
      | Some c \<Rightarrow> if tk_cachedToken st \<noteq> [] \<and> 0 < ttl
          then st \<lparr> tk_cache := Some (snd (cache_set redis now (cache_key env) (tk_cachedToken st) (Some ttl) c)) \<rparr>
          else st)"

definition renew_and_share ::
    "'r redis \<Rightarrow> auth_env \<Rightarrow> int \<Rightarrow> string \<Rightarrow> 'r token_state \<Rightarrow> (exn + string) \<times> 'r token_state" where
  "renew_and_share redis env now lockValue st = (case validMemoryToken now st of
       Some t \<Rightarrow> (Inr t, release_guard redis env now lockValue st)
     | None \<Rightarrow> (case renewToken env now st of
           (Inl e, st1) \<Rightarrow> (Inl e, release_guard redis env now lockValue st1)
         | (Inr u, st1) \<Rightarrow> (Inr (tk_cachedToken st1), release_guard redis env now lockValue (share_token redis env now st1))))"

definition lock_refused :: exn where
  "lock_refused = OtherExn ''No se pudo obtener el token DGII: bloqueo distribuido retenido por otra instancia.''"

text \<open>Under the lock: somebody may have shared a token in the meantime.\<close>

definition locked_path ::
    "'r redis \<Rightarrow> auth_env \<Rightarrow> int \<Rightarrow> string \<Rightarrow> 'r cache \<Rightarrow> 'r token_state \<Rightarrow> (exn + string) \<times> 'r token_state" where
  "locked_path redis env now lockValue c st = (case from_cache redis env now c st of
       (Some t, st1) \<Rightarrow> (Inr t, release_guard redis env now lockValue st1)
     | (None, st1) \<Rightarrow> renew_and_share redis env now lockValue st1)"

text \<open>Another instance holds the lock: wait for its token, then try once more.\<close>

definition waiting_path ::
    "'r redis \<Rightarrow> auth_env \<Rightarrow> (int \<Rightarrow> 'r cache \<Rightarrow> 'r cache) \<Rightarrow> int \<Rightarrow> string \<Rightarrow> 'r cache \<Rightarrow> 'r token_state
     \<Rightarrow> (exn + string) \<times> 'r token_state" where
  "waiting_path redis env others now lockValue c st =
     (case poll_cache redis env others poll_attempts now c st of
        (now1, Some t, st1) \<Rightarrow> (Inr t, st1)
      | (now1, None, st1) \<Rightarrow> (case tk_cache st1 of
            None \<Rightarrow> renew_and_share redis env now1 lockValue st1
          | Some c1 \<Rightarrow> (case acquireLock redis now1 (lock_key env) lockValue 30 c1 of
                (True, c2) \<Rightarrow> renew_and_share redis env now1 lockValue (st1 \<lparr> tk_cache := Some c2 \<rparr>)
              | (False, c2) \<Rightarrow> (case from_cache redis env now1 c2 st1 of
                    (Some t, st2) \<Rightarrow> (Inr t, st2)
                  | (None, st2) \<Rightarrow> (Inl lock_refused, st2)))))"

definition getToken ::
    "'r redis \<Rightarrow> auth_env \<Rightarrow> (int \<Rightarrow> 'r cache \<Rightarrow> 'r cache) \<Rightarrow> int \<Rightarrow> string \<Rightarrow> 'r token_state
     \<Rightarrow> (exn + string) \<times> 'r token_state" where
  "getToken redis env others now lockValue st =
     (case (case tk_cache st of None \<Rightarrow> (None, st) | Some c \<Rightarrow> from_cache redis env now c st) of
        (Some t, st1) \<Rightarrow> (Inr t, st1)
      | (None, st1) \<Rightarrow> (case validMemoryToken now st1 of
            Some t \<Rightarrow> (Inr t, st1)
          | None \<Rightarrow> (case tk_cache st1 of
                None \<Rightarrow> renew_and_share redis env now lockValue st1
              | Some c \<Rightarrow> (case acquireLock redis now (lock_key env) lockValue 30 c of
                    (True, c1) \<Rightarrow> locked_path redis env now lockValue c1 st1
                  | (False, c1) \<Rightarrow> waiting_path redis env others now lockValue c1 st1))))"

definition invalidate :: "'r redis \<Rightarrow> auth_env \<Rightarrow> int \<Rightarrow> 'r token_state \<Rightarrow> 'r token_state" where
  "invalidate redis env now st =
     (let st1 = st \<lparr> tk_cachedToken := [], tk_tokenExpiry := 0 \<rparr> in
      case tk_cache st of
        None \<Rightarrow> st1
      | Some c \<Rightarrow> st1 \<lparr> tk_cache := Some (snd (cache_remove redis now (cache_key env) c)) \<rparr>)"

subsection \<open>Over a cache without a server\<close>

lemma from_cache_alone:
  assumes "standalone c" "from_cache redis env now c st = (r, st')"
  obtains c1 where "tk_cache st' = Some c1" "standalone c1" "ca_locks c1 = ca_locks c" "tk_requests st' = tk_requests st"
    "r = None \<Longrightarrow> tk_cachedToken st' = tk_cachedToken st \<and> tk_tokenExpiry st' = tk_tokenExpiry st"
proof -
  obtain r0 c1 where g: "cache_get redis now (cache_key env) c = (r0, c1)" by force
  have "standalone c1" "ca_locks c1 = ca_locks c"
    using alone.ready_values(1) [OF assms(1), of redis now "cache_key env"] alone.items_keep_locks(1) [OF assms(1), of redis now "cache_key env"]
    by (simp_all add: g ext)
  moreover have "tk_cache st' = Some c1" "tk_requests st' = tk_requests st"
    "r = None \<Longrightarrow> tk_cachedToken st' = tk_cachedToken st \<and> tk_tokenExpiry st' = tk_tokenExpiry st"
    using assms(2) g by (auto simp: from_cache_def adopt_def split: if_splits)
  ultimately show thesis using that by blast
qed

lemma from_cache_hit:
  assumes "standalone c" "in_force now (memory_item (cache_key env) c) = Some t" "t \<noteq> []"
  shows "\<exists>c1. from_cache redis env now c st = (Some t, adopt now t (st \<lparr> tk_cache := Some c1 \<rparr>)) \<and> standalone c1
    \<and> memory_item (cache_key env) c1 = memory_item (cache_key env) c"
proof -
  have "fst (cache_get redis now (cache_key env) c) = Some t" using alone.get_reads [OF assms(1)] assms(2) by simp
  moreover have "memory_item (cache_key env) (snd (cache_get redis now (cache_key env) c)) = memory_item (cache_key env) c"
    by (rule alone.get_keeps [OF assms(1,2)])
  moreover have "standalone (snd (cache_get redis now (cache_key env) c))" by (rule alone.ready_values(1) [OF assms(1)])
  ultimately show ?thesis using assms(3)
    by (cases "cache_get redis now (cache_key env) c") (auto simp: from_cache_def has_text_def value_or_def)
qed

lemma from_cache_miss:
  assumes "standalone c" "in_force now (memory_item (cache_key env) c) = None"
  shows "\<exists>c1. from_cache redis env now c st = (None, st \<lparr> tk_cache := Some c1 \<rparr>) \<and> standalone c1 \<and> ca_locks c1 = ca_locks c
    \<and> memory_item (cache_key env) c1 = None"
proof -
  have "memory_item (cache_key env) (snd (cache_get redis now (cache_key env) c)) = None"
    using assms(2) by (simp add: standalone_ops(1) [OF assms(1)] memory_get_miss)
  moreover
  have g: "fst (cache_get redis now (cache_key env) c) = None" using alone.get_reads [OF assms(1)] assms(2) by simp
  have "standalone (snd (cache_get redis now (cache_key env) c))" by (rule alone.ready_values(1) [OF assms(1)])
  moreover have "ca_locks (snd (cache_get redis now (cache_key env) c)) = ca_locks c"
    using alone.items_keep_locks(1) [OF assms(1)] by (intro ext) simp
  ultimately show ?thesis using g
    by (cases "cache_get redis now (cache_key env) c") (auto simp: from_cache_def has_text_def)
qed

text \<open>While the lock stays with another instance, waiting asks the DGII nothing.\<close>

definition others_wait :: "(int \<Rightarrow> 'r cache \<Rightarrow> 'r cache) \<Rightarrow> string \<Rightarrow> bool" where
  "others_wait others k \<longleftrightarrow> (\<forall>t c. standalone c \<longrightarrow> standalone (others t c) \<and> ca_locks (others t c) k = ca_locks c k)"

lemma poll_cache_waits:
  assumes "poll_cache redis env others n now c st = (now1, r, st')" "standalone c" "others_wait others (lock_key env)"
  shows "\<exists>c1. tk_cache st' = Some c1 \<and> standalone c1 \<and> ca_locks c1 (lock_key env) = ca_locks c (lock_key env)
    \<and> tk_requests st' = tk_requests st \<and> now \<le> now1 \<and> now1 \<le> now + 250 * int n"
  using assms(1,2)
proof (induction n arbitrary: now c st)
  case 0
  then show ?case by auto
next
  case (Suc n)
  let ?c = "others (now + 250) c"
  have oc: "standalone ?c" "ca_locks ?c (lock_key env) = ca_locks c (lock_key env)"
    using assms(3) Suc.prems(2) by (simp_all add: others_wait_def)
  obtain r1 st1 where f: "from_cache redis env (now + 250) ?c st = (r1, st1)" by force
  obtain c1 where c1: "tk_cache st1 = Some c1" "standalone c1" "ca_locks c1 = ca_locks ?c" "tk_requests st1 = tk_requests st"
    by (rule from_cache_alone [OF oc(1) f])
  show ?case
  proof (cases r1)
    case None
    then have "poll_cache redis env others n (now + 250) c1 st1 = (now1, r, st')"
      using Suc.prems(1) f c1(1) by (simp add: Let_def)
    from Suc.IH [OF this c1(2)] show ?thesis using c1 oc by auto
  next
    case (Some t)
    then show ?thesis using Suc.prems(1) f c1 oc by (auto simp: Let_def)
  qed
qed

text \<open>What a renewal leaves in a cache without a server.\<close>

lemma release_guard_alone:
  assumes "tk_cache st = Some c" "standalone c"
  obtains c1 where "release_guard redis env now v st = st \<lparr> tk_cache := Some c1 \<rparr>" "standalone c1"
    "memory_item (cache_key env) c1 = memory_item (cache_key env) c"
proof -
  have "standalone (snd (releaseLock redis now (lock_key env) v c))"
    "memory_item (cache_key env) (snd (releaseLock redis now (lock_key env) v c)) = memory_item (cache_key env) c"
    by (rule alone.ready_locks(2) [OF assms(2)], rule alone.locks_keep_items(2) [OF assms(2)])
  then show thesis using assms(1) that [of "snd (releaseLock redis now (lock_key env) v c)"] by (simp add: release_guard_def)
qed

lemma requests_kept [simp]:
  "tk_requests (release_guard redis env now v st) = tk_requests st" "tk_requests (share_token redis env now st) = tk_requests st"
  by (simp_all add: release_guard_def share_token_def Let_def split: option.splits)

lemma renewing_asks:
  "validMemoryToken now st = None \<Longrightarrow> tk_requests (snd (renew_and_share redis env now v st)) = tk_requests st @ [now]"
  by (auto simp: renew_and_share_def renewToken_def Let_def split: sum.splits)

text \<open>A renewal over a cache without a server: the manager and the cache hold the same token.\<close>

lemma renew_and_share_alone:
  assumes "tk_cache st = Some c" "standalone c" "renew_and_share redis env now v st = (Inr tok, st1)"
    "tk_requests st1 \<noteq> tk_requests st"
  shows "tk_requests st1 = tk_requests st @ [now] \<and> tk_cachedToken st1 = tok
    \<and> (\<exists>c1. tk_cache st1 = Some c1 \<and> standalone c1 \<and> (now + 1000 \<le> tk_tokenExpiry st1 \<longrightarrow> tok \<noteq> [] \<longrightarrow>
        memory_item (cache_key env) c1 = Some (tok, Some (now + 1000 * ((tk_tokenExpiry st1 - now) div 1000)))))"
proof -
  have m: "validMemoryToken now st = None" using assms(1,3,4)
    by (cases "validMemoryToken now st") (auto simp: renew_and_share_def release_guard_def)
  obtain u st2 where r: "renewToken env now st = (Inr u, st2)" and tok: "tok = tk_cachedToken st2"
    and st1: "st1 = release_guard redis env now v (share_token redis env now st2)"
    using assms(3) m by (auto simp: renew_and_share_def split: sum.splits prod.splits)
  have st2: "tk_cache st2 = Some c" "tk_requests st2 = tk_requests st @ [now]"
    using r assms(1) by (auto simp: renewToken_def Let_def split: sum.splits)
  obtain c3 where c3: "share_token redis env now st2 = st2 \<lparr> tk_cache := Some c3 \<rparr>" "standalone c3"
    "now + 1000 \<le> tk_tokenExpiry st2 \<Longrightarrow> tok \<noteq> [] \<Longrightarrow>
      memory_item (cache_key env) c3 = Some (tok, Some (now + 1000 * ((tk_tokenExpiry st2 - now) div 1000)))"
  proof (cases "now + 1000 \<le> tk_tokenExpiry st2 \<and> tok \<noteq> []")
    case True
    let ?ttl = "(tk_tokenExpiry st2 - now) div 1000"
    have "share_token redis env now st2 = st2 \<lparr> tk_cache := Some (snd (cache_set redis now (cache_key env) tok (Some ?ttl) c)) \<rparr>"
      using True st2(1) by (simp add: share_token_def Let_def tok pos_imp_zdiv_pos_iff)
    moreover have "memory_item (cache_key env) (snd (cache_set redis now (cache_key env) tok (Some ?ttl) c))
        = Some (tok, Some (now + 1000 * ?ttl))"
      using alone.put_stores [OF assms(2), of "cache_key env" redis now "cache_key env" tok "Some ?ttl"] by (simp add: deadline_def)
    ultimately show ?thesis using that alone.ready_values(2) [OF assms(2)] by blast
  next
    case False
    have "st2 = st2 \<lparr> tk_cache := Some c \<rparr>" using st2(1) by simp
    moreover have "share_token redis env now st2 = st2 \<or> (\<exists>d. share_token redis env now st2
        = st2 \<lparr> tk_cache := Some (snd (cache_set redis now (cache_key env) (tk_cachedToken st2) d c)) \<rparr>)"
      using st2(1) by (simp add: share_token_def Let_def) blast
    ultimately have "\<exists>c3. share_token redis env now st2 = st2 \<lparr> tk_cache := Some c3 \<rparr> \<and> standalone c3"
      using assms(2) alone.ready_values(2) [OF assms(2)] by metis
    then show ?thesis using that False by blast
  qed
  have "tk_cache (st2 \<lparr> tk_cache := Some c3 \<rparr>) = Some c3" by simp
  from release_guard_alone [OF this c3(2), of redis env now v]
  obtain c1 where c1: "release_guard redis env now v (st2 \<lparr> tk_cache := Some c3 \<rparr>) = st2 \<lparr> tk_cache := Some c1 \<rparr>"
    "standalone c1" "memory_item (cache_key env) c1 = memory_item (cache_key env) c3" by auto
  show ?thesis using c1 c3 st1 st2(2) tok by simp
qed

text \<open>What asking for a token does when the request list grows: a renewal at the end of the wait.\<close>

lemma getToken_renews:
  assumes "tk_cache st = Some c" "standalone c" "others_wait others (lock_key env)"
    "getToken redis env others now v st = (Inr tok, st1)" "tk_requests st1 \<noteq> tk_requests st"
  shows "\<exists>t st0 c0. tk_cache st0 = Some c0 \<and> standalone c0 \<and> tk_requests st0 = tk_requests st \<and> now \<le> t \<and> t \<le> now + 3000
    \<and> renew_and_share redis env t v st0 = (Inr tok, st1)"
proof -
  obtain r st2 where f: "from_cache redis env now c st = (r, st2)" by force
  obtain c2 where c2: "tk_cache st2 = Some c2" "standalone c2" "tk_requests st2 = tk_requests st"
    by (rule from_cache_alone [OF assms(2) f])
  have r: "r = None" "validMemoryToken now st2 = None"
    using assms(1,4,5) f c2(3) by (auto simp: getToken_def split: option.splits)
  obtain b c3 where a: "acquireLock redis now (lock_key env) v 30 c2 = (b, c3)" by force
  have c3: "standalone c3" using alone.ready_locks(1) [OF c2(2), of redis now "lock_key env" v 30] a by simp
  have g: "getToken redis env others now v st = (if b then locked_path redis env now v c3 st2
      else waiting_path redis env others now v c3 st2)"
    using assms(1) f r c2(1) a by (simp add: getToken_def)
  show ?thesis
  proof (cases b)
    case True
    obtain r4 st4 where f4: "from_cache redis env now c3 st2 = (r4, st4)" by force
    obtain c4 where c4: "tk_cache st4 = Some c4" "standalone c4" "tk_requests st4 = tk_requests st2"
      by (rule from_cache_alone [OF c3 f4])
    have "r4 = None"
      using assms(4,5) g True f4 c4 c2(3) by (auto simp: locked_path_def release_guard_def split: option.splits)
    then show ?thesis using assms(4) g True f4 c4 c2(3) by (intro exI [of _ now] exI [of _ st4]) (auto simp: locked_path_def)
  next
    case False
    obtain t r4 st4 where p: "poll_cache redis env others poll_attempts now c3 st2 = (t, r4, st4)" by (metis prod_cases3)
    obtain c4 where c4: "tk_cache st4 = Some c4" "standalone c4" "tk_requests st4 = tk_requests st2" "now \<le> t" "t \<le> now + 3000"
      using poll_cache_waits [OF p c3 assms(3)] by (auto simp: poll_attempts_def)
    have r4: "r4 = None"
      using assms(4,5) g False p c4 c2(3) by (auto simp: waiting_path_def split: option.splits)
    obtain b5 c5 where a5: "acquireLock redis t (lock_key env) v 30 c4 = (b5, c5)" by force
    have c5: "standalone c5" using alone.ready_locks(1) [OF c4(2), of redis t "lock_key env" v 30] a5 by simp
    obtain r6 st6 where f6: "from_cache redis env t c5 st4 = (r6, st6)" by force
    obtain c6 where "tk_requests st6 = tk_requests st4" by (rule from_cache_alone [OF c5 f6])
    then have "b5" using assms(4,5) g False p r4 c4 c2(3) a5 f6
      by (auto simp: waiting_path_def split: option.splits bool.splits)
    then have "renew_and_share redis env t v (st4 \<lparr> tk_cache := Some c5 \<rparr>) = (Inr tok, st1)"
      using assms(4) g False p r4 c4(1) a5 by (simp add: waiting_path_def)
    then show ?thesis using c4 c5 c2(3) by (intro exI [of _ t] exI [of _ "st4 \<lparr> tk_cache := Some c5 \<rparr>"]) auto
  qed
qed

subsection \<open>Properties of the token\<close>

lemma four_digits:
  assumes "1000 \<le> n" "n < 10000"
  shows "length (dec_nat n) = 4"
proof -
  have longer: "length (dec_nat m) = Suc (length (dec_nat (m div 10)))" if "10 \<le> m" for m
    using that by (subst dec_nat.simps) simp
  have short: "length (dec_nat m) = 1" if "0 \<le> m" "m < 10" for m
    using that by (subst dec_nat.simps) simp
  have "1 \<le> n div 10 div 10 div 10" "n div 10 div 10 div 10 < 10" "10 \<le> n div 10 div 10" "10 \<le> n div 10" "10 \<le> n"
    using assms by simp_all
  then show ?thesis using longer [of n] longer [of "n div 10"] longer [of "n div 10 div 10"] short [of "n div 10 div 10 div 10"]
    by simp
qed

text \<open>The expiry the B2B endpoint of this service prints is read back to the millisecond by the
  token manager of another: \<open>parseExpiry\<close> inverts \<open>toIsoUtc\<close> through the year 9999.\<close>
theorem parseExpiry_toIsoUtc:
  assumes "0 \<le> t" "tm_year (gmtime t) \<le> 9999"
  shows "parseExpiry (toIsoUtc t) = Some (1000 * t)"
proof -
  let ?x = "gmtime t"
  note rng = gmtime_range [of t] and y = year_nonneg [OF assms(1)]
  have print: "toIsoUtc t = dec_nat (tm_year ?x) @ ''-'' @ two (tm_mon ?x) @ ''-'' @ two (tm_mday ?x) @ ''T''
      @ two (tm_hour ?x) @ '':'' @ two (tm_min ?x) @ '':'' @ two (tm_sec ?x) @ ''Z''"
    using y by (simp add: toIsoUtc_def dec_int_def Let_def)
  have scan: "scan_datetime (toIsoUtc t) = Some (tm_year ?x, tm_mon ?x, tm_mday ?x, CHR ''T'',
      tm_hour ?x, tm_min ?x, tm_sec ?x, ''Z'')"
    unfolding print using rng y by (intro scan_datetime_print) simp_all
  have "length (two n) = 2" if "0 \<le> n" "n < 100" for n
    using that length_dec_nat_le [of n 2] by (simp add: two_def length_setw0)
  then have two: "length (two (tm_mon ?x)) = 2" "length (two (tm_mday ?x)) = 2" "length (two (tm_hour ?x)) = 2"
    "length (two (tm_min ?x)) = 2" "length (two (tm_sec ?x)) = 2" using rng by simp_all
  have "length (dec_nat (tm_year ?x)) = 4" using y assms(2) by (intro four_digits) simp_all
  with two have "drop 19 (toIsoUtc t) = ''Z''" unfolding print by simp
  then have "expiry_tail (toIsoUtc t) = (0, ''Z'')" by (simp add: expiry_tail_def Let_def)
  moreover have tm: "\<lparr> tm_year = tm_year ?x, tm_mon = tm_mon ?x, tm_mday = tm_mday ?x, tm_hour = tm_hour ?x,
      tm_min = tm_min ?x, tm_sec = tm_sec ?x \<rparr> = ?x" by simp
  ultimately show ?thesis using assms(1) by (simp add: parseExpiry_def scan tm timegm_gmtime expiry_zone_def)
qed

theorem parseExpiry_toIsoUtc_witness: "parseExpiry (toIsoUtc 1789113600) = Some 1789113600000"
  using parseExpiry_toIsoUtc [of 1789113600] by simp code_simp

text \<open>While another instance holds the lock for longer than the wait, asking for a token sends
  nothing to the DGII: two instances never renew at once.\<close>
theorem busy_lock_waits:
  assumes "tk_cache st = Some c" "ca_host c = []" "ca_locks c (lock_key env) = Some (u, e)" "now + 3000 < e"
    and "others_wait others (lock_key env)"
  shows "tk_requests (snd (getToken redis env others now v st)) = tk_requests st"
proof -
  have c: "standalone c" using assms(2) by (simp add: standalone_def)
  obtain r st2 where f: "from_cache redis env now c st = (r, st2)" by force
  obtain c2 where c2: "tk_cache st2 = Some c2" "standalone c2" "ca_locks c2 = ca_locks c" "tk_requests st2 = tk_requests st"
    by (rule from_cache_alone [OF c f])
  have a: "acquireLock redis now (lock_key env) v 30 c2 = (False, c2)"
    using alone.acquire_taken [OF c2(2), of "lock_key env" u e now redis v 30] assms(3,4) c2(3) by simp
  obtain t r4 st4 where p: "poll_cache redis env others poll_attempts now c2 st2 = (t, r4, st4)" by (metis prod_cases3)
  obtain c4 where c4: "tk_cache st4 = Some c4" "standalone c4" "ca_locks c4 (lock_key env) = Some (u, e)"
    "tk_requests st4 = tk_requests st2" "t \<le> now + 3000"
    using poll_cache_waits [OF p c2(2) assms(5)] assms(3) c2(3) by (auto simp: poll_attempts_def)
  have a4: "acquireLock redis t (lock_key env) v 30 c4 = (False, c4)"
    using alone.acquire_taken [OF c4(2,3), of t redis v 30] assms(4) c4(5) by simp
  obtain r6 st6 where f6: "from_cache redis env t c4 st4 = (r6, st6)" by force
  obtain c6 where c6: "tk_requests st6 = tk_requests st4" by (rule from_cache_alone [OF c4(2) f6])
  have "tk_requests (snd (waiting_path redis env others now v c2 st2)) = tk_requests st"
    using c2(4) c4(1,4) c6 by (simp add: waiting_path_def p a4 f6 split: option.splits)
  then show ?thesis using assms(1) f c2(1,4) a by (simp add: getToken_def split: option.splits)
qed


text \<open>A token taken from the shared cache is kept for fifty minutes, whatever it has left: after its
  entry in the cache is over the manager goes on answering with it.\<close>
theorem expired_token_is_served:
  assumes "tk_cache st = Some c" "ca_host c = []" "memory_item (cache_key env) c = Some (tok, Some e)" "tok \<noteq> []"
    and "t1 \<le> e" "e < t2" "t2 + 6 * 60000 \<le> t1 + fifty_minutes"
    and "getToken redis env others t1 v1 st = (r1, st1)" "getToken redis env others t2 v2 st1 = (r2, st2)"
  shows "r1 = Inr tok \<and> r2 = Inr tok \<and> tk_requests st2 = tk_requests st"
proof -
  have c: "standalone c" using assms(2) by (simp add: standalone_def)
  have "in_force t1 (memory_item (cache_key env) c) = Some tok" using assms(3,5) by (simp add: in_force_def)
  from from_cache_hit [OF c this assms(4)] obtain c1
    where f: "from_cache redis env t1 c st = (Some tok, adopt t1 tok (st \<lparr> tk_cache := Some c1 \<rparr>))" "standalone c1"
      "memory_item (cache_key env) c1 = Some (tok, Some e)" using assms(3) by auto
  then have one: "r1 = Inr tok" "st1 = adopt t1 tok (st \<lparr> tk_cache := Some c1 \<rparr>)"
    using assms(1,8) by (simp_all add: getToken_def)
  have "in_force t2 (memory_item (cache_key env) c1) = None" using f(3) assms(6) by (simp add: in_force_def)
  from from_cache_miss [OF f(2) this] obtain c2
    where m: "from_cache redis env t2 c1 st1 = (None, st1 \<lparr> tk_cache := Some c2 \<rparr>)" by blast
  have "360000 div 60000 \<le> (t1 + fifty_minutes - t2) div (60000::int)" using assms(7) by (intro zdiv_mono1) simp_all
  then have "validMemoryToken t2 (st1 \<lparr> tk_cache := Some c2 \<rparr>) = Some tok"
    using assms(4,7) by (simp add: validMemoryToken_def one(2) adopt_def to_minutes_def)
  then have "(r2, st2) = (Inr tok, st1 \<lparr> tk_cache := Some c2 \<rparr>)"
    using assms(9) m one(2) by (simp add: getToken_def adopt_def)
  then show ?thesis using one by (simp add: adopt_def)
qed

text \<open>After \<open>invalidate\<close> the next call asks the DGII for a token, once, unless another instance
  holds the lock.\<close>
theorem invalidated_token_is_renewed:
  assumes "tk_cache st = Some c" "ca_host c = []" "t \<le> now"
    and "\<And>u e. ca_locks c (lock_key env) = Some (u, e) \<Longrightarrow> e \<le> now"
  shows "tk_requests (snd (getToken redis env others now v (invalidate redis env t st))) = tk_requests st @ [now]"
proof -
  have c: "standalone c" using assms(2) by (simp add: standalone_def)
  let ?c0 = "snd (cache_remove redis t (cache_key env) c)"
  have c0: "standalone ?c0" "memory_item (cache_key env) ?c0 = None" "ca_locks ?c0 = ca_locks c"
    using alone.ready_values(3) [OF c] alone.del_erases [OF c] alone.items_keep_locks(3) [OF c] by (auto simp: fun_eq_iff)
  let ?st0 = "st \<lparr> tk_cachedToken := [], tk_tokenExpiry := 0, tk_cache := Some ?c0 \<rparr>"
  have i: "invalidate redis env t st = ?st0" using assms(1) by (simp add: invalidate_def Let_def)
  have none: "in_force n (memory_item (cache_key env) ?c0) = None" for n by (simp add: c0(2) in_force_def)
  obtain c1 where f: "from_cache redis env now ?c0 ?st0 = (None, ?st0 \<lparr> tk_cache := Some c1 \<rparr>)" "standalone c1"
    "ca_locks c1 = ca_locks ?c0" "memory_item (cache_key env) c1 = None" using from_cache_miss [OF c0(1) none] by blast
  have free: "e \<le> now" if "ca_locks c1 (lock_key env) = Some (u, e)" for u e using assms(4) that by (simp add: f(3) c0(3))
  obtain b c2 where a: "acquireLock redis now (lock_key env) v 30 c1 = (b, c2)" by force
  have "fst (acquireLock redis now (lock_key env) v 30 c1)"
    by (rule conjunct1 [OF alone.acquire_free [OF f(2)]]) (rule free)
  then have c2: "b" "standalone c2" "memory_item (cache_key env) c2 = None"
    using alone.ready_locks(1) [OF f(2), of redis now "lock_key env" v 30]
      alone.locks_keep_items(1) [OF f(2), of "cache_key env" redis now "lock_key env" v 30] f(4) a by simp_all
  have "in_force now (memory_item (cache_key env) c2) = None" by (simp add: c2(3) in_force_def)
  from from_cache_miss [OF c2(2) this, of redis "?st0 \<lparr> tk_cache := Some c1 \<rparr>"] obtain c3
    where l: "from_cache redis env now c2 (?st0 \<lparr> tk_cache := Some c1 \<rparr>) = (None, ?st0 \<lparr> tk_cache := Some c3 \<rparr>)" by auto
  have "getToken redis env others now v (invalidate redis env t st) = renew_and_share redis env now v (?st0 \<lparr> tk_cache := Some c3 \<rparr>)"
    using c2(1) a f(1) l by (simp add: i getToken_def validMemoryToken_def locked_path_def)
  then show ?thesis by (simp add: renewing_asks validMemoryToken_def)
qed

subsection \<open>The properties at work\<close>

text \<open>A DGII that answers every signed seed with the same token, for an hour from \<open>00:00:01\<close>.\<close>

definition demo_auth :: auth_env where
  "demo_auth = \<lparr> ae_signer = \<lparr> sg_id = 1, sg_signXml = (\<lambda>x r. Inr x), sg_usesFallbackCertificate = False,
       sg_validateCertificateSn = (\<lambda>sn. True) \<rparr>,
     ae_config = getConfig PreCertificacion, ae_rncEmisor = ''101000001'',
     ae_seed = (\<lambda>t. \<lparr> hr_error = None, hr_status = 200, hr_text = ''<SemillaModel/>'' \<rparr>),
     ae_validate = (\<lambda>t x. \<lparr> hr_error = None, hr_status = 200, hr_text = ''{}'' \<rparr>),
     ae_xml_root = (\<lambda>x. None),
     ae_json = (\<lambda>x. Inr (\<lambda>f. if f = ''token'' then Some ''tok'' else Some ''1970-01-01T01:00:01Z'')) \<rparr>"

definition demo_manager :: "unit cache \<Rightarrow> unit token_state" where
  "demo_manager c = \<lparr> tk_cachedToken = [], tk_tokenExpiry = 0, tk_cache = Some c, tk_requests = [] \<rparr>"

definition demo_renewed :: "(exn + string) \<times> unit token_state" where
  "demo_renewed = getToken demo_redis demo_auth (\<lambda>t c. c) 1000 ''a'' (demo_manager demo_cache)"

lemma demo_renewed_facts:
  "fst demo_renewed = Inr ''tok''" "tk_requests (snd demo_renewed) = [1000]" "tk_tokenExpiry (snd demo_renewed) = 3601000"
  "ca_host demo_cache = []" "ca_host (the (tk_cache (snd demo_renewed))) = []" "tk_cache (snd demo_renewed) \<noteq> None"
  "memory_item (cache_key demo_auth) (the (tk_cache (snd demo_renewed))) = Some (''tok'', Some 3601000)"
  by code_simp+

lemma patient: "others_wait (\<lambda>t c. c) k"
  by (simp add: others_wait_def)

theorem busy_lock_waits_witness:
  "tk_requests (snd (getToken demo_redis demo_auth (\<lambda>t c. c) 5000 ''b''
     (demo_manager (demo_cache \<lparr> ca_locks := (ca_locks demo_cache)(lock_key demo_auth \<mapsto> (''a'', 30000)) \<rparr>)))) = []"
  using busy_lock_waits [OF _ _ _ _ patient, of "demo_manager (demo_cache \<lparr> ca_locks := (ca_locks demo_cache)(lock_key demo_auth \<mapsto> (''a'', 30000)) \<rparr>)"
      "demo_cache \<lparr> ca_locks := (ca_locks demo_cache)(lock_key demo_auth \<mapsto> (''a'', 30000)) \<rparr>" demo_auth "''a''" 30000 5000 demo_redis "''b''"]
    demo_renewed_facts(4)
  by (simp add: demo_manager_def)


theorem expired_token_is_served_witness:
  "fst (getToken demo_redis demo_auth (\<lambda>t c. c) 6000000 ''c'' (snd (getToken demo_redis demo_auth (\<lambda>t c. c) 3600000 ''b''
     (demo_manager (the (tk_cache (snd demo_renewed))))))) = Inr ''tok''"
  using expired_token_is_served [OF _ demo_renewed_facts(5,7) _ _ _ _ prod.collapse [symmetric] prod.collapse [symmetric],
      of "demo_manager (the (tk_cache (snd demo_renewed)))" 3600000 6000000]
  by (simp add: demo_manager_def fifty_minutes_def)

theorem invalidated_token_is_renewed_witness:
  "tk_requests (snd (getToken demo_redis demo_auth (\<lambda>t c. c) 9000 ''b'' (invalidate demo_redis demo_auth 8000
     (demo_manager demo_cache)))) = [9000]"
proof -
  have "ca_locks demo_cache (lock_key demo_auth) = None" by code_simp
  then show ?thesis
    using invalidated_token_is_renewed [of "demo_manager demo_cache" demo_cache 8000 9000 demo_auth demo_redis "\<lambda>t c. c" "''b''"] demo_renewed_facts(4)
    by (simp add: demo_manager_def)
qed

end
