(* ===== verification/Polling.thy ===== *)
theory Polling
  imports Binary64
begin

text \<open>
  PollingHelper.h: asking again, with growing pauses, until an answer is complete.  The
  function that is polled, the steady clock and the sleep act on a state of their own; the
  loop returns the pauses it made beside its outcome.  It ends after \<open>maxRetries\<close> questions at
  most, whatever the options, and with a time limit it never sleeps beyond it.
\<close>

record PollingOptions =
  po_initialDelayMs :: int
  po_maxDelayMs :: int
  po_maxRetries :: int
  po_backoffMultiplier :: dbl
  po_timeoutMs :: "int option"

definition default_polling :: PollingOptions where
  "default_polling = \<lparr> po_initialDelayMs = 1000, po_maxDelayMs = 30000, po_maxRetries = 60,
     po_backoffMultiplier = dlit 2 1, po_timeoutMs = None \<rparr>"

text \<open>What is polled, and the two services of the platform.\<close>

record ('s, 'a) polled =
  pl_fn :: "'s \<Rightarrow> 'a \<times> 's"
  pl_isComplete :: "'a \<Rightarrow> bool"
  pl_clock :: "'s \<Rightarrow> int"
  pl_sleep :: "int \<Rightarrow> 's \<Rightarrow> 's"

datatype 'a poll_outcome =
    Complete 'a
  | PollingMaxRetriesException int
  | PollingTimeoutException

text \<open>\<open>std::min\<close> answers its first argument unless the second is smaller.\<close>

definition next_delay :: "PollingOptions \<Rightarrow> int \<Rightarrow> int" where
  "next_delay opts delay =
     (let grown = dmul (dlit delay 1) (po_backoffMultiplier opts); cap = dlit (po_maxDelayMs opts) 1
      in dtrunc (if dlt cap grown then cap else grown))"

text \<open>The pause before the next question, or \<open>None\<close> when the time is over.\<close>

definition pause_for :: "PollingOptions \<Rightarrow> int \<Rightarrow> int \<Rightarrow> int option" where
  "pause_for opts elapsed delay = (case po_timeoutMs opts of
     None \<Rightarrow> Some delay | Some limit \<Rightarrow> if limit \<le> elapsed then None else Some (min delay (limit - elapsed)))"

function poll_from ::
    "PollingOptions \<Rightarrow> ('s, 'a) polled \<Rightarrow> int \<Rightarrow> int \<Rightarrow> int \<Rightarrow> 's \<Rightarrow> 'a poll_outcome \<times> int list \<times> 's" where
  "poll_from opts p start retries delay s =
     (case pl_fn p s of (r, s1) \<Rightarrow>
        if pl_isComplete p r then (Complete r, [], s1)
        else if po_maxRetries opts \<le> retries + 1 then (PollingMaxRetriesException (po_maxRetries opts), [], s1)
        else case pause_for opts (pl_clock p s1 - start) delay of
            None \<Rightarrow> (PollingTimeoutException, [], s1)
          | Some pause \<Rightarrow>
              (case poll_from opts p start (retries + 1) (next_delay opts delay) (if 0 < pause then pl_sleep p pause s1 else s1) of
                 (out, pauses, s2) \<Rightarrow> (out, pause # pauses, s2)))"
  by pat_completeness auto
termination by (relation "measure (\<lambda>(opts, p, start, retries, delay, s). nat (po_maxRetries opts - retries))") auto

declare poll_from.simps [simp del]

definition pollUntilComplete :: "PollingOptions \<Rightarrow> ('s, 'a) polled \<Rightarrow> 's \<Rightarrow> 'a poll_outcome \<times> int list \<times> 's" where
  "pollUntilComplete opts p s = poll_from opts p (pl_clock p s) 0 (po_initialDelayMs opts) s"

text \<open>One round of the loop.\<close>

lemma poll_from_cases:
  assumes "poll_from opts p start n d s = (out, pauses, s')"
  obtains (ends) "pauses = []" "\<And>r. out = Complete r \<Longrightarrow> pl_isComplete p r"
  | (waits) r s1 pause rest where "pl_fn p s = (r, s1)" "\<not> pl_isComplete p r" "n + 1 < po_maxRetries opts"
      "pause_for opts (pl_clock p s1 - start) d = Some pause" "pauses = pause # rest"
      "poll_from opts p start (n + 1) (next_delay opts d) (if 0 < pause then pl_sleep p pause s1 else s1) = (out, rest, s')"
proof -
  obtain r s1 where f: "pl_fn p s = (r, s1)" by force
  show thesis
  proof (cases "pl_isComplete p r \<or> po_maxRetries opts \<le> n + 1 \<or> pause_for opts (pl_clock p s1 - start) d = None")
    case True
    then show ?thesis using assms f by (intro ends) (auto simp: poll_from.simps [of opts p start n] split: if_splits)
  next
    case False
    then obtain pause where pause: "pause_for opts (pl_clock p s1 - start) d = Some pause" by auto
    obtain rest s2 out2 where q: "poll_from opts p start (n + 1) (next_delay opts d)
        (if 0 < pause then pl_sleep p pause s1 else s1) = (out2, rest, s2)" by (metis prod_cases3)
    have "out = out2" "pauses = pause # rest" "s' = s2"
      using assms f False pause q by (auto simp: poll_from.simps [of opts p start n])
    then show ?thesis using f False pause q by (intro waits) auto
  qed
qed

lemma poll_from_bounded:
  "poll_from opts p start n d s = (out, pauses, s') \<Longrightarrow>
     int (length pauses) \<le> max 0 (po_maxRetries opts - n - 1) \<and> (\<forall>r. out = Complete r \<longrightarrow> pl_isComplete p r)"
proof (induction "nat (po_maxRetries opts - n)" arbitrary: n d s pauses rule: less_induct)
  case less
  from less.prems show ?case
  proof (cases rule: poll_from_cases)
    case ends
    then show ?thesis by auto
  next
    case (waits r s1 pause rest)
    have "nat (po_maxRetries opts - (n + 1)) < nat (po_maxRetries opts - n)" using waits(3) by simp
    from less.hyps [OF this waits(6)] show ?thesis using waits(3,5) by auto
  qed
qed

text \<open>The polling returns whatever the options and the answers are: after \<open>maxRetries\<close> questions at
  most (one, when that is not positive), and an answer it returns is complete.\<close>
theorem polling_returns:
  "\<exists>out pauses s'. pollUntilComplete opts p s = (out, pauses, s') \<and> int (length pauses) + 1 \<le> max 1 (po_maxRetries opts)
    \<and> (case out of Complete r \<Rightarrow> pl_isComplete p r | PollingMaxRetriesException n \<Rightarrow> True | PollingTimeoutException \<Rightarrow> True)"
proof -
  obtain out pauses s' where r: "pollUntilComplete opts p s = (out, pauses, s')" by (metis prod_cases3)
  from poll_from_bounded [OF r [unfolded pollUntilComplete_def]] show ?thesis
    using r by (auto split: poll_outcome.split)
qed

text \<open>Sleeping for a while takes at least that long, and time does not run backwards.\<close>

definition clock_runs :: "('s, 'a) polled \<Rightarrow> bool" where
  "clock_runs p \<longleftrightarrow> (\<forall>s. pl_clock p s \<le> pl_clock p (snd (pl_fn p s))) \<and> (\<forall>n s. 0 < n \<longrightarrow> pl_clock p s + n \<le> pl_clock p (pl_sleep p n s))"

definition slept :: "int list \<Rightarrow> int" where
  "slept pauses = sum_list (map (max 0) pauses)"

lemma poll_from_within:
  "poll_from opts p start n d s = (out, pauses, s') \<Longrightarrow> clock_runs p \<Longrightarrow> po_timeoutMs opts = Some limit \<Longrightarrow>
     slept pauses \<le> max 0 (limit - (pl_clock p s - start))"
proof (induction "nat (po_maxRetries opts - n)" arbitrary: n d s pauses rule: less_induct)
  case less
  from less.prems(1) show ?case
  proof (cases rule: poll_from_cases)
    case ends
    then show ?thesis by (simp add: slept_def)
  next
    case (waits r s1 pause rest)
    let ?s2 = "if 0 < pause then pl_sleep p pause s1 else s1"
    have "nat (po_maxRetries opts - (n + 1)) < nat (po_maxRetries opts - n)" using waits(3) by simp
    from less.hyps [OF this waits(6) less.prems(2,3)] have rest: "slept rest \<le> max 0 (limit - (pl_clock p ?s2 - start))" .
    have clock: "pl_clock p s \<le> pl_clock p s1" "pl_clock p s1 + max 0 pause \<le> pl_clock p ?s2"
      using less.prems(2) waits(1) by (auto simp: clock_runs_def max_def dest: spec [of _ s])
    have "pl_clock p s1 - start < limit" "pause \<le> limit - (pl_clock p s1 - start)"
      using waits(4) less.prems(3) by (auto simp: pause_for_def split: if_splits)
    then show ?thesis using rest clock by (simp add: waits(5) slept_def)
  qed
qed

text \<open>With a time limit the polling does not sleep longer than the limit in all.\<close>
theorem polling_sleeps_within_limit:
  assumes "pollUntilComplete opts p s = (out, pauses, s')" "clock_runs p" "po_timeoutMs opts = Some limit"
  shows "slept pauses \<le> max 0 limit"
  using poll_from_within [OF assms(1) [unfolded pollUntilComplete_def] assms(2,3)] by simp

definition demo_poll_run :: "(int, int) polled" where
  "demo_poll_run = \<lparr> pl_fn = (\<lambda>s. (s, s + 10)), pl_isComplete = (\<lambda>r. 100000 < r), pl_clock = (\<lambda>s. s), pl_sleep = (\<lambda>n s. s + n) \<rparr>"

text \<open>The pauses of the default options: doubled up to half a minute.\<close>

lemma default_pauses:
  "pollUntilComplete default_polling demo_poll_run 0 = (Complete 121080, [1000, 2000, 4000, 8000, 16000, 30000, 30000, 30000], 121090)"
  by code_simp

theorem polling_sleeps_within_limit_witness:
  "slept (fst (snd (pollUntilComplete (default_polling \<lparr> po_timeoutMs := Some 5000 \<rparr>) demo_poll_run 0))) \<le> 5000"
proof -
  obtain out pauses s' where r: "pollUntilComplete (default_polling \<lparr> po_timeoutMs := Some 5000 \<rparr>) demo_poll_run 0 = (out, pauses, s')"
    by (metis prod_cases3)
  have "clock_runs demo_poll_run" by (simp add: clock_runs_def demo_poll_run_def)
  from polling_sleeps_within_limit [OF r this] show ?thesis by (simp add: r)
qed

end
