(* ===== verification/Json_Value.thy ===== *)
theory Json_Value
  imports Binary64 Sys_Time
begin

text \<open>
  JSON values, as nlohmann and jsoncpp deliver them after parsing: numbers without a fraction
  are integers, an object is the list of its members.  The accessors are those of
  \<open>Json::Value\<close>; \<open>None\<close> stands for the \<open>Json::LogicError\<close> a call throws.
\<close>

datatype json =
    NullJ
  | BoolJ bool
  | IntJ int
  | DblJ dbl
  | StrJ string
  | ArrJ "json list"
  | ObjJ "(string \<times> json) list"

text \<open>A conversion to \<open>int\<close> that wraps around.\<close>

definition int32 :: "int \<Rightarrow> int" where
  "int32 n = (n + 2 ^ 31) mod 2 ^ 32 - 2 ^ 31"

definition fits_int :: "int \<Rightarrow> bool" where
  "fits_int n \<longleftrightarrow> - (2 ^ 31) \<le> n \<and> n < 2 ^ 31"

subsection \<open>\<open>Json::Value\<close>\<close>

fun isObject :: "json \<Rightarrow> bool" where
  "isObject (ObjJ ms) = True" | "isObject j = False"

fun isArray :: "json \<Rightarrow> bool" where
  "isArray (ArrJ xs) = True" | "isArray j = False"

fun isString :: "json \<Rightarrow> bool" where
  "isString (StrJ s) = True" | "isString j = False"

fun isNumeric :: "json \<Rightarrow> bool" where
  "isNumeric (IntJ n) = True" | "isNumeric (DblJ d) = True" | "isNumeric j = False"

text \<open>The member of an object; null is an empty object, anything else throws.\<close>

fun isMember :: "json \<Rightarrow> string \<Rightarrow> bool option" where
  "isMember (ObjJ ms) key = Some (map_of ms key \<noteq> None)"
| "isMember NullJ key = Some False"
| "isMember j key = None"

fun jmember :: "json \<Rightarrow> string \<Rightarrow> json option" where
  "jmember (ObjJ ms) key = map_of ms key"
| "jmember j key = None"

fun elements :: "json \<Rightarrow> json list" where
  "elements (ArrJ xs) = xs" | "elements j = []"

text \<open>\<open>asInt\<close> and \<open>asDouble\<close> of a number.\<close>

fun asInt :: "json \<Rightarrow> int option" where
  "asInt (IntJ n) = (if fits_int n then Some n else None)"
| "asInt (DblJ d) = (if dle (dlit (- (2 ^ 31)) 1) d \<and> dle d (dlit (2 ^ 31 - 1) 1) then Some (dtrunc d) else None)"
| "asInt j = None"

fun asDouble :: "json \<Rightarrow> dbl" where
  "asDouble (IntJ n) = dlit n 1" | "asDouble (DblJ d) = d" | "asDouble j = dzero"

text \<open>Building an object: a member that is always there, and one that depends on an optional.\<close>

abbreviation field :: "string \<Rightarrow> json \<Rightarrow> (string \<times> json) list" where
  "field key v \<equiv> [(key, v)]"

definition opt_field :: "string \<Rightarrow> ('a \<Rightarrow> json) \<Rightarrow> 'a option \<Rightarrow> (string \<times> json) list" where
  "opt_field key f v = (case v of None \<Rightarrow> [] | Some x \<Rightarrow> [(key, f x)])"

lemma map_of_opt_field [simp]:
  "map_of (opt_field key f v @ ms) k = (if k = key \<and> v \<noteq> None then Some (f (the v)) else map_of ms k)"
  "map_of (opt_field key f v) k = (if k = key then map_option f v else None)"
  by (cases v; simp add: opt_field_def)+

text \<open>A step of a reader that may fail.\<close>

lemma bind_Some: "Option.bind m f = Some y \<longleftrightarrow> (\<exists>x. m = Some x \<and> f x = Some y)"
  by (cases m) auto

end
