(* ===== verification/Dgii_Transport.thy ===== *)
theory Dgii_Transport
  imports Token_Manager Documents_Submit Polling Json_Value
begin

text \<open>
  DgiiDirectTransport.cpp and the readers of EcfXmlSerializer.cpp: every operation on the
  DGII's services as HTTP requests with the issuer's token, one more attempt with a new token
  after a 401, and the reading of XML and JSON answers.  The network is \<open>dt_http\<close>, which may
  answer differently after different requests; libxml2 and nlohmann's parser are \<open>dt_xml\<close>
  (the root element and its children) and \<open>dt_json\<close> (nothing for a discarded text).  The
  requests are recorded in the state.
\<close>

subsection \<open>JSON\<close>

text \<open>A field whose name agrees up to case, in the parser's order.\<close>

fun json_find :: "json \<Rightarrow> string \<Rightarrow> json option" where
  "json_find (ObjJ members) key = map_option snd (find (\<lambda>f. lower (fst f) = lower key) members)"
| "json_find j key = None"

text \<open>\<open>std::stod\<close> on decimal and hexadecimal notation, \<open>inf\<close> and \<open>nan\<close>; \<open>None\<close> when it throws.\<close>

definition hex_val :: "char \<Rightarrow> int" where
  "hex_val c = (if isdigit c then digit_val c else int (code (tolower c)) - 87)"

definition base_val :: "int \<Rightarrow> string \<Rightarrow> int" where
  "base_val b ds = fold (\<lambda>c n. n * b + hex_val c) ds 0"

definition scan_exponent :: "char \<Rightarrow> string \<Rightarrow> int" where
  "scan_exponent mark s = (case s of
       [] \<Rightarrow> 0
     | c # cs \<Rightarrow> if tolower c = mark \<and> (case cs of [] \<Rightarrow> False | d # ds \<Rightarrow> isdigit d
           \<or> ((d = CHR ''+'' \<or> d = CHR ''-'') \<and> ds \<noteq> [] \<and> isdigit (hd ds)))
         then (case scan_int cs of None \<Rightarrow> 0 | Some (n, r) \<Rightarrow> n) else 0)"

definition scan_mantissa :: "(char \<Rightarrow> bool) \<Rightarrow> int \<Rightarrow> string \<Rightarrow> (int \<times> int \<times> string) option" where
  "scan_mantissa digit b s =
     (let whole = takeWhile digit s; r = dropWhile digit s;
          point = (r \<noteq> [] \<and> hd r = CHR ''.'');
          frac = (if point then takeWhile digit (tl r) else []);
          rest = (if point then dropWhile digit (tl r) else r)
      in if whole = [] \<and> frac = [] then None
         else Some (base_val b (whole @ frac), b ^ length frac, rest))"

definition checked_range :: "bool \<Rightarrow> int \<Rightarrow> int \<Rightarrow> dbl option" where
  "checked_range neg a b = (case rnd neg a b of
       DInf s \<Rightarrow> None
     | DFin s m e \<Rightarrow> if a \<noteq> 0 \<and> m < 2 ^ 52 \<and> m * pow2 e * b \<noteq> a * pow2 (- e) then None else Some (DFin s m e)
     | DNaN \<Rightarrow> Some DNaN)"

definition stod :: "string \<Rightarrow> dbl option" where
  "stod text =
     (let s = ltrim text;
          neg = (s \<noteq> [] \<and> hd s = CHR ''-'');
          u = (if s \<noteq> [] \<and> (hd s = CHR ''-'' \<or> hd s = CHR ''+'') then tl s else s)
      in if starts_with ''inf'' (lower u) then Some (DInf neg)
         else if starts_with ''nan'' (lower u) then Some DNaN
         else case (if starts_with ''0x'' (lower u) then scan_mantissa isxdigit 16 (drop 2 u) else None) of
            Some (n, q, r) \<Rightarrow> (let p = scan_exponent (CHR ''p'') r in checked_range neg (n * pow2 p) (q * pow2 (- p)))
          | None \<Rightarrow> (case scan_mantissa isdigit 10 u of
                None \<Rightarrow> None
              | Some (n, q, r) \<Rightarrow> (let p = scan_exponent (CHR ''e'') r
                  in checked_range neg (n * 10 ^ nat p) (q * 10 ^ nat (- p)))))"

definition jstr :: "(json \<Rightarrow> string) \<Rightarrow> json \<Rightarrow> string \<Rightarrow> string" where
  "jstr dump j key = (case json_find j key of
       None \<Rightarrow> [] | Some NullJ \<Rightarrow> [] | Some (StrJ s) \<Rightarrow> s | Some v \<Rightarrow> dump v)"

definition jint :: "json \<Rightarrow> string \<Rightarrow> int" where
  "jint j key = (case json_find j key of
       Some (IntJ n) \<Rightarrow> int32 n
     | Some (DblJ d) \<Rightarrow> dtrunc d
     | Some (StrJ s) \<Rightarrow> value_or (stoi s) 0
     | _ \<Rightarrow> 0)"

definition jdbl :: "json \<Rightarrow> string \<Rightarrow> dbl" where
  "jdbl j key = (case json_find j key of
       Some (IntJ n) \<Rightarrow> dlit n 1
     | Some (DblJ d) \<Rightarrow> d
     | Some (StrJ s) \<Rightarrow> value_or (stod s) dzero
     | _ \<Rightarrow> dzero)"

definition jbool :: "json \<Rightarrow> string \<Rightarrow> bool" where
  "jbool j key = (case json_find j key of
       Some (BoolJ b) \<Rightarrow> b
     | Some (StrJ s) \<Rightarrow> s = ''true'' \<or> s = ''1''
     | _ \<Rightarrow> False)"

definition jmensajes :: "(json \<Rightarrow> string) \<Rightarrow> json \<Rightarrow> MensajeCodigo list" where
  "jmensajes dump j = (case json_find j ''mensajes'' of
       Some (ArrJ ms) \<Rightarrow> map (\<lambda>m. \<lparr> msg_codigo = jstr dump m ''codigo'', msg_valor = jstr dump m ''valor'' \<rparr>) ms
     | _ \<Rightarrow> [])"

definition json_texts :: "(json \<Rightarrow> string) \<Rightarrow> json \<Rightarrow> string \<Rightarrow> string list" where
  "json_texts dump j key = (case json_find j key of
       Some (ArrJ ms) \<Rightarrow> map (\<lambda>m. case m of StrJ s \<Rightarrow> s | v \<Rightarrow> dump v) ms
     | _ \<Rightarrow> [])"

subsection \<open>XML\<close>

datatype xnode = Elem string "xnode list" | Chars string

fun xml_content :: "xnode \<Rightarrow> string" where
  "xml_content (Elem n cs) = concat (map xml_content cs)"
| "xml_content (Chars s) = s"

definition xml_blank :: "char \<Rightarrow> bool" where
  "xml_blank c \<longleftrightarrow> code c \<in> {32, 9, 13, 10}"

definition nodeText :: "xnode option \<Rightarrow> string" where
  "nodeText x = (case x of None \<Rightarrow> [] | Some v \<Rightarrow> rev (dropWhile xml_blank (rev (dropWhile xml_blank (xml_content v)))))"

fun named :: "string \<Rightarrow> xnode \<Rightarrow> bool" where
  "named name (Elem n cs) \<longleftrightarrow> lower n = lower name"
| "named name (Chars s) \<longleftrightarrow> False"

definition firstChildNamed :: "xnode list \<Rightarrow> string \<Rightarrow> xnode option" where
  "firstChildNamed cs name = find (named name) cs"

definition childText :: "xnode list \<Rightarrow> string \<Rightarrow> string" where
  "childText cs name = nodeText (firstChildNamed cs name)"

definition childBool :: "xnode list \<Rightarrow> string \<Rightarrow> bool" where
  "childBool cs name \<longleftrightarrow> childText cs name \<in> {''true'', ''True'', ''1''}"

definition childInt :: "xnode list \<Rightarrow> string \<Rightarrow> int" where
  "childInt cs name = (if childText cs name = [] then 0 else value_or (stoi (childText cs name)) 0)"

fun element_children :: "xnode \<Rightarrow> xnode list option" where
  "element_children (Elem n cs) = Some cs"
| "element_children (Chars s) = None"

definition parseMensajes :: "xnode list \<Rightarrow> MensajeCodigo list" where
  "parseMensajes cs = (case firstChildNamed cs ''mensajes'' of
       None \<Rightarrow> []
     | Some wrapper \<Rightarrow> map (\<lambda>m. \<lparr> msg_codigo = childText m ''Codigo'', msg_valor = childText m ''Valor'' \<rparr>)
         (List.map_filter element_children (value_or (element_children wrapper) [])))"

type_synonym xml_reader = "string \<Rightarrow> (string \<times> xnode list) option option"

text \<open>The root of a document, its name and its children.\<close>

definition xml_root :: "xml_reader \<Rightarrow> string \<Rightarrow> string \<Rightarrow> exn + string \<times> xnode list" where
  "xml_root xml kind text = (case xml text of
       None \<Rightarrow> Inl (OtherExn (''XML de respuesta inv'' @ u_a @ ''lido ('' @ kind @ '').''))
     | Some None \<Rightarrow> Inl (OtherExn (''Respuesta XML DGII inv'' @ u_a @ ''lida: documento sin elemento ra'' @ u_i @ ''z.''))
     | Some (Some r) \<Rightarrow> Inr r)"

definition opt_text :: "string \<Rightarrow> string option" where
  "opt_text s = (if s = [] then None else Some s)"

definition deserializeEcfRecepcion :: "xml_reader \<Rightarrow> string \<Rightarrow> exn + EcfRecepcionResponse" where
  "deserializeEcfRecepcion xml text = (case xml_root xml ''RespuestaRecepcion'' text of
       Inl e \<Rightarrow> Inl e
     | Inr (rootName, cs) \<Rightarrow>
         let r = \<lparr> rec_trackId = childText cs ''trackId'', rec_error = opt_text (childText cs ''error''),
                   rec_mensaje = opt_text (childText cs ''mensaje'') \<rparr>
         in if rec_trackId r = [] \<and> rec_error r = None
            then Inl (OtherExn (''Respuesta XML DGII inv'' @ u_a @ ''lida: elemento ra'' @ u_i @ ''z '' @ apo @ rootName @ apo
              @ '' no contiene trackId ni error.''))
            else Inr r)"

definition deserializeRfceRecepcion :: "xml_reader \<Rightarrow> string \<Rightarrow> exn + RfceRecepcionResponse" where
  "deserializeRfceRecepcion xml text = (case xml_root xml ''Respuesta'' text of
       Inl e \<Rightarrow> Inl e
     | Inr (rootName, cs) \<Rightarrow>
         let r = \<lparr> rfr_codigo = childInt cs ''codigo'', rfr_estado = childText cs ''estado'', rfr_mensajes = parseMensajes cs,
                   rfr_eNcf = childText cs ''encf'', rfr_secuenciaUtilizada = childBool cs ''secuenciaUtilizada'' \<rparr>
         in if rfr_estado r = [] \<and> rfr_codigo r = 0 \<and> rfr_mensajes r = []
            then Inl (OtherExn (''Respuesta XML DGII RFCE inv'' @ u_a @ ''lida: elemento ra'' @ u_i @ ''z '' @ apo @ rootName @ apo
              @ '' no contiene campos obligatorios (estado/codigo).''))
            else Inr r)"

definition deserializeConsultaResultado :: "xml_reader \<Rightarrow> string \<Rightarrow> exn + ConsultaResultadoResponse" where
  "deserializeConsultaResultado xml text = (case xml_root xml ''RespuestaConsultaTrackId'' text of
       Inl e \<Rightarrow> Inl e
     | Inr (rootName, cs) \<Rightarrow>
         let r = \<lparr> crr_trackId = childText cs ''trackId'', crr_codigo = childInt cs ''codigo'', crr_estado = childText cs ''estado'',
                   crr_rnc = childText cs ''rnc'', crr_eNcf = childText cs ''encf'',
                   crr_secuenciaUtilizada = childBool cs ''secuenciaUtilizada'',
                   crr_fechaRecepcion = childText cs ''fechaRecepcion'', crr_mensajes = parseMensajes cs \<rparr>
         in if crr_estado r = [] \<and> crr_trackId r = [] \<and> crr_codigo r = 0 \<and> crr_mensajes r = []
            then Inl (OtherExn (''Respuesta XML DGII Consulta inv'' @ u_a @ ''lida: elemento ra'' @ u_i @ ''z '' @ apo @ rootName @ apo
              @ '' no contiene informaci'' @ u_o @ ''n de estado.''))
            else Inr r)"

subsection \<open>URLs\<close>

definition unreserved :: "char \<Rightarrow> bool" where
  "unreserved c \<longleftrightarrow> isalnum c \<or> c \<in> {CHR ''-'', CHR ''_'', CHR ''.'', CHR ''~''}"

definition upper_hex :: "nat \<Rightarrow> char" where
  "upper_hex n = ''0123456789ABCDEF'' ! n"

definition encode_char :: "char \<Rightarrow> string" where
  "encode_char c = (if unreserved c then [c] else [CHR ''%'', upper_hex (code c div 16), upper_hex (code c mod 16)])"

definition urlEncode :: "string \<Rightarrow> string" where
  "urlEncode s = concat (map encode_char s)"

record TimbreEcfRequest =
  te_rncEmisor :: string
  te_rncComprador :: string
  te_eNcf :: string
  te_fechaEmision :: string
  te_montoTotal :: dbl
  te_fechaFirma :: string
  te_codigoSeguridad :: string

record TimbreFcRequest =
  tf_rncEmisor :: string
  tf_eNcf :: string
  tf_montoTotal :: dbl
  tf_codigoSeguridad :: string

definition encf_of_type :: "string \<Rightarrow> string \<Rightarrow> bool" where
  "encf_of_type tipo encf \<longleftrightarrow> starts_with (''E'' @ tipo) encf \<or> starts_with (''e'' @ tipo) encf"

definition omitEmptyBuyer :: "TimbreEcfRequest \<Rightarrow> bool" where
  "omitEmptyBuyer req \<longleftrightarrow> encf_of_type ''43'' (te_eNcf req)
     \<or> (te_rncComprador req = [] \<and> (encf_of_type ''33'' (te_eNcf req) \<or> encf_of_type ''34'' (te_eNcf req) \<or> encf_of_type ''47'' (te_eNcf req)))"

definition buildTimbreUrl :: "string \<Rightarrow> TimbreEcfRequest \<Rightarrow> string" where
  "buildTimbreUrl baseUrl req =
     baseUrl @ ''?rncemisor='' @ urlEncode (te_rncEmisor req)
     @ (if omitEmptyBuyer req then [] else ''&rnccomprador='' @ urlEncode (te_rncComprador req))
     @ ''&encf='' @ urlEncode (te_eNcf req)
     @ ''&fechaemision='' @ urlEncode (te_fechaEmision req)
     @ ''&montototal='' @ urlEncode (fmt_fixed 2 (te_montoTotal req))
     @ ''&fechafirma='' @ urlEncode (te_fechaFirma req)
     @ ''&codigoseguridad='' @ urlEncode (te_codigoSeguridad req)"

definition buildTimbreFcUrl :: "string \<Rightarrow> TimbreFcRequest \<Rightarrow> string" where
  "buildTimbreFcUrl baseUrl req =
     baseUrl @ ''?rncemisor='' @ urlEncode (tf_rncEmisor req) @ ''&encf='' @ urlEncode (tf_eNcf req)
     @ ''&montototal='' @ urlEncode (fmt_fixed 2 (tf_montoTotal req))
     @ ''&codigoseguridad='' @ urlEncode (tf_codigoSeguridad req)"

subsection \<open>Requests\<close>

record cpr_response =
  cr_error :: int
  cr_error_message :: string
  cr_status :: int
  cr_text :: string
  cr_contentType :: string

datatype dgii_request =
    PostPart string string string string
  | PostText string string string
  | GetAs string string
  | GetOpen string

record 'r transport_env =
  dt_redis :: "'r redis"
  dt_auth :: "auth_env option"
  dt_others :: "int \<Rightarrow> 'r cache \<Rightarrow> 'r cache"
  dt_lockValue :: "bool \<Rightarrow> string"
  dt_config :: EcfEnvironmentConfig
  dt_http :: "dgii_request list \<Rightarrow> dgii_request \<Rightarrow> cpr_response"
  dt_json :: "string \<Rightarrow> json option"
  dt_dump :: "json \<Rightarrow> string"
  dt_xml :: xml_reader

record 'r transport_state =
  ts_token :: "'r token_state"
  ts_requests :: "dgii_request list"

definition validateDgiiResponse :: "cpr_response \<Rightarrow> exn + cpr_response" where
  "validateDgiiResponse resp =
     (if cr_error resp \<noteq> 0 then Inl (OtherExn (''Fallo de red/transporte con DGII: '' @ cr_error_message resp
        @ '' (codigo '' @ dec_int (cr_error resp) @ '')''))
      else if cr_status resp = 0 then Inl (OtherExn ''No se pudo conectar con DGII (HTTP 0)'')
      else if 500 \<le> cr_status resp then Inl (OtherExn (''Fallo en servidor DGII (HTTP '' @ dec_int (cr_status resp) @ ''): '' @ cr_text resp))
      else if cr_status resp = 401 \<or> cr_status resp = 429 then
        Inl (OtherExn (''Petici'' @ u_o @ ''n rechazada por DGII (HTTP '' @ dec_int (cr_status resp) @ ''): '' @ cr_text resp))
      else Inr resp)"

definition http :: "'r transport_env \<Rightarrow> dgii_request \<Rightarrow> 'r transport_state \<Rightarrow> cpr_response \<times> 'r transport_state" where
  "http env req st = (dt_http env (ts_requests st) req, st \<lparr> ts_requests := ts_requests st @ [req] \<rparr>)"

definition getAuthToken :: "'r transport_env \<Rightarrow> bool \<Rightarrow> int \<Rightarrow> 'r transport_state \<Rightarrow> (exn + string) \<times> 'r transport_state" where
  "getAuthToken env again now st = (case dt_auth env of
       None \<Rightarrow> (Inl (OtherExn (''No hay administrador de token configurado (falta certificado de firma).'')), st)
     | Some auth \<Rightarrow> (case getToken (dt_redis env) auth (dt_others env) now (dt_lockValue env again) (ts_token st) of
           (r, tk) \<Rightarrow> (r, st \<lparr> ts_token := tk \<rparr>)))"

text \<open>One attempt, and a second one with a new token when the first was answered 401.\<close>

definition sendWithReactiveAuth ::
    "'r transport_env \<Rightarrow> int \<Rightarrow> (string \<Rightarrow> dgii_request) \<Rightarrow> 'r transport_state \<Rightarrow> (exn + cpr_response) \<times> 'r transport_state" where
  "sendWithReactiveAuth env now fn st = (case getAuthToken env False now st of
       (Inl e, st1) \<Rightarrow> (Inl e, st1)
     | (Inr token, st1) \<Rightarrow> (case http env (fn token) st1 of
           (resp, st2) \<Rightarrow>
             if cr_status resp = 401 \<and> dt_auth env \<noteq> None then
               (case getAuthToken env True now (st2 \<lparr> ts_token := invalidate (dt_redis env) (the (dt_auth env)) now (ts_token st2) \<rparr>) of
                  (Inl e, st3) \<Rightarrow> (Inl e, st3)
                | (Inr freshToken, st3) \<Rightarrow> (case http env (fn freshToken) st3 of
                      (resp2, st4) \<Rightarrow> (validateDgiiResponse resp2, st4)))
             else (validateDgiiResponse resp, st2)))"

text \<open>The operations that need no token.\<close>

definition openGet :: "'r transport_env \<Rightarrow> string \<Rightarrow> 'r transport_state \<Rightarrow> (exn + cpr_response) \<times> 'r transport_state" where
  "openGet env url st = (case http env (GetOpen url) st of (resp, st1) \<Rightarrow> (validateDgiiResponse resp, st1))"

text \<open>A request, then the reading of its answer.\<close>

definition answered ::
    "(cpr_response \<Rightarrow> exn + 'a) \<Rightarrow> (exn + cpr_response) \<times> 'r transport_state \<Rightarrow> (exn + 'a) \<times> 'r transport_state" where
  "answered read x = (case x of (Inl e, st) \<Rightarrow> (Inl e, st) | (Inr resp, st) \<Rightarrow> (read resp, st))"

definition looksLikeXml :: "cpr_response \<Rightarrow> bool" where
  "looksLikeXml resp \<longleftrightarrow> contains ''application/xml'' (cr_contentType resp)
     \<or> starts_with ''<'' (dropWhile xml_blank (cr_text resp))"

text \<open>A discarded text reads like a value without members.\<close>

definition parseJson :: "'r transport_env \<Rightarrow> string \<Rightarrow> json" where
  "parseJson env text = value_or (dt_json env text) NullJ"

text \<open>A failure to read the XML of an error page is swallowed.\<close>

definition attempt :: "exn + 'a \<Rightarrow> 'a option" where
  "attempt r = (case r of Inl e \<Rightarrow> None | Inr x \<Rightarrow> Some x)"

definition http_failure :: "string \<Rightarrow> cpr_response \<Rightarrow> exn" where
  "http_failure doing resp = OtherExn (''Error HTTP '' @ dec_int (cr_status resp) @ doing @ cr_text resp)"

subsection \<open>Sending\<close>

definition recepcion_json :: "'r transport_env \<Rightarrow> json \<Rightarrow> EcfRecepcionResponse" where
  "recepcion_json env j = \<lparr> rec_trackId = jstr (dt_dump env) j ''trackId'', rec_error = opt_text (jstr (dt_dump env) j ''error''),
     rec_mensaje = opt_text (jstr (dt_dump env) j ''mensaje'') \<rparr>"

definition readEcfRecepcion :: "'r transport_env \<Rightarrow> cpr_response \<Rightarrow> exn + EcfRecepcionResponse" where
  "readEcfRecepcion env resp =
     (let fromXml = deserializeEcfRecepcion (dt_xml env) (cr_text resp);
          fromJson = recepcion_json env (parseJson env (cr_text resp))
      in if 400 \<le> cr_status resp then
           (case (if looksLikeXml resp then attempt fromXml else None) of
              Some r \<Rightarrow> Inr r
            | None \<Rightarrow> if rec_error fromJson \<noteq> None \<or> rec_trackId fromJson \<noteq> [] then Inr fromJson
                else Inl (http_failure ('' en recepci'' @ u_o @ ''n DGII: '') resp))
         else if looksLikeXml resp then fromXml
         else if rec_trackId fromJson = [] \<and> rec_error fromJson = None
           then Inl (OtherExn ''Respuesta JSON DGII sin trackId ni mensaje de error.'')
         else Inr fromJson)"

definition dgii_sendEcf ::
    "'r transport_env \<Rightarrow> int \<Rightarrow> string \<Rightarrow> string \<Rightarrow> 'r transport_state \<Rightarrow> (exn + EcfRecepcionResponse) \<times> 'r transport_state" where
  "dgii_sendEcf env now xmlContent fileName st = answered (readEcfRecepcion env)
     (sendWithReactiveAuth env now
        (\<lambda>t. PostPart (ec_recepcionUrl (dt_config env) @ ''/api/facturaselectronicas'') t xmlContent fileName) st)"

definition rfce_json :: "'r transport_env \<Rightarrow> json \<Rightarrow> RfceRecepcionResponse" where
  "rfce_json env j = \<lparr> rfr_codigo = jint j ''codigo'', rfr_estado = jstr (dt_dump env) j ''estado'',
     rfr_mensajes = jmensajes (dt_dump env) j, rfr_eNcf = jstr (dt_dump env) j ''encf'',
     rfr_secuenciaUtilizada = jbool j ''secuenciaUtilizada'' \<rparr>"

definition readRfceRecepcion :: "'r transport_env \<Rightarrow> cpr_response \<Rightarrow> exn + RfceRecepcionResponse" where
  "readRfceRecepcion env resp =
     (let fromXml = deserializeRfceRecepcion (dt_xml env) (cr_text resp);
          fromJson = rfce_json env (parseJson env (cr_text resp))
      in if 400 \<le> cr_status resp then
           (case (if looksLikeXml resp then attempt fromXml else None) of
              Some r \<Rightarrow> Inr r
            | None \<Rightarrow> if rfr_estado fromJson \<noteq> [] \<or> rfr_mensajes fromJson \<noteq> [] \<or> rfr_codigo fromJson \<noteq> 0 then Inr fromJson
                else Inl (http_failure ('' en recepci'' @ u_o @ ''n RFCE DGII: '') resp))
         else if looksLikeXml resp then fromXml else Inr fromJson)"

definition dgii_sendRfce ::
    "'r transport_env \<Rightarrow> int \<Rightarrow> string \<Rightarrow> string \<Rightarrow> 'r transport_state \<Rightarrow> (exn + RfceRecepcionResponse) \<times> 'r transport_state" where
  "dgii_sendRfce env now xmlContent fileName st = answered (readRfceRecepcion env)
     (sendWithReactiveAuth env now
        (\<lambda>t. PostPart (ec_recepcionFcUrl (dt_config env) @ ''/api/recepcion/ecf'') t xmlContent fileName) st)"

subsection \<open>Queries on documents\<close>

definition readConsultaResultado :: "'r transport_env \<Rightarrow> string \<Rightarrow> cpr_response \<Rightarrow> exn + ConsultaResultadoResponse" where
  "readConsultaResultado env trackId resp =
     (if 400 \<le> cr_status resp then Inl (http_failure ('' en consulta DGII trackId '' @ trackId @ '': '') resp)
      else let j = parseJson env (cr_text resp) in
        Inr \<lparr> crr_trackId = jstr (dt_dump env) j ''trackId'', crr_codigo = jint j ''codigo'', crr_estado = jstr (dt_dump env) j ''estado'',
              crr_rnc = jstr (dt_dump env) j ''rnc'', crr_eNcf = jstr (dt_dump env) j ''encf'',
              crr_secuenciaUtilizada = jbool j ''secuenciaUtilizada'',
              crr_fechaRecepcion = jstr (dt_dump env) j ''fechaRecepcion'', crr_mensajes = jmensajes (dt_dump env) j \<rparr>)"

definition dgii_consultarResultado ::
    "'r transport_env \<Rightarrow> int \<Rightarrow> string \<Rightarrow> 'r transport_state \<Rightarrow> (exn + ConsultaResultadoResponse) \<times> 'r transport_state" where
  "dgii_consultarResultado env now trackId st = answered (readConsultaResultado env trackId)
     (sendWithReactiveAuth env now
        (GetAs (ec_consultaResultadoUrl (dt_config env) @ ''/api/consultas/estado?trackid='' @ trackId)) st)"

definition estado_url :: "'r transport_env \<Rightarrow> string \<Rightarrow> string \<Rightarrow> string option \<Rightarrow> string option \<Rightarrow> string" where
  "estado_url env rncEmisor eNcf rncComprador codigoSeguridad =
     ec_consultaEstadoUrl (dt_config env) @ ''/api/consultas/estado?rncemisor='' @ rncEmisor @ ''&ncfelectronico='' @ eNcf
     @ (if has_text rncComprador then ''&rnccomprador='' @ value_or rncComprador [] else [])
     @ (if has_text codigoSeguridad then ''&codigoseguridad='' @ urlEncode (value_or codigoSeguridad []) else [])"

definition readConsultaEstado :: "'r transport_env \<Rightarrow> cpr_response \<Rightarrow> exn + ConsultaEstadoResponse" where
  "readConsultaEstado env resp =
     (let j = parseJson env (cr_text resp); str = jstr (dt_dump env) j in
      Inr \<lparr> cer_codigo = jint j ''codigo'', cer_estado = str ''estado'', cer_rncEmisor = str ''rncEmisor'',
            cer_ncfElectronico = str ''ncfElectronico'', cer_montoTotal = jdbl j ''montoTotal'', cer_totalITBIS = jdbl j ''totalITBIS'',
            cer_fechaEmision = str ''fechaEmision'', cer_fechaFirma = str ''fechaFirma'', cer_rncComprador = str ''rncComprador'',
            cer_codigoSeguridad = str ''codigoSeguridad'', cer_idExtranjero = str ''idExtranjero'' \<rparr>)"

definition dgii_consultarEstado ::
    "'r transport_env \<Rightarrow> int \<Rightarrow> string \<Rightarrow> string \<Rightarrow> string option \<Rightarrow> string option \<Rightarrow> 'r transport_state
     \<Rightarrow> (exn + ConsultaEstadoResponse) \<times> 'r transport_state" where
  "dgii_consultarEstado env now rncEmisor eNcf rncComprador codigoSeguridad st = answered (readConsultaEstado env)
     (sendWithReactiveAuth env now (GetAs (estado_url env rncEmisor eNcf rncComprador codigoSeguridad)) st)"

definition json_items :: "json \<Rightarrow> json list" where
  "json_items j = (case j of ArrJ xs \<Rightarrow> xs | _ \<Rightarrow> [])"

definition dgii_consultarTrackIds ::
    "'r transport_env \<Rightarrow> int \<Rightarrow> string \<Rightarrow> string \<Rightarrow> 'r transport_state \<Rightarrow> (exn + TrackIdDetalle list) \<times> 'r transport_state" where
  "dgii_consultarTrackIds env now rncEmisor eNcf st = answered
     (\<lambda>resp. Inr (map (\<lambda>x. \<lparr> tid_trackId = jstr (dt_dump env) x ''trackId'', tid_estado = jstr (dt_dump env) x ''estado'',
          tid_fechaRecepcion = jstr (dt_dump env) x ''fechaRecepcion'' \<rparr>) (json_items (parseJson env (cr_text resp)))))
     (sendWithReactiveAuth env now (GetAs (ec_consultaTrackIdsUrl (dt_config env) @ ''/api/trackids/consulta?rncemisor='' @ rncEmisor
        @ ''&encf='' @ eNcf)) st)"

record RfceConsultaResponse =
  rcr_rnc :: string
  rcr_eNcf :: string
  rcr_secuenciaUtilizada :: bool
  rcr_codigo :: string
  rcr_estado :: string
  rcr_mensajes :: "MensajeCodigo list"

definition dgii_consultarRfce ::
    "'r transport_env \<Rightarrow> int \<Rightarrow> string \<Rightarrow> string \<Rightarrow> string \<Rightarrow> 'r transport_state \<Rightarrow> (exn + RfceConsultaResponse) \<times> 'r transport_state" where
  "dgii_consultarRfce env now rncEmisor eNcf codigoSeguridad st = answered
     (\<lambda>resp. let j = parseJson env (cr_text resp); str = jstr (dt_dump env) j in
        Inr \<lparr> rcr_rnc = str ''rnc'', rcr_eNcf = str ''encf'', rcr_secuenciaUtilizada = jbool j ''secuenciaUtilizada'',
              rcr_codigo = str ''codigo'', rcr_estado = str ''estado'', rcr_mensajes = jmensajes (dt_dump env) j \<rparr>)
     (sendWithReactiveAuth env now (GetAs (ec_consultaRfceUrl (dt_config env) @ ''/api/Consultas/Consulta?RNC_Emisor='' @ rncEmisor
        @ ''&ENCF='' @ eNcf @ ''&Cod_Seguridad_eCF='' @ codigoSeguridad)) st)"

subsection \<open>Approvals and cancelled ranges\<close>

record AprobacionComercialResponse =
  acr_codigo :: string
  acr_estado :: string
  acr_mensaje :: "string list"

definition readAprobacion :: "'r transport_env \<Rightarrow> cpr_response \<Rightarrow> exn + AprobacionComercialResponse" where
  "readAprobacion env resp =
     (if list_all isspace (cr_text resp) \<and> (cr_status resp = 200 \<or> cr_status resp = 204) then
        Inr \<lparr> acr_codigo = ''1'', acr_estado = ''Aceptado'', acr_mensaje = [] \<rparr>
      else case dt_json env (cr_text resp) of
          Some (ObjJ ms) \<Rightarrow> (let j = ObjJ ms; estado = jstr (dt_dump env) j ''estado'' in
            Inr \<lparr> acr_codigo = jstr (dt_dump env) j ''codigo'', acr_estado = (if estado = [] then cr_text resp else estado),
                  acr_mensaje = json_texts (dt_dump env) j ''mensaje'' \<rparr>)
        | _ \<Rightarrow> Inr \<lparr> acr_codigo = (if 200 \<le> cr_status resp \<and> cr_status resp < 300 then ''1'' else ''2''),
                     acr_estado = cr_text resp, acr_mensaje = [] \<rparr>)"

definition dgii_sendAprobacionComercial ::
    "'r transport_env \<Rightarrow> int \<Rightarrow> string \<Rightarrow> string \<Rightarrow> 'r transport_state \<Rightarrow> (exn + AprobacionComercialResponse) \<times> 'r transport_state" where
  "dgii_sendAprobacionComercial env now xmlContent fileName st = answered (readAprobacion env)
     (sendWithReactiveAuth env now
        (\<lambda>t. PostPart (ec_aprobacionComercialUrl (dt_config env) @ ''/api/aprobacioncomercial'') t xmlContent fileName) st)"

record AnulacionResponse =
  anr_rnc :: string
  anr_codigo :: string
  anr_nombre :: string
  anr_mensajes :: "string list"

definition dgii_anularRangos ::
    "'r transport_env \<Rightarrow> int \<Rightarrow> string \<Rightarrow> 'r transport_state \<Rightarrow> (exn + AnulacionResponse) \<times> 'r transport_state" where
  "dgii_anularRangos env now xmlContent st = answered
     (\<lambda>resp. let j = parseJson env (cr_text resp); str = jstr (dt_dump env) j in
        Inr \<lparr> anr_rnc = str ''rnc'', anr_codigo = str ''codigo'', anr_nombre = str ''nombre'',
              anr_mensajes = json_texts (dt_dump env) j ''mensajes'' \<rparr>)
     (sendWithReactiveAuth env now (\<lambda>t. PostText (ec_anulacionRangosUrl (dt_config env) @ ''/api/operaciones/anularrango'') t xmlContent) st)"

subsection \<open>Directory, stamps and service status\<close>

record DirectorioContribuyente =
  dc_nombre :: string
  dc_rnc :: string
  dc_urlRecepcion :: string
  dc_urlAceptacion :: string
  dc_urlOpcional :: string

definition directorio_json :: "'r transport_env \<Rightarrow> json \<Rightarrow> DirectorioContribuyente" where
  "directorio_json env j = (let str = jstr (dt_dump env) j in
     \<lparr> dc_nombre = str ''nombre'', dc_rnc = str ''rnc'', dc_urlRecepcion = str ''urlRecepcion'',
       dc_urlAceptacion = str ''urlAceptacion'', dc_urlOpcional = str ''urlOpcional'' \<rparr>)"

definition dgii_consultarDirectorio ::
    "'r transport_env \<Rightarrow> 'r transport_state \<Rightarrow> (exn + DirectorioContribuyente list) \<times> 'r transport_state" where
  "dgii_consultarDirectorio env st = answered
     (\<lambda>resp. Inr (map (directorio_json env) (json_items (parseJson env (cr_text resp)))))
     (openGet env (ec_directorioUrl (dt_config env) @ ''/api/consultas/listado'') st)"

definition dgii_consultarDirectorioPorRnc ::
    "'r transport_env \<Rightarrow> string \<Rightarrow> 'r transport_state \<Rightarrow> (exn + DirectorioContribuyente) \<times> 'r transport_state" where
  "dgii_consultarDirectorioPorRnc env rnc st = answered
     (\<lambda>resp. Inr (directorio_json env (parseJson env (cr_text resp))))
     (openGet env (ec_directorioUrl (dt_config env) @ ''/api/consultas/obtenerdirectorioporrnc?RNC='' @ rnc) st)"

record TimbreResponse =
  tr_rncEmisor :: string
  tr_razonSocialEmisor :: string
  tr_rncComprador :: string
  tr_razonSocialComprador :: string
  tr_eNcf :: string
  tr_fechaEmision :: string
  tr_totalITBIS :: dbl
  tr_montoTotal :: dbl
  tr_estado :: string

definition dgii_consultarTimbre ::
    "'r transport_env \<Rightarrow> TimbreEcfRequest \<Rightarrow> 'r transport_state \<Rightarrow> (exn + TimbreResponse) \<times> 'r transport_state" where
  "dgii_consultarTimbre env req st = answered
     (\<lambda>resp. let j = parseJson env (cr_text resp); str = jstr (dt_dump env) j in
        Inr \<lparr> tr_rncEmisor = str ''rncEmisor'', tr_razonSocialEmisor = str ''razonSocialEmisor'',
              tr_rncComprador = str ''rncComprador'', tr_razonSocialComprador = str ''razonSocialComprador'', tr_eNcf = str ''eNcf'',
              tr_fechaEmision = str ''fechaEmision'', tr_totalITBIS = jdbl j ''totalITBIS'', tr_montoTotal = jdbl j ''montoTotal'',
              tr_estado = str ''estado'' \<rparr>)
     (openGet env (buildTimbreUrl (ec_timbreUrl (dt_config env)) req) st)"

record TimbreFcResponse =
  tfr_rncEmisor :: string
  tfr_razonSocialEmisor :: string
  tfr_eNcf :: string
  tfr_estado :: string

definition dgii_consultarTimbreFc ::
    "'r transport_env \<Rightarrow> TimbreFcRequest \<Rightarrow> 'r transport_state \<Rightarrow> (exn + TimbreFcResponse) \<times> 'r transport_state" where
  "dgii_consultarTimbreFc env req st = answered
     (\<lambda>resp. let j = parseJson env (cr_text resp); str = jstr (dt_dump env) j in
        Inr \<lparr> tfr_rncEmisor = str ''rncEmisor'', tfr_razonSocialEmisor = str ''razonSocialEmisor'', tfr_eNcf = str ''eNcf'',
              tfr_estado = str ''estado'' \<rparr>)
     (openGet env (buildTimbreFcUrl (ec_timbreFcUrl (dt_config env)) req) st)"

record EstatusServicio =
  es_servicio :: string
  es_estatus :: string
  es_ambiente :: string

definition dgii_consultarEstatusServicios ::
    "'r transport_env \<Rightarrow> 'r transport_state \<Rightarrow> (exn + EstatusServicio list) \<times> 'r transport_state" where
  "dgii_consultarEstatusServicios env st = answered
     (\<lambda>resp. Inr (map (\<lambda>x. \<lparr> es_servicio = jstr (dt_dump env) x ''servicio'', es_estatus = jstr (dt_dump env) x ''estatus'',
          es_ambiente = jstr (dt_dump env) x ''ambiente'' \<rparr>) (json_items (parseJson env (cr_text resp)))))
     (openGet env (ec_estatusServiciosUrl (dt_config env) @ ''/api/estatusservicios/obtenerestatus'') st)"

record VentanaMantenimiento =
  vm_inicio :: string
  vm_fin :: string
  vm_descripcion :: string

definition dgii_consultarVentanasMantenimiento ::
    "'r transport_env \<Rightarrow> 'r transport_state \<Rightarrow> (exn + VentanaMantenimiento list) \<times> 'r transport_state" where
  "dgii_consultarVentanasMantenimiento env st = answered
     (\<lambda>resp. Inr (map (\<lambda>x. \<lparr> vm_inicio = jstr (dt_dump env) x ''inicio'', vm_fin = jstr (dt_dump env) x ''fin'',
          vm_descripcion = jstr (dt_dump env) x ''descripcion'' \<rparr>) (json_items (parseJson env (cr_text resp)))))
     (openGet env (ec_estatusServiciosUrl (dt_config env) @ ''/api/estatusservicios/obtenerventanasmantenimiento'') st)"

fun status_code_of :: "AmbienteEnum \<Rightarrow> int" where
  "status_code_of PreCertificacion = 1"
| "status_code_of Produccion = 2"
| "status_code_of Certificacion = 3"

definition dgii_verificarEstadoAmbiente ::
    "'r transport_env \<Rightarrow> AmbienteEnum \<Rightarrow> 'r transport_state \<Rightarrow> (exn + string) \<times> 'r transport_state" where
  "dgii_verificarEstadoAmbiente env ambiente st = answered (\<lambda>resp. Inr (cr_text resp))
     (openGet env (ec_estatusServiciosUrl (dt_config env) @ ''/api/estatusservicios/verificarestado?ambiente=''
        @ dec_int (status_code_of ambiente)) st)"

subsection \<open>What one operation exchanges\<close>

text \<open>An exchange the answer may be read from.\<close>

definition good_exchange :: "cpr_response \<Rightarrow> bool" where
  "good_exchange resp \<longleftrightarrow> cr_error resp = 0 \<and> cr_status resp \<noteq> 0 \<and> cr_status resp < 500 \<and> cr_status resp \<noteq> 401 \<and> cr_status resp \<noteq> 429"

lemma validate_Inr: "validateDgiiResponse resp = Inr r \<longleftrightarrow> r = resp \<and> good_exchange resp"
  by (auto simp: validateDgiiResponse_def good_exchange_def)

lemma auth_requests: "getAuthToken env again now st = (r, st') \<Longrightarrow> ts_requests st' = ts_requests st"
  by (auto simp: getAuthToken_def split: option.splits prod.splits)

text \<open>The requests of a call with a token, in order, and the answer it is read from.\<close>

lemma reactive_cases:
  assumes "sendWithReactiveAuth env now fn st = (r, st')"
  obtains (unsent) e where "ts_requests st' = ts_requests st" "r = Inl e"
  | (once) t resp where "ts_requests st' = ts_requests st @ [fn t]" "resp = dt_http env (ts_requests st) (fn t)"
      "r = validateDgiiResponse resp"
  | (stale) t e where "ts_requests st' = ts_requests st @ [fn t]" "cr_status (dt_http env (ts_requests st) (fn t)) = 401" "r = Inl e"
  | (again) t t' resp where "ts_requests st' = ts_requests st @ [fn t, fn t']" "cr_status (dt_http env (ts_requests st) (fn t)) = 401"
      "resp = dt_http env (ts_requests st @ [fn t]) (fn t')" "r = validateDgiiResponse resp"
proof -
  obtain a st1 where a: "getAuthToken env False now st = (a, st1)" by force
  note r1 = auth_requests [OF a]
  show thesis
  proof (cases a)
    case (Inl e)
    then show ?thesis using assms a r1 by (intro unsent) (auto simp: sendWithReactiveAuth_def)
  next
    case (Inr t)
    let ?resp = "dt_http env (ts_requests st) (fn t)" and ?st2 = "st1 \<lparr> ts_requests := ts_requests st @ [fn t] \<rparr>"
    show ?thesis
    proof (cases "cr_status ?resp = 401 \<and> dt_auth env \<noteq> None")
      case False
      then have "r = validateDgiiResponse ?resp" "st' = ?st2"
        using assms a Inr r1 by (auto simp: sendWithReactiveAuth_def http_def)
      then show ?thesis by (intro once) simp_all
    next
      case True
      let ?st3 = "?st2 \<lparr> ts_token := invalidate (dt_redis env) (the (dt_auth env)) now (ts_token ?st2) \<rparr>"
      obtain b st4 where b: "getAuthToken env True now ?st3 = (b, st4)" by force
      have r4: "ts_requests st4 = ts_requests st @ [fn t]" using auth_requests [OF b] by simp
      show ?thesis
      proof (cases b)
        case (Inl e)
        have "r = Inl e" "st' = st4" using assms a \<open>a = Inr t\<close> r1 True b Inl by (auto simp: sendWithReactiveAuth_def http_def)
        then show ?thesis using True r4 by (intro stale) auto
      next
        case (Inr t')
        have "r = validateDgiiResponse (dt_http env (ts_requests st @ [fn t]) (fn t'))"
          "ts_requests st' = ts_requests st @ [fn t, fn t']"
          using assms a \<open>a = Inr t\<close> r1 True b Inr r4 by (auto simp: sendWithReactiveAuth_def http_def)
        then show ?thesis using True by (intro again) simp_all
      qed
    qed
  qed
qed

lemma answered_cases:
  assumes "answered read x = (r, st')"
  obtains (failed) e where "x = (Inl e, st')" "r = Inl e" | (read) resp where "x = (Inr resp, st')" "r = read resp"
  using assms by (cases x; cases "fst x") (auto simp: answered_def)

subsection \<open>Properties of the transport\<close>

text \<open>C28. A document is posted at most twice by one call, and the second time only after the first
  was answered 401: the transport never resends on its own on a timeout or an error.\<close>
theorem document_posted_again_only_after_401:
  assumes "dgii_sendEcf env now xmlContent fileName st = (r, st')"
  shows "\<exists>new. ts_requests st' = ts_requests st @ new \<and> length new \<le> 2
    \<and> (\<forall>q \<in> set new. \<exists>t. q = PostPart (ec_recepcionUrl (dt_config env) @ ''/api/facturaselectronicas'') t xmlContent fileName)
    \<and> (length new = 2 \<longrightarrow> cr_status (dt_http env (ts_requests st) (new ! 0)) = 401)"
proof -
  let ?fn = "\<lambda>t. PostPart (ec_recepcionUrl (dt_config env) @ ''/api/facturaselectronicas'') t xmlContent fileName"
  obtain r0 where s: "sendWithReactiveAuth env now ?fn st = (r0, st')"
    using assms unfolding dgii_sendEcf_def by (cases rule: answered_cases) auto
  from s show ?thesis
  proof (cases rule: reactive_cases)
    case (again t t' resp)
    then show ?thesis by (intro exI [of _ "[?fn t, ?fn t']"]) auto
  qed auto
qed

text \<open>Whatever an operation answers was read from its last exchange, and that exchange did not
  fail: no transport error, no 401, no 429, no 5xx.\<close>
theorem answer_comes_from_a_good_exchange:
  assumes "dgii_sendEcf env now xmlContent fileName st = (Inr r, st')"
  shows "\<exists>hist q. ts_requests st' = hist @ [q] \<and> good_exchange (dt_http env hist q) \<and> readEcfRecepcion env (dt_http env hist q) = Inr r"
proof -
  let ?fn = "\<lambda>t. PostPart (ec_recepcionUrl (dt_config env) @ ''/api/facturaselectronicas'') t xmlContent fileName"
  obtain resp where s: "sendWithReactiveAuth env now ?fn st = (Inr resp, st')" and r: "readEcfRecepcion env resp = Inr r"
    using assms unfolding dgii_sendEcf_def by (cases rule: answered_cases) auto
  from s show ?thesis
  proof (cases rule: reactive_cases)
    case (once t resp')
    then show ?thesis using r validate_Inr [of resp' resp] by auto
  next
    case (again t t' resp')
    then show ?thesis using r validate_Inr [of resp' resp]
      by (intro exI [of _ "ts_requests st @ [?fn t]"] exI [of _ "?fn t'"]) auto
  qed auto
qed

lemma deserialized_conclusive:
  "deserializeEcfRecepcion xml text = Inr x \<Longrightarrow> rec_trackId x \<noteq> [] \<or> rec_error x \<noteq> None"
  by (auto simp: deserializeEcfRecepcion_def Let_def split: sum.splits if_splits)

text \<open>A submission is answered with a track id or an error, in XML and in JSON, on success and on
  an error page: an answer without either is an exception.\<close>
theorem submission_answer_is_conclusive:
  assumes "dgii_sendEcf env now xmlContent fileName st = (Inr r, st')"
  shows "rec_trackId r \<noteq> [] \<or> rec_error r \<noteq> None"
proof -
  obtain resp where "readEcfRecepcion env resp = Inr r"
    using assms by (auto simp: dgii_sendEcf_def answered_def split: sum.splits prod.splits)
  then show ?thesis using deserialized_conclusive [of "dt_xml env" "cr_text resp" r]
    by (auto simp: readEcfRecepcion_def Let_def attempt_def split: if_splits sum.splits option.splits)
qed

text \<open>An error page is taken for an answer by the status query: when the DGII answers it with, say,
  403 and a page that is not JSON, the estado is empty, and the resubmission of a document
  whose fate is unknown sends it a second time.\<close>
theorem error_page_resends_document:
  assumes "getAuthToken env False now ts = (Inr token, ts1)"
    and page: "resp = dt_http env (ts_requests ts) (GetAs (estado_url env (d_rncEmisor doc) (d_eNcf doc) None None) token)"
      "good_exchange resp" "dt_json env (cr_text resp) = None"
    and client: "cl_consultarEstado client (d_rncEmisor doc) (d_eNcf doc) None None
      = fst (dgii_consultarEstado env now (d_rncEmisor doc) (d_eNcf doc) None None ts)"
    and "\<not> too_young now' doc" "reconcileUncertain sv now' usr signer client dto tg doc w = (Inr rep, w')" "rp_status rep \<in> {200, 202}"
  shows "transmissions (new_events w w') = 1"
proof -
  have "cr_status resp \<noteq> 401" using page(2) by (simp add: good_exchange_def)
  then have "fst (sendWithReactiveAuth env now (GetAs (estado_url env (d_rncEmisor doc) (d_eNcf doc) None None)) ts) = Inr resp"
    using assms(1) page(1,2) auth_requests [OF assms(1)] validate_Inr [of resp resp]
    by (simp add: sendWithReactiveAuth_def http_def)
  then have "\<exists>s. fst (dgii_consultarEstado env now (d_rncEmisor doc) (d_eNcf doc) None None ts) = Inr s \<and> cer_estado s = []"
    using page(3) by (auto simp: dgii_consultarEstado_def answered_def readConsultaEstado_def parseJson_def Let_def jstr_def
        split: sum.splits prod.splits)
  then show ?thesis using empty_estado_is_resent [OF _ _ assms(6-8)] client by metis
qed

text \<open>What a server reads from an encoded parameter: three characters for each \<open>%\<close>.\<close>

fun percent_decode :: "string \<Rightarrow> string" where
  "percent_decode [] = []"
| "percent_decode (c # cs) = (if c = CHR ''%'' then char_of (nat (base_val 16 (take 2 cs))) # percent_decode (drop 2 cs)
     else c # percent_decode cs)"

lemma upper_hex_val: "n < 16 \<Longrightarrow> hex_val (upper_hex n) = int n"
proof -
  have "list_all (\<lambda>n. hex_val (upper_hex n) = int n) [0..<16]" by code_simp
  then show "n < 16 \<Longrightarrow> hex_val (upper_hex n) = int n" by (simp add: list_all_iff)
qed

lemma upper_hex_unreserved: "n < 16 \<Longrightarrow> unreserved (upper_hex n)"
proof -
  have "list_all (\<lambda>n. unreserved (upper_hex n)) [0..<16]" by code_simp
  then show "n < 16 \<Longrightarrow> unreserved (upper_hex n)" by (simp add: list_all_iff)
qed

lemma code_bounds: "code c div 16 < 16" "code c mod 16 < 16" "char_of (code c) = c"
proof -
  have "code c < 256" by (rule code_less)
  then show "code c div 16 < 16" "code c mod 16 < 16" by (simp_all add: less_mult_imp_div_less)
  show "char_of (code c) = c" by (simp add: code_def)
qed

lemma percent_not_unreserved: "unreserved c \<Longrightarrow> c \<noteq> CHR ''%''"
  by (auto simp: unreserved_def isalnum_def isalpha_def isupper_def islower_def isdigit_def code_def)

lemma decode_encoded_char: "percent_decode (encode_char c @ rest) = c # percent_decode rest"
proof (cases "unreserved c")
  case True
  then show ?thesis by (simp add: encode_char_def percent_not_unreserved)
next
  case False
  have "int (code c div 16) * 16 + int (code c mod 16) = int (code c)" by presburger
  then have "nat (base_val 16 [upper_hex (code c div 16), upper_hex (code c mod 16)]) = code c"
    by (simp add: base_val_def upper_hex_val code_bounds)
  then show ?thesis using False by (simp add: encode_char_def code_bounds)
qed

text \<open>A value survives its URL: it is read back as it was, and the encoded text holds no character
  that could end the parameter or begin another.\<close>
theorem urlEncode_round_trip:
  "percent_decode (urlEncode s) = s \<and> list_all (\<lambda>c. unreserved c \<or> c = CHR ''%'') (urlEncode s)"
proof (induction s)
  case (Cons c cs)
  have "urlEncode (c # cs) = encode_char c @ urlEncode cs" by (simp add: urlEncode_def)
  moreover have "list_all (\<lambda>c. unreserved c \<or> c = CHR ''%'') (encode_char c)"
    by (simp add: encode_char_def upper_hex_unreserved code_bounds)
  ultimately show ?case using Cons.IH by (simp add: decode_encoded_char)
qed (simp add: urlEncode_def)

subsection \<open>The properties at work\<close>

text \<open>A DGII that refuses the first token, then takes the document; its status page is a 403.\<close>

definition demo_http :: "dgii_request list \<Rightarrow> dgii_request \<Rightarrow> cpr_response" where
  "demo_http hist q = (case q of
       PostPart u t x f \<Rightarrow> \<lparr> cr_error = 0, cr_error_message = [], cr_status = (if hist = [] then 401 else 200),
         cr_text = ''{}'', cr_contentType = ''application/json'' \<rparr>
     | _ \<Rightarrow> \<lparr> cr_error = 0, cr_error_message = [], cr_status = 403, cr_text = ''Request blocked'', cr_contentType = ''text/html'' \<rparr>)"

definition demo_transport :: "unit transport_env" where
  "demo_transport = \<lparr> dt_redis = demo_redis, dt_auth = Some demo_auth, dt_others = (\<lambda>t c. c), dt_lockValue = (\<lambda>b. ''a''),
     dt_config = getConfig PreCertificacion, dt_http = demo_http,
     dt_json = (\<lambda>s. if s = ''{}'' then Some (ObjJ [(''TRACKID'', StrJ ''T-1'')]) else None),
     dt_dump = (\<lambda>j. []), dt_xml = (\<lambda>s. None) \<rparr>"

definition demo_link :: "unit transport_state" where
  "demo_link = \<lparr> ts_token = demo_manager demo_cache, ts_requests = [] \<rparr>"

definition demo_sent :: "(exn + EcfRecepcionResponse) \<times> unit transport_state" where
  "demo_sent = dgii_sendEcf demo_transport 1000 ''<ECF/>'' ''f.xml'' demo_link"

lemma demo_sent_facts:
  "fst demo_sent = Inr \<lparr> rec_trackId = ''T-1'', rec_error = None, rec_mensaje = None \<rparr>" "ts_requests demo_link = []"
  by code_simp+

lemma demo_sent_run:
  "dgii_sendEcf demo_transport 1000 ''<ECF/>'' ''f.xml'' demo_link
    = (Inr \<lparr> rec_trackId = ''T-1'', rec_error = None, rec_mensaje = None \<rparr>, snd demo_sent)"
  using demo_sent_facts(1) by (simp add: demo_sent_def prod_eq_iff)

theorem document_posted_again_only_after_401_witness: "length (ts_requests (snd demo_sent)) \<le> 2"
  using document_posted_again_only_after_401 [OF demo_sent_run] demo_sent_facts(2) by auto

theorem answer_comes_from_a_good_exchange_witness:
  "\<exists>hist q. ts_requests (snd demo_sent) = hist @ [q] \<and> good_exchange (demo_http hist q)"
  using answer_comes_from_a_good_exchange [OF demo_sent_run] by (auto simp: demo_transport_def)

theorem submission_answer_is_conclusive_witness:
  "rec_trackId (projr (fst demo_sent)) @ value_or (rec_error (projr (fst demo_sent))) [] \<noteq> []"
  using submission_answer_is_conclusive [OF demo_sent_run] demo_sent_facts(1) by simp

lemma demo_status_page:
  "getAuthToken demo_transport False 1000 demo_link = (Inr ''tok'', snd (getAuthToken demo_transport False 1000 demo_link))"
  "fst (dgii_consultarEstado demo_transport 1000 r e None None demo_link) = Inr (demo_estado [])"
proof -
  have t: "fst (getAuthToken demo_transport False 1000 demo_link) = Inr ''tok''" by code_simp
  then show g: "getAuthToken demo_transport False 1000 demo_link = (Inr ''tok'', snd (getAuthToken demo_transport False 1000 demo_link))"
    by (simp add: prod_eq_iff)
  show "fst (dgii_consultarEstado demo_transport 1000 r e None None demo_link) = Inr (demo_estado [])"
    by (subst dgii_consultarEstado_def, subst sendWithReactiveAuth_def, subst g)
      (simp add: http_def demo_transport_def demo_http_def validateDgiiResponse_def answered_def readConsultaEstado_def parseJson_def
        jstr_def jint_def jdbl_def demo_estado_def Let_def)
qed

theorem error_page_resends_document_witness:
  "transmissions (new_events demo_world (snd (demo_uncertain []))) = 1"
proof (rule error_page_resends_document [OF demo_status_page(1), of _ demo_doubtful "demo_client []" 1709210096 "demo_services False []"
      "''System''" "demo_signer False" demo_invoice demo_target demo_world "projr (fst (demo_uncertain []))"])
  let ?q = "GetAs (estado_url demo_transport (d_rncEmisor demo_doubtful) (d_eNcf demo_doubtful) None None) ''tok''"
  show "dt_http demo_transport (ts_requests demo_link) ?q = dt_http demo_transport (ts_requests demo_link) ?q" ..
  show "good_exchange (dt_http demo_transport (ts_requests demo_link) ?q)"
    "dt_json demo_transport (cr_text (dt_http demo_transport (ts_requests demo_link) ?q)) = None"
    by (simp_all add: demo_transport_def demo_http_def good_exchange_def)
  show "reconcileUncertain (demo_services False []) 1709210096 ''System'' (demo_signer False) (demo_client [])
      demo_invoice demo_target demo_doubtful demo_world = (Inr (projr (fst (demo_uncertain []))), snd (demo_uncertain []))"
    unfolding demo_uncertain_def [symmetric] by (rule reply_status_pair [OF demo_uncertain_status])
  show "rp_status (projr (fst (demo_uncertain []))) \<in> {200, 202}"
    using reply_status_Inr [OF demo_uncertain_status] by simp
qed (simp_all add: demo_status_page(2) demo_client_def too_young_def demo_doubtful_def demo_document_def new_document_def)

end
