(* ===== verification/Cached_Client.thy ===== *)
theory Cached_Client
  imports Dgii_Transport
begin

text \<open>
  CachedEcfClient.cpp: the client that answers the taxpayers' directory, the status of the
  services and the maintenance windows from the shared cache, and asks the DGII when there is
  nothing there.  The values are kept as JSON (ICacheService.h, \<open>getObject\<close> and \<open>setObject\<close>);
  nlohmann's parser and printer are those of the transport.
\<close>

subsection \<open>Objects in the cache\<close>

definition getObject :: "'r redis \<Rightarrow> int \<Rightarrow> (string \<Rightarrow> 'a option) \<Rightarrow> string \<Rightarrow> 'r cache \<Rightarrow> 'a option \<times> 'r cache" where
  "getObject redis now read key c = (case cache_get redis now key c of
     (None, c1) \<Rightarrow> (None, c1) | (Some text, c1) \<Rightarrow> (read text, c1))"

definition setObject ::
    "'r redis \<Rightarrow> int \<Rightarrow> ('a \<Rightarrow> string) \<Rightarrow> string \<Rightarrow> 'a \<Rightarrow> int \<Rightarrow> 'r cache \<Rightarrow> 'r cache" where
  "setObject redis now print key v seconds c = snd (cache_set redis now key (print v) (Some seconds) c)"

text \<open>A member by its exact name, which must be a text.\<close>

fun json_at :: "json \<Rightarrow> string \<Rightarrow> string option" where
  "json_at (ObjJ members) key = (case map_of members key of Some (StrJ s) \<Rightarrow> Some s | _ \<Rightarrow> None)"
| "json_at j key = None"

definition all_texts :: "(string list \<Rightarrow> 'a) \<Rightarrow> string list \<Rightarrow> json \<Rightarrow> 'a option" where
  "all_texts build names j = map_option build (those (map (json_at j) names))"

definition directorio_to_json :: "DirectorioContribuyente \<Rightarrow> json" where
  "directorio_to_json d = ObjJ [(''nombre'', StrJ (dc_nombre d)), (''rnc'', StrJ (dc_rnc d)),
     (''urlAceptacion'', StrJ (dc_urlAceptacion d)), (''urlOpcional'', StrJ (dc_urlOpcional d)),
     (''urlRecepcion'', StrJ (dc_urlRecepcion d))]"

definition directorio_from_json :: "json \<Rightarrow> DirectorioContribuyente option" where
  "directorio_from_json = all_texts
     (\<lambda>t. \<lparr> dc_nombre = t ! 0, dc_rnc = t ! 1, dc_urlRecepcion = t ! 2, dc_urlAceptacion = t ! 3, dc_urlOpcional = t ! 4 \<rparr>)
     [''nombre'', ''rnc'', ''urlRecepcion'', ''urlAceptacion'', ''urlOpcional'']"

definition servicio_to_json :: "EstatusServicio \<Rightarrow> json" where
  "servicio_to_json e = ObjJ [(''ambiente'', StrJ (es_ambiente e)), (''estatus'', StrJ (es_estatus e)),
     (''servicio'', StrJ (es_servicio e))]"

definition servicio_from_json :: "json \<Rightarrow> EstatusServicio option" where
  "servicio_from_json = all_texts (\<lambda>t. \<lparr> es_servicio = t ! 0, es_estatus = t ! 1, es_ambiente = t ! 2 \<rparr>)
     [''servicio'', ''estatus'', ''ambiente'']"

definition ventana_to_json :: "VentanaMantenimiento \<Rightarrow> json" where
  "ventana_to_json v = ObjJ [(''descripcion'', StrJ (vm_descripcion v)), (''fin'', StrJ (vm_fin v)), (''inicio'', StrJ (vm_inicio v))]"

definition ventana_from_json :: "json \<Rightarrow> VentanaMantenimiento option" where
  "ventana_from_json = all_texts (\<lambda>t. \<lparr> vm_inicio = t ! 0, vm_fin = t ! 1, vm_descripcion = t ! 2 \<rparr>)
     [''inicio'', ''fin'', ''descripcion'']"

definition list_from_json :: "(json \<Rightarrow> 'a option) \<Rightarrow> json \<Rightarrow> 'a list option" where
  "list_from_json f j = (case j of ArrJ xs \<Rightarrow> those (map f xs) | _ \<Rightarrow> None)"

definition read_json :: "'r transport_env \<Rightarrow> (json \<Rightarrow> 'a option) \<Rightarrow> string \<Rightarrow> 'a option" where
  "read_json env f text = Option.bind (dt_json env text) f"

subsection \<open>The four cached queries\<close>

text \<open>Cache first; then the client, whose answer is stored when it is worth it.\<close>

definition cached_query ::
    "'r redis \<Rightarrow> int \<Rightarrow> ('a \<Rightarrow> bool) \<Rightarrow> (string \<Rightarrow> 'a option) \<Rightarrow> ('a \<Rightarrow> string) \<Rightarrow> string \<Rightarrow> int
     \<Rightarrow> ('r transport_state \<Rightarrow> (exn + 'a) \<times> 'r transport_state) \<Rightarrow> 'r cache \<Rightarrow> 'r transport_state
     \<Rightarrow> (exn + 'a) \<times> 'r cache \<times> 'r transport_state" where
  "cached_query redis now useful read print key seconds ask c st = (case getObject redis now read key c of
     (cached, c1) \<Rightarrow>
       if cached \<noteq> None \<and> useful (the cached) then (Inr (the cached), c1, st)
       else (case ask st of
          (Inl e, st1) \<Rightarrow> (Inl e, c1, st1)
        | (Inr v, st1) \<Rightarrow> (Inr v, (if useful v then setObject redis now print key v seconds c1 else c1), st1)))"

definition cached_consultarDirectorio ::
    "'r redis \<Rightarrow> 'r transport_env \<Rightarrow> int \<Rightarrow> 'r cache \<Rightarrow> 'r transport_state
     \<Rightarrow> (exn + DirectorioContribuyente list) \<times> 'r cache \<times> 'r transport_state" where
  "cached_consultarDirectorio redis env now c st =
     cached_query redis now (\<lambda>ds. ds \<noteq> []) (read_json env (list_from_json directorio_from_json))
       (\<lambda>ds. dt_dump env (ArrJ (map directorio_to_json ds))) ''ecf:directory:all'' 86400 (dgii_consultarDirectorio env) c st"

definition cached_consultarDirectorioPorRnc ::
    "'r redis \<Rightarrow> 'r transport_env \<Rightarrow> int \<Rightarrow> string \<Rightarrow> 'r cache \<Rightarrow> 'r transport_state
     \<Rightarrow> (exn + DirectorioContribuyente) \<times> 'r cache \<times> 'r transport_state" where
  "cached_consultarDirectorioPorRnc redis env now rnc c st =
     cached_query redis now (\<lambda>d. dc_rnc d \<noteq> []) (read_json env directorio_from_json)
       (\<lambda>d. dt_dump env (directorio_to_json d)) (''ecf:directory:'' @ rnc) 86400 (dgii_consultarDirectorioPorRnc env rnc) c st"

definition cached_consultarEstatusServicios ::
    "'r redis \<Rightarrow> 'r transport_env \<Rightarrow> int \<Rightarrow> 'r cache \<Rightarrow> 'r transport_state
     \<Rightarrow> (exn + EstatusServicio list) \<times> 'r cache \<times> 'r transport_state" where
  "cached_consultarEstatusServicios redis env now c st =
     cached_query redis now (\<lambda>es. es \<noteq> []) (read_json env (list_from_json servicio_from_json))
       (\<lambda>es. dt_dump env (ArrJ (map servicio_to_json es))) ''ecf:services:status'' 300 (dgii_consultarEstatusServicios env) c st"

definition cached_consultarVentanasMantenimiento ::
    "'r redis \<Rightarrow> 'r transport_env \<Rightarrow> int \<Rightarrow> 'r cache \<Rightarrow> 'r transport_state
     \<Rightarrow> (exn + VentanaMantenimiento list) \<times> 'r cache \<times> 'r transport_state" where
  "cached_consultarVentanasMantenimiento redis env now c st =
     cached_query redis now (\<lambda>vs. vs \<noteq> []) (read_json env (list_from_json ventana_from_json))
       (\<lambda>vs. dt_dump env (ArrJ (map ventana_to_json vs))) ''ecf:maintenance:windows'' 3600
       (dgii_consultarVentanasMantenimiento env) c st"

subsection \<open>What is stored is what is read\<close>

lemma directorio_round_trip: "directorio_from_json (directorio_to_json d) = Some d"
  by (simp add: directorio_from_json_def directorio_to_json_def all_texts_def)

lemma servicio_round_trip: "servicio_from_json (servicio_to_json e) = Some e"
  by (simp add: servicio_from_json_def servicio_to_json_def all_texts_def)

lemma ventana_round_trip: "ventana_from_json (ventana_to_json v) = Some v"
  by (simp add: ventana_from_json_def ventana_to_json_def all_texts_def)

lemma list_round_trip:
  assumes "\<And>x. from (to x) = Some x"
  shows "list_from_json from (ArrJ (map to xs)) = Some xs"
proof -
  have "those (map from (map to xs)) = Some xs" by (induction xs) (simp_all add: assms)
  then show ?thesis by (simp add: list_from_json_def)
qed

text \<open>A useful answer, over a cache without a server, is in the cache afterwards.\<close>

lemma cached_query_stores:
  assumes "standalone c" "cached_query redis now useful read print key seconds ask c st = (Inr v, c1, st1)" "useful v"
    and "ts_requests st1 \<noteq> ts_requests st"
  shows "standalone c1 \<and> memory_item key c1 = Some (print v, Some (now + 1000 * seconds))"
proof -
  obtain r c0 where g: "getObject redis now read key c = (r, c0)" by force
  have "c0 = snd (cache_get redis now key c)"
    using g by (cases "cache_get redis now key c"; cases "fst (cache_get redis now key c)") (auto simp: getObject_def)
  then have c0: "standalone c0" using alone.ready_values(1) [OF assms(1)] by simp
  have "c1 = setObject redis now print key v seconds c0"
    using assms(2-4) g by (auto simp: cached_query_def split: if_splits sum.splits prod.splits)
  then show ?thesis
    using alone.ready_values(2) [OF c0] alone.put_stores [OF c0] by (simp add: setObject_def deadline_def)
qed

lemma cached_query_hit:
  assumes "standalone c" "in_force now (memory_item key c) = Some (print v)" "read (print v) = Some v" "useful v"
  shows "\<exists>c1. cached_query redis now useful read print key seconds ask c st = (Inr v, c1, st)"
proof -
  have "fst (cache_get redis now key c) = Some (print v)" using alone.get_reads [OF assms(1)] assms(2) by simp
  then obtain c1 where "cache_get redis now key c = (Some (print v), c1)" by (cases "cache_get redis now key c") auto
  then show ?thesis using assms(3,4) by (simp add: cached_query_def getObject_def)
qed

text \<open>The directory is asked for once a day: after an answer from the DGII, every query within
  86400 seconds is given the same list without a request, whatever else happens to the cache.\<close>
theorem directory_asked_once_a_day:
  assumes printer: "dt_json env (dt_dump env (ArrJ (map directorio_to_json ds))) = Some (ArrJ (map directorio_to_json ds))"
    and "ca_host c = []" "cached_consultarDirectorio redis env t c st = (Inr ds, c1, st1)" "ds \<noteq> []"
    and "ts_requests st1 \<noteq> ts_requests st"
    and "\<And>op. op \<in> set ops \<Longrightarrow> at_of op \<le> t + 86400000 \<and> \<not> writes_key ''ecf:directory:all'' op" "now \<le> t + 86400000"
  shows "\<exists>c2. cached_consultarDirectorio redis env now (snd (run_calls (cache_step redis) ops c1)) st2 = (Inr ds, c2, st2)"
proof -
  let ?print = "\<lambda>ds. dt_dump env (ArrJ (map directorio_to_json ds))"
  have c: "standalone c" using assms(2) by (simp add: standalone_def)
  have c1: "standalone c1" "memory_item ''ecf:directory:all'' c1 = Some (?print ds, Some (t + 86400000))"
    using cached_query_stores [OF c assms(3) [unfolded cached_consultarDirectorio_def]] assms(4,5) by simp_all
  then have "in_force (t + 86400000) (memory_item ''ecf:directory:all'' c1) = Some (?print ds)" by (simp add: in_force_def)
  from alone.value_survives [OF c1(1) this, where redis = redis and ops = ops] assms(6)
  have "standalone (snd (run_calls (cache_step redis) ops c1))"
    "in_force now (memory_item ''ecf:directory:all'' (snd (run_calls (cache_step redis) ops c1))) = Some (?print ds)"
    using assms(7) by (simp_all add: alone_step c1(2) in_force_def)
  then show ?thesis
    unfolding cached_consultarDirectorio_def using assms(4)
    by (intro cached_query_hit) (simp_all add: read_json_def printer list_round_trip directorio_round_trip)
qed

text \<open>A DGII with one taxpayer in its directory.\<close>

definition demo_taxpayer :: DirectorioContribuyente where
  "demo_taxpayer = \<lparr> dc_nombre = ''ACME'', dc_rnc = ''131234567'', dc_urlRecepcion = ''https://a'', dc_urlAceptacion = ''https://b'',
     dc_urlOpcional = [] \<rparr>"

definition demo_directory :: "unit transport_env" where
  "demo_directory = demo_transport \<lparr>
     dt_http := (\<lambda>hist q. \<lparr> cr_error = 0, cr_error_message = [], cr_status = 200, cr_text = ''D'', cr_contentType = [] \<rparr>),
     dt_json := (\<lambda>s. Some (ArrJ [directorio_to_json demo_taxpayer])), dt_dump := (\<lambda>j. ''D'') \<rparr>"

definition demo_asked :: "(exn + DirectorioContribuyente list) \<times> unit cache \<times> unit transport_state" where
  "demo_asked = cached_consultarDirectorio demo_redis demo_directory 0 demo_cache demo_link"

theorem directory_asked_once_a_day_witness:
  "fst (cached_consultarDirectorio demo_redis demo_directory 86400000
     (snd (run_calls (cache_step demo_redis) [Cache_Service.Get 5 ''x''] (fst (snd demo_asked)))) demo_link) = Inr [demo_taxpayer]"
proof -
  have asked: "fst demo_asked = Inr [demo_taxpayer]" "length (ts_requests (snd (snd demo_asked))) = 1" "ts_requests demo_link = []"
    "ca_host demo_cache = []" by code_simp+
  have run: "cached_consultarDirectorio demo_redis demo_directory 0 demo_cache demo_link
      = (Inr [demo_taxpayer], fst (snd demo_asked), snd (snd demo_asked))"
    using asked(1) by (simp add: demo_asked_def [symmetric] prod_eq_iff)
  have sent: "ts_requests (snd (snd demo_asked)) \<noteq> ts_requests demo_link" using asked(2,3) by auto
  have print: "dt_json demo_directory (dt_dump demo_directory (ArrJ (map directorio_to_json [demo_taxpayer])))
      = Some (ArrJ (map directorio_to_json [demo_taxpayer]))" by (simp add: demo_directory_def)
  obtain c2 where "cached_consultarDirectorio demo_redis demo_directory 86400000
      (snd (run_calls (cache_step demo_redis) [Cache_Service.Get 5 ''x''] (fst (snd demo_asked)))) demo_link = (Inr [demo_taxpayer], c2, demo_link)"
    using directory_asked_once_a_day [OF print asked(4) run _ sent, of "[Cache_Service.Get 5 ''x'']" 86400000 demo_link] by auto
  then show ?thesis by simp
qed

end
