(* ===== verification/Tenant_Signer.thy ===== *)
theory Tenant_Signer
  imports Documents_Transmit
begin

text \<open>
  TenantSignerResolver.cpp: the certificate a company signs with, from the resolver's memory
  (five minutes), from the table Tenants, or from a file of the installation; and the
  decryption of its password.  The rows, the files, the environment variables, OpenSSL
  (HKDF, AES-256-GCM, SHA-256, PKCS#12) and Base64 are the fields of \<open>signer_env\<close>.  The
  lemmas follow the entries of the memory through every sequence of calls.  Time is seconds.
  CertificateExpiryPolicy.h is here too.
\<close>

subsection \<open>Environment and state\<close>

record tenant_row =
  tn_id :: string
  tn_code :: "string option"
  tn_companyName :: "string option"
  tn_rnc :: string
  tn_isActive :: bool
  tn_certificate :: "string option"
  tn_passwordEncrypted :: "string option"

record signer_env =
  sn_connectionString :: string
  sn_masterKey :: string
  sn_getenv :: "string \<Rightarrow> string option"
  sn_tenants :: "string + tenant_row list"
  sn_load :: "string \<Rightarrow> string \<Rightarrow> exn + xml_signer"
  sn_file :: "string \<Rightarrow> string \<Rightarrow> (exn + xml_signer) option"
  sn_hkdf :: "string \<Rightarrow> string \<Rightarrow> string option"
  sn_sha256 :: "string \<Rightarrow> string"
  sn_gcm :: "string \<Rightarrow> string \<Rightarrow> string \<Rightarrow> string \<Rightarrow> string \<Rightarrow> string option"
  sn_base64 :: "string \<Rightarrow> string"

type_synonym signer_cache = "string \<Rightarrow> (xml_signer \<times> int) option"

definition extractDigits :: "string \<Rightarrow> string" where
  "extractDigits s = filter isdigit s"

subsection \<open>\<open>decryptPasswordIfEncrypted\<close>\<close>

definition aes256GcmDecrypt :: "signer_env \<Rightarrow> string \<Rightarrow> string \<Rightarrow> string \<Rightarrow> string \<Rightarrow> string \<Rightarrow> string option" where
  "aes256GcmDecrypt env key nonce cipher tag aad =
     (if length nonce \<noteq> 12 \<or> length tag \<noteq> 16 then None else sn_gcm env key nonce cipher tag aad)"

fun split_colon :: "string \<Rightarrow> string list" where
  "split_colon [] = [[]]"
| "split_colon (c # cs) = (if c = CHR '':'' then [] # split_colon cs
     else (case split_colon cs of p # ps \<Rightarrow> (c # p) # ps | [] \<Rightarrow> [[c]]))"

datatype envelope = V1 | V2 | V3

definition envelope_of :: "string \<Rightarrow> envelope option" where
  "envelope_of s = (if starts_with ''enc:v1:'' s then Some V1 else if starts_with ''enc:v2:'' s then Some V2
     else if starts_with ''enc:v3:'' s then Some V3 else None)"

text \<open>Nonce, cipher text and tag.\<close>

definition open_envelope :: "signer_env \<Rightarrow> envelope \<Rightarrow> string list \<Rightarrow> (string \<times> string \<times> string) option" where
  "open_envelope env v parts =
     (let n = length parts; d = sn_base64 env in
      if (v = V1 \<and> n = 3) \<or> (v = V2 \<and> n = 4) then
        (let k = (if v = V2 then 1 else 0) in Some (d (parts ! k), d (parts ! (k + 1)), d (parts ! (k + 2))))
      else if n = 1 \<or> (v = V2 \<and> n = 2) then
        (let combined = d (last parts) in
         if length combined < 28 then None else Some (take 12 combined, drop 28 combined, take 16 (drop 12 combined)))
      else None)"

definition secret_names :: "string list" where
  "secret_names = [''CERT_ENCRYPTION_KEY'', ''STORAGE_ENCRYPTION_KEY'', ''Security__CertificateEncryptionKey'', ''JWT_SECRET'',
     ''JWT_SECRET_KEY'', ''JWT__SecretKey'', ''JwtSettings__Secret'', ''WORKER_SECRET_KEY'', ''WorkerSecretKey'']"

definition push_secret :: "string \<Rightarrow> string list \<Rightarrow> string list" where
  "push_secret s secrets = (let t = trim s in if t = [] \<or> t \<in> set secrets then secrets else secrets @ [t])"

definition candidate_secrets :: "signer_env \<Rightarrow> string list" where
  "candidate_secrets env = fold push_secret (sn_masterKey env # List.map_filter (sn_getenv env) secret_names) []"

definition tenant_tag :: "string \<Rightarrow> string" where
  "tenant_tag tenantCode = (let t = trim tenantCode in lower (if t = [] then ''default'' else t))"

definition v3_aad :: "string \<Rightarrow> string" where
  "v3_aad tag = ''tenant:'' @ tag @ ''|field:CertificatePassword|v3''"

text \<open>What one secret makes of the cipher text.\<close>

fun orelse :: "'a option \<Rightarrow> 'a option \<Rightarrow> 'a option" where
  "orelse None y = y"
| "orelse (Some x) y = Some x"

definition try_secret ::
    "signer_env \<Rightarrow> envelope \<Rightarrow> string \<Rightarrow> string \<Rightarrow> string \<Rightarrow> string \<Rightarrow> string \<Rightarrow> string option" where
  "try_secret env v tag12 nonce cipher tag secret =
     orelse
       (if v = V2 \<or> v = V3 then
          (case sn_hkdf env secret ''ecf:certificate-password:v1'' of
             None \<Rightarrow> None
           | Some key \<Rightarrow> orelse (aes256GcmDecrypt env key nonce cipher tag (if v = V3 then v3_aad tag12 else []))
               (if v = V3 \<and> tag12 \<noteq> ''default'' then aes256GcmDecrypt env key nonce cipher tag (v3_aad ''default'') else None))
        else None)
       (if v = V3 then None else aes256GcmDecrypt env (sn_sha256 env secret) nonce cipher tag [])"

fun first_plain :: "(string \<Rightarrow> string option) \<Rightarrow> string list \<Rightarrow> string" where
  "first_plain f [] = []"
| "first_plain f (s # ss) = (case f s of Some p \<Rightarrow> p | None \<Rightarrow> first_plain f ss)"

definition decryptPasswordIfEncrypted :: "signer_env \<Rightarrow> string \<Rightarrow> string \<Rightarrow> string" where
  "decryptPasswordIfEncrypted env text tenantCode = (case envelope_of text of
       None \<Rightarrow> text
     | Some v \<Rightarrow> (case open_envelope env v (split_colon (drop 7 text)) of
           None \<Rightarrow> []
         | Some (nonce, cipher, tag) \<Rightarrow>
             if length nonce \<noteq> 12 \<or> length tag \<noteq> 16 then []
             else first_plain (try_secret env v (tenant_tag tenantCode) nonce cipher tag) (candidate_secrets env)))"

subsection \<open>\<open>resolveTenantSignerOnly\<close>\<close>

definition any_tenant :: "string \<Rightarrow> bool" where
  "any_tenant tenantId \<longleftrightarrow> tenantId = [] \<or> tenantId = ''default'' \<or> tenantId = ''default-tenant''"

definition bare_rnc :: "string \<Rightarrow> string" where
  "bare_rnc rnc = filter (\<lambda>c. c \<noteq> CHR ''-'' \<and> c \<noteq> CHR '' '') rnc"

text \<open>The WHERE clause of the two queries.\<close>

definition tenant_matches :: "string \<Rightarrow> string \<Rightarrow> tenant_row \<Rightarrow> bool" where
  "tenant_matches cleanRnc tenantId r \<longleftrightarrow> bare_rnc (tn_rnc r) = cleanRnc \<and> tn_isActive r
     \<and> (any_tenant tenantId \<or> tn_code r = Some tenantId \<or> tn_id r = tenantId)"

definition uses_database :: "signer_env \<Rightarrow> bool" where
  "uses_database env \<longleftrightarrow> sn_connectionString env \<noteq> [] \<and> sn_connectionString env \<noteq> ''InMemory'' \<and> sn_connectionString env \<noteq> ''inmemory''"

definition from_database :: "signer_env \<Rightarrow> string \<Rightarrow> string \<Rightarrow> xml_signer option" where
  "from_database env cleanRnc tenantId =
     (if \<not> uses_database env then None
      else case sn_tenants env of
          Inl e \<Rightarrow> None
        | Inr rows \<Rightarrow> (case find (tenant_matches cleanRnc tenantId) rows of
              None \<Rightarrow> None
            | Some r \<Rightarrow>
                if \<not> has_text (tn_certificate r) then None
                else (case sn_load env (value_or (tn_certificate r) [])
                        (decryptPasswordIfEncrypted env (value_or (tn_passwordEncrypted r) []) (value_or (tn_code r) [])) of
                     Inl e \<Rightarrow> None | Inr signer \<Rightarrow> Some signer)))"

definition may_use_disk :: "string \<Rightarrow> string \<Rightarrow> bool" where
  "may_use_disk cleanRnc tenantId \<longleftrightarrow> tenantId = cleanRnc \<or> any_tenant tenantId"

fun first_file :: "signer_env \<Rightarrow> string \<Rightarrow> string \<Rightarrow> string list \<Rightarrow> xml_signer option" where
  "first_file env cleanRnc pwd [] = None"
| "first_file env cleanRnc pwd (d # ds) = (case sn_file env (d @ ''/'' @ cleanRnc @ ''.pfx'') pwd of
     Some (Inr signer) \<Rightarrow> Some signer | _ \<Rightarrow> first_file env cleanRnc pwd ds)"

definition from_disk :: "signer_env \<Rightarrow> string \<Rightarrow> string \<Rightarrow> xml_signer option" where
  "from_disk env cleanRnc tenantId =
     (if may_use_disk cleanRnc tenantId
      then first_file env cleanRnc (value_or (sn_getenv env ''ECF_CERTIFICATE_PASSWORD'') []) [''/app/certificates'', ''certificates'']
      else None)"

definition signer_key :: "string \<Rightarrow> string \<Rightarrow> string" where
  "signer_key cleanRnc tenantId = cleanRnc @ '':'' @ tenantId"

definition resolveTenantSignerOnly ::
    "signer_env \<Rightarrow> int \<Rightarrow> string \<Rightarrow> string \<Rightarrow> signer_cache \<Rightarrow> xml_signer option \<times> signer_cache" where
  "resolveTenantSignerOnly env now rnc tenantId cache =
     (let cleanRnc = extractDigits rnc; key = signer_key cleanRnc tenantId in
      if cleanRnc = [] then (None, cache)
      else case (case cache key of Some (s, e) \<Rightarrow> if now < e then Some s else None | None \<Rightarrow> None) of
          Some s \<Rightarrow> (Some s, cache)
        | None \<Rightarrow> (case orelse (from_database env cleanRnc tenantId) (from_disk env cleanRnc tenantId) of
              Some s \<Rightarrow> (Some s, cache(key \<mapsto> (s, now + 5 * 60)))
            | None \<Rightarrow> (None, cache)))"

definition resolveDefaultSigner ::
    "signer_env \<Rightarrow> xml_signer \<Rightarrow> int \<Rightarrow> string \<Rightarrow> signer_cache \<Rightarrow> xml_signer \<times> signer_cache" where
  "resolveDefaultSigner env defaultSigner now rnc cache = (case resolveTenantSignerOnly env now rnc [] cache of
     (Some s, c) \<Rightarrow> (s, c) | (None, c) \<Rightarrow> (defaultSigner, c))"

subsection \<open>CertificateExpiryPolicy.h\<close>

datatype ExpiryUrgency = Ok | Warning | Critical

definition classify :: "int \<Rightarrow> int \<Rightarrow> ExpiryUrgency" where
  "classify now notAfter =
     (if notAfter - now \<le> 7 * 24 * 3600 then Critical else if notAfter - now \<le> 30 * 24 * 3600 then Warning else Ok)"

subsection \<open>Where a signer comes from\<close>

definition loaded_for :: "signer_env \<Rightarrow> string \<Rightarrow> string \<Rightarrow> xml_signer \<Rightarrow> bool" where
  "loaded_for env cleanRnc tenantId s \<longleftrightarrow> from_database env cleanRnc tenantId = Some s \<or> from_disk env cleanRnc tenantId = Some s"

text \<open>Calls in the order they happen, each with the time and the world it met.\<close>

inductive resolver_run :: "int \<Rightarrow> signer_cache \<Rightarrow> (int \<times> signer_env) list \<Rightarrow> bool" where
  fresh: "resolver_run t Map.empty []"
| resolved: "resolver_run t c hist \<Longrightarrow> t \<le> now \<Longrightarrow> resolveTenantSignerOnly env now rnc tenantId c = (r, c')
    \<Longrightarrow> resolver_run now c' (hist @ [(now, env)])"

definition entries_ok :: "signer_cache \<Rightarrow> (int \<times> signer_env) list \<Rightarrow> bool" where
  "entries_ok c hist \<longleftrightarrow> (\<forall>rnc tenantId s e. list_all isdigit rnc \<longrightarrow> c (signer_key rnc tenantId) = Some (s, e) \<longrightarrow>
     (\<exists>env. (e - 300, env) \<in> set hist \<and> loaded_for env rnc tenantId s))"

lemma signer_key_inject:
  assumes "list_all isdigit a" "list_all isdigit b" "signer_key a x = signer_key b y"
  shows "a = b \<and> x = y"
proof -
  have stop: "\<not> isdigit (CHR '':'')" by (simp add: isdigit_def code_def)
  have "takeWhile isdigit (signer_key d z) = d" if "list_all isdigit d" for d z
    using that stop by (auto simp: signer_key_def takeWhile_append list_all_iff)
  from this [OF assms(1), of x] this [OF assms(2), of y] have "a = b" using assms(3) by simp
  then show ?thesis using assms(3) by (simp add: signer_key_def)
qed

lemma extractDigits_digits: "list_all isdigit (extractDigits s)"
  by (simp add: extractDigits_def list_all_iff)

text \<open>One call: from the memory, or loaded now.\<close>

lemma resolve_cases:
  assumes "resolveTenantSignerOnly env now rnc tenantId c = (r, c')"
  obtains (remembered) s e where "r = Some s" "c' = c" "c (signer_key (extractDigits rnc) tenantId) = Some (s, e)" "now < e"
  | (loaded) s where "r = Some s" "c' = c(signer_key (extractDigits rnc) tenantId \<mapsto> (s, now + 300))"
      "loaded_for env (extractDigits rnc) tenantId s"
  | (unknown) "r = None" "c' = c"
proof -
  let ?k = "signer_key (extractDigits rnc) tenantId"
  let ?mem = "case c ?k of Some (s, e) \<Rightarrow> if now < e then Some s else None | None \<Rightarrow> None"
  let ?new = "orelse (from_database env (extractDigits rnc) tenantId) (from_disk env (extractDigits rnc) tenantId)"
  show thesis
  proof (cases "extractDigits rnc = []")
    case True
    then show ?thesis using assms by (intro unknown) (auto simp: resolveTenantSignerOnly_def Let_def)
  next
    case digits: False
    show ?thesis
    proof (cases ?mem)
      case (Some s)
      then obtain e where e: "c ?k = Some (s, e)" "now < e" by (auto split: option.splits if_splits)
      moreover have "r = Some s" "c' = c" using assms digits Some by (auto simp: resolveTenantSignerOnly_def Let_def)
      ultimately show ?thesis by (intro remembered)
    next
      case mem: None
      show ?thesis
      proof (cases ?new)
        case None
        then show ?thesis using assms digits mem by (intro unknown) (auto simp: resolveTenantSignerOnly_def Let_def)
      next
        case (Some s)
        then have "loaded_for env (extractDigits rnc) tenantId s"
          by (cases "from_database env (extractDigits rnc) tenantId") (auto simp: loaded_for_def)
        moreover have "r = Some s" "c' = c(?k \<mapsto> (s, now + 300))"
          using assms digits mem Some by (auto simp: resolveTenantSignerOnly_def Let_def)
        ultimately show ?thesis by (intro loaded)
      qed
    qed
  qed
qed

lemma resolver_run_inv:
  "resolver_run t c hist \<Longrightarrow> entries_ok c hist \<and> (\<forall>u env. (u, env) \<in> set hist \<longrightarrow> u \<le> t)"
proof (induction rule: resolver_run.induct)
  case (fresh t)
  then show ?case by (simp add: entries_ok_def)
next
  case (resolved t c hist now env rnc tenantId r c')
  have times: "u \<le> now" if "(u, e) \<in> set (hist @ [(now, env)])" for u e
    using that resolved.IH resolved.hyps(2) by fastforce
  have old: "entries_ok c (hist @ [(now, env)])" using resolved.IH by (fastforce simp: entries_ok_def)
  from resolved.hyps(3) have "entries_ok c' (hist @ [(now, env)])"
  proof (cases rule: resolve_cases)
    case (loaded s)
    show ?thesis
      unfolding entries_ok_def
    proof (intro allI impI)
      fix a x s' e
      assume a: "list_all isdigit a" and c': "c' (signer_key a x) = Some (s', e)"
      show "\<exists>env'. (e - 300, env') \<in> set (hist @ [(now, env)]) \<and> loaded_for env' a x s'"
      proof (cases "signer_key a x = signer_key (extractDigits rnc) tenantId")
        case True
        from signer_key_inject [OF a extractDigits_digits this] show ?thesis using c' loaded by auto
      next
        case False
        then show ?thesis using old a c' loaded(2) unfolding entries_ok_def by (metis fun_upd_other)
      qed
    qed
  qed (use old in simp_all)
  then show ?case using times by blast
qed

lemma from_database_row:
  assumes "from_database env cleanRnc tenantId = Some s"
  obtains rows row pwd where "sn_tenants env = Inr rows" "row \<in> set rows" "tenant_matches cleanRnc tenantId row"
    "sn_load env (value_or (tn_certificate row) []) pwd = Inr s"
proof -
  obtain rows row where r: "sn_tenants env = Inr rows" "find (tenant_matches cleanRnc tenantId) rows = Some row"
    "\<exists>pwd. sn_load env (value_or (tn_certificate row) []) pwd = Inr s"
    using assms by (auto simp: from_database_def split: if_splits sum.splits option.splits)
  then have "row \<in> set rows" "tenant_matches cleanRnc tenantId row" by (auto simp: find_Some_iff)
  then show thesis using r that by blast
qed

subsection \<open>Properties\<close>


lemma orelse_Some: "orelse x y = Some p \<longleftrightarrow> x = Some p \<or> (x = None \<and> y = Some p)"
  by (cases x) auto

text \<open>The password of a v3 envelope is released only under the company's own tag or the default one:
  a plain text comes from an authenticated decryption with one of the two as associated data.\<close>
theorem v3_password_is_bound_to_tenant:
  assumes "envelope_of text = Some V3" "decryptPasswordIfEncrypted env text tenantCode = p" "p \<noteq> []"
  shows "\<exists>key nonce cipher tag aad. aad \<in> {v3_aad (tenant_tag tenantCode), v3_aad ''default''}
    \<and> length nonce = 12 \<and> length tag = 16 \<and> sn_gcm env key nonce cipher tag aad = Some p"
proof -
  obtain nonce cipher tag where o: "open_envelope env V3 (split_colon (drop 7 text)) = Some (nonce, cipher, tag)"
    "length nonce = 12" "length tag = 16"
    and p: "p = first_plain (try_secret env V3 (tenant_tag tenantCode) nonce cipher tag) (candidate_secrets env)"
    using assms by (auto simp: decryptPasswordIfEncrypted_def split: option.splits if_splits)
  have first: "\<exists>s. f s = Some (first_plain f ss)" if "first_plain f ss \<noteq> []" for f ss
    using that by (induction ss) (auto split: option.splits)
  obtain secret where "try_secret env V3 (tenant_tag tenantCode) nonce cipher tag secret = Some p"
    using first assms(3) p by metis
  then obtain key where "aes256GcmDecrypt env key nonce cipher tag (v3_aad (tenant_tag tenantCode)) = Some p
      \<or> aes256GcmDecrypt env key nonce cipher tag (v3_aad ''default'') = Some p"
    by (auto simp: try_secret_def orelse_Some split: option.splits if_splits)
  then show ?thesis using o(2,3) unfolding aes256GcmDecrypt_def by (metis insertCI)
qed

subsection \<open>The properties at work\<close>

definition demo_tenants :: signer_env where
  "demo_tenants = \<lparr> sn_connectionString = ''host=db'', sn_masterKey = ''k'', sn_getenv = (\<lambda>n. None),
     sn_tenants = Inr
       [\<lparr> tn_id = ''1'', tn_code = Some ''ACME'', tn_companyName = None, tn_rnc = ''1-31-23456-7'', tn_isActive = True,
          tn_certificate = Some ''pfx-acme'', tn_passwordEncrypted = Some ''secret'' \<rparr>,
        \<lparr> tn_id = ''2'', tn_code = Some ''OTRA'', tn_companyName = None, tn_rnc = ''1-31-23456-7'', tn_isActive = True,
          tn_certificate = Some ''pfx-otra'', tn_passwordEncrypted = Some ''secret'' \<rparr>],
     sn_load = (\<lambda>b p. Inr \<lparr> sg_id = length b, sg_signXml = (\<lambda>x r. Inr (b @ x)), sg_usesFallbackCertificate = False,
       sg_validateCertificateSn = (\<lambda>sn. True) \<rparr>),
     sn_file = (\<lambda>f p. None), sn_hkdf = (\<lambda>s i. Some s), sn_sha256 = (\<lambda>s. s),
     sn_gcm = (\<lambda>k n c t a. if a = v3_aad ''acme'' then Some ''secret'' else None),
     sn_base64 = (\<lambda>s. replicate 30 (CHR ''x'')) \<rparr>"


theorem v3_password_is_bound_to_tenant_witness:
  "\<exists>key nonce cipher tag aad. aad \<in> {v3_aad ''acme'', v3_aad ''default''} \<and> sn_gcm demo_tenants key nonce cipher tag aad = Some ''secret''"
proof -
  have "envelope_of ''enc:v3:AAAA'' = Some V3" "decryptPasswordIfEncrypted demo_tenants ''enc:v3:AAAA'' ''ACME'' = ''secret''"
    "tenant_tag ''ACME'' = ''acme''" by code_simp+
  then show ?thesis
    using v3_password_is_bound_to_tenant [of "''enc:v3:AAAA''" demo_tenants "''ACME''" "''secret''"] by (metis list.distinct(1))
qed

end
