(* ===== verification/Xml_Signer.thy ===== *)
theory Xml_Signer
  imports Documents_Transmit
begin

text \<open>
  EcfXmlSigner.cpp: loading a PKCS#12 certificate, deciding whether it may sign for an
  issuer, and signing.  OpenSSL (reading the certificate, making the self-signed one), the
  files, libxml2 and xmlsec are the fields of \<open>signer_platform\<close>; what is here is the decision:
  the validity period, the numbers in the subject and the alternative names, and the
  delegation to natural persons.  \<open>as_signer\<close> makes a loaded certificate the
  \<open>xml_signer\<close> the services use.  Times are seconds; \<open>None\<close> is \<open>time_point::min()\<close>.
\<close>

subsection \<open>Certificates\<close>

record CertInfo =
  ci_subject :: string
  ci_issuer :: string
  ci_san :: string
  ci_isSelfSigned :: bool
  ci_notBefore :: "int option"
  ci_notAfter :: "int option"

record signer_platform =
  sp_ready :: bool
  sp_pkcs12 :: "string \<Rightarrow> string \<Rightarrow> CertInfo option option"
  sp_selfSigned :: "string \<Rightarrow> exn + string"
  sp_file :: "string \<Rightarrow> string option"
  sp_parses :: "string \<Rightarrow> bool"
  sp_sign :: "string \<Rightarrow> string \<Rightarrow> string \<Rightarrow> exn + string"
  sp_signatureValues :: "string \<Rightarrow> string list option"

record EcfXmlSigner =
  xs_pfxBytes :: string
  xs_pfxPassword :: string
  xs_cert :: CertInfo
  xs_usesFallback :: bool

definition no_cert :: CertInfo where
  "no_cert = \<lparr> ci_subject = [], ci_issuer = [], ci_san = [], ci_isSelfSigned = False, ci_notBefore = None, ci_notAfter = None \<rparr>"

text \<open>\<open>sp_pkcs12\<close> answers \<open>None\<close> when the bytes are no PKCS#12 and \<open>Some None\<close> when the password does not open it.\<close>

definition parseCertInfo :: "signer_platform \<Rightarrow> string \<Rightarrow> string \<Rightarrow> exn + CertInfo" where
  "parseCertInfo pl pfx password = (case sp_pkcs12 pl pfx password of
       None \<Rightarrow> Inl (OtherExn (''PKCS#12 inv'' @ u_a @ ''lido: no se pudo leer el certificado.''))
     | Some parsed \<Rightarrow>
         let info = value_or parsed no_cert in
         if ci_subject info = []
         then Inl (OtherExn (''No se pudo extraer el Subject del certificado ('' @ [CHR 0xC2, CHR 0xBF] @ ''clave incorrecta?).''))
         else Inr info)"

definition not_ready :: exn where
  "not_ready = OtherExn ''No se pudo inicializar xmlsec/OpenSSL.''"

definition load_signer :: "signer_platform \<Rightarrow> bool \<Rightarrow> string \<Rightarrow> string \<Rightarrow> exn + EcfXmlSigner" where
  "load_signer pl fallback pfx password = (case parseCertInfo pl pfx password of
       Inl e \<Rightarrow> Inl e
     | Inr info \<Rightarrow> Inr \<lparr> xs_pfxBytes = pfx, xs_pfxPassword = password, xs_cert = info, xs_usesFallback = fallback \<rparr>)"

definition fallback_signer :: "signer_platform \<Rightarrow> string \<Rightarrow> exn + EcfXmlSigner" where
  "fallback_signer pl password = (case sp_selfSigned pl password of
       Inl e \<Rightarrow> Inl e | Inr pfx \<Rightarrow> load_signer pl True pfx password)"

text \<open>The two constructors: from bytes, and from a file.\<close>

definition signer_from_bytes :: "signer_platform \<Rightarrow> string \<Rightarrow> string \<Rightarrow> exn + EcfXmlSigner" where
  "signer_from_bytes pl pfx password =
     (if \<not> sp_ready pl then Inl not_ready
      else if pfx = [] then fallback_signer pl ''EcfTestPassword123!''
      else load_signer pl False pfx password)"

definition signer_from_file :: "signer_platform \<Rightarrow> string \<Rightarrow> string \<Rightarrow> exn + EcfXmlSigner" where
  "signer_from_file pl path password =
     (if \<not> sp_ready pl then Inl not_ready
      else case (if path = [] then None else sp_file pl path) of
          None \<Rightarrow> fallback_signer pl password
        | Some pfx \<Rightarrow> load_signer pl False pfx password)"

subsection \<open>Numbers in the names of a certificate\<close>

text \<open>\<open>sregex_iterator\<close> over \<open>\d{9,11}\<close>: leftmost, greedy, going on after the match.\<close>

function digit_runs :: "string \<Rightarrow> string list" where
  "digit_runs [] = []"
| "digit_runs (c # cs) =
     (let n = min 11 (length (takeWhile isdigit (c # cs))) in
      if 9 \<le> n then take n (c # cs) # digit_runs (drop n (c # cs)) else digit_runs cs)"
  by pat_completeness auto
termination by (relation "measure length") auto

declare digit_runs.simps(2) [simp del]

definition is_separator :: "char \<Rightarrow> bool" where
  "is_separator c \<longleftrightarrow> c = CHR ''-'' \<or> c = CHR '':'' \<or> isspace c \<or> c = CHR ''=''"

text \<open>\<open>[-:\s=]?(\d{n})(?!\d)\<close> at the start of \<open>s\<close>: the digits and what follows.\<close>

definition number_after :: "nat \<Rightarrow> string \<Rightarrow> (string \<times> string) option" where
  "number_after n s =
     (let r = (case s of [] \<Rightarrow> [] | c # cs \<Rightarrow> if is_separator c then cs else s) in
      if n \<le> length r \<and> all_digits (take n r) \<and> \<not> list_ex isdigit (take 1 (drop n r)) then Some (take n r, drop n r) else None)"

fun tagged_at :: "string list \<Rightarrow> nat \<Rightarrow> string \<Rightarrow> (string \<times> string) option" where
  "tagged_at [] n s = None"
| "tagged_at (t # ts) n s =
     (case (if starts_with t s then number_after n (drop (length t) s) else None) of
        Some m \<Rightarrow> Some m | None \<Rightarrow> tagged_at ts n s)"

text \<open>\<open>sregex_iterator\<close> over \<open>(?:t1|t2|...)[-:\s=]?(\d{n})(?!\d)\<close>.\<close>

function tagged_numbers :: "string list \<Rightarrow> nat \<Rightarrow> string \<Rightarrow> string list" where
  "tagged_numbers ts n [] = []"
| "tagged_numbers ts n (c # cs) = (case tagged_at ts n (c # cs) of
       Some (num, rest) \<Rightarrow> if length rest < length (c # cs) then num # tagged_numbers ts n rest else tagged_numbers ts n cs
     | None \<Rightarrow> tagged_numbers ts n cs)"
  by pat_completeness auto
termination by (relation "measure (\<lambda>(ts, n, s). length s)") auto

declare tagged_numbers.simps(2) [simp del]

subsection \<open>\<open>validateCertificateSn\<close>\<close>

definition mentions :: "string list \<Rightarrow> string \<Rightarrow> bool" where
  "mentions names s \<longleftrightarrow> list_ex (\<lambda>p. contains p s) names"

definition delegated_subject :: "CertInfo \<Rightarrow> bool" where
  "delegated_subject info \<longleftrightarrow>
     mentions [''TAX PROCEDURES'', ''PROCEDIMIENTOS TRIBUTARIOS'', ''NATURAL PERSON'', ''PERSONA FISICA''] (upper (ci_subject info))
     \<and> mentions [''VIAFIRMA'', ''AVANSI'', ''CAMARA'', ''DIGIFIRMA'', ''INDOTEL'', ''OPTIC''] (upper (ci_issuer info))"

definition corporate_numbers :: "CertInfo \<Rightarrow> string list" where
  "corporate_numbers info = tagged_numbers [''VATDO'', ''RNC''] 9 (upper (ci_subject info))"

definition has_cedula :: "CertInfo \<Rightarrow> bool" where
  "has_cedula info \<longleftrightarrow> tagged_numbers [''IDCDO'', ''SERIALNUMBER'', ''2.5.4.5'', ''CEDULA''] 11 (upper (ci_subject info)) \<noteq> []"

definition validateCertificateSn :: "EcfXmlSigner \<Rightarrow> string \<Rightarrow> bool" where
  "validateCertificateSn s rncOCedula =
     (let cleanSn = filter isdigit rncOCedula; info = xs_cert s in
      if cleanSn = [] then False
      else if xs_usesFallback s \<or> ci_isSelfSigned info then True
      else if cleanSn \<in> set (digit_runs (ci_subject info)) \<or> cleanSn \<in> set (digit_runs (ci_san info)) then True
      else if delegated_subject info then
        cleanSn \<in> set (corporate_numbers info) \<or> (corporate_numbers info = [] \<and> has_cedula info)
      else False)"

subsection \<open>\<open>signXml\<close> and \<open>extractSignatureValue\<close>\<close>

definition in_validity :: "int \<Rightarrow> CertInfo \<Rightarrow> bool" where
  "in_validity now info \<longleftrightarrow> (case ci_notBefore info of None \<Rightarrow> True | Some t \<Rightarrow> t \<le> now)
     \<and> (case ci_notAfter info of None \<Rightarrow> True | Some t \<Rightarrow> now \<le> t)"

definition signXml :: "signer_platform \<Rightarrow> int \<Rightarrow> EcfXmlSigner \<Rightarrow> string \<Rightarrow> string \<Rightarrow> exn + string" where
  "signXml pl now s xmlContent rncEmisor =
     (if (case ci_notBefore (xs_cert s) of None \<Rightarrow> False | Some t \<Rightarrow> now < t)
      then Inl (OtherExn (''El certificado digital a'' @ [CHR 0xC3, CHR 0xBA] @ ''n no es v'' @ u_a
             @ ''lido (fecha de inicio de vigencia futura).''))
      else if (case ci_notAfter (xs_cert s) of None \<Rightarrow> False | Some t \<Rightarrow> t < now)
      then Inl (OtherExn (''El certificado digital est'' @ u_a @ '' vencido. Debe renovarlo ante la entidad emisora autorizada.''))
      else if \<not> validateCertificateSn s rncEmisor
      then Inl (OtherExn (''El RNC del certificado no coincide con el emisor: '' @ rncEmisor))
      else if \<not> sp_parses pl xmlContent then Inl (OtherExn (''Documento XML a firmar inv'' @ u_a @ ''lido.''))
      else sp_sign pl (xs_pfxBytes s) (xs_pfxPassword s) xmlContent)"

definition xml_trim :: "string \<Rightarrow> string" where
  "xml_trim s = (let blank = (\<lambda>c. c \<in> {CHR '' '', CHR 0x09, CHR 0x0D, CHR 0x0A}) in
     rev (dropWhile blank (rev (dropWhile blank s))))"

definition extractSignatureValue :: "signer_platform \<Rightarrow> string \<Rightarrow> exn + string" where
  "extractSignatureValue pl signedXml = (case sp_signatureValues pl signedXml of
       None \<Rightarrow> Inl (OtherExn (''El XML firmado es inv'' @ u_a @ ''lido.''))
     | Some nodes \<Rightarrow>
         let value = xml_trim (case nodes of [] \<Rightarrow> [] | v # vs \<Rightarrow> v) in
         if value = [] then Inl (OtherExn (''El XML no contiene un nodo SignatureValue. '' @ [CHR 0xC2, CHR 0xBF]
           @ ''Fue firmado correctamente?''))
         else Inr value)"

text \<open>The object behind \<open>IEcfXmlSigner\<close>.\<close>

definition as_signer :: "signer_platform \<Rightarrow> int \<Rightarrow> nat \<Rightarrow> EcfXmlSigner \<Rightarrow> xml_signer" where
  "as_signer pl now i s = \<lparr> sg_id = i, sg_signXml = signXml pl now s, sg_usesFallbackCertificate = xs_usesFallback s,
     sg_validateCertificateSn = validateCertificateSn s \<rparr>"

subsection \<open>What the numbers are\<close>

lemma digit_runs_occur:
  "x \<in> set (digit_runs s) \<Longrightarrow> all_digits x \<and> 9 \<le> length x \<and> length x \<le> 11 \<and> contains x s"
proof (induction s rule: digit_runs.induct)
  case (2 c cs)
  let ?n = "min 11 (length (takeWhile isdigit (c # cs)))"
  have digits: "all_digits (take ?n (c # cs))"
    by (metis list_all_iff min.cobounded2 set_take_subset_set_take set_takeWhileD subsetD takeWhile_eq_take)
  have suffix: "contains x (drop m s) \<Longrightarrow> contains x s" for x m and s :: string
  proof (induction m arbitrary: s)
    case (Suc m)
    then show ?case by (cases s) auto
  qed simp
  have len: "length (take ?n (c # cs)) = ?n"
    using length_takeWhile_le [of isdigit "c # cs"] by simp
  show ?case
  proof (cases "9 \<le> ?n")
    case True
    then have "x = take ?n (c # cs) \<or> x \<in> set (digit_runs (drop ?n (c # cs)))"
      using 2(3) by (simp add: digit_runs.simps(2) Let_def)
    then show ?thesis
    proof
      assume x: "x = take ?n (c # cs)"
      then have "prefix x (c # cs)" by (metis take_is_prefix)
      then show ?thesis using True digits len x by simp
    next
      assume "x \<in> set (digit_runs (drop ?n (c # cs)))"
      then show ?thesis using 2(1) [OF refl True] suffix by blast
    qed
  next
    case False
    then have "x \<in> set (digit_runs cs)" using 2(3) by (simp add: digit_runs.simps(2) Let_def)
    then show ?thesis using 2(2) [OF refl False] by simp
  qed
qed simp

text \<open>C21. A certificate that is neither self-signed nor delegated signs for an issuer only when its
  subject or its alternative names carry the issuer's number, of nine to eleven digits, and only
  while it is valid.\<close>
theorem signature_names_the_issuer:
  assumes "signXml pl now s xmlContent rnc = Inr sx"
    and "\<not> xs_usesFallback s" "\<not> ci_isSelfSigned (xs_cert s)" "\<not> delegated_subject (xs_cert s)"
  shows "in_validity now (xs_cert s) \<and> 9 \<le> length (filter isdigit rnc) \<and> length (filter isdigit rnc) \<le> 11
    \<and> (contains (filter isdigit rnc) (ci_subject (xs_cert s)) \<or> contains (filter isdigit rnc) (ci_san (xs_cert s)))
    \<and> sp_sign pl (xs_pfxBytes s) (xs_pfxPassword s) xmlContent = Inr sx"
proof -
  have v: "validateCertificateSn s rnc" "in_validity now (xs_cert s)"
    "sp_sign pl (xs_pfxBytes s) (xs_pfxPassword s) xmlContent = Inr sx"
    using assms(1) by (auto simp: signXml_def in_validity_def split: if_splits option.splits)
  then have "filter isdigit rnc \<in> set (digit_runs (ci_subject (xs_cert s))) \<or> filter isdigit rnc \<in> set (digit_runs (ci_san (xs_cert s)))"
    using assms(2-4) by (auto simp: validateCertificateSn_def Let_def split: if_splits)
  then show ?thesis using digit_runs_occur v(2,3) by blast
qed

text \<open>A self-signed certificate, and one of a natural person with a cedula of an accepted authority and
  no company number, sign for every issuer.\<close>
theorem some_certificates_sign_for_anyone:
  assumes "filter isdigit rnc \<noteq> []" "in_validity now (xs_cert s)" "sp_parses pl xmlContent"
    and "ci_isSelfSigned (xs_cert s)
      \<or> (delegated_subject (xs_cert s) \<and> corporate_numbers (xs_cert s) = [] \<and> has_cedula (xs_cert s))"
  shows "signXml pl now s xmlContent rnc = sp_sign pl (xs_pfxBytes s) (xs_pfxPassword s) xmlContent"
proof -
  have "validateCertificateSn s rnc" using assms(1,4) by (auto simp: validateCertificateSn_def Let_def)
  then show ?thesis
    using assms(2,3) by (auto simp: signXml_def in_validity_def split: option.splits)
qed

text \<open>A company's certificate whose subject names another company's number does not sign, delegated or not.\<close>

lemma other_company_refused:
  assumes "\<not> xs_usesFallback s" "\<not> ci_isSelfSigned (xs_cert s)" "corporate_numbers (xs_cert s) \<noteq> []"
    and "filter isdigit rnc \<notin> set (corporate_numbers (xs_cert s))"
      "filter isdigit rnc \<notin> set (digit_runs (ci_subject (xs_cert s)))" "filter isdigit rnc \<notin> set (digit_runs (ci_san (xs_cert s)))"
  shows "\<not> validateCertificateSn s rnc"
  using assms by (simp add: validateCertificateSn_def Let_def)

text \<open>A file that is missing gives the self-signed certificate, bytes never do.\<close>

lemma fallback_only_without_file:
  "signer_from_file pl path password = Inr s \<Longrightarrow> xs_usesFallback s \<longleftrightarrow> path = [] \<or> sp_file pl path = None"
  "signer_from_bytes pl pfx password = Inr s \<Longrightarrow> xs_usesFallback s \<longleftrightarrow> pfx = []"
  by (auto simp: signer_from_file_def signer_from_bytes_def fallback_signer_def load_signer_def
      split: if_splits option.splits sum.splits)

subsection \<open>Witnesses\<close>

definition demo_platform :: signer_platform where
  "demo_platform = \<lparr> sp_ready = True,
     sp_pkcs12 = (\<lambda>pfx pwd. Some (Some \<lparr> ci_subject = pfx, ci_issuer = ''/CN=VIAFIRMA DOMINICANA'', ci_san = [],
       ci_isSelfSigned = False, ci_notBefore = Some 0, ci_notAfter = Some 1000 \<rparr>)),
     sp_selfSigned = (\<lambda>pwd. Inr ''/CN=101889063''), sp_file = (\<lambda>p. None), sp_parses = (\<lambda>x. True),
     sp_sign = (\<lambda>pfx pwd x. Inr (x @ ''<Signature/>'')), sp_signatureValues = (\<lambda>x. Some ['' aGVsbG8= '']) \<rparr>"

definition demo_loaded :: "string \<Rightarrow> EcfXmlSigner" where
  "demo_loaded subject = (case signer_from_bytes demo_platform subject ''pwd'' of
     Inr s \<Rightarrow> s | Inl e \<Rightarrow> \<lparr> xs_pfxBytes = [], xs_pfxPassword = [], xs_cert = no_cert, xs_usesFallback = True \<rparr>)"

theorem signature_names_the_issuer_witness:
  "contains ''131234567'' (ci_subject (xs_cert (demo_loaded ''/C=DO/O=ACME/serialNumber=VATDO-131234567'')))"
proof -
  let ?s = "demo_loaded ''/C=DO/O=ACME/serialNumber=VATDO-131234567''"
  have "signXml demo_platform 500 ?s ''<ECF/>'' ''1-31-23456-7'' = Inr ''<ECF/><Signature/>''"
    "\<not> xs_usesFallback ?s" "\<not> ci_isSelfSigned (xs_cert ?s)" "\<not> delegated_subject (xs_cert ?s)"
    by code_simp+
  from signature_names_the_issuer [OF this] have
    "contains (filter isdigit ''1-31-23456-7'') (ci_subject (xs_cert ?s)) \<or> contains (filter isdigit ''1-31-23456-7'') (ci_san (xs_cert ?s))"
    by simp
  moreover have "filter isdigit ''1-31-23456-7'' = ''131234567''" "ci_san (xs_cert ?s) = []" by code_simp+
  ultimately show ?thesis by simp
qed

theorem some_certificates_sign_for_anyone_witness:
  "signXml demo_platform 500 (demo_loaded ''/CN=ANA PEREZ PERSONA FISICA/serialNumber=IDCDO-00112345678'') ''<ECF/>'' ''131234567''
     = Inr ''<ECF/><Signature/>''"
proof -
  let ?s = "demo_loaded ''/CN=ANA PEREZ PERSONA FISICA/serialNumber=IDCDO-00112345678''"
  have "filter isdigit ''131234567'' \<noteq> []" "in_validity 500 (xs_cert ?s)" "sp_parses demo_platform ''<ECF/>''"
    "delegated_subject (xs_cert ?s) \<and> corporate_numbers (xs_cert ?s) = [] \<and> has_cedula (xs_cert ?s)"
    by code_simp+
  from some_certificates_sign_for_anyone [OF this(1-3) disjI2 [OF this(4)]] show ?thesis
    by (simp add: demo_platform_def)
qed

end
