(* ===== verification/Schema_Validator.thy ===== *)
theory Schema_Validator
  imports Xml_Signer
begin

text \<open>
  EcfXsdFileNameResolver.cpp and EcfSchemaValidator.cpp: which XSD belongs to a document, the
  cache of compiled schemas, the repairs made to the DGII's files before libxml2 reads them, and
  the validation, which fails closed.  libxml2 (parsing, XPath, compiling and running a schema)
  and the files are the fields of \<open>schema_platform\<close>; a compiled schema is a value of type \<open>'s\<close>.
\<close>

subsection \<open>EcfXsdFileNameResolver\<close>

text \<open>The name of the root element, and the contents of the nodes the XPath selects.\<close>

record 's schema_platform =
  sc_root :: "string \<Rightarrow> string option"
  sc_tipos :: "string \<Rightarrow> string list"
  sc_file :: "string \<Rightarrow> string option"
  sc_parse :: "string \<Rightarrow> 's option"
  sc_validate :: "'s \<Rightarrow> string \<Rightarrow> int \<times> string list"
  sc_context :: bool

definition trim_if_text :: "string \<Rightarrow> string" where
  "trim_if_text s = (if xml_trim s = [] then s else xml_trim s)"

definition resolve_xsd :: "'s schema_platform \<Rightarrow> string \<Rightarrow> string" where
  "resolve_xsd pl xmlContent =
     (if xmlContent = [] then []
      else case sc_root pl xmlContent of
          None \<Rightarrow> []
        | Some rootName \<Rightarrow>
            if rootName = ''RFCE'' then ''RFCE 32 v.1.0.xsd''
            else if rootName = ''ACECF'' then ''ACECF v.1.0.xsd''
            else if rootName = ''ARECF'' then ''ARECF v1.0.xsd''
            else if rootName = ''ANECF'' \<or> rootName = ''Anulacion'' then ''ANECF v.1.0.xsd''
            else if rootName = ''SemillaModel'' then ''Semilla v.1.0.xsd''
            else if rootName = ''ECF'' then
              (case sc_tipos pl xmlContent of [] \<Rightarrow> [] | t # ts \<Rightarrow> ''e-CF '' @ trim_if_text t @ '' v.1.0.xsd'')
            else [])"

subsection \<open>\<open>getOrCompileSchema\<close>\<close>

text \<open>The loops that replace every occurrence of \<open>pat\<close>, going on behind the replacement.\<close>

function replace_all :: "string \<Rightarrow> string \<Rightarrow> string \<Rightarrow> string" where
  "replace_all pat new [] = []"
| "replace_all pat new (c # cs) =
     (if pat \<noteq> [] \<and> starts_with pat (c # cs) then new @ replace_all pat new (drop (length pat) (c # cs))
      else c # replace_all pat new cs)"
  by pat_completeness auto
termination
  by (relation "measure (\<lambda>(pat, new, s). length s)") (auto simp: prefix_def Suc_le_eq)

declare replace_all.simps(2) [simp del]

fun find_last :: "string \<Rightarrow> string \<Rightarrow> nat option" where
  "find_last pat [] = (if pat = [] then Some 0 else None)"
| "find_last pat (c # cs) = (case find_last pat cs of
     Some n \<Rightarrow> Some (Suc n) | None \<Rightarrow> if starts_with pat (c # cs) then Some 0 else None)"

definition dq :: string where "dq = [CHR 0x22]"

definition missing_type :: string where
  "missing_type = [CHR 0x0A] @ ''<xs:simpleType name='' @ dq @ ''IndicadorServicioTodoIncluidoType'' @ dq
     @ ''><xs:restriction base='' @ dq @ ''xs:integer'' @ dq @ ''><xs:enumeration value='' @ dq @ ''1'' @ dq
     @ ''/><xs:enumeration value='' @ dq @ ''2'' @ dq @ ''/></xs:restriction></xs:simpleType>'' @ [CHR 0x0A]"

definition repair_schema :: "string \<Rightarrow> string" where
  "repair_schema xsd =
     (let c1 = replace_all ''(?:'' ''('' xsd; c2 = replace_all [CHR 0x5C, CHR ''-''] ''-'' c1 in
      if contains ''IndicadorServicioTodoIncluidoType'' c2
         \<and> \<not> contains (''name='' @ dq @ ''IndicadorServicioTodoIncluidoType'' @ dq) c2
      then (case find_last ''</xs:schema>'' c2 of
          None \<Rightarrow> c2 | Some endTag \<Rightarrow> take endTag c2 @ missing_type @ drop endTag c2)
      else c2)"

type_synonym 's schema_cache = "string \<Rightarrow> 's option"

definition getOrCompileSchema :: "'s schema_platform \<Rightarrow> string \<Rightarrow> 's schema_cache \<Rightarrow> 's option \<times> 's schema_cache" where
  "getOrCompileSchema pl xsdPath cache = (case cache xsdPath of
       Some s \<Rightarrow> (Some s, cache)
     | None \<Rightarrow> (case sc_file pl xsdPath of
           None \<Rightarrow> (None, cache)
         | Some xsd \<Rightarrow> (case sc_parse pl (repair_schema xsd) of
               None \<Rightarrow> (None, cache) | Some s \<Rightarrow> (Some s, cache(xsdPath \<mapsto> s)))))"

subsection \<open>\<open>validate\<close>\<close>

record SchemaValidationResult =
  sr_isValid :: bool
  sr_errors :: "string list"

definition schema_error :: "string \<Rightarrow> SchemaValidationResult" where
  "schema_error msg = \<lparr> sr_isValid = False, sr_errors = [msg] \<rparr>"

definition validate_with :: "'s schema_platform \<Rightarrow> string \<Rightarrow> string \<Rightarrow> 's schema_cache \<Rightarrow> SchemaValidationResult \<times> 's schema_cache" where
  "validate_with pl xmlContent xsdPath cache =
     (if xmlContent = [] then (schema_error ''XML content is empty.'', cache)
      else if xsdPath = [] \<or> sc_file pl xsdPath = None then (schema_error (''XSD schema file not found at: '' @ xsdPath), cache)
      else case getOrCompileSchema pl xsdPath cache of
          (None, c1) \<Rightarrow> (schema_error (''Failed to parse XSD schema at: '' @ xsdPath), c1)
        | (Some schema, c1) \<Rightarrow>
            if sc_root pl xmlContent = None then (schema_error ''XML document is structurally malformed.'', c1)
            else if \<not> sc_context pl then (schema_error ''Failed to create schema validation context.'', c1)
            else case sc_validate pl schema xmlContent of (val, errors) \<Rightarrow>
              (if val = 0 then \<lparr> sr_isValid = True, sr_errors = errors \<rparr>
               else \<lparr> sr_isValid = False, sr_errors = (if errors = []
                 then [''Schema validation failed with code: '' @ dec_int val] else errors) \<rparr>, c1))"

definition validate_document ::
    "'s schema_platform \<Rightarrow> string option \<Rightarrow> string \<Rightarrow> 's schema_cache \<Rightarrow> SchemaValidationResult \<times> 's schema_cache" where
  "validate_document pl xsdDirectoryPath xmlContent cache =
     (if \<not> has_text xsdDirectoryPath
      then (schema_error (''Directorio de esquemas XSD no configurado. Validaci'' @ u_o @ ''n local fallida por dise''
             @ [CHR 0xC3, CHR 0xB1] @ ''o (fail-closed).''), cache)
      else let xsdFileName = resolve_xsd pl xmlContent in
        if xsdFileName = []
        then (schema_error ''No se pudo determinar el esquema XSD correspondiente para el documento XML (fail-closed).'', cache)
        else validate_with pl xmlContent (value_or xsdDirectoryPath [] @ ''/'' @ xsdFileName) cache)"

subsection \<open>What a valid document has passed\<close>

text \<open>The cache only holds what its files compile to.\<close>

definition compiled :: "'s schema_platform \<Rightarrow> 's schema_cache \<Rightarrow> bool" where
  "compiled pl cache \<longleftrightarrow> (\<forall>path s. cache path = Some s \<longrightarrow> (\<exists>xsd. sc_file pl path = Some xsd \<and> sc_parse pl (repair_schema xsd) = Some s))"

lemma getOrCompileSchema_sound:
  assumes "compiled pl cache" "getOrCompileSchema pl path cache = (r, cache')"
  shows "compiled pl cache' \<and> (\<forall>s. r = Some s \<longrightarrow> (\<exists>xsd. sc_file pl path = Some xsd \<and> sc_parse pl (repair_schema xsd) = Some s))"
  using assms by (auto simp: getOrCompileSchema_def compiled_def split: option.splits if_splits)

lemma validate_with_cases:
  assumes "validate_with pl x path cache = (r, cache')" "sr_isValid r"
  obtains schema where "getOrCompileSchema pl path cache = (Some schema, cache')" "fst (sc_validate pl schema x) = 0"
  using assms by (auto simp: validate_with_def schema_error_def split: if_splits prod.splits option.splits)

lemma validate_with_compiled:
  assumes "compiled pl cache" shows "compiled pl (snd (validate_with pl x path cache))"
proof -
  obtain r c1 where g: "getOrCompileSchema pl path cache = (r, c1)" by force
  have "snd (validate_with pl x path cache) \<in> {cache, c1}"
    using g by (auto simp: validate_with_def split: prod.splits option.splits)
  then show ?thesis using assms getOrCompileSchema_sound [OF assms g] by auto
qed

lemma validate_document_compiled:
  "compiled pl cache \<Longrightarrow> compiled pl (snd (validate_document pl dir x cache))"
  by (simp add: validate_document_def Let_def validate_with_compiled)

text \<open>The cache after any validations.\<close>

abbreviation cache_after :: "'s schema_platform \<Rightarrow> string option \<Rightarrow> string list \<Rightarrow> 's schema_cache" where
  "cache_after pl dir earlier \<equiv> fold (\<lambda>y c. snd (validate_document pl dir y c)) earlier Map.empty"

lemma fold_compiled: "compiled pl c \<Longrightarrow> compiled pl (fold (\<lambda>y c. snd (validate_document pl dir y c)) ys c)"
  by (induction ys arbitrary: c) (auto simp: validate_document_compiled)

lemma compiled_after: "compiled pl (cache_after pl dir earlier)"
  by (rule fold_compiled) (simp add: compiled_def)

lemma getOrCompileSchema_fresh:
  "compiled pl cache \<Longrightarrow> fst (getOrCompileSchema pl path cache) = fst (getOrCompileSchema pl path Map.empty)"
  by (cases "cache path") (force simp: getOrCompileSchema_def compiled_def split: option.splits)+

lemma validate_with_fresh:
  assumes "compiled pl cache" shows "fst (validate_with pl x path cache) = fst (validate_with pl x path Map.empty)"
proof -
  obtain r c1 c2 where g: "getOrCompileSchema pl path cache = (r, c1)" "getOrCompileSchema pl path Map.empty = (r, c2)"
    using getOrCompileSchema_fresh [OF assms, of path] by (metis prod.collapse)
  show ?thesis
    unfolding validate_with_def g by (cases r) (auto split: prod.splits)
qed

lemma validate_document_fresh:
  "compiled pl cache \<Longrightarrow> fst (validate_document pl dir x cache) = fst (validate_document pl dir x Map.empty)"
  using validate_with_fresh [of pl cache] by (simp add: validate_document_def Let_def)

text \<open>C20. The cache of compiled schemas is not observable: whatever documents were validated before, a document gets
  the answer a validator without a memory gives.\<close>
theorem cached_validation_is_validation:
  "fst (validate_document pl dir x (cache_after pl dir earlier)) = fst (validate_document pl dir x Map.empty)"
  by (rule validate_document_fresh [OF compiled_after])

text \<open>C19. Validation fails closed: after any number of validations, a document found valid was accepted
  by the schema its own root element asks for, compiled from the file of that name.\<close>
theorem valid_document_passed_its_schema:
  assumes "validate_document pl dir x (cache_after pl dir earlier) = (r, cache')"
    and "sr_isValid r"
  shows "\<exists>d xsd schema. dir = Some d \<and> d \<noteq> [] \<and> resolve_xsd pl x \<noteq> []
    \<and> sc_file pl (d @ ''/'' @ resolve_xsd pl x) = Some xsd \<and> sc_parse pl (repair_schema xsd) = Some schema
    \<and> fst (sc_validate pl schema x) = 0"
proof -
  let ?c = "cache_after pl dir earlier"
  note ok = compiled_after [of pl dir earlier]
  have dir: "has_text dir" "resolve_xsd pl x \<noteq> []"
    and v: "validate_with pl x (value_or dir [] @ ''/'' @ resolve_xsd pl x) ?c = (r, cache')"
    using assms by (auto simp: validate_document_def Let_def schema_error_def split: if_splits)
  obtain schema where g: "getOrCompileSchema pl (value_or dir [] @ ''/'' @ resolve_xsd pl x) ?c = (Some schema, cache')"
    and val: "fst (sc_validate pl schema x) = 0"
    using validate_with_cases [OF v assms(2)] .
  obtain xsd where "sc_file pl (value_or dir [] @ ''/'' @ resolve_xsd pl x) = Some xsd" "sc_parse pl (repair_schema xsd) = Some schema"
    using getOrCompileSchema_sound [OF ok g] by auto
  then show ?thesis using dir val by (cases dir) (auto simp: has_text_def)
qed

text \<open>What \<open>signAndSend\<close> asks of the validator: the errors of a document that is not valid.\<close>

definition document_schema_errors :: "'s schema_platform \<Rightarrow> string option \<Rightarrow> 's schema_cache \<Rightarrow> string \<Rightarrow> string list option" where
  "document_schema_errors pl dir cache x = (let r = fst (validate_document pl dir x cache) in
     if sr_isValid r then None else Some (sr_errors r))"

subsection \<open>Witness\<close>

definition demo_schemas :: "string schema_platform" where
  "demo_schemas = \<lparr> sc_root = (\<lambda>x. Some ''ECF''), sc_tipos = (\<lambda>x. [''31 '']),
     sc_file = (\<lambda>p. if p = ''xsd/e-CF 31 v.1.0.xsd'' then Some ''(?:E31)</xs:schema>'' else None),
     sc_parse = (\<lambda>c. if contains ''(?:'' c then None else Some c), sc_validate = (\<lambda>s x. (0, [])), sc_context = True \<rparr>"

theorem valid_document_passed_its_schema_witness:
  "resolve_xsd demo_schemas ''<ECF/>'' = ''e-CF 31 v.1.0.xsd'' \<and> sc_file demo_schemas (''xsd/'' @ resolve_xsd demo_schemas ''<ECF/>'') \<noteq> None"
proof -
  let ?v = "validate_document demo_schemas (Some ''xsd'') ''<ECF/>''
    (cache_after demo_schemas (Some ''xsd'') [''<ECF/>''])"
  have "sr_isValid (fst ?v)" by code_simp
  from valid_document_passed_its_schema [OF prod.collapse [symmetric] this]
  have "sc_file demo_schemas (''xsd/'' @ resolve_xsd demo_schemas ''<ECF/>'') \<noteq> None" by auto
  moreover have "resolve_xsd demo_schemas ''<ECF/>'' = ''e-CF 31 v.1.0.xsd''" by code_simp
  ultimately show ?thesis by blast
qed

end
