(* ===== verification/Json_Mapping.thy ===== *)
theory Json_Mapping
  imports Json_Value Documents_Submit Rfce_Model "HOL-Library.Monad_Syntax"
begin

text \<open>
  JsonMapping.cpp: the JSON of a request body as a canonical document or an RFCE, and a
  document as JSON.  \<open>None\<close> is the exception jsoncpp throws for a number that does not fit an
  \<open>int\<close> and for a look-up in a value that is no object.  The lemmas show that what is printed
  is read back.
\<close>

subsection \<open>Members\<close>

definition jstr_of :: "json \<Rightarrow> string \<Rightarrow> string \<Rightarrow> string" where
  "jstr_of j key dflt = (case jmember j key of Some (StrJ s) \<Rightarrow> s | _ \<Rightarrow> dflt)"

definition jdbl_of :: "json \<Rightarrow> string \<Rightarrow> dbl \<Rightarrow> dbl" where
  "jdbl_of j key dflt = (case jmember j key of None \<Rightarrow> dflt | Some v \<Rightarrow> if isNumeric v then asDouble v else dflt)"

definition jint_of :: "json \<Rightarrow> string \<Rightarrow> int \<Rightarrow> int option" where
  "jint_of j key dflt = (case jmember j key of None \<Rightarrow> Some dflt | Some v \<Rightarrow> if isNumeric v then asInt v else Some dflt)"

definition has_member :: "json \<Rightarrow> string \<Rightarrow> bool" where
  "has_member j key \<longleftrightarrow> (case jmember j key of None \<Rightarrow> False | Some v \<Rightarrow> v \<noteq> NullJ)"

definition member_of :: "json \<Rightarrow> string \<Rightarrow> json" where
  "member_of j key = (case jmember j key of None \<Rightarrow> NullJ | Some v \<Rightarrow> v)"

definition optStr :: "json \<Rightarrow> string \<Rightarrow> string option" where
  "optStr j key = (case jmember j key of Some (StrJ s) \<Rightarrow> Some s | _ \<Rightarrow> None)"

definition optDbl :: "json \<Rightarrow> string \<Rightarrow> dbl option" where
  "optDbl j key = (case jmember j key of None \<Rightarrow> None | Some v \<Rightarrow> if isNumeric v then Some (asDouble v) else None)"

text \<open>The outer option is the exception.\<close>

definition optInt :: "json \<Rightarrow> string \<Rightarrow> int option option" where
  "optInt j key = (case jmember j key of
       None \<Rightarrow> Some None
     | Some v \<Rightarrow> if isNumeric v then map_option Some (asInt v) else Some None)"

subsection \<open>\<open>canonicalDocumentFromJson\<close>\<close>

definition certificate_from_json :: "json \<Rightarrow> CanonicalCertificateDto" where
  "certificate_from_json c = \<lparr> crt_certificateBase64 = optStr c ''certificateBase64'', crt_password = optStr c ''password'',
     crt_certificatePath = optStr c ''certificatePath'' \<rparr>"

definition source_from_json :: "json \<Rightarrow> SourceReferenceDto" where
  "source_from_json sr = \<lparr> src_provider = jstr_of sr ''provider'' ''QuickBooksDesktop'', src_txnId = jstr_of sr ''txnId'' [],
     src_editSequence = jstr_of sr ''editSequence'' [] \<rparr>"

definition header_from_json :: "json \<Rightarrow> CanonicalHeaderDto option" where
  "header_from_json h = do {
     tipoPago \<leftarrow> optInt h ''tipoPago'';
     Some \<lparr> hdr_rncEmisor = jstr_of h ''rncEmisor'' [], hdr_razonSocialEmisor = jstr_of h ''razonSocialEmisor'' [],
       hdr_rncComprador = jstr_of h ''rncComprador'' [], hdr_identificadorExtranjero = optStr h ''identificadorExtranjero'',
       hdr_razonSocialComprador = jstr_of h ''razonSocialComprador'' [], hdr_correoComprador = optStr h ''correoComprador'',
       hdr_fechaEmision = jstr_of h ''fechaEmision'' [], hdr_fechaVencimientoSecuencia = optStr h ''fechaVencimientoSecuencia'',
       hdr_direccionEmisor = optStr h ''direccionEmisor'', hdr_tipoPago = tipoPago,
       hdr_fechaLimitePago = optStr h ''fechaLimitePago'', hdr_tipoIngresos = optStr h ''tipoIngresos'' \<rparr> }"

text \<open>Four members of the header may stand at the top of the document.\<close>

definition header_fallbacks :: "json \<Rightarrow> CanonicalHeaderDto \<Rightarrow> CanonicalHeaderDto option" where
  "header_fallbacks j h = do {
     tipoPago \<leftarrow> (if hdr_tipoPago h = None then optInt j ''tipoPago'' else Some (hdr_tipoPago h));
     Some (h \<lparr> hdr_direccionEmisor := (if hdr_direccionEmisor h = None then optStr j ''direccionEmisor'' else hdr_direccionEmisor h),
       hdr_tipoPago := tipoPago,
       hdr_fechaLimitePago := (if hdr_fechaLimitePago h = None then optStr j ''fechaLimitePago'' else hdr_fechaLimitePago h),
       hdr_tipoIngresos := (if hdr_tipoIngresos h = None then optStr j ''tipoIngresos'' else hdr_tipoIngresos h) \<rparr>) }"

definition currency_from_json :: "json \<Rightarrow> CanonicalCurrencyDto" where
  "currency_from_json c = \<lparr> cur_code = jstr_of c ''code'' ''DOP'', cur_exchangeRate = value_or (optDbl c ''exchangeRate'') (dlit 1 1) \<rparr>"

definition indicador_from_json :: "json \<Rightarrow> int option option" where
  "indicador_from_json l = do {
     n \<leftarrow> optInt l ''indicadorFacturacion'';
     Some (if n = None then (case jmember l ''indicadorFacturacion'' of Some (StrJ s) \<Rightarrow> stoi s | _ \<Rightarrow> None) else n) }"

definition line_from_json :: "json \<Rightarrow> CanonicalLineDto option" where
  "line_from_json l = do {
     lineNumber \<leftarrow> jint_of l ''lineNumber'' 0;
     indicador \<leftarrow> indicador_from_json l;
     Some \<lparr> ln_lineNumber = lineNumber, ln_itemName = jstr_of l ''itemName'' [], ln_quantity = jdbl_of l ''quantity'' dzero,
       ln_unitPrice = jdbl_of l ''unitPrice'' dzero, ln_amount = jdbl_of l ''amount'' dzero,
       ln_discountAmount = value_or (optDbl l ''discountAmount'') dzero, ln_indicadorFacturacion = indicador,
       ln_taxRate = optDbl l ''taxRate'', ln_taxAmount = optDbl l ''taxAmount'',
       ln_montoItbisRetenido = optDbl l ''montoItbisRetenido'', ln_montoIsrRetenido = optDbl l ''montoIsrRetenido'' \<rparr> }"

text \<open>The elements of a member that is an array; looking for it in a value that is no object throws.\<close>

definition array_from_json :: "(json \<Rightarrow> 'a option) \<Rightarrow> json \<Rightarrow> string \<Rightarrow> 'a list option" where
  "array_from_json f j key = do {
     there \<leftarrow> isMember j key;
     (if there then those (map f (elements (member_of j key))) else Some []) }"

definition bucket_from_json :: "json \<Rightarrow> CanonicalTaxBucketDto option" where
  "bucket_from_json tb = do {
     rate \<leftarrow> jint_of tb ''rate'' 18;
     Some \<lparr> bkt_rate = rate, bkt_base = jdbl_of tb ''base'' dzero, bkt_tax = jdbl_of tb ''tax'' dzero \<rparr> }"

definition totals_from_json :: "json \<Rightarrow> CanonicalTotalsDto option" where
  "totals_from_json t = do {
     buckets \<leftarrow> array_from_json bucket_from_json t ''taxBuckets'';
     Some \<lparr> tot_montoSubtotal = jdbl_of t ''montoSubtotal'' dzero, tot_montoGravadoTotal = optDbl t ''montoGravadoTotal'',
       tot_montoExento = optDbl t ''montoExento'', tot_taxBuckets = buckets, tot_montoItbis = jdbl_of t ''montoItbis'' dzero,
       tot_montoTotal = jdbl_of t ''montoTotal'' dzero \<rparr> }"

definition references_from_json :: "json \<Rightarrow> CanonicalReferencesDto option" where
  "references_from_json r = do {
     codigo \<leftarrow> optInt r ''codigoModificacion'';
     indicador \<leftarrow> optInt r ''indicadorNotaCredito'';
     Some \<lparr> ref_correctsTxnId = jstr_of r ''correctsTxnId'' [], ref_correctsENcf = jstr_of r ''correctsENcf'' [],
       ref_codigoModificacion = codigo, ref_razonModificacion = optStr r ''razonModificacion'',
       ref_fechaNcfModificado = optStr r ''fechaNcfModificado'', ref_rncOtroContribuyente = optStr r ''rncOtroContribuyente'',
       ref_indicadorNotaCredito = indicador \<rparr> }"

definition reference_fallback :: "json \<Rightarrow> CanonicalReferencesDto \<Rightarrow> CanonicalReferencesDto option" where
  "reference_fallback j r = do {
     n \<leftarrow> (if ref_indicadorNotaCredito r = None then optInt j ''indicadorNotaCredito'' else Some (ref_indicadorNotaCredito r));
     Some (r \<lparr> ref_indicadorNotaCredito := n \<rparr>) }"

definition retention_from_json :: "json \<Rightarrow> CanonicalRetentionDto option" where
  "retention_from_json ret = do {
     indicador \<leftarrow> jint_of ret ''indicadorAgenteRetencionoPercepcion'' 1;
     Some \<lparr> ret_indicadorAgente = indicador, ret_montoItbisRetenido = jdbl_of ret ''montoItbisRetenido'' dzero,
       ret_montoIsrRetenido = optDbl ret ''montoIsrRetenido'' \<rparr> }"

text \<open>A member that is not null, or the default.\<close>

definition section_from :: "(json \<Rightarrow> 'a option) \<Rightarrow> 'a \<Rightarrow> json \<Rightarrow> string \<Rightarrow> 'a option" where
  "section_from f dflt j key = (if has_member j key then f (member_of j key) else Some dflt)"

definition canonicalDocumentFromJson :: "json \<Rightarrow> CanonicalDocumentDto option" where
  "canonicalDocumentFromJson j = do {
     h0 \<leftarrow> section_from header_from_json (dto_header default_dto) j ''header'';
     h \<leftarrow> header_fallbacks j h0;
     ls \<leftarrow> array_from_json line_from_json j ''lines'';
     t \<leftarrow> section_from totals_from_json (dto_totals default_dto) j ''totals'';
     r0 \<leftarrow> section_from references_from_json (dto_references default_dto) j ''references'';
     r \<leftarrow> reference_fallback j r0;
     ret \<leftarrow> section_from (map_option Some \<circ> retention_from_json) None j ''retention'';
     Some \<lparr> dto_tenantId = optStr j ''tenantId'', dto_environment = optStr j ''environment'',
       dto_certificate = (if has_member j ''certificate'' then Some (certificate_from_json (member_of j ''certificate'')) else None),
       dto_ncf = optStr j ''ncf'',
       dto_sourceReference = (if has_member j ''sourceReference'' then source_from_json (member_of j ''sourceReference'')
         else dto_sourceReference default_dto),
       dto_documentKind = jstr_of j ''documentKind'' ''Invoice'', dto_tipoComprobante = jstr_of j ''tipoComprobante'' ''E31'',
       dto_header = h,
       dto_currency = (if isObject (member_of j ''currency'') then Some (currency_from_json (member_of j ''currency'')) else None),
       dto_lines = ls, dto_totals = t, dto_references = r, dto_retention = ret,
       dto_fechaVencimientoSecuencia = optStr j ''fechaVencimientoSecuencia'' \<rparr> }"

text \<open>What \<open>submit\<close> makes of the body it was sent (\<open>None\<close>: not JSON), given jsoncpp's message.\<close>

definition parsed_body_of :: "string \<Rightarrow> json option \<Rightarrow> parsed_body" where
  "parsed_body_of logic_error body = (case body of
       None \<Rightarrow> NoJson
     | Some j \<Rightarrow> (case canonicalDocumentFromJson j of None \<Rightarrow> BadDto logic_error | Some dto \<Rightarrow> Parsed dto))"

subsection \<open>\<open>rfceFromJson\<close>\<close>

definition object_member :: "json \<Rightarrow> string \<Rightarrow> json" where
  "object_member j key = (if isObject (member_of j key) then member_of j key else NullJ)"

definition forma_from_json :: "json \<Rightarrow> FormaDePagoItem option" where
  "forma_from_json fp = do {
     formaPago \<leftarrow> jint_of fp ''formaPago'' 0;
     Some \<lparr> fp_formaPago = formaPago, fp_montoPago = jdbl_of fp ''montoPago'' dzero \<rparr> }"

definition rfce_idDoc_from_json :: "json \<Rightarrow> RfceIdDoc option" where
  "rfce_idDoc_from_json idDoc = do {
     tipoIngresos \<leftarrow> jint_of idDoc ''tipoIngresos'' 0;
     tipoPago \<leftarrow> jint_of idDoc ''tipoPago'' 0;
     formas \<leftarrow> those (map forma_from_json (elements (member_of idDoc ''tablaFormasPago'')));
     Some \<lparr> ri_tipoeCF = jstr_of idDoc ''tipoeCF'' ''32'', ri_eNcf = jstr_of idDoc ''eNcf'' [], ri_tipoIngresos = tipoIngresos,
       ri_tipoPago = tipoPago, ri_tablaFormasPago = formas \<rparr> }"

definition impuesto_from_json :: "json \<Rightarrow> ImpuestoAdicionalItem" where
  "impuesto_from_json ia = \<lparr> ia_tipoImpuesto = jstr_of ia ''tipoImpuesto'' [],
     ia_selectivoEspecifico = optDbl ia ''montoImpuestoSelectivoConsumoEspecifico'',
     ia_selectivoAdvalorem = optDbl ia ''montoImpuestoSelectivoConsumoAdvalorem'',
     ia_otros = optDbl ia ''otrosImpuestosAdicionales'' \<rparr>"

definition rfce_totales_from_json :: "json \<Rightarrow> RfceTotales" where
  "rfce_totales_from_json t = \<lparr> rt_montoGravadoTotal = optDbl t ''montoGravadoTotal'', rt_montoGravadoI1 = optDbl t ''montoGravadoI1'',
     rt_montoGravadoI2 = optDbl t ''montoGravadoI2'', rt_montoGravadoI3 = optDbl t ''montoGravadoI3'',
     rt_montoExento = optDbl t ''montoExento'', rt_totalITBIS = optDbl t ''totalITBIS'', rt_totalITBIS1 = optDbl t ''totalITBIS1'',
     rt_totalITBIS2 = optDbl t ''totalITBIS2'', rt_totalITBIS3 = optDbl t ''totalITBIS3'',
     rt_montoImpuestoAdicional = optDbl t ''montoImpuestoAdicional'',
     rt_impuestosAdicionales = map impuesto_from_json (elements (member_of t ''impuestosAdicionales'')),
     rt_montoTotal = jdbl_of t ''montoTotal'' dzero, rt_montoNoFacturable = optDbl t ''montoNoFacturable'',
     rt_montoPeriodo = None, rt_codigoSeguridadeCF = optStr t ''codigoSeguridadeCF'' \<rparr>"

text \<open>The security code of the header, and of the totals when only one of them has it.\<close>

definition header_code :: "json \<Rightarrow> string option \<Rightarrow> string option" where
  "header_code enc totalsCode = (if has_member enc ''codigoSeguridadeCF'' then optStr enc ''codigoSeguridadeCF'' else totalsCode)"

definition rfceFromJson :: "string \<Rightarrow> json \<Rightarrow> string + Rfce" where
  "rfceFromJson logic_error j =
     (if \<not> isObject j then Inl ''Payload must be a JSON object.''
      else let enc = object_member j ''encabezado''; em = object_member enc ''emisor'';
               to = rfce_totales_from_json (object_member enc ''totales'');
               code = header_code enc (rt_codigoSeguridadeCF to)
        in case rfce_idDoc_from_json (object_member enc ''idDoc'') of
             None \<Rightarrow> Inl logic_error
           | Some idDoc \<Rightarrow> Inr \<lparr> rf_encabezado = \<lparr> rh_version = jstr_of enc ''version'' ''1.0'', rh_idDoc = idDoc,
               rh_emisor = \<lparr> re_rncEmisor = jstr_of em ''rncEmisor'' [], re_razonSocialEmisor = jstr_of em ''razonSocialEmisor'' [],
                 re_fechaEmision = jstr_of em ''fechaEmision'' [] \<rparr>,
               rh_comprador = (if has_member enc ''comprador'' then
                   (let co = member_of enc ''comprador'' in Some \<lparr> rc_rncComprador = optStr co ''rncComprador'',
                      rc_identificadorExtranjero = optStr co ''identificadorExtranjero'',
                      rc_razonSocialComprador = optStr co ''razonSocialComprador'' \<rparr>) else None),
               rh_totales = to \<lparr> rt_codigoSeguridadeCF := (if rt_codigoSeguridadeCF to = None then code else rt_codigoSeguridadeCF to) \<rparr>,
               rh_codigoSeguridadeCF = code \<rparr> \<rparr>)"

subsection \<open>\<open>toJson\<close> of a document\<close>

definition source_to_json :: "SourceReferenceDto \<Rightarrow> json" where
  "source_to_json s = ObjJ [(''provider'', StrJ (src_provider s)), (''txnId'', StrJ (src_txnId s)),
     (''editSequence'', StrJ (src_editSequence s))]"

definition header_to_json :: "CanonicalHeaderDto \<Rightarrow> json" where
  "header_to_json h = ObjJ (field ''rncEmisor'' (StrJ (hdr_rncEmisor h))
     @ field ''razonSocialEmisor'' (StrJ (hdr_razonSocialEmisor h)) @ field ''rncComprador'' (StrJ (hdr_rncComprador h))
     @ opt_field ''identificadorExtranjero'' StrJ (hdr_identificadorExtranjero h)
     @ field ''razonSocialComprador'' (StrJ (hdr_razonSocialComprador h))
     @ opt_field ''correoComprador'' StrJ (hdr_correoComprador h) @ field ''fechaEmision'' (StrJ (hdr_fechaEmision h))
     @ opt_field ''fechaVencimientoSecuencia'' StrJ (hdr_fechaVencimientoSecuencia h)
     @ opt_field ''direccionEmisor'' StrJ (hdr_direccionEmisor h) @ opt_field ''tipoPago'' IntJ (hdr_tipoPago h)
     @ opt_field ''fechaLimitePago'' StrJ (hdr_fechaLimitePago h) @ opt_field ''tipoIngresos'' StrJ (hdr_tipoIngresos h))"

definition currency_to_json :: "CanonicalCurrencyDto \<Rightarrow> json" where
  "currency_to_json c = ObjJ [(''code'', StrJ (cur_code c)), (''exchangeRate'', DblJ (cur_exchangeRate c))]"

definition line_to_json :: "CanonicalLineDto \<Rightarrow> json" where
  "line_to_json l = ObjJ (field ''lineNumber'' (IntJ (ln_lineNumber l)) @ field ''itemName'' (StrJ (ln_itemName l))
     @ field ''quantity'' (DblJ (ln_quantity l)) @ field ''unitPrice'' (DblJ (ln_unitPrice l)) @ field ''amount'' (DblJ (ln_amount l))
     @ field ''discountAmount'' (DblJ (ln_discountAmount l)) @ opt_field ''indicadorFacturacion'' IntJ (ln_indicadorFacturacion l)
     @ opt_field ''taxRate'' DblJ (ln_taxRate l) @ opt_field ''taxAmount'' DblJ (ln_taxAmount l)
     @ opt_field ''montoItbisRetenido'' DblJ (ln_montoItbisRetenido l) @ opt_field ''montoIsrRetenido'' DblJ (ln_montoIsrRetenido l))"

definition bucket_to_json :: "CanonicalTaxBucketDto \<Rightarrow> json" where
  "bucket_to_json b = ObjJ [(''rate'', IntJ (bkt_rate b)), (''base'', DblJ (bkt_base b)), (''tax'', DblJ (bkt_tax b))]"

definition totals_to_json :: "CanonicalTotalsDto \<Rightarrow> json" where
  "totals_to_json t = ObjJ (field ''montoSubtotal'' (DblJ (tot_montoSubtotal t))
     @ opt_field ''montoGravadoTotal'' DblJ (tot_montoGravadoTotal t) @ opt_field ''montoExento'' DblJ (tot_montoExento t)
     @ (if tot_taxBuckets t = [] then [] else field ''taxBuckets'' (ArrJ (map bucket_to_json (tot_taxBuckets t))))
     @ field ''montoItbis'' (DblJ (tot_montoItbis t)) @ field ''montoTotal'' (DblJ (tot_montoTotal t)))"

definition references_to_json :: "CanonicalReferencesDto \<Rightarrow> json" where
  "references_to_json r = ObjJ (field ''correctsTxnId'' (StrJ (ref_correctsTxnId r)) @ field ''correctsENcf'' (StrJ (ref_correctsENcf r))
     @ opt_field ''codigoModificacion'' IntJ (ref_codigoModificacion r) @ opt_field ''razonModificacion'' StrJ (ref_razonModificacion r)
     @ opt_field ''fechaNcfModificado'' StrJ (ref_fechaNcfModificado r)
     @ opt_field ''rncOtroContribuyente'' StrJ (ref_rncOtroContribuyente r)
     @ opt_field ''indicadorNotaCredito'' IntJ (ref_indicadorNotaCredito r))"

definition retention_to_json :: "CanonicalRetentionDto \<Rightarrow> json" where
  "retention_to_json r = ObjJ (field ''indicadorAgenteRetencionoPercepcion'' (IntJ (ret_indicadorAgente r))
     @ field ''montoItbisRetenido'' (DblJ (ret_montoItbisRetenido r)) @ opt_field ''montoIsrRetenido'' DblJ (ret_montoIsrRetenido r))"

definition document_to_json :: "CanonicalDocumentDto \<Rightarrow> json" where
  "document_to_json d = ObjJ (opt_field ''ncf'' StrJ (dto_ncf d) @ field ''documentKind'' (StrJ (dto_documentKind d))
     @ field ''tipoComprobante'' (StrJ (dto_tipoComprobante d)) @ field ''sourceReference'' (source_to_json (dto_sourceReference d))
     @ field ''header'' (header_to_json (dto_header d)) @ opt_field ''currency'' currency_to_json (dto_currency d)
     @ field ''lines'' (ArrJ (map line_to_json (dto_lines d))) @ field ''totals'' (totals_to_json (dto_totals d))
     @ field ''references'' (references_to_json (dto_references d)) @ opt_field ''retention'' retention_to_json (dto_retention d)
     @ opt_field ''fechaVencimientoSecuencia'' StrJ (dto_fechaVencimientoSecuencia d))"

subsection \<open>What is printed is read back\<close>

text \<open>The members of type \<open>int\<close> hold an \<open>int\<close>.\<close>

definition opt_fits :: "int option \<Rightarrow> bool" where
  "opt_fits v \<longleftrightarrow> (case v of None \<Rightarrow> True | Some n \<Rightarrow> fits_int n)"

definition ints_fit :: "CanonicalDocumentDto \<Rightarrow> bool" where
  "ints_fit d \<longleftrightarrow> opt_fits (hdr_tipoPago (dto_header d))
     \<and> list_all (\<lambda>l. fits_int (ln_lineNumber l) \<and> opt_fits (ln_indicadorFacturacion l)) (dto_lines d)
     \<and> list_all (\<lambda>b. fits_int (bkt_rate b)) (tot_taxBuckets (dto_totals d))
     \<and> opt_fits (ref_codigoModificacion (dto_references d)) \<and> opt_fits (ref_indicadorNotaCredito (dto_references d))
     \<and> (case dto_retention d of None \<Rightarrow> True | Some r \<Rightarrow> fits_int (ret_indicadorAgente r))"

text \<open>The value of one member of a printed object.\<close>

named_theorems json_read \<open>reading a member that was printed\<close>

lemma jstr_read [json_read]: "map_of ms k = Some (StrJ s) \<Longrightarrow> jstr_of (ObjJ ms) k d = s"
  by (simp add: jstr_of_def)

lemma jdbl_read [json_read]: "map_of ms k = Some (DblJ x) \<Longrightarrow> jdbl_of (ObjJ ms) k d = x"
  by (simp add: jdbl_of_def)

lemma jint_read [json_read]: "map_of ms k = Some (IntJ n) \<Longrightarrow> fits_int n \<Longrightarrow> jint_of (ObjJ ms) k d = Some n"
  by (simp add: jint_of_def)

lemma optStr_read [json_read]: "map_of ms k = map_option StrJ v \<Longrightarrow> optStr (ObjJ ms) k = v"
  by (cases v) (simp_all add: optStr_def)

lemma optDbl_read [json_read]: "map_of ms k = map_option DblJ v \<Longrightarrow> optDbl (ObjJ ms) k = v"
  by (cases v) (simp_all add: optDbl_def)

lemma optInt_read [json_read]: "map_of ms k = map_option IntJ v \<Longrightarrow> opt_fits v \<Longrightarrow> optInt (ObjJ ms) k = Some v"
  by (cases v) (simp_all add: optInt_def opt_fits_def)

lemma those_map: "(\<And>x. x \<in> set xs \<Longrightarrow> f (g x) = Some x) \<Longrightarrow> those (map f (map g xs)) = Some xs"
  by (induction xs) simp_all

lemma header_members:
  "jstr_of (header_to_json h) ''rncEmisor'' [] = hdr_rncEmisor h"
  "jstr_of (header_to_json h) ''razonSocialEmisor'' [] = hdr_razonSocialEmisor h"
  "jstr_of (header_to_json h) ''rncComprador'' [] = hdr_rncComprador h"
  "jstr_of (header_to_json h) ''razonSocialComprador'' [] = hdr_razonSocialComprador h"
  "jstr_of (header_to_json h) ''fechaEmision'' [] = hdr_fechaEmision h"
  "optStr (header_to_json h) ''identificadorExtranjero'' = hdr_identificadorExtranjero h"
  "optStr (header_to_json h) ''correoComprador'' = hdr_correoComprador h"
  "optStr (header_to_json h) ''fechaVencimientoSecuencia'' = hdr_fechaVencimientoSecuencia h"
  "optStr (header_to_json h) ''direccionEmisor'' = hdr_direccionEmisor h"
  "optStr (header_to_json h) ''fechaLimitePago'' = hdr_fechaLimitePago h"
  "optStr (header_to_json h) ''tipoIngresos'' = hdr_tipoIngresos h"
  unfolding header_to_json_def by (rule json_read, auto simp del: map_of_append)+

lemma header_round_trip:
  assumes "opt_fits (hdr_tipoPago h)"
  shows "header_from_json (header_to_json h) = Some h"
proof -
  have "optInt (header_to_json h) ''tipoPago'' = Some (hdr_tipoPago h)"
    unfolding header_to_json_def by (rule json_read) (auto simp: assms simp del: map_of_append)
  then show ?thesis by (simp add: header_from_json_def header_members)
qed

lemma line_members:
  "jstr_of (line_to_json l) ''itemName'' [] = ln_itemName l" "jdbl_of (line_to_json l) ''quantity'' dzero = ln_quantity l"
  "jdbl_of (line_to_json l) ''unitPrice'' dzero = ln_unitPrice l" "jdbl_of (line_to_json l) ''amount'' dzero = ln_amount l"
  "optDbl (line_to_json l) ''discountAmount'' = Some (ln_discountAmount l)"
  "optDbl (line_to_json l) ''taxRate'' = ln_taxRate l" "optDbl (line_to_json l) ''taxAmount'' = ln_taxAmount l"
  "optDbl (line_to_json l) ''montoItbisRetenido'' = ln_montoItbisRetenido l"
  "optDbl (line_to_json l) ''montoIsrRetenido'' = ln_montoIsrRetenido l"
  unfolding line_to_json_def by (rule json_read, auto simp del: map_of_append)+

lemma line_round_trip:
  assumes "fits_int (ln_lineNumber l)" "opt_fits (ln_indicadorFacturacion l)"
  shows "line_from_json (line_to_json l) = Some l"
proof -
  have n: "jint_of (line_to_json l) ''lineNumber'' 0 = Some (ln_lineNumber l)"
    "optInt (line_to_json l) ''indicadorFacturacion'' = Some (ln_indicadorFacturacion l)"
    unfolding line_to_json_def by (rule json_read, auto simp: assms simp del: map_of_append)+
  have "jmember (line_to_json l) ''indicadorFacturacion'' = map_option IntJ (ln_indicadorFacturacion l)"
    by (auto simp: line_to_json_def simp del: map_of_append)
  then have "indicador_from_json (line_to_json l) = Some (ln_indicadorFacturacion l)"
    using n(2) by (cases "ln_indicadorFacturacion l") (simp_all add: indicador_from_json_def)
  then show ?thesis by (simp add: line_from_json_def n(1) line_members)
qed

lemma bucket_round_trip: "fits_int (bkt_rate b) \<Longrightarrow> bucket_from_json (bucket_to_json b) = Some b"
  by (simp add: bucket_from_json_def bucket_to_json_def jint_of_def jdbl_of_def)

lemma totals_round_trip:
  assumes "list_all (\<lambda>b. fits_int (bkt_rate b)) (tot_taxBuckets t)"
  shows "totals_from_json (totals_to_json t) = Some t"
proof -
  have ms: "jdbl_of (totals_to_json t) ''montoSubtotal'' dzero = tot_montoSubtotal t"
    "optDbl (totals_to_json t) ''montoGravadoTotal'' = tot_montoGravadoTotal t"
    "optDbl (totals_to_json t) ''montoExento'' = tot_montoExento t"
    "jdbl_of (totals_to_json t) ''montoItbis'' dzero = tot_montoItbis t"
    "jdbl_of (totals_to_json t) ''montoTotal'' dzero = tot_montoTotal t"
    unfolding totals_to_json_def by (rule json_read, auto simp del: map_of_append)+
  have "those (map bucket_from_json (map bucket_to_json (tot_taxBuckets t))) = Some (tot_taxBuckets t)"
    by (rule those_map) (use assms in \<open>simp add: list_all_iff bucket_round_trip\<close>)
  moreover have "jmember (totals_to_json t) ''taxBuckets'' = (if tot_taxBuckets t = [] then None
      else Some (ArrJ (map bucket_to_json (tot_taxBuckets t))))"
    "isMember (totals_to_json t) ''taxBuckets'' = Some (tot_taxBuckets t \<noteq> [])"
    by (auto simp: totals_to_json_def simp del: map_of_append)
  ultimately have "array_from_json bucket_from_json (totals_to_json t) ''taxBuckets'' = Some (tot_taxBuckets t)"
    by (simp add: array_from_json_def member_of_def del: map_map)
  then show ?thesis by (simp add: totals_from_json_def ms)
qed

lemma references_round_trip:
  assumes "opt_fits (ref_codigoModificacion r)" "opt_fits (ref_indicadorNotaCredito r)"
  shows "references_from_json (references_to_json r) = Some r"
proof -
  have "jstr_of (references_to_json r) ''correctsTxnId'' [] = ref_correctsTxnId r"
    "jstr_of (references_to_json r) ''correctsENcf'' [] = ref_correctsENcf r"
    "optInt (references_to_json r) ''codigoModificacion'' = Some (ref_codigoModificacion r)"
    "optStr (references_to_json r) ''razonModificacion'' = ref_razonModificacion r"
    "optStr (references_to_json r) ''fechaNcfModificado'' = ref_fechaNcfModificado r"
    "optStr (references_to_json r) ''rncOtroContribuyente'' = ref_rncOtroContribuyente r"
    "optInt (references_to_json r) ''indicadorNotaCredito'' = Some (ref_indicadorNotaCredito r)"
    unfolding references_to_json_def by (rule json_read, auto simp: assms simp del: map_of_append)+
  then show ?thesis by (simp add: references_from_json_def)
qed

lemma retention_round_trip:
  assumes "fits_int (ret_indicadorAgente r)"
  shows "retention_from_json (retention_to_json r) = Some r"
proof -
  have "jint_of (retention_to_json r) ''indicadorAgenteRetencionoPercepcion'' 1 = Some (ret_indicadorAgente r)"
    "jdbl_of (retention_to_json r) ''montoItbisRetenido'' dzero = ret_montoItbisRetenido r"
    "optDbl (retention_to_json r) ''montoIsrRetenido'' = ret_montoIsrRetenido r"
    unfolding retention_to_json_def by (rule json_read, auto simp: assms simp del: map_of_append)+
  then show ?thesis by (simp add: retention_from_json_def)
qed

lemma currency_round_trip: "currency_from_json (currency_to_json c) = c"
  by (simp add: currency_from_json_def currency_to_json_def jstr_of_def optDbl_def)

lemma source_round_trip: "source_from_json (source_to_json s) = s"
  by (simp add: source_from_json_def source_to_json_def jstr_of_def)

text \<open>The members of a printed document.\<close>

lemma document_strings:
  "optStr (document_to_json d) ''tenantId'' = None" "optStr (document_to_json d) ''environment'' = None"
  "optStr (document_to_json d) ''ncf'' = dto_ncf d" "jstr_of (document_to_json d) ''documentKind'' ''Invoice'' = dto_documentKind d"
  "jstr_of (document_to_json d) ''tipoComprobante'' ''E31'' = dto_tipoComprobante d"
  "optStr (document_to_json d) ''fechaVencimientoSecuencia'' = dto_fechaVencimientoSecuencia d"
  "optStr (document_to_json d) ''direccionEmisor'' = None" "optStr (document_to_json d) ''fechaLimitePago'' = None"
  "optStr (document_to_json d) ''tipoIngresos'' = None"
  "optInt (document_to_json d) ''tipoPago'' = Some None" "optInt (document_to_json d) ''indicadorNotaCredito'' = Some None"
  unfolding document_to_json_def by (rule json_read, auto simp: opt_fits_def simp del: map_of_append)+

lemma document_members:
  "jmember (document_to_json d) ''certificate'' = None"
  "jmember (document_to_json d) ''sourceReference'' = Some (source_to_json (dto_sourceReference d))"
  "jmember (document_to_json d) ''header'' = Some (header_to_json (dto_header d))"
  "jmember (document_to_json d) ''currency'' = map_option currency_to_json (dto_currency d)"
  "jmember (document_to_json d) ''lines'' = Some (ArrJ (map line_to_json (dto_lines d)))"
  "jmember (document_to_json d) ''totals'' = Some (totals_to_json (dto_totals d))"
  "jmember (document_to_json d) ''references'' = Some (references_to_json (dto_references d))"
  "jmember (document_to_json d) ''retention'' = map_option retention_to_json (dto_retention d)"
  "isMember (document_to_json d) ''lines'' = Some True"
  by (auto simp: document_to_json_def simp del: map_of_append)

lemma printed_objects:
  "source_to_json s \<noteq> NullJ" "header_to_json h \<noteq> NullJ" "totals_to_json t \<noteq> NullJ" "references_to_json r \<noteq> NullJ"
  "retention_to_json x \<noteq> NullJ" "isObject (currency_to_json c)"
  by (simp_all add: source_to_json_def header_to_json_def totals_to_json_def references_to_json_def retention_to_json_def
      currency_to_json_def)

lemma document_sections:
  assumes "ints_fit d"
  shows "section_from header_from_json (dto_header default_dto) (document_to_json d) ''header'' = Some (dto_header d)"
    and "section_from totals_from_json (dto_totals default_dto) (document_to_json d) ''totals'' = Some (dto_totals d)"
    and "section_from references_from_json (dto_references default_dto) (document_to_json d) ''references'' = Some (dto_references d)"
    and "section_from (map_option Some \<circ> retention_from_json) None (document_to_json d) ''retention'' = Some (dto_retention d)"
    and "array_from_json line_from_json (document_to_json d) ''lines'' = Some (dto_lines d)"
proof -
  note present = section_from_def has_member_def member_of_def document_members printed_objects
  note fit = assms [unfolded ints_fit_def]
  show "section_from header_from_json (dto_header default_dto) (document_to_json d) ''header'' = Some (dto_header d)"
    "section_from totals_from_json (dto_totals default_dto) (document_to_json d) ''totals'' = Some (dto_totals d)"
    "section_from references_from_json (dto_references default_dto) (document_to_json d) ''references'' = Some (dto_references d)"
    using fit by (simp_all add: present header_round_trip totals_round_trip references_round_trip)
  show "section_from (map_option Some \<circ> retention_from_json) None (document_to_json d) ''retention'' = Some (dto_retention d)"
    using fit by (cases "dto_retention d") (simp_all add: present retention_round_trip)
  have "those (map line_from_json (map line_to_json (dto_lines d))) = Some (dto_lines d)"
    by (rule those_map) (use fit in \<open>simp add: list_all_iff line_round_trip\<close>)
  then show "array_from_json line_from_json (document_to_json d) ''lines'' = Some (dto_lines d)"
    by (simp add: array_from_json_def present del: map_map)
qed

text \<open>Nothing at the top of a printed document replaces what its sections hold.\<close>

lemma document_fallbacks:
  "header_fallbacks (document_to_json d) (dto_header d) = Some (dto_header d)"
  "reference_fallback (document_to_json d) (dto_references d) = Some (dto_references d)"
  by (cases "hdr_tipoPago (dto_header d)"; simp add: header_fallbacks_def document_strings)
     (cases "ref_indicadorNotaCredito (dto_references d)"; simp add: reference_fallback_def document_strings)

lemma document_options:
  "(if isObject (member_of (document_to_json d) ''currency'')
    then Some (currency_from_json (member_of (document_to_json d) ''currency'')) else None) = dto_currency d"
  "(if has_member (document_to_json d) ''sourceReference'' then source_from_json (member_of (document_to_json d) ''sourceReference'')
    else dto_sourceReference default_dto) = dto_sourceReference d"
  "has_member (document_to_json d) ''certificate'' = False"
  by (cases "dto_currency d"; simp add: has_member_def member_of_def document_members printed_objects currency_round_trip)
     (simp_all add: has_member_def member_of_def document_members printed_objects source_round_trip)


definition demo_canonical :: CanonicalDocumentDto where
  "demo_canonical = default_dto \<lparr> dto_tenantId := Some ''acme'', dto_lines := [default_line \<lparr> ln_lineNumber := 1,
     ln_itemName := ''Servicio'', ln_indicadorFacturacion := Some 1 \<rparr>], dto_ncf := Some ''E310000000001'' \<rparr>"


text \<open>A body that is neither an object nor null, or whose line number does not fit an \<open>int\<close>, is refused.\<close>

lemma bad_bodies:
  "canonicalDocumentFromJson (ArrJ []) = None" "canonicalDocumentFromJson (StrJ s) = None"
  "canonicalDocumentFromJson (ObjJ [(''lines'', ArrJ [ObjJ [(''lineNumber'', IntJ 3000000000)]])]) = None"
  "canonicalDocumentFromJson (ObjJ [(''totals'', IntJ 5)]) = None"
  "canonicalDocumentFromJson NullJ \<noteq> None"
  by (simp_all add: canonicalDocumentFromJson_def section_from_def array_from_json_def header_fallbacks_def reference_fallback_def
      has_member_def member_of_def optInt_def jint_of_def line_from_json_def totals_from_json_def fits_int_def default_dto_def)

text \<open>An RFCE without a security code in its totals has none that its header lacks.\<close>

lemma rfce_codes_agree:
  "rfceFromJson le j = Inr rfce \<Longrightarrow> rt_codigoSeguridadeCF (rh_totales (rf_encabezado rfce)) = None \<Longrightarrow>
     rh_codigoSeguridadeCF (rf_encabezado rfce) = None"
  by (auto simp: rfceFromJson_def Let_def split: if_splits option.splits)

subsection \<open>What is read is typed\<close>

text \<open>A double between two integers is truncated to an integer between them.\<close>

lemma pow2_ratio: "real_of_int (pow2 x) / real_of_int (pow2 (- x)) = 2 powi x"
  by (cases "0 \<le> x") (simp_all add: pow2_def power_int_def inverse_eq_divide power_one_over)

lemma scaled_le:
  "a * pow2 (f - e) \<le> b * pow2 (e - f) \<longleftrightarrow> real_of_int a * 2 powi f \<le> real_of_int b * 2 powi e"
proof -
  have "a * pow2 (f - e) \<le> b * pow2 (e - f) \<longleftrightarrow> real_of_int a * pow2 (f - e) \<le> real_of_int b * pow2 (e - f)"
    by (metis of_int_le_iff of_int_mult)
  also have "\<dots> \<longleftrightarrow> real_of_int a * (pow2 (f - e) / pow2 (- (f - e))) \<le> real_of_int b"
    by (simp add: pos_divide_le_eq)
  also have "\<dots> \<longleftrightarrow> real_of_int a * 2 powi (f - e) \<le> real_of_int b"
    by (simp only: pow2_ratio)
  also have "\<dots> \<longleftrightarrow> real_of_int a * 2 powi f \<le> real_of_int b * 2 powi e"
    by (simp add: power_int_diff pos_divide_le_eq)
  finally show ?thesis .
qed

lemma dle_fin: "dle (DFin s m e) (DFin t n f) \<longleftrightarrow> real_of_int (sgm s m) * 2 powi e \<le> real_of_int (sgm t n) * 2 powi f"
  by (simp add: dle_def scaled_le [symmetric] le_less [symmetric])

lemma dtrunc_bounds:
  assumes "real_of_int a \<le> real_of_int (sgm s m) * 2 powi e" "real_of_int (sgm s m) * 2 powi e \<le> real_of_int b"
  shows "a \<le> dtrunc (DFin s m e) \<and> dtrunc (DFin s m e) \<le> b"
proof -
  have "real_of_int m * 2 powi e = real_of_int (m * pow2 e) / real_of_int (pow2 (- e))"
    by (simp add: pow2_ratio [symmetric])
  then have "m * pow2 e div pow2 (- e) = \<lfloor>real_of_int m * 2 powi e\<rfloor>"
    by (simp only: floor_divide_of_int_eq)
  then show ?thesis
    using assms by (cases s) (simp_all add: sgm_def, linarith+)
qed

lemma int_limits:
  "dlit (- (2 ^ 31)) 1 = DFin True (2 ^ 52) (- 21)" "dlit (2 ^ 31 - 1) 1 = DFin False (2147483647 * 2 ^ 22) (- 22)"
  by code_simp+

lemma limit_values:
  "real_of_int (sgm True (2 ^ 52)) * 2 powi (- 21) = real_of_int (- (2 ^ 31))"
  "real_of_int (sgm False (2147483647 * 2 ^ 22)) * 2 powi (- 22) = real_of_int (2 ^ 31 - 1)"
  by (simp_all add: sgm_def power_int_def field_simps)

lemma dtrunc_fits:
  assumes "dle (dlit (- (2 ^ 31)) 1) d" "dle d (dlit (2 ^ 31 - 1) 1)"
  shows "fits_int (dtrunc d)"
proof (cases d)
  case (DFin s m e)
  have "real_of_int (- (2 ^ 31)) \<le> real_of_int (sgm s m) * 2 powi e" "real_of_int (sgm s m) * 2 powi e \<le> real_of_int (2 ^ 31 - 1)"
    using assms unfolding DFin int_limits dle_fin limit_values by blast+
  from dtrunc_bounds [OF this] show ?thesis by (simp add: DFin fits_int_def)
qed (use assms in \<open>simp_all add: int_limits dle_def fits_int_def\<close>)

lemma asInt_fits: "asInt j = Some n \<Longrightarrow> fits_int n"
  by (cases j) (auto simp: dtrunc_fits split: if_splits)

text \<open>The readers of one member, then those of each section.\<close>

lemma jint_of_fits: "jint_of j key d = Some n \<Longrightarrow> fits_int d \<Longrightarrow> fits_int n"
  by (auto simp: jint_of_def asInt_fits split: option.splits if_splits)

lemma optInt_fits: "optInt j key = Some v \<Longrightarrow> opt_fits v"
  by (auto simp: optInt_def opt_fits_def asInt_fits split: option.splits if_splits)

lemma stoi_fits: "opt_fits (stoi s)"
  by (auto simp: stoi_def opt_fits_def fits_int_def split: option.splits)

lemma those_all: "those (map f xs) = Some ys \<Longrightarrow> (\<And>x y. f x = Some y \<Longrightarrow> P y) \<Longrightarrow> list_all P ys"
  by (induction xs arbitrary: ys) (auto split: option.splits)

lemma section_from_P:
  "section_from f dflt j key = Some v \<Longrightarrow> P dflt \<Longrightarrow> (\<And>x y. f x = Some y \<Longrightarrow> P y) \<Longrightarrow> P v"
  by (auto simp: section_from_def split: if_splits)

lemma array_from_json_all:
  "array_from_json f j key = Some ys \<Longrightarrow> (\<And>x y. f x = Some y \<Longrightarrow> P y) \<Longrightarrow> list_all P ys"
  by (auto simp: array_from_json_def bind_Some split: if_splits intro: those_all)

lemma header_typed:
  assumes "section_from header_from_json (dto_header default_dto) j ''header'' = Some h0" "header_fallbacks j h0 = Some h"
  shows "opt_fits (hdr_tipoPago h)"
proof -
  have "opt_fits (hdr_tipoPago h0)"
    using assms(1) by (rule section_from_P)
      (auto simp: default_dto_def opt_fits_def header_from_json_def bind_Some dest: optInt_fits [unfolded opt_fits_def])
  then show ?thesis
    using assms(2) by (auto simp: header_fallbacks_def bind_Some dest: optInt_fits split: if_splits)
qed

lemma line_typed: "line_from_json l = Some x \<Longrightarrow> fits_int (ln_lineNumber x) \<and> opt_fits (ln_indicadorFacturacion x)"
  by (auto simp: line_from_json_def indicador_from_json_def bind_Some fits_int_def [of 0] dest!: jint_of_fits optInt_fits
      intro: stoi_fits split: if_splits option.splits json.splits)


lemma fits_small [simp]: "fits_int 0" "fits_int 1" "fits_int 18"
  by (simp_all add: fits_int_def)

lemma bucket_typed: "bucket_from_json tb = Some b \<Longrightarrow> fits_int (bkt_rate b)"
  by (auto simp: bucket_from_json_def bind_Some dest: jint_of_fits)

lemma totals_typed: "totals_from_json t = Some x \<Longrightarrow> list_all (\<lambda>b. fits_int (bkt_rate b)) (tot_taxBuckets x)"
  by (auto simp: totals_from_json_def bind_Some dest!: array_from_json_all [where P = "\<lambda>b. fits_int (bkt_rate b)"] bucket_typed)

lemma references_typed:
  assumes "section_from references_from_json (dto_references default_dto) j ''references'' = Some r0" "reference_fallback j r0 = Some r"
  shows "opt_fits (ref_codigoModificacion r) \<and> opt_fits (ref_indicadorNotaCredito r)"
proof -
  have "opt_fits (ref_codigoModificacion r0) \<and> opt_fits (ref_indicadorNotaCredito r0)"
    using assms(1) by (rule section_from_P)
      (auto simp: default_dto_def opt_fits_def references_from_json_def bind_Some dest: optInt_fits [unfolded opt_fits_def])
  then show ?thesis
    using assms(2) by (auto simp: reference_fallback_def bind_Some dest: optInt_fits split: if_splits)
qed

lemma retention_typed:
  assumes "section_from (map_option Some \<circ> retention_from_json) None j ''retention'' = Some ret"
  shows "case ret of None \<Rightarrow> True | Some r \<Rightarrow> fits_int (ret_indicadorAgente r)"
  using assms by (rule section_from_P) (auto simp: retention_from_json_def bind_Some dest: jint_of_fits)


definition demo_body :: json where
  "demo_body = ObjJ [(''header'', ObjJ [(''tipoPago'', DblJ (dlit 25 10))]),
     (''lines'', ArrJ [ObjJ [(''lineNumber'', IntJ 1), (''indicadorFacturacion'', StrJ ''4'')]])]"


end
