(* ===== verification/Request_Validators.thy ===== *)
theory Request_Validators
  imports Ecf_Regex Ecf_Handlers
begin

text \<open>
  RequestValidators.cpp, one function per command: the list of the failures of a request, empty
  when it may be executed; and ValidationException.h, which groups them by property.  The
  lemmas say which requests pass.
\<close>

subsection \<open>Commands\<close>

record RegisterUserCommand =
  ru_username :: string
  ru_email :: string
  ru_password :: string
  ru_role :: string

record LoginUserCommand =
  lu_username :: string
  lu_password :: string

record CreateCustomerCommand =
  cc_name :: string
  cc_email :: string
  cc_rnc :: string

record UpdateCustomerCommand =
  uc_id :: string
  uc_name :: string
  uc_email :: string
  uc_rnc :: string

subsection \<open>Checks\<close>

text \<open>\<open>^\d{9}$|^\d{11}$\<close> and \<open>^[^@\s]+@[^@\s]+\.[^@\s]+$\<close>, matched against the whole string.\<close>

definition kRncRegex :: rx where
  "kRncRegex = RAlt (rx_times 9 rx_digit) (rx_times 11 rx_digit)"

definition mail_char :: "char \<Rightarrow> bool" where
  "mail_char c \<longleftrightarrow> c \<noteq> CHR ''@'' \<and> \<not> isspace c"

definition kEmailRegex :: rx where
  "kEmailRegex = RSeq (rx_plus (RCls mail_char)) (RSeq (rx_lit (CHR ''@'')) (RSeq (rx_plus (RCls mail_char))
     (RSeq (rx_lit (CHR ''.'')) (rx_plus (RCls mail_char)))))"

type_synonym failure = "string \<times> string"

definition check :: "bool \<Rightarrow> string \<Rightarrow> string \<Rightarrow> failure list" where
  "check bad prop msg = (if bad then [(prop, msg)] else [])"

definition notEmpty :: "string \<Rightarrow> string \<Rightarrow> string \<Rightarrow> failure list" where
  "notEmpty prop v msg = check (v = []) prop msg"

definition maxLength :: "string \<Rightarrow> string \<Rightarrow> nat \<Rightarrow> string \<Rightarrow> failure list" where
  "maxLength prop v n msg = check (n < length v) prop msg"

definition email_checks :: "string \<Rightarrow> failure list" where
  "email_checks email = notEmpty ''Email'' email ''Email is required.''
     @ check (email \<noteq> [] \<and> \<not> rx_match kEmailRegex email) ''Email'' ''Email must be a valid email address.''
     @ maxLength ''Email'' email 150 ''Email must not exceed 150 characters.''"

definition rnc_checks :: "string \<Rightarrow> string \<Rightarrow> string \<Rightarrow> string \<Rightarrow> failure list" where
  "rnc_checks prop rnc required wrong = notEmpty prop rnc required @ check (rnc \<noteq> [] \<and> \<not> rx_match kRncRegex rnc) prop wrong"

definition validate_register :: "RegisterUserCommand \<Rightarrow> failure list" where
  "validate_register c =
     notEmpty ''Username'' (ru_username c) ''Username is required.''
     @ maxLength ''Username'' (ru_username c) 100 ''Username must not exceed 100 characters.''
     @ email_checks (ru_email c)
     @ notEmpty ''Password'' (ru_password c) ''Password is required.''
     @ check (length (ru_password c) < 6) ''Password'' ''Password must be at least 6 characters long.''
     @ notEmpty ''Role'' (ru_role c) ''Role is required.''
     @ check (ru_role c \<noteq> ''Admin'' \<and> ru_role c \<noteq> ''User'') ''Role'' (''Role must be either '' @ apo @ ''Admin'' @ apo @ '' or '' @ apo
         @ ''User'' @ apo @ ''.'')"

definition validate_login :: "LoginUserCommand \<Rightarrow> failure list" where
  "validate_login c = notEmpty ''Username'' (lu_username c) ''Username is required.''
     @ notEmpty ''Password'' (lu_password c) ''Password is required.''"

definition customer_checks :: "string \<Rightarrow> string \<Rightarrow> string \<Rightarrow> failure list" where
  "customer_checks name email rnc =
     notEmpty ''Name'' name ''Name is required.'' @ maxLength ''Name'' name 200 ''Name must not exceed 200 characters.''
     @ email_checks email
     @ rnc_checks ''Rnc'' rnc ''RNC is required.'' ''RNC must be exactly 9 or 11 numeric digits.''"

definition validate_create :: "CreateCustomerCommand \<Rightarrow> failure list" where
  "validate_create c = customer_checks (cc_name c) (cc_email c) (cc_rnc c)"

definition validate_update :: "UpdateCustomerCommand \<Rightarrow> failure list" where
  "validate_update c = notEmpty ''Id'' (uc_id c) ''Customer ID is required.'' @ customer_checks (uc_name c) (uc_email c) (uc_rnc c)"

definition issuer_wrong :: string where
  "issuer_wrong = ''RNC Emisor must be exactly 9 or 11 numeric digits.''"

definition encf_checks :: "string \<Rightarrow> failure list" where
  "encf_checks eNcf = notEmpty ''ENcf'' eNcf ''e-NCF is required.'' @ maxLength ''ENcf'' eNcf 20 ''e-NCF must not exceed 20 characters.''"

definition validate_sendEcf :: "SendEcfCommand \<Rightarrow> failure list" where
  "validate_sendEcf c =
     notEmpty ''XmlContent'' (se_xmlContent c) ''XML Content is required.''
     @ notEmpty ''FileName'' (se_fileName c) ''File name is required.''
     @ maxLength ''FileName'' (se_fileName c) 150 ''File name must not exceed 150 characters.''
     @ rnc_checks ''RncEmisor'' (se_rncEmisor c) ''RNC Emisor is required.'' issuer_wrong
     @ encf_checks (se_eNcf c)
     @ check (dlt (se_totalAmount c) dzero) ''TotalAmount'' ''Total amount must be greater than or equal to 0.''
     @ check (dlt (se_itbisAmount c) dzero) ''ItbisAmount'' ''ITBIS amount must be greater than or equal to 0.''"

definition validate_sendRfce :: "Rfce \<Rightarrow> failure list" where
  "validate_sendRfce m = (let enc = rf_encabezado m in
     rnc_checks ''RncEmisor'' (re_rncEmisor (rh_emisor enc)) ''RncEmisor is required.'' issuer_wrong
     @ encf_checks (ri_eNcf (rh_idDoc enc)))"

text \<open>\<open>validateOrThrow\<close>: the failures as the body of a \<open>ValidationException\<close>, its properties in order.\<close>

definition validation_message :: string where
  "validation_message = ''One or more validation failures have occurred.''"

definition errors_of :: "failure list \<Rightarrow> string \<Rightarrow> string list" where
  "errors_of fs prop = map snd (filter (\<lambda>f. fst f = prop) fs)"

subsection \<open>Which requests pass\<close>

lemma check_Nil [simp]: "check bad p m = [] \<longleftrightarrow> \<not> bad"
  by (simp add: check_def)

lemma notEmpty_Nil [simp]: "notEmpty p v m = [] \<longleftrightarrow> v \<noteq> []"
  by (simp add: notEmpty_def)

lemma maxLength_Nil [simp]: "maxLength p v n m = [] \<longleftrightarrow> length v \<le> n"
  by (auto simp: maxLength_def)

lemma in_lang_times_digit: "in_lang (rx_times n rx_digit) w \<longleftrightarrow> length w = n \<and> all_digits w"
  unfolding rx_digit_def by (rule in_lang_times_cls)

lemma rnc_matches: "rx_match kRncRegex s \<longleftrightarrow> all_digits s \<and> (length s = 9 \<or> length s = 11)"
  by (auto simp: rx_match_iff kRncRegex_def in_lang_times_digit)

lemma rnc_checks_Nil: "rnc_checks p rnc m1 m2 = [] \<longleftrightarrow> all_digits rnc \<and> (length rnc = 9 \<or> length rnc = 11)"
  by (auto simp: rnc_checks_def rnc_matches)

lemma in_star_cls: "in_star (in_lang (RCls p)) w \<longleftrightarrow> list_all p w"
proof (induction w)
  case (Cons c w)
  then show ?case by (auto simp: in_star_Cons)
qed (auto intro: star_nil)

lemma in_lang_plus: "in_lang (rx_plus (RCls p)) w \<longleftrightarrow> w \<noteq> [] \<and> list_all p w"
  unfolding rx_plus_def in_lang_seq_cls by (cases w) (simp_all add: in_star_cls)

lemma in_lang_lit_seq: "in_lang (RSeq (rx_lit c) r) w \<longleftrightarrow> (\<exists>v. w = c # v \<and> in_lang r v)"
  unfolding rx_lit_def in_lang_seq_cls by (cases w) auto

lemma email_matches:
  "rx_match kEmailRegex s \<longleftrightarrow> (\<exists>u d t. s = u @ ''@'' @ d @ ''.'' @ t \<and> u \<noteq> [] \<and> d \<noteq> [] \<and> t \<noteq> [] \<and> list_all mail_char (u @ d @ t))"
proof -
  have seq: "in_lang (RSeq r q) w \<longleftrightarrow> (\<exists>u v. w = u @ v \<and> in_lang r u \<and> in_lang q v)" for r q w by simp
  show ?thesis
    unfolding rx_match_iff kEmailRegex_def seq [of "rx_plus (RCls mail_char)"] in_lang_lit_seq in_lang_plus list_all_append
    by simp blast
qed

lemma validate_sendEcf_Nil:
  "validate_sendEcf c = [] \<longleftrightarrow> se_xmlContent c \<noteq> [] \<and> se_fileName c \<noteq> [] \<and> length (se_fileName c) \<le> 150
     \<and> all_digits (se_rncEmisor c) \<and> (length (se_rncEmisor c) = 9 \<or> length (se_rncEmisor c) = 11)
     \<and> se_eNcf c \<noteq> [] \<and> length (se_eNcf c) \<le> 20 \<and> \<not> dlt (se_totalAmount c) dzero \<and> \<not> dlt (se_itbisAmount c) dzero"
  by (auto simp: validate_sendEcf_def encf_checks_def rnc_checks_Nil)

lemma validate_sendRfce_Nil:
  "validate_sendRfce m = [] \<longleftrightarrow> all_digits (re_rncEmisor (rh_emisor (rf_encabezado m)))
     \<and> (length (re_rncEmisor (rh_emisor (rf_encabezado m))) = 9 \<or> length (re_rncEmisor (rh_emisor (rf_encabezado m))) = 11)
     \<and> ri_eNcf (rh_idDoc (rf_encabezado m)) \<noteq> [] \<and> length (ri_eNcf (rh_idDoc (rf_encabezado m))) \<le> 20"
  by (auto simp: validate_sendRfce_def Let_def encf_checks_def rnc_checks_Nil)

lemma customer_checks_Nil:
  "customer_checks name email rnc = [] \<longleftrightarrow> name \<noteq> [] \<and> length name \<le> 200 \<and> rx_match kEmailRegex email \<and> email \<noteq> []
     \<and> length email \<le> 150 \<and> all_digits rnc \<and> (length rnc = 9 \<or> length rnc = 11)"
  by (auto simp: customer_checks_def email_checks_def rnc_checks_Nil)

end
