(* ===== verification/Ecf_Endpoints.thy ===== *)
theory Ecf_Endpoints
  imports Json_Mapping Request_Validators Idempotency
begin

text \<open>
  EcfController.cpp: the three endpoints of /api/ecf.  The two that send run behind the
  idempotency handler: the body is checked field by field, becomes a command, is validated, and
  the command's handler sends and stores.  The parser of the body, the printer of a response,
  the DGII's client and the clock are arguments.  The properties compose the three layers: what
  a successful answer says about the table and the DGII, and what a retry does.
\<close>

subsection \<open>Requests and responses\<close>

record ecf_env =
  ev_client :: dgii_client
  ev_sendRfce :: rfce_send
  ev_print :: "json \<Rightarrow> string"
  ev_logicError :: string
  ev_sha :: "string \<Rightarrow> string"
  ev_rejected :: "string \<Rightarrow> bool"

record ecf_request =
  eq_time :: int
  eq_uuid :: string
  eq_tenantId :: "string option"
  eq_workerKeyId :: "string option"
  eq_username :: "string option"
  eq_method :: http_method
  eq_idempotencyKey :: string
  eq_body :: string
  eq_json :: "json option"

definition json_response :: "ecf_env \<Rightarrow> json \<Rightarrow> int \<Rightarrow> http_response" where
  "json_response env body status = \<lparr> resp_status = status, resp_contentType = ''application/json; charset=utf-8'',
     resp_body = ev_print env body \<rparr>"

definition error_response :: "ecf_env \<Rightarrow> string \<Rightarrow> int \<Rightarrow> http_response" where
  "error_response env message status = json_response env (ObjJ [(''error'', StrJ message)]) status"

definition opt_str_json :: "string option \<Rightarrow> json" where
  "opt_str_json v = (case v of None \<Rightarrow> NullJ | Some s \<Rightarrow> StrJ s)"

definition recepcion_to_json :: "EcfRecepcionResponse \<Rightarrow> json" where
  "recepcion_to_json r = ObjJ [(''trackId'', StrJ (rec_trackId r)), (''error'', opt_str_json (rec_error r)),
     (''mensaje'', opt_str_json (rec_mensaje r))]"

definition rfce_to_json :: "RfceRecepcionResponse \<Rightarrow> json" where
  "rfce_to_json r = ObjJ [(''codigo'', IntJ (rfr_codigo r)), (''estado'', StrJ (rfr_estado r)),
     (''mensajes'', ArrJ (map (\<lambda>m. ObjJ [(''codigo'', StrJ (msg_codigo m)), (''valor'', StrJ (msg_valor m))]) (rfr_mensajes r))),
     (''encf'', StrJ (rfr_eNcf r)), (''secuenciaUtilizada'', BoolJ (rfr_secuenciaUtilizada r))]"

definition estado_to_json :: "ConsultaEstadoResponse \<Rightarrow> json" where
  "estado_to_json r = ObjJ [(''codigo'', IntJ (cer_codigo r)), (''estado'', StrJ (cer_estado r)),
     (''rncEmisor'', StrJ (cer_rncEmisor r)), (''ncfElectronico'', StrJ (cer_ncfElectronico r)),
     (''montoTotal'', DblJ (cer_montoTotal r)), (''totalITBIS'', DblJ (cer_totalITBIS r)),
     (''fechaEmision'', StrJ (cer_fechaEmision r)), (''fechaFirma'', StrJ (cer_fechaFirma r)),
     (''rncComprador'', StrJ (cer_rncComprador r)), (''codigoSeguridad'', StrJ (cer_codigoSeguridad r)),
     (''idExtranjero'', StrJ (cer_idExtranjero r))]"

subsection \<open>\<open>send\<close>\<close>

definition wrong_type :: "string \<Rightarrow> string \<Rightarrow> string" where
  "wrong_type name kind = ''Field '' @ apo @ name @ apo @ '' must be '' @ kind @ ''.''"

definition mistyped :: "(json \<Rightarrow> bool) \<Rightarrow> string \<Rightarrow> json \<Rightarrow> string list \<Rightarrow> string list" where
  "mistyped ok kind body names =
     map (\<lambda>n. wrong_type n kind) (filter (\<lambda>n. case jmember body n of None \<Rightarrow> False | Some v \<Rightarrow> \<not> ok v) names)"

text \<open>The first field of a wrong type, in the order of the checks.\<close>

definition send_type_error :: "json \<Rightarrow> string option" where
  "send_type_error body = (case
       mistyped isString ''a string'' body [''xmlContent'', ''fileName'', ''rncEmisor'', ''eNcf'', ''rncComprador'']
       @ mistyped isNumeric ''a numeric value'' body [''totalAmount'', ''itbisAmount'']
     of [] \<Rightarrow> None | m # ms \<Rightarrow> Some m)"

definition send_command :: "json \<Rightarrow> SendEcfCommand" where
  "send_command body = \<lparr> se_xmlContent = jstr_of body ''xmlContent'' [], se_fileName = jstr_of body ''fileName'' [],
     se_rncEmisor = jstr_of body ''rncEmisor'' [], se_eNcf = jstr_of body ''eNcf'' [],
     se_rncComprador = optStr body ''rncComprador'', se_totalAmount = jdbl_of body ''totalAmount'' dzero,
     se_itbisAmount = jdbl_of body ''itbisAmount'' dzero \<rparr>"

text \<open>A handler's result as a response; an exception of \<open>makeScope\<close> is a 500.\<close>

definition run_handler ::
    "ecf_env \<Rightarrow> string \<Rightarrow> ('a \<Rightarrow> json) \<Rightarrow> (world \<Rightarrow> (string + 'a) \<times> world) \<Rightarrow> world \<Rightarrow> http_response \<times> world" where
  "run_handler env failed print handler w = (case makeScope w of
       (Inl e, w1) \<Rightarrow> (error_response env (failed @ exn_what e) 500, w1)
     | (Inr u, w1) \<Rightarrow> (case handler w1 of
           (Inl msg, w2) \<Rightarrow> (error_response env msg 400, w2)
         | (Inr v, w2) \<Rightarrow> (json_response env (print v) 200, w2)))"

text \<open>\<open>Inl\<close> is a ValidationException.\<close>

definition send_act :: "ecf_env \<Rightarrow> ecf_request \<Rightarrow> world \<Rightarrow> (string + http_response) \<times> world" where
  "send_act env req w = (case eq_json req of
       None \<Rightarrow> (Inr (error_response env ''Invalid JSON body.'' 400), w)
     | Some body \<Rightarrow>
         if \<not> isObject body then (Inr (error_response env ''Invalid JSON body.'' 400), w)
         else (case send_type_error body of
             Some msg \<Rightarrow> (Inr (error_response env msg 400), w)
           | None \<Rightarrow>
               if validate_sendEcf (send_command body) \<noteq> [] then (Inl validation_message, w)
               else (case run_handler env ''e-CF service unavailable: '' recepcion_to_json
                   (sendEcf_handle (eq_time req) (eq_uuid req) (auditUsername (eq_username req)) (ev_client env) (send_command body)) w of
                 (r, w') \<Rightarrow> (Inr r, w'))))"

subsection \<open>\<open>sendRfce\<close>\<close>

definition sendRfce_act :: "ecf_env \<Rightarrow> ecf_request \<Rightarrow> world \<Rightarrow> (string + http_response) \<times> world" where
  "sendRfce_act env req w = (case eq_json req of
       None \<Rightarrow> (Inr (error_response env ''Invalid JSON body.'' 400), w)
     | Some body \<Rightarrow>
         if \<not> isObject body then (Inr (error_response env ''Invalid JSON body.'' 400), w)
         else let rfceJson = (if jmember body ''rfceModel'' \<noteq> None then member_of body ''rfceModel'' else body) in
           if \<not> isObject rfceJson
           then (Inr (error_response env (''Field '' @ apo @ ''rfceModel'' @ apo @ '' must be a valid JSON object.'') 400), w)
           else (case rfceFromJson (ev_logicError env) rfceJson of
               Inl msg \<Rightarrow> (Inr (error_response env (''RFCE JSON parsing error: '' @ msg) 400), w)
             | Inr model \<Rightarrow>
                 if validate_sendRfce model \<noteq> [] then (Inl validation_message, w)
                 else (case run_handler env ''RFCE service error: '' rfce_to_json
                     (sendRfce_handle (eq_time req) (eq_uuid req) (auditUsername (eq_username req)) (ev_sendRfce env) model) w of
                   (r, w') \<Rightarrow> (Inr r, w'))))"

text \<open>Both behind the idempotency handler.\<close>

definition as_call :: "ecf_request \<Rightarrow> (world \<Rightarrow> (string + http_response) \<times> world) \<Rightarrow> world idem_call" where
  "as_call req act = \<lparr> ic_time = eq_time req, ic_method = eq_method req, ic_key = eq_idempotencyKey req,
     ic_tenant = value_or (eq_tenantId req) ''default-tenant'', ic_worker = value_or (eq_workerKeyId req) ''default-worker'',
     ic_body = eq_body req, ic_act = act \<rparr>"

definition ecf_send :: "ecf_env \<Rightarrow> ecf_request \<Rightarrow> idem_table \<times> world \<Rightarrow> handler_reply \<times> idem_table \<times> world" where
  "ecf_send env req = serve (ev_rejected env) (ev_sha env) (as_call req (send_act env req))"

definition ecf_sendRfce :: "ecf_env \<Rightarrow> ecf_request \<Rightarrow> idem_table \<times> world \<Rightarrow> handler_reply \<times> idem_table \<times> world" where
  "ecf_sendRfce env req = serve (ev_rejected env) (ev_sha env) (as_call req (sendRfce_act env req))"

subsection \<open>\<open>status\<close>\<close>

definition ecf_status ::
    "ecf_env \<Rightarrow> int \<Rightarrow> string option \<Rightarrow> string \<Rightarrow> string \<Rightarrow> world \<Rightarrow> http_response \<times> world" where
  "ecf_status env now user rncEmisor eNcf w =
     (if rncEmisor = [] \<or> eNcf = []
      then (error_response env (''Los par'' @ u_a @ ''metros '' @ apo @ ''rncEmisor'' @ apo @ '' y '' @ apo @ ''eNcf'' @ apo
              @ '' son obligatorios.'') 400, w)
      else run_handler env ''Status service error: '' estado_to_json
        (getEcfStatus_handle now (auditUsername user) (ev_client env) rncEmisor eNcf) w)"

subsection \<open>What the handlers transmit\<close>

definition sends :: "nat \<Rightarrow> world \<Rightarrow> world \<Rightarrow> bool" where
  "sends n w w' \<longleftrightarrow> prefix (w_trace w) (w_trace w') \<and> transmissions (new_events w w') = n"

lemma sends_trans: "sends m w w1 \<Longrightarrow> sends n w1 w2 \<Longrightarrow> sends (m + n) w w2"
  using new_events_trans [of w w1 w2] by (auto simp: sends_def)

lemma quiet_sends: "quiet w w' \<Longrightarrow> sends 0 w w'"
  by (simp add: quiet_def sends_def)

lemma sendEcf_sends_once:
  assumes "sendEcf_handle now uuid usr client cmd w = (r, w')"
  shows "sends 1 w w'"
proof -
  let ?w1 = "log_events [SentEcf (se_xmlContent cmd) (se_fileName cmd)] w"
  have first: "sends 1 w ?w1" by (simp add: sends_def log_events_def)
  have "w' = ?w1 \<or> (\<exists>q op. saveChanges [op] ?w1 = (q, w'))"
    using assms by (auto simp: sendEcf_handle_def Let_def split: sum.splits prod.splits if_splits)
  then show ?thesis
  proof
    assume "\<exists>q op. saveChanges [op] ?w1 = (q, w')"
    then show ?thesis using sends_trans [OF first quiet_sends [OF quiet_saveChanges]] by auto
  qed (use first in simp)
qed

text \<open>What a success of the command has stored.\<close>

lemma sendEcf_success:
  assumes "sendEcf_handle now uuid usr client cmd w = (Inr response, w')"
  obtains d where "cl_sendEcf client (se_xmlContent cmd) (se_fileName cmd) = Inr response"
    "rec_trackId response \<noteq> []" "\<not> has_text (rec_error response)" "w_docs w' = w_docs w @ [d]"
    "d_trackId d = Some (rec_trackId response)" "d_state d = ''Recibido''" "d_eNcf d = se_eNcf cmd" "d_xmlContent d = se_xmlContent cmd"
proof -
  let ?w1 = "log_events [SentEcf (se_xmlContent cmd) (se_fileName cmd)] w"
  have answer: "cl_sendEcf client (se_xmlContent cmd) (se_fileName cmd) = Inr response" "\<not> reception_failed response"
    and save: "\<exists>n. saveChanges [add_op now uuid usr (sent_document now cmd response)] ?w1 = (Inr n, w')"
    using assms by (auto simp: sendEcf_handle_def Let_def split: sum.splits prod.splits if_splits)
  obtain d where op: "add_op now uuid usr (sent_document now cmd response) = InsertOp d" and d:
    "d_trackId d = Some (rec_trackId response)" "d_state d = ''Recibido''" "d_eNcf d = se_eNcf cmd" "d_xmlContent d = se_xmlContent cmd"
    using answer(2) by (simp add: add_op_def sent_document_def new_document_def)
  have "w_docs w' = w_docs w @ [d]"
    using save by (auto simp: op saveChanges_def exec_op_def dest: next_fault_docs split: prod.splits if_splits sum.splits option.splits)
  then show thesis using that answer d by (auto simp: reception_failed_def)
qed

text \<open>A POST that is answered at all runs the endpoint's action once.\<close>

lemma executed_act:
  assumes "serve rejected sha c (tbl, w) = (Executed resp, tbl', w')"
  shows "ic_act c w = (Inr resp, w')"
  using assms by (auto simp: serve_def handle_idempotent_def Let_def split: prod.splits Reservation.splits sum.splits if_splits)

lemma send_act_ok:
  assumes "send_act env req w = (Inr resp, w')" "resp_status resp = 200"
  obtains body response w1 where "eq_json req = Some body" "send_type_error body = None" "validate_sendEcf (send_command body) = []"
    "makeScope w = (Inr (), w1)"
    "sendEcf_handle (eq_time req) (eq_uuid req) (auditUsername (eq_username req)) (ev_client env) (send_command body) w1 = (Inr response, w')"
    "resp = json_response env (recepcion_to_json response) 200"
  using assms
  by (auto simp: send_act_def run_handler_def error_response_def json_response_def
      split: option.splits if_splits prod.splits sum.splits)


text \<open>What one run of the endpoint's action does when the DGII accepts and the database is lost.\<close>

lemma send_act_transmits:
  assumes "eq_json req = Some body" "isObject body" "send_type_error body = None" "validate_sendEcf (send_command body) = []"
    and "w_faults w = False # fs"
  obtains r w' where "send_act env req w = (Inr r, w')" "sends 1 w w'"
proof -
  obtain w1 where m: "makeScope w = (Inr (), w1)" "quiet w w1"
    using assms(5) quiet_makeScope [of w] by (cases "makeScope w") (auto simp: makeScope_def db_read_def next_fault_def)
  obtain q w2 where h: "sendEcf_handle (eq_time req) (eq_uuid req) (auditUsername (eq_username req)) (ev_client env) (send_command body) w1
      = (q, w2)" by force
  have "sends (0 + 1) w w2" using sends_trans [OF quiet_sends [OF m(2)] sendEcf_sends_once [OF h]] .
  moreover have "\<exists>r. send_act env req w = (Inr r, w2)"
    using assms m(1) h by (cases q) (auto simp: send_act_def run_handler_def)
  ultimately show thesis using that by auto
qed

lemma lost_save_answer:
  assumes "eq_json req = Some body" "isObject body" "send_type_error body = None" "validate_sendEcf (send_command body) = []"
    and "cl_sendEcf (ev_client env) (se_xmlContent (send_command body)) (se_fileName (send_command body)) = Inr response"
    and "w_faults w = False # True # fs" "send_act env req w = (Inr r, w')"
  shows "resp_status r = 400 \<and> w_faults w' = fs \<and> w_docs w' = w_docs w"
  using assms
  by (auto simp: send_act_def run_handler_def makeScope_def db_read_def next_fault_def sendEcf_handle_def Let_def saveChanges_def
      log_events_def error_response_def json_response_def)

text \<open>A 400 is stored, but not replayed: the next use of the key runs the endpoint again.\<close>

lemma stored_400_runs_again:
  assumes "serve rejected sha c (tbl, w) = (Executed resp, tbl1, w1)" "resp_status resp = 400"
    and "tbl (scopedKey (ic_tenant c) (ic_key c)) = None" "ic_key c \<noteq> []" "ic_method c = Post"
    and "ic_key c2 = ic_key c" "ic_tenant c2 = ic_tenant c" "ic_body c2 = ic_body c" "ic_method c2 = Post"
    and "ic_act c2 w1 = (Inr resp2, w2)"
  shows "\<exists>tbl2. serve rejected sha c2 (tbl1, w1) = (Executed resp2, tbl2, w2)"
proof -
  let ?k = "scopedKey (ic_tenant c) (ic_key c)"
  obtain row where "tbl1 ?k = Some row" "im_payloadHash row = sha (ic_body c)" "im_status row = ''Completed''" "im_statusCode row = 400"
    using assms(1-5)
    by (auto simp: serve_def handle_idempotent_def Let_def reserveOrGet_def plan_of_def execute_plan_def complete_record_def
        fresh_row_def shouldCache_def result_of_def split: prod.splits sum.splits)
  then show ?thesis
    using assms(4,6-10)
    by (simp add: serve_def handle_idempotent_def Let_def reserveOrGet_def plan_of_def execute_plan_def)
qed

text \<open>C29. When the DGII accepts an e-CF and saving it fails, POST /api/ecf/send answers 400 and stores
  nothing; the client that retries with the same idempotency key and the same body makes the
  service transmit it a second time.\<close>
theorem failed_save_is_sent_again:
  assumes body: "eq_json req = Some body" "isObject body" "send_type_error body = None" "validate_sendEcf (send_command body) = []"
    and accepted: "cl_sendEcf (ev_client env) (se_xmlContent (send_command body)) (se_fileName (send_command body)) = Inr response"
    and faults: "w_faults w = False # True # False # fs"
    and key: "eq_method req = Post" "eq_idempotencyKey req \<noteq> []"
      "tbl (scopedKey (value_or (eq_tenantId req) ''default-tenant'') (eq_idempotencyKey req)) = None"
  shows "\<exists>resp tbl1 w1 resp2 tbl2 w2. ecf_send env req (tbl, w) = (Executed resp, tbl1, w1) \<and> resp_status resp = 400
    \<and> w_docs w1 = w_docs w \<and> ecf_send env (req \<lparr> eq_time := t, eq_uuid := u \<rparr>) (tbl1, w1) = (Executed resp2, tbl2, w2)
    \<and> transmissions (new_events w w2) = 2"
proof -
  let ?again = "req \<lparr> eq_time := t, eq_uuid := u \<rparr>"
  obtain r1 w1 where one: "send_act env req w = (Inr r1, w1)" "sends 1 w w1"
    using send_act_transmits [OF body faults] .
  have bad: "resp_status r1 = 400" "w_faults w1 = False # fs" "w_docs w1 = w_docs w"
    using lost_save_answer [OF body accepted faults one(1)] by simp_all
  obtain r2 w2 where two: "send_act env ?again w1 = (Inr r2, w2)" "sends 1 w1 w2"
    using send_act_transmits [of ?again body w1 fs env] body bad(2) by auto
  obtain tbl1 where first: "ecf_send env req (tbl, w) = (Executed r1, tbl1, w1)"
    using one(1) key
    by (auto simp: ecf_send_def as_call_def serve_def handle_idempotent_def Let_def reserveOrGet_def plan_of_def execute_plan_def)
  have "\<exists>tbl2. ecf_send env ?again (tbl1, w1) = (Executed r2, tbl2, w2)"
    unfolding ecf_send_def
    by (rule stored_400_runs_again [OF first [unfolded ecf_send_def] bad(1)]) (use key two(1) in \<open>simp_all add: as_call_def\<close>)
  moreover have "transmissions (new_events w w2) = 2" using sends_trans [OF one(2) two(2)] by (simp add: sends_def)
  ultimately show ?thesis using first bad by blast
qed

subsection \<open>Witnesses\<close>

definition demo_send_body :: json where
  "demo_send_body = ObjJ [(''xmlContent'', StrJ ''<ECF/>''), (''fileName'', StrJ ''f.xml''), (''rncEmisor'', StrJ ''131234567''),
     (''eNcf'', StrJ ''E310000000009''), (''totalAmount'', IntJ 118)]"

definition demo_ecf_env :: ecf_env where
  "demo_ecf_env = \<lparr> ev_client = demo_client [], ev_sendRfce = (\<lambda>m. (Inl ''down'', m, [])), ev_print = (\<lambda>j. ''{}''),
     ev_logicError = ''out of range'', ev_sha = id, ev_rejected = (\<lambda>b. False) \<rparr>"

definition demo_ecf_request :: ecf_request where
  "demo_ecf_request = \<lparr> eq_time = 1709210096, eq_uuid = ''u-9'', eq_tenantId = None, eq_workerKeyId = None, eq_username = None,
     eq_method = Post, eq_idempotencyKey = ''k'', eq_body = ''b'', eq_json = Some demo_send_body \<rparr>"

definition demo_ecf_run :: "handler_reply \<times> idem_table \<times> world" where
  "demo_ecf_run = ecf_send demo_ecf_env demo_ecf_request (Map.empty, demo_world \<lparr> w_docs := [] \<rparr>)"

fun executed_status :: "handler_reply \<Rightarrow> int" where
  "executed_status (Executed r) = resp_status r" | "executed_status r = 0"


theorem failed_save_is_sent_again_witness:
  "\<exists>resp tbl1 w1 resp2 tbl2 w2.
     ecf_send demo_ecf_env demo_ecf_request (Map.empty, demo_world \<lparr> w_faults := [False, True, False] \<rparr>) = (Executed resp, tbl1, w1)
     \<and> ecf_send demo_ecf_env (demo_ecf_request \<lparr> eq_time := 1709210100, eq_uuid := ''u-10'' \<rparr>) (tbl1, w1) = (Executed resp2, tbl2, w2)
     \<and> transmissions (new_events (demo_world \<lparr> w_faults := [False, True, False] \<rparr>) w2) = 2"
proof -
  have "eq_json demo_ecf_request = Some demo_send_body" "eq_method demo_ecf_request = Post" "eq_idempotencyKey demo_ecf_request = ''k''"
    by (simp_all add: demo_ecf_request_def)
  moreover have "isObject demo_send_body" "send_type_error demo_send_body = None" "validate_sendEcf (send_command demo_send_body) = []"
    by code_simp+
  moreover have "cl_sendEcf (ev_client demo_ecf_env) x f = Inr \<lparr> rec_trackId = ''T-1'', rec_error = None, rec_mensaje = None \<rparr>" for x f
    by (simp add: demo_ecf_env_def demo_client_def)
  ultimately show ?thesis
    using failed_save_is_sent_again [where req = demo_ecf_request and body = demo_send_body and env = demo_ecf_env
      and w = "demo_world \<lparr> w_faults := [False, True, False] \<rparr>" and fs = "[]" and tbl = Map.empty and t = 1709210100 and u = "''u-10''"
      and response = "\<lparr> rec_trackId = ''T-1'', rec_error = None, rec_mensaje = None \<rparr>"]
    by simp metis
qed

end
