(* ===== verification/Customers.thy ===== *)
theory Customers
  imports Request_Validators Json_Value
begin

text \<open>
  The customers: Customer.h, CustomerRepository.cpp, the handlers of CustomerHandlers.cpp and the
  endpoints of CustomersController.cpp, with the exception handler of main.cpp behind them.  The
  table customers is a list of rows that are never removed: a customer is deleted by a mark.  A
  column of type uuid compares without regard to case, so identifiers are kept in lower case.
  \<open>cdb_faults\<close> says, access by access, whether the database is lost.  The specification is a map from
  identifiers to what the API shows.
\<close>

subsection \<open>The table\<close>

record Customer = AuditableEntity +
  cu_name :: string
  cu_email :: string
  cu_rnc :: string

definition new_customer :: Customer where
  "new_customer = \<lparr> ae_id = [], ae_createdAt = [], ae_createdBy = None, ae_updatedAt = None, ae_updatedBy = None,
     ae_deletedAt = None, ae_deletedBy = None, ae_isDeleted = False, cu_name = [], cu_email = [], cu_rnc = [] \<rparr>"

record customer_db =
  cdb_rows :: "Customer list"
  cdb_faults :: "bool list"

definition cdb_access :: "customer_db \<Rightarrow> bool \<times> customer_db" where
  "cdb_access db = (case cdb_faults db of [] \<Rightarrow> (False, db) | b # fs \<Rightarrow> (b, db \<lparr> cdb_faults := fs \<rparr>))"

definition cdb_read :: "(Customer list \<Rightarrow> 'a) \<Rightarrow> customer_db \<Rightarrow> (exn + 'a) \<times> customer_db" where
  "cdb_read q db = (case cdb_access db of (down, db1) \<Rightarrow> if down then (Inl ConnectionLost, db1) else (Inr (q (cdb_rows db1)), db1))"

subsection \<open>CustomerRepository.cpp\<close>

definition customer_getById :: "string \<Rightarrow> Customer list \<Rightarrow> Customer option" where
  "customer_getById i rows = find (\<lambda>r. ae_id r = lower i \<and> \<not> ae_isDeleted r) rows"

definition customer_getAll :: "Customer list \<Rightarrow> Customer list" where
  "customer_getAll rows = sort_key (\<lambda>r. parseIsoUtc (ae_createdAt r)) (filter (\<lambda>r. \<not> ae_isDeleted r) rows)"

text \<open>A queued statement, run on the rows.\<close>

datatype customer_op =
    AddCustomer Customer
  | UpdateCustomer string string string string string string
  | RemoveCustomer string string string

definition customer_add :: "int \<Rightarrow> string \<Rightarrow> string \<Rightarrow> Customer \<Rightarrow> customer_op" where
  "customer_add now uuid usr customer = AddCustomer (customer \<lparr>
     ae_id := (if ae_id customer = [] then uuid else ae_id customer), ae_createdAt := toIsoUtc now,
     ae_createdBy := Some usr, ae_isDeleted := False \<rparr>)"

definition customer_update :: "int \<Rightarrow> string \<Rightarrow> Customer \<Rightarrow> customer_op" where
  "customer_update now usr e = UpdateCustomer (ae_id e) (cu_name e) (cu_email e) (cu_rnc e) (toIsoUtc now) usr"

definition customer_remove :: "int \<Rightarrow> string \<Rightarrow> Customer \<Rightarrow> customer_op" where
  "customer_remove now usr e = RemoveCustomer (ae_id e) (toIsoUtc now) usr"

definition change_row :: "string \<Rightarrow> (Customer \<Rightarrow> Customer) \<Rightarrow> Customer list \<Rightarrow> Customer list" where
  "change_row i f rows = map (\<lambda>r. if ae_id r = lower i then f r else r) rows"

definition exec_customer_op :: "customer_op \<Rightarrow> Customer list \<Rightarrow> exn + Customer list" where
  "exec_customer_op opn rows = (case opn of
       AddCustomer e \<Rightarrow>
         if list_ex (\<lambda>r. ae_id r = lower (ae_id e)) rows then Inl (UniqueViolation ''customers_pkey'')
         else Inr (rows @ [e \<lparr> ae_id := lower (ae_id e), ae_updatedAt := None, ae_updatedBy := None,
           ae_deletedAt := None, ae_deletedBy := None \<rparr>])
     | UpdateCustomer i name email rnc when who \<Rightarrow> Inr (change_row i (\<lambda>r. r \<lparr> cu_name := name, cu_email := email, cu_rnc := rnc,
         ae_updatedAt := Some when, ae_updatedBy := Some who \<rparr>) rows)
     | RemoveCustomer i when who \<Rightarrow> Inr (change_row i (\<lambda>r. r \<lparr> ae_isDeleted := True, ae_deletedAt := Some when,
         ae_deletedBy := Some who \<rparr>) rows))"

definition cdb_save :: "customer_op \<Rightarrow> customer_db \<Rightarrow> (exn + unit) \<times> customer_db" where
  "cdb_save opn db = (case cdb_access db of (down, db1) \<Rightarrow>
     if down then (Inl ConnectionLost, db1)
     else case exec_customer_op opn (cdb_rows db1) of
         Inl e \<Rightarrow> (Inl e, db1) | Inr rows \<Rightarrow> (Inr (), db1 \<lparr> cdb_rows := rows \<rparr>))"

subsection \<open>CustomerHandlers.cpp\<close>

text \<open>The outer sum is an exception, the inner one a \<open>Result\<close>.\<close>

record CustomerDto =
  cd_id :: string
  cd_name :: string
  cd_email :: string
  cd_rnc :: string

definition toDto :: "Customer \<Rightarrow> CustomerDto" where
  "toDto c = \<lparr> cd_id = ae_id c, cd_name = cu_name c, cd_email = cu_email c, cd_rnc = cu_rnc c \<rparr>"

definition not_found :: string where
  "not_found = ''Customer not found.''"

type_synonym 'a outcome = "(exn + string + 'a) \<times> customer_db"

definition saved :: "'a \<Rightarrow> (exn + unit) \<times> customer_db \<Rightarrow> 'a outcome" where
  "saved v r = (case r of (Inl e, db) \<Rightarrow> (Inl e, db) | (Inr u, db) \<Rightarrow> (Inr (Inr v), db))"

definition createCustomer :: "int \<Rightarrow> string \<Rightarrow> string \<Rightarrow> CreateCustomerCommand \<Rightarrow> customer_db \<Rightarrow> string outcome" where
  "createCustomer now uuid usr cmd db = saved uuid (cdb_save (customer_add now [] usr
     (new_customer \<lparr> ae_id := uuid, cu_name := cc_name cmd, cu_email := cc_email cmd, cu_rnc := cc_rnc cmd \<rparr>)) db)"

definition with_customer :: "string \<Rightarrow> (Customer \<Rightarrow> customer_db \<Rightarrow> 'a outcome) \<Rightarrow> customer_db \<Rightarrow> 'a outcome" where
  "with_customer i f db = (case cdb_read (customer_getById i) db of
       (Inl e, db1) \<Rightarrow> (Inl e, db1)
     | (Inr None, db1) \<Rightarrow> (Inr (Inl not_found), db1)
     | (Inr (Some c), db1) \<Rightarrow> f c db1)"

definition updateCustomer :: "int \<Rightarrow> string \<Rightarrow> UpdateCustomerCommand \<Rightarrow> customer_db \<Rightarrow> unit outcome" where
  "updateCustomer now usr cmd = with_customer (uc_id cmd) (\<lambda>c db. saved () (cdb_save (customer_update now usr
     (c \<lparr> cu_name := uc_name cmd, cu_email := uc_email cmd, cu_rnc := uc_rnc cmd \<rparr>)) db))"

definition deleteCustomer :: "int \<Rightarrow> string \<Rightarrow> string \<Rightarrow> customer_db \<Rightarrow> unit outcome" where
  "deleteCustomer now usr i = with_customer i (\<lambda>c db. saved () (cdb_save (customer_remove now usr c) db))"

definition getAllCustomers :: "customer_db \<Rightarrow> CustomerDto list outcome" where
  "getAllCustomers db = (case cdb_read customer_getAll db of
     (Inl e, db1) \<Rightarrow> (Inl e, db1) | (Inr cs, db1) \<Rightarrow> (Inr (Inr (map toDto cs)), db1))"

definition getCustomerById :: "string \<Rightarrow> customer_db \<Rightarrow> CustomerDto outcome" where
  "getCustomerById i = with_customer i (\<lambda>c db. (Inr (Inr (toDto c)), db))"

subsection \<open>CustomersController.cpp and the exception handler\<close>

definition route_isValidUuid :: "string \<Rightarrow> bool" where
  "route_isValidUuid s \<longleftrightarrow> length s = 36 \<and>
     list_all (\<lambda>i. if i \<in> {8, 13, 18, 23} then s ! i = CHR ''-'' else isxdigit (s ! i)) [0..<36]"

record api_response =
  ar_status :: int
  ar_body :: "json option"
  ar_location :: "string option"
  ar_problem :: bool

definition json_reply :: "json \<Rightarrow> int \<Rightarrow> api_response" where
  "json_reply body status = \<lparr> ar_status = status, ar_body = Some body, ar_location = None, ar_problem = False \<rparr>"

definition error_reply :: "string \<Rightarrow> int \<Rightarrow> api_response" where
  "error_reply msg status = json_reply (ObjJ [(''error'', StrJ msg)]) status"

definition noContent :: api_response where
  "noContent = \<lparr> ar_status = 204, ar_body = None, ar_location = None, ar_problem = False \<rparr>"

text \<open>The global exception handler of main.cpp.\<close>

definition problem_reply :: "int \<Rightarrow> (string \<times> json) list \<Rightarrow> api_response" where
  "problem_reply status members = \<lparr> ar_status = status, ar_body = Some (ObjJ members), ar_location = None, ar_problem = True \<rparr>"

definition validation_problem :: "string \<Rightarrow> failure list \<Rightarrow> api_response" where
  "validation_problem path fs = problem_reply 400 [(''title'', StrJ ''Validation Error''), (''status'', IntJ 400),
     (''detail'', StrJ validation_message), (''type'', StrJ ''https://tools.ietf.org/html/rfc9457#section-6.1''),
     (''instance'', StrJ path),
     (''errors'', ObjJ (map (\<lambda>p. (p, ArrJ (map StrJ (errors_of fs p)))) (remdups (map fst fs))))]"

definition internal_problem :: api_response where
  "internal_problem = problem_reply 500 [(''title'', StrJ ''Internal Server Error''), (''status'', IntJ 500),
     (''detail'', StrJ ''Ha ocurrido un error interno en el motor fiscal.''),
     (''type'', StrJ ''https://tools.ietf.org/html/rfc9457#section-6.6'')]"

text \<open>\<open>makeScope\<close> opens a connection; an exception ends in the handler above, a failure with \<open>failed\<close>.\<close>

definition in_scope :: "int \<Rightarrow> ('a \<Rightarrow> api_response) \<Rightarrow> (customer_db \<Rightarrow> 'a outcome) \<Rightarrow> customer_db \<Rightarrow> api_response \<times> customer_db" where
  "in_scope failed ok handler db = (case cdb_read (\<lambda>rows. ()) db of
       (Inl e, db1) \<Rightarrow> (internal_problem, db1)
     | (Inr u, db1) \<Rightarrow> (case handler db1 of
           (Inl e, db2) \<Rightarrow> (internal_problem, db2)
         | (Inr (Inl msg), db2) \<Rightarrow> (error_reply msg failed, db2)
         | (Inr (Inr v), db2) \<Rightarrow> (ok v, db2)))"

definition customer_to_json :: "CustomerDto \<Rightarrow> json" where
  "customer_to_json d = ObjJ [(''id'', StrJ (cd_id d)), (''name'', StrJ (cd_name d)), (''email'', StrJ (cd_email d)),
     (''rnc'', StrJ (cd_rnc d))]"

definition bad_uuid :: api_response where
  "bad_uuid = error_reply (''El ID proporcionado no es un UUID v'' @ u_a @ ''lido.'') 400"

definition api_getAll :: "customer_db \<Rightarrow> api_response \<times> customer_db" where
  "api_getAll = in_scope 500 (\<lambda>ds. json_reply (ArrJ (map customer_to_json ds)) 200) getAllCustomers"

definition api_getById :: "string \<Rightarrow> customer_db \<Rightarrow> api_response \<times> customer_db" where
  "api_getById i db = (if \<not> route_isValidUuid i then (bad_uuid, db)
     else in_scope 404 (\<lambda>d. json_reply (customer_to_json d) 200) (getCustomerById i) db)"

text \<open>The first field that is not a string.\<close>

definition string_error :: "json \<Rightarrow> string option" where
  "string_error body = map_option (\<lambda>n. ''Field '' @ apo @ n @ apo @ '' must be a string.'')
     (find (\<lambda>n. case body of ObjJ ms \<Rightarrow> (case map_of ms n of None \<Rightarrow> False | Some v \<Rightarrow> \<not> isString v) | _ \<Rightarrow> False)
       [''name'', ''email'', ''rnc''])"

definition text_of :: "json \<Rightarrow> string \<Rightarrow> string" where
  "text_of body n = (case jmember body n of Some (StrJ s) \<Rightarrow> s | _ \<Rightarrow> [])"

definition api_create ::
    "string \<Rightarrow> int \<Rightarrow> string \<Rightarrow> string option \<Rightarrow> json option \<Rightarrow> customer_db \<Rightarrow> api_response \<times> customer_db" where
  "api_create path now uuid user body db = (case body of
       Some (ObjJ ms) \<Rightarrow>
         let j = ObjJ ms; cmd = \<lparr> cc_name = text_of j ''name'', cc_email = text_of j ''email'', cc_rnc = text_of j ''rnc'' \<rparr> in
         (case string_error j of
            Some msg \<Rightarrow> (error_reply msg 400, db)
          | None \<Rightarrow>
              if validate_create cmd \<noteq> [] then (validation_problem path (validate_create cmd), db)
              else in_scope 400 (\<lambda>i. json_reply (StrJ i) 201 \<lparr> ar_location := Some (''/api/customers/'' @ i) \<rparr>)
                (createCustomer now uuid (auditUsername user) cmd) db)
     | _ \<Rightarrow> (error_reply ''Invalid JSON body.'' 400, db))"

definition api_update ::
    "string \<Rightarrow> int \<Rightarrow> string option \<Rightarrow> string \<Rightarrow> json option \<Rightarrow> customer_db \<Rightarrow> api_response \<times> customer_db" where
  "api_update path now user i body db =
     (if \<not> route_isValidUuid i then (bad_uuid, db)
      else case body of
        Some (ObjJ ms) \<Rightarrow>
         let j = ObjJ ms;
             cmd = \<lparr> uc_id = i, uc_name = text_of j ''name'', uc_email = text_of j ''email'', uc_rnc = text_of j ''rnc'' \<rparr> in
         (case (case map_of ms ''id'' of None \<Rightarrow> None
              | Some v \<Rightarrow> if \<not> isString v then Some (''Field '' @ apo @ ''id'' @ apo @ '' must be a string.'')
                  else if v \<noteq> StrJ i then Some ''Mismatched route ID and request body ID.'' else None) of
            Some msg \<Rightarrow> (error_reply msg 400, db)
          | None \<Rightarrow> (case string_error j of
              Some msg \<Rightarrow> (error_reply msg 400, db)
            | None \<Rightarrow>
                if validate_update cmd \<noteq> [] then (validation_problem path (validate_update cmd), db)
                else in_scope 404 (\<lambda>u. noContent) (updateCustomer now (auditUsername user) cmd) db))
      | _ \<Rightarrow> (error_reply ''Invalid JSON body.'' 400, db))"

definition api_remove :: "int \<Rightarrow> string option \<Rightarrow> string \<Rightarrow> customer_db \<Rightarrow> api_response \<times> customer_db" where
  "api_remove now user i db = (if \<not> route_isValidUuid i then (bad_uuid, db)
     else in_scope 404 (\<lambda>u. noContent) (deleteCustomer now (auditUsername user) i) db)"

subsection \<open>The directory the API shows\<close>

type_synonym directory = "string \<Rightarrow> CustomerDto option"

definition live :: "Customer list \<Rightarrow> directory" where
  "live rows i = map_option toDto (customer_getById i rows)"

definition put :: "string \<Rightarrow> CustomerDto option \<Rightarrow> directory \<Rightarrow> directory" where
  "put i v m = (\<lambda>j. if lower j = lower i then v else m j)"

definition lists :: "directory \<Rightarrow> CustomerDto list \<Rightarrow> bool" where
  "lists m ds \<longleftrightarrow> distinct (map cd_id ds) \<and> (\<forall>i. m i = find (\<lambda>d. cd_id d = lower i) ds)"

datatype customer_call =
    CAll
  | CGet string
  | CNew string CreateCustomerCommand
  | CSet UpdateCustomerCommand
  | CDel string

datatype customer_answer =
    AList "CustomerDto list"
  | AOne CustomerDto
  | ANew string
  | ADone
  | AMissing string
  | AError exn

definition answer_of :: "('a \<Rightarrow> customer_answer) \<Rightarrow> 'a outcome \<Rightarrow> customer_answer \<times> customer_db" where
  "answer_of f r = (case r of (Inl e, db) \<Rightarrow> (AError e, db) | (Inr (Inl msg), db) \<Rightarrow> (AMissing msg, db) | (Inr (Inr v), db) \<Rightarrow> (f v, db))"

fun run_customer :: "int \<Rightarrow> string \<Rightarrow> customer_call \<Rightarrow> customer_db \<Rightarrow> customer_answer \<times> customer_db" where
  "run_customer now usr CAll db = answer_of AList (getAllCustomers db)"
| "run_customer now usr (CGet i) db = answer_of AOne (getCustomerById i db)"
| "run_customer now usr (CNew i cmd) db = answer_of ANew (createCustomer now i usr cmd db)"
| "run_customer now usr (CSet cmd) db = answer_of (\<lambda>u. ADone) (updateCustomer now usr cmd db)"
| "run_customer now usr (CDel i) db = answer_of (\<lambda>u. ADone) (deleteCustomer now usr i db)"

fun spec_customer :: "customer_call \<Rightarrow> directory \<Rightarrow> customer_answer \<Rightarrow> directory \<Rightarrow> bool" where
  "spec_customer CAll m a m' \<longleftrightarrow> m' = m \<and> (case a of AList ds \<Rightarrow> lists m ds | _ \<Rightarrow> False)"
| "spec_customer (CGet i) m a m' \<longleftrightarrow> m' = m \<and> a = (case m i of None \<Rightarrow> AMissing not_found | Some d \<Rightarrow> AOne d)"
| "spec_customer (CNew i c) m a m' \<longleftrightarrow> a = ANew i
     \<and> m' = put i (Some \<lparr> cd_id = i, cd_name = cc_name c, cd_email = cc_email c, cd_rnc = cc_rnc c \<rparr>) m"
| "spec_customer (CSet c) m a m' \<longleftrightarrow> (case m (uc_id c) of
       None \<Rightarrow> a = AMissing not_found \<and> m' = m
     | Some d \<Rightarrow> a = ADone \<and> m' = put (uc_id c) (Some \<lparr> cd_id = cd_id d, cd_name = uc_name c, cd_email = uc_email c, cd_rnc = uc_rnc c \<rparr>) m)"
| "spec_customer (CDel i) m a m' \<longleftrightarrow> (case m i of
       None \<Rightarrow> a = AMissing not_found \<and> m' = m | Some d \<Rightarrow> a = ADone \<and> m' = put i None m)"

definition ids_ok :: "Customer list \<Rightarrow> bool" where
  "ids_ok rows \<longleftrightarrow> distinct (map ae_id rows) \<and> list_all (\<lambda>r. lower (ae_id r) = ae_id r) rows"

lemma lower_idem [simp]: "lower (lower s) = lower s"
  by simp

subsection \<open>The rows and the directory\<close>

lemma getById_Some:
  assumes "ids_ok rows"
  shows "customer_getById i rows = Some r \<longleftrightarrow> r \<in> set rows \<and> ae_id r = lower i \<and> \<not> ae_isDeleted r"
  using assms
proof (induction rows)
  case (Cons q rows)
  have ok: "ids_ok rows" using Cons.prems by (simp add: ids_ok_def)
  show ?case
  proof (cases "ae_id q = lower i \<and> \<not> ae_isDeleted q")
    case True
    then have "r \<in> set rows \<Longrightarrow> ae_id r \<noteq> lower i" using Cons.prems by (force simp: ids_ok_def)
    then show ?thesis using True by (auto simp: customer_getById_def)
  next
    case False
    then show ?thesis using Cons.IH [OF ok] by (auto simp: customer_getById_def)
  qed
qed (simp add: customer_getById_def)

lemma getById_None: "customer_getById i rows = None \<longleftrightarrow> (\<forall>r \<in> set rows. ae_id r = lower i \<longrightarrow> ae_isDeleted r)"
  by (auto simp: customer_getById_def find_None_iff)

text \<open>Changing the row of one identifier.\<close>

lemma change_row_ids: "(\<And>r. ae_id (f r) = ae_id r) \<Longrightarrow> ids_ok (change_row i f rows) = ids_ok rows"
  by (auto simp: ids_ok_def change_row_def list_all_iff comp_def if_distrib [of ae_id] cong: if_cong)

lemma change_row_getById:
  assumes "ids_ok rows" "\<And>r. ae_id (f r) = ae_id r"
  shows "customer_getById j (change_row i f rows) =
    (if lower j = lower i then (case find (\<lambda>r. ae_id r = lower i) rows of None \<Rightarrow> None
       | Some r \<Rightarrow> if ae_isDeleted (f r) then None else Some (f r)) else customer_getById j rows)"
  using assms(1)
proof (induction rows)
  case (Cons q rows)
  have ok: "ids_ok rows" and absent: "ae_id q = lower i \<Longrightarrow> find (\<lambda>r. ae_id r = lower i) rows = None"
    using Cons.prems by (auto simp: ids_ok_def find_None_iff image_iff)
  show ?case
    using Cons.IH [OF ok] absent assms(2) by (auto simp: customer_getById_def change_row_def split: option.splits)
qed (simp add: customer_getById_def change_row_def)

lemma find_id: "distinct (map ae_id xs) \<Longrightarrow> find (\<lambda>r. ae_id r = k) xs = Some r \<longleftrightarrow> r \<in> set xs \<and> ae_id r = k"
  for xs :: "Customer list"
  by (induction xs) (auto simp: image_iff)

lemma live_row:
  assumes "ids_ok rows" "customer_getById i rows = Some r"
  shows "find (\<lambda>r. ae_id r = lower i) rows = Some r" "ae_id r = lower i"
  using getById_Some [OF assms(1), of i r] assms find_id [of rows "lower i" r] by (simp_all add: ids_ok_def)

lemma live_change:
  assumes "ids_ok rows" "customer_getById i rows = Some r" "\<And>r. ae_id (f r) = ae_id r" "ae_isDeleted (f r) = del"
  shows "live (change_row (ae_id r) f rows) = put i (if del then None else Some (toDto (f r))) (live rows)"
proof -
  have "change_row (ae_id r) f rows = change_row i f rows" using live_row(2) [OF assms(1,2)] by (simp add: change_row_def)
  then show ?thesis
    using assms(4) by (auto simp: live_def put_def change_row_getById [OF assms(1,3)] live_row [OF assms(1,2)])
qed

lemma live_add:
  assumes "lower (ae_id e) = ae_id e" "ae_id e \<notin> ae_id ` set rows" "\<not> ae_isDeleted e"
  shows "live (rows @ [e]) = put (ae_id e) (Some (toDto e)) (live rows)"
proof
  fix j
  have "\<forall>r \<in> set rows. ae_id r \<noteq> ae_id e" using assms(2) by (metis imageI)
  moreover have "find P (xs @ ys) = (case find P xs of None \<Rightarrow> find P ys | Some x \<Rightarrow> Some x)" for P :: "Customer \<Rightarrow> bool" and xs ys
    by (induction xs) auto
  ultimately show "live (rows @ [e]) j = put (ae_id e) (Some (toDto e)) (live rows) j"
    using assms(1,3) by (auto simp: live_def put_def customer_getById_def find_None_iff split: option.splits dest!: find_Some_iff [THEN iffD1])
qed

lemma getAll_lists:
  assumes "ids_ok rows"
  shows "lists (live rows) (map toDto (customer_getAll rows))"
proof -
  have "distinct (map ae_id (filter P rows))" for P using assms by (induction rows) (auto simp: ids_ok_def)
  then have d: "distinct (map ae_id (customer_getAll rows))"
    by (simp add: customer_getAll_def distinct_map)
  have s: "set (customer_getAll rows) = {r \<in> set rows. \<not> ae_isDeleted r}" by (auto simp: customer_getAll_def)
  have "live rows i = find (\<lambda>x. cd_id x = lower i) (map toDto (customer_getAll rows))" for i
  proof -
    have m: "find (\<lambda>x. cd_id x = lower i) (map toDto xs) = map_option toDto (find (\<lambda>r. ae_id r = lower i) xs)" for xs
      by (induction xs) (auto simp: toDto_def)
    show ?thesis
    proof (cases "customer_getById i rows")
      case None
      then have "find (\<lambda>r. ae_id r = lower i) (customer_getAll rows) = None" by (auto simp: getById_None find_None_iff s)
      then show ?thesis using None by (simp add: live_def m)
    next
      case (Some r)
      then have "find (\<lambda>r. ae_id r = lower i) (customer_getAll rows) = Some r"
        using getById_Some [OF assms] find_id [OF d] by (simp add: s)
      then show ?thesis using Some by (simp add: live_def m)
    qed
  qed
  then show ?thesis using d by (simp add: lists_def comp_def toDto_def)
qed

subsection \<open>The handlers refine the directory\<close>

lemma cdb_access_rows: "cdb_access db = (b, db1) \<Longrightarrow> cdb_rows db1 = cdb_rows db"
  by (auto simp: cdb_access_def split: list.splits)

lemma cdb_read_cases:
  assumes "cdb_read q db = (r, db')"
  obtains (down) "r = Inl ConnectionLost" "cdb_rows db' = cdb_rows db" | (read) "r = Inr (q (cdb_rows db))" "cdb_rows db' = cdb_rows db"
  using assms by (auto simp: cdb_read_def dest: cdb_access_rows split: prod.splits if_splits)

lemma cdb_save_cases:
  assumes "cdb_save opn db = (r, db')"
  obtains (failed) e where "r = Inl e" "cdb_rows db' = cdb_rows db" | (stored) "r = Inr ()" "exec_customer_op opn (cdb_rows db) = Inr (cdb_rows db')"
  using assms by (auto simp: cdb_save_def dest: cdb_access_rows split: prod.splits if_splits sum.splits)

lemma with_customer_cases:
  assumes "with_customer i f db = (r, db')"
  obtains (failed) e where "r = Inl e" "cdb_rows db' = cdb_rows db"
  | (absent) "r = Inr (Inl not_found)" "cdb_rows db' = cdb_rows db" "customer_getById i (cdb_rows db) = None"
  | (present) c db1 where "customer_getById i (cdb_rows db) = Some c" "cdb_rows db1 = cdb_rows db" "f c db1 = (r, db')"
proof -
  obtain q db1 where read: "cdb_read (customer_getById i) db = (q, db1)" by force
  from read show thesis
  proof (cases rule: cdb_read_cases)
    case down
    then show ?thesis using assms read by (intro failed [of ConnectionLost]) (simp_all add: with_customer_def)
  next
    case read': read
    then show ?thesis
      using assms read by (cases "customer_getById i (cdb_rows db)") (auto simp: with_customer_def intro: absent present)
  qed
qed

text \<open>What a statement does to the directory.\<close>

lemma exec_customer_add:
  assumes "ids_ok rows" "exec_customer_op (customer_add now [] usr (new_customer \<lparr> ae_id := i, cu_name := n, cu_email := m, cu_rnc := k \<rparr>)) rows = Inr rows'"
    and "lower i = i" "i \<noteq> []"
  shows "ids_ok rows' \<and> live rows' = put i (Some \<lparr> cd_id = i, cd_name = n, cd_email = m, cd_rnc = k \<rparr>) (live rows)"
proof -
  have fresh: "i \<notin> ae_id ` set rows" and rows': "\<exists>e. rows' = rows @ [e] \<and> ae_id e = i \<and> \<not> ae_isDeleted e
      \<and> toDto e = \<lparr> cd_id = i, cd_name = n, cd_email = m, cd_rnc = k \<rparr>"
    using assms(2-4) by (auto simp: exec_customer_op_def customer_add_def new_customer_def toDto_def list_ex_iff split: if_splits)
  then obtain e where e: "rows' = rows @ [e]" "ae_id e = i" "\<not> ae_isDeleted e" "toDto e = \<lparr> cd_id = i, cd_name = n, cd_email = m, cd_rnc = k \<rparr>"
    by blast
  then show ?thesis using live_add [of e rows] assms(1,3) fresh by (auto simp: ids_ok_def)
qed

lemma exec_customer_update:
  assumes "ids_ok rows" "customer_getById i rows = Some c"
    and "exec_customer_op (customer_update now usr (c \<lparr> cu_name := n, cu_email := m, cu_rnc := k \<rparr>)) rows = Inr rows'"
  shows "ids_ok rows' \<and> live rows' = put i (Some \<lparr> cd_id = ae_id c, cd_name = n, cd_email = m, cd_rnc = k \<rparr>) (live rows)"
proof -
  let ?f = "\<lambda>r. r \<lparr> cu_name := n, cu_email := m, cu_rnc := k, ae_updatedAt := Some (toIsoUtc now), ae_updatedBy := Some usr \<rparr>"
  have "rows' = change_row (ae_id c) ?f rows" using assms(3) by (simp add: exec_customer_op_def customer_update_def)
  moreover have "ae_isDeleted (?f c) = False" using getById_Some [OF assms(1)] assms(2) by simp
  ultimately show ?thesis
    using live_change [OF assms(1,2), of ?f False] assms(1) by (simp add: change_row_ids toDto_def)
qed

lemma exec_customer_remove:
  assumes "ids_ok rows" "customer_getById i rows = Some c" "exec_customer_op (customer_remove now usr c) rows = Inr rows'"
  shows "ids_ok rows' \<and> live rows' = put i None (live rows)"
proof -
  let ?f = "\<lambda>r. r \<lparr> ae_isDeleted := True, ae_deletedAt := Some (toIsoUtc now), ae_deletedBy := Some usr \<rparr>"
  have "rows' = change_row (ae_id c) ?f rows" using assms(3) by (simp add: exec_customer_op_def customer_remove_def)
  then show ?thesis using live_change [OF assms(1,2), of ?f True] assms(1) by (simp add: change_row_ids)
qed

definition refined :: "customer_call \<Rightarrow> customer_db \<Rightarrow> customer_answer \<times> customer_db \<Rightarrow> bool" where
  "refined call db r \<longleftrightarrow> (case r of (a, db') \<Rightarrow> ids_ok (cdb_rows db') \<and> ((\<exists>e. a = AError e \<and> cdb_rows db' = cdb_rows db)
    \<or> spec_customer call (live (cdb_rows db)) a (live (cdb_rows db'))))"

lemma refined_CAll: "ids_ok (cdb_rows db) \<Longrightarrow> refined CAll db (run_customer now usr CAll db)"
proof -
  assume ok: "ids_ok (cdb_rows db)"
  obtain r db1 where e: "cdb_read customer_getAll db = (r, db1)" by force
  from e show ?thesis
    by (cases rule: cdb_read_cases) (use ok e getAll_lists [OF ok] in \<open>auto simp: refined_def getAllCustomers_def answer_of_def\<close>)
qed

lemma refined_CGet: "ids_ok (cdb_rows db) \<Longrightarrow> refined (CGet i) db (run_customer now usr (CGet i) db)"
proof -
  assume ok: "ids_ok (cdb_rows db)"
  obtain r db1 where e: "getCustomerById i db = (r, db1)" by force
  from e [unfolded getCustomerById_def] show ?thesis
    by (cases rule: with_customer_cases) (use ok e in \<open>auto simp: refined_def answer_of_def live_def\<close>)
qed

lemma refined_CNew:
  assumes "ids_ok (cdb_rows db)" "lower i = i" "i \<noteq> []"
  shows "refined (CNew i c) db (run_customer now usr (CNew i c) db)"
proof -
  let ?op = "customer_add now [] usr (new_customer \<lparr> ae_id := i, cu_name := cc_name c, cu_email := cc_email c, cu_rnc := cc_rnc c \<rparr>)"
  obtain r db1 where e: "cdb_save ?op db = (r, db1)" by force
  from e show ?thesis
    by (cases rule: cdb_save_cases)
      (use assms e exec_customer_add [OF assms(1)] in \<open>auto simp: refined_def createCustomer_def saved_def answer_of_def\<close>)
qed

lemma refined_CSet: "ids_ok (cdb_rows db) \<Longrightarrow> refined (CSet c) db (run_customer now usr (CSet c) db)"
proof -
  assume ok: "ids_ok (cdb_rows db)"
  obtain r db1 where w: "updateCustomer now usr c db = (r, db1)" by force
  from w [unfolded updateCustomer_def] show ?thesis
  proof (cases rule: with_customer_cases)
    case (present q db2)
    obtain t db3 where e: "cdb_save (customer_update now usr (q \<lparr> cu_name := uc_name c, cu_email := uc_email c, cu_rnc := uc_rnc c \<rparr>)) db2 = (t, db3)"
      by force
    from e show ?thesis
      by (cases rule: cdb_save_cases)
        (use ok w e present exec_customer_update [OF ok present(1)] in \<open>auto simp: refined_def saved_def answer_of_def live_def toDto_def\<close>)
  qed (use ok w in \<open>auto simp: refined_def answer_of_def live_def\<close>)
qed

lemma refined_CDel: "ids_ok (cdb_rows db) \<Longrightarrow> refined (CDel i) db (run_customer now usr (CDel i) db)"
proof -
  assume ok: "ids_ok (cdb_rows db)"
  obtain r db1 where w: "deleteCustomer now usr i db = (r, db1)" by force
  from w [unfolded deleteCustomer_def] show ?thesis
  proof (cases rule: with_customer_cases)
    case (present q db2)
    obtain t db3 where e: "cdb_save (customer_remove now usr q) db2 = (t, db3)" by force
    from e show ?thesis
      by (cases rule: cdb_save_cases)
        (use ok w e present exec_customer_remove [OF ok present(1)] in \<open>auto simp: refined_def saved_def answer_of_def live_def\<close>)
  qed (use ok w in \<open>auto simp: refined_def answer_of_def live_def\<close>)
qed

text \<open>C16. The customer handlers behave like a map from identifiers to customers: every call answers what the
  map answers and changes it as the map changes, or raises an exception and leaves it as it was; and
  the identifiers of the rows stay distinct.\<close>
theorem customers_refine_directory:
  assumes "run_customer now usr call db = (a, db')" "ids_ok (cdb_rows db)"
    and "case call of CNew i c \<Rightarrow> lower i = i \<and> i \<noteq> [] | _ \<Rightarrow> True"
  shows "ids_ok (cdb_rows db') \<and> ((\<exists>e. a = AError e \<and> cdb_rows db' = cdb_rows db)
    \<or> spec_customer call (live (cdb_rows db)) a (live (cdb_rows db')))"
proof -
  have "refined call db (run_customer now usr call db)"
    using assms(2,3) refined_CAll refined_CGet refined_CNew refined_CSet refined_CDel by (cases call) auto
  then show ?thesis by (simp add: refined_def assms(1))
qed

definition demo_customer :: CreateCustomerCommand where
  "demo_customer = \<lparr> cc_name = ''ACME'', cc_email = ''a@b.do'', cc_rnc = ''131234567'' \<rparr>"

theorem customers_refine_directory_witness:
  "live (cdb_rows (snd (run_customer 0 ''s'' (CNew ''u1'' demo_customer) \<lparr> cdb_rows = [], cdb_faults = [] \<rparr>))) ''U1''
    = Some \<lparr> cd_id = ''u1'', cd_name = ''ACME'', cd_email = ''a@b.do'', cd_rnc = ''131234567'' \<rparr>"
proof -
  let ?r = "run_customer 0 ''s'' (CNew ''u1'' demo_customer) \<lparr> cdb_rows = [], cdb_faults = [] \<rparr>"
  have "\<not> (case fst ?r of AError e \<Rightarrow> True | _ \<Rightarrow> False)" by code_simp
  moreover have "ids_ok (cdb_rows \<lparr> cdb_rows = [], cdb_faults = [] \<rparr>)" "lower ''u1'' = ''u1'' \<and> ''u1'' \<noteq> []" by code_simp+
  ultimately have "spec_customer (CNew ''u1'' demo_customer) (live []) (fst ?r) (live (cdb_rows (snd ?r)))"
    using customers_refine_directory [of 0 "''s''" "CNew ''u1'' demo_customer" "\<lparr> cdb_rows = [], cdb_faults = [] \<rparr>" "fst ?r" "snd ?r"]
    by (auto split: customer_answer.splits)
  moreover have "lower ''U1'' = lower ''u1''" by code_simp
  ultimately show ?thesis by (simp add: put_def demo_customer_def)
qed

text \<open>A request the API does not answer with a 2xx status leaves the table as it was, whenever the
  database is lost.\<close>

lemma in_scope_refused:
  assumes "in_scope failed ok handler db = (r, db')" "\<And>v. 200 \<le> ar_status (ok v) \<and> ar_status (ok v) < 300" "300 \<le> ar_status r"
    and "\<And>d e d'. handler d = (Inl e, d') \<Longrightarrow> cdb_rows d' = cdb_rows d" "\<And>d m d'. handler d = (Inr (Inl m), d') \<Longrightarrow> cdb_rows d' = cdb_rows d"
  shows "cdb_rows db' = cdb_rows db"
proof -
  obtain q db1 where q: "cdb_read (\<lambda>rows. ()) db = (q, db1)" by force
  obtain o1 db2 where h: "handler db1 = (o1, db2)" by force
  from q show ?thesis
  proof (cases rule: cdb_read_cases)
    case read
    then show ?thesis using assms q h by (auto simp: in_scope_def split: sum.splits) (force dest: leD)+
  qed (use assms(1) q in \<open>auto simp: in_scope_def\<close>)
qed

lemma saved_refused: "saved v (cdb_save opn db) = (r, db') \<Longrightarrow> (\<forall>x. r \<noteq> Inr (Inr x)) \<Longrightarrow> cdb_rows db' = cdb_rows db"
  by (cases "cdb_save opn db") (auto simp: saved_def elim!: cdb_save_cases split: sum.splits)

lemma with_customer_refused:
  assumes "with_customer i f db = (r, db')" "\<forall>x. r \<noteq> Inr (Inr x)"
    and "\<And>c db1. f c db1 = (r, db') \<Longrightarrow> cdb_rows db' = cdb_rows db1"
  shows "cdb_rows db' = cdb_rows db"
  using assms(1) by (cases rule: with_customer_cases) (use assms(3) in auto)

lemma handlers_refused:
  "createCustomer now uuid usr c db = (r, db') \<Longrightarrow> \<forall>x. r \<noteq> Inr (Inr x) \<Longrightarrow> cdb_rows db' = cdb_rows db"
  "updateCustomer now usr u db = (q, db') \<Longrightarrow> \<forall>x. q \<noteq> Inr (Inr x) \<Longrightarrow> cdb_rows db' = cdb_rows db"
  "deleteCustomer now usr i db = (q, db') \<Longrightarrow> \<forall>x. q \<noteq> Inr (Inr x) \<Longrightarrow> cdb_rows db' = cdb_rows db"
proof -
  show "createCustomer now uuid usr c db = (r, db') \<Longrightarrow> \<forall>x. r \<noteq> Inr (Inr x) \<Longrightarrow> cdb_rows db' = cdb_rows db"
    unfolding createCustomer_def by (rule saved_refused)
  show "updateCustomer now usr u db = (q, db') \<Longrightarrow> \<forall>x. q \<noteq> Inr (Inr x) \<Longrightarrow> cdb_rows db' = cdb_rows db"
    unfolding updateCustomer_def by (erule with_customer_refused) (auto intro: saved_refused)
  show "deleteCustomer now usr i db = (q, db') \<Longrightarrow> \<forall>x. q \<noteq> Inr (Inr x) \<Longrightarrow> cdb_rows db' = cdb_rows db"
    unfolding deleteCustomer_def by (erule with_customer_refused) (auto intro: saved_refused)
qed

theorem refused_customer_request_changes_nothing:
  "api_create path now uuid user body db = (r, db') \<Longrightarrow> 300 \<le> ar_status r \<Longrightarrow> cdb_rows db' = cdb_rows db"
  "api_update path now user i body db = (r, db') \<Longrightarrow> 300 \<le> ar_status r \<Longrightarrow> cdb_rows db' = cdb_rows db"
  "api_remove now user i db = (r, db') \<Longrightarrow> 300 \<le> ar_status r \<Longrightarrow> cdb_rows db' = cdb_rows db"
proof -
  show "api_create path now uuid user body db = (r, db') \<Longrightarrow> 300 \<le> ar_status r \<Longrightarrow> cdb_rows db' = cdb_rows db"
    by (auto simp: api_create_def Let_def json_reply_def split: option.splits json.splits if_splits
        elim!: in_scope_refused dest: handlers_refused(1))
  show "api_update path now user i body db = (r, db') \<Longrightarrow> 300 \<le> ar_status r \<Longrightarrow> cdb_rows db' = cdb_rows db"
    by (auto simp: api_update_def Let_def noContent_def split: option.splits json.splits if_splits
        elim!: in_scope_refused dest: handlers_refused(2))
  show "api_remove now user i db = (r, db') \<Longrightarrow> 300 \<le> ar_status r \<Longrightarrow> cdb_rows db' = cdb_rows db"
    by (auto simp: api_remove_def noContent_def split: if_splits elim!: in_scope_refused dest: handlers_refused(3))
qed

end
