(* ===== verification/Auth_Users.thy ===== *)
theory Auth_Users
  imports Request_Validators Json_Value
begin

text \<open>
  The users of the service: User.h, UserRepository.cpp, AuthHandlers.cpp, TokenService.cpp and
  AuthController.cpp.  libsodium's hash and its check, and the signature of a JSON Web Token, are the
  fields of \<open>auth_service\<close>.  The table users is a list of rows with its three unique indexes, which also
  cover deleted users.  Time is seconds.
\<close>

subsection \<open>The table\<close>

record User = AuditableEntity +
  us_username :: string
  us_email :: string
  us_passwordHash :: string
  us_role :: string
  us_tenantId :: string

definition new_user :: User where
  "new_user = \<lparr> ae_id = [], ae_createdAt = [], ae_createdBy = None, ae_updatedAt = None, ae_updatedBy = None,
     ae_deletedAt = None, ae_deletedBy = None, ae_isDeleted = False, us_username = [], us_email = [],
     us_passwordHash = [], us_role = [], us_tenantId = [] \<rparr>"

record user_db =
  udb_rows :: "User list"
  udb_faults :: "bool list"

definition udb_access :: "user_db \<Rightarrow> bool \<times> user_db" where
  "udb_access db = (case udb_faults db of [] \<Rightarrow> (False, db) | b # fs \<Rightarrow> (b, db \<lparr> udb_faults := fs \<rparr>))"

text \<open>There is no column for the tenant: \<open>mapUser\<close> leaves the member as it is constructed.\<close>

definition mapUser :: "User \<Rightarrow> User" where
  "mapUser r = r \<lparr> us_tenantId := [] \<rparr>"

definition user_queryOne :: "(User \<Rightarrow> bool) \<Rightarrow> user_db \<Rightarrow> (exn + User option) \<times> user_db" where
  "user_queryOne where_clause db = (case udb_access db of (down, db1) \<Rightarrow>
     if down then (Inl ConnectionLost, db1)
     else (Inr (map_option mapUser (find (\<lambda>r. where_clause r \<and> \<not> ae_isDeleted r) (udb_rows db1))), db1))"

definition getByUsername :: "string \<Rightarrow> user_db \<Rightarrow> (exn + User option) \<times> user_db" where
  "getByUsername name = user_queryOne (\<lambda>r. us_username r = name)"

definition getByEmail :: "string \<Rightarrow> user_db \<Rightarrow> (exn + User option) \<times> user_db" where
  "getByEmail email = user_queryOne (\<lambda>r. us_email r = email)"

definition user_conflict :: "User \<Rightarrow> User \<Rightarrow> string option" where
  "user_conflict a b = (if ae_id a = ae_id b then Some ''users_pkey''
     else if us_username a = us_username b then Some ''uq_users_username''
     else if us_email a = us_email b then Some ''uq_users_email'' else None)"

definition user_row :: "int \<Rightarrow> string \<Rightarrow> string \<Rightarrow> User \<Rightarrow> User" where
  "user_row now uuid usr user = user \<lparr> ae_id := (if ae_id user = [] then uuid else ae_id user), ae_createdAt := toIsoUtc now,
     ae_createdBy := Some usr, ae_isDeleted := False, us_tenantId := [] \<rparr>"

text \<open>\<open>add\<close> and the \<open>saveChanges\<close> after it.\<close>

definition add_user :: "int \<Rightarrow> string \<Rightarrow> string \<Rightarrow> User \<Rightarrow> user_db \<Rightarrow> (exn + unit) \<times> user_db" where
  "add_user now uuid usr user db = (case udb_access db of (down, db1) \<Rightarrow>
     if down then (Inl ConnectionLost, db1)
     else (case List.map_filter (user_conflict (user_row now uuid usr user)) (udb_rows db1) of
         c # cs \<Rightarrow> (Inl (UniqueViolation c), db1)
       | [] \<Rightarrow> (Inr (), db1 \<lparr> udb_rows := udb_rows db1 @ [user_row now uuid usr user] \<rparr>)))"

definition update_user_row :: "int \<Rightarrow> string \<Rightarrow> User \<Rightarrow> User \<Rightarrow> User" where
  "update_user_row now usr e r = (if ae_id r = ae_id e then r \<lparr> us_username := us_username e, us_email := us_email e,
     us_passwordHash := us_passwordHash e, us_role := us_role e, ae_updatedAt := Some (toIsoUtc now), ae_updatedBy := Some usr \<rparr> else r)"

subsection \<open>TokenService.cpp\<close>

record token_claims =
  tc_issuer :: string
  tc_audience :: string
  tc_issuedAt :: int
  tc_expiresAt :: int
  tc_nameid :: string
  tc_name :: string
  tc_email :: string
  tc_role :: string
  tc_tenant_id :: string

record auth_service =
  as_hash :: "string \<Rightarrow> exn + string"
  as_verify :: "string \<Rightarrow> string \<Rightarrow> bool"
  as_issuer :: string
  as_audience :: string
  as_expirationMinutes :: int
  as_sign :: "token_claims \<Rightarrow> string"

definition token_for :: "auth_service \<Rightarrow> int \<Rightarrow> User \<Rightarrow> token_claims" where
  "token_for sv now user = \<lparr> tc_issuer = as_issuer sv, tc_audience = as_audience sv, tc_issuedAt = now,
     tc_expiresAt = now + 60 * as_expirationMinutes sv, tc_nameid = ae_id user, tc_name = us_username user,
     tc_email = us_email user, tc_role = us_role user,
     tc_tenant_id = (if us_tenantId user = [] then ''default-tenant'' else us_tenantId user) \<rparr>"

definition generateToken :: "auth_service \<Rightarrow> int \<Rightarrow> User \<Rightarrow> string" where
  "generateToken sv now user = as_sign sv (token_for sv now user)"

subsection \<open>AuthHandlers.cpp\<close>

record AuthResponseDto =
  ad_username :: string
  ad_token :: string
  ad_role :: string

definition auth_response :: "auth_service \<Rightarrow> int \<Rightarrow> User \<Rightarrow> AuthResponseDto" where
  "auth_response sv now user = \<lparr> ad_username = us_username user, ad_token = generateToken sv now user, ad_role = us_role user \<rparr>"

text \<open>The outer sum is an exception, the inner one a \<open>ResultT\<close>.\<close>

type_synonym 'a auth_outcome = "(exn + string + 'a) \<times> user_db"

definition registerUser ::
    "auth_service \<Rightarrow> int \<Rightarrow> string \<Rightarrow> string \<Rightarrow> RegisterUserCommand \<Rightarrow> user_db \<Rightarrow> AuthResponseDto auth_outcome" where
  "registerUser sv now uuid usr cmd db = (case getByUsername (ru_username cmd) db of
       (Inl e, d1) \<Rightarrow> (Inl e, d1)
     | (Inr (Some u), d1) \<Rightarrow> (Inr (Inl ''Username is already taken.''), d1)
     | (Inr None, d1) \<Rightarrow> (case getByEmail (ru_email cmd) d1 of
         (Inl e, d2) \<Rightarrow> (Inl e, d2)
       | (Inr (Some u), d2) \<Rightarrow> (Inr (Inl ''Email is already registered.''), d2)
       | (Inr None, d2) \<Rightarrow> (case as_hash sv (ru_password cmd) of
           Inl e \<Rightarrow> (Inl e, d2)
         | Inr h \<Rightarrow> let user = new_user \<lparr> us_username := ru_username cmd, us_email := ru_email cmd, us_passwordHash := h,
                       us_role := ru_role cmd \<rparr> in
             (case add_user now uuid usr user d2 of
                (Inl e, d3) \<Rightarrow> (Inl e, d3)
              | (Inr u, d3) \<Rightarrow> (case getByUsername (ru_username cmd) d3 of
                    (Inl e, d4) \<Rightarrow> (Inl e, d4)
                  | (Inr found, d4) \<Rightarrow> (Inr (Inr (auth_response sv now (value_or found user))), d4))))))"

definition loginUser :: "auth_service \<Rightarrow> int \<Rightarrow> LoginUserCommand \<Rightarrow> user_db \<Rightarrow> AuthResponseDto auth_outcome" where
  "loginUser sv now cmd db = (case getByUsername (lu_username cmd) db of
       (Inl e, d1) \<Rightarrow> (Inl e, d1)
     | (Inr None, d1) \<Rightarrow> (Inr (Inl ''Invalid username or password.''), d1)
     | (Inr (Some user), d1) \<Rightarrow>
         if as_verify sv (lu_password cmd) (us_passwordHash user) then (Inr (Inr (auth_response sv now user)), d1)
         else (Inr (Inl ''Invalid username or password.''), d1))"

definition auth_to_json :: "AuthResponseDto \<Rightarrow> json" where
  "auth_to_json d = ObjJ [(''token'', StrJ (ad_token d)), (''role'', StrJ (ad_role d)), (''username'', StrJ (ad_username d))]"

text \<open>AuthController.cpp: the endpoint refuses everyone.\<close>

definition login_endpoint :: "int \<times> json" where
  "login_endpoint = (403, ObjJ [(''error'', StrJ (''Interactive end-user login is disabled on the C++ fiscal engine. ''
     @ ''Please authenticate through SaaS-Ecf-Back at /api/v1/auth/login.'')), (''status'', IntJ 403)])"

subsection \<open>Who gets a token\<close>

lemma udb_access_rows: "udb_access db = (b, db1) \<Longrightarrow> udb_rows db1 = udb_rows db"
  by (auto simp: udb_access_def split: list.splits)

lemma user_query_cases:
  assumes "user_queryOne P db = (r, db1)"
  obtains (down) "r = Inl ConnectionLost" "udb_rows db1 = udb_rows db"
  | (read) "r = Inr (map_option mapUser (find (\<lambda>r. P r \<and> \<not> ae_isDeleted r) (udb_rows db)))" "udb_rows db1 = udb_rows db"
  using assms by (auto simp: user_queryOne_def dest: udb_access_rows split: prod.splits if_splits)

lemma no_outage: "udb_faults db = [] \<Longrightarrow> udb_access db = (False, db)"
  by (simp add: udb_access_def)

text \<open>A login gives a token only to an active user whose stored hash the password passes; the token
  names that user and role, lasts the configured time, and always says \<open>default-tenant\<close>, because a user's
  tenant is stored nowhere.\<close>
theorem token_only_for_the_password:
  assumes "loginUser sv now cmd db = (Inr (Inr resp), db')"
  shows "\<exists>user \<in> set (udb_rows db). us_username user = lu_username cmd \<and> \<not> ae_isDeleted user
    \<and> as_verify sv (lu_password cmd) (us_passwordHash user) \<and> ad_username resp = us_username user \<and> ad_role resp = us_role user
    \<and> (\<exists>claims. ad_token resp = as_sign sv claims \<and> tc_nameid claims = ae_id user \<and> tc_role claims = us_role user
        \<and> tc_expiresAt claims = now + 60 * as_expirationMinutes sv \<and> tc_tenant_id claims = ''default-tenant'')"
proof -
  obtain r d1 where q: "getByUsername (lu_username cmd) db = (r, d1)" by force
  from q [unfolded getByUsername_def] show ?thesis
  proof (cases rule: user_query_cases)
    case down
    then show ?thesis using assms q by (simp add: loginUser_def)
  next
    case read
    then obtain user where "find (\<lambda>r. us_username r = lu_username cmd \<and> \<not> ae_isDeleted r) (udb_rows db) = Some user"
      and v: "as_verify sv (lu_password cmd) (us_passwordHash user)" "resp = auth_response sv now (mapUser user)"
      using assms q by (auto simp: loginUser_def mapUser_def split: option.splits if_splits)
    then have "user \<in> set (udb_rows db)" "us_username user = lu_username cmd" "\<not> ae_isDeleted user"
      by (auto simp: find_Some_iff)
    then show ?thesis using v by (auto simp: auth_response_def generateToken_def token_for_def mapUser_def intro!: bexI [of _ user])
  qed
qed

text \<open>Whoever registers can log in with the same password, and no row of another user has changed, when
  the hash of a password passes its own check (libsodium's contract) and the database is there.\<close>
theorem registered_user_logs_in:
  assumes "registerUser sv now uuid usr cmd db = (Inr (Inr resp), db1)" "udb_faults db = []"
    and "\<And>h. as_hash sv (ru_password cmd) = Inr h \<Longrightarrow> as_verify sv (ru_password cmd) h"
  shows "\<exists>row. udb_rows db1 = udb_rows db @ [row] \<and> us_role row = ru_role cmd
    \<and> loginUser sv later \<lparr> lu_username = ru_username cmd, lu_password = ru_password cmd \<rparr> db1
      = (Inr (Inr (auth_response sv later row)), db1)"
proof -
  have q: "getByUsername n d = (Inr (map_option mapUser (find (\<lambda>r. us_username r = n \<and> \<not> ae_isDeleted r) (udb_rows d))), d)"
    if "udb_faults d = []" for n d using that by (simp add: getByUsername_def user_queryOne_def no_outage)
  have e: "getByEmail n d = (Inr (map_option mapUser (find (\<lambda>r. us_email r = n \<and> \<not> ae_isDeleted r) (udb_rows d))), d)"
    if "udb_faults d = []" for n d using that by (simp add: getByEmail_def user_queryOne_def no_outage)
  obtain h row where h: "as_hash sv (ru_password cmd) = Inr h"
    and none: "find (\<lambda>r. us_username r = ru_username cmd \<and> \<not> ae_isDeleted r) (udb_rows db) = None"
    and row: "row = user_row now uuid usr (new_user \<lparr> us_username := ru_username cmd, us_email := ru_email cmd, us_passwordHash := h,
      us_role := ru_role cmd \<rparr>)" and db1: "db1 = db \<lparr> udb_rows := udb_rows db @ [row] \<rparr>"
    using assms(1,2)
    by (auto simp: registerUser_def q e add_user_def no_outage Let_def split: option.splits sum.splits list.splits)
  have "find P (xs @ ys) = (case find P xs of None \<Rightarrow> find P ys | Some x \<Rightarrow> Some x)" for P :: "User \<Rightarrow> bool" and xs ys
    by (induction xs) auto
  then have "find (\<lambda>r. us_username r = ru_username cmd \<and> \<not> ae_isDeleted r) (udb_rows db1) = Some row"
    using none by (simp add: db1 row user_row_def new_user_def)
  moreover have "mapUser row = row" "us_passwordHash row = h" "us_role row = ru_role cmd"
    by (simp_all add: mapUser_def row user_row_def new_user_def)
  ultimately show ?thesis
    using q [of db1] assms(2,3) h by (simp add: loginUser_def db1)
qed

text \<open>A deleted user's name cannot be taken again: the check does not see the row, the index does.\<close>

lemma deleted_name_raises:
  assumes "udb_faults db = []" "udb_rows db = [u]" "ae_isDeleted u" "us_username u = ru_username cmd" "ae_id u \<noteq> uuid"
    "as_hash sv (ru_password cmd) = Inr h"
  shows "fst (registerUser sv now uuid usr cmd db) = Inl (UniqueViolation ''uq_users_username'')"
  using assms
  by (simp add: registerUser_def getByUsername_def getByEmail_def user_queryOne_def no_outage Let_def add_user_def
      map_filter_simps user_conflict_def user_row_def new_user_def)

subsection \<open>Witnesses\<close>

definition demo_auth_service :: auth_service where
  "demo_auth_service = \<lparr> as_hash = (\<lambda>p. Inr (''H'' @ p)), as_verify = (\<lambda>p h. h = ''H'' @ p), as_issuer = ''i'', as_audience = ''a'',
     as_expirationMinutes = 60, as_sign = tc_name \<rparr>"

definition demo_register :: RegisterUserCommand where
  "demo_register = \<lparr> ru_username = ''ana'', ru_email = ''ana@x.do'', ru_password = ''secret'', ru_role = ''User'' \<rparr>"

definition demo_registered :: "AuthResponseDto auth_outcome" where
  "demo_registered = registerUser demo_auth_service 0 ''u1'' ''System'' demo_register \<lparr> udb_rows = [], udb_faults = [] \<rparr>"

definition resp_of :: "AuthResponseDto auth_outcome \<Rightarrow> AuthResponseDto" where
  "resp_of r = (case fst r of Inr (Inr d) \<Rightarrow> d | _ \<Rightarrow> \<lparr> ad_username = [], ad_token = [], ad_role = [] \<rparr>)"

lemma demo_registered_ok: "demo_registered = (Inr (Inr (resp_of demo_registered)), snd demo_registered)"
proof -
  have "case fst demo_registered of Inr (Inr d) \<Rightarrow> True | _ \<Rightarrow> False" by code_simp
  then show ?thesis by (auto simp: resp_of_def prod_eq_iff split: sum.splits)
qed

definition demo_login :: "AuthResponseDto auth_outcome" where
  "demo_login = loginUser demo_auth_service 7 \<lparr> lu_username = ''ana'', lu_password = ''secret'' \<rparr> (snd demo_registered)"

theorem registered_user_logs_in_witness:
  "\<exists>row. demo_login = (Inr (Inr (auth_response demo_auth_service 7 row)), snd demo_registered) \<and> us_role row = ''User''"
  using registered_user_logs_in [OF demo_registered_ok [unfolded demo_registered_def], of 7]
  by (auto simp: demo_login_def demo_auth_service_def demo_register_def demo_registered_def)

theorem token_only_for_the_password_witness:
  "ad_role (resp_of demo_login) = ''User'' \<and> length (udb_rows (snd demo_registered)) = 1"
proof -
  have "case fst demo_login of Inr (Inr d) \<Rightarrow> True | _ \<Rightarrow> False" by code_simp
  then have "loginUser demo_auth_service 7 \<lparr> lu_username = ''ana'', lu_password = ''secret'' \<rparr> (snd demo_registered)
      = (Inr (Inr (resp_of demo_login)), snd demo_login)"
    by (auto simp: demo_login_def [symmetric] resp_of_def prod_eq_iff split: sum.splits)
  from token_only_for_the_password [OF this] obtain user where "user \<in> set (udb_rows (snd demo_registered))" "ad_role (resp_of demo_login) = us_role user"
    by auto
  moreover have "list_all (\<lambda>u. us_role u = ''User'') (udb_rows (snd demo_registered))" "length (udb_rows (snd demo_registered)) = 1"
    by code_simp+
  ultimately show ?thesis by (auto simp: list_all_iff)
qed

end
