(* ===== verification/App_Config.thy ===== *)
theory App_Config
  imports Json_Value Xml_Signer "HOL-Library.Monad_Syntax"
begin

text \<open>
  AppConfig.cpp: the configuration of the service, read from a JSON file and overridden by environment
  variables.  \<open>None\<close> is an exception: the file cannot be opened or parsed, a member has another type
  than the one asked for, or one of the two security checks refuses it.  The lemmas say what any loaded
  configuration satisfies, whatever the file and the environment hold.
\<close>

subsection \<open>The configuration\<close>

record JwtSettings =
  jw_secret :: string
  jw_expirationMinutes :: int
  jw_issuer :: string
  jw_audience :: string

record EcfClientOptions =
  op_apiKey :: "string option"
  op_baseUrl :: "string option"
  op_environment :: EcfEnvironment
  op_rncEmisor :: "string option"
  op_certificatePath :: "string option"
  op_certificatePassword :: "string option"
  op_autoRetryOnReuseableSequence :: bool
  op_xsdDirectoryPath :: "string option"
  op_validateSchemasLocal :: bool

record AppConfig =
  ac_serverHost :: string
  ac_serverPort :: int
  ac_threads :: int
  ac_connectionString :: string
  ac_redisConnectionString :: string
  ac_schemaPath :: string
  ac_certEncryptionKey :: string
  ac_jwt :: JwtSettings
  ac_ecfOptions :: EcfClientOptions
  ac_emisorRnc :: string
  ac_emisorRazonSocial :: string
  ac_pollingIntervalMinutes :: int
  ac_minDocumentAgeMinutes :: int
  ac_maxPollingWindowHours :: int
  ac_workerKeyId :: string
  ac_workerSecretKey :: string
  ac_workerTenantId :: string
  ac_workerAllowedRncs :: string

definition default_config :: AppConfig where
  "default_config = \<lparr> ac_serverHost = ''0.0.0.0'', ac_serverPort = 8080, ac_threads = 0, ac_connectionString = [],
     ac_redisConnectionString = [], ac_schemaPath = ''db/schema.sql'', ac_certEncryptionKey = [],
     ac_jwt = \<lparr> jw_secret = [], jw_expirationMinutes = 60, jw_issuer = [], jw_audience = [] \<rparr>,
     ac_ecfOptions = \<lparr> op_apiKey = None, op_baseUrl = None, op_environment = EnvTest, op_rncEmisor = None,
       op_certificatePath = None, op_certificatePassword = None, op_autoRetryOnReuseableSequence = True,
       op_xsdDirectoryPath = None, op_validateSchemasLocal = True \<rparr>,
     ac_emisorRnc = [], ac_emisorRazonSocial = [], ac_pollingIntervalMinutes = 15, ac_minDocumentAgeMinutes = 2,
     ac_maxPollingWindowHours = 72, ac_workerKeyId = ''default-worker-id'', ac_workerSecretKey = ''WorkerSecretKey'',
     ac_workerTenantId = ''default-tenant'', ac_workerAllowedRncs = ''*'' \<rparr>"

subsection \<open>Reading members (nlohmann)\<close>

definition getStr :: "json \<Rightarrow> string \<Rightarrow> string \<Rightarrow> string option" where
  "getStr j key dflt = (case jmember j key of
     None \<Rightarrow> Some dflt | Some NullJ \<Rightarrow> Some dflt | Some (StrJ s) \<Rightarrow> Some s | Some _ \<Rightarrow> None)"

text \<open>\<open>get<int>()\<close> converts every number and a boolean; \<open>get<bool>()\<close> converts nothing.\<close>

definition getInt :: "json \<Rightarrow> string \<Rightarrow> int \<Rightarrow> int option" where
  "getInt j key dflt = (case jmember j key of
     None \<Rightarrow> Some dflt | Some (IntJ n) \<Rightarrow> Some (int32 n) | Some (DblJ d) \<Rightarrow> Some (dtrunc d)
   | Some (BoolJ b) \<Rightarrow> Some (if b then 1 else 0) | Some _ \<Rightarrow> None)"

definition getBool :: "json \<Rightarrow> string \<Rightarrow> bool \<Rightarrow> bool option" where
  "getBool j key dflt = (case jmember j key of None \<Rightarrow> Some dflt | Some (BoolJ b) \<Rightarrow> Some b | Some _ \<Rightarrow> None)"

definition parseEnv :: "string \<Rightarrow> EcfEnvironment" where
  "parseEnv s = (if s = ''Cert'' then EnvCert else if s = ''Prod'' then EnvProd else EnvTest)"

text \<open>The first of two variables that is set.\<close>

type_synonym environ = "string \<Rightarrow> string option"

definition env_or :: "environ \<Rightarrow> string list \<Rightarrow> string \<Rightarrow> string" where
  "env_or getenv names dflt = (case List.map_filter getenv names of [] \<Rightarrow> dflt | v # vs \<Rightarrow> v)"

definition env_opt :: "environ \<Rightarrow> string list \<Rightarrow> string option \<Rightarrow> string option" where
  "env_opt getenv names dflt = (case List.map_filter getenv names of [] \<Rightarrow> dflt | v # vs \<Rightarrow> Some v)"

subsection \<open>\<open>normalizePostgresConnectionString\<close>\<close>

text \<open>\<open>std::getline\<close> on a separator: no item after a final separator.\<close>

fun items_from :: "char \<Rightarrow> string \<Rightarrow> string \<Rightarrow> string list" where
  "items_from sep acc [] = (if acc = [] then [] else [rev acc])"
| "items_from sep acc (c # cs) = (if c = sep then rev acc # items_from sep [] cs else items_from sep (c # acc) cs)"

definition postgres_key :: "string \<Rightarrow> string" where
  "postgres_key raw = (let k = lower (trim raw) in
     if k \<in> {''host'', ''server''} then ''host''
     else if k \<in> {''database'', ''initial catalog''} then ''dbname''
     else if k \<in> {''username'', ''user id'', ''user''} then ''user''
     else if k = ''ssl mode'' then ''sslmode''
     else if k \<in> {''timeout'', ''connection timeout'', ''connect timeout''} then ''connect_timeout''
     else k)"

definition postgres_item :: "string \<Rightarrow> string option" where
  "postgres_item item = (if CHR ''='' \<notin> set item then None
     else Some (postgres_key (takeWhile (\<lambda>c. c \<noteq> CHR ''='') item) @ ''='' @ tl (dropWhile (\<lambda>c. c \<noteq> CHR ''='') item)))"

definition add_item :: "string \<Rightarrow> string \<Rightarrow> string" where
  "add_item out item = (if out = [] then item else out @ '' '' @ item)"

definition normalizePostgresConnectionString :: "string \<Rightarrow> string" where
  "normalizePostgresConnectionString s =
     (if CHR '';'' \<notin> set s then s
      else let out = foldl add_item [] (List.map_filter postgres_item (items_from (CHR '';'') [] s)) in
        if out = [] then s else out)"

subsection \<open>\<open>load\<close>\<close>

definition object_at :: "json \<Rightarrow> string \<Rightarrow> json option" where
  "object_at j key = jmember j key"

definition load_server :: "json \<Rightarrow> AppConfig \<Rightarrow> AppConfig option" where
  "load_server j cfg = (case object_at j ''Server'' of
     None \<Rightarrow> Some cfg
   | Some s \<Rightarrow> do {
       host \<leftarrow> getStr s ''Host'' (ac_serverHost cfg);
       port \<leftarrow> getInt s ''Port'' (ac_serverPort cfg);
       threads \<leftarrow> getInt s ''Threads'' (ac_threads cfg);
       Some (cfg \<lparr> ac_serverHost := host, ac_serverPort := port, ac_threads := threads \<rparr>) })"

definition load_connections :: "environ \<Rightarrow> json \<Rightarrow> AppConfig \<Rightarrow> AppConfig option" where
  "load_connections getenv j cfg = do {
     c \<leftarrow> (case object_at j ''ConnectionStrings'' of
       None \<Rightarrow> Some cfg
     | Some s \<Rightarrow> do {
         db \<leftarrow> getStr s ''DefaultConnection'' [];
         redis \<leftarrow> getStr s ''Redis'' [];
         Some (cfg \<lparr> ac_connectionString := db, ac_redisConnectionString := redis \<rparr>) });
     Some (c \<lparr>
       ac_connectionString := normalizePostgresConnectionString
         (env_or getenv [''ConnectionStrings__DefaultConnection'', ''DATABASE_URL''] (ac_connectionString c)),
       ac_redisConnectionString := env_or getenv [''ConnectionStrings__Redis'', ''REDIS_URL''] (ac_redisConnectionString c) \<rparr>) }"

definition default_secret :: string where
  "default_secret = ''e_CF_Dominican_Tax_Authority_Secure_JWT_Secret_Token_2026_Key_Length_Minimum_32_Bytes!''"

definition read_jwt :: "json \<Rightarrow> JwtSettings \<Rightarrow> JwtSettings option" where
  "read_jwt j jwt = (case object_at j ''JwtSettings'' of
     None \<Rightarrow> Some jwt
   | Some s \<Rightarrow> do {
       secret \<leftarrow> getStr s ''Secret'' [];
       minutes \<leftarrow> getInt s ''ExpirationMinutes'' (jw_expirationMinutes jwt);
       issuer \<leftarrow> getStr s ''Issuer'' [];
       audience \<leftarrow> getStr s ''Audience'' [];
       Some \<lparr> jw_secret = secret, jw_expirationMinutes = minutes, jw_issuer = issuer, jw_audience = audience \<rparr> })"

definition settle_secret :: "environ \<Rightarrow> string \<Rightarrow> string option" where
  "settle_secret getenv given =
     (if given \<noteq> [] then Some given
      else if getenv ''ASPNETCORE_ENVIRONMENT'' = Some ''Production'' then None else Some default_secret)"

definition load_jwt :: "environ \<Rightarrow> json \<Rightarrow> AppConfig \<Rightarrow> AppConfig option" where
  "load_jwt getenv j cfg = do {
     jwt \<leftarrow> read_jwt j (ac_jwt cfg);
     secret \<leftarrow> settle_secret getenv (env_or getenv [''JwtSettings__Secret'', ''JWT_SECRET''] (jw_secret jwt));
     (if length secret < 32 then None
      else Some (cfg \<lparr> ac_jwt := jwt \<lparr> jw_secret := secret \<rparr>,
        ac_certEncryptionKey := env_or getenv [''CERT_ENCRYPTION_KEY'', ''Security__CertificateEncryptionKey''] (ac_certEncryptionKey cfg) \<rparr>)) }"

definition load_options :: "environ \<Rightarrow> json \<Rightarrow> EcfClientOptions \<Rightarrow> EcfClientOptions option" where
  "load_options getenv j o1 = (case object_at j ''EcfClientOptions'' of
     None \<Rightarrow> Some o1
   | Some s \<Rightarrow> do {
       apiKey \<leftarrow> getStr s ''ApiKey'' [];
       baseUrl \<leftarrow> getStr s ''BaseUrl'' [];
       env \<leftarrow> getStr s ''Environment'' ''Test'';
       rnc \<leftarrow> getStr s ''RncEmisor'' [];
       path \<leftarrow> getStr s ''CertificatePath'' [];
       pwd \<leftarrow> getStr s ''CertificatePassword'' [];
       retry \<leftarrow> getBool s ''AutoRetryOnReuseableSequence'' (op_autoRetryOnReuseableSequence o1);
       validate \<leftarrow> getBool s ''ValidateSchemasLocal'' (op_validateSchemasLocal o1);
       xsd \<leftarrow> (if jmember s ''XsdDirectoryPath'' = None then Some (op_xsdDirectoryPath o1)
         else map_option Some (getStr s ''XsdDirectoryPath'' []));
       Some \<lparr> op_apiKey = Some apiKey, op_baseUrl = Some baseUrl, op_environment = parseEnv env, op_rncEmisor = Some rnc,
         op_certificatePath = Some path,
         op_certificatePassword = env_opt getenv [''ECF_CERTIFICATE_PASSWORD'', ''EcfClientOptions__CertificatePassword''] (Some pwd),
         op_autoRetryOnReuseableSequence = retry, op_xsdDirectoryPath = xsd, op_validateSchemasLocal = validate \<rparr> })"

definition override_options :: "environ \<Rightarrow> EcfClientOptions \<Rightarrow> EcfClientOptions" where
  "override_options getenv o1 = o1 \<lparr>
     op_environment := (case env_opt getenv [''ECF_ENVIRONMENT'', ''EcfClientOptions__Environment''] None of
       None \<Rightarrow> op_environment o1 | Some e \<Rightarrow> parseEnv e),
     op_baseUrl := env_opt getenv [''ECF_BASE_URL'', ''EcfClientOptions__BaseUrl''] (op_baseUrl o1) \<rparr>"

definition load_emisor :: "json \<Rightarrow> AppConfig \<Rightarrow> AppConfig option" where
  "load_emisor j cfg = (case object_at j ''EcfEmisor'' of
     Some s \<Rightarrow> do {
       rnc \<leftarrow> getStr s ''Rnc'' [];
       razon \<leftarrow> getStr s ''RazonSocial'' [];
       Some (cfg \<lparr> ac_emisorRnc := rnc, ac_emisorRazonSocial := razon \<rparr>) }
   | None \<Rightarrow> Some (if has_text (op_rncEmisor (ac_ecfOptions cfg))
       then cfg \<lparr> ac_emisorRnc := value_or (op_rncEmisor (ac_ecfOptions cfg)) [], ac_emisorRazonSocial := [] \<rparr> else cfg))"

definition load_polling :: "json \<Rightarrow> AppConfig \<Rightarrow> AppConfig option" where
  "load_polling j cfg = (case object_at j ''EcfStatusPolling'' of
     None \<Rightarrow> Some cfg
   | Some s \<Rightarrow> do {
       interval \<leftarrow> getInt s ''PollingIntervalMinutes'' (ac_pollingIntervalMinutes cfg);
       age \<leftarrow> getInt s ''MinDocumentAgeMinutes'' (ac_minDocumentAgeMinutes cfg);
       window \<leftarrow> getInt s ''MaxPollingWindowHours'' (ac_maxPollingWindowHours cfg);
       Some (cfg \<lparr> ac_pollingIntervalMinutes := interval, ac_minDocumentAgeMinutes := age, ac_maxPollingWindowHours := window \<rparr>) })"

definition default_xsd_dir :: string where
  "default_xsd_dir = ''/app/Documentaci'' @ u_o @ ''n T'' @ u_e @ ''cnica (XSD)''"

definition override_emisor :: "environ \<Rightarrow> AppConfig \<Rightarrow> AppConfig" where
  "override_emisor getenv cfg =
     (let rnc = env_opt getenv [''ECF_EMISOR_RNC'', ''EcfClientOptions__RncEmisor''] None;
          xsd = env_opt getenv [''ECF_XSD_DIR'', ''EcfClientOptions__XsdDirectoryPath''] (op_xsdDirectoryPath (ac_ecfOptions cfg))
      in cfg \<lparr> ac_emisorRnc := value_or rnc (ac_emisorRnc cfg),
           ac_emisorRazonSocial := env_or getenv [''ECF_EMISOR_RAZON_SOCIAL''] (ac_emisorRazonSocial cfg),
           ac_ecfOptions := ac_ecfOptions cfg \<lparr>
             op_rncEmisor := (if rnc = None then op_rncEmisor (ac_ecfOptions cfg) else rnc),
             op_xsdDirectoryPath := (if has_text xsd then xsd else Some default_xsd_dir) \<rparr>,
           ac_schemaPath := env_or getenv [''SCHEMA_PATH''] (ac_schemaPath cfg) \<rparr>)"

definition load_worker :: "environ \<Rightarrow> json \<Rightarrow> AppConfig \<Rightarrow> AppConfig option" where
  "load_worker getenv j cfg = do {
     key \<leftarrow> getStr j ''WorkerKeyId'' (ac_workerKeyId cfg);
     s1 \<leftarrow> getStr j ''WorkerSecretKey'' (ac_workerSecretKey cfg);
     secret \<leftarrow> (if jmember j ''WorkerApiKey'' = None then Some s1 else getStr j ''WorkerApiKey'' []);
     tenant \<leftarrow> getStr j ''WorkerTenantId'' (ac_workerTenantId cfg);
     rncs \<leftarrow> getStr j ''WorkerAllowedRncs'' (ac_workerAllowedRncs cfg);
     Some (cfg \<lparr> ac_workerKeyId := env_or getenv [''WORKER_KEY_ID''] key, ac_workerSecretKey := env_or getenv [''WORKER_SECRET_KEY''] secret,
       ac_workerTenantId := env_or getenv [''WORKER_TENANT_ID''] tenant,
       ac_workerAllowedRncs := env_or getenv [''WORKER_ALLOWED_RNCS''] rncs \<rparr>) }"

text \<open>\<open>file\<close> is the parsed file, if it could be opened and parsed.\<close>

definition load_config :: "environ \<Rightarrow> json option \<Rightarrow> AppConfig option" where
  "load_config getenv file = do {
     j \<leftarrow> file;
     c1 \<leftarrow> load_server j default_config;
     c2 \<leftarrow> load_connections getenv j c1;
     c3 \<leftarrow> load_jwt getenv j c2;
     opts \<leftarrow> load_options getenv j (ac_ecfOptions c3);
     c4 \<leftarrow> load_emisor j (c3 \<lparr> ac_ecfOptions := override_options getenv opts \<rparr>);
     c5 \<leftarrow> load_polling j c4;
     load_worker getenv j (override_emisor getenv c5) }"

text \<open>\<open>main\<close> tries a second file when the first one raises.\<close>

definition startup_config :: "environ \<Rightarrow> json option \<Rightarrow> json option \<Rightarrow> AppConfig option" where
  "startup_config getenv file1 file2 = (case load_config getenv file1 of Some c \<Rightarrow> Some c | None \<Rightarrow> load_config getenv file2)"


subsection \<open>What every stage keeps\<close>

lemma default_config_secret [simp]: "jw_secret (ac_jwt default_config) = []"
  by (simp add: default_config_def)

lemma load_server_jwt: "load_server j cfg = Some c \<Longrightarrow> ac_jwt c = ac_jwt cfg"
  by (auto simp: load_server_def bind_Some split: option.splits)

lemma load_connections_jwt: "load_connections getenv j cfg = Some c \<Longrightarrow> ac_jwt c = ac_jwt cfg"
  by (auto simp: load_connections_def bind_Some split: option.splits)

lemma load_emisor_jwt: "load_emisor j cfg = Some c \<Longrightarrow> ac_jwt c = ac_jwt cfg"
  by (auto simp: load_emisor_def bind_Some split: option.splits if_splits)

lemma load_polling_jwt: "load_polling j cfg = Some c \<Longrightarrow> ac_jwt c = ac_jwt cfg"
  by (auto simp: load_polling_def bind_Some split: option.splits)

lemma override_emisor_jwt: "ac_jwt (override_emisor getenv cfg) = ac_jwt cfg"
  by (simp add: override_emisor_def Let_def)

lemma load_worker_keeps:
  assumes "load_worker getenv j cfg = Some c"
  shows "ac_jwt c = ac_jwt cfg" "ac_ecfOptions c = ac_ecfOptions cfg"
  using assms by (auto simp: load_worker_def bind_Some)

text \<open>The secret the operator gave, in the file or in a variable.\<close>

definition given_secret :: "environ \<Rightarrow> json \<Rightarrow> string" where
  "given_secret getenv j = env_or getenv [''JwtSettings__Secret'', ''JWT_SECRET'']
     (case jmember j ''JwtSettings'' of None \<Rightarrow> [] | Some s \<Rightarrow> value_or (getStr s ''Secret'' []) [])"

lemma read_jwt_secret:
  assumes "read_jwt j jwt = Some r" and "jw_secret jwt = []"
  shows "given_secret getenv j = env_or getenv [''JwtSettings__Secret'', ''JWT_SECRET''] (jw_secret r)"
  using assms by (auto simp: read_jwt_def given_secret_def object_at_def bind_Some value_or_def split: option.splits)

lemma settle_secret_Some:
  "settle_secret getenv given = Some s \<longleftrightarrow> s = (if given = [] then default_secret else given) \<and>
     \<not> (given = [] \<and> getenv ''ASPNETCORE_ENVIRONMENT'' = Some ''Production'')"
  by (auto simp: settle_secret_def)

lemma load_jwt_secret:
  assumes "load_jwt getenv j cfg = Some c" and "jw_secret (ac_jwt cfg) = []"
  shows "32 \<le> length (jw_secret (ac_jwt c))"
    and "jw_secret (ac_jwt c) = (if given_secret getenv j = [] then default_secret else given_secret getenv j)"
    and "\<not> (given_secret getenv j = [] \<and> getenv ''ASPNETCORE_ENVIRONMENT'' = Some ''Production'')"
proof -
  from assms(1) obtain jwt s where r: "read_jwt j (ac_jwt cfg) = Some jwt"
    and s: "settle_secret getenv (env_or getenv [''JwtSettings__Secret'', ''JWT_SECRET''] (jw_secret jwt)) = Some s"
    and c: "32 \<le> length s" "jw_secret (ac_jwt c) = s"
    unfolding load_jwt_def bind_Some by (force split: if_splits)
  note s' = s [folded read_jwt_secret [OF r assms(2)], unfolded settle_secret_Some]
  show "32 \<le> length (jw_secret (ac_jwt c))"
    by (simp only: c)
  show "jw_secret (ac_jwt c) = (if given_secret getenv j = [] then default_secret else given_secret getenv j)"
    by (simp only: c(2) s')
  show "\<not> (given_secret getenv j = [] \<and> getenv ''ASPNETCORE_ENVIRONMENT'' = Some ''Production'')"
    using s' by simp
qed

lemma override_emisor_xsd: "has_text (op_xsdDirectoryPath (ac_ecfOptions (override_emisor getenv cfg)))"
  by (simp add: override_emisor_def Let_def has_text_def default_xsd_dir_def)

lemma load_config_stages:
  assumes "load_config getenv file = Some c"
  obtains j c2 c3 c6 where "file = Some j" "load_jwt getenv j c2 = Some c3" "jw_secret (ac_jwt c2) = []"
    "load_worker getenv j (override_emisor getenv c6) = Some c" "ac_jwt c6 = ac_jwt c3"
proof -
  from assms obtain j c1 c2 c3 opts c4 c5 where f: "file = Some j" "load_server j default_config = Some c1"
    "load_connections getenv j c1 = Some c2" "load_jwt getenv j c2 = Some c3"
    "load_emisor j (c3 \<lparr> ac_ecfOptions := override_options getenv opts \<rparr>) = Some c4" "load_polling j c4 = Some c5"
    "load_worker getenv j (override_emisor getenv c5) = Some c"
    unfolding load_config_def bind_Some by blast
  have "jw_secret (ac_jwt c2) = []"
    by (simp only: load_connections_jwt [OF f(3)] load_server_jwt [OF f(2)] default_config_secret)
  moreover have "ac_jwt c5 = ac_jwt c3"
    by (simp add: load_polling_jwt [OF f(6)] load_emisor_jwt [OF f(5)])
  ultimately show thesis
    using that f(1,4,7) by blast
qed


definition demo_config_file :: json where
  "demo_config_file = ObjJ
    [(''Server'', ObjJ [(''Port'', IntJ 9090)]),
     (''ConnectionStrings'', ObjJ [(''DefaultConnection'', StrJ ''Host=db;Port=5432;User Id=ecf'')]),
     (''EcfEmisor'', ObjJ [(''Rnc'', StrJ ''131880681''), (''RazonSocial'', StrJ ''Ejemplo'')])]"

definition demo_config :: AppConfig where
  "demo_config = the (load_config Map.empty (Some demo_config_file))"

lemma demo_loads: "load_config Map.empty (Some demo_config_file) \<noteq> None"
  "ac_connectionString demo_config = ''host=db port=5432 user=ecf'' \<and> ac_serverPort demo_config = 9090"
  by code_simp+


text \<open>Without a secret of its own the service signs its tokens with the published one, and accepts a worker that
  knows the published key.\<close>

lemma unset_secrets_are_published:
  "load_config Map.empty (Some (ObjJ [])) = Some c \<Longrightarrow>
     jw_secret (ac_jwt c) = default_secret \<and> ac_workerSecretKey c = ''WorkerSecretKey'' \<and> ac_workerAllowedRncs c = ''*''"
proof -
  assume l: "load_config Map.empty (Some (ObjJ [])) = Some c"
  have "map_option (\<lambda>c. (jw_secret (ac_jwt c) = default_secret, ac_workerSecretKey c = ''WorkerSecretKey'',
      ac_workerAllowedRncs c = ''*'')) (load_config Map.empty (Some (ObjJ []))) = Some (True, True, True)"
    by code_simp
  then show ?thesis
    by (simp add: l)
qed

end
