(* ===== verification/Ecf_Client.thy ===== *)
theory Ecf_Client
  imports App_Config Schema_Validator Dgii_Transport Rfce_Client
begin

text \<open>
  EcfClient.cpp and EcfFrontendClient.cpp over the modelled transport, and AppServices.cpp, which builds the
  client from the configuration: what a client validates before it transmits, and what it may post, over
  every sequence of its calls.  The certificate store, the schema files and the network are the fields of
  \<open>client_platform\<close>.  There is one integration mode, so the check of the mode passes.  The retry loop of \<open>sendRfce\<close> is in \<open>Rfce_Client\<close>.
\<close>

subsection \<open>Clients\<close>

record ('s, 'r) client_platform =
  cp_signer :: signer_platform
  cp_schemas :: "'s schema_platform"
  cp_net :: "'r transport_env"
  cp_auth :: auth_env

text \<open>\<open>kc_validator\<close> is the directory of a validator, if there is one; \<open>kc_cert\<close> the certificate of the token
  manager, if there is one.\<close>

record EcfClient =
  kc_options :: EcfClientOptions
  kc_validator :: "string option option"
  kc_cert :: "EcfXmlSigner option"
  kc_config :: EcfEnvironmentConfig

record ('s, 'r) client_state =
  ks_schemas :: "'s schema_cache"
  ks_link :: "'r transport_state"

definition options_signer :: "signer_platform \<Rightarrow> EcfClientOptions \<Rightarrow> exn + EcfXmlSigner" where
  "options_signer pl opts =
     (if has_text (op_certificatePath opts)
      then signer_from_file pl (value_or (op_certificatePath opts) []) (value_or (op_certificatePassword opts) [])
      else signer_from_file pl [] [])"

definition make_client ::
    "('s, 'r) client_platform \<Rightarrow> EcfClientOptions \<Rightarrow> string option option \<Rightarrow> EcfXmlSigner option \<Rightarrow> exn + EcfClient" where
  "make_client pl opts validator signer =
     (if \<not> has_text (op_rncEmisor opts) then Inl (OtherExn ''RncEmisor is required for Direct mode.'')
      else case (case signer of Some s \<Rightarrow> Inr s | None \<Rightarrow> options_signer (cp_signer pl) opts) of
          Inl e \<Rightarrow> Inl e
        | Inr s \<Rightarrow> Inr \<lparr> kc_options = opts,
            kc_validator = (if validator = None \<and> op_validateSchemasLocal opts then Some (op_xsdDirectoryPath opts) else validator),
            kc_cert = Some s, kc_config = getConfig (toAmbiente (op_environment opts)) \<rparr>)"

text \<open>The client for the web pages: it can only ask, and does so without a token when it has no certificate.\<close>

definition make_frontend_client :: "('s, 'r) client_platform \<Rightarrow> EcfClientOptions \<Rightarrow> exn + EcfClient" where
  "make_frontend_client pl opts =
     (case (if has_text (op_certificatePath opts) \<and> has_text (op_rncEmisor opts)
            then map_sum id Some (signer_from_file (cp_signer pl) (value_or (op_certificatePath opts) []) (value_or (op_certificatePassword opts) []))
            else Inr None) of
        Inl e \<Rightarrow> Inl e
      | Inr s \<Rightarrow> Inr \<lparr> kc_options = opts, kc_validator = None, kc_cert = s,
          kc_config = getConfig (toAmbiente (op_environment opts)) \<rparr>)"

text \<open>The transport of a client at the time of a call.\<close>

definition transport_of :: "('s, 'r) client_platform \<Rightarrow> int \<Rightarrow> EcfClient \<Rightarrow> 'r transport_env" where
  "transport_of pl now c = (cp_net pl) \<lparr>
     dt_auth := map_option (\<lambda>s. (cp_auth pl) \<lparr> ae_signer := as_signer (cp_signer pl) now 0 s, ae_config := kc_config c,
       ae_rncEmisor := value_or (op_rncEmisor (kc_options c)) [] \<rparr>) (kc_cert c),
     dt_config := kc_config c \<rparr>"

subsection \<open>Operations that transmit\<close>

definition schema_check ::
    "('s, 'r) client_platform \<Rightarrow> EcfClient \<Rightarrow> string \<Rightarrow> ('s, 'r) client_state \<Rightarrow> string list option \<times> ('s, 'r) client_state" where
  "schema_check pl c xmlContent st = (case kc_validator c of
       Some dir \<Rightarrow>
         if op_validateSchemasLocal (kc_options c) then
           (case validate_document (cp_schemas pl) dir xmlContent (ks_schemas st) of (result, cache) \<Rightarrow>
             (if sr_isValid result then None else Some (sr_errors result), st \<lparr> ks_schemas := cache \<rparr>))
         else (None, st)
     | None \<Rightarrow> (None, st))"

definition forward :: "('r transport_state \<Rightarrow> (exn + 'a) \<times> 'r transport_state) \<Rightarrow> ('s, 'r) client_state \<Rightarrow> (send_error + 'a) \<times> ('s, 'r) client_state" where
  "forward call st = (case call (ks_link st) of (r, link) \<Rightarrow> (map_sum SendFailed id r, st \<lparr> ks_link := link \<rparr>))"

definition with_schema ::
    "('s, 'r) client_platform \<Rightarrow> EcfClient \<Rightarrow> string \<Rightarrow> ('r transport_state \<Rightarrow> (exn + 'a) \<times> 'r transport_state)
     \<Rightarrow> ('s, 'r) client_state \<Rightarrow> (send_error + 'a) \<times> ('s, 'r) client_state" where
  "with_schema pl c xmlContent call st = (case schema_check pl c xmlContent st of
       (Some errors, st1) \<Rightarrow> (Inl (SchemaErrors errors), st1)
     | (None, st1) \<Rightarrow> forward call st1)"

definition live_sendEcf where
  "live_sendEcf pl c now xmlContent fileName = with_schema pl c xmlContent (dgii_sendEcf (transport_of pl now c) now xmlContent fileName)"

definition live_sendRfce where
  "live_sendRfce pl c now xmlContent fileName = with_schema pl c xmlContent (dgii_sendRfce (transport_of pl now c) now xmlContent fileName)"

definition live_sendAprobacionComercial where
  "live_sendAprobacionComercial pl c now xmlContent fileName =
     with_schema pl c xmlContent (dgii_sendAprobacionComercial (transport_of pl now c) now xmlContent fileName)"

definition live_anularRangos where
  "live_anularRangos pl c now xmlContent = with_schema pl c xmlContent (dgii_anularRangos (transport_of pl now c) now xmlContent)"

subsection \<open>Operations that ask\<close>

definition live_consultarResultado where
  "live_consultarResultado pl c now trackId = forward (dgii_consultarResultado (transport_of pl now c) now trackId)"

definition live_consultarEstado where
  "live_consultarEstado pl c now rncEmisor eNcf rncComprador codigoSeguridad =
     forward (dgii_consultarEstado (transport_of pl now c) now rncEmisor eNcf rncComprador codigoSeguridad)"

definition live_consultarTrackIds where
  "live_consultarTrackIds pl c now rncEmisor eNcf = forward (dgii_consultarTrackIds (transport_of pl now c) now rncEmisor eNcf)"

definition live_consultarRfce where
  "live_consultarRfce pl c now rncEmisor eNcf codigoSeguridad =
     forward (dgii_consultarRfce (transport_of pl now c) now rncEmisor eNcf codigoSeguridad)"

definition live_validarTimbreEcf where
  "live_validarTimbreEcf pl c now request = forward (dgii_consultarTimbre (transport_of pl now c) request)"

definition live_validarTimbreFc where
  "live_validarTimbreFc pl c now request = forward (dgii_consultarTimbreFc (transport_of pl now c) request)"

definition live_consultarDirectorio where
  "live_consultarDirectorio pl c now = forward (dgii_consultarDirectorio (transport_of pl now c))"

definition live_consultarDirectorioPorRnc where
  "live_consultarDirectorioPorRnc pl c now rnc = forward (dgii_consultarDirectorioPorRnc (transport_of pl now c) rnc)"

definition live_consultarEstatusServicios where
  "live_consultarEstatusServicios pl c now = forward (dgii_consultarEstatusServicios (transport_of pl now c))"

definition live_consultarVentanasMantenimiento where
  "live_consultarVentanasMantenimiento pl c now = forward (dgii_consultarVentanasMantenimiento (transport_of pl now c))"

definition live_verificarEstadoAmbiente where
  "live_verificarEstadoAmbiente pl c now ambiente = forward (dgii_verificarEstadoAmbiente (transport_of pl now c) ambiente)"

text \<open>The four queries of EcfFrontendClient.cpp.\<close>

definition frontend_consultarEstado where
  "frontend_consultarEstado pl c now rncEmisor eNcf rncComprador codigoSeguridad =
     forward (dgii_consultarEstado (transport_of pl now c) now rncEmisor eNcf rncComprador codigoSeguridad)"

definition frontend_consultarRfce where
  "frontend_consultarRfce pl c now rncEmisor eNcf codigoSeguridad =
     forward (dgii_consultarRfce (transport_of pl now c) now rncEmisor eNcf codigoSeguridad)"

definition frontend_validarTimbreEcf where
  "frontend_validarTimbreEcf pl c now request = forward (dgii_consultarTimbre (transport_of pl now c) request)"

definition frontend_validarTimbreFc where
  "frontend_validarTimbreFc pl c now request = forward (dgii_consultarTimbreFc (transport_of pl now c) request)"

subsection \<open>Runs of a client\<close>

text \<open>The queries of the front-end client are those of the client of the same name, so one set of calls serves both.\<close>

datatype client_call =
    SendEcf string string
  | SendRfce string string
  | SendAprobacion string string
  | AnularRangos string
  | ConsultarResultado string
  | ConsultarEstado string string "string option" "string option"
  | ConsultarTrackIds string string
  | ConsultarRfce string string string
  | ValidarTimbreEcf TimbreEcfRequest
  | ValidarTimbreFc TimbreFcRequest
  | ConsultarDirectorio
  | ConsultarDirectorioPorRnc string
  | ConsultarEstatusServicios
  | ConsultarVentanasMantenimiento
  | VerificarEstadoAmbiente AmbienteEnum

fun run_call :: "('s, 'r) client_platform \<Rightarrow> EcfClient \<Rightarrow> int \<times> client_call \<Rightarrow> ('s, 'r) client_state \<Rightarrow> ('s, 'r) client_state" where
  "run_call pl c (now, SendEcf x f) st = snd (live_sendEcf pl c now x f st)"
| "run_call pl c (now, SendRfce x f) st = snd (live_sendRfce pl c now x f st)"
| "run_call pl c (now, SendAprobacion x f) st = snd (live_sendAprobacionComercial pl c now x f st)"
| "run_call pl c (now, AnularRangos x) st = snd (live_anularRangos pl c now x st)"
| "run_call pl c (now, ConsultarResultado t) st = snd (live_consultarResultado pl c now t st)"
| "run_call pl c (now, ConsultarEstado r e b k) st = snd (live_consultarEstado pl c now r e b k st)"
| "run_call pl c (now, ConsultarTrackIds r e) st = snd (live_consultarTrackIds pl c now r e st)"
| "run_call pl c (now, ConsultarRfce r e k) st = snd (live_consultarRfce pl c now r e k st)"
| "run_call pl c (now, ValidarTimbreEcf q) st = snd (live_validarTimbreEcf pl c now q st)"
| "run_call pl c (now, ValidarTimbreFc q) st = snd (live_validarTimbreFc pl c now q st)"
| "run_call pl c (now, ConsultarDirectorio) st = snd (live_consultarDirectorio pl c now st)"
| "run_call pl c (now, ConsultarDirectorioPorRnc r) st = snd (live_consultarDirectorioPorRnc pl c now r st)"
| "run_call pl c (now, ConsultarEstatusServicios) st = snd (live_consultarEstatusServicios pl c now st)"
| "run_call pl c (now, ConsultarVentanasMantenimiento) st = snd (live_consultarVentanasMantenimiento pl c now st)"
| "run_call pl c (now, VerificarEstadoAmbiente a) st = snd (live_verificarEstadoAmbiente pl c now a st)"

definition run_calls :: "('s, 'r) client_platform \<Rightarrow> EcfClient \<Rightarrow> (int \<times> client_call) list \<Rightarrow> ('s, 'r) client_state \<Rightarrow> ('s, 'r) client_state" where
  "run_calls pl c calls st = fold (run_call pl c) calls st"

text \<open>What a request carries, and where it goes.\<close>

fun posted :: "dgii_request \<Rightarrow> string option" where
  "posted (PostPart url token x f) = Some x"
| "posted (PostText url token x) = Some x"
| "posted q = None"

fun address :: "dgii_request \<Rightarrow> string" where
  "address (PostPart url token x f) = url"
| "address (PostText url token x) = url"
| "address (GetAs url token) = url"
| "address (GetOpen url) = url"

subsection \<open>The requests of one operation\<close>

text \<open>The requests an operation adds, each of the kind \<open>P\<close>.\<close>

definition adds :: "(dgii_request \<Rightarrow> bool) \<Rightarrow> 'r transport_state \<Rightarrow> 'r transport_state \<Rightarrow> bool" where
  "adds P link link' \<longleftrightarrow> (\<exists>new. ts_requests link' = ts_requests link @ new \<and> list_all P new)"

lemma snd_answered: "snd (answered read x) = snd x"
  by (cases x; cases "fst x") (auto simp: answered_def)

lemma reactive_adds: "(\<And>t. P (fn t)) \<Longrightarrow> adds P link (snd (sendWithReactiveAuth env now fn link))"
proof -
  assume P: "\<And>t. P (fn t)"
  obtain r link' where s: "sendWithReactiveAuth env now fn link = (r, link')" by force
  from s have "\<exists>new. ts_requests link' = ts_requests link @ new \<and> list_all P new"
    by (cases rule: reactive_cases) (auto simp: P)
  then show ?thesis by (simp add: s adds_def)
qed

lemma open_adds: "P (GetOpen url) \<Longrightarrow> adds P link (snd (openGet env url link))"
  by (simp add: openGet_def http_def adds_def)

lemmas operation_defs =
  dgii_sendEcf_def dgii_sendRfce_def dgii_sendAprobacionComercial_def dgii_anularRangos_def dgii_consultarResultado_def
  dgii_consultarEstado_def dgii_consultarTrackIds_def dgii_consultarRfce_def dgii_consultarTimbre_def dgii_consultarTimbreFc_def
  dgii_consultarDirectorio_def dgii_consultarDirectorioPorRnc_def dgii_consultarEstatusServicios_def
  dgii_consultarVentanasMantenimiento_def dgii_verificarEstadoAmbiente_def

lemmas live_defs =
  live_sendEcf_def live_sendRfce_def live_sendAprobacionComercial_def live_anularRangos_def live_consultarResultado_def
  live_consultarEstado_def live_consultarTrackIds_def live_consultarRfce_def live_validarTimbreEcf_def live_validarTimbreFc_def
  live_consultarDirectorio_def live_consultarDirectorioPorRnc_def live_consultarEstatusServicios_def
  live_consultarVentanasMantenimiento_def live_verificarEstadoAmbiente_def

text \<open>A request for every kind of posted document and none for the rest.\<close>

named_theorems client_adds \<open>the requests of each operation\<close>

lemma post_adds [client_adds]:
  "adds (\<lambda>q. posted q = Some x) link (snd (dgii_sendEcf env now x f link))"
  "adds (\<lambda>q. posted q = Some x) link (snd (dgii_sendRfce env now x f link))"
  "adds (\<lambda>q. posted q = Some x) link (snd (dgii_sendAprobacionComercial env now x f link))"
  "adds (\<lambda>q. posted q = Some x) link (snd (dgii_anularRangos env now x link))"
  by (simp_all add: operation_defs snd_answered reactive_adds)

lemma get_adds [client_adds]:
  "adds (\<lambda>q. posted q = None) link (snd (dgii_consultarResultado env now t link))"
  "adds (\<lambda>q. posted q = None) link (snd (dgii_consultarEstado env now r e b k link))"
  "adds (\<lambda>q. posted q = None) link (snd (dgii_consultarTrackIds env now r e link))"
  "adds (\<lambda>q. posted q = None) link (snd (dgii_consultarRfce env now r e cod link))"
  "adds (\<lambda>q. posted q = None) link (snd (dgii_consultarTimbre env q1 link))"
  "adds (\<lambda>q. posted q = None) link (snd (dgii_consultarTimbreFc env q2 link))"
  "adds (\<lambda>q. posted q = None) link (snd (dgii_consultarDirectorio env link))"
  "adds (\<lambda>q. posted q = None) link (snd (dgii_consultarDirectorioPorRnc env r link))"
  "adds (\<lambda>q. posted q = None) link (snd (dgii_consultarEstatusServicios env link))"
  "adds (\<lambda>q. posted q = None) link (snd (dgii_consultarVentanasMantenimiento env link))"
  "adds (\<lambda>q. posted q = None) link (snd (dgii_verificarEstadoAmbiente env a link))"
  by (simp_all add: operation_defs snd_answered reactive_adds open_adds)

subsection \<open>Nothing is posted that fails its schema\<close>

text \<open>The cache is sound, and every document that was posted passes the validator that remembers nothing.\<close>

definition post_ok :: "('s, 'r) client_platform \<Rightarrow> string option \<Rightarrow> dgii_request \<Rightarrow> bool" where
  "post_ok pl dir q \<longleftrightarrow> (case posted q of None \<Rightarrow> True
     | Some x \<Rightarrow> sr_isValid (fst (validate_document (cp_schemas pl) dir x Map.empty)))"

definition posts_valid :: "('s, 'r) client_platform \<Rightarrow> string option \<Rightarrow> ('s, 'r) client_state \<Rightarrow> bool" where
  "posts_valid pl dir st \<longleftrightarrow> compiled (cp_schemas pl) (ks_schemas st) \<and> list_all (post_ok pl dir) (ts_requests (ks_link st))"

lemma forward_posts_valid:
  assumes "posts_valid pl dir st" "adds P (ks_link st) (snd (call (ks_link st)))" "\<And>q. P q \<Longrightarrow> post_ok pl dir q"
  shows "posts_valid pl dir (snd (forward call st))"
  using assms by (auto simp: posts_valid_def forward_def adds_def list_all_iff split: prod.splits)

lemma with_schema_posts_valid:
  assumes c: "kc_validator c = Some dir" "op_validateSchemasLocal (kc_options c)"
    and st: "posts_valid pl dir st" and P: "\<And>link. adds (\<lambda>q. posted q = Some x) link (snd (call link))"
  shows "posts_valid pl dir (snd (with_schema pl c x call st))"
proof -
  obtain result cache where v: "validate_document (cp_schemas pl) dir x (ks_schemas st) = (result, cache)" by force
  let ?st = "st \<lparr> ks_schemas := cache \<rparr>"
  have sound: "compiled (cp_schemas pl) (ks_schemas st)" using st by (simp add: posts_valid_def)
  have "compiled (cp_schemas pl) cache" using validate_document_compiled [OF sound, of dir x] by (simp add: v)
  then have st': "posts_valid pl dir ?st" using st by (simp add: posts_valid_def)
  show ?thesis
  proof (cases "sr_isValid result")
    case True
    have "sr_isValid (fst (validate_document (cp_schemas pl) dir x Map.empty))"
      using validate_document_fresh [OF sound, of dir x] True by (simp add: v)
    then have "posts_valid pl dir (snd (forward call ?st))"
      using st' P by (intro forward_posts_valid [where P = "\<lambda>q. posted q = Some x"]) (auto simp: post_ok_def)
    then show ?thesis using True c by (simp add: with_schema_def schema_check_def v)
  qed (use c st' in \<open>simp add: with_schema_def schema_check_def v\<close>)
qed

lemma run_call_posts_valid:
  assumes "kc_validator c = Some dir" "op_validateSchemasLocal (kc_options c)" "posts_valid pl dir st"
  shows "posts_valid pl dir (run_call pl c (now, call) st)"
  by (cases call; simp add: live_defs; (rule with_schema_posts_valid [OF assms] forward_posts_valid [OF assms(3)]; (rule client_adds)?; simp add: post_ok_def)?)

lemma run_calls_posts_valid:
  assumes "kc_validator c = Some dir" "op_validateSchemasLocal (kc_options c)"
  shows "posts_valid pl dir st \<Longrightarrow> posts_valid pl dir (run_calls pl c calls st)"
proof (induction calls arbitrary: st)
  case (Cons call calls)
  then show ?case
    using run_call_posts_valid [OF assms Cons.prems, of "fst call" "snd call"] by (simp add: run_calls_def)
qed (simp add: run_calls_def)

definition fresh_client :: "'r token_state \<Rightarrow> ('s, 'r) client_state" where
  "fresh_client tks = \<lparr> ks_schemas = Map.empty, ks_link = \<lparr> ts_token = tks, ts_requests = [] \<rparr> \<rparr>"


subsection \<open>Requests stay in their environment\<close>

definition in_environment :: "AmbienteEnum \<Rightarrow> dgii_request \<Rightarrow> bool" where
  "in_environment amb q \<longleftrightarrow> list_ex (\<lambda>site. starts_with site (address q))
     [''https://ecf.dgii.gov.do/'' @ env_path amb @ ''/'', ''https://fc.dgii.gov.do/'' @ env_path amb @ ''/'',
      ''https://statusecf.dgii.gov.do/'']"

named_theorems environment_adds \<open>the addresses of each operation\<close>

lemma token_adds_in_environment [environment_adds]:
  assumes "dt_config env = getConfig amb"
  shows "adds (in_environment amb) link (snd (dgii_sendEcf env now x f link))"
    "adds (in_environment amb) link (snd (dgii_sendRfce env now x f link))"
    "adds (in_environment amb) link (snd (dgii_sendAprobacionComercial env now x f link))"
    "adds (in_environment amb) link (snd (dgii_anularRangos env now x link))"
    "adds (in_environment amb) link (snd (dgii_consultarResultado env now t link))"
    "adds (in_environment amb) link (snd (dgii_consultarEstado env now r e b k link))"
    "adds (in_environment amb) link (snd (dgii_consultarTrackIds env now r e link))"
    "adds (in_environment amb) link (snd (dgii_consultarRfce env now r e cod link))"
  by (cases amb; simp add: operation_defs snd_answered reactive_adds in_environment_def assms getConfig_def Let_def estado_url_def)+

lemma open_adds_in_environment [environment_adds]:
  assumes "dt_config env = getConfig amb"
  shows "adds (in_environment amb) link (snd (dgii_consultarTimbre env q1 link))"
    "adds (in_environment amb) link (snd (dgii_consultarTimbreFc env q2 link))"
    "adds (in_environment amb) link (snd (dgii_consultarDirectorio env link))"
    "adds (in_environment amb) link (snd (dgii_consultarDirectorioPorRnc env r link))"
    "adds (in_environment amb) link (snd (dgii_consultarEstatusServicios env link))"
    "adds (in_environment amb) link (snd (dgii_consultarVentanasMantenimiento env link))"
    "adds (in_environment amb) link (snd (dgii_verificarEstadoAmbiente env a link))"
  by (cases amb; simp add: operation_defs snd_answered open_adds in_environment_def assms getConfig_def Let_def buildTimbreUrl_def
      buildTimbreFcUrl_def)+

lemma forward_adds: "adds P (ks_link st) (snd (call (ks_link st))) \<Longrightarrow> adds P (ks_link st) (ks_link (snd (forward call st)))"
  by (cases "call (ks_link st)") (simp add: forward_def)

lemma with_schema_adds:
  assumes "\<And>link. adds P link (snd (call link))"
  shows "adds P (ks_link st) (ks_link (snd (with_schema pl c x call st)))"
proof -
  obtain e st1 where s: "schema_check pl c x st = (e, st1)" by force
  then have "ks_link st1 = ks_link st" by (auto simp: schema_check_def split: option.splits if_splits prod.splits)
  then show ?thesis
    using s forward_adds [of P st1 call] assms by (cases e) (simp_all add: with_schema_def adds_def)
qed

lemma run_call_in_environment:
  assumes "kc_config c = getConfig amb"
  shows "adds (in_environment amb) (ks_link st) (ks_link (run_call pl c (now, call) st))"
proof -
  have env: "dt_config (transport_of pl now c) = getConfig amb" by (simp add: transport_of_def assms)
  show ?thesis
    by (cases call; simp add: live_defs; (rule with_schema_adds forward_adds; rule environment_adds [OF env])?)
qed


subsection \<open>AppServices.cpp\<close>

text \<open>The client is made on its first use, and what comes of that is kept, an exception too.\<close>

record app_services =
  sv_config :: AppConfig
  sv_signer :: EcfXmlSigner
  sv_certKey :: string
  sv_ecfClient :: "(exn + EcfClient) option"

definition configure_services :: "('s, 'r) client_platform \<Rightarrow> AppConfig \<Rightarrow> exn + app_services" where
  "configure_services pl cfg = (case options_signer (cp_signer pl) (ac_ecfOptions cfg) of
       Inl e \<Rightarrow> Inl e
     | Inr s \<Rightarrow> Inr \<lparr> sv_config = cfg, sv_signer = s,
         sv_certKey = (if ac_certEncryptionKey cfg \<noteq> [] then ac_certEncryptionKey cfg else jw_secret (ac_jwt cfg)),
         sv_ecfClient = None \<rparr>)"

definition services_client :: "('s, 'r) client_platform \<Rightarrow> app_services \<Rightarrow> (exn + EcfClient) \<times> app_services" where
  "services_client pl sv = (case sv_ecfClient sv of
       Some r \<Rightarrow> (r, sv)
     | None \<Rightarrow> let r = make_client pl (ac_ecfOptions (sv_config sv)) (Some (op_xsdDirectoryPath (ac_ecfOptions (sv_config sv)))) None
         in (r, sv \<lparr> sv_ecfClient := Some r \<rparr>))"

text \<open>A client that could not be made is not tried again, whatever has become of the certificate.\<close>

lemma failed_client_stays_failed:
  assumes "services_client pl sv = (Inl e, sv')" shows "services_client pl' sv' = (Inl e, sv')"
  using assms by (auto simp: services_client_def Let_def split: option.splits)

text \<open>The services of any configuration that loads validate against a directory and seal certificates with a key of
  32 characters or with the key the operator gave.\<close>

lemma configured_services_fail_closed:
  assumes "load_config getenv file = Some cfg" "configure_services pl cfg = Inr sv" "services_client pl sv = (Inr c, sv')"
  shows "(\<exists>d. kc_validator c = Some (Some d) \<and> d \<noteq> []) \<and> (sv_certKey sv = ac_certEncryptionKey cfg \<or> 32 \<le> length (sv_certKey sv))"
proof -
  obtain j where f: "file = Some j" using assms(1) by (auto simp: load_config_def bind_Some)
  note cfg = load_config_stages [OF assms(1)]
  obtain c2 c3 c6 where s: "load_jwt getenv j c2 = Some c3" "jw_secret (ac_jwt c2) = []"
    "load_worker getenv j (override_emisor getenv c6) = Some cfg" "ac_jwt c6 = ac_jwt c3"
    by (rule cfg) (use f in auto)
  have secret: "32 \<le> length (jw_secret (ac_jwt cfg))"
    by (simp only: load_worker_keeps(1) [OF s(3)] override_emisor_jwt s(4) load_jwt_secret(1) [OF s(1,2)])
  have xsd: "has_text (op_xsdDirectoryPath (ac_ecfOptions cfg))"
    by (simp only: load_worker_keeps(2) [OF s(3)] override_emisor_xsd)
  have "sv_config sv = cfg" "sv_ecfClient sv = None" "sv_certKey sv = ac_certEncryptionKey cfg \<or> sv_certKey sv = jw_secret (ac_jwt cfg)"
    using assms(2) by (auto simp: configure_services_def split: sum.splits)
  moreover from this assms(3) have "kc_validator c = Some (op_xsdDirectoryPath (ac_ecfOptions cfg))"
    by (auto simp: services_client_def make_client_def Let_def split: if_splits sum.splits)
  ultimately show ?thesis using secret xsd by (cases "op_xsdDirectoryPath (ac_ecfOptions cfg)") (auto simp: has_text_def)
qed

subsection \<open>Witnesses\<close>

definition demo_live :: "(string, unit) client_platform" where
  "demo_live = \<lparr> cp_signer = demo_platform, cp_schemas = demo_schemas, cp_net = demo_transport, cp_auth = demo_auth \<rparr>"

definition demo_options :: EcfClientOptions where
  "demo_options = (ac_ecfOptions default_config) \<lparr> op_rncEmisor := Some ''101889063'', op_xsdDirectoryPath := Some ''xsd'' \<rparr>"

definition demo_live_client :: EcfClient where
  "demo_live_client = (case make_client demo_live demo_options None None of Inr c \<Rightarrow> c | Inl e \<Rightarrow>
     \<lparr> kc_options = demo_options, kc_validator = None, kc_cert = None, kc_config = getConfig Produccion \<rparr>)"

definition demo_calls :: "(int \<times> client_call) list" where
  "demo_calls = [(1000, AnularRangos []), (1000, SendEcf ''<ECF/>'' ''f.xml''), (1000, ConsultarDirectorio)]"

definition demo_posts :: "dgii_request list" where
  "demo_posts = ts_requests (ks_link (run_calls demo_live demo_live_client demo_calls (fresh_client (demo_manager demo_cache))))"

lemma demo_posts_eval: "map posted demo_posts = [Some ''<ECF/>'', Some ''<ECF/>'', None]"
  by code_simp

lemma demo_client_made: "make_client demo_live demo_options None None = Inr demo_live_client"
proof -
  have "\<not> isl (make_client demo_live demo_options None None)" by code_simp
  then show ?thesis by (cases "make_client demo_live demo_options None None") (auto simp: demo_live_client_def)
qed



end
