(* ===== verification/Row_Mappers.thy ===== *)
theory Row_Mappers
  imports Document_Store "HOL-Library.Monad_Syntax"
begin

text \<open>
  RowMappers.h and the statements of EcfDocumentRepository.cpp over columns: the table \<open>Document_Store\<close> keeps as
  entities, as the rows that the SQL writes and the mappers read.  A timestamp stands for the text it was
  written as; \<open>None\<close> of a mapper is an exception (a column that is not selected, a null read as text).
\<close>

subsection \<open>Rows\<close>

datatype sql = SqlNull | SqlText string | SqlNum dbl | SqlInt int | SqlBool bool

type_synonym sql_row = "string \<Rightarrow> sql option"

definition as_text :: "sql_row \<Rightarrow> string \<Rightarrow> string option" where
  "as_text r col = (case r col of Some (SqlText s) \<Rightarrow> Some s | _ \<Rightarrow> None)"

definition as_double :: "sql_row \<Rightarrow> string \<Rightarrow> dbl option" where
  "as_double r col = (case r col of Some (SqlNum x) \<Rightarrow> Some x | _ \<Rightarrow> None)"

definition as_int :: "sql_row \<Rightarrow> string \<Rightarrow> int option" where
  "as_int r col = (case r col of Some (SqlInt n) \<Rightarrow> Some n | _ \<Rightarrow> None)"

definition as_bool :: "sql_row \<Rightarrow> string \<Rightarrow> bool option" where
  "as_bool r col = (case r col of Some (SqlBool b) \<Rightarrow> Some b | _ \<Rightarrow> None)"

definition field_optStr :: "sql_row \<Rightarrow> string \<Rightarrow> string option option" where
  "field_optStr r col = (case r col of Some SqlNull \<Rightarrow> Some None | Some (SqlText s) \<Rightarrow> Some (Some s) | _ \<Rightarrow> None)"

definition text_or_null :: "string option \<Rightarrow> sql" where
  "text_or_null v = (case v of None \<Rightarrow> SqlNull | Some s \<Rightarrow> SqlText s)"

subsection \<open>Mappers\<close>

definition mapAuditable :: "sql_row \<Rightarrow> AuditableEntity option" where
  "mapAuditable r = do {
     i \<leftarrow> as_text r ''id'';
     createdAt \<leftarrow> field_optStr r ''created_at'';
     createdBy \<leftarrow> field_optStr r ''created_by'';
     updatedAt \<leftarrow> field_optStr r ''updated_at'';
     updatedBy \<leftarrow> field_optStr r ''updated_by'';
     deletedAt \<leftarrow> field_optStr r ''deleted_at'';
     deletedBy \<leftarrow> field_optStr r ''deleted_by'';
     isDeleted \<leftarrow> as_bool r ''is_deleted'';
     Some \<lparr> ae_id = i, ae_createdAt = value_or createdAt [], ae_createdBy = createdBy, ae_updatedAt = updatedAt,
       ae_updatedBy = updatedBy, ae_deletedAt = deletedAt, ae_deletedBy = deletedBy, ae_isDeleted = isDeleted \<rparr> }"

definition mapEcfDocument :: "sql_row \<Rightarrow> EcfDocument option" where
  "mapEcfDocument r = do {
     a \<leftarrow> mapAuditable r;
     eNcf \<leftarrow> as_text r ''e_ncf'';
     rncEmisor \<leftarrow> as_text r ''rnc_emisor'';
     rncComprador \<leftarrow> field_optStr r ''rnc_comprador'';
     tenantId \<leftarrow> as_text r ''tenant_id'';
     sourceTxnId \<leftarrow> as_text r ''source_txn_id'';
     editSequence \<leftarrow> as_text r ''edit_sequence'';
     documentKind \<leftarrow> as_text r ''document_kind'';
     ncf \<leftarrow> field_optStr r ''ncf'';
     trackId \<leftarrow> field_optStr r ''track_id'';
     state \<leftarrow> as_text r ''state'';
     totalAmount \<leftarrow> as_double r ''total_amount'';
     itbisAmount \<leftarrow> as_double r ''itbis_amount'';
     securityCode \<leftarrow> field_optStr r ''security_code'';
     xmlContent \<leftarrow> as_text r ''xml_content'';
     signedXmlContent \<leftarrow> field_optStr r ''signed_xml_content'';
     dgiiResponseXml \<leftarrow> field_optStr r ''dgii_response_xml'';
     receiptDate \<leftarrow> field_optStr r ''receipt_date'';
     sentToDgiiAt \<leftarrow> field_optStr r ''sent_to_dgii_at'';
     lastStatusCheckAt \<leftarrow> field_optStr r ''last_status_check_at'';
     statusCheckAttempts \<leftarrow> as_int r ''status_check_attempts'';
     ambiente \<leftarrow> field_optStr r ''ambiente'';
     Some \<lparr> ae_id = ae_id a, ae_createdAt = ae_createdAt a, ae_createdBy = ae_createdBy a, ae_updatedAt = ae_updatedAt a,
       ae_updatedBy = ae_updatedBy a, ae_deletedAt = ae_deletedAt a, ae_deletedBy = ae_deletedBy a, ae_isDeleted = ae_isDeleted a,
       d_eNcf = eNcf, d_rncEmisor = rncEmisor, d_rncComprador = rncComprador, d_tenantId = tenantId, d_sourceTxnId = sourceTxnId,
       d_editSequence = editSequence, d_documentKind = documentKind, d_ncf = ncf, d_trackId = trackId, d_state = state,
       d_totalAmount = totalAmount, d_itbisAmount = itbisAmount, d_securityCode = securityCode, d_xmlContent = xmlContent,
       d_signedXmlContent = signedXmlContent, d_dgiiResponseXml = dgiiResponseXml, d_receiptDate = receiptDate,
       d_sentToDgiiAt = sentToDgiiAt, d_lastStatusCheckAt = lastStatusCheckAt, d_statusCheckAttempts = statusCheckAttempts,
       d_ambiente = ambiente \<rparr> }"

subsection \<open>Statements\<close>

definition ecfDocumentColumns :: "string list" where
  "ecfDocumentColumns = [''id'', ''e_ncf'', ''rnc_emisor'', ''rnc_comprador'', ''tenant_id'', ''source_txn_id'', ''edit_sequence'',
     ''document_kind'', ''ncf'', ''track_id'', ''state'', ''total_amount'', ''itbis_amount'', ''security_code'', ''xml_content'',
     ''signed_xml_content'', ''dgii_response_xml'', ''receipt_date'', ''sent_to_dgii_at'', ''last_status_check_at'',
     ''status_check_attempts'', ''ambiente'', ''created_at'', ''created_by'', ''updated_at'', ''updated_by'', ''deleted_at'',
     ''deleted_by'', ''is_deleted'']"

definition select_columns :: "string list \<Rightarrow> sql_row \<Rightarrow> sql_row" where
  "select_columns cols r = (\<lambda>col. if col \<in> set cols then r col else None)"

text \<open>The values both statements write, in the order of their parameters.\<close>

definition content_values :: "EcfDocument \<Rightarrow> sql list" where
  "content_values e = [SqlText (d_eNcf e), SqlText (d_rncEmisor e), text_or_null (d_rncComprador e), SqlText (d_tenantId e),
     SqlText (d_sourceTxnId e), SqlText (d_editSequence e), SqlText (d_documentKind e), text_or_null (d_ncf e),
     text_or_null (d_trackId e), SqlText (d_state e), SqlNum (d_totalAmount e), SqlNum (d_itbisAmount e),
     text_or_null (d_securityCode e), SqlText (d_xmlContent e), text_or_null (d_signedXmlContent e),
     text_or_null (d_dgiiResponseXml e), text_or_null (d_receiptDate e), text_or_null (d_sentToDgiiAt e),
     text_or_null (d_lastStatusCheckAt e), SqlInt (d_statusCheckAttempts e), text_or_null (d_ambiente e)]"

definition insert_columns :: "string list" where
  "insert_columns = [''id'', ''e_ncf'', ''rnc_emisor'', ''rnc_comprador'', ''tenant_id'', ''source_txn_id'', ''edit_sequence'',
     ''document_kind'', ''ncf'', ''track_id'', ''state'', ''total_amount'', ''itbis_amount'', ''security_code'', ''xml_content'',
     ''signed_xml_content'', ''dgii_response_xml'', ''receipt_date'', ''sent_to_dgii_at'', ''last_status_check_at'',
     ''status_check_attempts'', ''ambiente'', ''created_at'', ''created_by'', ''is_deleted'']"

definition insert_values :: "EcfDocument \<Rightarrow> sql list" where
  "insert_values e = SqlText (ae_id e) # content_values e
     @ [SqlText (ae_createdAt e), text_or_null (ae_createdBy e), SqlBool (ae_isDeleted e)]"

definition update_columns :: "string list" where
  "update_columns = [''e_ncf'', ''rnc_emisor'', ''rnc_comprador'', ''tenant_id'', ''source_txn_id'', ''edit_sequence'',
     ''document_kind'', ''ncf'', ''track_id'', ''state'', ''total_amount'', ''itbis_amount'', ''security_code'', ''xml_content'',
     ''signed_xml_content'', ''dgii_response_xml'', ''receipt_date'', ''sent_to_dgii_at'', ''last_status_check_at'',
     ''status_check_attempts'', ''ambiente'', ''updated_at'', ''updated_by'']"

definition update_values :: "EcfDocument \<Rightarrow> sql list" where
  "update_values e = content_values e @ [text_or_null (ae_updatedAt e), text_or_null (ae_updatedBy e)]"

text \<open>A new row has null in the columns its INSERT does not name; an UPDATE keeps what it does not name.\<close>

definition null_row :: sql_row where
  "null_row = (\<lambda>col. if col \<in> set ecfDocumentColumns then Some SqlNull else None)"

fun exec_statement :: "db_op \<Rightarrow> sql_row list \<Rightarrow> sql_row list" where
  "exec_statement (InsertOp e) rows = rows @ [null_row ++ map_of (zip insert_columns (insert_values e))]"
| "exec_statement (UpdateOp e) rows =
     map (\<lambda>r. if r ''id'' = Some (SqlText (ae_id e)) then r ++ map_of (zip update_columns (update_values e)) else r) rows"

text \<open>What a SELECT of one row gives the service.\<close>

definition read_row :: "sql_row \<Rightarrow> EcfDocument option" where
  "read_row r = mapEcfDocument (select_columns ecfDocumentColumns r)"

subsection \<open>The table of entities is the table of rows\<close>

lemma text_or_null_read [simp]:
  "(case text_or_null v of SqlNull \<Rightarrow> Some None | SqlText s \<Rightarrow> Some (Some s) | _ \<Rightarrow> None) = Some v"
  by (cases v) (simp_all add: text_or_null_def)

lemmas reader_defs = as_text_def as_double_def as_int_def as_bool_def field_optStr_def

lemma inserted_row_reads:
  assumes "ae_updatedAt e = None" "ae_updatedBy e = None" "ae_deletedAt e = None" "ae_deletedBy e = None"
  shows "read_row (null_row ++ map_of (zip insert_columns (insert_values e))) = Some e"
proof -
  let ?r = "select_columns ecfDocumentColumns (null_row ++ map_of (zip insert_columns (insert_values e)))"
  have "mapAuditable ?r = Some (AuditableEntity.truncate e)"
    by (simp add: mapAuditable_def reader_defs select_columns_def ecfDocumentColumns_def null_row_def insert_columns_def
        insert_values_def content_values_def assms AuditableEntity.defs)
  then show ?thesis
    by (simp add: read_row_def mapEcfDocument_def reader_defs select_columns_def ecfDocumentColumns_def null_row_def insert_columns_def
        insert_values_def content_values_def AuditableEntity.defs assms)
qed

lemma bindE:
  assumes "Option.bind m f = Some y" obtains x where "m = Some x" "f x = Some y"
  using assms by (cases m) auto

lemma mapped_auditable:
  assumes "mapAuditable r = Some a"
  obtains c where "as_text r ''id'' = Some (ae_id a)" "field_optStr r ''created_at'' = Some c" "ae_createdAt a = value_or c []"
    "field_optStr r ''created_by'' = Some (ae_createdBy a)" "field_optStr r ''deleted_at'' = Some (ae_deletedAt a)"
    "field_optStr r ''deleted_by'' = Some (ae_deletedBy a)" "as_bool r ''is_deleted'' = Some (ae_isDeleted a)"
  using assms unfolding mapAuditable_def by (elim bindE) (rule that, auto)

lemma mapped_document:
  assumes "mapEcfDocument r = Some d" shows "mapAuditable r = Some (AuditableEntity.truncate d)"
  using assms unfolding mapEcfDocument_def
  apply -
  apply (erule bindE)+
  apply (drule option.inject [THEN iffD1])
  apply hypsubst
  apply (simp add: AuditableEntity.defs)
  done

lemma read_row_id: "read_row r = Some d \<Longrightarrow> r ''id'' = Some (SqlText (ae_id d))"
  unfolding read_row_def
  by (drule mapped_document, erule mapped_auditable)
    (auto simp: AuditableEntity.defs as_text_def select_columns_def ecfDocumentColumns_def split: option.splits sql.splits if_splits)

lemma updated_row_reads:
  assumes "read_row r = Some d" "ae_id e = ae_id d"
  shows "read_row (r ++ map_of (zip update_columns (update_values e))) = Some (updated_row e d)"
proof -
  let ?s = "select_columns ecfDocumentColumns r" and ?t = "select_columns ecfDocumentColumns (r ++ map_of (zip update_columns (update_values e)))"
  note a = mapped_document [OF assms(1) [unfolded read_row_def]]
  have keep: "?t col = ?s col" if "col \<in> {''id'', ''created_at'', ''created_by'', ''deleted_at'', ''deleted_by'', ''is_deleted''}" for col
    using that by (elim insertE emptyE; simp add: select_columns_def update_columns_def update_values_def content_values_def)
  obtain c where c: "as_text ?t ''id'' = Some (ae_id d)" "field_optStr ?t ''created_at'' = Some c" "ae_createdAt d = value_or c []"
    "field_optStr ?t ''created_by'' = Some (ae_createdBy d)" "field_optStr ?t ''deleted_at'' = Some (ae_deletedAt d)"
    "field_optStr ?t ''deleted_by'' = Some (ae_deletedBy d)" "as_bool ?t ''is_deleted'' = Some (ae_isDeleted d)"
    using a by (rule mapped_auditable) (simp add: AuditableEntity.defs as_text_def field_optStr_def as_bool_def keep)
  have "field_optStr ?t ''updated_at'' = Some (ae_updatedAt e)" "field_optStr ?t ''updated_by'' = Some (ae_updatedBy e)"
    by (simp_all add: field_optStr_def select_columns_def ecfDocumentColumns_def update_columns_def update_values_def content_values_def)
  then have "mapAuditable ?t = Some \<lparr> ae_id = ae_id d, ae_createdAt = ae_createdAt d, ae_createdBy = ae_createdBy d,
      ae_updatedAt = ae_updatedAt e, ae_updatedBy = ae_updatedBy e, ae_deletedAt = ae_deletedAt d, ae_deletedBy = ae_deletedBy d,
      ae_isDeleted = ae_isDeleted d \<rparr>"
    by (simp add: mapAuditable_def c)
  then show ?thesis
    by (simp add: read_row_def mapEcfDocument_def reader_defs select_columns_def ecfDocumentColumns_def update_columns_def
        update_values_def content_values_def updated_row_def assms(2))
qed

text \<open>The rows that hold a table of documents.\<close>

definition holds :: "sql_row list \<Rightarrow> doc_table \<Rightarrow> bool" where
  "holds rows docs \<longleftrightarrow> map read_row rows = map Some docs"

lemma holds_update:
  "holds rows docs \<Longrightarrow> holds (exec_statement (UpdateOp e) rows) (map (\<lambda>r. if ae_id r = ae_id e then updated_row e r else r) docs)"
proof (induction docs arbitrary: rows)
  case (Cons d docs)
  then obtain r rs where "rows = r # rs" "read_row r = Some d" "holds rs docs" by (auto simp: holds_def)
  then show ?case
    using Cons.IH [of rs] updated_row_reads [of r d e] read_row_id [of r d] by (auto simp: holds_def)
qed (simp add: holds_def)



end
