(* ===== verification/Issuing_Services.thy ===== *)
theory Issuing_Services
  imports Schema_Validator
begin

text \<open>
  EcfSecurityUtils.cpp, what is read from a signed document, and the issuing path of \<open>Documents_Transmit\<close> over
  the modelled certificate and the modelled validator: what every document that leaves the service has
  passed.  libxml2 is the argument \<open>xpath\<close>.
\<close>

subsection \<open>What is read from a signed document\<close>

text \<open>\<open>xpath x\<close> are the contents of the nodes selected in \<open>x\<close>, \<open>None\<close> when \<open>x\<close> is no XML.\<close>

definition first_node_text :: "string list \<Rightarrow> string" where
  "first_node_text nodes = (case nodes of [] \<Rightarrow> [] | v # vs \<Rightarrow> xml_trim v)"

definition utils_extractSignatureValue :: "(string \<Rightarrow> string list option) \<Rightarrow> string \<Rightarrow> exn + string" where
  "utils_extractSignatureValue xpath signedXml =
     (if CHR ''<'' \<notin> set signedXml then
        (if xml_trim signedXml \<noteq> [] then Inr (xml_trim signedXml)
         else Inl (OtherExn (''El SignatureValue est'' @ u_a @ '' vac'' @ [CHR 0xC3, CHR 0xAD] @ ''o.'')))
      else case xpath signedXml of
          None \<Rightarrow> Inl (OtherExn (''El XML firmado es inv'' @ u_a @ ''lido.''))
        | Some nodes \<Rightarrow>
            if first_node_text nodes = []
            then Inl (OtherExn (''El XML no contiene un nodo SignatureValue. '' @ [CHR 0xC2, CHR 0xBF] @ ''Fue firmado correctamente?''))
            else Inr (first_node_text nodes))"

definition extractFechaHoraFirma :: "(string \<Rightarrow> string list option) \<Rightarrow> string \<Rightarrow> string option" where
  "extractFechaHoraFirma xpath signedXml =
     (if CHR ''<'' \<notin> set signedXml then None
      else case xpath signedXml of
          None \<Rightarrow> None
        | Some nodes \<Rightarrow> if first_node_text nodes = [] then None else Some (first_node_text nodes))"

subsection \<open>The services over the modelled validator\<close>

definition issuing_services ::
    "services \<Rightarrow> 's schema_platform \<Rightarrow> string option \<Rightarrow> 's schema_cache \<Rightarrow> (string \<Rightarrow> string list option) \<Rightarrow> services" where
  "issuing_services sv spl dir cache xpath = sv \<lparr> sv_extractSignatureValue := utils_extractSignatureValue xpath,
     sv_schemaErrors := document_schema_errors spl dir cache, sv_validateSchemasLocal := True \<rparr>"

lemma sent_was_signed:
  assumes "signAndSend sv now usr sg cl dto fb rs doc w = (r, w')" "0 < transmissions (new_events w w')"
  obtains sx d0 where "sign_document sv sg doc = Inr (sx, d0)" "\<not> sg_usesFallbackCertificate sg"
    "\<not> sv_validateSchemasLocal sv \<or> sv_schemaErrors sv sx = None"
proof -
  have quiet: "transmissions (new_events w w') = 0" if "save_and_reply now usr d rep w = (r, w')" for d rep
    using save_and_reply_trace(1) [OF that] by (auto split: sum.splits)
  obtain sx d0 where p: "sign_document sv sg doc = Inr (sx, d0)"
    using assms quiet by (cases "sign_document sv sg doc") (auto simp: signAndSend_def)
  moreover have "(if sv_validateSchemasLocal sv then sv_schemaErrors sv sx else None) = None"
    using assms p quiet by (cases "if sv_validateSchemasLocal sv then sv_schemaErrors sv sx else None") (auto simp: signAndSend_def)
  moreover from this have "\<not> sg_usesFallbackCertificate sg"
    using assms p quiet by (auto simp: signAndSend_def Let_def)
  ultimately show ?thesis using that by (auto split: if_splits)
qed


subsection \<open>Witness\<close>

definition demo_issuing :: "(exn + reply) \<times> world" where
  "demo_issuing = signAndSend (issuing_services (demo_services False ''Aceptado'') demo_schemas (Some ''xsd'')
       (cache_after demo_schemas (Some ''xsd'') [''<ECF/>'']) (\<lambda>x. Some [''  qWeRtY12 ''])) 1709210096 ''System''
     (as_signer demo_platform 500 0 (demo_loaded ''/O=ACME/serialNumber=VATDO-131234567'')) (demo_client ''Aceptado'') None True []
     demo_document demo_world"


end
