(* ===== verification/Service_Main.thy ===== *)
theory Service_Main
  imports Documents_Lifecycle App_Config
begin

text \<open>
  What main.cpp does itself: whether the poller of pending documents runs and how often, its passes over the
  store, the health report and the size of the server.  The clock of the timer is a list of times; one pass is
  \<open>reconcile\<close> of \<open>Status_Reconciler\<close>.  The exception handler is in \<open>Ecf_Endpoints\<close>, the start-up
  configuration in \<open>App_Config\<close>.
\<close>

subsection \<open>The background poller\<close>

definition poller_enabled :: "environ \<Rightarrow> bool" where
  "poller_enabled getenv = (case getenv ''ENABLE_BACKGROUND_POLLER'' of None \<Rightarrow> False | Some v \<Rightarrow> v = ''true'' \<or> v = ''1'')"

definition poll_interval :: "EcfStatusPollingOptions \<Rightarrow> int" where
  "poll_interval opts = (let seconds = po_pollingIntervalMinutes opts * 60 in if seconds \<le> 0 then 900 else seconds)"

text \<open>One pass, in which every exception is only logged: \<open>made\<close> is the reconciler over the client of the services,
  which cannot be had when the certificate is missing.\<close>

definition poller_pass :: "exn + reconciler \<Rightarrow> int \<Rightarrow> world \<Rightarrow> nat \<times> world" where
  "poller_pass made now w = (case makeScope w of
       (Inl e, w1) \<Rightarrow> (0, w1)
     | (Inr _, w1) \<Rightarrow> (case made of
           Inl e \<Rightarrow> (0, w1)
         | Inr rc \<Rightarrow> reconcile rc now ''System'' w1))"

text \<open>A pass at start-up and one after each sleep; \<open>durations\<close> are the times the passes take.\<close>

fun poller_passes :: "exn + reconciler \<Rightarrow> int \<Rightarrow> int \<Rightarrow> int list \<Rightarrow> world \<Rightarrow> world" where
  "poller_passes made interval now [] w = w"
| "poller_passes made interval now (d # durations) w =
     poller_passes made interval (now + d + interval) durations (snd (poller_pass made now w))"

definition background_poller :: "environ \<Rightarrow> EcfStatusPollingOptions \<Rightarrow> exn + reconciler \<Rightarrow> int \<Rightarrow> int list \<Rightarrow> world \<Rightarrow> world" where
  "background_poller getenv opts made start durations w =
     (if poller_enabled getenv then poller_passes made (poll_interval opts) start durations w else w)"

subsection \<open>Health and size of the server\<close>

text \<open>The report needs a connection and a query of its own; the cache is not asked.\<close>

definition database_ok :: "world \<Rightarrow> bool \<times> world" where
  "database_ok w = (case makeScope w of
       (Inl e, w1) \<Rightarrow> (False, w1)
     | (Inr _, w1) \<Rightarrow> (case db_read (\<lambda>docs. ()) w1 of (r, w2) \<Rightarrow> (\<not> isl r, w2)))"

definition health_reply :: "bool \<Rightarrow> int \<times> (string \<times> string) list" where
  "health_reply dbOk = (if dbOk then 200 else 503,
     [(''status'', if dbOk then ''Healthy'' else ''Degraded''),
      (''database'', if dbOk then ''Healthy'' else ''Unhealthy''),
      (''redis'', ''Healthy'')])"

definition health :: "world \<Rightarrow> (int \<times> (string \<times> string) list) \<times> world" where
  "health w = (case database_ok w of (dbOk, w1) \<Rightarrow> (health_reply dbOk, w1))"

definition server_threads :: "AppConfig \<Rightarrow> int \<Rightarrow> int" where
  "server_threads cfg hardware = (let threads = (if 0 < ac_threads cfg then ac_threads cfg else hardware)
     in if 0 < threads then threads else 1)"

lemma server_threads_positive: "0 < server_threads cfg hardware"
  by (simp add: server_threads_def Let_def)

lemma poll_interval_positive: "0 < poll_interval opts"
  by (simp add: poll_interval_def Let_def)

lemma read_outcome:
  assumes "db_read q w = (a, w1)" shows "w1 = snd (next_fault w)" "isl a = fst (next_fault w)"
  using assms by (cases "next_fault w"; cases "fst (next_fault w)"; auto simp: db_read_def)+

text \<open>The report is healthy exactly when neither access to the database fails, and leaves the data alone.\<close>

lemma health_same: "same_data w (snd (health w))"
  and health_ok: "fst (fst (health w)) = 200 \<longleftrightarrow> \<not> fst (next_fault w) \<and> \<not> fst (next_fault (snd (next_fault w)))"
proof -
  obtain a w1 where m: "makeScope w = (a, w1)" by force
  obtain b w2 where r: "db_read (\<lambda>docs. ()) w1 = (b, w2)" by force
  have w1: "w1 = snd (next_fault w)" "isl a = fst (next_fault w)"
    using read_outcome [OF m [unfolded makeScope_def]] by simp_all
  have b: "isl b = fst (next_fault w1)" by (rule read_outcome(2) [OF r])
  have h: "health w = (case a of Inl e \<Rightarrow> (health_reply False, w1) | Inr u \<Rightarrow> (health_reply (\<not> isl b), w2))"
    by (cases a) (simp_all add: health_def database_ok_def m r)
  show "fst (fst (health w)) = 200 \<longleftrightarrow> \<not> fst (next_fault w) \<and> \<not> fst (next_fault (snd (next_fault w)))"
    using w1(2) b by (cases a) (simp_all add: h health_reply_def w1(1))
  show "same_data w (snd (health w))"
    using makeScope_same [OF m] db_read_same [OF r] by (cases a) (simp_all add: h same_data_def)
qed

subsection \<open>What the poller may do\<close>

lemma pass_is_safe:
  assumes "proper (w_docs w)"
  shows "quiet w (snd (poller_pass made now w)) \<and> evolves w (snd (poller_pass made now w))"
proof -
  obtain a w1 where m: "makeScope w = (a, w1)" by force
  have q: "quiet w w1" by (rule quiet_same_data [OF makeScope_same [OF m]])
  have e: "evolves w w1" by (rule evolves_same_docs [OF assms makeScope_docs [OF m]])
  show ?thesis
  proof (cases "\<exists>u rc. a = Inr u \<and> made = Inr rc")
    case True
    then obtain u rc where am: "a = Inr u" "made = Inr rc" by blast
    obtain n w2 where r: "reconcile rc now ''System'' w1 = (n, w2)" by force
    have "snd (poller_pass made now w) = w2" by (simp add: poller_pass_def m am r)
    then show ?thesis
      using quiet_trans [OF q quiet_reconcile [OF r]] evolves_trans [OF e reconcile_evolves [OF r evolves_proper [OF e]]] by simp
  next
    case False
    then have "snd (poller_pass made now w) = w1" by (cases a; cases made) (simp_all add: poller_pass_def m)
    then show ?thesis using q e by simp
  qed
qed

lemma passes_are_safe:
  "proper (w_docs w) \<Longrightarrow>
   quiet w (poller_passes made interval now durations w) \<and> evolves w (poller_passes made interval now durations w)"
proof (induction durations arbitrary: now w)
  case Nil
  then show ?case by (simp add: quiet_same_data same_data_def evolves_refl)
next
  case (Cons d durations)
  note p = pass_is_safe [OF Cons.prems, of made now]
  note ps = Cons.IH [OF evolves_proper [OF conjunct2 [OF p]], of "now + d + interval"]
  show ?case
    using quiet_trans [OF conjunct1 [OF p] conjunct1 [OF ps]] evolves_trans [OF conjunct2 [OF p] conjunct2 [OF ps]] by simp
qed

subsection \<open>Properties\<close>

text \<open>C31. However long the background poller runs, whatever the DGII answers and whichever accesses to the database
  fail, it transmits nothing, loses no document, and leaves every accepted document with its content.\<close>

theorem background_poller_is_safe:
  assumes "service_step\<^sup>*\<^sup>* w0 w" "w_docs w0 = []" "background_poller getenv opts made start durations w = w'"
  shows "transmissions (new_events w w') = 0 \<and> ae_id ` set (w_docs w) \<subseteq> ae_id ` set (w_docs w')
    \<and> (\<forall>d \<in> set (w_docs w). d_state d = ''AcceptedByDgii'' \<longrightarrow> (\<exists>d' \<in> set (w_docs w'). content d' = content d))"
proof (cases "poller_enabled getenv")
  case True
  then have "quiet w w' \<and> evolves w w'"
    using passes_are_safe [OF reachable_proper [OF assms(1,2)]] assms(3) by (auto simp: background_poller_def)
  then show ?thesis by (simp add: quiet_def evolves_def later_def)
next
  case False
  then have "quiet w w'" "w' = w" using assms(3) by (simp_all add: background_poller_def)
  then show ?thesis by (auto simp: quiet_def)
qed

definition demo_polling :: "world \<Rightarrow> world" where
  "demo_polling = background_poller [''ENABLE_BACKGROUND_POLLER'' \<mapsto> ''1'']
     \<lparr> po_pollingIntervalMinutes = 15, po_minDocumentAgeMinutes = 2, po_maxPollingWindowHours = 72 \<rparr>
     (Inr (demo_poller 72)) 1709300000 [3, 0]"

theorem background_poller_is_safe_witness:
  "\<exists>d \<in> set (w_docs (snd (demo_submit demo_stock))). d_state d = ''AcceptedByDgii'' \<and>
     (\<exists>d' \<in> set (w_docs (demo_polling (snd (demo_submit demo_stock)))). content d' = content d)"
proof -
  obtain d where d: "d \<in> set (w_docs (snd (demo_submit demo_stock)))" "d_state d = ''AcceptedByDgii''"
    by (rule demo_accepted)
  from background_poller_is_safe [OF demo_reachable demo_polling_def [THEN fun_cong, symmetric]] d show ?thesis by blast
qed

end
