(* ===== verification/Submit_Endpoint.thy ===== *)
theory Submit_Endpoint
  imports Documents_Lifecycle Json_Mapping Idempotency
begin

text \<open>
  POST /api/documents as HTTP sees it: \<open>submit\<close> of DocumentsController.cpp behind IdempotencyHandler.h, over
  the reading of the body (JsonMapping.cpp) and the issuing path.  Every request is at most one step of the
  service (\<open>Documents_Lifecycle\<close>), so what holds of its runs holds whatever requests arrive, under whatever
  idempotency keys.  The parser of the body, the printer of a response and SHA-256 are arguments.
\<close>

subsection \<open>Responses\<close>

fun currency_message :: "currency_error \<Rightarrow> string" where
  "currency_message NoCurrencyError = []"
| "currency_message (NotADgiiCurrency c) = ''Currency.Code '' @ apo @ c @ apo @ '' no es una moneda extranjera v'' @ u_a @ ''lida seg'' @ [CHR 0xC3, CHR 0xBA]
     @ ''n el esquema TipoMonedaType de la DGII.''"
| "currency_message ExchangeRateOutOfRange = ''Currency.ExchangeRate debe ser mayor a 0 y menor a 1000 para comprobantes en Otra Moneda.''"

fun refusal_message :: "submit_error \<Rightarrow> string" where
  "refusal_message InvalidJsonBody = ''Invalid JSON body.''"
| "refusal_message (JsonParsingError what) = ''JSON parsing error: '' @ what"
| "refusal_message TxnIdRequired = ''SourceReference.TxnId is required.''"
| "refusal_message (CurrencyError c) = currency_message c"
| "refusal_message NoLines = ''El documento debe contener al menos una l'' @ u_i @ ''nea de detalle.''"
| "refusal_message TooManyLines = ''El documento no puede contener m'' @ u_a @ ''s de 1,000 l'' @ u_i @ ''neas de detalle.''"
| "refusal_message DiscountBeforeItem = ''Una l'' @ u_i @ ''nea de descuento no puede preceder al '' @ u_i @ ''tem que descuenta.''"
| "refusal_message (NegativeQuantity item) = ''La cantidad de cada l'' @ u_i @ ''nea no puede ser negativa ('' @ [CHR 0xC3, CHR 0x8D] @ ''tem: '' @ apo @ item @ apo @ '').''"
| "refusal_message (NegativeDiscount item) = ''El monto de descuento por l'' @ u_i @ ''nea no puede ser negativo ('' @ [CHR 0xC3, CHR 0x8D] @ ''tem: '' @ apo @ item @ apo
     @ '').''"
| "refusal_message NoBillableLine = ''El comprobante no posee l'' @ u_i @ ''neas facturables con importe mayor a cero.''"
| "refusal_message NegativeTotals = ''Subtotal, ITBIS y MontoTotal no pueden ser negativos.''"
| "refusal_message (InvalidRncEmisor rnc) = ''Header.RncEmisor '' @ apo @ rnc @ apo @ '' es inv'' @ u_a @ ''lido. Debe tener exactamente 9 d'' @ u_i
     @ ''gitos (RNC) u 11 d'' @ u_i @ ''gitos (C'' @ u_e @ ''dula).''"
| "refusal_message (InvalidTipo tipo) = ''TipoComprobante '' @ apo @ tipo @ apo @ '' es inv'' @ u_a @ ''lido o no est'' @ u_a @ '' soportado. Valores v'' @ u_a
     @ ''lidos: E31, E32, E33, E34, E41, E43, E44, E45, E46, E47.''"
| "refusal_message (CorrectsEncfRequired tipo) = ''References.CorrectsENcf (NCFModificado) is required for TipoComprobante '' @ tipo @ ''.''"
| "refusal_message (CodigoModificacionRequired tipo) = ''References.CodigoModificacion is required for TipoComprobante '' @ tipo @ ''.''"
| "refusal_message (CodigoModificacionNotAllowed modif tipo) = ''References.CodigoModificacion ('' @ (case modif of Some n \<Rightarrow> dec_int n | None \<Rightarrow> ''null'')
     @ '') no es v'' @ u_a @ ''lido para TipoComprobante '' @ tipo @ '' (Regla DGII 613). Fuera de Notas de D'' @ u_e
     @ ''bito (E33) y Notas de Cr'' @ u_e
     @ ''dito (E34), InformacionReferencia solo admite CodigoModificacion = 4 (Reemplazo de comprobante emitido en contingencia).''"
| "refusal_message (RncCompradorRequired tipo) = ''Header.RncComprador es obligatorio para TipoComprobante '' @ tipo @ ''. El cliente no tiene RNC/c'' @ u_e
     @ ''dula registrado '' @ [CHR 0xE2, CHR 0x80, CHR 0x94] @ '' corr'' @ u_i @ ''gelo en el ERP, o em'' @ u_i
     @ ''telo como Factura de Consumo (E32), que no lo exige.''"
| "refusal_message (InvalidRncComprador rnc tipo) = ''Header.RncComprador '' @ apo @ rnc @ apo @ '' es inv'' @ u_a @ ''lido para '' @ tipo @ ''. Debe tener exactamente 9 d'' @ u_i
     @ ''gitos (RNC) u 11 d'' @ u_i @ ''gitos (C'' @ u_e @ ''dula).''"
| "refusal_message BuyerIdRequiredOver250000 = ''Header.RncComprador (o pasaporte/identificaci'' @ u_o
     @ ''n extranjera) es obligatorio para Factura de Consumo (E32) con MontoTotal '' @ [CHR 0xE2, CHR 0x89, CHR 0xA5]
     @ '' RD$250,000.00 (DGII Regla de Validaci'' @ u_o @ ''n tipo 32).''"
| "refusal_message (InvalidBuyerOver250000 rnc) = ''Header.RncComprador '' @ apo @ rnc @ apo @ '' es inv'' @ u_a @ ''lido para E32 '' @ [CHR 0xE2, CHR 0x89, CHR 0xA5]
     @ '' RD$250,000.00. Debe tener 9 d'' @ u_i @ ''gitos (RNC), 11 d'' @ u_i @ ''gitos (C'' @ u_e
     @ ''dula), o ser Identificador Extranjero.''"
| "refusal_message VendorRncRequired = ''Header.RncComprador is required for TipoComprobante E41 (the informal vendor'' @ apo @ ''s RNC/C'' @ u_e @ ''dula).''"
| "refusal_message (InvalidVendorRnc rnc) = ''Header.RncComprador '' @ apo @ rnc @ apo @ '' es inv'' @ u_a @ ''lido para E41. Debe tener 9 d'' @ u_i
     @ ''gitos (RNC) u 11 d'' @ u_i @ ''gitos (C'' @ u_e @ ''dula).''"
| "refusal_message (RetentionRequired tipo) = ''Retention is required for TipoComprobante '' @ tipo @ ''.''"
| "refusal_message (NoBucketForRate rate) = ''Tasa(s) de ITBIS sin bucket DGII: '' @ dec_int rate @ ''. Solo se admiten 18, 16, 0 (I1/I2/I3).''"
| "refusal_message ForeignTenant = ''Forbidden: Cannot submit document for another tenant.''"
| "refusal_message (UnknownEnvironment env) = ''Ambiente fiscal '' @ apo @ env @ apo @ '' desconocido o inv'' @ u_a @ ''lido. Valores v'' @ u_a
     @ ''lidos: PreCertificacion (o Test/TestEcf), Certificacion (o Cert/CertEcf), Produccion (o Prod).''"

definition refusal_status :: "submit_error \<Rightarrow> int" where
  "refusal_status e = (if e = ForeignTenant then 403 else 400)"

fun member_json :: "jval \<Rightarrow> json" where
  "member_json (JStr s) = StrJ s"
| "member_json (JNum x) = DblJ x"
| "member_json JNull = NullJ"
| "member_json (JStrs ss) = ArrJ (map StrJ ss)"
| "member_json (JBool b) = BoolJ b"

record post_env =
  pe_services :: services
  pe_print :: "json \<Rightarrow> string"
  pe_logicError :: string
  pe_sha :: "string \<Rightarrow> string"
  pe_rejected :: "string \<Rightarrow> bool"

definition json_http :: "post_env \<Rightarrow> (string \<times> json) list \<Rightarrow> int \<Rightarrow> http_response" where
  "json_http env members status = \<lparr> resp_status = status, resp_contentType = ''application/json; charset=utf-8'',
     resp_body = pe_print env (ObjJ members) \<rparr>"

fun outcome_response :: "post_env \<Rightarrow> submit_outcome \<Rightarrow> http_response" where
  "outcome_response env (Refused e) = json_http env [(''error'', StrJ (refusal_message e))] (refusal_status e)"
| "outcome_response env (Answered rep) = json_http env (map (\<lambda>(k, v). (k, member_json v)) (rp_json rep)) (rp_status rep)"

subsection \<open>\<open>submit\<close>\<close>

text \<open>\<open>ps_submit\<close> holds the attributes and headers; its body is read from \<open>ps_json\<close>.\<close>

record post_request =
  ps_time :: int
  ps_uuid :: string
  ps_method :: http_method
  ps_idempotencyKey :: string
  ps_body :: string
  ps_json :: "json option"
  ps_submit :: submit_request

definition submitted :: "post_env \<Rightarrow> post_request \<Rightarrow> submit_request" where
  "submitted env p = (ps_submit p) \<lparr> sr_body := parsed_body_of (pe_logicError env) (ps_json p) \<rparr>"

definition submit_act :: "post_env \<Rightarrow> post_request \<Rightarrow> world \<Rightarrow> (string + http_response) \<times> world" where
  "submit_act env p w = (case submit_action (pe_services env) (ps_time p) (ps_uuid p) (submitted env p) w of
       (Inl e, w1) \<Rightarrow> (Inl (exn_what e), w1)
     | (Inr outcome, w1) \<Rightarrow> (Inr (outcome_response env outcome), w1))"

definition submit_call :: "post_env \<Rightarrow> post_request \<Rightarrow> world idem_call" where
  "submit_call env p = \<lparr> ic_time = ps_time p, ic_method = ps_method p, ic_key = ps_idempotencyKey p,
     ic_tenant = request_tenant (ps_submit p), ic_worker = value_or (sr_workerKeyId (ps_submit p)) ''default-worker'',
     ic_body = ps_body p, ic_act = submit_act env p \<rparr>"

definition documents_submit :: "post_env \<Rightarrow> post_request \<Rightarrow> idem_table \<times> world \<Rightarrow> handler_reply \<times> idem_table \<times> world" where
  "documents_submit env p = serve (pe_rejected env) (pe_sha env) (submit_call env p)"

definition documents_submits :: "post_env \<Rightarrow> post_request list \<Rightarrow> idem_table \<times> world \<Rightarrow> idem_table \<times> world" where
  "documents_submits env ps st = fold (\<lambda>p st. snd (documents_submit env p st)) ps st"

subsection \<open>A request is at most one step\<close>

lemma served_act:
  "snd (snd (serve rejected sha c (tbl, w))) = w \<or> snd (snd (serve rejected sha c (tbl, w))) = snd (ic_act c w)"
  by (auto simp: serve_def handle_idempotent_def Let_def split: prod.splits Reservation.splits sum.splits)

lemma submit_act_world:
  "snd (submit_act env p w) = snd (submit_action (pe_services env) (ps_time p) (ps_uuid p) (submitted env p) w)"
  by (simp add: submit_act_def split: prod.splits sum.splits)

lemma post_is_step:
  "snd (snd (documents_submit env p (tbl, w))) = w \<or> service_step w (snd (snd (documents_submit env p (tbl, w))))"
proof -
  have "service_step w (snd (submit_action sv now uuid req w))" for sv now uuid req by (intro issuing snd_steps)
  then show ?thesis
    using served_act [of "pe_rejected env" "pe_sha env" "submit_call env p" tbl w]
    by (auto simp: documents_submit_def submit_call_def submit_act_world)
qed

lemma posts_are_steps: "service_step\<^sup>*\<^sup>* (snd st) (snd (documents_submits env ps st))"
proof (induction ps arbitrary: st)
  case (Cons p ps)
  obtain tbl w where st: "st = (tbl, w)" by force
  have "service_step\<^sup>*\<^sup>* w (snd (snd (documents_submit env p st)))"
    using post_is_step [of env p tbl w] by (auto simp: st)
  then show ?case
    using Cons.IH [of "snd (documents_submit env p st)"] by (auto simp: st documents_submits_def)
qed (simp add: documents_submits_def)

lemma accepted_post_inert:
  assumes "proper (w_docs w)" "d \<in> set (w_docs w)" "d_state d = ''AcceptedByDgii''"
    and "request_key (pe_services env) (submitted env p) = Some (source_key d)"
  shows "same_data w (snd (snd (documents_submit env p (tbl, w))))"
  using served_act [of "pe_rejected env" "pe_sha env" "submit_call env p" tbl w]
    accepted_submission_inert [OF assms, of "ps_time p" "ps_uuid p"]
  by (auto simp: documents_submit_def submit_call_def submit_act_world same_data_def)

subsection \<open>Properties\<close>

text \<open>C2. Once the DGII has accepted the document of a transaction, a client may post the transaction as often as it
  likes, under the same idempotency key, other keys or none, with any body that parses to it, at any time, whatever
  the idempotency table holds and while the database fails: no number is allocated, nothing is stored and
  nothing is transmitted.  Every such request is a run of the service.\<close>

theorem posts_of_accepted_transaction_are_inert:
  assumes "service_step\<^sup>*\<^sup>* w0 w" "w_docs w0 = []" "d \<in> set (w_docs w)" "d_state d = ''AcceptedByDgii''"
    and "list_all (\<lambda>p. request_key (pe_services env) (submitted env p) = Some (source_key d)) ps"
  shows "same_data w (snd (documents_submits env ps (tbl, w))) \<and> service_step\<^sup>*\<^sup>* w0 (snd (documents_submits env ps (tbl, w)))"
proof
  show "service_step\<^sup>*\<^sup>* w0 (snd (documents_submits env ps (tbl, w)))"
    using assms(1) posts_are_steps [of "(tbl, w)" env ps] by simp
  have inert: "same_data w (snd (documents_submits env ps (tbl, w)))"
    if "proper (w_docs w)" "d \<in> set (w_docs w)" "list_all (\<lambda>p. request_key (pe_services env) (submitted env p) = Some (source_key d)) ps"
    for w tbl using that
  proof (induction ps arbitrary: w tbl)
    case (Cons p ps)
    obtain r tbl1 w1 where s: "documents_submit env p (tbl, w) = (r, tbl1, w1)" by (cases "documents_submit env p (tbl, w)") auto
    have one: "same_data w w1"
      using accepted_post_inert [OF Cons.prems(1,2) assms(4), of env p tbl] Cons.prems(3) by (simp add: s)
    then have "same_data w1 (snd (documents_submits env ps (tbl1, w1)))"
      using Cons.IH [of w1 tbl1] Cons.prems by (simp add: same_data_def)
    from same_data_trans [OF one this] show ?case by (simp add: documents_submits_def s)
  qed (simp add: documents_submits_def same_data_def)
  show "same_data w (snd (documents_submits env ps (tbl, w)))"
    by (rule inert [OF reachable_proper [OF assms(1,2)] assms(3,5)])
qed

definition demo_post_env :: post_env where
  "demo_post_env = \<lparr> pe_services = demo_services False ''Aceptado'', pe_print = (\<lambda>j. []), pe_logicError = [],
     pe_sha = id, pe_rejected = (\<lambda>b. False) \<rparr>"

definition demo_post :: "string \<Rightarrow> post_request" where
  "demo_post key = \<lparr> ps_time = 1709300000, ps_uuid = ''u-7'', ps_method = Post, ps_idempotencyKey = key, ps_body = ''b'',
     ps_json = Some (document_to_json demo_invoice), ps_submit = demo_first \<lparr> sr_body := NoJson \<rparr> \<rparr>"

lemma demo_post_read: "submitted demo_post_env (demo_post key) = demo_first"
proof -
  have "ints_fit demo_invoice" by code_simp
  then have "canonicalDocumentFromJson (document_to_json demo_invoice)
      = Some (demo_invoice \<lparr> dto_tenantId := None, dto_environment := None, dto_certificate := None \<rparr>)"
    by (simp add: canonicalDocumentFromJson_def document_sections document_fallbacks document_options document_strings)
  then show ?thesis
    by (simp add: submitted_def demo_post_def demo_first_def parsed_body_of_def demo_invoice_def default_dto_def)
qed

theorem posts_of_accepted_transaction_are_inert_witness:
  "same_data (snd (demo_submit demo_stock))
     (snd (documents_submits demo_post_env [demo_post ''k1'', demo_post ''k2'', demo_post []] (Map.empty, snd (demo_submit demo_stock))))"
proof -
  obtain d where d: "d \<in> set (w_docs (snd (demo_submit demo_stock)))" "d_state d = ''AcceptedByDgii''"
    "source_key d = (''default-tenant'', ''T'', Some ''PreCertificacion'')"
    by (rule demo_accepted)
  have "request_key (pe_services demo_post_env) (submitted demo_post_env (demo_post k)) = Some (source_key d)" for k
    unfolding demo_post_read d(3) using demo_first_key by (simp add: demo_post_env_def)
  then have "list_all (\<lambda>p. request_key (pe_services demo_post_env) (submitted demo_post_env p) = Some (source_key d))
      [demo_post ''k1'', demo_post ''k2'', demo_post []]" by simp
  from posts_of_accepted_transaction_are_inert [OF demo_reachable d(1,2) this] show ?thesis by blast
qed

end
