(* ===== verification/Spec2Isabelle.thy ===== *)
theory Spec2Isabelle
  imports Idempotency Worker_Auth Documents_Lifecycle B2B_Receptor Cached_Client Tenant_Signer
    Schema_Validator Ecf_Endpoints Customers Auth_Users
    App_Config Ecf_Client Row_Mappers Issuing_Services Service_Main Submit_Endpoint
begin

text \<open>
  Verification library of the e-CF service, the C++ program under src/src/: it issues electronic fiscal
  receipts (e-CF) of the Dominican Republic for an accounting system and transmits them to the tax
  authority (DGII).  This text is the map of the library; each theory opens with its own.

  \<^bold>\<open>The program.\<close>  A submission (Api/Controllers/DocumentsController.cpp) passes the authentication
  filters and the idempotency handler, is read from JSON, checked, given a number of a sequence, turned into
  XML, signed with the certificate of its tenant, validated against its schema, stored, and only then sent;
  the answer of the DGII is stored again.  A resubmission of the same transaction is answered from the
  table, reissued, or, when its fate is unknown, reconciled with the DGII first.  A background poller asks
  for the verdict on pending documents.  Beside this path there are the commands under /api/ecf
  (EcfController.cpp, EcfHandlers.cpp), the endpoints other taxpayers call (EmisorReceptorController.cpp),
  customers, users and the configuration.

  \<^bold>\<open>Shared vocabulary.\<close>
  \<^item> \<open>Ecf_Prelude\<close>: bytes, character classes of the C locale, string functions, generic lemmas on lists,
    options and maps.
  \<^item> \<open>Binary64\<close>: \<open>double\<close> as a sign, a 53 bit significand and an exponent, with the rounding of the
    operations the code uses.  \<open>Ecf_Regex\<close>: \<open>std::regex_match\<close> by derivatives.
  \<^item> \<open>Sys_Time\<close> (Shared/Common/Sys.h): identifiers, calendar, UTC texts.  The random bytes and the clock are
    arguments; bytes are 8 bit words.
  \<^item> \<open>Json_Value\<close>: JSON values and the conversions of jsoncpp and nlohmann.
  \<^item> \<open>Xml_Text\<close>, \<open>Xml_Lines\<close>: the three escaping functions and streams of XML lines.  The locale
    \<open>xml_escaper\<close> is interpreted on each of the three.

  \<^bold>\<open>Issuing.\<close>
  \<^item> \<open>Canonical_Dto\<close>, \<open>Canonical_Fields\<close>, \<open>Canonical_Lines\<close>, \<open>Canonical_Context\<close>, \<open>Canonical_Totals\<close>,
    \<open>Canonical_Builder\<close>: CanonicalDocumentDto.h and CanonicalXmlBuilder.cpp, in the order of the code.  The
    lemmas show that the document is well nested and that no escaped field becomes markup.  \<open>Rfce_Builder\<close> is
    the summary of a small consumer invoice.
  \<^item> \<open>Json_Mapping\<close>: JsonMapping.cpp; round trip of the canonical document, and the typing of what is read
    (integers of 32 bits, finite numbers).
  \<^item> \<open>Ecf_Sequences\<close>: EcfSequenceManager.cpp and MemorySequenceProvider.cpp; the locale \<open>numbering\<close> is the
    contract of a source of numbers, interpreted on both.
  \<^item> \<open>Document_Store\<close>: EcfDocument.h, EcfDocumentRepository.cpp and the unit of work of DbContext.cpp with
    the unique indexes of DbInitializer.cpp; a statement is a value and \<open>saveChanges\<close> runs the queue or
    leaves the table as it was.  \<open>Row_Mappers\<close> refines the table of entities to rows of columns (RowMappers.h).
  \<^item> \<open>Documents_Transmit\<close>, \<open>Documents_Submit\<close>, \<open>Documents_Once\<close>, \<open>Documents_Query\<close>: every endpoint of
    DocumentsController.cpp.  The state is the record \<open>world\<close>: the tables, the outages of the database that
    are still to come, and the trace of commits and transmissions.
  \<^item> \<open>Status_Reconciler\<close>: EcfStatusReconciler.cpp.  \<open>Service_Main\<close>: the poller thread and the health report
    of main.cpp.
  \<^item> \<open>Documents_Lifecycle\<close>: one step relation over all of these and the commands of EcfHandlers.cpp.  Rule
    induction over its runs gives the properties that span components: accepted documents are never sent or
    changed again, numbers are unique, each transmission follows the commit that announces it.
  \<^item> \<open>Submit_Endpoint\<close>: POST /api/documents behind the idempotency handler, with every refusal and its text; a
    request is at most one step of the service, so the properties of its runs hold for HTTP clients.

  \<^bold>\<open>Signing and sending.\<close>
  \<^item> \<open>Xml_Signer\<close>, \<open>Tenant_Signer\<close>: EcfXmlSigner.cpp and TenantSignerResolver.cpp, which certificate may sign
    for whom, and where it comes from.
  \<^item> \<open>Schema_Validator\<close>: EcfSchemaValidator.cpp with its cache, shown equivalent to a validator without one.
  \<^item> \<open>Issuing_Services\<close>: EcfSecurityUtils.cpp, and the issuing path over the modelled signer and validator.
  \<^item> \<open>Cache_Service\<close>: RedisCacheService.cpp; the locale \<open>shared_cache\<close> (a keyed cache and a lock service) is
    interpreted on the cache without a server.  \<open>Token_Manager\<close>: EcfTokenManager.cpp over it.
  \<^item> \<open>Dgii_Transport\<close>, \<open>Ecf_Client\<close>, \<open>Cached_Client\<close>, \<open>Rfce_Model\<close>, \<open>Rfce_Client\<close>, \<open>Polling\<close>:
    DgiiDirectTransport.cpp, EcfClient.cpp and EcfFrontendClient.cpp, CachedEcfClient.cpp, EcfXmlSerializer.cpp,
    EcfValidator.cpp and PollingHelper.h.  \<open>Ecf_Client\<close> also holds AppServices.cpp.

  \<^bold>\<open>Requests.\<close>
  \<^item> \<open>Worker_Auth\<close>: the filters and the nonce cache.  \<open>Idempotency\<close>: DbIdempotencyStore.cpp and
    IdempotencyHandler.h; an operation of the store is what its transaction reads and what it then writes, so
    that two requests can interleave between the halves.  The locale \<open>idempotency_store\<close> is its contract.
  \<^item> \<open>Ecf_Handlers\<close>, \<open>Ecf_Endpoints\<close>, \<open>Request_Validators\<close>: the commands under /api/ecf, their endpoints and
    their validation.  \<open>B2B_Receptor\<close>: the endpoints for other taxpayers, as a step relation.
  \<^item> \<open>Customers\<close> (a refinement of a map from identifiers to customers), \<open>Auth_Users\<close>, \<open>App_Config\<close>.

  \<^bold>\<open>Correspondence.\<close>  A struct is a record with the members in the order of the source, an enumeration a
  datatype.  Exceptions are the left side of a sum or \<open>None\<close>; every \<open>catch\<close> is a case.  Objects shared between
  requests (the caches, the table, the certificates in memory) are explicit state.  An operation that may
  suspend or fail takes the answers of the environment as functions, so a theorem holds for every behaviour of
  the network, the database and the clock.

  \<^bold>\<open>Loops and bounds.\<close>  The recursion of every loop ends: over the characters of a string, the rows of a
  table, or a counter the code itself has.  The retry of a summary makes three attempts (\<open>maxRetries\<close> = 2 in
  EcfClient.cpp), a reply 401 is retried once, waiting for the token lock makes the twelve questions of the
  code, the polling helper at most \<open>maxRetries\<close>; no fuel is added to what the code counts.  The poller thread
  never ends, so its model takes the finite list of the durations of its passes, and the theorem holds for every
  such list.  Where an \<open>int\<close> of the code can wrap around its conversion is written out (\<open>int32\<close>); the remaining
  counters are integers whose range the code or a column bounds.

  \<^bold>\<open>What is an argument of the model.\<close>  libxml2 (parsing, XPath, schemas), OpenSSL and xmlsec (signatures,
  certificates, AES, HMAC, SHA-256), libsodium, jwt-cpp, the HTTP client, Redis, \<open>std::mktime\<close>, the clock and the
  random source.  PostgreSQL is modelled as far as the statements of the code use it: rows, unique indexes
  and all-or-nothing transactions.  A timestamp column is the text that was written to it.

  \<^bold>\<open>What is not modelled.\<close>
  \<^item> The XML-DSig template and the self-signed certificate of EcfXmlSigner.cpp: sequences of library calls whose
    effect is that of the libraries; their outcome is the field \<open>sp_sign\<close>.
  \<^item> PasswordHasher.cpp (two calls of libsodium) and the SQL text of DbInitializer.cpp, except its indexes.
  \<^item> The socket code that reads RESP replies, the OpenAPI, Scalar and Swagger pages, routing and threads of
    Drogon, logging, and the constructors that only receive ready made objects (used by tests).
  \<^item> Two requests run one after the other, except where the code coordinates them: the halves of the idempotency
    store, the unique indexes that stop the second of two submissions, and the locks of the cache.
\<close>

end
